(* ===== verification/Prelude.thy ===== *)
theory Prelude
  imports Complex_Main "HOL-Library.Word" "HOL-Library.AList"
begin

text \<open>
  What every component of the model shares: the Python values the code computes with
  (strings, bytes, clocks, insertion-ordered dictionaries), the HTTP errors its handlers
  raise, and the list lemmas the components reuse.

  A Python \<^verbatim>\<open>str\<close> is a HOL \<^typ>\<open>string\<close> whose characters are read as the code points
  0 to 255 (Latin-1); code points above 255 are outside the model. A Python
  \<^verbatim>\<open>bytes\<close> is a list of \<open>8 word\<close>. \<^verbatim>\<open>time.time()\<close> and
  \<^verbatim>\<open>time.monotonic()\<close> are real numbers of seconds handed to the operation that reads
  the clock; float rounding is not modelled. A Python \<^verbatim>\<open>dict\<close> whose order matters is
  an association list updated by \<^const>\<open>AList.update\<close> (a present key keeps its place, a
  new one goes to the end) and \<^const>\<open>AList.delete\<close>; one whose order never matters is a
  function into \<open>option\<close>.
\<close>

named_theorems str_simps \<open>definitions that evaluate string predicates\<close>
named_theorems db_simps \<open>definitions of the table operations\<close>
named_theorems invs \<open>an operation keeps an invariant\<close>

type_synonym byte = "8 word"
type_synonym bytes = "8 word list"

section \<open>Errors as values\<close>

text \<open>
  \<^verbatim>\<open>HTTPException(status_code, detail)\<close> of FastAPI, or the pair
  \<^verbatim>\<open>jsonify({"error": ...}), status\<close> a Flask handler returns.
\<close>

datatype http_error = HTTP nat string

type_synonym 'a http = "http_error + 'a"

definition http_code :: "'a http \<Rightarrow> nat" where
  "http_code r = (case r of Inl (HTTP c _) \<Rightarrow> c | Inr _ \<Rightarrow> 200)"

lemma http_code_simps [simp]:
  "http_code (Inl (HTTP c d)) = c" "http_code (Inr x) = 200"
  by (simp_all add: http_code_def)

text \<open>The exceptions of the Python core that callers distinguish.\<close>

datatype py_error =
    ValueError string
  | KeyError string
  | StructError
  | CryptoError
  | PermissionError
  | RuntimeError string

type_synonym 'a py = "py_error + 'a"

section \<open>Python strings\<close>

definition py_isspace :: "char \<Rightarrow> bool" where
  "py_isspace c = (let n = (of_char c :: nat) in
     (9 \<le> n \<and> n \<le> 13) \<or> (28 \<le> n \<and> n \<le> 32) \<or> n = 133 \<or> n = 160)"

definition py_lower_char :: "char \<Rightarrow> char" where
  "py_lower_char c = (let n = (of_char c :: nat) in
     if (65 \<le> n \<and> n \<le> 90) \<or> (192 \<le> n \<and> n \<le> 222 \<and> n \<noteq> 215) then char_of (n + 32) else c)"

definition py_lower :: "string \<Rightarrow> string" where
  "py_lower s = map py_lower_char s"

definition py_lstrip :: "string \<Rightarrow> string" where
  "py_lstrip s = dropWhile py_isspace s"

definition py_strip :: "string \<Rightarrow> string" where
  "py_strip s = rev (dropWhile py_isspace (rev (py_lstrip s)))"

definition py_startswith :: "string \<Rightarrow> string \<Rightarrow> bool" where
  "py_startswith s p = (take (length p) s = p)"

definition py_endswith :: "string \<Rightarrow> string \<Rightarrow> bool" where
  "py_endswith s p = (length p \<le> length s \<and> drop (length s - length p) s = p)"

text \<open>
  \<^verbatim>\<open>s.split(sep)\<close> for a one-character separator: never empty, the separators are dropped.
\<close>

fun py_split :: "char \<Rightarrow> string \<Rightarrow> string list" where
  "py_split sep [] = [[]]"
| "py_split sep (c # cs) =
     (if c = sep then [] # py_split sep cs
      else (case py_split sep cs of [] \<Rightarrow> [[c]] | w # ws \<Rightarrow> (c # w) # ws))"

text \<open>\<^verbatim>\<open>s.replace(old, new)\<close> for an \<open>old\<close> that is not empty.\<close>

fun py_replace :: "string \<Rightarrow> string \<Rightarrow> string \<Rightarrow> string" where
  "py_replace old new [] = []"
| "py_replace old new (c # cs) =
     (if py_startswith (c # cs) old then new @ py_replace old new (drop (length old - 1) cs)
      else c # py_replace old new cs)"

lemmas [str_simps] =
  py_isspace_def py_lower_char_def py_lower_def py_lstrip_def py_strip_def
  py_startswith_def py_endswith_def

lemma py_strip_Nil [simp]: "py_strip [] = []"
  by (simp add: py_strip_def py_lstrip_def)

lemma py_lower_Nil [simp]: "py_lower [] = []"
  by (simp add: py_lower_def)

lemma length_py_lower [simp]: "length (py_lower s) = length s"
  by (simp add: py_lower_def)

lemma dropWhile_hd: "dropWhile P xs = y # ys \<Longrightarrow> \<not> P y"
  by (induction xs) (auto split: if_splits)

lemma py_lstrip_idem: "dropWhile P (dropWhile P xs) = dropWhile P xs"
  by (induction xs) auto

text \<open>A string with no blank character is left alone by \<^verbatim>\<open>strip\<close>.\<close>

lemma dropWhile_none: "\<forall>x\<in>set xs. \<not> P x \<Longrightarrow> dropWhile P xs = xs"
  by (cases xs) auto

lemma py_strip_id: "list_all (\<lambda>c. \<not> py_isspace c) s \<Longrightarrow> py_strip s = s"
  by (simp add: py_strip_def py_lstrip_def list_all_iff dropWhile_none)

lemma set_dropWhile_subset: "set (dropWhile P xs) \<subseteq> set xs"
  by (induction xs) auto

lemma set_py_strip: "set (py_strip s) \<subseteq> set s"
proof -
  have "set (py_strip s) = set (dropWhile py_isspace (rev (py_lstrip s)))"
    by (simp add: py_strip_def)
  also have "\<dots> \<subseteq> set (rev (py_lstrip s))" by (rule set_dropWhile_subset)
  also have "\<dots> \<subseteq> set s" by (simp add: py_lstrip_def set_dropWhile_subset)
  finally show ?thesis .
qed

text \<open>Stripping twice is stripping once.\<close>

lemma strip_idem: "py_strip (py_strip s) = py_strip s"
proof -
  have front: "s \<noteq> [] \<Longrightarrow> \<not> py_isspace (hd s) \<Longrightarrow> dropWhile py_isspace s = s" for s by (cases s) auto
  have "\<not> py_isspace (hd (py_strip s))" "\<not> py_isspace (last (py_strip s))" if ne: "py_strip s \<noteq> []"
  proof -
    let ?l = "dropWhile py_isspace s"
    have s: "py_strip s = rev (dropWhile py_isspace (rev ?l))" by (simp add: py_strip_def py_lstrip_def)
    with ne have l: "dropWhile py_isspace (rev ?l) \<noteq> []" by auto
    then show "\<not> py_isspace (last (py_strip s))" using s by (metis hd_dropWhile last_rev)
    have "?l \<noteq> []" using l by (metis dropWhile.simps(1) rev.simps(1))
    then have "\<not> py_isspace (hd ?l)" by (rule hd_dropWhile)
    obtain ys where "rev ?l = ys @ dropWhile py_isspace (rev ?l)" by (metis takeWhile_dropWhile_id)
    then have "?l = py_strip s @ rev ys" using s by (metis rev_append rev_rev_ident)
    with ne \<open>\<not> py_isspace (hd ?l)\<close> show "\<not> py_isspace (hd (py_strip s))" by (metis hd_append2)
  qed
  then show ?thesis
    by (cases "py_strip s = []") (simp_all add: py_strip_def [of "py_strip s"] py_lstrip_def front hd_rev)
qed

section \<open>Regular expressions: the end anchor\<close>

text \<open>
  In Python's \<^verbatim>\<open>re\<close> without the multi-line flag, \<^verbatim>\<open>$\<close> matches at
  the end of the string and just before a newline that ends it. \<open>re_dollar p s\<close> reads
  \<^verbatim>\<open>re.match(r"^...$", s)\<close> for the pattern whose full matches are \<open>p\<close>.
\<close>

definition newline :: char where
  "newline = char_of (10::nat)"

definition re_dollar :: "(string \<Rightarrow> bool) \<Rightarrow> string \<Rightarrow> bool" where
  "re_dollar p s = (p s \<or> (s \<noteq> [] \<and> last s = newline \<and> p (butlast s)))"

lemma re_dollarI: "p s \<Longrightarrow> re_dollar p s"
  by (simp add: re_dollar_def)

lemma re_dollar_no_newline: "newline \<notin> set s \<Longrightarrow> re_dollar p s = p s"
  by (simp add: re_dollar_def) (metis last_in_set)

section \<open>Lists\<close>

text \<open>The queue of a sliding window: the stale time stamps at its left end are popped.\<close>

lemma dropWhile_sorted_filter:
  fixes q :: "real list"
  assumes "sorted q" and "\<And>t t'. P t \<Longrightarrow> t \<le> t' \<Longrightarrow> P t'"
  shows "dropWhile (\<lambda>t. \<not> P t) q = filter P q"
  using assms(1)
proof (induction q)
  case Nil
  then show ?case by simp
next
  case (Cons t q)
  then have "\<forall>t'\<in>set q. t \<le> t'" and "sorted q" by auto
  show ?case
  proof (cases "P t")
    case True
    then have "\<forall>t'\<in>set q. P t'" using \<open>\<forall>t'\<in>set q. t \<le> t'\<close> assms(2) by blast
    then have "filter P q = q" by (simp add: filter_id_conv)
    with True show ?thesis by simp
  next
    case False
    with Cons.IH \<open>sorted q\<close> show ?thesis by simp
  qed
qed

lemma sorted_snoc_le:
  fixes q :: "real list"
  shows "sorted q \<Longrightarrow> \<forall>t\<in>set q. t \<le> now \<Longrightarrow> sorted (q @ [now])"
  by (simp add: sorted_append)

text \<open>The last \<open>n\<close> elements, Python's \<^verbatim>\<open>xs[-n:]\<close> for a positive \<open>n\<close>.\<close>

definition take_last :: "nat \<Rightarrow> 'a list \<Rightarrow> 'a list" where
  "take_last n xs = drop (length xs - n) xs"

lemma length_take_last [simp]: "length (take_last n xs) = min n (length xs)"
  by (auto simp: take_last_def)

lemma take_last_all: "length xs \<le> n \<Longrightarrow> take_last n xs = xs"
  by (simp add: take_last_def)

lemma take_last_snoc: "0 < n \<Longrightarrow> take_last n (take_last n xs @ [x]) = take_last n (xs @ [x])"
  by (cases "n \<le> length xs") (auto simp: take_last_def Suc_diff_le)

text \<open>A stable sort keeps its last element when a smaller one is appended.\<close>

lemma last_insort:
  "sorted (map f ys) \<Longrightarrow> ys \<noteq> [] \<Longrightarrow>
   last (insort_key f x ys) = (if f (last ys) < f x then x else last ys)"
proof (induction ys)
  case (Cons y ys)
  then show ?case
    by (cases ys) (auto simp: not_le dest: le_less_trans)
qed simp

lemma last_sort_max: "x \<in> set xs \<Longrightarrow> f x \<le> f (last (sort_key f xs))"
proof -
  assume x: "x \<in> set xs"
  then have "sort_key f xs \<noteq> []" by (metis set_sort set_empty empty_iff)
  then have "map f (sort_key f xs) = map f (butlast (sort_key f xs)) @ [f (last (sort_key f xs))]"
    by (metis append_butlast_last_id list.simps(8,9) map_append)
  with sorted_sort_key [of f xs] have "\<forall>v\<in>set (map f (butlast (sort_key f xs))). v \<le> f (last (sort_key f xs))"
    by (metis sorted_append list.set_intros(1))
  moreover have "x \<in> set (butlast (sort_key f xs)) \<or> x = last (sort_key f xs)"
    using x \<open>sort_key f xs \<noteq> []\<close> by (metis append_butlast_last_id set_sort Un_iff set_append empty_iff list.set(1) set_ConsD)
  ultimately show ?thesis by auto
qed

lemma last_sort_snoc:
  "xs \<noteq> [] \<Longrightarrow> f y < f (last (sort_key f xs)) \<Longrightarrow> last (sort_key f (xs @ [y])) = last (sort_key f xs)"
proof (induction xs)
  case (Cons x xs)
  show ?case
  proof (cases "xs = []")
    case True
    with Cons.prems show ?thesis by (auto dest: leD)
  next
    case False
    let ?l = "last (sort_key f xs)" and ?m = "last (sort_key f (xs @ [y]))"
    have ne: "sort_key f xs \<noteq> []" "sort_key f (xs @ [y]) \<noteq> []"
      using False by (metis set_sort set_empty, metis set_sort set_empty append_is_Nil_conv list.distinct(1))
    note li = last_insort [OF sorted_sort_key ne(1), of x] last_insort [OF sorted_sort_key ne(2), of x]
    show ?thesis
    proof (cases "f y < f ?l")
      case True
      with Cons.IH [OF False] li show ?thesis by simp
    next
      case nl: False
      have "?m \<in> set xs \<union> {y}" using last_in_set [OF ne(2)] by simp
      then have "f ?m \<le> f y" using last_sort_max [of ?m xs f] nl by auto
      with Cons.prems(2) li nl show ?thesis by (auto split: if_splits)
    qed
  qed
qed simp

lemma find_SomeD: "List.find P xs = Some x \<Longrightarrow> x \<in> set xs \<and> P x"
  by (auto simp: find_Some_iff)

text \<open>Rows of a table that satisfy a condition, updated in place (\<^verbatim>\<open>UPDATE ... WHERE\<close>).\<close>

definition update_where :: "('r \<Rightarrow> bool) \<Rightarrow> ('r \<Rightarrow> 'r) \<Rightarrow> 'r list \<Rightarrow> 'r list" where
  "update_where p f rows = map (\<lambda>r. if p r then f r else r) rows"

lemma length_update_where [simp]: "length (update_where p f rows) = length rows"
  by (simp add: update_where_def)

lemma map_update_where_same:
  "(\<And>r. p r \<Longrightarrow> g (f r) = g r) \<Longrightarrow> map g (update_where p f rows) = map g rows"
  by (auto simp: update_where_def)

lemma set_update_where: "set (update_where p f rows) = f ` {r \<in> set rows. p r} \<union> {r \<in> set rows. \<not> p r}"
  by (auto simp: update_where_def)

lemma update_where_unmatched: "\<forall>r\<in>set rows. \<not> p r \<Longrightarrow> update_where p f rows = rows"
  by (simp add: update_where_def map_idI)

lemma distinct_map_filter_key: "distinct (map g rows) \<Longrightarrow> distinct (map g (filter p rows))"
  by (simp add: distinct_map_filter)

end
