(* ===== verification/Limiters.thy ===== *)
theory Limiters
  imports Prelude
begin

text \<open>
  The interfaces of the rate limiters. Five classes of the program keep time stamps in a
  sliding window: the relay's \<^verbatim>\<open>is_rate_limited\<close>, the ASGI \<^verbatim>\<open>RateLimiterMiddleware\<close> and
  \<^verbatim>\<open>_P2PUploadRateLimiter\<close> refuse a request when the window is full;
  \<^verbatim>\<open>_LoginRateLimiter\<close> and \<^verbatim>\<open>_PairingRateLimiter\<close> lock a client out after too many failures.
  The locales state what the two families promise and prove their consequences once; the
  theory of each component interprets them on its own model.
\<close>

section \<open>Serving a sequence of requests\<close>

text \<open>
  \<open>serve admit ts q\<close> lists the times, out of the request times \<open>ts\<close>, at which a limiter that
  starts with the queue \<open>q\<close> lets the request through.
\<close>

fun serve :: "(real \<Rightarrow> 'q \<Rightarrow> bool \<times> 'q) \<Rightarrow> real list \<Rightarrow> 'q \<Rightarrow> real list" where
  "serve admit [] q = []"
| "serve admit (t # ts) q =
     (let (ok, q') = admit t q in if ok then t # serve admit ts q' else serve admit ts q')"

lemma set_serve_subset: "set (serve admit ts q) \<subseteq> set ts"
  by (induction ts arbitrary: q) (auto simp: Let_def split: prod.splits)

section \<open>Which time stamps are still in the window\<close>

locale fresh_window =
  fixes fresh :: "real \<Rightarrow> real \<Rightarrow> bool"
  assumes fresh_later: "fresh now t \<Longrightarrow> t \<le> t' \<Longrightarrow> fresh now t'"
    and fresh_ages: "fresh now' t \<Longrightarrow> now \<le> now' \<Longrightarrow> fresh now t"
begin

text \<open>On a sorted queue, popping stale stamps from the left keeps exactly the fresh ones.\<close>

lemma popleft_is_filter: "sorted q \<Longrightarrow> dropWhile (\<lambda>t. \<not> fresh now t) q = filter (fresh now) q"
  by (rule dropWhile_sorted_filter) (auto intro: fresh_later)

lemma filter_fresh_again:
  "now \<le> now' \<Longrightarrow> filter (\<lambda>t. fresh now t \<and> fresh now' t) q = filter (fresh now') q"
  by (rule filter_cong) (auto intro: fresh_ages)

end

section \<open>A limiter that refuses when the window is full\<close>

locale window_limiter = fresh_window fresh for fresh :: "real \<Rightarrow> real \<Rightarrow> bool" +
  fixes stamps :: "'q \<Rightarrow> real list"
    and admit :: "real \<Rightarrow> 'q \<Rightarrow> bool \<times> 'q"
    and limit :: nat
  assumes admit_iff:
      "sorted (stamps q) \<Longrightarrow> fst (admit now q) = (length (filter (fresh now) (stamps q)) < limit)"
    and admit_yes:
      "sorted (stamps q) \<Longrightarrow> fst (admit now q) \<Longrightarrow>
       stamps (snd (admit now q)) = filter (fresh now) (stamps q) @ [now]"
    and admit_no:
      "sorted (stamps q) \<Longrightarrow> \<not> fst (admit now q) \<Longrightarrow>
       stamps (snd (admit now q)) = stamps q \<or>
       stamps (snd (admit now q)) = filter (fresh now) (stamps q)"
begin

definition covers :: "real \<Rightarrow> real list \<Rightarrow> 'q \<Rightarrow> bool" where
  "covers now acc q \<longleftrightarrow> sorted (stamps q) \<and> (\<forall>t\<in>set (stamps q). t \<le> now) \<and>
     (\<forall>now'\<ge>now. filter (fresh now') (stamps q) = filter (fresh now') acc) \<and>
     (\<forall>x. length (filter (\<lambda>t. t \<le> x \<and> fresh x t) acc) \<le> limit)"

lemma filter_sub_length:
  "(\<And>t. P t \<Longrightarrow> Q t) \<Longrightarrow> length (filter P xs) \<le> length (filter Q xs)"
  by (induction xs) auto

lemma covers_no:
  assumes "covers now acc q" "now \<le> t" "\<not> fst (admit t q)"
  shows "covers t acc (snd (admit t q))"
proof -
  have s: "sorted (stamps q)" and le: "\<forall>u\<in>set (stamps q). u \<le> t"
    and f: "\<forall>now'\<ge>t. filter (fresh now') (stamps q) = filter (fresh now') acc"
    and b: "\<forall>x. length (filter (\<lambda>t. t \<le> x \<and> fresh x t) acc) \<le> limit"
    using assms(1,2) by (auto simp: covers_def)
  have sf: "sorted (filter (fresh t) (stamps q))" using s by (rule sorted_wrt_filter)
  from admit_no [OF s assms(3)] show ?thesis
  proof
    assume "stamps (snd (admit t q)) = stamps q"
    with s le f b show ?thesis by (simp add: covers_def)
  next
    assume "stamps (snd (admit t q)) = filter (fresh t) (stamps q)"
    moreover have "\<forall>u\<in>set (filter (fresh t) (stamps q)). u \<le> t" using le by simp
    ultimately show ?thesis
      using sf b by (simp add: covers_def filter_fresh_again f)
  qed
qed

lemma covers_yes:
  assumes c: "covers now acc q" and t: "now \<le> t" and ok: "fst (admit t q)"
  shows "covers t (acc @ [t]) (snd (admit t q))"
proof -
  have s: "sorted (stamps q)" and le: "\<forall>u\<in>set (stamps q). u \<le> t"
    and f: "filter (fresh t) (stamps q) = filter (fresh t) acc"
    using c t by (auto simp: covers_def)
  have st: "stamps (snd (admit t q)) = filter (fresh t) (stamps q) @ [t]"
    by (rule admit_yes [OF s ok])
  have less: "length (filter (fresh t) acc) < limit"
    using ok admit_iff [OF s, of t] f by simp
  have bound: "length (filter (\<lambda>u. u \<le> x \<and> fresh x u) (acc @ [t])) \<le> limit" for x
  proof (cases "t \<le> x")
    case True
    then have "length (filter (\<lambda>u. u \<le> x \<and> fresh x u) acc) \<le> length (filter (fresh t) acc)"
      by (intro filter_sub_length) (auto intro: fresh_ages)
    with less show ?thesis by simp
  next
    case False
    with c show ?thesis by (simp add: covers_def)
  qed
  have same: "filter (fresh now') (stamps (snd (admit t q))) = filter (fresh now') (acc @ [t])"
    if "t \<le> now'" for now'
    using that c t by (simp add: st filter_fresh_again covers_def)
  show ?thesis
    unfolding covers_def
    using s le bound same by (auto simp: st sorted_append sorted_wrt_filter)
qed

text \<open>In no window are more than \<open>limit\<close> requests let through.\<close>

lemma serve_bound_aux:
  assumes "covers now acc q" "sorted (now # ts)"
  shows "length (filter (\<lambda>t. t \<le> x \<and> fresh x t) (acc @ serve admit ts q)) \<le> limit"
  using assms
proof (induction ts arbitrary: now acc q)
  case Nil
  then show ?case by (simp add: covers_def)
next
  case (Cons t ts)
  obtain ok q' where a: "admit t q = (ok, q')" by (cases "admit t q") auto
  from Cons.prems have le: "now \<le> t" and st: "sorted (t # ts)" by auto
  show ?case
  proof (cases ok)
    case True
    then have "covers t (acc @ [t]) q'" using covers_yes [OF Cons.prems(1) le] a by simp
    from Cons.IH [OF this st] show ?thesis using True a by simp
  next
    case False
    then have "covers t acc q'" using covers_no [OF Cons.prems(1) le] a by simp
    from Cons.IH [OF this st] show ?thesis using False a by simp
  qed
qed

lemma serve_bound:
  assumes "stamps q = []" "sorted ts"
  shows "length (filter (\<lambda>t. t \<le> x \<and> fresh x t) (serve admit ts q)) \<le> limit"
proof (cases ts)
  case Nil
  then show ?thesis by simp
next
  case (Cons t ts')
  have "covers t [] q" using assms(1) by (simp add: covers_def)
  from serve_bound_aux [OF this, of ts x] show ?thesis using assms(2) Cons by simp
qed

text \<open>A request is refused only when the window really is full.\<close>

lemma refused_is_full:
  "sorted (stamps q) \<Longrightarrow> \<not> fst (admit now q) \<Longrightarrow> limit \<le> length (filter (fresh now) (stamps q))"
  by (simp add: admit_iff)

end

section \<open>A limiter that locks out after too many failures\<close>

locale failure_lock = fresh_window fresh for fresh :: "real \<Rightarrow> real \<Rightarrow> bool" +
  fixes failures :: "'s \<Rightarrow> real list"
    and until :: "'s \<Rightarrow> real"
    and fail :: "real \<Rightarrow> 's \<Rightarrow> 's"
    and max_failures :: nat
    and cooldown :: real
  assumes fail_failures:
      "sorted (failures s) \<Longrightarrow> \<forall>t\<in>set (failures s). t \<le> now \<Longrightarrow>
       failures (fail now s) = filter (fresh now) (failures s @ [now])"
    and fail_until:
      "sorted (failures s) \<Longrightarrow> \<forall>t\<in>set (failures s). t \<le> now \<Longrightarrow>
       until (fail now s) =
         (if max_failures \<le> length (failures (fail now s)) then now + cooldown else until s)"
begin

lemma fail_sorted:
  assumes "sorted (failures s)" "\<forall>t\<in>set (failures s). t \<le> now"
  shows "sorted (failures (fail now s)) \<and> (\<forall>t\<in>set (failures (fail now s)). t \<le> now)"
proof -
  have "sorted (failures s @ [now])" using assms by (auto simp: sorted_append)
  from sorted_wrt_filter [of "(\<le>)" "failures s @ [now]" "fresh now"] this
  have "sorted (filter (fresh now) (failures s @ [now]))" by simp
  with assms show ?thesis by (auto simp: fail_failures)
qed

lemma fold_fail_failures:
  assumes "sorted (failures s)" "sorted ts" "ts \<noteq> []"
    and "\<forall>t\<in>set (failures s). \<forall>u\<in>set ts. t \<le> u"
  shows "failures (fold fail ts s) = filter (fresh (last ts)) (failures s @ ts) \<and>
         sorted (failures (fold fail ts s)) \<and>
         (\<forall>t\<in>set (failures (fold fail ts s)). t \<le> last ts)"
  using assms(2-4)
proof (induction ts rule: rev_induct)
  case Nil
  then show ?case by simp
next
  case (snoc t ts)
  let ?s = "fold fail ts s"
  have base: "sorted (failures ?s) \<and> (\<forall>u\<in>set (failures ?s). u \<le> t) \<and>
              filter (fresh t) (failures ?s) = filter (fresh t) (failures s @ ts)"
  proof (cases "ts = []")
    case True
    with snoc.prems assms(1) show ?thesis by simp
  next
    case False
    then have "last ts \<le> t" using snoc.prems(1) by (auto simp: sorted_append)
    have "failures ?s = filter (fresh (last ts)) (failures s @ ts) \<and> sorted (failures ?s) \<and>
          (\<forall>u\<in>set (failures ?s). u \<le> last ts)"
      using snoc False by (auto simp: sorted_append)
    then have "failures ?s = filter (fresh (last ts)) (failures s @ ts)" "sorted (failures ?s)"
      and le: "\<forall>u\<in>set (failures ?s). u \<le> last ts" by blast+
    moreover have "\<forall>u\<in>set (failures ?s). u \<le> t" using le \<open>last ts \<le> t\<close> by force
    ultimately show ?thesis
      using \<open>last ts \<le> t\<close> by (simp add: filter_fresh_again)
  qed
  then have "failures (fail t ?s) = filter (fresh t) (failures ?s @ [t])"
    by (intro fail_failures) auto
  with base fail_sorted [of ?s t] show ?case by simp
qed

text \<open>
  \<open>max_failures\<close> failures, all still in the window at the time of the last one, lock the
  client out for the whole cool-down.
\<close>

lemma burst_locks:
  assumes "sorted (failures s)" "sorted ts" "ts \<noteq> []"
    and "\<forall>t\<in>set (failures s). \<forall>u\<in>set ts. t \<le> u"
    and "\<forall>t\<in>set ts. fresh (last ts) t" "max_failures \<le> length ts"
  shows "until (fold fail ts s) = last ts + cooldown"
proof -
  obtain us u where ts: "ts = us @ [u]" using assms(3) by (cases ts rule: rev_cases) auto
  have pre: "sorted (failures (fold fail us s)) \<and> (\<forall>t\<in>set (failures (fold fail us s)). t \<le> u)"
  proof (cases "us = []")
    case True
    with assms(1,4) ts show ?thesis by simp
  next
    case False
    then have "last us \<le> u" using assms(2) ts by (auto simp: sorted_append)
    with fold_fail_failures [OF assms(1), of us] False assms(2,4) ts show ?thesis
      by (fastforce simp: sorted_append)
  qed
  have "failures (fold fail ts s) = filter (fresh u) (failures s @ ts)"
    using fold_fail_failures [OF assms(1-4)] ts by simp
  then have "max_failures \<le> length (failures (fail u (fold fail us s)))"
    using assms(5,6) ts by simp
  with pre show ?thesis by (simp add: ts fail_until)
qed

text \<open>Fewer fresh failures than \<open>max_failures\<close> leave the lock as it was.\<close>

lemma few_failures_no_lock:
  assumes "sorted (failures s)" "\<forall>t\<in>set (failures s). t \<le> now"
    and "length (filter (fresh now) (failures s)) + 1 < max_failures"
  shows "until (fail now s) = until s"
proof -
  have "length (failures (fail now s)) < max_failures"
    using assms by (simp add: fail_failures)
  with assms(1,2) show ?thesis by (simp add: fail_until)
qed

text \<open>A run of fewer than \<open>max_failures\<close> failures never locks.\<close>

lemma few_in_a_row:
  assumes "failures s = []" "sorted ts" "length ts < max_failures"
  shows "until (fold fail ts s) = until s"
  using assms(2,3)
proof (induction ts rule: rev_induct)
  case (snoc t ts)
  show ?case
  proof (cases "ts = []")
    case True
    with snoc.prems assms(1) show ?thesis by (simp add: few_failures_no_lock)
  next
    case False
    have le: "last ts \<le> t" using snoc.prems(1) False by (simp add: sorted_append)
    have f: "failures (fold fail ts s) = filter (fresh (last ts)) ts" "sorted (failures (fold fail ts s))"
      "\<forall>u\<in>set (failures (fold fail ts s)). u \<le> last ts"
      using fold_fail_failures [of s ts] False snoc.prems(1) assms(1) by (auto simp: sorted_append)
    have "length (filter (fresh t) (failures (fold fail ts s))) \<le> length ts"
      unfolding f(1) by (metis length_filter_le le_trans)
    then have "until (fail t (fold fail ts s)) = until (fold fail ts s)"
      using f(2,3) le snoc.prems(2) by (intro few_failures_no_lock) force+
    then show ?thesis using snoc by (simp add: sorted_append)
  qed
qed simp

end

end
