(* ===== verification/Json.thy ===== *)
theory Json
  imports Prelude
begin

text \<open>
  Python's \<^verbatim>\<open>json\<close> module as far as the program uses it: the values, the accessors
  \<^verbatim>\<open>d.get(k, default)\<close> and \<^verbatim>\<open>bool(v)\<close>, and \<^verbatim>\<open>json.loads\<close> on the text a peer
  sends. A number with a fraction or an exponent keeps its text; a \<^verbatim>\<open>\uXXXX\<close> escape is
  read when it names a code point of the model (0 to 255) and is an error otherwise.
\<close>

datatype json =
    JNull
  | JBool bool
  | JInt int
  | JFloat string
  | JStr string
  | JList "json list"
  | JObj "(string \<times> json) list"

definition json_get :: "json \<Rightarrow> string \<Rightarrow> json option" where
  "json_get j k = (case j of JObj kvs \<Rightarrow> map_of kvs k | _ \<Rightarrow> None)"

text \<open>The truth value of a parsed value (a float is false only when all its digits are 0).\<close>

definition json_truthy :: "json \<Rightarrow> bool" where
  "json_truthy j = (case j of
      JNull \<Rightarrow> False
    | JBool b \<Rightarrow> b
    | JInt i \<Rightarrow> i \<noteq> 0
    | JFloat s \<Rightarrow> list_ex (\<lambda>c. c \<in> set ''123456789NI'')
                      (takeWhile (\<lambda>c. c \<noteq> CHR ''e'' \<and> c \<noteq> CHR ''E'') s)
    | JStr s \<Rightarrow> s \<noteq> []
    | JList xs \<Rightarrow> xs \<noteq> []
    | JObj kvs \<Rightarrow> kvs \<noteq> [])"

section \<open>Characters\<close>

definition code :: "char \<Rightarrow> nat" where
  "code c = of_char c"

definition is_digit :: "char \<Rightarrow> bool" where
  "is_digit c = (48 \<le> code c \<and> code c \<le> 57)"

definition json_space :: "char \<Rightarrow> bool" where
  "json_space c = (code c \<in> {32, 9, 10, 13})"

definition hex_val :: "char \<Rightarrow> nat option" where
  "hex_val c = (let n = code c in
     if 48 \<le> n \<and> n \<le> 57 then Some (n - 48)
     else if 97 \<le> n \<and> n \<le> 102 then Some (n - 87)
     else if 65 \<le> n \<and> n \<le> 70 then Some (n - 55) else None)"

fun digits_val :: "nat \<Rightarrow> string \<Rightarrow> nat" where
  "digits_val a [] = a"
| "digits_val a (c # cs) = digits_val (10 * a + (code c - 48)) cs"

section \<open>The parser\<close>

definition skip_space :: "string \<Rightarrow> string" where
  "skip_space s = dropWhile json_space s"

text \<open>The body of a string literal, after its opening quote.\<close>

fun parse_str :: "string \<Rightarrow> (string \<times> string) option" where
  "parse_str [] = None"
| "parse_str (c # cs) =
     (if code c = 34 then Some ([], cs)
      else if code c = 92 then
        (case cs of
           [] \<Rightarrow> None
         | e # rest \<Rightarrow>
             if code e = 117 then
               (case rest of
                  a # b # d # f # rest' \<Rightarrow>
                    (case (hex_val a, hex_val b, hex_val d, hex_val f) of
                       (Some 0, Some 0, Some x, Some y) \<Rightarrow>
                         map_option (map_prod ((#) (char_of (16 * x + y))) id) (parse_str rest')
                     | _ \<Rightarrow> None)
                | _ \<Rightarrow> None)
             else
               (case map_of [(34::nat, 34::nat), (92, 92), (47, 47), (98, 8), (102, 12),
                             (110, 10), (114, 13), (116, 9)] (code e) of
                  None \<Rightarrow> None
                | Some v \<Rightarrow> map_option (map_prod ((#) (char_of v)) id) (parse_str rest)))
      else if code c < 32 then None
      else map_option (map_prod ((#) c) id) (parse_str cs))"

text \<open>A number: \<^verbatim>\<open>-?(0|[1-9]\d*)(\.\d+)?([eE][-+]?\d+)?\<close>.\<close>

definition num_digits :: "string \<Rightarrow> string" where
  "num_digits s = (case s of c # _ \<Rightarrow> if code c = 48 then [c] else takeWhile is_digit s | [] \<Rightarrow> [])"

definition num_frac :: "string \<Rightarrow> string" where
  "num_frac s = (case s of
      c # cs \<Rightarrow> if code c = 46 \<and> takeWhile is_digit cs \<noteq> [] then c # takeWhile is_digit cs else []
    | [] \<Rightarrow> [])"

definition num_exp :: "string \<Rightarrow> string" where
  "num_exp s = (case s of
      c # cs \<Rightarrow>
        if code c \<in> {101, 69} then
          (let sg = (case cs of d # _ \<Rightarrow> if code d \<in> {43, 45} then [d] else [] | [] \<Rightarrow> []);
               es = takeWhile is_digit (drop (length sg) cs)
           in if es = [] then [] else c # sg @ es)
        else []
    | [] \<Rightarrow> [])"

definition parse_abs :: "bool \<Rightarrow> string \<Rightarrow> (json \<times> string) option" where
  "parse_abs neg s =
    (let ds = num_digits s;
         s2 = drop (length ds) s;
         fr = num_frac s2;
         s3 = drop (length fr) s2;
         ex = num_exp s3;
         s4 = drop (length ex) s3
     in if ds = [] then None
        else if fr = [] \<and> ex = [] then
          Some (JInt (if neg then - int (digits_val 0 ds) else int (digits_val 0 ds)), s4)
        else Some (JFloat ((if neg then [CHR ''-''] else []) @ ds @ fr @ ex), s4))"

definition parse_num :: "string \<Rightarrow> (json \<times> string) option" where
  "parse_num s = (case s of
      c # cs \<Rightarrow> if code c = 45 then parse_abs True cs else parse_abs False s
    | [] \<Rightarrow> None)"

text \<open>
  The recursive descent, with as much fuel as the text has characters plus one: every level of
  nesting and every further element consumes at least one character.
\<close>

fun parse_val :: "nat \<Rightarrow> string \<Rightarrow> (json \<times> string) option"
and parse_elems :: "nat \<Rightarrow> string \<Rightarrow> (json list \<times> string) option"
and parse_members :: "nat \<Rightarrow> (string \<times> json) list \<Rightarrow> string \<Rightarrow> ((string \<times> json) list \<times> string) option"
where
  "parse_val 0 s = None"
| "parse_val (Suc n) s =
     (case s of
        [] \<Rightarrow> None
      | c # cs \<Rightarrow>
          if code c = 34 then map_option (map_prod JStr id) (parse_str cs)
          else if code c = 123 then
            (case skip_space cs of
               d # ds \<Rightarrow> if code d = 125 then Some (JObj [], ds)
                         else map_option (map_prod JObj id) (parse_members n [] (d # ds))
             | [] \<Rightarrow> None)
          else if code c = 91 then
            (case skip_space cs of
               d # ds \<Rightarrow> if code d = 93 then Some (JList [], ds)
                         else map_option (map_prod JList id) (parse_elems n (d # ds))
             | [] \<Rightarrow> None)
          else if py_startswith s ''null'' then Some (JNull, drop 4 s)
          else if py_startswith s ''true'' then Some (JBool True, drop 4 s)
          else if py_startswith s ''false'' then Some (JBool False, drop 5 s)
          else if py_startswith s ''NaN'' then Some (JFloat ''NaN'', drop 3 s)
          else if py_startswith s ''Infinity'' then Some (JFloat ''Infinity'', drop 8 s)
          else if py_startswith s ''-Infinity'' then Some (JFloat ''-Infinity'', drop 9 s)
          else parse_num s)"
| "parse_elems 0 s = None"
| "parse_elems (Suc n) s =
     (case parse_val n s of
        None \<Rightarrow> None
      | Some (v, rest) \<Rightarrow>
          (case skip_space rest of
             c # cs \<Rightarrow> if code c = 93 then Some ([v], cs)
                       else if code c = 44 then
                         map_option (map_prod ((#) v) id) (parse_elems n (skip_space cs))
                       else None
           | [] \<Rightarrow> None))"
| "parse_members 0 acc s = None"
| "parse_members (Suc n) acc s =
     (case s of
        [] \<Rightarrow> None
      | q # qs \<Rightarrow>
          if code q \<noteq> 34 then None
          else (case parse_str qs of
                  None \<Rightarrow> None
                | Some (k, rest) \<Rightarrow>
                    (case skip_space rest of
                       c # cs \<Rightarrow>
                         if code c \<noteq> 58 then None
                         else (case parse_val n (skip_space cs) of
                                 None \<Rightarrow> None
                               | Some (v, rest') \<Rightarrow>
                                   (case skip_space rest' of
                                      d # ds \<Rightarrow>
                                        if code d = 125 then Some (AList.update k v acc, ds)
                                        else if code d = 44 then
                                          parse_members n (AList.update k v acc) (skip_space ds)
                                        else None
                                    | [] \<Rightarrow> None))
                     | [] \<Rightarrow> None)))"

definition json_loads :: "string \<Rightarrow> json option" where
  "json_loads s =
     (case parse_val (2 * length s + 1) (skip_space s) of
        Some (v, rest) \<Rightarrow> if skip_space rest = [] then Some v else None
      | None \<Rightarrow> None)"

end
