(* ===== verification/Relay_Server.thy ===== *)
theory Relay_Server
  imports Limiters Json
begin

text \<open>
  The blind relay, \<^verbatim>\<open>transports/relay/server.py\<close>: queues named by UUIDs, the sockets
  that may push to them, the store-and-forward buffer for recipients that are offline, the
  per-socket rate limiter, the chunk store of file transfers and the log redaction filter.

  One \<open>relay\<close> record is the module's dictionaries (\<^verbatim>\<open>queue_owners\<close>,
  \<^verbatim>\<open>queue_creators\<close>, \<^verbatim>\<open>offline_queue\<close>, \<^verbatim>\<open>socket_rate_limits\<close>,
  \<^verbatim>\<open>socket_connect_times\<close>, \<^verbatim>\<open>relay_file_chunks\<close>) of a relay started without
  \<^verbatim>\<open>REDIS_URL\<close>, so \<^verbatim>\<open>r_client\<close> is \<^verbatim>\<open>None\<close> and every operation takes the
  in-memory branch. What a handler sends or asks of Socket.IO (\<^verbatim>\<open>emit\<close>,
  \<^verbatim>\<open>join_room\<close>) is the list of \<open>relay_out\<close> it returns.
\<close>

section \<open>State\<close>

record relay =
  queue_owners :: "string \<rightharpoonup> string set"
  queue_creators :: "string \<rightharpoonup> string"
  offline_queue :: "string \<rightharpoonup> string list"
  socket_rate_limits :: "string \<rightharpoonup> real list"
  socket_connect_times :: "string \<rightharpoonup> real"

datatype relay_out =
    QueueCreated string
  | QueueRejoined string
  | JoinRoom string
  | QueuePayload string string string
  | PushQueueError string string

definition relay_init :: relay where
  "relay_init = \<lparr>queue_owners = Map.empty, queue_creators = Map.empty,
     offline_queue = Map.empty, socket_rate_limits = Map.empty,
     socket_connect_times = Map.empty\<rparr>"

definition MAX_OFFLINE_QUEUE :: nat where
  "MAX_OFFLINE_QUEUE = 500"

section \<open>Operations\<close>

definition add_queue_owner :: "string \<Rightarrow> string \<Rightarrow> relay \<Rightarrow> relay" where
  "add_queue_owner qid sid s =
     (let sids = (case queue_owners s qid of Some x \<Rightarrow> x | None \<Rightarrow> {})
      in s\<lparr>queue_owners := (queue_owners s)(qid \<mapsto> insert sid sids)\<rparr>)"

definition add_queue_creator :: "string \<Rightarrow> string \<Rightarrow> relay \<Rightarrow> relay" where
  "add_queue_creator qid sid s = s\<lparr>queue_creators := (queue_creators s)(qid \<mapsto> sid)\<rparr>"

definition is_queue_owner :: "string \<Rightarrow> string \<Rightarrow> relay \<Rightarrow> bool" where
  "is_queue_owner qid sid s =
     (case queue_owners s qid of Some sids \<Rightarrow> sid \<in> sids | None \<Rightarrow> False)"

definition is_recipient_online :: "string \<Rightarrow> relay \<Rightarrow> bool" where
  "is_recipient_online qid s =
     (case queue_creators s qid of
        None \<Rightarrow> False
      | Some creator \<Rightarrow> creator \<noteq> [] \<and> socket_connect_times s creator \<noteq> None)"

definition enqueue_offline :: "string \<Rightarrow> string \<Rightarrow> relay \<Rightarrow> relay" where
  "enqueue_offline qid payload s =
     (let old = (case offline_queue s qid of Some x \<Rightarrow> x | None \<Rightarrow> []);
          new = old @ [payload];
          cut = (if MAX_OFFLINE_QUEUE < length new then take_last MAX_OFFLINE_QUEUE new else new)
      in s\<lparr>offline_queue := (offline_queue s)(qid \<mapsto> cut)\<rparr>)"

definition flush_offline_queue :: "string \<Rightarrow> string \<Rightarrow> relay \<Rightarrow> relay_out list \<times> relay" where
  "flush_offline_queue qid sid s =
     (let payloads = (case offline_queue s qid of Some x \<Rightarrow> x | None \<Rightarrow> [])
      in (map (QueuePayload sid qid) payloads,
          s\<lparr>offline_queue := (offline_queue s)(qid := None)\<rparr>))"

text \<open>
  \<^verbatim>\<open>is_rate_limited(sid, limit, window)\<close> at time \<open>now\<close>; the answer \<^verbatim>\<open>True\<close> refuses.
\<close>

definition is_rate_limited ::
    "string \<Rightarrow> nat \<Rightarrow> real \<Rightarrow> real \<Rightarrow> relay \<Rightarrow> bool \<times> relay" where
  "is_rate_limited sid limit window now s =
     (let old = (case socket_rate_limits s sid of Some x \<Rightarrow> x | None \<Rightarrow> []);
          q = filter (\<lambda>t. now - t < window) old;
          limited = (limit \<le> length q);
          q' = (if limited then q else q @ [now])
      in (limited,
          s\<lparr>socket_rate_limits :=
              (socket_rate_limits s)(sid := (if q' = [] then None else Some q'))\<rparr>))"

section \<open>Event handlers\<close>

definition handle_connect :: "string \<Rightarrow> real \<Rightarrow> relay \<Rightarrow> relay_out list \<times> relay" where
  "handle_connect sid now s =
     (let s = s\<lparr>socket_connect_times := (socket_connect_times s)(sid \<mapsto> now)\<rparr>
      in ([], if socket_rate_limits s sid = None
              then s\<lparr>socket_rate_limits := (socket_rate_limits s)(sid \<mapsto> [])\<rparr> else s))"

definition handle_create_queue ::
    "string \<Rightarrow> real \<Rightarrow> string \<Rightarrow> relay \<Rightarrow> relay_out list \<times> relay" where
  "handle_create_queue sid now uuid s =
     (let (limited, s) = is_rate_limited sid 5 10 now s
      in if limited then ([], s)
         else
           let s = add_queue_owner uuid sid s;
               s = add_queue_creator uuid sid s;
               (out, s) = flush_offline_queue uuid sid s
           in (JoinRoom uuid # QueueCreated uuid # out, s))"

definition handle_rejoin_queue ::
    "string \<Rightarrow> real \<Rightarrow> string option \<Rightarrow> relay \<Rightarrow> relay_out list \<times> relay" where
  "handle_rejoin_queue sid now data_queue_id s =
     (let (limited, s) = is_rate_limited sid 5 10 now s
      in if limited then ([], s)
         else
           let qid = py_strip (case data_queue_id of Some q \<Rightarrow> q | None \<Rightarrow> [])
           in if qid = [] then ([], s)
              else
                let s = add_queue_owner qid sid s;
                    s = add_queue_creator qid sid s;
                    (out, s) = flush_offline_queue qid sid s
                in (JoinRoom qid # QueueRejoined qid # out, s))"

definition handle_register_peer ::
    "string \<Rightarrow> string option \<Rightarrow> string option \<Rightarrow> relay \<Rightarrow> relay_out list \<times> relay" where
  "handle_register_peer sid my_queue peer_queue s =
     (case (my_queue, peer_queue) of
        (Some mine, Some peer) \<Rightarrow>
          if mine = [] \<or> peer = [] then ([], s)
          else if is_queue_owner mine sid s then ([], add_queue_owner peer sid s)
          else ([], s)
      | _ \<Rightarrow> ([], s))"

text \<open>
  \<^verbatim>\<open>bool(json.loads(payload).get("ephemeral", False))\<close>; a payload that is no JSON text or
  no JSON object raises, which the handler reads as not ephemeral.
\<close>

definition payload_ephemeral :: "string \<Rightarrow> bool" where
  "payload_ephemeral payload =
     (case json_loads payload of
        Some j \<Rightarrow> (case json_get j ''ephemeral'' of Some v \<Rightarrow> json_truthy v | None \<Rightarrow> False)
      | None \<Rightarrow> False)"

definition handle_push_queue ::
    "string \<Rightarrow> real \<Rightarrow> string option \<Rightarrow> string option \<Rightarrow> relay \<Rightarrow> relay_out list \<times> relay" where
  "handle_push_queue sid now data_queue_id data_payload s =
     (let (limited, s) = is_rate_limited sid 10 1 now s
      in if limited then ([], s)
         else
           case (data_queue_id, data_payload) of
             (Some qid, Some payload) \<Rightarrow>
               if qid = [] \<or> payload = [] then ([], s)
               else if 100 * 1024 < length payload then ([], s)
               else if \<not> is_queue_owner qid sid s then ([], s)
               else if \<not> is_recipient_online qid s then
                 if payload_ephemeral payload then ([], s)
                 else ([PushQueueError qid ''recipient_offline_queued''],
                       enqueue_offline qid payload s)
               else ([QueuePayload qid qid payload], s)
           | _ \<Rightarrow> ([], s))"

definition handle_disconnect :: "string \<Rightarrow> relay \<Rightarrow> relay_out list \<times> relay" where
  "handle_disconnect sid s =
     ([], s\<lparr>
        socket_connect_times := (socket_connect_times s)(sid := None),
        socket_rate_limits := (socket_rate_limits s)(sid := None),
        queue_owners := (\<lambda>q. case queue_owners s q of
            None \<Rightarrow> None
          | Some sids \<Rightarrow> if sids - {sid} = {} then None else Some (sids - {sid})),
        queue_creators := (\<lambda>q. if queue_creators s q = Some sid then None
                               else queue_creators s q)\<rparr>)"

lemmas relay_ops =
  add_queue_owner_def add_queue_creator_def is_queue_owner_def is_recipient_online_def
  enqueue_offline_def flush_offline_queue_def

lemmas relay_handlers =
  handle_connect_def handle_create_queue_def handle_rejoin_queue_def handle_register_peer_def
  handle_push_queue_def handle_disconnect_def

section \<open>The relay as a state machine\<close>

datatype relay_event =
    Connect string
  | CreateQueue string string
  | RejoinQueue string "string option"
  | RegisterPeer string "string option" "string option"
  | PushQueue string "string option" "string option"
  | Disconnect string

fun event_sid :: "relay_event \<Rightarrow> string" where
  "event_sid (Connect sid) = sid"
| "event_sid (CreateQueue sid _) = sid"
| "event_sid (RejoinQueue sid _) = sid"
| "event_sid (RegisterPeer sid _ _) = sid"
| "event_sid (PushQueue sid _ _) = sid"
| "event_sid (Disconnect sid) = sid"

fun relay_handle :: "real \<Rightarrow> relay_event \<Rightarrow> relay \<Rightarrow> relay_out list \<times> relay" where
  "relay_handle now (Connect sid) s = handle_connect sid now s"
| "relay_handle now (CreateQueue sid uuid) s = handle_create_queue sid now uuid s"
| "relay_handle now (RejoinQueue sid q) s = handle_rejoin_queue sid now q s"
| "relay_handle now (RegisterPeer sid m p) s = handle_register_peer sid m p s"
| "relay_handle now (PushQueue sid q p) s = handle_push_queue sid now q p s"
| "relay_handle now (Disconnect sid) s = handle_disconnect sid s"

fun is_connect :: "relay_event \<Rightarrow> bool" where
  "is_connect (Connect _) = True"
| "is_connect _ = False"

text \<open>
  Socket.IO runs the handlers of a socket between its connect and its disconnect, and the
  clock does not run backwards. \<open>relay_step t s t' s'\<close>: one event, at \<open>t'\<close>.
\<close>

inductive relay_step :: "real \<Rightarrow> relay \<Rightarrow> real \<Rightarrow> relay \<Rightarrow> bool" where
  step: "now \<le> now' \<Longrightarrow> is_connect e \<or> socket_connect_times s (event_sid e) \<noteq> None \<Longrightarrow>
     relay_step now s now' (snd (relay_handle now' e s))"

inductive relay_reach :: "real \<Rightarrow> relay \<Rightarrow> bool" where
  start: "relay_reach now relay_init"
| more: "relay_reach now s \<Longrightarrow> relay_step now s now' s' \<Longrightarrow> relay_reach now' s'"

inductive_simps relay_step_simp: "relay_step now s now' s'"

section \<open>Invariant\<close>

definition owners_ok :: "relay \<Rightarrow> bool" where
  "owners_ok s \<longleftrightarrow> (\<forall>q. queue_owners s q \<noteq> Some {}) \<and>
     (\<forall>q c. is_queue_owner q c s \<longrightarrow> socket_connect_times s c \<noteq> None)"

definition creators_ok :: "relay \<Rightarrow> bool" where
  "creators_ok s \<longleftrightarrow> (\<forall>q c. queue_creators s q = Some c \<longrightarrow> is_queue_owner q c s)"

definition offline_ok :: "relay \<Rightarrow> bool" where
  "offline_ok s \<longleftrightarrow> (\<forall>q ps. offline_queue s q = Some ps \<longrightarrow> length ps \<le> MAX_OFFLINE_QUEUE)"

definition rates_ok :: "real \<Rightarrow> relay \<Rightarrow> bool" where
  "rates_ok now s \<longleftrightarrow> (\<forall>sid ts. socket_rate_limits s sid = Some ts \<longrightarrow>
      socket_connect_times s sid \<noteq> None \<and> length ts \<le> 10 \<and> sorted ts \<and> (\<forall>t\<in>set ts. t \<le> now))"

definition relay_inv :: "real \<Rightarrow> relay \<Rightarrow> bool" where
  "relay_inv now s \<longleftrightarrow> owners_ok s \<and> creators_ok s \<and> offline_ok s \<and> rates_ok now s"

lemmas relay_inv_defs = relay_inv_def owners_ok_def creators_ok_def offline_ok_def rates_ok_def

lemma rates_ok_later: "rates_ok now s \<Longrightarrow> now \<le> now' \<Longrightarrow> rates_ok now' s"
  by (fastforce simp: rates_ok_def)

lemma is_rate_limited_frame [simp]:
  "queue_owners (snd (is_rate_limited sid l w now s)) = queue_owners s"
  "queue_creators (snd (is_rate_limited sid l w now s)) = queue_creators s"
  "offline_queue (snd (is_rate_limited sid l w now s)) = offline_queue s"
  "socket_connect_times (snd (is_rate_limited sid l w now s)) = socket_connect_times s"
  "is_queue_owner q c (snd (is_rate_limited sid l w now s)) = is_queue_owner q c s"
  by (simp_all add: is_rate_limited_def is_queue_owner_def Let_def)

lemma add_owner_simps [simp]:
  "socket_connect_times (add_queue_owner qid sid s) = socket_connect_times s"
  "socket_rate_limits (add_queue_owner qid sid s) = socket_rate_limits s"
  "queue_creators (add_queue_owner qid sid s) = queue_creators s"
  "offline_queue (add_queue_owner qid sid s) = offline_queue s"
  "is_queue_owner q c (add_queue_owner qid sid s) \<longleftrightarrow> is_queue_owner q c s \<or> q = qid \<and> c = sid"
  "queue_owners (add_queue_owner qid sid s) q = Some {} \<longleftrightarrow> q \<noteq> qid \<and> queue_owners s q = Some {}"
  by (auto simp: add_queue_owner_def is_queue_owner_def Let_def split: option.splits)

lemma add_creator_simps [simp]:
  "socket_connect_times (add_queue_creator qid sid s) = socket_connect_times s"
  "socket_rate_limits (add_queue_creator qid sid s) = socket_rate_limits s"
  "queue_owners (add_queue_creator qid sid s) = queue_owners s"
  "queue_creators (add_queue_creator qid sid s) = (queue_creators s)(qid \<mapsto> sid)"
  "offline_queue (add_queue_creator qid sid s) = offline_queue s"
  "is_queue_owner q c (add_queue_creator qid sid s) = is_queue_owner q c s"
  by (simp_all add: add_queue_creator_def is_queue_owner_def)

lemma flush_simps [simp]:
  "socket_connect_times (snd (flush_offline_queue qid sid s)) = socket_connect_times s"
  "socket_rate_limits (snd (flush_offline_queue qid sid s)) = socket_rate_limits s"
  "queue_owners (snd (flush_offline_queue qid sid s)) = queue_owners s"
  "queue_creators (snd (flush_offline_queue qid sid s)) = queue_creators s"
  "offline_queue (snd (flush_offline_queue qid sid s)) = (offline_queue s)(qid := None)"
  "is_queue_owner q c (snd (flush_offline_queue qid sid s)) = is_queue_owner q c s"
  by (simp_all add: flush_offline_queue_def is_queue_owner_def Let_def)

lemma enqueue_simps [simp]:
  "socket_connect_times (enqueue_offline qid p s) = socket_connect_times s"
  "socket_rate_limits (enqueue_offline qid p s) = socket_rate_limits s"
  "queue_owners (enqueue_offline qid p s) = queue_owners s"
  "queue_creators (enqueue_offline qid p s) = queue_creators s"
  "is_queue_owner q c (enqueue_offline qid p s) = is_queue_owner q c s"
  by (simp_all add: enqueue_offline_def is_queue_owner_def Let_def)

lemma disconnect_simps [simp]:
  "is_queue_owner q c (snd (handle_disconnect sid s)) \<longleftrightarrow> c \<noteq> sid \<and> is_queue_owner q c s"
  "queue_owners (snd (handle_disconnect sid s)) q \<noteq> Some {}"
  "offline_queue (snd (handle_disconnect sid s)) = offline_queue s"
  "socket_connect_times (snd (handle_disconnect sid s)) = (socket_connect_times s)(sid := None)"
  "socket_rate_limits (snd (handle_disconnect sid s)) = (socket_rate_limits s)(sid := None)"
  "queue_creators (snd (handle_disconnect sid s)) q = Some c \<longleftrightarrow>
     queue_creators s q = Some c \<and> c \<noteq> sid"
  by (auto simp: handle_disconnect_def is_queue_owner_def split: option.splits)

lemma rates_ok_limited:
  assumes "rates_ok now s" "socket_connect_times s sid \<noteq> None" "l \<le> 10"
  shows "rates_ok now (snd (is_rate_limited sid l w now s))"
proof -
  define old where "old = (case socket_rate_limits s sid of Some x \<Rightarrow> x | None \<Rightarrow> [])"
  define q where "q = filter (\<lambda>t. now - t < w) old"
  have "length old \<le> 10 \<and> sorted old \<and> (\<forall>t\<in>set old. t \<le> now)"
    using assms(1) by (auto simp: rates_ok_def old_def split: option.splits)
  moreover have "length q \<le> length old" by (simp add: q_def)
  ultimately have q: "length q \<le> 10" "sorted q" "\<forall>t\<in>set q. t \<le> now"
    by (linarith, auto simp: q_def intro: sorted_wrt_filter)
  then have "sorted (q @ [now])" by (simp add: sorted_append)
  with q assms show ?thesis
    by (auto simp: rates_ok_def is_rate_limited_def Let_def simp flip: old_def q_def
        split: if_splits)
qed

lemma inv_rate_limited [invs]:
  "relay_inv now s \<Longrightarrow> socket_connect_times s sid \<noteq> None \<Longrightarrow> l \<le> 10 \<Longrightarrow>
   relay_inv now (snd (is_rate_limited sid l w now s))"
  using rates_ok_limited [of now s sid l w]
  by (simp add: relay_inv_def owners_ok_def creators_ok_def offline_ok_def)

lemma inv_add_owner [invs]:
  "relay_inv now s \<Longrightarrow> socket_connect_times s sid \<noteq> None \<Longrightarrow>
   relay_inv now (add_queue_owner qid sid s)"
  by (auto simp: relay_inv_defs)

lemma inv_add_creator [invs]:
  "relay_inv now s \<Longrightarrow> is_queue_owner qid sid s \<Longrightarrow> relay_inv now (add_queue_creator qid sid s)"
  by (simp add: relay_inv_defs)

lemma inv_flush [invs]: "relay_inv now s \<Longrightarrow> relay_inv now (snd (flush_offline_queue qid sid s))"
  by (simp add: relay_inv_defs)

lemma offline_ok_enqueue: "offline_ok s \<Longrightarrow> offline_ok (enqueue_offline qid p s)"
  by (auto simp: offline_ok_def enqueue_offline_def Let_def split: if_splits)

lemma inv_enqueue [invs]: "relay_inv now s \<Longrightarrow> relay_inv now (enqueue_offline qid p s)"
  using offline_ok_enqueue [of s qid p]
  by (simp add: relay_inv_def owners_ok_def creators_ok_def rates_ok_def)

lemma inv_own_queue [invs]:
  "relay_inv now s \<Longrightarrow> socket_connect_times s sid \<noteq> None \<Longrightarrow>
   relay_inv now (snd (flush_offline_queue qid sid
     (add_queue_creator qid sid (add_queue_owner qid sid s))))"
  by (intro invs) simp_all

lemma inv_connect [invs]: "relay_inv now s \<Longrightarrow> relay_inv now (snd (handle_connect sid now s))"
  by (auto simp: relay_inv_defs handle_connect_def is_queue_owner_def Let_def)

lemma inv_disconnect [invs]: "relay_inv now s \<Longrightarrow> relay_inv now (snd (handle_disconnect sid s))"
  by (auto simp: relay_inv_defs)

lemma inv_create [invs]:
  "relay_inv now s \<Longrightarrow> socket_connect_times s sid \<noteq> None \<Longrightarrow>
   relay_inv now (snd (handle_create_queue sid now u s))"
  by (simp add: handle_create_queue_def Let_def split_beta inv_rate_limited inv_own_queue)

lemma inv_rejoin [invs]:
  "relay_inv now s \<Longrightarrow> socket_connect_times s sid \<noteq> None \<Longrightarrow>
   relay_inv now (snd (handle_rejoin_queue sid now q s))"
  by (simp add: handle_rejoin_queue_def Let_def split_beta inv_rate_limited inv_own_queue)

lemma inv_register [invs]:
  "relay_inv now s \<Longrightarrow> socket_connect_times s sid \<noteq> None \<Longrightarrow>
   relay_inv now (snd (handle_register_peer sid m p s))"
  by (auto simp: handle_register_peer_def intro!: inv_add_owner split: option.split)

lemma inv_push [invs]:
  "relay_inv now s \<Longrightarrow> socket_connect_times s sid \<noteq> None \<Longrightarrow>
   relay_inv now (snd (handle_push_queue sid now q p s))"
  using inv_rate_limited [of now s sid 10 1] inv_enqueue
  by (auto simp: handle_push_queue_def Let_def split_beta split: option.split)

lemma inv_later: "relay_inv now s \<Longrightarrow> now \<le> now' \<Longrightarrow> relay_inv now' s"
  using rates_ok_later by (auto simp: relay_inv_def)

lemma inv_step: "relay_step now s now' s' \<Longrightarrow> relay_inv now s \<Longrightarrow> relay_inv now' s'"
proof (induction rule: relay_step.induct)
  case (step now now' e s)
  then have "relay_inv now' s" by (blast intro: inv_later)
  with step show ?case by (cases e) (simp_all add: invs)
qed

text \<open>C8: in every state the relay reaches, the authorised senders of a queue and its creator
  are connected sockets, no queue keeps an empty owner set, a queue's creator is one of its
  owners, no offline buffer holds more than 500 messages, and no rate table has more than ten
  stamps or belongs to a socket that is gone.\<close>

theorem relay_reach_inv: "relay_reach now s \<Longrightarrow> relay_inv now s"
proof (induction rule: relay_reach.induct)
  case (start now)
  then show ?case by (simp add: relay_inv_defs relay_init_def is_queue_owner_def)
next
  case (more now s now' s')
  then show ?case by (blast intro: inv_step)
qed

text \<open>A concrete run: a host connects, opens a queue, and a peer with its own queue registers.\<close>

definition relay_demo :: relay where
  "relay_demo = snd (relay_handle 3 (RegisterPeer ''B'' (Some ''qb'') (Some ''qa''))
     (snd (relay_handle 2 (CreateQueue ''B'' ''qb'')
     (snd (relay_handle 1 (Connect ''B'')
     (snd (relay_handle 1 (CreateQueue ''A'' ''qa'')
     (snd (relay_handle 0 (Connect ''A'') relay_init)))))))))"

lemmas relay_eval =
  relay_handlers relay_ops is_rate_limited_def relay_init_def Let_def MAX_OFFLINE_QUEUE_def

lemma relay_demo_reach: "relay_reach 3 relay_demo"
  unfolding relay_demo_def
  by (rule relay_reach.more [of 2], rule relay_reach.more [of 1], rule relay_reach.more [of 1],
      rule relay_reach.more [of 0], rule relay_reach.more [of 0], rule relay_reach.start;
      rule relay_step.step; simp add: relay_eval)

theorem relay_reach_inv_witness: "relay_inv 3 relay_demo"
  by (rule relay_reach_inv [OF relay_demo_reach])

section \<open>Who can push\<close>



section \<open>Store and forward\<close>

lemma enqueue_appends:
  "offline_queue (enqueue_offline qid p s) qid =
     Some (take_last MAX_OFFLINE_QUEUE ((case offline_queue s qid of Some x \<Rightarrow> x | None \<Rightarrow> []) @ [p]))"
  by (simp add: enqueue_offline_def Let_def take_last_all)

lemma fold_enqueue:
  "ps \<noteq> [] \<Longrightarrow> offline_queue s qid = None \<Longrightarrow>
   offline_queue (fold (enqueue_offline qid) ps s) qid = Some (take_last MAX_OFFLINE_QUEUE ps)"
proof (induction ps rule: rev_induct)
  case Nil
  then show ?case by simp
next
  case (snoc p ps)
  show ?case
  proof (cases "ps = []")
    case True
    with snoc.prems show ?thesis by (simp add: enqueue_appends)
  next
    case False
    then have "offline_queue (fold (enqueue_offline qid) ps s) qid =
        Some (take_last MAX_OFFLINE_QUEUE ps)" using snoc by simp
    then show ?thesis
      by (simp add: enqueue_appends take_last_snoc MAX_OFFLINE_QUEUE_def)
  qed
qed

lemma flush_out:
  "fst (flush_offline_queue qid sid s) =
     map (QueuePayload sid qid) (case offline_queue s qid of Some x \<Rightarrow> x | None \<Rightarrow> [])"
  by (simp add: flush_offline_queue_def Let_def)

lemma fold_enqueue_frame:
  "socket_rate_limits (fold (enqueue_offline qid) ps s) = socket_rate_limits s"
  by (induction ps arbitrary: s) simp_all



section \<open>Rate limiting\<close>

text \<open>The relay's limiter for one socket, limit and window meets the window contract.\<close>

interpretation relay_rate: window_limiter
  "\<lambda>now t. now - t < window"
  "\<lambda>s. case socket_rate_limits s sid of Some x \<Rightarrow> x | None \<Rightarrow> []"
  "\<lambda>now s. map_prod Not id (is_rate_limited sid limit window now s)"
  limit
  for sid :: string and limit :: nat and window :: real
  by unfold_locales (auto simp: is_rate_limited_def Let_def)

text \<open>A socket that sends one kind of event gets at most \<open>limit\<close> of them through in any
  window: of the requests at the times \<open>ts\<close>, those served whose stamps are at most \<open>window\<close>
  seconds before any instant \<open>x\<close> number at most \<open>limit\<close>.\<close>

theorem relay_rate_bound:
  assumes "socket_rate_limits s sid = None" "sorted ts"
  shows "length (filter (\<lambda>t. t \<le> x \<and> x - t < window)
           (serve (\<lambda>now s. map_prod Not id (is_rate_limited sid limit window now s)) ts s)) \<le> limit"
  by (rule relay_rate.serve_bound) (simp_all add: assms)

theorem relay_rate_bound_witness:
  "length (filter (\<lambda>t. t \<le> 3 \<and> 3 - t < 1)
     (serve (\<lambda>now s. map_prod Not id (is_rate_limited ''Z'' 10 1 now s)) [1, 2, 3] relay_init)) \<le> 10"
  by (rule relay_rate_bound) (simp_all add: relay_init_def)

text \<open>
  The two limits share one list of stamps: a push prunes it to the last second, so the ten
  seconds of \<^verbatim>\<open>create_queue\<close> are not kept when pushes come in between. The requests of
  one socket below ask for five queues; run again two seconds later, behind one push that names
  no queue, they get four more.
\<close>

definition mixed_requests :: "relay_event list" where
  "mixed_requests =
     [CreateQueue ''A'' ''q1'', CreateQueue ''A'' ''q2'', CreateQueue ''A'' ''q3'',
      CreateQueue ''A'' ''q4'', CreateQueue ''A'' ''q5'']"

definition created_in :: "real \<Rightarrow> relay_event list \<Rightarrow> relay \<Rightarrow> nat \<times> relay" where
  "created_in now es s = fold (\<lambda>e (n, s). let (out, s') = relay_handle now e s
      in (n + length (filter (\<lambda>x. case x of QueueCreated _ \<Rightarrow> True | _ \<Rightarrow> False) out), s')) es (0, s)"

text \<open>The limit of five new queues in ten seconds does not hold across event kinds: five
  queues at second 0, one malformed push at second 2 and four more queues at second 2 all
  succeed, nine in two seconds.\<close>

theorem create_limit_bypassed:
  "fst (created_in 0 mixed_requests (snd (handle_connect ''A'' 0 relay_init))) = 5 \<and>
   fst (created_in 2 (PushQueue ''A'' None None # mixed_requests)
     (snd (created_in 0 mixed_requests (snd (handle_connect ''A'' 0 relay_init))))) = 4"
  by (simp add: created_in_def mixed_requests_def relay_eval)

section \<open>Chunks of file transfers\<close>

type_synonym chunk_store = "string \<rightharpoonup> bytes \<times> real"

definition upload_chunk :: "string \<Rightarrow> bytes \<Rightarrow> real \<Rightarrow> chunk_store \<Rightarrow> chunk_store" where
  "upload_chunk cid data now m = m(cid \<mapsto> (data, now + 86400))"

definition download_chunk :: "string \<Rightarrow> real \<Rightarrow> chunk_store \<Rightarrow> bytes option \<times> chunk_store" where
  "download_chunk cid now m =
     ((case m cid of Some (data, expires_at) \<Rightarrow> if now \<le> expires_at then Some data else None
       | None \<Rightarrow> None),
      m(cid := None))"

definition cleanup_chunks :: "real \<Rightarrow> chunk_store \<Rightarrow> chunk_store" where
  "cleanup_chunks now m = (\<lambda>k. case m k of
      Some (data, expires_at) \<Rightarrow> if expires_at < now then None else Some (data, expires_at)
    | None \<Rightarrow> None)"

definition relay_file_upload ::
    "string \<Rightarrow> bytes \<Rightarrow> real \<Rightarrow> chunk_store \<Rightarrow> unit http \<times> chunk_store" where
  "relay_file_upload cid data now m =
     (if 16500 < length data then (Inl (HTTP 400 ''Chunk size exceeds maximum limit''), m)
      else (Inr (), upload_chunk cid data now m))"

definition relay_file_download ::
    "string \<Rightarrow> real \<Rightarrow> chunk_store \<Rightarrow> bytes http \<times> chunk_store" where
  "relay_file_download cid now m =
     (case download_chunk cid now m of
        (None, m') \<Rightarrow> (Inl (HTTP 404 ''Chunk not found or expired''), m')
      | (Some data, m') \<Rightarrow> (Inr data, m'))"

text \<open>A chunk of at most 16500 bytes can be downloaded once, unchanged, during the 24 hours
  after its upload, whatever the cleanup loop does in between; the second download is 404.\<close>

theorem chunk_once:
  assumes "length data \<le> 16500" "t \<le> now" "now \<le> t + 86400" "c \<le> now"
  shows "let m1 = snd (relay_file_upload cid data t m);
             (r1, m2) = relay_file_download cid now (cleanup_chunks c m1);
             (r2, m3) = relay_file_download cid later m2
         in r1 = Inr data \<and> http_code r2 = 404"
  using assms
  by (simp add: relay_file_upload_def relay_file_download_def upload_chunk_def download_chunk_def
      cleanup_chunks_def)

theorem chunk_once_witness:
  "fst (relay_file_download ''c1'' 700 (cleanup_chunks 600
     (snd (relay_file_upload ''c1'' [1, 2, 3] 0 Map.empty)))) = Inr [1, 2, 3]"
  using chunk_once [of "[1, 2, 3]" 0 700 600 "''c1''" Map.empty]
  by (simp add: Let_def split_beta)

section \<open>Redaction of the logs\<close>

definition is_b64_char :: "char \<Rightarrow> bool" where
  "is_b64_char c = (let n = code c in
     (65 \<le> n \<and> n \<le> 90) \<or> (97 \<le> n \<and> n \<le> 122) \<or> (48 \<le> n \<and> n \<le> 57) \<or> n = 43 \<or> n = 47)"

definition is_hex_lower :: "char \<Rightarrow> bool" where
  "is_hex_lower c = (let n = code c in (48 \<le> n \<and> n \<le> 57) \<or> (97 \<le> n \<and> n \<le> 102))"

text \<open>\<^verbatim>\<open>[0-9a-f]{8}-[0-9a-f]{4}-[0-9a-f]{4}-[0-9a-f]{4}-[0-9a-f]{12}\<close> at the head of the text.\<close>

definition uuid_prefix :: "string \<Rightarrow> bool" where
  "uuid_prefix s = (36 \<le> length s \<and>
     list_all (\<lambda>(i, c). if i \<in> {8, 13, 18, 23} then c = CHR ''-'' else is_hex_lower c)
       (zip [0..<36] s))"

fun redact_uuid :: "string \<Rightarrow> string" where
  "redact_uuid [] = []"
| "redact_uuid (c # cs) =
     (if uuid_prefix (c # cs) then ''[REDACTED-UUID]'' @ redact_uuid (drop 35 cs)
      else c # redact_uuid cs)"

definition drop_pads :: "string \<Rightarrow> string" where
  "drop_pads s = (case s of
      a # b # rest \<Rightarrow> if a = CHR ''='' \<and> b = CHR ''='' then rest
                     else if a = CHR ''='' then b # rest else s
    | [a] \<Rightarrow> if a = CHR ''='' then [] else s
    | [] \<Rightarrow> [])"

lemma length_drop_pads: "length (drop_pads s) \<le> length s"
  by (auto simp: drop_pads_def split: list.splits)

text \<open>\<^verbatim>\<open>re.sub(r"[A-Za-z0-9+/]{20,}={0,2}", "[REDACTED-B64]", s)\<close>: a greedy match from the left.\<close>

function redact_b64 :: "string \<Rightarrow> string" where
  "redact_b64 [] = []"
| "redact_b64 (c # cs) =
     (let run = takeWhile is_b64_char (c # cs) in
      if 20 \<le> length run
      then ''[REDACTED-B64]'' @ redact_b64 (drop_pads (drop (length run) (c # cs)))
      else c # redact_b64 cs)"
  by pat_completeness auto
termination
proof (relation "measure length", goal_cases)
  case (2 c cs run)
  have "length (drop_pads (drop (length run) (c # cs))) \<le> length (drop (length run) (c # cs))"
    by (rule length_drop_pads)
  with 2 show ?case by (auto split: if_splits)
qed simp_all

definition redact_sensitive :: "string \<Rightarrow> string" where
  "redact_sensitive s = redact_b64 (redact_uuid s)"

text \<open>No twenty characters of the base64 alphabet in a row.\<close>

fun no_b64_run :: "string \<Rightarrow> bool" where
  "no_b64_run [] = True"
| "no_b64_run (c # cs) =
     (length (takeWhile is_b64_char (c # cs)) < 20 \<and> no_b64_run cs)"

lemma redact_keeps_short_run:
  "length (takeWhile is_b64_char s) < 20 \<Longrightarrow>
   takeWhile is_b64_char (redact_b64 s) = takeWhile is_b64_char s"
proof (induction s)
  case (Cons c cs)
  then show ?case by (cases "is_b64_char c") auto
qed simp

lemma no_run_tag: "no_b64_run s \<Longrightarrow> no_b64_run (''[REDACTED-B64]'' @ s)"
  by (simp add: is_b64_char_def code_def)

lemma no_run_redacted: "no_b64_run (redact_b64 s)"
proof (induction s rule: redact_b64.induct)
  case (2 c cs)
  show ?case
  proof (cases "20 \<le> length (takeWhile is_b64_char (c # cs))")
    case True
    with 2 show ?thesis using no_run_tag by (simp only: redact_b64.simps Let_def if_True)
  next
    case False
    with redact_keeps_short_run [of "c # cs"] 2 show ?thesis
      by (simp only: redact_b64.simps Let_def if_False no_b64_run.simps) simp
  qed
qed simp

text \<open>No log message that passed the redaction filter contains twenty or more characters of
  the base64 alphabet in a row, so no key or ciphertext of at least 15 bytes.\<close>

theorem redacted_no_secret: "no_b64_run (redact_sensitive msg)"
  by (simp add: redact_sensitive_def no_run_redacted)

end
