(* ===== verification/Encodings.thy ===== *)
theory Encodings
  imports Json
begin

text \<open>
  The byte encodings of the Python standard library the program relies on:
  \<^verbatim>\<open>base64.b64encode\<close> and \<^verbatim>\<open>b64decode\<close> (the non-strict decoder of CPython,
  which skips foreign characters and stops at a complete padding), \<^verbatim>\<open>base64.b32decode\<close>
  and \<^verbatim>\<open>b32encode\<close>, \<^verbatim>\<open>bytes.hex\<close> and \<^verbatim>\<open>bytes.fromhex\<close>,
  \<^verbatim>\<open>struct.pack(">I", n)\<close>, \<^verbatim>\<open>str.encode("utf-8")\<close> and \<^verbatim>\<open>bytes.decode\<close>
  on the code points of the model, and \<^verbatim>\<open>str(n)\<close>; each with its round trip.
\<close>

section \<open>Bytes as numbers\<close>

definition nat_byte :: "nat \<Rightarrow> byte" where
  "nat_byte n = word_of_nat n"

lemma unat_nat_byte: "n < 256 \<Longrightarrow> unat (nat_byte n) = n"
  by (simp add: nat_byte_def unat_of_nat)

lemma nat_byte_unat [simp]: "nat_byte (unat b) = b"
  by (simp add: nat_byte_def)

lemma unat_byte_lt: "unat (b :: byte) < 256"
  by (rule order.strict_trans2 [OF unsigned_less]) simp

lemma nat_byteI: "n = unat b \<Longrightarrow> nat_byte n = b"
  by simp

section \<open>base64\<close>

definition b64_alphabet :: string where
  "b64_alphabet = ''ABCDEFGHIJKLMNOPQRSTUVWXYZabcdefghijklmnopqrstuvwxyz0123456789+/''"

definition b64_char :: "nat \<Rightarrow> char" where
  "b64_char n = b64_alphabet ! n"

definition b64_val :: "char \<Rightarrow> nat option" where
  "b64_val c = (let n = code c in
     if 65 \<le> n \<and> n \<le> 90 then Some (n - 65)
     else if 97 \<le> n \<and> n \<le> 122 then Some (n - 71)
     else if 48 \<le> n \<and> n \<le> 57 then Some (n + 4)
     else if n = 43 then Some 62
     else if n = 47 then Some 63 else None)"

fun b64_encode :: "bytes \<Rightarrow> string" where
  "b64_encode [] = []"
| "b64_encode [a] =
     [b64_char (unat a div 4), b64_char (unat a mod 4 * 16), CHR ''='', CHR ''='']"
| "b64_encode [a, b] =
     [b64_char (unat a div 4), b64_char (unat a mod 4 * 16 + unat b div 16),
      b64_char (unat b mod 16 * 4), CHR ''='']"
| "b64_encode (a # b # c # rest) =
     b64_char (unat a div 4) # b64_char (unat a mod 4 * 16 + unat b div 16) #
     b64_char (unat b mod 16 * 4 + unat c div 64) # b64_char (unat c mod 64) # b64_encode rest"

text \<open>
  The decoder's loop: \<open>quad\<close> is the position in the group of four, \<open>left\<close> the bits carried
  over, \<open>pads\<close> the padding characters seen since the last data character.
\<close>

fun b64_loop :: "nat \<Rightarrow> nat \<Rightarrow> nat \<Rightarrow> string \<Rightarrow> bytes option" where
  "b64_loop quad left pads [] = (if quad = 0 then Some [] else None)"
| "b64_loop quad left pads (c # cs) =
     (if c = CHR ''='' then
        (if 2 \<le> quad then (if 4 \<le> quad + Suc pads then Some [] else b64_loop quad left (Suc pads) cs)
         else b64_loop quad left pads cs)
      else case b64_val c of
        None \<Rightarrow> b64_loop quad left pads cs
      | Some v \<Rightarrow>
          if quad = 0 then b64_loop 1 v 0 cs
          else if quad = 1 then
            map_option ((#) (nat_byte (left * 4 + v div 16))) (b64_loop 2 (v mod 16) 0 cs)
          else if quad = 2 then
            map_option ((#) (nat_byte (left * 16 + v div 4))) (b64_loop 3 (v mod 4) 0 cs)
          else map_option ((#) (nat_byte (left * 64 + v))) (b64_loop 0 0 0 cs))"

definition b64_decode :: "string \<Rightarrow> bytes option" where
  "b64_decode s = (if list_all (\<lambda>c. code c < 128) s then b64_loop 0 0 0 s else None)"

lemma b64_table:
  "map b64_val b64_alphabet = map Some [0..<64]"
  "\<forall>c\<in>set b64_alphabet. c \<noteq> CHR ''='' \<and> code c < 128"
  "\<forall>c\<in>set b64_alphabet. \<not> py_isspace c"
  by (simp_all add: b64_alphabet_def b64_val_def code_def py_isspace_def upt_rec)

lemma b64_alphabet_length: "length b64_alphabet = 64"
  by (simp add: b64_alphabet_def)

lemma b64_val_char [simp]:
  assumes "n < 64"
  shows "b64_val (b64_char n) = Some n" "b64_char n \<noteq> CHR ''=''"
    "code (b64_char n) < 128" "\<not> py_isspace (b64_char n)"
proof -
  have "map b64_val b64_alphabet ! n = map Some [0..<64] ! n" by (simp add: b64_table)
  with assms show "b64_val (b64_char n) = Some n"
    by (simp add: b64_char_def b64_alphabet_length)
  have "b64_char n \<in> set b64_alphabet"
    using assms by (simp add: b64_char_def b64_alphabet_length)
  with b64_table show "b64_char n \<noteq> CHR ''=''" "code (b64_char n) < 128" "\<not> py_isspace (b64_char n)"
    by blast+
qed

lemma byte_split:
  "unat (a :: byte) div 4 < 64" "unat a mod 4 * 16 + unat (b :: byte) div 16 < 64"
  "unat a mod 16 * 4 + unat b div 64 < 64" "unat a mod 64 < 64"
  "unat a mod 4 * 16 < 64" "unat a mod 16 * 4 < 64"
  using unat_byte_lt [of a] unat_byte_lt [of b] by linarith+

lemma byte_join:
  "unat (b :: byte) div 16 div 16 = 0" "unat b div 16 mod 16 = unat b div 16"
  "unat b div 64 div 4 = 0" "unat b div 64 mod 4 = unat b div 64"
  using unat_byte_lt [of b] by simp_all

lemma b64_loop_encode: "b64_loop 0 0 0 (b64_encode bs) = Some bs"
  by (induction bs rule: b64_encode.induct)
     (simp_all add: byte_split byte_join nat_byteI del: mult_Suc_right)

lemma b64_encode_ascii: "list_all (\<lambda>c. code c < 128) (b64_encode bs)"
  by (induction bs rule: b64_encode.induct)
     (simp_all add: byte_split, simp_all add: code_def)

theorem b64_roundtrip [simp]: "b64_decode (b64_encode bs) = Some bs"
  by (simp add: b64_decode_def b64_encode_ascii b64_loop_encode)

lemma b64_encode_inj: "b64_encode x = b64_encode y \<longleftrightarrow> x = y"
  by (metis b64_roundtrip option.inject)

lemma b64_encode_Nil [simp]: "b64_encode bs = [] \<longleftrightarrow> bs = []"
  by (cases bs rule: b64_encode.cases) auto

section \<open>Hexadecimal\<close>

definition hex_char :: "nat \<Rightarrow> char" where
  "hex_char n = ''0123456789abcdef'' ! n"

fun to_hex :: "bytes \<Rightarrow> string" where
  "to_hex [] = []"
| "to_hex (b # bs) = hex_char (unat b div 16) # hex_char (unat b mod 16) # to_hex bs"

fun from_hex :: "string \<Rightarrow> bytes option" where
  "from_hex [] = Some []"
| "from_hex (c # cs) =
     (if code c \<in> {9, 10, 11, 12, 13, 32} then from_hex cs
      else case cs of
        [] \<Rightarrow> None
      | d # rest \<Rightarrow>
          (case (hex_val c, hex_val d) of
             (Some x, Some y) \<Rightarrow> map_option ((#) (nat_byte (16 * x + y))) (from_hex rest)
           | _ \<Rightarrow> None))"

lemma hex_table:
  "\<forall>n\<in>set [0..<16]. hex_val (hex_char n) = Some n \<and> code (hex_char n) \<notin> {9, 10, 11, 12, 13, 32}"
  by (simp add: upt_rec hex_char_def hex_val_def code_def)

lemma hex_val_char [simp]:
  assumes "n < 16"
  shows "hex_val (hex_char n) = Some n"
  "code (hex_char n) \<noteq> 9 \<and> code (hex_char n) \<noteq> 10 \<and> code (hex_char n) \<noteq> 11 \<and>
    code (hex_char n) \<noteq> 12 \<and> code (hex_char n) \<noteq> 13 \<and> code (hex_char n) \<noteq> 32"
  using hex_table assms by auto

lemma hex_parts: "unat (b :: byte) div 16 < 16" "unat b mod 16 < 16"
  using unat_byte_lt [of b] by linarith+

theorem hex_roundtrip [simp]: "from_hex (to_hex bs) = Some bs"
  by (induction bs) (simp_all add: hex_parts nat_byteI)

lemma to_hex_Nil [simp]: "to_hex bs = [] \<longleftrightarrow> bs = []"
  by (cases bs) auto

section \<open>Big-endian numbers\<close>

definition be32 :: "nat \<Rightarrow> bytes" where
  "be32 n = [nat_byte (n div 16777216 mod 256), nat_byte (n div 65536 mod 256),
             nat_byte (n div 256 mod 256), nat_byte (n mod 256)]"

text \<open>\<^verbatim>\<open>struct.pack(">I", n)\<close> raises outside 0 to \<open>2 ^ 32 - 1\<close>.\<close>

definition struct_pack_I :: "int \<Rightarrow> bytes py" where
  "struct_pack_I n = (if 0 \<le> n \<and> n < 2 ^ 32 then Inr (be32 (nat n)) else Inl StructError)"

fun be_val :: "nat \<Rightarrow> bytes \<Rightarrow> nat" where
  "be_val acc [] = acc"
| "be_val acc (b # bs) = be_val (256 * acc + unat b) bs"

text \<open>\<^verbatim>\<open>struct.unpack(">I", b)[0]\<close> needs exactly four bytes.\<close>

definition struct_unpack_I :: "bytes \<Rightarrow> nat py" where
  "struct_unpack_I bs = (if length bs = 4 then Inr (be_val 0 bs) else Inl StructError)"

lemma be32_length [simp]: "length (be32 n) = 4"
  by (simp add: be32_def)

lemma be32_roundtrip: "n < 2 ^ 32 \<Longrightarrow> be_val 0 (be32 n) = n"
proof -
  assume "n < 2 ^ 32"
  then have top: "n div 16777216 mod 256 = n div 16777216"
    and less: "n div 16777216 < 256" by simp_all
  have d: "n div 16777216 = n div 256 div 256 div 256" "n div 65536 = n div 256 div 256"
    by (simp_all flip: div_mult2_eq)
  have "be_val 0 (be32 n) =
      256 * (256 * (256 * (n div 16777216) + n div 65536 mod 256) + n div 256 mod 256) + n mod 256"
    by (simp add: be32_def unat_nat_byte top less)
  also have "\<dots> = n" unfolding d by (simp only: mult_div_mod_eq)
  finally show ?thesis .
qed

theorem struct_roundtrip: "n < 2 ^ 32 \<Longrightarrow> struct_unpack_I (be32 n) = Inr n"
  by (simp add: struct_unpack_I_def be32_roundtrip)

lemma be32_inj: "m < 2 ^ 32 \<Longrightarrow> n < 2 ^ 32 \<Longrightarrow> be32 m = be32 n \<longleftrightarrow> m = n"
  by (metis be32_roundtrip)

section \<open>UTF-8\<close>

definition utf8_char :: "char \<Rightarrow> bytes" where
  "utf8_char c = (let n = code c in
     if n < 128 then [nat_byte n] else [nat_byte (192 + n div 64), nat_byte (128 + n mod 64)])"

definition utf8_encode :: "string \<Rightarrow> bytes" where
  "utf8_encode s = concat (map utf8_char s)"

text \<open>Bytes that are not UTF-8, or name a code point above 255, decode to \<open>None\<close>.\<close>

fun utf8_decode :: "bytes \<Rightarrow> string option" where
  "utf8_decode [] = Some []"
| "utf8_decode (b # bs) =
     (if unat b < 128 then map_option ((#) (char_of (unat b))) (utf8_decode bs)
      else case bs of
        [] \<Rightarrow> None
      | c # rest \<Rightarrow>
          if (unat b = 194 \<or> unat b = 195) \<and> 128 \<le> unat c \<and> unat c < 192
          then map_option ((#) (char_of ((unat b - 192) * 64 + (unat c - 128)))) (utf8_decode rest)
          else None)"

lemma code_lt: "code c < 256"
  by (simp add: code_def)

lemma char_of_code [simp]: "char_of (code c) = c"
  by (simp add: code_def)

lemma code_inj: "code c = code d \<longleftrightarrow> c = d"
  by (metis char_of_code)

theorem utf8_roundtrip [simp]: "utf8_decode (utf8_encode s) = Some s"
proof (induction s)
  case (Cons c s)
  have c: "code c < 256" by (rule code_lt)
  show ?case
  proof (cases "code c < 128")
    case True
    with Cons show ?thesis by (simp add: utf8_encode_def utf8_char_def unat_nat_byte)
  next
    case False
    with c have d: "code c div 64 = 2 \<or> code c div 64 = 3" by auto
    have m: "code c div 64 * 64 + code c mod 64 = code c" by simp
    have "unat (nat_byte (192 + code c div 64)) = 192 + code c div 64"
         "unat (nat_byte (128 + code c mod 64)) = 128 + code c mod 64"
      using d by (auto intro!: unat_nat_byte)
    with False Cons d show ?thesis
      using m by (auto simp: utf8_encode_def utf8_char_def Let_def)
  qed
qed (simp add: utf8_encode_def)

lemma utf8_inj: "utf8_encode s = utf8_encode t \<longleftrightarrow> s = t"
  by (metis utf8_roundtrip option.inject)

lemma utf8_encode_Nil [simp]: "utf8_encode [] = []"
  by (simp add: utf8_encode_def)

lemma utf8_encode_eq_Nil [simp]: "utf8_encode s = [] \<longleftrightarrow> s = []"
  using utf8_inj [of s "[]"] by simp

section \<open>Decimal numbers\<close>

definition digit_char :: "nat \<Rightarrow> char" where
  "digit_char d = char_of (48 + d)"

fun nat_str :: "nat \<Rightarrow> string" where
  "nat_str n = (if n < 10 then [digit_char n] else nat_str (n div 10) @ [digit_char (n mod 10)])"

declare nat_str.simps [simp del]

definition int_str :: "int \<Rightarrow> string" where
  "int_str i = (if i < 0 then CHR ''-'' # nat_str (nat (- i)) else nat_str (nat i))"

text \<open>\<^verbatim>\<open>s.zfill(w)\<close> on a string of digits.\<close>

definition zfill :: "nat \<Rightarrow> string \<Rightarrow> string" where
  "zfill w s = replicate (w - length s) (CHR ''0'') @ s"

lemma code_digit [simp]: "d < 10 \<Longrightarrow> code (digit_char d) = 48 + d"
  by (simp add: code_def digit_char_def)

lemma digits_val_append: "digits_val a (s @ [c]) = 10 * digits_val a s + (code c - 48)"
  by (induction s arbitrary: a) simp_all

theorem nat_str_val [simp]: "digits_val 0 (nat_str n) = n"
  by (induction n rule: nat_str.induct)
     (subst nat_str.simps, simp add: digits_val_append)

lemma nat_str_inj: "nat_str m = nat_str n \<longleftrightarrow> m = n"
  by (metis nat_str_val)

lemma nat_str_digits: "\<forall>c\<in>set (nat_str n). is_digit c"
proof (induction n rule: nat_str.induct)
  case (1 n)
  have "n mod 10 \<le> 9" by (rule less_Suc_eq_le [THEN iffD1]) simp
  with 1 show ?case by (subst nat_str.simps) (auto simp: is_digit_def)
qed

lemma nat_str_not_Nil [simp]: "nat_str n \<noteq> []"
  by (subst nat_str.simps) simp

lemma length_nat_str: "n < 10 ^ k \<Longrightarrow> 0 < k \<Longrightarrow> length (nat_str n) \<le> k"
proof (induction n arbitrary: k rule: nat_str.induct)
  case (1 n)
  show ?case
  proof (cases "n < 10")
    case True
    with 1 show ?thesis by (subst nat_str.simps) simp
  next
    case False
    with 1 have "1 < k" by (cases k; cases "k - 1") auto
    then obtain k' where k: "k = Suc k'" "0 < k'" by (cases k) auto
    with 1 have "n div 10 < 10 ^ k'" by auto
    with 1 False k have "length (nat_str (n div 10)) \<le> k'" by blast
    with False k show ?thesis by (subst nat_str.simps) simp
  qed
qed

end
