(* ===== verification/Protocol.thy ===== *)
theory Protocol
  imports Sha256
begin

text \<open>
  \<^verbatim>\<open>core/protocol.py\<close> without its double-ratchet layer (see \<open>Layered\<close>): the chain
  key step, the safety number, the authenticated data, the padding, and the encryption of one
  message under a given key; with \<^verbatim>\<open>core/queue_cryptobox.py\<close>.

  The primitives of the \<^verbatim>\<open>cryptography\<close>, \<^verbatim>\<open>PyNaCl\<close> and \<^verbatim>\<open>liboqs\<close>
  packages are the fields of a \<open>crypto\<close> record, an argument of everything that calls them;
  \<open>None\<close> is the exception the package raises. What is relied on is stated as
  \<open>hkdf_length\<close>, \<open>aead_correct\<close>, \<open>aead_binds\<close>, \<open>box_correct\<close>, \<open>dh_commutes\<close>, \<open>dh_keys_ok\<close> (public keys
  have 32 bytes, and the exchange does not fail on them) and \<open>kem_correct\<close>, and only where it is
  needed. Random bytes are arguments.
\<close>

section \<open>Primitives of the packages\<close>

record crypto =
  hkdf :: "nat \<Rightarrow> bytes \<Rightarrow> bytes \<Rightarrow> bytes \<Rightarrow> bytes"            \<comment> \<open>length, salt, info, key material\<close>
  aead_seal :: "bytes \<Rightarrow> bytes \<Rightarrow> bytes \<Rightarrow> bytes \<Rightarrow> bytes option"   \<comment> \<open>key, nonce, data, aad\<close>
  aead_open :: "bytes \<Rightarrow> bytes \<Rightarrow> bytes \<Rightarrow> bytes \<Rightarrow> bytes option"
  dh_public :: "bytes \<Rightarrow> bytes"
  dh_exchange :: "bytes \<Rightarrow> bytes \<Rightarrow> bytes option"             \<comment> \<open>private, public\<close>
  box_seal :: "bytes \<Rightarrow> bytes \<Rightarrow> bytes \<Rightarrow> bytes \<Rightarrow> bytes option"   \<comment> \<open>private, public, data, nonce; prepends the nonce\<close>
  box_open :: "bytes \<Rightarrow> bytes \<Rightarrow> bytes \<Rightarrow> bytes option"

definition hkdf_length :: "crypto \<Rightarrow> bool" where
  "hkdf_length c \<longleftrightarrow> (\<forall>n salt info ikm. length (hkdf c n salt info ikm) = n)"

definition aead_correct :: "crypto \<Rightarrow> bool" where
  "aead_correct c \<longleftrightarrow> (\<forall>k n p a ct. aead_seal c k n p a = Some ct \<longrightarrow> aead_open c k n ct a = Some p)"

text \<open>What was sealed under one authenticated data does not open under another.\<close>

definition aead_binds :: "crypto \<Rightarrow> bool" where
  "aead_binds c \<longleftrightarrow>
     (\<forall>k n p a b ct. aead_seal c k n p a = Some ct \<longrightarrow> a \<noteq> b \<longrightarrow> aead_open c k n ct b = None)"

definition dh_commutes :: "crypto \<Rightarrow> bool" where
  "dh_commutes c \<longleftrightarrow>
     (\<forall>a b. dh_exchange c a (dh_public c b) = dh_exchange c b (dh_public c a))"

definition dh_keys_ok :: "crypto \<Rightarrow> bool" where
  "dh_keys_ok c \<longleftrightarrow> (\<forall>a b. dh_exchange c a (dh_public c b) \<noteq> None \<and> length (dh_public c a) = 32)"

definition box_correct :: "crypto \<Rightarrow> bool" where
  "box_correct c \<longleftrightarrow> (\<forall>a b p n ct. box_seal c a (dh_public c b) p n = Some ct \<longrightarrow>
     take 24 ct = n \<and> box_open c b (dh_public c a) ct = Some p)"

text \<open>
  A concrete instance that satisfies all of them, for the evaluation of examples: the key
  agreement adds the keys bytewise and sealing prepends the authenticated data.
\<close>

definition toy_norm :: "bytes \<Rightarrow> bytes" where
  "toy_norm a = take 32 (a @ replicate 32 0)"

lemma toy_norm_idem [simp]: "toy_norm (toy_norm a) = toy_norm a" "length (toy_norm a) = 32"
  by (simp_all add: toy_norm_def)

definition toy_tag :: "bytes \<Rightarrow> bytes" where
  "toy_tag a = replicate (length a) 1 @ 0 # a"

lemma toy_tag_prefix:
  assumes "take (length (toy_tag b)) (toy_tag a @ p) = toy_tag b"
  shows "a = b"
proof -
  have run: "takeWhile (\<lambda>x. x = 1) (toy_tag x @ y) = replicate (length x) (1 :: byte)" for x y
    by (simp add: toy_tag_def takeWhile_append)
  have "toy_tag a @ p = toy_tag b @ drop (length (toy_tag b)) (toy_tag a @ p)"
    using assms by (metis append_take_drop_id)
  moreover from this have "length a = length b" using run by (metis length_replicate)
  ultimately show ?thesis by (simp add: toy_tag_def)
qed

definition toy_crypto :: crypto where
  "toy_crypto = \<lparr>
     hkdf = (\<lambda>n salt info ikm. take n (map ((+) 1) salt @ ikm @ replicate n 1)),
     aead_seal = (\<lambda>k n p a. Some (toy_tag a @ p)),
     aead_open = (\<lambda>k n ct a. if take (length (toy_tag a)) ct = toy_tag a
                           then Some (drop (length (toy_tag a)) ct) else None),
     dh_public = toy_norm,
     dh_exchange = (\<lambda>a b. Some (map2 (+) (toy_norm a) (toy_norm b))),
     box_seal = (\<lambda>a b p n. if length n = 24 then Some (n @ p) else None),
     box_open = (\<lambda>a b ct. Some (drop 24 ct))\<rparr>"

lemma toy_map2: "map2 (+) a b = map2 (+) b (a :: byte list)"
  by (induction a b rule: list_induct2') (simp_all add: add.commute)

lemma toy_aead_binds: "aead_binds toy_crypto"
  by (auto simp: aead_binds_def toy_crypto_def simp del: take_append dest: toy_tag_prefix)

lemma toy_crypto_ok:
  "hkdf_length toy_crypto" "aead_correct toy_crypto" "dh_commutes toy_crypto"
  "box_correct toy_crypto" "dh_keys_ok toy_crypto" "aead_binds toy_crypto"
  using toy_aead_binds
  by (auto simp: hkdf_length_def aead_correct_def dh_commutes_def box_correct_def
        dh_keys_ok_def toy_crypto_def toy_map2 min_def split: if_splits)

section \<open>Key derivation\<close>

definition zeros32 :: bytes where
  "zeros32 = replicate 32 0"

definition hkdf_derive :: "crypto \<Rightarrow> bytes \<Rightarrow> bytes \<Rightarrow> bytes \<Rightarrow> bytes" where
  "hkdf_derive c ikm info salt = hkdf c 32 salt info ikm"

definition chain_info :: bytes where
  "chain_info = utf8_encode ''AnonyMus-DR-ChainRatchet''"

text \<open>The message key and the next chain key.\<close>

definition derive_chain_keys :: "crypto \<Rightarrow> bytes \<Rightarrow> bytes \<times> bytes" where
  "derive_chain_keys c chain_key =
     (let derived = hkdf c 64 chain_key chain_info zeros32 in (take 32 derived, drop 32 derived))"

lemma derive_chain_keys_length:
  "hkdf_length c \<Longrightarrow> length (fst (derive_chain_keys c k)) = 32 \<and> length (snd (derive_chain_keys c k)) = 32"
  by (simp add: derive_chain_keys_def hkdf_length_def Let_def)

section \<open>Keys as text\<close>

definition export_public_key :: "bytes \<Rightarrow> string" where
  "export_public_key raw = b64_encode raw"

text \<open>\<^verbatim>\<open>X25519PublicKey.from_public_bytes\<close> wants 32 bytes.\<close>

definition import_public_key :: "string \<Rightarrow> bytes py" where
  "import_public_key s = (case b64_decode s of
      None \<Rightarrow> Inl (ValueError ''base64'')
    | Some raw \<Rightarrow> if length raw = 32 then Inr raw else Inl (ValueError ''X25519 key size''))"

lemma import_export: "length raw = 32 \<Longrightarrow> import_public_key (export_public_key raw) = Inr raw"
  by (simp add: import_public_key_def export_public_key_def)

section \<open>Safety numbers\<close>

text \<open>\<^verbatim>\<open>a < b\<close> on strings: code point by code point.\<close>

fun str_less :: "string \<Rightarrow> string \<Rightarrow> bool" where
  "str_less [] t = (t \<noteq> [])"
| "str_less (c # cs) [] = False"
| "str_less (c # cs) (d # ds) = (code c < code d \<or> (c = d \<and> str_less cs ds))"

definition SN_MODULUS :: nat where "SN_MODULUS = 100000"
definition SN_MAX_ACCEPTED :: nat where "SN_MAX_ACCEPTED = (2 ^ 32 div SN_MODULUS) * SN_MODULUS"

definition sn_windows :: "bytes \<Rightarrow> nat list" where
  "sn_windows h = map (\<lambda>i. be_val 0 (take 4 (drop i h))) [0, 4, 8, 12, 16, 20, 24, 28]"

definition sn_group :: "nat \<Rightarrow> string" where
  "sn_group v = zfill 5 (nat_str (v mod SN_MODULUS))"

text \<open>The two inner \<^verbatim>\<open>for\<close> loops, which stop at the twelfth group.\<close>

definition sn_accept :: "nat list \<Rightarrow> string list \<Rightarrow> string list" where
  "sn_accept vals groups = fold (\<lambda>v g. if 12 \<le> length g then g
     else if v < SN_MAX_ACCEPTED then g @ [sn_group v] else g) vals groups"

definition sn_take_all :: "nat list \<Rightarrow> string list \<Rightarrow> string list" where
  "sn_take_all vals groups = fold (\<lambda>v g. if 12 \<le> length g then g else g @ [sn_group v]) vals groups"

lemma length_sn_take_all: "length g \<le> 12 \<Longrightarrow>
    length (sn_take_all vals g) = min 12 (length g + length vals)"
  unfolding sn_take_all_def by (induction vals arbitrary: g) auto

lemma length_sn_accept: "length g \<le> 12 \<Longrightarrow> length (sn_accept vals g) \<le> 12"
  unfolding sn_accept_def by (induction vals arbitrary: g) auto

lemma length_sn_windows [simp]: "length (sn_windows h) = 8"
  by (simp add: sn_windows_def)

function sn_fallback :: "bytes \<Rightarrow> nat \<Rightarrow> string list \<Rightarrow> string list" where
  "sn_fallback data counter groups =
     (if 12 \<le> length groups then groups
      else sn_fallback data (counter + 1)
             (sn_take_all (sn_windows (sha256 (data @ be32 counter))) groups))"
  by auto
termination
  by (relation "measure (\<lambda>(_, _, g). 12 - length g)") (auto simp: length_sn_take_all)

function sn_loop :: "bytes \<Rightarrow> nat \<Rightarrow> string list \<Rightarrow> string list" where
  "sn_loop data counter groups =
     (if 12 \<le> length groups then groups
      else
        let groups = sn_accept (sn_windows (sha256 (data @ be32 counter))) groups;
            counter = counter + 1
        in if 1000 < counter then sn_fallback data counter groups
           else sn_loop data counter groups)"
  by auto
termination
  by (relation "measure (\<lambda>(_, k, _). 1001 - k)") auto

fun join_spaces :: "string list \<Rightarrow> string" where
  "join_spaces [] = []"
| "join_spaces [x] = x"
| "join_spaces (x # y # ys) = x @ CHR '' '' # join_spaces (y # ys)"

definition compute_safety_number :: "string \<Rightarrow> string \<Rightarrow> string" where
  "compute_safety_number k1 k2 =
     (let (a, b) = (if str_less k2 k1 then (k2, k1) else (k1, k2))
      in join_spaces (sn_loop (utf8_encode (a @ b)) 0 []))"

declare sn_loop.simps [simp del] sn_fallback.simps [simp del]

section \<open>Authenticated data\<close>

definition construct_aad :: "string \<Rightarrow> int \<Rightarrow> string \<Rightarrow> int \<Rightarrow> bytes py" where
  "construct_aad role seq_num session_id version =
     (let role_byte = take 1 (utf8_encode role) in
      case struct_pack_I seq_num of
        Inl e \<Rightarrow> Inl e
      | Inr packed \<Rightarrow>
          if version = 1 then Inr (role_byte @ packed)
          else if version < 0 \<or> 255 < version then Inl (ValueError ''bytes must be in range(0, 256)'')
          else Inr (role_byte @ packed @ take 16 (sha256 (utf8_encode session_id)) @
                    [nat_byte (nat version)]))"

section \<open>Padding\<close>

definition PADDED_SIZE :: nat where "PADDED_SIZE = 2048"

text \<open>\<open>rnd n\<close> is \<^verbatim>\<open>os.urandom(n)\<close>.\<close>

definition pad_plaintext :: "(nat \<Rightarrow> bytes) \<Rightarrow> string \<Rightarrow> bytes py" where
  "pad_plaintext rnd text =
     (let text_bytes = utf8_encode text;
          text_len = length text_bytes;
          padded_len = (if PADDED_SIZE < text_len + 4
                        then ((text_len + 4 + PADDED_SIZE - 1) div PADDED_SIZE) * PADDED_SIZE
                        else PADDED_SIZE)
      in case struct_pack_I (int text_len) of
           Inl e \<Rightarrow> Inl e
         | Inr hdr \<Rightarrow>
             Inr (hdr @ text_bytes @
                  (if text_len + 4 < padded_len then rnd (padded_len - text_len - 4) else [])))"

text \<open>The tail shared by both \<^verbatim>\<open>decrypt\<close> functions: the length prefix, its check, the text.\<close>

definition unframe :: "bytes \<Rightarrow> string py" where
  "unframe decrypted =
     (case struct_unpack_I (take 4 decrypted) of
        Inl e \<Rightarrow> Inl e
      | Inr text_len \<Rightarrow>
          if length decrypted - 4 < text_len
          then Inl (ValueError ''Decrypted length header exceeds message bounds.'')
          else (case utf8_decode (take text_len (drop 4 decrypted)) of
                  None \<Rightarrow> Inl (ValueError ''utf-8'')
                | Some t \<Rightarrow> Inr t))"

section \<open>Messages under a given key\<close>

definition encrypt_message ::
    "crypto \<Rightarrow> (nat \<Rightarrow> bytes) \<Rightarrow> bytes \<Rightarrow> bytes \<Rightarrow> string \<Rightarrow> string \<Rightarrow> int \<Rightarrow> string
     \<Rightarrow> (string \<times> string) py" where
  "encrypt_message c rnd iv message_key plaintext role seq_num session_id =
     (case pad_plaintext rnd plaintext of
        Inl e \<Rightarrow> Inl e
      | Inr padded \<Rightarrow>
          (case construct_aad role seq_num session_id 2 of
             Inl e \<Rightarrow> Inl e
           | Inr aad \<Rightarrow>
               (case aead_seal c message_key iv padded aad of
                  None \<Rightarrow> Inl CryptoError
                | Some ct \<Rightarrow> Inr (b64_encode iv, b64_encode ct))))"

text \<open>The branch of \<^verbatim>\<open>decrypt_message\<close> for a payload without \<^verbatim>\<open>nacl_ciphertext\<close>.\<close>

definition decrypt_message ::
    "crypto \<Rightarrow> bytes \<Rightarrow> string \<Rightarrow> string \<Rightarrow> string \<Rightarrow> int \<Rightarrow> string \<Rightarrow> string py" where
  "decrypt_message c key iv_b64 ct_b64 role seq_num session_id =
     (case (b64_decode iv_b64, b64_decode ct_b64) of
        (Some iv, Some ct) \<Rightarrow>
          (case construct_aad role seq_num session_id 2 of
             Inl e \<Rightarrow> Inl e
           | Inr aad \<Rightarrow>
               (case aead_open c key iv ct aad of
                  None \<Rightarrow> Inl CryptoError
                | Some decrypted \<Rightarrow> unframe decrypted))
      | _ \<Rightarrow> Inl (ValueError ''base64''))"

section \<open>The queue cryptobox\<close>

definition cryptobox_encrypt ::
    "crypto \<Rightarrow> bytes \<Rightarrow> bytes \<Rightarrow> bytes \<Rightarrow> bytes \<Rightarrow> (bytes \<times> bytes) py" where
  "cryptobox_encrypt c nonce plaintext sender_priv recipient_pub =
     (case box_seal c sender_priv recipient_pub plaintext nonce of
        None \<Rightarrow> Inl CryptoError
      | Some combined \<Rightarrow> Inr (drop 24 combined, nonce))"

definition cryptobox_decrypt :: "crypto \<Rightarrow> bytes \<Rightarrow> bytes \<Rightarrow> bytes \<Rightarrow> bytes \<Rightarrow> bytes py" where
  "cryptobox_decrypt c ciphertext nonce sender_pub recipient_priv =
     (case box_open c recipient_priv sender_pub (nonce @ ciphertext) of
        None \<Rightarrow> Inl CryptoError
      | Some p \<Rightarrow> Inr p)"

lemma cryptobox_roundtrip:
  assumes "box_correct c" "cryptobox_encrypt c nonce p a (dh_public c b) = Inr (ct, n)"
  shows "cryptobox_decrypt c ct n (dh_public c a) b = Inr p"
proof -
  obtain comb where seal: "box_seal c a (dh_public c b) p nonce = Some comb"
    and ct: "ct = drop 24 comb" "n = nonce"
    using assms(2) by (auto simp: cryptobox_encrypt_def split: option.splits)
  from assms(1) seal have "take 24 comb = nonce" "box_open c b (dh_public c a) comb = Some p"
    unfolding box_correct_def by blast+
  then show ?thesis using ct by (metis append_take_drop_id cryptobox_decrypt_def option.simps(5))
qed


section \<open>Lemmas\<close>

lemma str_less_Nil [simp]: "\<not> str_less t []"
  by (cases t) simp_all

lemma str_less_antisym: "str_less a b \<Longrightarrow> \<not> str_less b a"
  by (induction a b rule: str_less.induct) auto

lemma str_less_total: "a = b \<or> str_less a b \<or> str_less b a"
proof (induction a b rule: str_less.induct)
  case (3 c cs d ds)
  have "c = d \<or> code c < code d \<or> code d < code c" using code_inj [of c d] by linarith
  with 3 show ?case by auto
qed auto

lemma sn_windows_bound: "length h = 32 \<Longrightarrow> v \<in> set (sn_windows h) \<Longrightarrow> v < 2 ^ 32"
proof -
  have four: "be_val 0 bs < 2 ^ 32" if "length bs = 4" for bs
  proof -
    from that obtain a b c d where "bs = [a, b, c, d]"
      by (auto simp: numeral_eq_Suc length_Suc_conv)
    then show ?thesis
      using unat_byte_lt [of a] unat_byte_lt [of b] unat_byte_lt [of c] unat_byte_lt [of d] by simp
  qed
  show "length h = 32 \<Longrightarrow> v \<in> set (sn_windows h) \<Longrightarrow> v < 2 ^ 32"
    by (auto simp: sn_windows_def intro!: four simp del: power_numeral)
qed

definition is_group :: "string \<Rightarrow> bool" where
  "is_group g \<longleftrightarrow> length g = 5 \<and> (\<forall>c\<in>set g. is_digit c)"

lemma sn_group_digits: "is_group (sn_group v)"
proof -
  have "length (nat_str (v mod SN_MODULUS)) \<le> 5"
    by (rule length_nat_str) (simp_all add: SN_MODULUS_def)
  then show ?thesis
    using nat_str_digits [of "v mod SN_MODULUS"]
    by (auto simp: is_group_def sn_group_def zfill_def is_digit_def code_def)
qed

lemma sn_accept_groups: "\<forall>g\<in>set gs. is_group g \<Longrightarrow> \<forall>g\<in>set (sn_accept vals gs). is_group g"
  unfolding sn_accept_def
  by (rule fold_invariant [where Q = "\<lambda>_. True"]) (auto simp: sn_group_digits)

lemma sn_take_all_groups: "\<forall>g\<in>set gs. is_group g \<Longrightarrow> \<forall>g\<in>set (sn_take_all vals gs). is_group g"
  unfolding sn_take_all_def
  by (rule fold_invariant [where Q = "\<lambda>_. True"]) (auto simp: sn_group_digits)

lemma sn_fallback_ok:
  "length gs \<le> 12 \<Longrightarrow> \<forall>g\<in>set gs. is_group g \<Longrightarrow>
   length (sn_fallback d k gs) = 12 \<and> (\<forall>g\<in>set (sn_fallback d k gs). is_group g)"
proof (induction d k gs rule: sn_fallback.induct)
  case (1 d k gs)
  show ?case
  proof (cases "12 \<le> length gs")
    case True
    with 1 show ?thesis by (subst (1 2) sn_fallback.simps) simp
  next
    case False
    let ?v = "sn_windows (sha256 (d @ be32 k))"
    have "length (sn_take_all ?v gs) \<le> 12" "\<forall>g\<in>set (sn_take_all ?v gs). is_group g"
      using False 1 by (auto simp: length_sn_take_all sn_take_all_groups)
    with 1 False show ?thesis by (subst (1 2) sn_fallback.simps) simp
  qed
qed

lemma sn_loop_ok:
  "length gs \<le> 12 \<Longrightarrow> \<forall>g\<in>set gs. is_group g \<Longrightarrow>
   length (sn_loop d k gs) = 12 \<and> (\<forall>g\<in>set (sn_loop d k gs). is_group g)"
proof (induction d k gs rule: sn_loop.induct)
  case (1 d k gs)
  show ?case
  proof (cases "12 \<le> length gs")
    case True
    with 1 show ?thesis by (subst (1 2) sn_loop.simps) simp
  next
    case False
    let ?v = "sn_windows (sha256 (d @ be32 k))"
    have a: "length (sn_accept ?v gs) \<le> 12" "\<forall>g\<in>set (sn_accept ?v gs). is_group g"
      using False 1 by (auto simp: length_sn_accept sn_accept_groups)
    with 1 False sn_fallback_ok [OF a, of d "k + 1"] show ?thesis
      by (subst (1 2) sn_loop.simps) (simp add: Let_def)
  qed
qed

lemma length_join_spaces:
  "gs \<noteq> [] \<Longrightarrow> \<forall>g\<in>set gs. length g = n \<Longrightarrow> length (join_spaces gs) + 1 = length gs * (n + 1)"
  by (induction gs rule: join_spaces.induct) auto

lemma split_append_sep: "sep \<notin> set x \<Longrightarrow> py_split sep (x @ sep # s) = x # py_split sep s"
  by (induction x) auto

lemma split_no_sep: "sep \<notin> set x \<Longrightarrow> py_split sep x = [x]"
  by (induction x) auto

lemma split_join:
  "gs \<noteq> [] \<Longrightarrow> \<forall>g\<in>set gs. CHR '' '' \<notin> set g \<Longrightarrow> py_split (CHR '' '') (join_spaces gs) = gs"
  by (induction gs rule: join_spaces.induct) (auto simp: split_append_sep split_no_sep)

section \<open>Properties\<close>

text \<open>Both sides of a conversation compute the same safety number, and it is twelve groups of
  five decimal digits separated by blanks, whatever the hash values are.\<close>

theorem safety_number_shape:
  "compute_safety_number k1 k2 = compute_safety_number k2 k1 \<and>
   length (py_split (CHR '' '') (compute_safety_number k1 k2)) = 12 \<and>
   list_all is_group (py_split (CHR '' '') (compute_safety_number k1 k2))"
proof -
  have comm: "compute_safety_number k1 k2 = compute_safety_number k2 k1"
    using str_less_antisym [of k1 k2] str_less_total [of k1 k2]
    by (auto simp: compute_safety_number_def)
  obtain d where d: "compute_safety_number k1 k2 = join_spaces (sn_loop d 0 [])"
    unfolding compute_safety_number_def by (cases "str_less k2 k1") auto
  have ok: "length (sn_loop d 0 []) = 12" "\<forall>g\<in>set (sn_loop d 0 []). is_group g"
    using sn_loop_ok [of "[]" d 0] by simp_all
  have "CHR '' '' \<notin> set g" if "is_group g" for g
    using that by (auto simp: is_group_def is_digit_def code_def)
  with ok have "py_split (CHR '' '') (compute_safety_number k1 k2) = sn_loop d 0 []"
    unfolding d by (intro split_join) auto
  with ok comm show ?thesis by (simp add: list_all_iff)
qed

text \<open>The rejection sampling is unbiased: each of the 100000 five-digit groups is the group of
  exactly 42949 of the accepted 32-bit windows.\<close>

lemma safety_groups_uniform:
  "\<forall>g < SN_MODULUS. card {v. v < SN_MAX_ACCEPTED \<and> v mod SN_MODULUS = g} = 42949"
proof (intro allI impI)
  fix g assume g: "g < SN_MODULUS"
  have m: "SN_MAX_ACCEPTED = 42949 * SN_MODULUS"
    by (simp add: SN_MAX_ACCEPTED_def SN_MODULUS_def)
  have "{v. v < SN_MAX_ACCEPTED \<and> v mod SN_MODULUS = g} = (\<lambda>i. g + SN_MODULUS * i) ` {..<42949}"
  proof (intro set_eqI iffI)
    fix v assume "v \<in> {v. v < SN_MAX_ACCEPTED \<and> v mod SN_MODULUS = g}"
    then have "v = g + SN_MODULUS * (v div SN_MODULUS)" "v div SN_MODULUS < 42949"
      using m by (auto simp: less_mult_imp_div_less)
    then show "v \<in> (\<lambda>i. g + SN_MODULUS * i) ` {..<42949}" by blast
  next
    fix v assume "v \<in> (\<lambda>i. g + SN_MODULUS * i) ` {..<42949}"
    then show "v \<in> {v. v < SN_MAX_ACCEPTED \<and> v mod SN_MODULUS = g}"
      using g m by (auto simp: SN_MODULUS_def)
  qed
  moreover have "inj_on (\<lambda>i. g + SN_MODULUS * i) {..<42949}"
    by (auto simp: inj_on_def SN_MODULUS_def)
  ultimately show "card {v. v < SN_MAX_ACCEPTED \<and> v mod SN_MODULUS = g} = 42949"
    by (simp add: card_image)
qed

lemma aad_v2:
  "construct_aad role seq sid 2 = Inr a \<longleftrightarrow>
     0 \<le> seq \<and> seq < 2 ^ 32 \<and>
     a = take 1 (utf8_encode role) @ be32 (nat seq) @ take 16 (sha256 (utf8_encode sid)) @ [2]"
  by (auto simp: construct_aad_def struct_pack_I_def Let_def nat_byte_def)

text \<open>The authenticated data binds a message to its role, sequence number and session: two
  equal values come from the same first role byte, the same number and the same truncated hash
  of the session id, so a ciphertext cannot be replayed under another number.\<close>

theorem aad_binds:
  assumes "construct_aad role seq sid 2 = Inr a" "construct_aad role' seq' sid' 2 = Inr a"
    and "role \<noteq> []" "role' \<noteq> []"
  shows "hd (utf8_encode role) = hd (utf8_encode role') \<and> seq = seq' \<and>
         take 16 (sha256 (utf8_encode sid)) = take 16 (sha256 (utf8_encode sid')) \<and> length a = 22"
proof -
  have ne: "utf8_encode role \<noteq> []" "utf8_encode role' \<noteq> []" using assms(3,4) by simp_all
  then have one: "length (take 1 (utf8_encode role)) = 1" "length (take 1 (utf8_encode role')) = 1"
    by (simp_all add: Suc_le_eq)
  from assms(1,2) have eq: "take 1 (utf8_encode role) @ be32 (nat seq) @
       take 16 (sha256 (utf8_encode sid)) @ [2] =
     take 1 (utf8_encode role') @ be32 (nat seq') @ take 16 (sha256 (utf8_encode sid')) @ [2]"
    by (simp add: aad_v2)
  with one have parts: "take 1 (utf8_encode role) = take 1 (utf8_encode role')"
      "be32 (nat seq) = be32 (nat seq')"
      "take 16 (sha256 (utf8_encode sid)) = take 16 (sha256 (utf8_encode sid'))"
    by (simp_all add: append_eq_append_conv)
  have rng: "0 \<le> seq" "0 \<le> seq'" "nat seq < 2 ^ 32" "nat seq' < 2 ^ 32"
    using assms(1,2) by (auto simp: aad_v2 nat_less_iff)
  have "nat seq = nat seq'" using parts(2) be32_inj [OF rng(3,4)] by simp
  then have "seq = seq'" using rng(1,2) by simp
  with parts ne assms(1) one show ?thesis
    by (cases "utf8_encode role"; cases "utf8_encode role'") (auto simp: aad_v2)
qed

lemma aad_exists: "0 \<le> seq \<Longrightarrow> seq < 2 ^ 32 \<Longrightarrow> \<exists>a. construct_aad role seq sid 2 = Inr a"
  by (simp add: aad_v2)

theorem aad_binds_witness:
  "\<exists>a. construct_aad ''alice'' 3 ''s1'' 2 = Inr a \<and> length a = 22"
proof -
  obtain a where "construct_aad ''alice'' 3 ''s1'' 2 = Inr a"
    using aad_exists [of 3] by auto
  with aad_binds [OF this this] show ?thesis by simp
qed

section \<open>Padding and encryption round trips\<close>

lemma pad_plaintext_ok:
  assumes "\<forall>n. length (rnd n) = n" "length (utf8_encode t) < 2 ^ 32"
  obtains p where "pad_plaintext rnd t = Inr p" "length p mod PADDED_SIZE = 0"
    "length (utf8_encode t) + 4 \<le> length p" "length p < length (utf8_encode t) + 4 + PADDED_SIZE"
    "take 4 p = be32 (length (utf8_encode t))"
    "take (length (utf8_encode t)) (drop 4 p) = utf8_encode t"
proof -
  let ?n = "length (utf8_encode t)"
  let ?L = "if PADDED_SIZE < ?n + 4 then ((?n + 4 + PADDED_SIZE - 1) div PADDED_SIZE) * PADDED_SIZE
            else PADDED_SIZE"
  have L: "?n + 4 \<le> ?L" "?L mod PADDED_SIZE = 0" "?L < ?n + 4 + PADDED_SIZE"
    by (auto simp: PADDED_SIZE_def)
  let ?p = "be32 ?n @ utf8_encode t @ (if ?n + 4 < ?L then rnd (?L - ?n - 4) else [])"
  have "pad_plaintext rnd t = Inr ?p"
    using assms(2) by (simp add: pad_plaintext_def struct_pack_I_def Let_def)
  moreover have "length ?p = ?L" using L(1) assms(1) by auto
  ultimately show thesis using L by (intro that [of ?p]) simp_all
qed

lemma unframe_padded:
  assumes "\<forall>n. length (rnd n) = n" "length (utf8_encode t) < 2 ^ 32" "pad_plaintext rnd t = Inr p"
  shows "unframe p = Inr t"
proof -
  from pad_plaintext_ok [OF assms(1,2)] assms(3)
  have "take 4 p = be32 (length (utf8_encode t))" "length (utf8_encode t) + 4 \<le> length p"
    "take (length (utf8_encode t)) (drop 4 p) = utf8_encode t" by auto
  with assms(2) show ?thesis by (simp add: unframe_def struct_roundtrip)
qed

text \<open>Padding hides the length of a message up to a multiple of 2048 bytes and loses nothing:
  the padded form is the least such multiple or one more block, and removing the frame gives
  the text back.\<close>

theorem padding_roundtrip:
  assumes "\<forall>n. length (rnd n) = n" "length (utf8_encode t) < 2 ^ 32"
  shows "\<exists>p. pad_plaintext rnd t = Inr p \<and> length p mod 2048 = 0 \<and>
     length (utf8_encode t) + 4 \<le> length p \<and> length p < length (utf8_encode t) + 4 + 2048 \<and>
     unframe p = Inr t"
proof -
  obtain p where "pad_plaintext rnd t = Inr p" "length p mod PADDED_SIZE = 0"
    "length (utf8_encode t) + 4 \<le> length p" "length p < length (utf8_encode t) + 4 + PADDED_SIZE"
    using pad_plaintext_ok [OF assms] by metis
  with unframe_padded [OF assms] show ?thesis by (auto simp: PADDED_SIZE_def)
qed

theorem padding_roundtrip_witness:
  "\<exists>p. pad_plaintext (\<lambda>n. replicate n 7) ''hello'' = Inr p \<and> length p mod 2048 = 0 \<and>
     unframe p = Inr ''hello''"
  using padding_roundtrip [of "\<lambda>n. replicate n 7" "''hello''"]
  by (auto simp: utf8_encode_def utf8_char_def code_def)

lemma message_roundtrip:
  assumes "aead_correct c" "\<forall>n. length (rnd n) = n" "length (utf8_encode t) < 2 ^ 32"
    and "encrypt_message c rnd iv key t role seq sid = Inr (iv_b64, ct_b64)"
  shows "decrypt_message c key iv_b64 ct_b64 role seq sid = Inr t"
proof -
  obtain p a ct where p: "pad_plaintext rnd t = Inr p" and a: "construct_aad role seq sid 2 = Inr a"
    and ct: "aead_seal c key iv p a = Some ct" and out: "iv_b64 = b64_encode iv" "ct_b64 = b64_encode ct"
    using assms(4) by (auto simp: encrypt_message_def split: sum.splits option.splits)
  from ct assms(1) have "aead_open c key iv ct a = Some p" by (simp add: aead_correct_def)
  with a out unframe_padded [OF assms(2,3) p] show ?thesis by (simp add: decrypt_message_def)
qed

end
