(* ===== verification/Json_Dumps.thy ===== *)
theory Json_Dumps
  imports Encodings
begin

text \<open>
  \<^verbatim>\<open>json.dumps\<close> with its default separators and \<^verbatim>\<open>ensure_ascii\<close>, and the proof
  that \<^verbatim>\<open>json.loads\<close> reads it back: what the program stores as JSON text it can
  reload. Floats are the text that spells them, infinities and not-a-number included.
\<close>

definition esc_char :: "char \<Rightarrow> string" where
  "esc_char c = (let n = code c in
     if n = 34 then [CHR 0x5C, c]
     else if n = 92 then [CHR 0x5C, c]
     else if n = 10 then [CHR 0x5C, CHR ''n'']
     else if n = 13 then [CHR 0x5C, CHR ''r'']
     else if n = 9 then [CHR 0x5C, CHR ''t'']
     else if n = 12 then [CHR 0x5C, CHR ''f'']
     else if n = 8 then [CHR 0x5C, CHR ''b'']
     else if 32 \<le> n \<and> n \<le> 126 then [c]
     else [CHR 0x5C, CHR ''u'', CHR ''0'', CHR ''0'', hex_char (n div 16), hex_char (n mod 16)])"

definition json_quote :: "string \<Rightarrow> string" where
  "json_quote s = CHR 0x22 # concat (map esc_char s) @ [CHR 0x22]"

fun json_dumps :: "json \<Rightarrow> string"
and dumps_elems :: "json list \<Rightarrow> string"
and dumps_members :: "(string \<times> json) list \<Rightarrow> string" where
  "json_dumps JNull = ''null''"
| "json_dumps (JBool b) = (if b then ''true'' else ''false'')"
| "json_dumps (JInt i) = int_str i"
| "json_dumps (JFloat s) = s"
| "json_dumps (JStr s) = json_quote s"
| "json_dumps (JList xs) = CHR ''['' # dumps_elems xs @ '']''"
| "json_dumps (JObj kvs) = CHR ''{'' # dumps_members kvs @ ''}''"
| "dumps_elems [] = []"
| "dumps_elems (x # xs) = json_dumps x @ (if xs = [] then [] else '', '' @ dumps_elems xs)"
| "dumps_members [] = []"
| "dumps_members ((k, v) # kvs) =
     json_quote k @ '': '' @ json_dumps v @ (if kvs = [] then [] else '', '' @ dumps_members kvs)"

text \<open>A text that spells a float: a number with a fraction or an exponent, or one of Python's three words.\<close>

definition float_text :: "string \<Rightarrow> bool" where
  "float_text s = (s = ''NaN'' \<or> s = ''Infinity'' \<or> s = ''-Infinity'' \<or> parse_num s = Some (JFloat s, []))"

text \<open>Floats that are spelled properly, and no object with a repeated key.\<close>

fun plain_json :: "json \<Rightarrow> bool" where
  "plain_json (JFloat s) = float_text s"
| "plain_json (JList xs) = (\<forall>x\<in>set xs. plain_json x)"
| "plain_json (JObj kvs) = (distinct (map fst kvs) \<and> (\<forall>kv\<in>set kvs. plain_json (snd kv)))"
| "plain_json _ = True"

section \<open>Strings\<close>

lemma parse_plain: "32 \<le> code c \<Longrightarrow> code c \<noteq> 34 \<Longrightarrow> code c \<noteq> 92 \<Longrightarrow>
    parse_str (c # cs) = map_option (map_prod ((#) c) id) (parse_str cs)"
  by simp

lemma esc_cases: "code c \<in> {34, 92, 10, 13, 9, 12, 8} \<or> (32 \<le> code c \<and> code c \<le> 126 \<and> code c \<noteq> 34 \<and>
     code c \<noteq> 92) \<or>
    esc_char c = [CHR 0x5C, CHR ''u'', CHR ''0'', CHR ''0'', hex_char (code c div 16), hex_char (code c mod 16)]"
  by (simp add: esc_char_def Let_def)

lemma char_by_code: "code c = n \<Longrightarrow> c = char_of n"
  by (metis char_of_code)

lemma parse_esc: "parse_str (esc_char c @ cs) = map_option (map_prod ((#) c) id) (parse_str cs)"
proof -
  consider (short) "code c \<in> {34, 92, 10, 13, 9, 12, 8}"
    | (plain) "32 \<le> code c" "code c \<le> 126" "code c \<noteq> 34" "code c \<noteq> 92"
    | (hex) "esc_char c = [CHR 0x5C, CHR ''u'', CHR ''0'', CHR ''0'', hex_char (code c div 16),
        hex_char (code c mod 16)]"
    using esc_cases by blast
  then show ?thesis
  proof cases
    case short
    then show ?thesis
      by (auto simp: esc_char_def Let_def code_def dest!: char_by_code [unfolded code_def])
  next
    case plain
    then have "esc_char c = [c]" by (simp add: esc_char_def Let_def)
    with plain show ?thesis by simp
  next
    case hex
    have "code c div 16 < 16" using code_lt [of c] by simp
    moreover have "hex_val (CHR ''0'') = Some 0" by (simp add: hex_val_def code_def)
    ultimately show ?thesis by (simp add: hex code_def)
  qed
qed

lemma parse_quoted: "parse_str (concat (map esc_char s) @ CHR 0x22 # rest) = Some (s, rest)"
  by (induction s) (simp_all add: parse_esc, simp add: code_def)

section \<open>Numbers\<close>

definition num_end :: "string \<Rightarrow> bool" where
  "num_end s = (s = [] \<or> hd s \<in> {CHR '','', CHR '']'', CHR ''}''})"

lemma num_end_not_digit: "num_end s \<Longrightarrow> s = [] \<or> (\<not> is_digit (hd s) \<and> code (hd s) \<noteq> 46 \<and>
    code (hd s) \<noteq> 101 \<and> code (hd s) \<noteq> 69)"
  by (auto simp: num_end_def is_digit_def code_def)

lemma nat_str_hd: "0 < n \<Longrightarrow> code (hd (nat_str n)) \<noteq> 48"
proof (induction n rule: nat_str.induct)
  case (1 n)
  show ?case
  proof (cases "n < 10")
    case True
    with 1 show ?thesis by (subst nat_str.simps) simp
  next
    case False
    with 1 have "code (hd (nat_str (n div 10))) \<noteq> 48" by simp
    with False show ?thesis by (subst nat_str.simps) simp
  qed
qed

lemma digit_char_0: "digit_char 0 = CHR ''0''"
proof -
  have "code (CHR ''0'') = 48" by (simp add: code_def)
  then show ?thesis by (metis add.right_neutral char_of_code digit_char_def)
qed

lemma nat_str_0: "nat_str 0 = ''0''"
  by (subst nat_str.simps) (simp add: digit_char_0)

lemma nat_str_Cons: obtains c cs where "nat_str n = c # cs" "is_digit c"
  using nat_str_digits [of n] by (cases "nat_str n") auto

lemma num_digits_nat:
  assumes "num_end rest"
  shows "num_digits (nat_str n @ rest) = nat_str n"
proof -
  obtain c cs where n: "nat_str n = c # cs" by (cases "nat_str n") auto
  have dig: "\<forall>x\<in>set (nat_str n). is_digit x" by (rule nat_str_digits)
  have tw: "takeWhile is_digit (nat_str n @ rest) = nat_str n"
    using dig num_end_not_digit [OF assms] by (cases rest) auto
  have "code c = 48 \<Longrightarrow> cs = []"
    using nat_str_hd [of n] n nat_str_0 by (cases "n = 0") auto
  with tw show ?thesis unfolding n num_digits_def by simp
qed

lemma num_frac_exp_end: "num_end rest \<Longrightarrow> num_frac rest = [] \<and> num_exp rest = []"
  using num_end_not_digit [of rest] by (cases rest) (auto simp: num_frac_def num_exp_def)

lemma parse_abs_nat:
  "num_end rest \<Longrightarrow>
   parse_abs neg (nat_str n @ rest) = Some (JInt (if neg then - int n else int n), rest)"
  by (simp add: parse_abs_def num_digits_nat num_frac_exp_end Let_def)

lemma parse_num_int:
  assumes "num_end rest"
  shows "parse_num (int_str i @ rest) = Some (JInt i, rest)"
proof (cases "i < 0")
  case True
  moreover have "code (CHR ''-'') = 45" by (simp add: code_def)
  ultimately show ?thesis
    using parse_abs_nat [OF assms] by (simp add: int_str_def parse_num_def)
next
  case False
  obtain c cs where n: "nat_str (nat i) = c # cs" "is_digit c" by (rule nat_str_Cons)
  then have "code c \<noteq> 45" by (auto simp: is_digit_def)
  with False n parse_abs_nat [OF assms, of False "nat i"] show ?thesis
    by (simp add: int_str_def parse_num_def)
qed

text \<open>A number ends where it ended, whatever punctuation follows.\<close>

lemma take_digits_append: "num_end rest \<Longrightarrow> takeWhile is_digit (s @ rest) = takeWhile is_digit s"
  using num_end_not_digit [of rest] by (induction s) (auto simp: takeWhile_eq_Nil_iff)

lemma num_digits_append: "num_end rest \<Longrightarrow> num_digits (s @ rest) = num_digits s"
  using num_end_not_digit [of rest] take_digits_append [of rest s]
  by (cases s; cases rest) (auto simp: num_digits_def is_digit_def)

lemma num_frac_append: "num_end rest \<Longrightarrow> num_frac (s @ rest) = num_frac s"
  using num_end_not_digit [of rest] take_digits_append [of rest "tl s"]
  by (cases s; cases rest) (auto simp: num_frac_def)

lemma num_exp_append: "num_end rest \<Longrightarrow> num_exp (s @ rest) = num_exp s"
  using num_end_not_digit [of rest] take_digits_append [of rest "tl s"] take_digits_append [of rest "tl (tl s)"]
  by (cases s; cases "tl s"; cases rest) (auto simp: num_exp_def num_end_def code_def)

lemma num_parts_length: "length (num_digits s) \<le> length s" "length (num_frac s) \<le> length s" "length (num_exp s) \<le> length s"
proof -
  show "length (num_digits s) \<le> length s"
    by (auto simp: num_digits_def length_takeWhile_le split: list.split)
  show "length (num_frac s) \<le> length s"
    by (auto simp: num_frac_def length_takeWhile_le split: list.split)
  have "length (takeWhile is_digit (drop k cs)) + k \<le> length cs" if "k \<le> length cs" for k cs
    using length_takeWhile_le [of is_digit "drop k cs"] that by simp
  then show "length (num_exp s) \<le> length s"
    by (force simp: num_exp_def Let_def length_takeWhile_le split: list.split)
qed

lemma parse_abs_append:
  assumes "num_end rest"
  shows "parse_abs neg (s @ rest) = map_option (map_prod id (\<lambda>t. t @ rest)) (parse_abs neg s)"
proof -
  note a = num_digits_append [OF assms] num_frac_append [OF assms] num_exp_append [OF assms]
  have d: "drop (length (f s)) (s @ rest) = drop (length (f s)) s @ rest" if "length (f s) \<le> length s" for f :: "string \<Rightarrow> string" and s
    using that by simp
  note d = d [of num_digits, OF num_parts_length(1)] d [of num_frac, OF num_parts_length(2)] d [of num_exp, OF num_parts_length(3)]
  show ?thesis unfolding parse_abs_def Let_def a d
    by (cases "num_frac (drop (length (num_digits s)) s) = []") (simp_all del: drop_drop)
qed

lemma num_digits_starts: "num_digits s \<noteq> [] \<Longrightarrow> \<exists>c cs. s = c # cs \<and> is_digit c"
  by (cases s) (auto simp: num_digits_def is_digit_def split: if_splits)

lemma parse_abs_starts: "parse_abs neg s = Some r \<Longrightarrow> \<exists>c cs. s = c # cs \<and> is_digit c"
  using num_digits_starts [of s] by (auto simp: parse_abs_def Let_def split: if_splits)

lemma parse_num_starts:
  assumes "parse_num s = Some r"
  shows "\<exists>c cs. s = c # cs \<and> (is_digit c \<or> code c = 45 \<and> (\<exists>d ds. cs = d # ds \<and> is_digit d))"
proof (cases s)
  case (Cons c cs)
  with assms show ?thesis
    using parse_abs_starts [of True cs r] parse_abs_starts [of False s r]
    by (cases "code c = 45") (simp_all add: parse_num_def)
qed (use assms in \<open>simp add: parse_num_def\<close>)

lemma float_starts:
  assumes "float_text s"
  shows "\<exists>c cs. s = c # cs \<and> (is_digit c \<or> code c \<in> {45, 73, 78})"
proof (cases "parse_num s = Some (JFloat s, [])")
  case True
  from parse_num_starts [OF this] show ?thesis by blast
next
  case False
  with assms have "s = ''NaN'' \<or> s = ''Infinity'' \<or> s = ''-Infinity''" unfolding float_text_def by blast
  then show ?thesis by (elim disjE) (simp_all add: code_def)
qed

section \<open>The parser reads the printed text\<close>

definition starts_value :: "string \<Rightarrow> bool" where
  "starts_value s \<longleftrightarrow> s \<noteq> [] \<and> \<not> json_space (hd s) \<and> code (hd s) \<noteq> 93 \<and> code (hd s) \<noteq> 125"

lemma int_str_starts: obtains c cs where "int_str i = c # cs" "is_digit c \<or> code c = 45"
proof (cases "i < 0")
  case True
  then have "int_str i = CHR ''-'' # nat_str (nat (- i))" by (simp add: int_str_def)
  then show thesis by (rule that) (simp add: code_def)
next
  case False
  obtain c cs where "nat_str (nat i) = c # cs" "is_digit c" by (rule nat_str_Cons)
  with False show thesis by (intro that [of c cs]) (simp_all add: int_str_def)
qed

lemma dumps_starts: "plain_json j \<Longrightarrow> starts_value (json_dumps j @ rest)"
proof (cases j)
  case (JInt i)
  obtain c cs where "int_str i = c # cs" "is_digit c \<or> code c = 45" by (rule int_str_starts)
  then show ?thesis using JInt by (auto simp: starts_value_def json_space_def is_digit_def)
next
  case (JFloat s)
  moreover assume "plain_json j"
  ultimately show ?thesis
    using float_starts [of s] by (auto simp: starts_value_def json_space_def is_digit_def)
qed (auto simp: starts_value_def json_space_def code_def json_quote_def)

lemma skip_starts: "starts_value s \<Longrightarrow> skip_space s = s"
  by (cases s) (auto simp: starts_value_def skip_space_def)

lemma skip_space_blank: "skip_space (CHR '' '' # s) = skip_space s"
  by (simp add: skip_space_def json_space_def code_def)

lemma skip_space_other: "\<not> json_space c \<Longrightarrow> skip_space (c # s) = c # s"
  by (simp add: skip_space_def)

lemma punct_codes [simp]:
  "code (CHR '','') = 44" "code (CHR '']'') = 93" "code (CHR ''}'') = 125" "code (CHR '':'') = 58"
  "code (CHR 0x22) = 34" "code (CHR ''['') = 91" "code (CHR ''{'') = 123"
  "\<not> json_space (CHR '','')" "\<not> json_space (CHR '']'')" "\<not> json_space (CHR ''}'')"
  "\<not> json_space (CHR '':'')"
  by (simp_all add: code_def json_space_def)

lemma num_end_simps [simp]:
  "num_end (CHR '','' # s)" "num_end (CHR '']'' # s)" "num_end (CHR ''}'' # s)" "num_end []"
  by (simp_all add: num_end_def)

lemma parse_val_int:
  assumes "num_end rest"
  shows "parse_val (Suc n) (int_str i @ rest) = Some (JInt i, rest)"
proof -
  obtain c cs where i: "int_str i = c # cs" and c: "is_digit c \<or> code c = 45"
    by (rule int_str_starts)
  have first: "c \<noteq> CHR ''n'' \<and> c \<noteq> CHR ''t'' \<and> c \<noteq> CHR ''f'' \<and> c \<noteq> CHR ''N'' \<and> c \<noteq> CHR ''I''"
    using c by (auto simp: is_digit_def code_def)
  have second: "cs \<noteq> [] \<Longrightarrow> hd cs \<noteq> CHR ''I''" "c = CHR ''-'' \<Longrightarrow> cs \<noteq> []"
    using i nat_str_digits [of "nat (- i)"] nat_str_digits [of "nat i"]
    by (auto simp: int_str_def is_digit_def code_def split: if_splits dest!: hd_in_set)
  have "\<not> py_startswith (c # cs @ rest) ''-Infinity''"
    using second by (cases cs) (auto simp: py_startswith_def)
  moreover have "\<not> py_startswith (c # cs @ rest) (d # ds)" if "c \<noteq> d" for d ds
    using that by (simp add: py_startswith_def)
  moreover have "code c \<noteq> 34 \<and> code c \<noteq> 123 \<and> code c \<noteq> 91" using c by (auto simp: is_digit_def)
  moreover have "parse_num (c # cs @ rest) = Some (JInt i, rest)"
    using parse_num_int [OF assms, of i] i by simp
  ultimately show ?thesis using first i by simp
qed

lemma parse_val_float:
  assumes "num_end rest" "float_text s"
  shows "parse_val (Suc n) (s @ rest) = Some (JFloat s, rest)"
proof (cases "parse_num s = Some (JFloat s, [])")
  case False
  with assms(2) have "s = ''NaN'' \<or> s = ''Infinity'' \<or> s = ''-Infinity''" unfolding float_text_def by blast
  then show ?thesis by (elim disjE) (simp_all add: py_startswith_def code_def)
next
  case True
  obtain c cs where s: "s = c # cs" and c: "is_digit c \<or> code c = 45 \<and> (\<exists>d ds. cs = d # ds \<and> is_digit d)"
    using parse_num_starts [OF True] by blast
  have first: "c \<noteq> CHR ''n'' \<and> c \<noteq> CHR ''t'' \<and> c \<noteq> CHR ''f'' \<and> c \<noteq> CHR ''N'' \<and> c \<noteq> CHR ''I''"
    using c by (auto simp: is_digit_def code_def)
  have "\<not> py_startswith (c # cs @ rest) ''-Infinity''"
    using c by (auto simp: py_startswith_def is_digit_def code_def)
  moreover have "\<not> py_startswith (c # cs @ rest) (d # ds)" if "c \<noteq> d" for d ds
    using that by (simp add: py_startswith_def)
  moreover have "code c \<noteq> 34 \<and> code c \<noteq> 123 \<and> code c \<noteq> 91" using c by (auto simp: is_digit_def)
  moreover have "parse_num (c # cs @ rest) = Some (JFloat s, rest)"
    using True parse_abs_append [OF assms(1), of True cs] parse_abs_append [OF assms(1), of False s]
    by (auto simp: parse_num_def s split: if_splits)
  ultimately show ?thesis using first s by simp
qed

lemma parse_val_word:
  "parse_val (Suc n) (''null'' @ rest) = Some (JNull, rest)"
  "parse_val (Suc n) (''true'' @ rest) = Some (JBool True, rest)"
  "parse_val (Suc n) (''false'' @ rest) = Some (JBool False, rest)"
  by (simp_all add: py_startswith_def code_def)

lemma length_dumps: "plain_json j \<Longrightarrow> 0 < length (json_dumps j)"
  using dumps_starts [of j "[]"] by (auto simp: starts_value_def)

lemma parse_val_quote: "parse_val (Suc n) (json_quote s @ rest) = Some (JStr s, rest)"
  by (simp add: json_quote_def parse_quoted)

lemma parse_val_list:
  assumes "starts_value s"
  shows "parse_val (Suc n) (CHR ''['' # s) = map_option (map_prod JList id) (parse_elems n s)"
  using assms skip_starts [OF assms] by (cases s) (auto simp: starts_value_def)

lemma parse_val_obj:
  assumes "starts_value s"
  shows "parse_val (Suc n) (CHR ''{'' # s) = map_option (map_prod JObj id) (parse_members n [] s)"
  using assms skip_starts [OF assms] by (cases s) (auto simp: starts_value_def)

lemma members_start: "kvs \<noteq> [] \<Longrightarrow> starts_value (dumps_members kvs @ rest)"
  by (cases kvs rule: dumps_members.cases) (auto simp: starts_value_def json_quote_def json_space_def)

lemma elems_start: "xs \<noteq> [] \<Longrightarrow> \<forall>x\<in>set xs. plain_json x \<Longrightarrow> starts_value (dumps_elems xs @ rest)"
  by (cases xs) (auto simp: dumps_starts)

lemma update_snoc: "k \<notin> fst ` set acc \<Longrightarrow> AList.update k v acc = acc @ [(k, v)]"
  by (induction acc) auto

lemma parse_dumps:
  "plain_json j \<Longrightarrow> num_end rest \<Longrightarrow> length (json_dumps j) \<le> n \<Longrightarrow>
     parse_val n (json_dumps j @ rest) = Some (j, rest)"
  "\<forall>x\<in>set xs. plain_json x \<Longrightarrow> xs \<noteq> [] \<Longrightarrow> length (dumps_elems xs) < n \<Longrightarrow>
     parse_elems n (dumps_elems xs @ CHR '']'' # rest) = Some (xs, rest)"
  "\<forall>kv\<in>set kvs. plain_json (snd kv) \<Longrightarrow> kvs \<noteq> [] \<Longrightarrow> distinct (map fst (acc @ kvs)) \<Longrightarrow>
     length (dumps_members kvs) < n \<Longrightarrow>
     parse_members n acc (dumps_members kvs @ CHR ''}'' # rest) = Some (acc @ kvs, rest)"
proof (induction j and xs and kvs arbitrary: n rest and n rest and n rest acc
    rule: json_dumps_dumps_elems_dumps_members.induct)
  case 1
  then show ?case using parse_val_word by (cases n) auto
next
  case (2 b)
  then show ?case using parse_val_word by (cases n; cases b) auto
next
  case (3 i)
  then show ?case using parse_val_int length_dumps [of "JInt i"] by (cases n) auto
next
  case (4 s)
  then show ?case using parse_val_float float_starts [of s] by (cases n) auto
next
  case (5 s)
  then show ?case using parse_val_quote length_dumps [of "JStr s"] by (cases n) auto
next
  case (6 xs)
  then obtain m where n: "n = Suc m" by (cases n) auto
  show ?case
  proof (cases "xs = []")
    case True
    then show ?thesis by (simp add: n skip_space_other)
  next
    case False
    with 6 n have "parse_elems m (dumps_elems xs @ CHR '']'' # rest) = Some (xs, rest)" by simp
    with elems_start [OF False, of "CHR '']'' # rest"] 6 show ?thesis
      by (simp add: n parse_val_list del: parse_val.simps)
  qed
next
  case (7 kvs)
  then obtain m where n: "n = Suc m" by (cases n) auto
  show ?case
  proof (cases "kvs = []")
    case True
    then show ?thesis by (simp add: n skip_space_other)
  next
    case False
    with 7 n have "parse_members m [] (dumps_members kvs @ CHR ''}'' # rest) = Some (kvs, rest)" by simp
    with members_start [OF False, of "CHR ''}'' # rest"] show ?thesis
      by (simp add: n parse_val_obj del: parse_val.simps)
  qed
next
  case 8
  then show ?case by simp
next
  case (9 x xs)
  then obtain m where n: "n = Suc m" by (cases n) auto
  have x: "parse_val m (json_dumps x @ r) = Some (x, r)" if "num_end r" for r
    using 9 n that by auto
  show ?case
  proof (cases "xs = []")
    case True
    then show ?thesis using x by (simp add: n skip_space_other)
  next
    case False
    have "0 < length (json_dumps x)" using 9 length_dumps by simp
    with 9 n False have "parse_elems m (dumps_elems xs @ CHR '']'' # rest) = Some (xs, rest)" by simp
    with x False elems_start [OF False, of "CHR '']'' # rest"] 9 show ?thesis
      by (simp add: n skip_space_other skip_space_blank skip_starts del: parse_val.simps)
  qed
next
  case 10
  then show ?case by simp
next
  case (11 k v kvs)
  then obtain m where n: "n = Suc m" by (cases n) auto
  have v: "parse_val m (json_dumps v @ r) = Some (v, r)" if "num_end r" for r
    using 11 n that by (auto simp: json_quote_def)
  have sv: "skip_space (json_dumps v @ r) = json_dumps v @ r" for r
    using 11 dumps_starts skip_starts by simp
  have up: "AList.update k v acc = acc @ [(k, v)]"
    using 11 by (intro update_snoc) auto
  show ?case
  proof (cases "kvs = []")
    case True
    then show ?thesis
      using v by (simp add: n json_quote_def parse_quoted skip_space_other skip_space_blank sv up
          del: parse_val.simps)
  next
    case False
    with 11 n have
      "parse_members m (acc @ [(k, v)]) (dumps_members kvs @ CHR ''}'' # rest) =
        Some ((acc @ [(k, v)]) @ kvs, rest)" by (simp add: json_quote_def)
    with v False members_start [OF False, of "CHR ''}'' # rest"] show ?thesis
      by (simp add: n json_quote_def parse_quoted skip_space_other skip_space_blank sv up
          skip_starts del: parse_val.simps)
  qed
qed

theorem loads_dumps: "plain_json j \<Longrightarrow> json_loads (json_dumps j) = Some j"
  using parse_dumps(1) [of j "[]" "2 * length (json_dumps j) + 1"] skip_starts [OF dumps_starts, of j "[]"]
  by (simp add: json_loads_def) (simp add: skip_space_def)

end
