(* ===== verification/Double_Ratchet.thy ===== *)
theory Double_Ratchet
  imports Protocol Json_Dumps
begin

text \<open>
  \<^verbatim>\<open>core/double_ratchet.py\<close>: the session state, its two initialisations (with and without
  the ML-KEM hybrid), the sending step, the receiving step with the DH ratchet and the skipped
  message keys, the conversion to and from JSON, the LRU cache of sessions and the check on
  sealed senders.

  A method that can raise returns its result and the state it leaves behind, so that what a
  failed call has already changed is visible. A private key is its raw bytes; a key the method
  generates is an argument. Sequence numbers are Python integers.
\<close>

section \<open>Session state\<close>

record session =
  dh_private :: "bytes option"
  dh_remote :: "bytes option"
  root_key :: "bytes option"
  sending_chain_key :: "bytes option"
  receiving_chain_key :: "bytes option"
  seq_send :: int
  seq_recv :: int
  prev_chain_length :: int
  skipped_message_keys :: "(string \<times> string) list"
  kem_ciphertext_b64 :: "string option"

definition new_session :: session where
  "new_session = \<lparr>dh_private = None, dh_remote = None, root_key = None, sending_chain_key = None,
     receiving_chain_key = None, seq_send = 0, seq_recv = 0, prev_chain_length = 0,
     skipped_message_keys = [], kem_ciphertext_b64 = None\<rparr>"

definition root_info :: bytes where
  "root_info = utf8_encode ''AnonyMus-DR-RootRatchet''"

text \<open>One step of the root chain: the new root key and a chain key.\<close>

definition kdf_root :: "crypto \<Rightarrow> bytes \<Rightarrow> bytes \<Rightarrow> bytes \<times> bytes" where
  "kdf_root c salt dh_out =
     (let derived = hkdf c 64 salt root_info dh_out in (take 32 derived, drop 32 derived))"

text \<open>\<^verbatim>\<open>from_public_bytes\<close> and \<^verbatim>\<open>from_private_bytes\<close> of X25519 want 32 bytes.\<close>

definition x25519_key :: "bytes \<Rightarrow> bytes py" where
  "x25519_key b = (if length b = 32 then Inr b else Inl (ValueError ''X25519 key size''))"

definition init_alice :: "crypto \<Rightarrow> bytes \<Rightarrow> bytes \<Rightarrow> bytes \<Rightarrow> session py" where
  "init_alice c priv shared_secret peer_dh_pub =
     (case x25519_key peer_dh_pub of
        Inl e \<Rightarrow> Inl e
      | Inr remote \<Rightarrow>
          (case dh_exchange c priv remote of
             None \<Rightarrow> Inl CryptoError
           | Some dh_out \<Rightarrow>
               (let (rk, ck) = kdf_root c shared_secret dh_out
                in Inr (new_session\<lparr>dh_private := Some priv, dh_remote := Some remote,
                     root_key := Some rk, sending_chain_key := Some ck,
                     receiving_chain_key := None\<rparr>))))"

definition init_bob :: "bytes \<Rightarrow> bytes \<Rightarrow> session py" where
  "init_bob shared_secret my_dh_priv =
     (case x25519_key my_dh_priv of
        Inl e \<Rightarrow> Inl e
      | Inr priv \<Rightarrow> Inr (new_session\<lparr>dh_private := Some priv, root_key := Some shared_secret\<rparr>))"

section \<open>The post-quantum hybrid\<close>

text \<open>
  \<^verbatim>\<open>core/pq_kem.py\<close>: \<open>None\<close> when \<^verbatim>\<open>liboqs\<close> is not loaded, its functions
  otherwise: encapsulation (a ciphertext and a secret) and decapsulation, which may raise.
\<close>

record kem =
  kem_encap :: "bytes \<Rightarrow> bytes \<times> bytes"
  kem_decap :: "bytes \<Rightarrow> bytes \<Rightarrow> bytes option"     \<comment> \<open>private key, ciphertext\<close>
  kem_pub :: "bytes \<Rightarrow> bytes"                        \<comment> \<open>public key of a private key\<close>

definition pq_encapsulate :: "kem option \<Rightarrow> bytes \<Rightarrow> (bytes \<times> bytes) option" where
  "pq_encapsulate oqs pk = (case oqs of None \<Rightarrow> None | Some k \<Rightarrow> Some (kem_encap k pk))"

definition pq_decapsulate :: "kem option \<Rightarrow> bytes \<Rightarrow> bytes \<Rightarrow> bytes option" where
  "pq_decapsulate oqs ct sk = (case oqs of None \<Rightarrow> None | Some k \<Rightarrow> kem_decap k sk ct)"

definition pq_is_available :: "kem option \<Rightarrow> bool" where
  "pq_is_available oqs = (oqs \<noteq> None)"

definition kem_correct :: "kem \<Rightarrow> bool" where
  "kem_correct k \<longleftrightarrow> (\<forall>sk ct ss. kem_encap k (kem_pub k sk) = (ct, ss) \<longrightarrow>
     kem_decap k sk ct = Some ss \<and> ct \<noteq> [] \<and> ss \<noteq> [])"

definition pq_combine :: "crypto \<Rightarrow> bytes \<Rightarrow> bytes \<Rightarrow> bytes" where
  "pq_combine c x25519_secret kem_secret =
     hkdf c 32 zeros32 (utf8_encode ''AnonyMus-DR-Hybrid'') (x25519_secret @ kem_secret)"

definition init_alice_pq ::
    "crypto \<Rightarrow> kem option \<Rightarrow> bytes \<Rightarrow> bytes \<Rightarrow> bytes \<Rightarrow> bytes \<Rightarrow> session py" where
  "init_alice_pq c oqs priv shared_secret peer_dh_pub peer_kem_pub =
     (let (kem_ct, combined) =
        (case pq_encapsulate oqs peer_kem_pub of
           Some (ct, ss) \<Rightarrow> (Some ct, pq_combine c shared_secret ss)
         | None \<Rightarrow> (None, shared_secret))
      in case init_alice c priv combined peer_dh_pub of
           Inl e \<Rightarrow> Inl e
         | Inr s \<Rightarrow> Inr (s\<lparr>kem_ciphertext_b64 :=
             (case kem_ct of Some ct \<Rightarrow> if ct = [] then None else Some (b64_encode ct)
              | None \<Rightarrow> None)\<rparr>))"

definition init_bob_pq ::
    "crypto \<Rightarrow> kem option \<Rightarrow> bytes \<Rightarrow> bytes \<Rightarrow> bytes \<Rightarrow> bytes \<Rightarrow> session py" where
  "init_bob_pq c oqs shared_secret my_dh_priv my_kem_priv kem_ct =
     (let combined =
        (if my_kem_priv \<noteq> [] \<and> kem_ct \<noteq> [] \<and> pq_is_available oqs then
           (case pq_decapsulate oqs kem_ct my_kem_priv of
              Some ss \<Rightarrow> if ss = [] then shared_secret else pq_combine c shared_secret ss
            | None \<Rightarrow> shared_secret)
         else shared_secret)
      in init_bob combined my_dh_priv)"

section \<open>Sending\<close>

definition dr_encrypt :: "crypto \<Rightarrow> session \<Rightarrow> (bytes \<times> bytes \<times> int \<times> int) py \<times> session" where
  "dr_encrypt c s =
     (case (dh_private s, sending_chain_key s) of
        (Some priv, Some ck) \<Rightarrow>
          (let (mk, ck') = derive_chain_keys c ck
           in (Inr (mk, dh_public c priv, seq_send s, prev_chain_length s),
               s\<lparr>sending_chain_key := Some ck', seq_send := seq_send s + 1\<rparr>))
      | _ \<Rightarrow> (Inl (ValueError ''Session keys not initialized''), s))"

section \<open>Receiving\<close>

definition skip_name :: "bytes \<Rightarrow> int \<Rightarrow> string" where
  "skip_name pub seq = b64_encode pub @ CHR ''_'' # int_str seq"

definition is_truthy_bytes :: "bytes option \<Rightarrow> bool" where
  "is_truthy_bytes b = (case b of Some (_ # _) \<Rightarrow> True | _ \<Rightarrow> False)"

text \<open>\<^verbatim>\<open>self.skipped_message_keys[k] = v\<close> after the eviction of the oldest of a thousand.\<close>

definition store_skipped :: "string \<Rightarrow> string \<Rightarrow> (string \<times> string) list \<Rightarrow> (string \<times> string) list" where
  "store_skipped k v d = AList.update k v (if 1000 \<le> length d then tl d else d)"

function skip_loop :: "crypto \<Rightarrow> int \<Rightarrow> bytes \<Rightarrow> bytes \<Rightarrow> session \<Rightarrow> session" where
  "skip_loop c until remote ck s =
     (if seq_recv s < until then
        (let (mk, ck') = derive_chain_keys c ck
         in skip_loop c until remote ck'
              (s\<lparr>receiving_chain_key := Some ck',
                 skipped_message_keys :=
                   store_skipped (skip_name remote (seq_recv s)) (to_hex mk) (skipped_message_keys s),
                 seq_recv := seq_recv s + 1\<rparr>))
      else s)"
  by pat_completeness auto
termination
  by (relation "measure (\<lambda>(c, until, r, k, s). nat (until - seq_recv s))") auto

declare skip_loop.simps [simp del]

definition skip_messages :: "crypto \<Rightarrow> int \<Rightarrow> session \<Rightarrow> unit py \<times> session" where
  "skip_messages c until s =
     (case (receiving_chain_key s, dh_remote s) of
        (Some ck, Some remote) \<Rightarrow>
          if ck = [] then (Inr (), s)
          else if seq_recv s + 100 < until
          then (Inl (ValueError ''Too many skipped messages, refusing to ratchet.''), s)
          else (Inr (), skip_loop c until remote ck s)
      | _ \<Rightarrow> (Inr (), s))"

text \<open>The DH ratchet of \<^verbatim>\<open>decrypt\<close>; \<open>fresh\<close> is the private key it generates.\<close>

definition dh_ratchet :: "crypto \<Rightarrow> bytes \<Rightarrow> bytes \<Rightarrow> session \<Rightarrow> unit py \<times> session" where
  "dh_ratchet c fresh peer s =
     (let s = s\<lparr>dh_remote := Some peer\<rparr> in
      case (dh_private s, root_key s) of
        (Some priv, Some rk0) \<Rightarrow>
          (case dh_exchange c priv peer of
             None \<Rightarrow> (Inl CryptoError, s)
           | Some out1 \<Rightarrow>
               (let (rk1, ck1) = kdf_root c rk0 out1;
                    s = s\<lparr>root_key := Some rk1, receiving_chain_key := Some ck1,
                          dh_private := Some fresh\<rparr>
                in case dh_exchange c fresh peer of
                     None \<Rightarrow> (Inl CryptoError, s)
                   | Some out2 \<Rightarrow>
                       (let (rk2, ck2) = kdf_root c rk1 out2
                        in (Inr (), s\<lparr>root_key := Some rk2, sending_chain_key := Some ck2,
                              prev_chain_length := seq_send s, seq_send := 0, seq_recv := 0\<rparr>))))
      | _ \<Rightarrow> (Inl (ValueError ''Keys not initialized for ratchet step''), s))"

text \<open>The end of \<^verbatim>\<open>decrypt\<close>: skip to \<open>seq\<close> and take the next key of the receiving chain.\<close>

definition take_message_key :: "crypto \<Rightarrow> int \<Rightarrow> session \<Rightarrow> bytes py \<times> session" where
  "take_message_key c seq s =
     (case skip_messages c seq s of
        (Inl e, s) \<Rightarrow> (Inl e, s)
      | (Inr _, s) \<Rightarrow>
          (case receiving_chain_key s of
             None \<Rightarrow> (Inl (ValueError ''Receiving chain key not initialized''), s)
           | Some ck \<Rightarrow>
               (let (mk, ck') = derive_chain_keys c ck
                in (Inr mk, s\<lparr>receiving_chain_key := Some ck', seq_recv := seq_recv s + 1\<rparr>))))"

definition dr_decrypt :: "crypto \<Rightarrow> bytes \<Rightarrow> bytes \<Rightarrow> int \<Rightarrow> int \<Rightarrow> session \<Rightarrow> bytes py \<times> session" where
  "dr_decrypt c fresh peer seq prev_len s =
     (let key = skip_name peer seq in
      case map_of (skipped_message_keys s) key of
        Some hex \<Rightarrow>
          (let s = s\<lparr>skipped_message_keys := AList.delete key (skipped_message_keys s)\<rparr>
           in (case from_hex hex of Some mk \<Rightarrow> (Inr mk, s) | None \<Rightarrow> (Inl (ValueError ''fromhex''), s)))
      | None \<Rightarrow>
          (case x25519_key peer of
             Inl e \<Rightarrow> (Inl e, s)
           | Inr _ \<Rightarrow>
               if dh_remote s \<noteq> Some peer then
                 (case skip_messages c prev_len s of
                    (Inl e, s) \<Rightarrow> (Inl e, s)
                  | (Inr _, s) \<Rightarrow>
                      (case dh_ratchet c fresh peer s of
                         (Inl e, s) \<Rightarrow> (Inl e, s)
                       | (Inr _, s) \<Rightarrow> take_message_key c seq s))
               else take_message_key c seq s))"

section \<open>Storage\<close>

definition opt_b64 :: "bytes option \<Rightarrow> json" where
  "opt_b64 b = (case b of Some (x # xs) \<Rightarrow> JStr (b64_encode (x # xs)) | _ \<Rightarrow> JNull)"

definition opt_hex :: "bytes option \<Rightarrow> json" where
  "opt_hex b = (case b of Some (x # xs) \<Rightarrow> JStr (to_hex (x # xs)) | _ \<Rightarrow> JNull)"

definition to_json :: "session \<Rightarrow> string" where
  "to_json s = json_dumps (JObj [
     (''dh_private_b64'', opt_b64 (dh_private s)),
     (''dh_remote_b64'', opt_b64 (dh_remote s)),
     (''root_key_hex'', opt_hex (root_key s)),
     (''sending_chain_key_hex'', opt_hex (sending_chain_key s)),
     (''receiving_chain_key_hex'', opt_hex (receiving_chain_key s)),
     (''seq_send'', JInt (seq_send s)),
     (''seq_recv'', JInt (seq_recv s)),
     (''prev_chain_length'', JInt (prev_chain_length s)),
     (''skipped_message_keys'', JObj (map (\<lambda>(k, v). (k, JStr v)) (skipped_message_keys s)))])"

text \<open>
  A field that is absent, null or falsy leaves \<open>None\<close>; otherwise its text is decoded. A value
  of another type than the one \<^verbatim>\<open>to_json\<close> writes is an error of the model.
\<close>

definition load_bytes :: "(string \<Rightarrow> bytes option) \<Rightarrow> json \<Rightarrow> string \<Rightarrow> bytes option py" where
  "load_bytes dec j k = (case json_get j k of
      None \<Rightarrow> Inr None
    | Some v \<Rightarrow>
        if \<not> json_truthy v then Inr None
        else (case v of
                JStr t \<Rightarrow> (case dec t of Some b \<Rightarrow> Inr (Some b) | None \<Rightarrow> Inl (ValueError k))
              | _ \<Rightarrow> Inl (ValueError k)))"

definition load_key :: "json \<Rightarrow> string \<Rightarrow> bytes option py" where
  "load_key j k = (case load_bytes b64_decode j k of
      Inr (Some b) \<Rightarrow> (case x25519_key b of Inr b \<Rightarrow> Inr (Some b) | Inl e \<Rightarrow> Inl e)
    | r \<Rightarrow> r)"

definition load_int :: "json \<Rightarrow> string \<Rightarrow> int py" where
  "load_int j k = (case json_get j k of
      None \<Rightarrow> Inr 0 | Some (JInt i) \<Rightarrow> Inr i | _ \<Rightarrow> Inl (ValueError k))"

fun load_strings :: "(string \<times> json) list \<Rightarrow> (string \<times> string) list option" where
  "load_strings [] = Some []"
| "load_strings ((k, v) # kvs) =
     (case (v, load_strings kvs) of (JStr t, Some r) \<Rightarrow> Some ((k, t) # r) | _ \<Rightarrow> None)"

definition load_dict :: "json \<Rightarrow> string \<Rightarrow> (string \<times> string) list py" where
  "load_dict j k = (case json_get j k of
      None \<Rightarrow> Inr []
    | Some (JObj kvs) \<Rightarrow> (case load_strings kvs of Some d \<Rightarrow> Inr d | None \<Rightarrow> Inl (ValueError k))
    | _ \<Rightarrow> Inl (ValueError k))"

text \<open>\<^verbatim>\<open>from_json\<close>; the empty text gives \<^verbatim>\<open>None\<close>.\<close>

definition from_json :: "string \<Rightarrow> session option py" where
  "from_json text =
     (if text = [] then Inr None
      else case json_loads text of
        None \<Rightarrow> Inl (ValueError ''json'')
      | Some j \<Rightarrow>
          (case (load_key j ''dh_private_b64'', load_key j ''dh_remote_b64'',
                 load_bytes from_hex j ''root_key_hex'',
                 load_bytes from_hex j ''sending_chain_key_hex'',
                 load_bytes from_hex j ''receiving_chain_key_hex'',
                 load_int j ''seq_send'', load_int j ''seq_recv'', load_int j ''prev_chain_length'',
                 load_dict j ''skipped_message_keys'') of
             (Inr pr, Inr re, Inr rk, Inr sck, Inr rck, Inr ss, Inr sr, Inr pl, Inr sk) \<Rightarrow>
               Inr (Some (new_session\<lparr>dh_private := pr, dh_remote := re, root_key := rk,
                 sending_chain_key := sck, receiving_chain_key := rck, seq_send := ss,
                 seq_recv := sr, prev_chain_length := pl, skipped_message_keys := sk\<rparr>))
           | _ \<Rightarrow> Inl (ValueError ''from_json'')))"

section \<open>The session cache\<close>

text \<open>\<^verbatim>\<open>DRSessionCache\<close>: an ordered dictionary, least recently used first.\<close>

record 'v lru =
  lru_capacity :: nat
  lru_entries :: "(string \<times> 'v) list"

definition cache_new :: "nat \<Rightarrow> 'v lru" where
  "cache_new capacity = \<lparr>lru_capacity = max 1 capacity, lru_entries = []\<rparr>"

definition move_to_end :: "string \<Rightarrow> (string \<times> 'v) list \<Rightarrow> (string \<times> 'v) list" where
  "move_to_end k d = (case map_of d k of Some v \<Rightarrow> AList.delete k d @ [(k, v)] | None \<Rightarrow> d)"

definition cache_get :: "string \<Rightarrow> 'v lru \<Rightarrow> 'v option \<times> 'v lru" where
  "cache_get k m = (case map_of (lru_entries m) k of
      None \<Rightarrow> (None, m)
    | Some v \<Rightarrow> (Some v, m\<lparr>lru_entries := move_to_end k (lru_entries m)\<rparr>))"

fun pop_oldest :: "nat \<Rightarrow> (string \<times> 'v) list \<Rightarrow> (string \<times> 'v) list" where
  "pop_oldest cap [] = []"
| "pop_oldest cap (e # d) = (if cap < length (e # d) then pop_oldest cap d else e # d)"

definition cache_put :: "string \<Rightarrow> 'v \<Rightarrow> 'v lru \<Rightarrow> 'v lru" where
  "cache_put k v m =
     m\<lparr>lru_entries := pop_oldest (lru_capacity m) (move_to_end k (AList.update k v (lru_entries m)))\<rparr>"

definition cache_invalidate :: "string \<Rightarrow> 'v lru \<Rightarrow> 'v lru" where
  "cache_invalidate k m = m\<lparr>lru_entries := AList.delete k (lru_entries m)\<rparr>"

definition cache_clear :: "'v lru \<Rightarrow> 'v lru" where
  "cache_clear m = m\<lparr>lru_entries := []\<rparr>"

section \<open>Sealed senders\<close>

definition sealed_sender_strict_mode_enabled :: "string option \<Rightarrow> bool" where
  "sealed_sender_strict_mode_enabled env =
     (py_lower (py_strip (case env of Some v \<Rightarrow> v | None \<Rightarrow> ''0'')) \<in>
        {''1'', ''true'', ''yes'', ''on''})"

text \<open>What the check reads of a contact object: its two attributes, if it has them.\<close>

record contact_attrs =
  attr_verified :: "bool option"
  attr_status :: "string option"

text \<open>The lookup is absent, raises (\<open>Inl\<close>), or finds a contact or none.\<close>

definition verify_sealed_sender ::
    "string option \<Rightarrow> (string \<Rightarrow> py_error + contact_attrs option) option \<Rightarrow> string \<Rightarrow> bool" where
  "verify_sealed_sender env lookup sender =
     (if \<not> sealed_sender_strict_mode_enabled env then True
      else case lookup of
        None \<Rightarrow> False
      | Some f \<Rightarrow>
          (case f sender of
             Inl _ \<Rightarrow> False
           | Inr None \<Rightarrow> False
           | Inr (Some ct) \<Rightarrow>
               if attr_verified ct = Some True then True
               else attr_status ct = Some ''verified'' \<or> attr_status ct = Some ''accepted''))"

end
