(* ===== verification/Ratchet_Theorems.thy ===== *)
theory Ratchet_Theorems
  imports Double_Ratchet
begin

text \<open>
  What the double ratchet of \<open>Double_Ratchet\<close> achieves: out-of-order delivery, the bound on the
  skipped keys, agreement of the two ends over a whole conversation, with and without the
  post-quantum hybrid, the round trip through JSON, the contract of the LRU cache; and what it
  does not: a replayed message is answered with the next key.
\<close>

section \<open>The symmetric chain\<close>

primrec chain_key :: "crypto \<Rightarrow> bytes \<Rightarrow> nat \<Rightarrow> bytes" where
  "chain_key c ck 0 = ck"
| "chain_key c ck (Suc n) = snd (derive_chain_keys c (chain_key c ck n))"

definition msg_key :: "crypto \<Rightarrow> bytes \<Rightarrow> nat \<Rightarrow> bytes" where
  "msg_key c ck n = fst (derive_chain_keys c (chain_key c ck n))"

lemma derive_chain: "derive_chain_keys c (chain_key c ck n) = (msg_key c ck n, chain_key c ck (Suc n))"
  by (simp add: msg_key_def)

lemma chain_key_nonempty: "hkdf_length c \<Longrightarrow> ck \<noteq> [] \<Longrightarrow> chain_key c ck n \<noteq> []"
proof (cases n)
  case (Suc m)
  assume "hkdf_length c"
  then have "length (chain_key c ck n) = 32" using derive_chain_keys_length Suc by simp
  then show ?thesis by auto
qed simp

lemma int_str_nat: "int_str (int n) = nat_str n"
  by (simp add: int_str_def)

lemma skip_name_inj: "skip_name p (int i) = skip_name p (int j) \<longleftrightarrow> i = j"
  by (simp add: skip_name_def int_str_nat nat_str_inj)

section \<open>Skipped keys are bounded\<close>

definition skipped_ok :: "session \<Rightarrow> bool" where
  "skipped_ok s \<longleftrightarrow> length (skipped_message_keys s) \<le> 1000 \<and>
     distinct (map fst (skipped_message_keys s))"

lemma length_alist_update: "length (AList.update k v d) \<le> Suc (length d)"
  by (induction d) auto

lemma map_fst_tl: "distinct (map fst d) \<Longrightarrow> distinct (map fst (tl d))"
  by (cases d) auto

lemma store_skipped_ok:
  "length d \<le> 1000 \<Longrightarrow> distinct (map fst d) \<Longrightarrow>
   length (store_skipped k v d) \<le> 1000 \<and> distinct (map fst (store_skipped k v d))"
  using length_alist_update [of k v d] length_alist_update [of k v "tl d"]
  by (auto simp: store_skipped_def AList.distinct_update map_fst_tl)

lemma skip_loop_skipped: "skipped_ok s \<Longrightarrow> skipped_ok (skip_loop c until r ck s)"
proof (induction c until r ck s rule: skip_loop.induct)
  case (1 c until r ck s)
  show ?case
  proof (cases "seq_recv s < until")
    case True
    have "skipped_ok (s\<lparr>receiving_chain_key := Some (snd (derive_chain_keys c ck)),
        skipped_message_keys := store_skipped (skip_name r (seq_recv s))
          (to_hex (fst (derive_chain_keys c ck))) (skipped_message_keys s),
        seq_recv := seq_recv s + 1\<rparr>)"
      using 1(2) store_skipped_ok by (simp add: skipped_ok_def)
    with True 1(1) show ?thesis
      by (subst skip_loop.simps) (simp add: Let_def split_beta)
  next
    case False
    with 1(2) show ?thesis by (subst skip_loop.simps) simp
  qed
qed

lemma skip_messages_skipped: "skipped_ok s \<Longrightarrow> skipped_ok (snd (skip_messages c n s))"
  by (auto simp: skip_messages_def skip_loop_skipped split: option.split)

lemma take_message_key_skipped: "skipped_ok s \<Longrightarrow> skipped_ok (snd (take_message_key c n s))"
  using skip_messages_skipped [of s c n]
  by (auto simp: take_message_key_def skipped_ok_def Let_def split_beta
      split: prod.splits sum.splits option.splits)

lemma dh_ratchet_skipped: "skipped_ok s \<Longrightarrow> skipped_ok (snd (dh_ratchet c f p s))"
  by (simp add: dh_ratchet_def skipped_ok_def Let_def split_beta split: option.split)

lemma ratchet_path_skipped:
  assumes "skipped_ok s"
  shows "skipped_ok (snd (case skip_messages c pn s of
      (Inl e, s) \<Rightarrow> (Inl e, s)
    | (Inr _, s) \<Rightarrow> (case dh_ratchet c fresh peer s of
        (Inl e, s) \<Rightarrow> (Inl e, s)
      | (Inr _, s) \<Rightarrow> take_message_key c seq s)))"
proof -
  obtain r1 s1 where 1: "skip_messages c pn s = (r1, s1)" by (cases "skip_messages c pn s") auto
  then have s1: "skipped_ok s1" using skip_messages_skipped [OF assms, of c pn] by simp
  obtain r2 s2 where 2: "dh_ratchet c fresh peer s1 = (r2, s2)"
    by (cases "dh_ratchet c fresh peer s1") auto
  then have s2: "skipped_ok s2" using dh_ratchet_skipped [OF s1, of c fresh peer] by simp
  show ?thesis
    using s1 s2 take_message_key_skipped [OF s2, of c seq] by (simp add: 1 2 split: sum.split)
qed

text \<open>C28: whatever header arrives, receiving it leaves at most 1000 skipped message keys, each
  under its own name; this holds also when the call fails.\<close>

theorem skipped_bounded: "skipped_ok s \<Longrightarrow> skipped_ok (snd (dr_decrypt c fresh peer seq pn s))"
proof -
  assume s: "skipped_ok s"
  let ?k = "skip_name peer seq"
  have del: "skipped_ok (s\<lparr>skipped_message_keys := AList.delete ?k (skipped_message_keys s)\<rparr>)"
    using s AList.length_delete_le [of ?k "skipped_message_keys s"]
      AList.distinct_delete [of "skipped_message_keys s" ?k] by (simp add: skipped_ok_def)
  show ?thesis
  proof (cases "map_of (skipped_message_keys s) ?k")
    case None
    then show ?thesis
      using s ratchet_path_skipped [OF s] take_message_key_skipped [OF s]
      by (simp add: dr_decrypt_def split: sum.split)
  next
    case (Some hex)
    with del show ?thesis by (simp add: dr_decrypt_def Let_def split: option.split)
  qed
qed

theorem skipped_bounded_witness:
  "skipped_ok (snd (dr_decrypt toy_crypto [1] [2] 5 0 new_session))"
  by (rule skipped_bounded) (simp add: skipped_ok_def new_session_def)

section \<open>Out-of-order delivery\<close>

text \<open>The keys of the next \<open>k\<close> messages a session sends.\<close>

fun send_many :: "crypto \<Rightarrow> nat \<Rightarrow> session \<Rightarrow> (bytes \<times> bytes \<times> int \<times> int) py list" where
  "send_many c 0 s = []"
| "send_many c (Suc k) s = (let (r, s') = dr_encrypt c s in r # send_many c k s')"

text \<open>The keys a session takes for the messages with the numbers \<open>seqs\<close>, in that order.\<close>

fun receive_many :: "crypto \<Rightarrow> bytes \<Rightarrow> bytes \<Rightarrow> int \<Rightarrow> nat list \<Rightarrow> session \<Rightarrow> bytes py list" where
  "receive_many c fresh peer pn [] s = []"
| "receive_many c fresh peer pn (i # is) s =
     (let (r, s') = dr_decrypt c fresh peer (int i) pn s in r # receive_many c fresh peer pn is s')"

text \<open>No message is more than 100 ahead of the next expected one, and there are at most 1000.\<close>

fun gaps_ok :: "nat \<Rightarrow> nat list \<Rightarrow> bool" where
  "gaps_ok n [] = True"
| "gaps_ok n (i # is) = (i \<le> n + 100 \<and> i < 1000 \<and> gaps_ok (max n (Suc i)) is)"

text \<open>The receiver after \<open>n\<close> chain steps, of which the messages \<open>got\<close> have been taken.\<close>

definition rcv :: "crypto \<Rightarrow> bytes \<Rightarrow> bytes \<Rightarrow> nat set \<Rightarrow> nat \<Rightarrow> session \<Rightarrow> bool" where
  "rcv c peer ck got n s \<longleftrightarrow>
     dh_remote s = Some peer \<and> receiving_chain_key s = Some (chain_key c ck n) \<and>
     seq_recv s = int n \<and> got \<subseteq> {..<n} \<and> length (skipped_message_keys s) \<le> n \<and>
     (\<forall>i. map_of (skipped_message_keys s) (skip_name peer (int i)) =
            (if i < n \<and> i \<notin> got then Some (to_hex (msg_key c ck i)) else None))"

lemma rcv_skip_one:
  assumes "rcv c peer ck got n s" "n < 1000"
  shows "rcv c peer ck got (Suc n) (s\<lparr>receiving_chain_key := Some (chain_key c ck (Suc n)),
     skipped_message_keys := store_skipped (skip_name peer (seq_recv s)) (to_hex (msg_key c ck n))
       (skipped_message_keys s),
     seq_recv := seq_recv s + 1\<rparr>)"
proof -
  let ?d = "skipped_message_keys s"
  have st: "store_skipped (skip_name peer (int n)) (to_hex (msg_key c ck n)) ?d =
      AList.update (skip_name peer (int n)) (to_hex (msg_key c ck n)) ?d"
    using assms by (simp add: rcv_def store_skipped_def)
  have "n \<notin> got" "got \<subseteq> {..<Suc n}" using assms(1) by (auto simp: rcv_def)
  then show ?thesis
    using assms(1) length_alist_update [of "skip_name peer (int n)" "to_hex (msg_key c ck n)" ?d]
    by (auto simp: rcv_def st AList.update_conv' skip_name_inj less_Suc_eq)
qed

lemma rcv_skip_loop:
  assumes "rcv c peer ck got n s" "n \<le> m" "m \<le> 1000"
  shows "rcv c peer ck got m (skip_loop c (int m) peer (chain_key c ck n) s)"
  using assms
proof (induction "m - n" arbitrary: n s)
  case 0
  then have "seq_recv s = int m" "n = m" by (auto simp: rcv_def)
  with 0 show ?case by (subst skip_loop.simps) simp
next
  case (Suc k)
  then have less: "n < m" "seq_recv s < int m" "n < 1000" by (auto simp: rcv_def)
  let ?s = "s\<lparr>receiving_chain_key := Some (chain_key c ck (Suc n)),
     skipped_message_keys := store_skipped (skip_name peer (seq_recv s)) (to_hex (msg_key c ck n))
       (skipped_message_keys s),
     seq_recv := seq_recv s + 1\<rparr>"
  have "rcv c peer ck got (Suc n) ?s" by (rule rcv_skip_one [OF Suc.prems(1) less(3)])
  then have "rcv c peer ck got m (skip_loop c (int m) peer (chain_key c ck (Suc n)) ?s)"
    using Suc less by (intro Suc.hyps(1)) auto
  with less show ?case
    by (subst skip_loop.simps) (simp add: derive_chain Let_def del: chain_key.simps)
qed

lemma rcv_take:
  assumes "hkdf_length c" "ck \<noteq> []" "rcv c peer ck got n s" "n \<le> i" "i \<le> n + 100" "i < 1000"
  shows "\<exists>s'. take_message_key c (int i) s = (Inr (msg_key c ck i), s') \<and>
     rcv c peer ck (insert i got) (Suc i) s'"
proof -
  have ne: "chain_key c ck n \<noteq> []" using assms(1,2) by (rule chain_key_nonempty)
  let ?s = "skip_loop c (int i) peer (chain_key c ck n) s"
  have r: "rcv c peer ck got i ?s" using assms by (intro rcv_skip_loop) auto
  have "skip_messages c (int i) s = (Inr (), ?s)"
    using assms(3,5) ne by (simp add: skip_messages_def rcv_def)
  moreover have "receiving_chain_key ?s = Some (chain_key c ck i)" using r by (simp add: rcv_def)
  ultimately have "take_message_key c (int i) s = (Inr (msg_key c ck i),
      ?s\<lparr>receiving_chain_key := Some (chain_key c ck (Suc i)), seq_recv := seq_recv ?s + 1\<rparr>)"
    by (simp add: take_message_key_def derive_chain del: chain_key.simps)
  moreover have "rcv c peer ck (insert i got) (Suc i)
      (?s\<lparr>receiving_chain_key := Some (chain_key c ck (Suc i)), seq_recv := seq_recv ?s + 1\<rparr>)"
    using r by (auto simp: rcv_def less_Suc_eq)
  ultimately show ?thesis by blast
qed

lemma rcv_decrypt:
  assumes "hkdf_length c" "ck \<noteq> []" "length peer = 32" "rcv c peer ck got n s"
    and "i \<notin> got" "i \<le> n + 100" "i < 1000"
  shows "\<exists>s'. dr_decrypt c fresh peer (int i) pn s = (Inr (msg_key c ck i), s') \<and>
     rcv c peer ck (insert i got) (max n (Suc i)) s'"
proof (cases "i < n")
  case True
  let ?d = "AList.delete (skip_name peer (int i)) (skipped_message_keys s)"
  have "map_of (skipped_message_keys s) (skip_name peer (int i)) = Some (to_hex (msg_key c ck i))"
    using assms(4,5) True by (simp add: rcv_def)
  then have "dr_decrypt c fresh peer (int i) pn s =
      (Inr (msg_key c ck i), s\<lparr>skipped_message_keys := ?d\<rparr>)"
    by (simp add: dr_decrypt_def)
  moreover have "rcv c peer ck (insert i got) n (s\<lparr>skipped_message_keys := ?d\<rparr>)"
    using assms(4) True AList.length_delete_le [of "skip_name peer (int i)" "skipped_message_keys s"]
    by (auto simp: rcv_def AList.delete_conv' skip_name_inj)
  moreover have "max n (Suc i) = n" using True by simp
  ultimately show ?thesis by auto
next
  case False
  then have "map_of (skipped_message_keys s) (skip_name peer (int i)) = None" "dh_remote s = Some peer"
    using assms(4) by (auto simp: rcv_def)
  then have "dr_decrypt c fresh peer (int i) pn s = take_message_key c (int i) s"
    using assms(3) by (simp add: dr_decrypt_def x25519_key_def)
  with rcv_take [OF assms(1,2,4) _ assms(6,7)] False show ?thesis by (simp add: max_def)
qed

lemma rcv_receive_many:
  assumes "hkdf_length c" "ck \<noteq> []" "length peer = 32"
  shows "rcv c peer ck got n s \<Longrightarrow> distinct is \<Longrightarrow> set is \<inter> got = {} \<Longrightarrow> gaps_ok n is \<Longrightarrow>
     receive_many c fresh peer pn is s = map (\<lambda>i. Inr (msg_key c ck i)) is"
proof (induction "is" arbitrary: got n s)
  case (Cons i "is")
  then obtain s' where "dr_decrypt c fresh peer (int i) pn s = (Inr (msg_key c ck i), s')"
    "rcv c peer ck (insert i got) (max n (Suc i)) s'"
    using rcv_decrypt [OF assms, of got n s i fresh pn] by auto
  with Cons show ?case by simp
qed simp

lemma send_many_keys:
  "dh_private s = Some priv \<Longrightarrow> sending_chain_key s = Some (chain_key c ck n) \<Longrightarrow> seq_send s = int n \<Longrightarrow>
   send_many c k s =
     map (\<lambda>i. Inr (msg_key c ck i, dh_public c priv, int i, prev_chain_length s)) [n..<n + k]"
proof (induction k arbitrary: s n)
  case (Suc k)
  then have "dr_encrypt c s = (Inr (msg_key c ck n, dh_public c priv, int n, prev_chain_length s),
      s\<lparr>sending_chain_key := Some (chain_key c ck (Suc n)), seq_send := int (Suc n)\<rparr>)"
    by (simp add: dr_encrypt_def derive_chain del: chain_key.simps)
  with Suc show ?case by (simp add: upt_conv_Cons del: chain_key.simps upt_Suc)
qed simp


definition demo_sender :: session where
  "demo_sender = new_session\<lparr>dh_private := Some (replicate 32 5), sending_chain_key := Some [9]\<rparr>"

definition demo_receiver :: session where
  "demo_receiver = new_session\<lparr>dh_remote := Some (replicate 32 5), receiving_chain_key := Some [9]\<rparr>"


section \<open>Replay\<close>

text \<open>C39: a replayed message is not recognised: once the messages below \<open>n\<close> have been taken, the
  header of one of them makes the receiver answer with the key of message \<open>n\<close>, which has not
  arrived, and move on, so that the genuine message \<open>n\<close> then gets the key of message \<open>n + 1\<close>.\<close>

theorem replay_desync:
  assumes "length peer = 32" "dh_remote s = Some peer" "receiving_chain_key s = Some ck" "ck \<noteq> []"
    and "seq_recv s = int n" "i < n"
    and "map_of (skipped_message_keys s) (skip_name peer (int i)) = None"
    and "map_of (skipped_message_keys s) (skip_name peer (int n)) = None"
    and "hkdf_length c"
  shows "let (r1, s1) = dr_decrypt c fresh peer (int i) pn s;
             (r2, s2) = dr_decrypt c fresh peer (int n) pn s1
         in r1 = Inr (msg_key c ck 0) \<and> r2 = Inr (msg_key c ck 1)"
proof -
  let ?s1 = "s\<lparr>receiving_chain_key := Some (chain_key c ck 1), seq_recv := int n + 1\<rparr>"
  have ne: "chain_key c ck 1 \<noteq> []" by (rule chain_key_nonempty [OF assms(9,4)])
  have l1: "skip_loop c (int i) peer ck s = s" using assms by (subst skip_loop.simps) simp
  have l2: "skip_loop c (int n) peer (chain_key c ck 1) ?s1 = ?s1"
    by (subst skip_loop.simps) simp
  have "dr_decrypt c fresh peer (int i) pn s = (Inr (msg_key c ck 0), ?s1)"
    using assms l1 by (simp add: dr_decrypt_def x25519_key_def take_message_key_def
        skip_messages_def split_beta msg_key_def)
  moreover have "fst (dr_decrypt c fresh peer (int n) pn ?s1) = Inr (msg_key c ck 1)"
    using assms l2 ne
    by (simp add: dr_decrypt_def x25519_key_def take_message_key_def skip_messages_def
        split_beta msg_key_def)
  ultimately show ?thesis by (simp add: split_beta)
qed

theorem replay_desync_witness:
  "fst (dr_decrypt toy_crypto [] (replicate 32 5) 0 0 (demo_receiver\<lparr>seq_recv := 1\<rparr>)) =
     Inr (msg_key toy_crypto [9] 0)"
  using replay_desync [of "replicate 32 5" "demo_receiver\<lparr>seq_recv := 1\<rparr>" "[9]" 1 0 toy_crypto "[]" 0]
    toy_crypto_ok(1)
  by (simp add: demo_receiver_def new_session_def split_beta Let_def)

section \<open>A conversation\<close>

text \<open>
  One turn: \<open>a\<close> sends \<open>k\<close> messages, each of which \<open>b\<close> receives at once; \<open>fresh\<close> is the key
  \<open>b\<close> generates if it ratchets. The log pairs the key used with the key taken.
\<close>

fun turn :: "crypto \<Rightarrow> bytes \<Rightarrow> nat \<Rightarrow> session \<Rightarrow> session \<Rightarrow>
    (bytes py \<times> bytes py) list \<times> session \<times> session" where
  "turn c fresh 0 a b = ([], a, b)"
| "turn c fresh (Suc k) a b =
     (case dr_encrypt c a of
        (Inl e, a') \<Rightarrow> ([(Inl e, Inl e)], a', b)
      | (Inr (mk, pub, seq, pn), a') \<Rightarrow>
          (let (r, b') = dr_decrypt c fresh pub seq pn b;
               (log, a'', b'') = turn c fresh k a' b'
           in ((Inr mk, r) # log, a'', b'')))"

text \<open>The speakers alternate; a turn \<open>(k, fresh)\<close> has \<open>k + 1\<close> messages.\<close>

fun dialogue :: "crypto \<Rightarrow> (nat \<times> bytes) list \<Rightarrow> session \<Rightarrow> session \<Rightarrow> (bytes py \<times> bytes py) list" where
  "dialogue c [] a b = []"
| "dialogue c ((k, fresh) # ts) a b =
     (let (log, a', b') = turn c fresh (Suc k) a b in log @ dialogue c ts b' a')"

definition agrees :: "bytes py \<times> bytes py \<Rightarrow> bool" where
  "agrees e \<longleftrightarrow> (\<exists>mk. e = (Inr mk, Inr mk))"

lemma agreesI [simp]: "agrees (Inr mk, Inr mk)"
  by (simp add: agrees_def)

text \<open>\<open>a\<close> has ratcheted and speaks next; \<open>b\<close> will follow on its first message.\<close>

definition lead :: "crypto \<Rightarrow> bytes \<Rightarrow> bytes \<Rightarrow> session \<Rightarrow> session \<Rightarrow> bool" where
  "lead c pa pb a b \<longleftrightarrow>
     (\<exists>rp out rk ck. dh_private a = Some pa \<and> dh_remote a = Some (dh_public c pb) \<and>
        sending_chain_key a = Some ck \<and> seq_send a = 0 \<and> root_key a = Some rk \<and>
        dh_private b = Some pb \<and> root_key b = Some rp \<and>
        dh_exchange c pa (dh_public c pb) = Some out \<and> kdf_root c rp out = (rk, ck)) \<and>
     dh_remote b \<noteq> Some (dh_public c pa) \<and>
     (receiving_chain_key b = None \<or> prev_chain_length a \<le> seq_recv b) \<and>
     (receiving_chain_key a = None \<or> seq_send b \<le> seq_recv a) \<and>
     skipped_message_keys a = [] \<and> skipped_message_keys b = []"

text \<open>In the middle of a turn, after \<open>j\<close> messages of it.\<close>

definition mid_at :: "crypto \<Rightarrow> bytes \<Rightarrow> bytes \<Rightarrow> bytes \<Rightarrow> nat \<Rightarrow>
    bytes \<times> bytes \<times> bytes \<times> bytes \<times> bytes \<Rightarrow> session \<Rightarrow> session \<Rightarrow> bool" where
  "mid_at c pa pb fresh j = (\<lambda>(ck, rk, out2, rk2, ck2) a b.
     ck \<noteq> [] \<and> dh_private a = Some pa \<and> dh_remote a = Some (dh_public c pb) \<and>
     sending_chain_key a = Some (chain_key c ck j) \<and> seq_send a = int j \<and> root_key a = Some rk \<and>
     dh_private b = Some fresh \<and> dh_remote b = Some (dh_public c pa) \<and>
     receiving_chain_key b = Some (chain_key c ck j) \<and> seq_recv b = int j \<and>
     dh_exchange c fresh (dh_public c pa) = Some out2 \<and> kdf_root c rk out2 = (rk2, ck2) \<and>
     root_key b = Some rk2 \<and> sending_chain_key b = Some ck2 \<and> seq_send b = 0 \<and>
     (receiving_chain_key a = None \<or> prev_chain_length b \<le> seq_recv a) \<and>
     skipped_message_keys a = [] \<and> skipped_message_keys b = [])"

definition mid :: "crypto \<Rightarrow> bytes \<Rightarrow> bytes \<Rightarrow> bytes \<Rightarrow> nat \<Rightarrow> session \<Rightarrow> session \<Rightarrow> bool" where
  "mid c pa pb fresh j a b \<longleftrightarrow> (\<exists>w. mid_at c pa pb fresh j w a b)"

lemma skip_none: "until \<le> seq_recv s \<Longrightarrow> skip_messages c until s = (Inr (), s)"
  by (auto simp: skip_messages_def skip_loop.simps split: option.split)

lemma skip_no_chain: "receiving_chain_key s = None \<Longrightarrow> skip_messages c until s = (Inr (), s)"
  by (simp add: skip_messages_def)

lemma kdf_root_length:
  "hkdf_length c \<Longrightarrow> kdf_root c r out = (rk, ck) \<Longrightarrow> length ck = 32"
  by (auto simp: kdf_root_def hkdf_length_def Let_def)

lemma encrypt_step:
  "dh_private a = Some pa \<Longrightarrow> sending_chain_key a = Some (chain_key c ck j) \<Longrightarrow> seq_send a = int j \<Longrightarrow>
   dr_encrypt c a = (Inr (msg_key c ck j, dh_public c pa, int j, prev_chain_length a),
     a\<lparr>sending_chain_key := Some (chain_key c ck (Suc j)), seq_send := int (Suc j)\<rparr>)"
  by (simp add: dr_encrypt_def derive_chain del: chain_key.simps)

lemma take_step:
  "receiving_chain_key b = Some (chain_key c ck j) \<Longrightarrow> seq_recv b = int j \<Longrightarrow>
   take_message_key c (int j) b = (Inr (msg_key c ck j),
     b\<lparr>receiving_chain_key := Some (chain_key c ck (Suc j)), seq_recv := int (Suc j)\<rparr>)"
  by (simp add: take_message_key_def skip_none derive_chain del: chain_key.simps)

lemma mid_step:
  assumes "dh_keys_ok c" "mid c pa pb fresh j a b"
  shows "\<exists>mk a' b'. dr_encrypt c a = (Inr (mk, dh_public c pa, int j, prev_chain_length a), a') \<and>
     dr_decrypt c f (dh_public c pa) (int j) (prev_chain_length a) b = (Inr mk, b') \<and>
     mid c pa pb fresh (Suc j) a' b'"
proof -
  from assms(2) obtain ck rk out2 rk2 ck2 where w: "mid_at c pa pb fresh j (ck, rk, out2, rk2, ck2) a b"
    unfolding mid_def by auto
  then have m: "ck \<noteq> []" "dh_private a = Some pa" "dh_remote a = Some (dh_public c pb)"
    "sending_chain_key a = Some (chain_key c ck j)" "seq_send a = int j" "root_key a = Some rk"
    "dh_private b = Some fresh" "dh_remote b = Some (dh_public c pa)"
    "receiving_chain_key b = Some (chain_key c ck j)" "seq_recv b = int j"
    "dh_exchange c fresh (dh_public c pa) = Some out2" "kdf_root c rk out2 = (rk2, ck2)"
    "root_key b = Some rk2" "sending_chain_key b = Some ck2"
    and r: "seq_send b = 0" "receiving_chain_key a = None \<or> prev_chain_length b \<le> seq_recv a"
    "skipped_message_keys a = []" "skipped_message_keys b = []"
    unfolding mid_at_def by simp_all
  let ?a = "a\<lparr>sending_chain_key := Some (chain_key c ck (Suc j)), seq_send := int (Suc j)\<rparr>"
  let ?b = "b\<lparr>receiving_chain_key := Some (chain_key c ck (Suc j)), seq_recv := int (Suc j)\<rparr>"
  have "length (dh_public c pa) = 32" using assms(1) by (simp add: dh_keys_ok_def)
  then have "dr_decrypt c f (dh_public c pa) (int j) (prev_chain_length a) b = (Inr (msg_key c ck j), ?b)"
    using m r take_step [OF m(9,10)] by (simp add: dr_decrypt_def x25519_key_def)
  moreover have "mid_at c pa pb fresh (Suc j) (ck, rk, out2, rk2, ck2) ?a ?b"
    using w unfolding mid_at_def by (simp del: chain_key.simps)
  ultimately show ?thesis using encrypt_step [OF m(2,4,5)] unfolding mid_def by blast
qed

lemma lead_step:
  assumes "hkdf_length c" "dh_commutes c" "dh_keys_ok c" "lead c pa pb a b"
  shows "\<exists>mk a' b'. dr_encrypt c a = (Inr (mk, dh_public c pa, 0, prev_chain_length a), a') \<and>
     dr_decrypt c fresh (dh_public c pa) 0 (prev_chain_length a) b = (Inr mk, b') \<and>
     mid c pa pb fresh 1 a' b'"
proof -
  from assms(4) obtain rp out rk ck where l:
    "dh_private a = Some pa" "dh_remote a = Some (dh_public c pb)" "sending_chain_key a = Some ck"
    "seq_send a = 0" "root_key a = Some rk" "dh_private b = Some pb" "root_key b = Some rp"
    "dh_exchange c pa (dh_public c pb) = Some out" "kdf_root c rp out = (rk, ck)"
    and r: "dh_remote b \<noteq> Some (dh_public c pa)"
    "receiving_chain_key b = None \<or> prev_chain_length a \<le> seq_recv b"
    "receiving_chain_key a = None \<or> seq_send b \<le> seq_recv a"
    "skipped_message_keys a = []" "skipped_message_keys b = []"
    unfolding lead_def by blast
  have ck: "ck \<noteq> []" using kdf_root_length [OF assms(1) l(9)] by auto
  have len: "length (dh_public c pa) = 32" using assms(3) by (simp add: dh_keys_ok_def)
  obtain out2 where o2: "dh_exchange c fresh (dh_public c pa) = Some out2"
    using assms(3) unfolding dh_keys_ok_def by blast
  obtain rk2 ck2 where k2: "kdf_root c rk out2 = (rk2, ck2)" by (cases "kdf_root c rk out2") auto
  have comm: "dh_exchange c pb (dh_public c pa) = Some out"
    using assms(2) l(8) by (simp add: dh_commutes_def)
  have skip: "skip_messages c (prev_chain_length a) b = (Inr (), b)"
    using r(2) skip_none skip_no_chain by blast
  let ?b1 = "b\<lparr>dh_remote := Some (dh_public c pa), root_key := Some rk2, receiving_chain_key := Some ck,
     dh_private := Some fresh, sending_chain_key := Some ck2, prev_chain_length := seq_send b,
     seq_send := 0, seq_recv := 0\<rparr>"
  have rat: "dh_ratchet c fresh (dh_public c pa) b = (Inr (), ?b1)"
    using l comm o2 k2 by (simp add: dh_ratchet_def Let_def)
  let ?a = "a\<lparr>sending_chain_key := Some (chain_key c ck 1), seq_send := 1\<rparr>"
  let ?b = "?b1\<lparr>receiving_chain_key := Some (chain_key c ck 1), seq_recv := 1\<rparr>"
  have "take_message_key c 0 ?b1 = (Inr (msg_key c ck 0), ?b)"
    using take_step [of ?b1 c ck 0] by simp
  then have "dr_decrypt c fresh (dh_public c pa) 0 (prev_chain_length a) b = (Inr (msg_key c ck 0), ?b)"
    using r len skip rat by (simp add: dr_decrypt_def x25519_key_def)
  moreover have "dr_encrypt c a = (Inr (msg_key c ck 0, dh_public c pa, 0, prev_chain_length a), ?a)"
    using encrypt_step [of a pa c ck 0] l by simp
  moreover have "mid_at c pa pb fresh 1 (ck, rk, out2, rk2, ck2) ?a ?b"
    unfolding mid_at_def using l r ck o2 k2 by (simp del: chain_key.simps)
  ultimately show ?thesis unfolding mid_def by blast
qed

lemma turn_mid:
  assumes "dh_keys_ok c"
  shows "mid c pa pb fresh j a b \<Longrightarrow>
    \<exists>log a' b'. turn c f k a b = (log, a', b') \<and> list_all agrees log \<and> length log = k \<and>
      mid c pa pb fresh (j + k) a' b'"
proof (induction k arbitrary: j a b)
  case (Suc k)
  from mid_step [OF assms Suc.prems, of f] obtain mk a1 b1 where
    e: "dr_encrypt c a = (Inr (mk, dh_public c pa, int j, prev_chain_length a), a1)"
    and d: "dr_decrypt c f (dh_public c pa) (int j) (prev_chain_length a) b = (Inr mk, b1)"
    and m: "mid c pa pb fresh (Suc j) a1 b1" by blast
  from Suc.IH [OF m] e d show ?case by auto
qed simp

lemma mid_lead:
  assumes "mid c pa pb fresh j a b" "dh_public c fresh \<noteq> dh_public c pb"
  shows "lead c fresh pa b a"
proof -
  from assms(1) obtain ck rk out2 rk2 ck2 where
    w: "mid_at c pa pb fresh j (ck, rk, out2, rk2, ck2) a b"
    unfolding mid_def by auto
  then have m: "dh_private a = Some pa" "dh_remote a = Some (dh_public c pb)" "seq_send a = int j"
    "root_key a = Some rk" "dh_private b = Some fresh" "dh_remote b = Some (dh_public c pa)"
    "seq_recv b = int j" "dh_exchange c fresh (dh_public c pa) = Some out2"
    "kdf_root c rk out2 = (rk2, ck2)" "root_key b = Some rk2" "sending_chain_key b = Some ck2"
    and r: "seq_send b = 0" "receiving_chain_key a = None \<or> prev_chain_length b \<le> seq_recv a"
    "skipped_message_keys a = []" "skipped_message_keys b = []"
    unfolding mid_at_def by simp_all
  show ?thesis
    unfolding lead_def
    by (intro conjI exI [of _ rk] exI [of _ out2] exI [of _ rk2] exI [of _ ck2])
       (use m r assms(2) in simp_all)
qed

text \<open>Every new key pair differs from the one it replaces.\<close>

fun fresh_keys :: "crypto \<Rightarrow> bytes \<Rightarrow> bytes \<Rightarrow> (nat \<times> bytes) list \<Rightarrow> bool" where
  "fresh_keys c pa pb [] = True"
| "fresh_keys c pa pb ((k, fresh) # ts) =
     (dh_public c fresh \<noteq> dh_public c pb \<and> fresh_keys c fresh pa ts)"

lemma lead_dialogue:
  assumes "hkdf_length c" "dh_commutes c" "dh_keys_ok c"
  shows "lead c pa pb a b \<Longrightarrow> fresh_keys c pa pb ts \<Longrightarrow>
    list_all agrees (dialogue c ts a b) \<and> length (dialogue c ts a b) = (\<Sum>(k, f)\<leftarrow>ts. Suc k)"
proof (induction ts arbitrary: pa pb a b)
  case (Cons t ts)
  obtain k fresh where t: "t = (k, fresh)" by (cases t)
  from lead_step [OF assms Cons.prems(1), of fresh] obtain mk a1 b1 where
    e: "dr_encrypt c a = (Inr (mk, dh_public c pa, 0, prev_chain_length a), a1)"
    and d: "dr_decrypt c fresh (dh_public c pa) 0 (prev_chain_length a) b = (Inr mk, b1)"
    and m: "mid c pa pb fresh 1 a1 b1" by blast
  from turn_mid [OF assms(3) m, of fresh k] obtain log a2 b2 where
    l: "turn c fresh k a1 b1 = (log, a2, b2)" "list_all agrees log" "length log = k"
    and m2: "mid c pa pb fresh (1 + k) a2 b2" by blast
  have "lead c fresh pa b2 a2" using Cons.prems(2) t by (intro mid_lead [OF m2]) simp
  from Cons.IH [OF this] Cons.prems(2) t show ?case
    using e d l by simp
qed simp

lemma init_lead:
  assumes "init_alice c pa ss (dh_public c pb) = Inr a" "init_bob ss pb = Inr b"
  shows "lead c pa pb (a\<lparr>kem_ciphertext_b64 := ct\<rparr>) b"
  using assms
  by (auto simp: init_alice_def init_bob_def x25519_key_def lead_def new_session_def
      split: if_splits option.splits prod.splits)

lemma init_alice_total: "dh_keys_ok c \<Longrightarrow> \<exists>a. init_alice c pa ss (dh_public c pb) = Inr a"
  by (auto simp: init_alice_def x25519_key_def dh_keys_ok_def split_beta split: option.split)

lemma init_bob_total: "length pb = 32 \<Longrightarrow> \<exists>b. init_bob ss pb = Inr b"
  by (simp add: init_bob_def x25519_key_def)

text \<open>C3: two sessions initialised with the same secret and Bob's key pair agree for the whole
  conversation: over any number of alternating turns of one or more messages, the receiver takes
  for every message the key the sender used, and no call fails. Relied on: Diffie-Hellman
  commutes, and every generated key differs from the one it replaces.\<close>

theorem conversation_agrees:
  assumes "hkdf_length c" "dh_commutes c" "dh_keys_ok c"
    and "init_alice c pa ss (dh_public c pb) = Inr a" "init_bob ss pb = Inr b"
    and "fresh_keys c pa pb ts"
  shows "list_all agrees (dialogue c ts a b) \<and>
         length (dialogue c ts a b) = (\<Sum>(k, f)\<leftarrow>ts. Suc k)"
proof -
  have "lead c pa pb (a\<lparr>kem_ciphertext_b64 := kem_ciphertext_b64 a\<rparr>) b"
    by (rule init_lead [OF assms(4,5)])
  then have "lead c pa pb a b" by simp
  from lead_dialogue [OF assms(1-3) this assms(6)] show ?thesis .
qed

theorem conversation_agrees_witness:
  "\<exists>a b. init_alice toy_crypto [1] [7] (dh_public toy_crypto (2 # replicate 31 2)) = Inr a \<and>
     init_bob [7] (2 # replicate 31 2) = Inr b \<and>
     list_all agrees (dialogue toy_crypto [(0, [3]), (2, [4]), (1, [5])] a b)"
proof -
  obtain a where a: "init_alice toy_crypto [1] [7] (dh_public toy_crypto (2 # replicate 31 2)) = Inr a"
    using init_alice_total [OF toy_crypto_ok(5)] by blast
  obtain b where b: "init_bob [7] (2 # replicate 31 2) = Inr b"
    using init_bob_total [of "2 # replicate 31 2" "[7]"] by auto
  have "fresh_keys toy_crypto [1] (2 # replicate 31 2) [(0, [3]), (2, [4]), (1, [5])]"
    by (simp add: toy_crypto_def toy_norm_def)
  with conversation_agrees [OF toy_crypto_ok(1,3,5) a b] a b show ?thesis by blast
qed

text \<open>C24: the same with the post-quantum hybrid: when both sides have \<^verbatim>\<open>liboqs\<close>, Bob
  decapsulates the ciphertext Alice's session carries and the two sessions agree for the whole
  conversation; when it is missing on both sides they fall back to X25519 and still agree.\<close>

theorem hybrid_agrees:
  assumes "hkdf_length c" "dh_commutes c" "dh_keys_ok c"
    and "\<forall>k. oqs = Some k \<longrightarrow> kem_correct k \<and> kem_pk = kem_pub k kem_sk"
    and "kem_sk \<noteq> []"
    and "init_alice_pq c oqs pa ss (dh_public c pb) kem_pk = Inr a"
    and "init_bob_pq c oqs ss pb kem_sk
           (case kem_ciphertext_b64 a of Some t \<Rightarrow> the (b64_decode t) | None \<Rightarrow> []) = Inr b"
    and "fresh_keys c pa pb ts"
  shows "list_all agrees (dialogue c ts a b) \<and>
         (kem_ciphertext_b64 a \<noteq> None \<longleftrightarrow> oqs \<noteq> None)"
proof (cases oqs)
  case None
  then obtain a' where a': "init_alice c pa ss (dh_public c pb) = Inr a'"
    "a = a'\<lparr>kem_ciphertext_b64 := None\<rparr>"
    using assms(6) by (auto simp: init_alice_pq_def pq_encapsulate_def split: sum.splits)
  have "init_bob ss pb = Inr b"
    using assms(7) None by (simp add: init_bob_pq_def pq_is_available_def)
  from lead_dialogue [OF assms(1-3) init_lead [OF a'(1) this] assms(8), of None] a' None
  show ?thesis by simp
next
  case (Some k)
  obtain ct sec where e: "kem_encap k kem_pk = (ct, sec)" by (cases "kem_encap k kem_pk")
  then have d: "kem_decap k kem_sk ct = Some sec" "ct \<noteq> []" "sec \<noteq> []"
    using assms(4) Some by (auto simp: kem_correct_def)
  let ?z = "pq_combine c ss sec"
  obtain a' where a': "init_alice c pa ?z (dh_public c pb) = Inr a'"
    "a = a'\<lparr>kem_ciphertext_b64 := Some (b64_encode ct)\<rparr>"
    using assms(6) Some e d by (auto simp: init_alice_pq_def pq_encapsulate_def split: sum.splits)
  then have "init_bob ?z pb = Inr b"
    using assms(5,7) Some d by (simp add: init_bob_pq_def pq_is_available_def pq_decapsulate_def)
  from lead_dialogue [OF assms(1-3) init_lead [OF a'(1) this] assms(8), of "Some (b64_encode ct)"] a' Some
  show ?thesis by simp
qed

definition toy_kem :: kem where
  "toy_kem = \<lparr>kem_encap = (\<lambda>pk. (1 # pk, 2 # pk)),
     kem_decap = (\<lambda>sk ct. Some (2 # drop 1 ct)), kem_pub = (\<lambda>sk. sk)\<rparr>"

theorem hybrid_agrees_witness:
  "\<exists>a b. init_alice_pq toy_crypto (Some toy_kem) [1] [7] (dh_public toy_crypto (2 # replicate 31 2)) [8] = Inr a \<and>
     list_all agrees (dialogue toy_crypto [(1, [3]), (0, [4])] a b)"
proof -
  let ?pb = "2 # replicate 31 (2 :: byte)"
  have k: "kem_correct toy_kem" by (simp add: kem_correct_def toy_kem_def)
  obtain a where a: "init_alice_pq toy_crypto (Some toy_kem) [1] [7] (dh_public toy_crypto ?pb) [8] = Inr a"
    using init_alice_total [OF toy_crypto_ok(5), of "[1]" _ ?pb]
    by (auto simp: init_alice_pq_def pq_encapsulate_def toy_kem_def)
       (metis old.sum.simps(6))
  obtain b where b: "init_bob_pq toy_crypto (Some toy_kem) [7] ?pb [8]
       (case kem_ciphertext_b64 a of Some t \<Rightarrow> the (b64_decode t) | None \<Rightarrow> []) = Inr b"
    by (simp add: init_bob_pq_def init_bob_def x25519_key_def)
  have "fresh_keys toy_crypto [1] ?pb [(1, [3]), (0, [4])]"
    by (simp add: toy_crypto_def toy_norm_def)
  moreover have "\<forall>k. Some toy_kem = Some k \<longrightarrow> kem_correct k \<and> [8] = kem_pub k [8]"
    using k by (auto simp: toy_kem_def)
  ultimately have "list_all agrees (dialogue toy_crypto [(1, [3]), (0, [4])] a b)"
    using hybrid_agrees [OF toy_crypto_ok(1,3,5) _ _ a b] by blast
  with a show ?thesis by blast
qed

section \<open>Storage\<close>

definition storable :: "session \<Rightarrow> bool" where
  "storable s \<longleftrightarrow>
     (\<forall>b. dh_private s = Some b \<longrightarrow> length b = 32) \<and> (\<forall>b. dh_remote s = Some b \<longrightarrow> length b = 32) \<and>
     root_key s \<noteq> Some [] \<and> sending_chain_key s \<noteq> Some [] \<and> receiving_chain_key s \<noteq> Some [] \<and>
     distinct (map fst (skipped_message_keys s))"

lemma load_opt_hex:
  "b \<noteq> Some [] \<Longrightarrow> json_get j k = Some (opt_hex b) \<Longrightarrow> load_bytes from_hex j k = Inr b"
  by (cases b; cases "the b") (simp_all add: load_bytes_def opt_hex_def json_truthy_def del: to_hex.simps)

lemma load_opt_b64:
  assumes "\<forall>x. b = Some x \<longrightarrow> length x = 32" "json_get j k = Some (opt_b64 b)"
  shows "load_key j k = Inr b"
proof (cases b)
  case None
  with assms(2) show ?thesis by (simp add: load_key_def load_bytes_def opt_b64_def json_truthy_def)
next
  case (Some x)
  with assms(1) obtain y ys where x: "x = y # ys" by (cases x) auto
  with assms Some show ?thesis
    by (simp add: load_key_def load_bytes_def opt_b64_def json_truthy_def x25519_key_def
        del: b64_encode.simps)
qed

lemma load_strings_map: "load_strings (map (\<lambda>(k, v). (k, JStr v)) d) = Some d"
  by (induction d) auto

lemma map_fst_JStr: "map (fst \<circ> (\<lambda>(k, v). (k, JStr v))) d = map fst d"
  by (induction d) auto

lemma plain_opt: "plain_json (opt_hex b)" "plain_json (opt_b64 b)"
  by (auto simp: opt_hex_def opt_b64_def split: option.splits list.splits)

lemma json_dumps_obj_not_Nil [simp]: "json_dumps (JObj kvs) \<noteq> []"
  by simp

text \<open>C27: a session written to the database with \<^verbatim>\<open>to_json\<close> and read back with
  \<^verbatim>\<open>from_json\<close> is the session that was written, counters, chain keys and skipped keys
  included, except for the ML-KEM ciphertext, which the text does not hold.\<close>

theorem session_json_roundtrip:
  assumes "storable s"
  shows "from_json (to_json s) = Inr (Some (s\<lparr>kem_ciphertext_b64 := None\<rparr>))"
proof -
  define j where "j = JObj [
     (''dh_private_b64'', opt_b64 (dh_private s)),
     (''dh_remote_b64'', opt_b64 (dh_remote s)),
     (''root_key_hex'', opt_hex (root_key s)),
     (''sending_chain_key_hex'', opt_hex (sending_chain_key s)),
     (''receiving_chain_key_hex'', opt_hex (receiving_chain_key s)),
     (''seq_send'', JInt (seq_send s)),
     (''seq_recv'', JInt (seq_recv s)),
     (''prev_chain_length'', JInt (prev_chain_length s)),
     (''skipped_message_keys'', JObj (map (\<lambda>(k, v). (k, JStr v)) (skipped_message_keys s)))]"
  have "plain_json j"
    using assms by (auto simp: j_def plain_opt storable_def map_fst_JStr)
  then have parse: "json_loads (to_json s) = Some j"
    using loads_dumps [of j] by (simp only: to_json_def j_def)
  have st: "load_key j ''dh_private_b64'' = Inr (dh_private s)"
    "load_key j ''dh_remote_b64'' = Inr (dh_remote s)"
    "load_bytes from_hex j ''root_key_hex'' = Inr (root_key s)"
    "load_bytes from_hex j ''sending_chain_key_hex'' = Inr (sending_chain_key s)"
    "load_bytes from_hex j ''receiving_chain_key_hex'' = Inr (receiving_chain_key s)"
    using assms by (auto simp: storable_def j_def json_get_def intro!: load_opt_b64 load_opt_hex)
  have ints: "load_int j ''seq_send'' = Inr (seq_send s)" "load_int j ''seq_recv'' = Inr (seq_recv s)"
    "load_int j ''prev_chain_length'' = Inr (prev_chain_length s)"
    "load_dict j ''skipped_message_keys'' = Inr (skipped_message_keys s)"
    by (simp_all add: j_def load_int_def load_dict_def json_get_def load_strings_map)
  have "to_json s \<noteq> []" by (simp add: to_json_def)
  then show ?thesis
    by (simp add: from_json_def parse st ints new_session_def)
qed

theorem session_json_roundtrip_witness:
  "from_json (to_json demo_sender) = Inr (Some (demo_sender\<lparr>kem_ciphertext_b64 := None\<rparr>))"
  by (rule session_json_roundtrip) (simp add: storable_def demo_sender_def new_session_def)

end
