(* ===== verification/Layered.thy ===== *)
theory Layered
  imports Ratchet_Theorems
begin

text \<open>
  The layered encryption of \<^verbatim>\<open>core/protocol.py\<close>: the double ratchet inside, the NaCl
  box outside. Both functions return their result with the session they leave behind: a failure
  after the ratchet step has already advanced it.
\<close>

record v2_payload =
  nacl_nonce :: string
  nacl_ciphertext :: string
  dr_dh_public :: string
  dr_seq :: int
  dr_pn :: int

definition encrypt_message_v2 ::
    "crypto \<Rightarrow> (nat \<Rightarrow> bytes) \<Rightarrow> bytes \<Rightarrow> bytes \<Rightarrow> session \<Rightarrow> string \<Rightarrow> string \<Rightarrow> string \<Rightarrow>
     bytes \<Rightarrow> bytes \<Rightarrow> v2_payload py \<times> session" where
  "encrypt_message_v2 c rnd iv nonce dr plaintext role session_id my_priv peer_pub =
     (case dr_encrypt c dr of
        (Inl e, dr) \<Rightarrow> (Inl e, dr)
      | (Inr (message_key, pub, seq, pn), dr) \<Rightarrow>
          (case pad_plaintext rnd plaintext of
             Inl e \<Rightarrow> (Inl e, dr)
           | Inr padded \<Rightarrow>
               (case construct_aad role seq session_id 2 of
                  Inl e \<Rightarrow> (Inl e, dr)
                | Inr aad \<Rightarrow>
                    (case aead_seal c message_key iv padded aad of
                       None \<Rightarrow> (Inl CryptoError, dr)
                     | Some inner \<Rightarrow>
                         (case cryptobox_encrypt c nonce (iv @ inner) my_priv peer_pub of
                            Inl e \<Rightarrow> (Inl e, dr)
                          | Inr (ct, n) \<Rightarrow>
                              (Inr \<lparr>nacl_nonce = b64_encode n, nacl_ciphertext = b64_encode ct,
                                 dr_dh_public = b64_encode pub, dr_seq = seq, dr_pn = pn\<rparr>, dr))))))"

definition decrypt_message_v2 ::
    "crypto \<Rightarrow> bytes \<Rightarrow> session \<Rightarrow> v2_payload \<Rightarrow> string \<Rightarrow> string \<Rightarrow> bytes \<Rightarrow> bytes \<Rightarrow>
     string py \<times> session" where
  "decrypt_message_v2 c fresh dr p role session_id my_priv peer_pub =
     (case (b64_decode (nacl_nonce p), b64_decode (nacl_ciphertext p), b64_decode (dr_dh_public p)) of
        (Some n, Some ct, Some pub) \<Rightarrow>
          (case cryptobox_decrypt c ct n peer_pub my_priv of
             Inl e \<Rightarrow> (Inl e, dr)
           | Inr inner_payload \<Rightarrow>
               (case dr_decrypt c fresh pub (dr_seq p) (dr_pn p) dr of
                  (Inl e, dr) \<Rightarrow> (Inl e, dr)
                | (Inr message_key, dr) \<Rightarrow>
                    (case construct_aad role (dr_seq p) session_id 2 of
                       Inl e \<Rightarrow> (Inl e, dr)
                     | Inr aad \<Rightarrow>
                         (case aead_open c message_key (take 12 inner_payload) (drop 12 inner_payload) aad of
                            None \<Rightarrow> (Inl CryptoError, dr)
                          | Some decrypted \<Rightarrow> (unframe decrypted, dr)))))
      | _ \<Rightarrow> (Inl (ValueError ''base64''), dr))"

lemma v2_delivers:
  assumes "aead_correct c" "box_correct c" "\<forall>n. length (rnd n) = n" "length iv = 12"
    and "length (utf8_encode t) < 2 ^ 32"
    and "encrypt_message_v2 c rnd iv nonce a t role sid xa (dh_public c xb) = (Inr p, a')"
    and "dr_encrypt c a = (Inr (mk, pub, seq, pn), a2)"
    and "dr_decrypt c fresh pub seq pn b = (Inr mk, b')"
  shows "decrypt_message_v2 c fresh b p role sid xb (dh_public c xa) = (Inr t, b')"
proof -
  from assms(6,7) obtain padded aad inner ct n where
    pad: "pad_plaintext rnd t = Inr padded" and aad: "construct_aad role seq sid 2 = Inr aad"
    and seal: "aead_seal c mk iv padded aad = Some inner"
    and box: "cryptobox_encrypt c nonce (iv @ inner) xa (dh_public c xb) = Inr (ct, n)"
    and p: "p = \<lparr>nacl_nonce = b64_encode n, nacl_ciphertext = b64_encode ct,
                  dr_dh_public = b64_encode pub, dr_seq = seq, dr_pn = pn\<rparr>"
    by (auto simp: encrypt_message_v2_def split: sum.splits option.splits prod.splits)
  have "cryptobox_decrypt c ct n (dh_public c xa) xb = Inr (iv @ inner)"
    by (rule cryptobox_roundtrip [OF assms(2) box])
  moreover have "aead_open c mk iv inner aad = Some padded"
    using assms(1) seal by (simp add: aead_correct_def)
  ultimately show ?thesis
    using aad assms(4,8) unframe_padded [OF assms(3,5) pad]
    by (simp add: decrypt_message_v2_def p)
qed

text \<open>The texts of one turn, sealed by \<open>a\<close> and opened by \<open>b\<close> one after the other.\<close>

fun speak :: "crypto \<Rightarrow> (nat \<Rightarrow> bytes) \<Rightarrow> bytes \<Rightarrow> bytes \<Rightarrow> bytes \<Rightarrow> string \<Rightarrow> string \<Rightarrow> bytes \<Rightarrow> bytes \<Rightarrow>
    string list \<Rightarrow> session \<Rightarrow> session \<Rightarrow> string py list" where
  "speak c rnd iv nonce fresh role sid xa xb [] a b = []"
| "speak c rnd iv nonce fresh role sid xa xb (t # ts) a b =
     (case encrypt_message_v2 c rnd iv nonce a t role sid xa (dh_public c xb) of
        (Inl e, a') \<Rightarrow> [Inl e]
      | (Inr p, a') \<Rightarrow>
          (let (r, b') = decrypt_message_v2 c fresh b p role sid xb (dh_public c xa)
           in r # speak c rnd iv nonce fresh role sid xa xb ts a' b'))"

definition seals :: "crypto \<Rightarrow> bool" where
  "seals c \<longleftrightarrow> (\<forall>k n p a. aead_seal c k n p a \<noteq> None)"

definition boxes :: "crypto \<Rightarrow> bool" where
  "boxes c \<longleftrightarrow> (\<forall>x y p n. length n = 24 \<longrightarrow> box_seal c x (dh_public c y) p n \<noteq> None)"

lemma v2_encrypts:
  assumes "seals c" "boxes c" "\<forall>n. length (rnd n) = n" "length nonce = 24"
    and "length (utf8_encode t) < 2 ^ 32"
    and "dr_encrypt c a = (Inr (mk, pub, seq, pn), a2)" "0 \<le> seq" "seq < 2 ^ 32"
  shows "\<exists>p. encrypt_message_v2 c rnd iv nonce a t role sid xa (dh_public c xb) = (Inr p, a2)"
proof -
  obtain padded where pad: "pad_plaintext rnd t = Inr padded"
    using pad_plaintext_ok [OF assms(3,5)] by metis
  obtain aad where aad: "construct_aad role seq sid 2 = Inr aad"
    using aad_exists assms(7,8) by blast
  obtain inner where inner: "aead_seal c mk iv padded aad = Some inner"
    using assms(1) unfolding seals_def by blast
  obtain comb where "box_seal c xa (dh_public c xb) (iv @ inner) nonce = Some comb"
    using assms(2,4) unfolding boxes_def by blast
  with pad aad inner assms(6) show ?thesis
    by (simp add: encrypt_message_v2_def cryptobox_encrypt_def)
qed

lemma speak_mid:
  assumes "aead_correct c" "box_correct c" "seals c" "boxes c" "dh_keys_ok c"
    and "\<forall>n. length (rnd n) = n" "length iv = 12" "length nonce = 24"
  shows "mid c pa pb f j a b \<Longrightarrow> \<forall>t\<in>set ts. length (utf8_encode t) < 2 ^ 32 \<Longrightarrow>
     j + length ts < 2 ^ 32 \<Longrightarrow>
     speak c rnd iv nonce fresh role sid xa xb ts a b = map Inr ts"
proof (induction ts arbitrary: j a b)
  case (Cons t ts)
  from mid_step [OF assms(5) Cons.prems(1), of fresh] obtain mk a' b' where
    e: "dr_encrypt c a = (Inr (mk, dh_public c pa, int j, prev_chain_length a), a')"
    and d: "dr_decrypt c fresh (dh_public c pa) (int j) (prev_chain_length a) b = (Inr mk, b')"
    and m: "mid c pa pb f (Suc j) a' b'" by blast
  have t: "length (utf8_encode t) < 2 ^ 32" using Cons.prems(2) by simp
  have "\<exists>p. encrypt_message_v2 c rnd iv nonce a t role sid xa (dh_public c xb) = (Inr p, a')"
    by (rule v2_encrypts [OF assms(3,4,6,8) t e]) (use Cons.prems(3) in auto)
  then obtain p where
    p: "encrypt_message_v2 c rnd iv nonce a t role sid xa (dh_public c xb) = (Inr p, a')" by blast
  have "decrypt_message_v2 c fresh b p role sid xb (dh_public c xa) = (Inr t, b')"
    by (rule v2_delivers [OF assms(1,2,6,7) t p e d])
  with p Cons.IH [OF m] Cons.prems show ?case by simp
qed simp


lemma toy_seals: "seals toy_crypto" "boxes toy_crypto"
  by (simp_all add: seals_def boxes_def toy_crypto_def)


end
