(* ===== verification/Session_Cache.thy ===== *)
theory Session_Cache
  imports Double_Ratchet
begin

text \<open>
  The contract of \<^verbatim>\<open>DRSessionCache\<close> (\<^verbatim>\<open>core/double_ratchet.py\<close>): it is a
  least-recently-used cache. The operations are in \<open>Double_Ratchet\<close>.
\<close>

section \<open>The session cache is least-recently-used\<close>

text \<open>How the cache is used: look the peer up, and load and store its session on a miss.\<close>

definition cache_access :: "(string \<Rightarrow> 'v) \<Rightarrow> string \<Rightarrow> 'v lru \<Rightarrow> 'v lru" where
  "cache_access load k m = (case cache_get k m of
      (Some _, m') \<Rightarrow> m'
    | (None, m') \<Rightarrow> cache_put k (load k) m')"

text \<open>The peers ordered by their last use, the latest one last.\<close>

definition touch :: "string \<Rightarrow> string list \<Rightarrow> string list" where
  "touch k ks = filter (\<lambda>x. x \<noteq> k) ks @ [k]"

lemma pop_oldest_take_last: "pop_oldest n d = take_last n d"
proof (induction d)
  case (Cons e d)
  show ?case
  proof (cases "n < length (e # d)")
    case True
    then have "length (e # d) - n = Suc (length d - n)" by simp
    with True Cons show ?thesis by (simp add: take_last_def)
  next
    case False
    then show ?thesis by (simp add: take_last_def)
  qed
qed (simp add: take_last_def)

lemma delete_map_load:
  "AList.delete k (map (\<lambda>x. (x, f x)) ks) = map (\<lambda>x. (x, f x)) (filter (\<lambda>x. x \<noteq> k) ks)"
  by (induction ks) auto

lemma map_of_map_load: "map_of (map (\<lambda>x. (x, f x)) ks) k = (if k \<in> set ks then Some (f k) else None)"
  by (induction ks) auto

lemma move_map_load:
  "k \<in> set ks \<Longrightarrow> move_to_end k (map (\<lambda>x. (x, f x)) ks) = map (\<lambda>x. (x, f x)) (touch k ks)"
  by (simp add: move_to_end_def map_of_map_load delete_map_load touch_def)

lemma update_map_load:
  "k \<notin> set ks \<Longrightarrow> AList.update k (f k) (map (\<lambda>x. (x, f x)) ks) = map (\<lambda>x. (x, f x)) (ks @ [k])"
  by (induction ks) auto

lemma take_last_map: "take_last n (map f xs) = map f (take_last n xs)"
  by (simp add: take_last_def drop_map)

lemma take_last_append: "length ys = n \<Longrightarrow> take_last n (xs @ ys) = ys"
  by (simp add: take_last_def)

lemma take_last_split: "\<exists>ps. xs = ps @ take_last n xs"
  by (metis append_take_drop_id take_last_def)

lemma touch_distinct: "distinct ks \<Longrightarrow> distinct (touch k ks)"
  by (simp add: touch_def)

lemma length_filter_other:
  assumes "distinct xs" "k \<in> set xs"
  shows "length (filter (\<lambda>x. x \<noteq> k) xs) = length xs - 1"
proof -
  have "length (filter (\<lambda>x. x \<noteq> k) xs) = card (set (filter (\<lambda>x. x \<noteq> k) xs))"
    using assms(1) by (metis distinct_card distinct_filter)
  also have "set (filter (\<lambda>x. x \<noteq> k) xs) = set xs - {k}" by auto
  finally show ?thesis using assms by (simp add: distinct_card)
qed

lemma touch_take_last_hit:
  assumes "distinct ks" "k \<in> set (take_last n ks)"
  shows "touch k (take_last n ks) = take_last n (touch k ks)"
proof (cases "length ks \<le> n")
  case True
  have "length (filter (\<lambda>x. x \<noteq> k) ks) < length ks"
    using assms(2) True by (intro length_filter_less [of k]) (simp_all add: take_last_all)
  with True show ?thesis by (simp add: take_last_all touch_def)
next
  case False
  obtain ps where ks: "ks = ps @ take_last n ks" using take_last_split by blast
  let ?e = "take_last n ks"
  have "distinct (ps @ ?e)" using assms(1) ks by simp
  then have "k \<notin> set ps" "distinct ?e" using assms(2) by auto
  then have "filter (\<lambda>x. x \<noteq> k) ps = ps" by (auto intro: filter_True)
  then have t: "touch k ks = ps @ touch k ?e" by (subst ks) (simp add: touch_def)
  have "length (filter (\<lambda>x. x \<noteq> k) ?e) = length ?e - 1"
    by (rule length_filter_other [OF \<open>distinct ?e\<close> assms(2)])
  moreover have "length ?e = n" using False by simp
  moreover have "0 < length ?e" using assms(2) by (cases ?e) simp_all
  ultimately have "length (touch k ?e) = n" by (simp add: touch_def)
  with t show ?thesis by (simp add: take_last_append)
qed

lemma touch_take_last_miss:
  assumes "0 < n" "k \<notin> set (take_last n ks)"
  shows "take_last n (take_last n ks @ [k]) = take_last n (touch k ks)"
proof (cases "length ks \<le> n")
  case True
  then have "filter (\<lambda>x. x \<noteq> k) ks = ks" using assms(2) by (auto simp: take_last_all intro: filter_True)
  with True show ?thesis by (simp add: take_last_all touch_def)
next
  case False
  obtain ps where ks: "ks = ps @ take_last n ks" using take_last_split by blast
  let ?e = "take_last n ks"
  have "filter (\<lambda>x. x \<noteq> k) ?e = ?e" using assms(2) by (auto intro: filter_True)
  then have t: "touch k ks = filter (\<lambda>x. x \<noteq> k) ps @ ?e @ [k]" by (subst ks) (simp add: touch_def)
  have n: "length ?e = n" using False by simp
  then obtain e es where e: "?e = e # es" using assms(1) by (cases ?e) auto
  have "take_last n (ys @ e # es @ [k]) = es @ [k]" for ys
    using take_last_append [of "es @ [k]" n "ys @ [e]"] n e by simp
  from this [of "[]"] this [of "filter (\<lambda>x. x \<noteq> k) ps"] show ?thesis by (simp add: t e)
qed

lemma access_step:
  assumes "distinct ks" "lru_entries m = map (\<lambda>x. (x, load x)) (take_last n ks)"
    and "lru_capacity m = n" "0 < n"
  shows "lru_entries (cache_access load k m) = map (\<lambda>x. (x, load x)) (take_last n (touch k ks)) \<and>
     lru_capacity (cache_access load k m) = n"
proof (cases "k \<in> set (take_last n ks)")
  case True
  with assms show ?thesis
    by (simp add: cache_access_def cache_get_def map_of_map_load move_map_load touch_take_last_hit)
next
  case False
  let ?e = "take_last n ks"
  have "move_to_end k (AList.update k (load k) (map (\<lambda>x. (x, load x)) ?e)) =
      map (\<lambda>x. (x, load x)) (?e @ [k])"
  proof -
    have "touch k (?e @ [k]) = ?e @ [k]" using False by (auto simp: touch_def filter_id_conv)
    with False move_map_load [of k "?e @ [k]" load] show ?thesis by (simp add: update_map_load)
  qed
  with False assms show ?thesis
    by (simp add: cache_access_def cache_get_def map_of_map_load cache_put_def
        pop_oldest_take_last take_last_map touch_take_last_miss del: map_append)
qed

text \<open>The session cache is a least-recently-used cache: after any sequence of accesses it holds
  exactly the sessions of the latest distinct peers, as many as its capacity (at least one),
  ordered by their last use.\<close>

theorem cache_is_lru:
  "lru_entries (fold (cache_access load) ks (cache_new cap)) =
     map (\<lambda>k. (k, load k)) (take_last (max 1 cap) (fold touch ks []))"
proof -
  let ?m = "\<lambda>ks. fold (cache_access load) ks (cache_new cap)"
  have "distinct (fold touch ks []) \<and> lru_capacity (?m ks) = max 1 cap \<and>
      lru_entries (?m ks) = map (\<lambda>k. (k, load k)) (take_last (max 1 cap) (fold touch ks []))"
  proof (induction ks rule: rev_induct)
    case Nil
    then show ?case by (simp add: cache_new_def take_last_def)
  next
    case (snoc k ks)
    with access_step [of "fold touch ks []" "?m ks" load "max 1 cap" k]
    show ?case by (simp add: touch_distinct)
  qed
  then show ?thesis by blast
qed

end
