(* ===== verification/Sdk_Client.thy ===== *)
theory Sdk_Client
  imports Protocol
begin

text \<open>
  The message keys of the Python client SDK, \<^verbatim>\<open>core/sdk.py\<close>: the two chains it derives
  from a contact's shared secret, and how it encrypts, decrypts what arrives and decrypts the
  history. HTTP, CSRF tokens and the socket connection are left out; what
  \<^verbatim>\<open>/api/messages\<close> returns enters as the length of the history.
\<close>

record chain_pair =
  send_chain_key :: bytes
  recv_chain_key :: bytes

record sdk =
  is_logged_in :: bool
  chain_keys :: "string \<rightharpoonup> chain_pair"
  session_ids :: "string \<rightharpoonup> string"

text \<open>\<^verbatim>\<open>init_contact_session\<close>; \<open>None\<close> is an undecodable shared secret.\<close>

definition init_contact_session ::
    "crypto \<Rightarrow> string \<Rightarrow> string \<Rightarrow> string \<Rightarrow> string \<Rightarrow> sdk \<Rightarrow> sdk option" where
  "init_contact_session c onion shared_secret_b64 my_pub peer_pub s =
     (case b64_decode shared_secret_b64 of
        None \<Rightarrow> None
      | Some secret \<Rightarrow>
          (let client_chain = hkdf_derive c secret (utf8_encode ''AnonyMus-Client-To-Server-Key'') zeros32;
               server_chain = hkdf_derive c secret (utf8_encode ''AnonyMus-Server-To-Client-Key'') zeros32;
               is_alice = str_less my_pub peer_pub
           in Some (s\<lparr>chain_keys := (chain_keys s)(onion \<mapsto>
                  \<lparr>send_chain_key = (if is_alice then client_chain else server_chain),
                   recv_chain_key = (if is_alice then server_chain else client_chain)\<rparr>),
                session_ids := (session_ids s)(onion \<mapsto> compute_safety_number my_pub peer_pub)\<rparr>)))"

text \<open>
  \<^verbatim>\<open>send_message\<close> up to the request it posts: the sequence number is the number of
  messages \<^verbatim>\<open>get_messages\<close> returned, which asks for at most 100. The chain has moved on
  even when the encryption then fails.
\<close>

definition history_limit :: nat where "history_limit = 100"

definition send_message ::
    "crypto \<Rightarrow> (nat \<Rightarrow> bytes) \<Rightarrow> bytes \<Rightarrow> nat \<Rightarrow> string \<Rightarrow> string \<Rightarrow> sdk \<Rightarrow>
     (string \<times> string \<times> int) option \<times> sdk" where
  "send_message c rnd iv stored onion text s =
     (if \<not> is_logged_in s then (None, s)
      else case chain_keys s onion of
        None \<Rightarrow> (None, s)
      | Some keys \<Rightarrow>
          (let seq = int (min history_limit stored);
               (message_key, next_chain_key) = derive_chain_keys c (send_chain_key keys);
               s = s\<lparr>chain_keys := (chain_keys s)(onion \<mapsto> keys\<lparr>send_chain_key := next_chain_key\<rparr>)\<rparr>
           in case session_ids s onion of
                None \<Rightarrow> (None, s)
              | Some sid \<Rightarrow>
                  (case encrypt_message c rnd iv message_key text ''me'' seq sid of
                     Inl _ \<Rightarrow> (None, s)
                   | Inr (iv_b64, ct_b64) \<Rightarrow> (Some (iv_b64, ct_b64, seq), s))))"

definition decrypt_incoming ::
    "crypto \<Rightarrow> string \<Rightarrow> string \<Rightarrow> string \<Rightarrow> int \<Rightarrow> sdk \<Rightarrow> string option \<times> sdk" where
  "decrypt_incoming c sender iv ct seq s =
     (case chain_keys s sender of
        None \<Rightarrow> (None, s)
      | Some keys \<Rightarrow>
          (let (message_key, next_chain_key) = derive_chain_keys c (recv_chain_key keys);
               s = s\<lparr>chain_keys := (chain_keys s)(sender \<mapsto> keys\<lparr>recv_chain_key := next_chain_key\<rparr>)\<rparr>
           in case session_ids s sender of
                None \<Rightarrow> (None, s)
              | Some sid \<Rightarrow>
                  (case decrypt_message c message_key iv ct ''peer'' seq sid of
                     Inl _ \<Rightarrow> (None, s)
                   | Inr text \<Rightarrow> (Some text, s))))"

text \<open>The \<^verbatim>\<open>seq + 1\<close> steps of \<^verbatim>\<open>decrypt_historical\<close>: the last message key.\<close>

fun walk_chain :: "crypto \<Rightarrow> nat \<Rightarrow> bytes \<Rightarrow> bytes" where
  "walk_chain c 0 k = fst (derive_chain_keys c k)"
| "walk_chain c (Suc n) k = walk_chain c n (snd (derive_chain_keys c k))"

definition decrypt_historical ::
    "crypto \<Rightarrow> string \<Rightarrow> string \<Rightarrow> string \<Rightarrow> int \<Rightarrow> string \<Rightarrow> sdk \<Rightarrow> string option" where
  "decrypt_historical c onion iv ct seq role s =
     (case (chain_keys s onion, session_ids s onion) of
        (Some keys, Some sid) \<Rightarrow>
          (let base = (if role = ''me'' then send_chain_key keys else recv_chain_key keys)
           in if seq < 0 then None     \<comment> \<open>no step: the key variable is unbound\<close>
              else (case decrypt_message c (walk_chain c (nat seq) base) iv ct role seq sid of
                      Inl _ \<Rightarrow> None | Inr t \<Rightarrow> Some t))
      | _ \<Rightarrow> None)"

section \<open>Two clients\<close>

lemma aads_differ:
  "construct_aad ''me'' seq sid 2 = Inr a \<Longrightarrow> construct_aad ''peer'' seq sid 2 = Inr b \<Longrightarrow> a \<noteq> b"
  by (auto simp: aad_v2 utf8_encode_def utf8_char_def code_def nat_byte_def)

text \<open>Two SDK clients cannot read each other: what one client encrypts with
  \<^verbatim>\<open>send_message\<close> (role \<^verbatim>\<open>me\<close>) no client decrypts with
  \<^verbatim>\<open>decrypt_incoming\<close> (role \<^verbatim>\<open>peer\<close>), even with the same chain key and
  session id, because the role byte is in the authenticated data.\<close>

theorem sdk_incoming_fails:
  assumes "aead_binds c"
    and "send_message c rnd iv stored bob text a = (Some (iv_b64, ct_b64, seq), a')"
    and "chain_keys a bob = Some ka" "chain_keys b alice = Some kb"
    and "recv_chain_key kb = send_chain_key ka" "session_ids b alice = session_ids a bob"
  shows "fst (decrypt_incoming c alice iv_b64 ct_b64 seq b) = None"
proof -
  obtain mk ck where d: "derive_chain_keys c (send_chain_key ka) = (mk, ck)"
    by (cases "derive_chain_keys c (send_chain_key ka)")
  obtain sid where sid: "session_ids a bob = Some sid"
    and e: "encrypt_message c rnd iv mk text ''me'' seq sid = Inr (iv_b64, ct_b64)"
    using assms(2,3) d
    by (auto simp: send_message_def Let_def split: if_splits option.splits sum.splits)
  obtain padded aad ct where aad: "construct_aad ''me'' seq sid 2 = Inr aad"
    and seal: "aead_seal c mk iv padded aad = Some ct"
    and out: "iv_b64 = b64_encode iv" "ct_b64 = b64_encode ct"
    using e by (auto simp: encrypt_message_def split: sum.splits option.splits)
  have "decrypt_message c mk iv_b64 ct_b64 ''peer'' seq sid = Inl CryptoError"
  proof -
    obtain aad' where aad': "construct_aad ''peer'' seq sid 2 = Inr aad'"
      using aad aad_exists [of seq "''peer''" sid] by (auto simp: aad_v2)
    have "aead_open c mk iv ct aad' = None"
      using assms(1) seal aads_differ [OF aad aad'] unfolding aead_binds_def by blast
    with aad' out show ?thesis by (simp add: decrypt_message_def)
  qed
  with d sid assms(4-6) show ?thesis by (simp add: decrypt_incoming_def)
qed

definition sdk_demo :: sdk where
  "sdk_demo = \<lparr>is_logged_in = True,
     chain_keys = [''peer.onion'' \<mapsto> \<lparr>send_chain_key = [1], recv_chain_key = [1]\<rparr>],
     session_ids = [''peer.onion'' \<mapsto> ''12345'']\<rparr>"

theorem sdk_incoming_fails_witness:
  "\<exists>iv_b64 ct_b64 seq a'.
     send_message toy_crypto (\<lambda>n. replicate n 0) [7] 0 ''peer.onion'' ''hi'' sdk_demo =
       (Some (iv_b64, ct_b64, seq), a') \<and>
     fst (decrypt_incoming toy_crypto ''peer.onion'' iv_b64 ct_b64 seq sdk_demo) = None"
proof -
  have "\<exists>x. encrypt_message toy_crypto (\<lambda>n. replicate n 0) [7]
      (fst (derive_chain_keys toy_crypto [1])) ''hi'' ''me'' 0 ''12345'' = Inr x"
  proof -
    have len: "length (utf8_encode ''hi'') < 2 ^ 32"
      by (simp add: utf8_encode_def utf8_char_def code_def)
    obtain p where "pad_plaintext (\<lambda>n. replicate n 0) ''hi'' = Inr p"
      using pad_plaintext_ok [of "\<lambda>n. replicate n 0", OF _ len] by auto
    moreover obtain a where "construct_aad ''me'' 0 ''12345'' 2 = Inr a"
      using aad_exists [of 0] by auto
    ultimately show ?thesis by (simp add: encrypt_message_def toy_crypto_def)
  qed
  then obtain x y where "encrypt_message toy_crypto (\<lambda>n. replicate n 0) [7]
      (fst (derive_chain_keys toy_crypto [1])) ''hi'' ''me'' 0 ''12345'' = Inr (x, y)" by auto
  then have "\<exists>a'. send_message toy_crypto (\<lambda>n. replicate n 0) [7] 0 ''peer.onion'' ''hi'' sdk_demo =
      (Some (x, y, 0), a')"
    by (simp add: send_message_def sdk_demo_def split_beta)
  then obtain a' where s: "send_message toy_crypto (\<lambda>n. replicate n 0) [7] 0 ''peer.onion'' ''hi'' sdk_demo =
      (Some (x, y, 0), a')" by blast
  have "fst (decrypt_incoming toy_crypto ''peer.onion'' x y 0 sdk_demo) = None"
    by (rule sdk_incoming_fails [OF toy_crypto_ok(6) s,
          where ka = "\<lparr>send_chain_key = [1], recv_chain_key = [1]\<rparr>"
            and kb = "\<lparr>send_chain_key = [1], recv_chain_key = [1]\<rparr>"])
       (simp_all add: sdk_demo_def)
  with s show ?thesis by blast
qed

end
