(* ===== verification/Crypto_At_Rest.thy ===== *)
theory Crypto_At_Rest
  imports Protocol
begin

text \<open>
  \<^verbatim>\<open>core/crypto.py\<close>: the key derived from the master password, the encryption of secrets
  under it and the supporter badges. Argon2id, PBKDF2 and Ed25519 are fields of \<open>hashes\<close>,
  an argument.
\<close>

record hashes =
  argon2id :: "bytes \<Rightarrow> bytes \<Rightarrow> nat \<Rightarrow> nat \<Rightarrow> nat \<Rightarrow> nat \<Rightarrow> bytes"  \<comment> \<open>secret, salt, t, m, p, length\<close>
  pbkdf2_sha256 :: "bytes \<Rightarrow> bytes \<Rightarrow> nat \<Rightarrow> bytes"
  ed25519_verify :: "bytes \<Rightarrow> bytes \<Rightarrow> bytes \<Rightarrow> bool"      \<comment> \<open>public key, signature, message\<close>
  ed25519_sign :: "bytes \<Rightarrow> bytes \<Rightarrow> bytes"
  ed25519_public :: "bytes \<Rightarrow> bytes"

definition PBKDF2_FALLBACK_ITERATIONS :: nat where
  "PBKDF2_FALLBACK_ITERATIONS = 600000"

text \<open>
  \<open>argon2\<close> says whether the package can be imported; \<open>fresh\<close> is the salt \<^verbatim>\<open>os.urandom(16)\<close>
  would give.
\<close>

definition derive_db_key ::
    "hashes \<Rightarrow> bool \<Rightarrow> bytes \<Rightarrow> string \<Rightarrow> bytes option \<Rightarrow> nat option \<Rightarrow> bytes \<times> bytes" where
  "derive_db_key h argon2 fresh password salt iterations =
     (let s = (case salt of Some x \<Rightarrow> x | None \<Rightarrow> fresh);
          n = (case iterations of Some k \<Rightarrow> k | None \<Rightarrow> PBKDF2_FALLBACK_ITERATIONS)
      in if argon2 then (argon2id h (utf8_encode password) s 3 65536 4 32, s)
         else (pbkdf2_sha256 h (utf8_encode password) s n, s))"

definition derive_db_key_legacy :: "hashes \<Rightarrow> string \<Rightarrow> bytes \<Rightarrow> nat \<Rightarrow> bytes" where
  "derive_db_key_legacy h password salt iterations =
     pbkdf2_sha256 h (utf8_encode password) salt iterations"

text \<open>\<open>nonce\<close> is the fresh \<^verbatim>\<open>os.urandom(12)\<close>; \<open>iv\<close> is the trap parameter.\<close>

definition encrypt_secret ::
    "crypto \<Rightarrow> bytes \<Rightarrow> string \<Rightarrow> string \<Rightarrow> bytes option \<Rightarrow> string py" where
  "encrypt_secret c nonce plaintext db_key_hex iv =
     (if plaintext = [] then Inr plaintext
      else if db_key_hex = [] then Inl (ValueError ''Missing database key for encryption.'')
      else if iv \<noteq> None then Inl (ValueError ''Client-supplied IVs are rejected'')
      else case from_hex db_key_hex of
        None \<Rightarrow> Inl (ValueError ''fromhex'')
      | Some key \<Rightarrow>
          (case aead_seal c key nonce (utf8_encode plaintext) [] of
             None \<Rightarrow> Inl CryptoError
           | Some ct \<Rightarrow> Inr (b64_encode (nonce @ ct))))"

definition decrypt_secret :: "crypto \<Rightarrow> string \<Rightarrow> string \<Rightarrow> bytes option \<Rightarrow> string py" where
  "decrypt_secret c ciphertext db_key_hex iv =
     (if ciphertext = [] then Inr ciphertext
      else if db_key_hex = [] then Inl (ValueError ''Missing database key for decryption.'')
      else if iv \<noteq> None then Inl (ValueError ''Client-supplied IVs are rejected'')
      else case b64_decode ciphertext of
        None \<Rightarrow> Inl (ValueError ''base64'')
      | Some data \<Rightarrow>
          if length data < 12 then Inl (ValueError ''Ciphertext too short.'')
          else case from_hex db_key_hex of
            None \<Rightarrow> Inl (ValueError ''fromhex'')
          | Some key \<Rightarrow>
              (case aead_open c key (take 12 data) (drop 12 data) [] of
                 None \<Rightarrow> Inl CryptoError
               | Some pt \<Rightarrow> (case utf8_decode pt of None \<Rightarrow> Inl (ValueError ''utf-8'') | Some t \<Rightarrow> Inr t)))"

text \<open>Any failure on the way is \<^verbatim>\<open>False\<close>; \<open>dev_key\<close> is the configured public key.\<close>

definition verify_supporter_badge :: "hashes \<Rightarrow> string \<Rightarrow> string \<Rightarrow> string \<Rightarrow> bool" where
  "verify_supporter_badge h dev_key onion signature_b64 =
     (case (b64_decode dev_key, b64_decode signature_b64) of
        (Some pk, Some sig) \<Rightarrow> length pk = 32 \<and> ed25519_verify h pk sig (utf8_encode onion)
      | _ \<Rightarrow> False)"

definition generate_supporter_badge_signature :: "hashes \<Rightarrow> string \<Rightarrow> string \<Rightarrow> string py" where
  "generate_supporter_badge_signature h onion priv_b64 =
     (case b64_decode priv_b64 of
        None \<Rightarrow> Inl (ValueError ''base64'')
      | Some priv \<Rightarrow>
          if length priv = 32 then Inr (b64_encode (ed25519_sign h priv (utf8_encode onion)))
          else Inl (ValueError ''Ed25519 key size''))"

definition ed25519_correct :: "hashes \<Rightarrow> bool" where
  "ed25519_correct h \<longleftrightarrow> (\<forall>sk m. length (ed25519_public h sk) = 32 \<and>
     ed25519_verify h (ed25519_public h sk) (ed25519_sign h sk m) m)"

text \<open>A secret stored with \<^verbatim>\<open>encrypt_secret\<close> under the hex form of a key reads back
  with \<^verbatim>\<open>decrypt_secret\<close> under it, and a call that names its own nonce is refused by
  both.\<close>

theorem secret_roundtrip:
  assumes "aead_correct c" "length nonce = 12" "key \<noteq> []"
    and "encrypt_secret c nonce t (to_hex key) None = Inr stored"
  shows "decrypt_secret c stored (to_hex key) None = Inr t \<and>
         (t \<noteq> [] \<longrightarrow> encrypt_secret c nonce t (to_hex key) (Some iv) =
            Inl (ValueError ''Client-supplied IVs are rejected'') \<and>
          decrypt_secret c stored (to_hex key) (Some iv) =
            Inl (ValueError ''Client-supplied IVs are rejected''))"
proof (cases "t = []")
  case True
  with assms(4) show ?thesis by (simp add: encrypt_secret_def decrypt_secret_def)
next
  case False
  with assms(3,4) obtain ct where ct: "aead_seal c key nonce (utf8_encode t) [] = Some ct"
    and st: "stored = b64_encode (nonce @ ct)"
    by (auto simp: encrypt_secret_def split: option.splits)
  then have "aead_open c key nonce ct [] = Some (utf8_encode t)"
    using assms(1) by (simp add: aead_correct_def)
  moreover have "stored \<noteq> []" using st assms(2) by auto
  ultimately show ?thesis
    using False st assms(2,3) by (simp add: encrypt_secret_def decrypt_secret_def)
qed

theorem secret_roundtrip_witness:
  "\<exists>stored. encrypt_secret toy_crypto (replicate 12 1) ''k'' (to_hex [1, 2]) None = Inr stored \<and>
     decrypt_secret toy_crypto stored (to_hex [1, 2]) None = Inr ''k''"
proof -
  have "\<exists>stored. encrypt_secret toy_crypto (replicate 12 1) ''k'' (to_hex [1, 2]) None = Inr stored"
    using hex_roundtrip [of "[1, 2]"]
    by (simp add: encrypt_secret_def toy_crypto_def del: to_hex.simps hex_roundtrip)
  then obtain stored where
    s: "encrypt_secret toy_crypto (replicate 12 1) ''k'' (to_hex [1, 2]) None = Inr stored" by blast
  with secret_roundtrip [OF toy_crypto_ok(2) _ _ s] show ?thesis by auto
qed

end
