(* ===== verification/Mls_Groups.thy ===== *)
theory Mls_Groups
  imports Protocol Json_Dumps
begin

text \<open>
  \<^verbatim>\<open>core/mls_groups.py\<close>: the group context with its epoch, members and epoch secret, the
  operations that advance the epoch, the processing of another member's commit, and the
  encryption of group messages. The fresh entropy of an operation is an argument.
\<close>

record key_package =
  kp_client_id :: string
  kp_public_key_b64 :: string

record mls =
  mls_group_id :: string
  mls_creator_id :: string
  mls_epoch :: int
  mls_members :: "string list"
  mls_epoch_secret :: bytes
  mls_app_secret :: bytes

record commit =
  cm_group_id :: string
  cm_epoch :: int
  cm_client :: "string option"
  cm_members :: "string list"

definition derive_app_secret :: "crypto \<Rightarrow> string \<Rightarrow> int \<Rightarrow> bytes \<Rightarrow> bytes" where
  "derive_app_secret c gid ep secret =
     hkdf c 32 (utf8_encode gid) (utf8_encode (''AnonyMus-MLS-Epoch-'' @ int_str ep)) secret"

definition mls_new :: "crypto \<Rightarrow> bytes \<Rightarrow> string \<Rightarrow> string \<Rightarrow> mls" where
  "mls_new c entropy gid creator =
     \<lparr>mls_group_id = gid, mls_creator_id = creator, mls_epoch = 0, mls_members = [creator],
      mls_epoch_secret = entropy, mls_app_secret = derive_app_secret c gid 0 entropy\<rparr>"

text \<open>The common end of the operations: the new secret, the new application key, the commit.\<close>

definition advance :: "crypto \<Rightarrow> string \<Rightarrow> bytes \<Rightarrow> mls \<Rightarrow> mls" where
  "advance c label ikm g =
     (let ep = mls_epoch g + 1;
          secret = hkdf c 32 (mls_epoch_secret g) (utf8_encode label) ikm
      in g\<lparr>mls_epoch := ep, mls_epoch_secret := secret,
           mls_app_secret := derive_app_secret c (mls_group_id g) ep secret\<rparr>)"

definition commit_of :: "mls \<Rightarrow> string option \<Rightarrow> commit" where
  "commit_of g client = \<lparr>cm_group_id = mls_group_id g, cm_epoch = mls_epoch g, cm_client = client,
     cm_members = mls_members g\<rparr>"

definition add_member :: "crypto \<Rightarrow> key_package \<Rightarrow> mls \<Rightarrow> commit \<times> mls" where
  "add_member c kp g =
     (let g = (if kp_client_id kp \<in> set (mls_members g) then g
               else g\<lparr>mls_members := mls_members g @ [kp_client_id kp]\<rparr>);
          g = advance c ''AnonyMus-MLS-NextEpoch'' (utf8_encode (kp_public_key_b64 kp)) g
      in (commit_of g (Some (kp_client_id kp)), g))"

definition remove_member :: "crypto \<Rightarrow> bytes \<Rightarrow> string \<Rightarrow> mls \<Rightarrow> commit \<times> mls" where
  "remove_member c entropy member g =
     (let g = g\<lparr>mls_members := remove1 member (mls_members g)\<rparr>;
          g = advance c ''AnonyMus-MLS-RemoveMember'' entropy g
      in (commit_of g (Some member), g))"

definition rotate_epoch :: "crypto \<Rightarrow> bytes \<Rightarrow> mls \<Rightarrow> commit \<times> mls" where
  "rotate_epoch c entropy g =
     (let g = advance c ''AnonyMus-MLS-EpochRatchet'' entropy g in (commit_of g None, g))"

definition process_commit :: "crypto \<Rightarrow> commit \<Rightarrow> bytes \<Rightarrow> mls \<Rightarrow> mls" where
  "process_commit c cm secret g =
     g\<lparr>mls_epoch := cm_epoch cm, mls_members := cm_members cm, mls_epoch_secret := secret,
       mls_app_secret := derive_app_secret c (mls_group_id g) (cm_epoch cm) secret\<rparr>"

definition encrypt_group_message :: "crypto \<Rightarrow> bytes \<Rightarrow> string \<Rightarrow> mls \<Rightarrow> string py" where
  "encrypt_group_message c nonce plaintext g =
     (case aead_seal c (mls_app_secret g) nonce (utf8_encode plaintext) (utf8_encode (mls_group_id g)) of
        None \<Rightarrow> Inl CryptoError
      | Some ct \<Rightarrow>
          Inr (b64_encode (utf8_encode (json_dumps (JObj
            [(''epoch'', JInt (mls_epoch g)), (''nonce'', JStr (b64_encode nonce)),
             (''ciphertext'', JStr (b64_encode ct))])))))"

definition decrypt_group_message :: "crypto \<Rightarrow> string \<Rightarrow> mls \<Rightarrow> string py" where
  "decrypt_group_message c payload g =
     (case map_option utf8_decode (b64_decode payload) of
        Some (Some raw) \<Rightarrow>
          (case json_loads raw of
             None \<Rightarrow> Inl (ValueError ''json'')
           | Some data \<Rightarrow>
               (case json_get data ''epoch'' of
                  None \<Rightarrow> Inl (KeyError ''epoch'')
                | Some ep \<Rightarrow>
                    if ep \<noteq> JInt (mls_epoch g) then Inl (ValueError ''Epoch mismatch'')
                    else (case (json_get data ''nonce'', json_get data ''ciphertext'') of
                       (Some (JStr n), Some (JStr ct)) \<Rightarrow>
                         (case (b64_decode n, b64_decode ct) of
                            (Some nonce, Some ciphertext) \<Rightarrow>
                              (case aead_open c (mls_app_secret g) nonce ciphertext
                                      (utf8_encode (mls_group_id g)) of
                                 None \<Rightarrow> Inl CryptoError
                               | Some pt \<Rightarrow> (case utf8_decode pt of
                                    None \<Rightarrow> Inl (ValueError ''utf-8'') | Some t \<Rightarrow> Inr t))
                          | _ \<Rightarrow> Inl (ValueError ''base64''))
                     | _ \<Rightarrow> Inl (KeyError ''nonce''))))
      | _ \<Rightarrow> Inl (ValueError ''base64''))"

section \<open>Epochs\<close>

text \<open>What a member can do to the group.\<close>

datatype group_op = Add key_package | Remove bytes string | Rotate bytes

fun perform :: "crypto \<Rightarrow> group_op \<Rightarrow> mls \<Rightarrow> commit \<times> mls" where
  "perform c (Add kp) g = add_member c kp g"
| "perform c (Remove entropy m) g = remove_member c entropy m g"
| "perform c (Rotate entropy) g = rotate_epoch c entropy g"

fun members_after :: "group_op \<Rightarrow> string list \<Rightarrow> string list" where
  "members_after (Add kp) ms = (if kp_client_id kp \<in> set ms then ms else ms @ [kp_client_id kp])"
| "members_after (Remove _ m) ms = remove1 m ms"
| "members_after (Rotate _) ms = ms"

lemma perform_commit: "perform c op g = (cm, g') \<Longrightarrow>
    cm_epoch cm = mls_epoch g' \<and> cm_members cm = mls_members g' \<and> cm_group_id cm = mls_group_id g' \<and>
    mls_group_id g' = mls_group_id g \<and> mls_epoch g' = mls_epoch g + 1 \<and>
    mls_members g' = members_after op (mls_members g) \<and>
    mls_app_secret g' = derive_app_secret c (mls_group_id g) (mls_epoch g + 1) (mls_epoch_secret g')"
  by (cases op)
     (auto simp: add_member_def remove_member_def rotate_epoch_def advance_def commit_of_def Let_def)

lemma group_roundtrip:
  assumes "aead_correct c" "encrypt_group_message c nonce t g = Inr p"
    and "mls_app_secret h = mls_app_secret g" "mls_group_id h = mls_group_id g"
  shows "decrypt_group_message c p h =
    (if mls_epoch h = mls_epoch g then Inr t else Inl (ValueError ''Epoch mismatch''))"
proof -
  obtain ct where ct: "aead_seal c (mls_app_secret g) nonce (utf8_encode t)
      (utf8_encode (mls_group_id g)) = Some ct"
    and p: "p = b64_encode (utf8_encode (json_dumps (JObj
            [(''epoch'', JInt (mls_epoch g)), (''nonce'', JStr (b64_encode nonce)),
             (''ciphertext'', JStr (b64_encode ct))])))"
    using assms(2) by (auto simp: encrypt_group_message_def split: option.splits)
  have "json_loads (json_dumps (JObj
            [(''epoch'', JInt (mls_epoch g)), (''nonce'', JStr (b64_encode nonce)),
             (''ciphertext'', JStr (b64_encode ct))])) = Some (JObj
            [(''epoch'', JInt (mls_epoch g)), (''nonce'', JStr (b64_encode nonce)),
             (''ciphertext'', JStr (b64_encode ct))])"
    by (rule loads_dumps) simp
  moreover have "aead_open c (mls_app_secret g) nonce ct (utf8_encode (mls_group_id g)) =
      Some (utf8_encode t)"
    using assms(1) ct unfolding aead_correct_def by blast
  ultimately show ?thesis
    using assms(3,4) by (simp add: decrypt_group_message_def p json_get_def del: json_dumps.simps)
qed

lemma group_epoch_mismatch:
  assumes "encrypt_group_message c nonce t g = Inr p" "mls_epoch h \<noteq> mls_epoch g"
  shows "decrypt_group_message c p h = Inl (ValueError ''Epoch mismatch'')"
proof -
  obtain ct where p: "p = b64_encode (utf8_encode (json_dumps (JObj
            [(''epoch'', JInt (mls_epoch g)), (''nonce'', JStr (b64_encode nonce)),
             (''ciphertext'', JStr (b64_encode ct))])))"
    using assms(1) by (auto simp: encrypt_group_message_def split: option.splits)
  have "json_loads (json_dumps (JObj
            [(''epoch'', JInt (mls_epoch g)), (''nonce'', JStr (b64_encode nonce)),
             (''ciphertext'', JStr (b64_encode ct))])) = Some (JObj
            [(''epoch'', JInt (mls_epoch g)), (''nonce'', JStr (b64_encode nonce)),
             (''ciphertext'', JStr (b64_encode ct))])"
    by (rule loads_dumps) simp
  then show ?thesis
    using assms(2) by (simp add: decrypt_group_message_def p json_get_def del: json_dumps.simps)
qed

text \<open>When a member adds, removes or rotates and another member of the group processes its
  commit with the new epoch secret, both are in the next epoch with the same members and key:
  what one encrypts the other reads, and what was encrypted in the old epoch is refused. A
  removed member, listed once, is no longer in the group.\<close>

theorem commit_agreement:
  assumes "aead_correct c" "perform c op a = (cm, a')" "mls_group_id b = mls_group_id a"
    and "b' = process_commit c cm (mls_epoch_secret a') b"
  shows "mls_epoch b' = mls_epoch a + 1 \<and> mls_epoch a' = mls_epoch a + 1 \<and>
     mls_members b' = members_after op (mls_members a) \<and>
     (\<forall>e m. op = Remove e m \<longrightarrow> distinct (mls_members a) \<longrightarrow> m \<notin> set (mls_members b')) \<and>
     (\<forall>n t p. encrypt_group_message c n t a' = Inr p \<longrightarrow> decrypt_group_message c p b' = Inr t) \<and>
     (\<forall>n t p. encrypt_group_message c n t b' = Inr p \<longrightarrow> decrypt_group_message c p a' = Inr t) \<and>
     (\<forall>n t p. encrypt_group_message c n t a = Inr p \<longrightarrow>
        decrypt_group_message c p b' = Inl (ValueError ''Epoch mismatch''))"
proof -
  note pc = perform_commit [OF assms(2)]
  have b: "mls_epoch b' = mls_epoch a'" "mls_members b' = mls_members a'"
    "mls_group_id b' = mls_group_id a'" "mls_app_secret b' = mls_app_secret a'"
    using pc assms(3) by (simp_all add: assms(4) process_commit_def)
  have rm: "m \<notin> set (mls_members b')" if "op = Remove e m" "distinct (mls_members a)" for e m
    using that pc b by simp
  have ab: "decrypt_group_message c p b' = Inr t" if "encrypt_group_message c n t a' = Inr p" for n t p
    using group_roundtrip [OF assms(1) that] b by simp
  have ba: "decrypt_group_message c p a' = Inr t" if "encrypt_group_message c n t b' = Inr p" for n t p
    using group_roundtrip [OF assms(1) that] b by simp
  have old: "decrypt_group_message c p b' = Inl (ValueError ''Epoch mismatch'')"
    if "encrypt_group_message c n t a = Inr p" for n t p
    using group_epoch_mismatch [OF that] pc b by simp
  from pc b rm ab ba old show ?thesis by simp
qed

theorem commit_agreement_witness:
  "\<exists>p. encrypt_group_message toy_crypto [1] ''hi''
      (snd (perform toy_crypto (Remove [5] ''eve'')
        (mls_new toy_crypto [3] ''g'' ''ann''))) = Inr p \<and>
    decrypt_group_message toy_crypto p
      (process_commit toy_crypto
        (fst (perform toy_crypto (Remove [5] ''eve'') (mls_new toy_crypto [3] ''g'' ''ann'')))
        (mls_epoch_secret (snd (perform toy_crypto (Remove [5] ''eve'')
          (mls_new toy_crypto [3] ''g'' ''ann''))))
        (mls_new toy_crypto [9] ''g'' ''bob'')) = Inr ''hi''"
proof -
  let ?a = "mls_new toy_crypto [3] ''g'' ''ann''"
  let ?r = "perform toy_crypto (Remove [5] ''eve'') ?a"
  have "\<exists>p. encrypt_group_message toy_crypto [1] ''hi'' (snd ?r) = Inr p"
    by (simp add: encrypt_group_message_def toy_crypto_def)
  then obtain p where p: "encrypt_group_message toy_crypto [1] ''hi'' (snd ?r) = Inr p" ..
  have "mls_group_id (mls_new toy_crypto [9] ''g'' ''bob'') = mls_group_id ?a"
    by (simp add: mls_new_def)
  from commit_agreement [OF toy_crypto_ok(2) surjective_pairing this refl] p show ?thesis by blast
qed

end
