(* ===== verification/Device_Sync.thy ===== *)
theory Device_Sync
  imports Prelude
begin

text \<open>
  \<^verbatim>\<open>core/capability_tiers.py\<close> (the choice of a hardware tier) and \<^verbatim>\<open>core/sync.py\<close>
  (the sync manager of a user's devices, which authorises, de-duplicates and ages out the
  envelopes it receives in a window as large as the tier allows).
\<close>

section \<open>Capability tiers\<close>

datatype tier = L0 | L1 | L2 | L3

fun tier_rank :: "tier \<Rightarrow> nat" where
  "tier_rank L0 = 0" | "tier_rank L1 = 1" | "tier_rank L2 = 2" | "tier_rank L3 = 3"

lemma tier_rank_inj: "tier_rank a = tier_rank b \<longleftrightarrow> a = b"
  by (cases a; cases b) simp_all

instantiation tier :: linorder
begin

definition less_eq_tier :: "tier \<Rightarrow> tier \<Rightarrow> bool" where
  "less_eq_tier a b = (tier_rank a \<le> tier_rank b)"

definition less_tier :: "tier \<Rightarrow> tier \<Rightarrow> bool" where
  "less_tier a b = (tier_rank a < tier_rank b)"

instance
  by standard (auto simp: less_eq_tier_def less_tier_def tier_rank_inj)

end

record capability_profile =
  cp_tier :: tier
  cp_ram_bytes :: nat
  cp_cpu_cores :: nat
  cp_pbkdf2_iterations :: nat
  cp_max_in_memory_messages :: nat
  cp_db_cache_size_kb :: nat
  cp_enable_ui_animations :: bool
  cp_enable_background_prekeys :: bool

fun TIER_PROFILES :: "tier \<Rightarrow> capability_profile" where
  "TIER_PROFILES L0 = \<lparr>cp_tier = L0, cp_ram_bytes = 1 * 1024 * 1024 * 1024, cp_cpu_cores = 2,
     cp_pbkdf2_iterations = 100000, cp_max_in_memory_messages = 50, cp_db_cache_size_kb = 2000,
     cp_enable_ui_animations = False, cp_enable_background_prekeys = False\<rparr>"
| "TIER_PROFILES L1 = \<lparr>cp_tier = L1, cp_ram_bytes = 4 * 1024 * 1024 * 1024, cp_cpu_cores = 4,
     cp_pbkdf2_iterations = 300000, cp_max_in_memory_messages = 250, cp_db_cache_size_kb = 8000,
     cp_enable_ui_animations = True, cp_enable_background_prekeys = True\<rparr>"
| "TIER_PROFILES L2 = \<lparr>cp_tier = L2, cp_ram_bytes = 16 * 1024 * 1024 * 1024, cp_cpu_cores = 8,
     cp_pbkdf2_iterations = 600000, cp_max_in_memory_messages = 1000, cp_db_cache_size_kb = 32000,
     cp_enable_ui_animations = True, cp_enable_background_prekeys = True\<rparr>"
| "TIER_PROFILES L3 = \<lparr>cp_tier = L3, cp_ram_bytes = 64 * 1024 * 1024 * 1024, cp_cpu_cores = 16,
     cp_pbkdf2_iterations = 1000000, cp_max_in_memory_messages = 5000, cp_db_cache_size_kb = 128000,
     cp_enable_ui_animations = True, cp_enable_background_prekeys = True\<rparr>"

text \<open>
  \<open>override\<close> is the environment variable (\<^verbatim>\<open>""\<close> when unset), \<open>cores\<close> and \<open>ram\<close>
  what \<^verbatim>\<open>os.cpu_count\<close> and \<^verbatim>\<open>psutil\<close> report, if anything.
\<close>

definition detect_tier :: "string \<Rightarrow> nat option \<Rightarrow> nat option \<Rightarrow> tier" where
  "detect_tier override cores ram =
     (if override \<in> {''L0'', ''l0''} then L0
      else if override \<in> {''L1'', ''l1''} then L1
      else if override \<in> {''L2'', ''l2''} then L2
      else if override \<in> {''L3'', ''l3''} then L3
      else
        let cpu = (case cores of Some n \<Rightarrow> if n = 0 then 2 else n | None \<Rightarrow> 2);
            bytes = (case ram of Some b \<Rightarrow> b | None \<Rightarrow> 4 * 1024 * 1024 * 1024);
            gb = real bytes / (1024 * 1024 * 1024)
        in if gb < 2 \<or> cpu \<le> 2 then L0
           else if gb < 4.5 \<or> cpu \<le> 4 then L1
           else if gb < 16.5 \<or> cpu \<le> 8 then L2
           else L3)"

definition detect_capability_tier :: "string \<Rightarrow> nat option \<Rightarrow> nat option \<Rightarrow> capability_profile" where
  "detect_capability_tier override cores ram = TIER_PROFILES (detect_tier override cores ram)"

text \<open>Better hardware never gets a lower tier or a smaller message window: with no override,
  more memory and more cores give a tier at least as high.\<close>

theorem tier_monotone:
  assumes "b \<le> b'" "0 < n" "n \<le> n'"
  shows "detect_tier [] (Some n) (Some b) \<le> detect_tier [] (Some n') (Some b') \<and>
     cp_max_in_memory_messages (detect_capability_tier [] (Some n) (Some b)) \<le>
     cp_max_in_memory_messages (detect_capability_tier [] (Some n') (Some b'))"
proof -
  have "real b / (1024 * 1024 * 1024) \<le> real b' / (1024 * 1024 * 1024)" using assms(1) by simp
  then have le: "detect_tier [] (Some n) (Some b) \<le> detect_tier [] (Some n') (Some b')"
    using assms(2,3)
    by (auto simp: detect_tier_def Let_def less_eq_tier_def split: if_splits)
  moreover have "t \<le> t' \<Longrightarrow> cp_max_in_memory_messages (TIER_PROFILES t) \<le>
      cp_max_in_memory_messages (TIER_PROFILES t')" for t t'
    by (cases t; cases t') (simp_all add: less_eq_tier_def)
  ultimately show ?thesis by (simp add: detect_capability_tier_def)
qed

theorem tier_monotone_witness:
  "detect_tier [] (Some 4) (Some 4000000000) \<le> detect_tier [] (Some 16) (Some 32000000000)"
  using tier_monotone [of 4000000000 32000000000 4 16] by simp

section \<open>The sync manager\<close>

record envelope =
  env_device_id :: string
  env_owner_onion :: string
  env_payload_type :: string
  env_payload_b64 :: string
  env_nonce_b64 :: string
  env_timestamp :: real
  env_sequence_id :: int

record sync_manager =
  sm_owner_onion :: string
  sm_device_id :: string
  sm_synced_devices :: "string set"
  sm_processed :: "int set"
  sm_fifo :: "int list"
  sm_profile :: capability_profile

datatype sync_result = Applied string int | Duplicate int

definition sync_new :: "string \<Rightarrow> string \<Rightarrow> capability_profile \<Rightarrow> sync_manager" where
  "sync_new owner device profile =
     \<lparr>sm_owner_onion = owner, sm_device_id = device, sm_synced_devices = {}, sm_processed = {},
      sm_fifo = [], sm_profile = profile\<rparr>"

definition register_paired_device :: "string \<Rightarrow> sync_manager \<Rightarrow> sync_manager" where
  "register_paired_device d m = m\<lparr>sm_synced_devices := insert d (sm_synced_devices m)\<rparr>"

definition is_device_authorized :: "string \<Rightarrow> sync_manager \<Rightarrow> bool" where
  "is_device_authorized d m = (d = sm_device_id m \<or> d \<in> sm_synced_devices m)"

definition create_sync_envelope ::
    "string \<Rightarrow> string \<Rightarrow> string \<Rightarrow> int \<Rightarrow> real \<Rightarrow> sync_manager \<Rightarrow> envelope" where
  "create_sync_envelope payload_type payload nonce seq now m =
     \<lparr>env_device_id = sm_device_id m, env_owner_onion = sm_owner_onion m,
      env_payload_type = payload_type, env_payload_b64 = payload, env_nonce_b64 = nonce,
      env_timestamp = now, env_sequence_id = seq\<rparr>"

text \<open>\<^verbatim>\<open>while len(fifo) >= max_items: popleft, discard\<close>; an empty deque would raise.\<close>

fun evict :: "nat \<Rightarrow> int list \<Rightarrow> int set \<Rightarrow> (int list \<times> int set) option" where
  "evict n [] seen = (if n = 0 then None else Some ([], seen))"
| "evict n (x # xs) seen = (if n \<le> length (x # xs) then evict n xs (seen - {x}) else Some (x # xs, seen))"

definition process_incoming_envelope ::
    "real \<Rightarrow> envelope \<Rightarrow> sync_manager \<Rightarrow> sync_result py \<times> sync_manager" where
  "process_incoming_envelope now e m =
     (if \<not> is_device_authorized (env_device_id e) m
      then (Inl (ValueError (''Device '' @ env_device_id e @ '' is not authorized for sync'')), m)
      else if env_sequence_id e \<in> sm_processed m then (Inr (Duplicate (env_sequence_id e)), m)
      else if 300 < \<bar>now - env_timestamp e\<bar>
      then (Inl (ValueError ''Sync envelope timestamp out of acceptable bounds''), m)
      else case evict (cp_max_in_memory_messages (sm_profile m)) (sm_fifo m) (sm_processed m) of
        None \<Rightarrow> (Inl (RuntimeError ''pop from an empty deque''),
           m\<lparr>sm_fifo := [], sm_processed := sm_processed m - set (sm_fifo m)\<rparr>)
      | Some (fifo, seen) \<Rightarrow>
          (Inr (Applied (env_payload_type e) (env_sequence_id e)),
           m\<lparr>sm_fifo := fifo @ [env_sequence_id e],
             sm_processed := insert (env_sequence_id e) seen\<rparr>))"

text \<open>The sequence ids a run of envelopes applies, and the manager afterwards.\<close>

fun sync_run :: "(real \<times> envelope) list \<Rightarrow> sync_manager \<Rightarrow> int list \<times> sync_manager" where
  "sync_run [] m = ([], m)"
| "sync_run ((now, e) # es) m =
     (let (r, m') = process_incoming_envelope now e m;
          (ids, m'') = sync_run es m'
      in (case r of Inr (Applied _ i) \<Rightarrow> i # ids | _ \<Rightarrow> ids, m''))"

lemma evict_take_last:
  "0 < n \<Longrightarrow> distinct xs \<Longrightarrow>
   evict n xs (set xs) = Some (take_last (n - 1) xs, set (take_last (n - 1) xs))"
proof (induction xs)
  case (Cons x xs)
  show ?case
  proof (cases "n \<le> length (x # xs)")
    case True
    moreover have "set (x # xs) - {x} = set xs" using Cons.prems by auto
    moreover have "take_last (n - 1) (x # xs) = take_last (n - 1) xs"
      using True Cons.prems by (auto simp: take_last_def Suc_diff_le)
    ultimately show ?thesis using Cons by simp
  next
    case False
    then show ?thesis using Cons.prems by (simp add: take_last_all)
  qed
qed (simp add: take_last_def)

definition window :: "sync_manager \<Rightarrow> nat" where
  "window m = cp_max_in_memory_messages (sm_profile m)"

definition sync_inv :: "int list \<Rightarrow> sync_manager \<Rightarrow> bool" where
  "sync_inv done m \<longleftrightarrow> 0 < window m \<and> sm_processed m = set (sm_fifo m) \<and> distinct (sm_fifo m) \<and>
     sm_fifo m = take_last (window m) done"

lemma take_last_drop: "n \<le> k \<Longrightarrow> take_last n (take_last k xs) = take_last n xs"
proof (cases "k \<le> length xs")
  case True
  moreover assume "n \<le> k"
  ultimately have "k - n + (length xs - k) = length xs - n" by arith
  with True show ?thesis by (simp add: take_last_def)
qed (simp add: take_last_all)

lemma process_inv:
  assumes "sync_inv done m" "process_incoming_envelope now e m = (r, m')"
  shows "window m' = window m \<and> (case r of
      Inr (Applied t i) \<Rightarrow> sync_inv (done @ [i]) m' \<and> i = env_sequence_id e \<and>
        i \<notin> set (take_last (window m) done) \<and> is_device_authorized (env_device_id e) m \<and>
        \<bar>now - env_timestamp e\<bar> \<le> 300
    | _ \<Rightarrow> m' = m)"
proof -
  let ?n = "window m"
  have inv: "0 < ?n" "sm_processed m = set (sm_fifo m)" "distinct (sm_fifo m)"
    "sm_fifo m = take_last ?n done" using assms(1) by (auto simp: sync_inv_def)
  have ev: "evict ?n (sm_fifo m) (sm_processed m) =
      Some (take_last (?n - 1) (sm_fifo m), set (take_last (?n - 1) (sm_fifo m)))"
    using evict_take_last [OF inv(1,3)] inv(2) by simp
  show ?thesis
  proof (cases "is_device_authorized (env_device_id e) m \<and> env_sequence_id e \<notin> sm_processed m \<and>
      \<bar>now - env_timestamp e\<bar> \<le> 300")
    case True
    let ?i = "env_sequence_id e"
    have r: "r = Inr (Applied (env_payload_type e) ?i)"
      and m': "m' = m\<lparr>sm_fifo := take_last (?n - 1) (sm_fifo m) @ [?i],
         sm_processed := insert ?i (set (take_last (?n - 1) (sm_fifo m)))\<rparr>"
      using assms(2) True ev by (auto simp: process_incoming_envelope_def window_def)
    have w: "window m' = ?n" using m' by (simp add: window_def)
    have eq: "take_last (?n - 1) (sm_fifo m) @ [?i] = take_last ?n (done @ [?i])"
    proof -
      have "take_last (?n - 1) (sm_fifo m) = take_last (?n - 1) done"
        using inv(4) by (simp add: take_last_drop)
      moreover have "take_last ?n (done @ [?i]) = take_last (?n - 1) done @ [?i]"
        using inv(1) by (cases "length done < ?n") (auto simp: take_last_def Suc_diff_le)
      ultimately show ?thesis by simp
    qed
    have "?i \<notin> set (take_last (?n - 1) (sm_fifo m))"
      using True inv(2) set_drop_subset by (fastforce simp: take_last_def)
    moreover have "distinct (take_last (?n - 1) (sm_fifo m))"
      using inv(3) by (simp add: take_last_def)
    ultimately have d: "distinct (take_last ?n (done @ [?i]))"
      unfolding eq [symmetric] by simp
    have "sm_processed m' = set (sm_fifo m')" "sm_fifo m' = take_last ?n (done @ [?i])"
      unfolding eq [symmetric] by (simp_all add: m')
    then have "sync_inv (done @ [?i]) m'"
      using inv(1) d unfolding sync_inv_def w by simp
    moreover have "?i \<notin> set (take_last ?n done)" using True inv(2,4) by simp
    ultimately show ?thesis using r True w by simp
  next
    case False
    then have "m' = m \<and> \<not> (\<exists>t i. r = Inr (Applied t i))"
      using assms(2) by (auto simp: process_incoming_envelope_def split: if_splits)
    then show ?thesis by (auto split: sum.split sync_result.split)
  qed
qed

lemma sync_run_inv:
  "sync_inv done m \<Longrightarrow> sync_inv (done @ fst (sync_run es m)) (snd (sync_run es m)) \<and>
     window (snd (sync_run es m)) = window m"
proof (induction es arbitrary: "done" m)
  case (Cons x es)
  obtain now e where x: "x = (now, e)" by (cases x)
  obtain r m' where p: "process_incoming_envelope now e m = (r, m')" by fastforce
  note inv = process_inv [OF Cons.prems p]
  show ?case
  proof (cases "\<exists>t i. r = Inr (Applied t i)")
    case True
    then obtain t i where r: "r = Inr (Applied t i)" by blast
    with inv have "sync_inv (done @ [i]) m'" "window m' = window m" by auto
    with Cons.IH [of "done @ [i]" m'] r p show ?thesis by (simp add: x split_beta)
  next
    case False
    then have "m' = m" using inv by (auto split: sum.splits sync_result.splits)
    moreover from False have "(case r of Inr (Applied _ i) \<Rightarrow> i # ids | _ \<Rightarrow> ids) = ids" for ids
      by (auto split: sum.splits sync_result.splits)
    ultimately show ?thesis using Cons p by (simp add: x split_beta)
  qed
qed simp

text \<open>The sync manager remembers a bounded window: after any sequence of envelopes it holds
  exactly the latest applied sequence ids, at most as many as the tier's window, all different;
  so no envelope is applied twice within the window.\<close>

theorem sync_window:
  assumes "0 < cp_max_in_memory_messages profile"
  shows "let (ids, m) = sync_run es (sync_new owner device profile);
             last_ids = take_last (cp_max_in_memory_messages profile) ids
         in sm_fifo m = last_ids \<and> sm_processed m = set last_ids \<and> distinct last_ids"
proof -
  have "sync_inv [] (sync_new owner device profile)"
    using assms by (simp add: sync_inv_def sync_new_def window_def take_last_def)
  from sync_run_inv [OF this, of es]
  have inv: "sync_inv (fst (sync_run es (sync_new owner device profile)))
      (snd (sync_run es (sync_new owner device profile)))"
    and w: "window (snd (sync_run es (sync_new owner device profile))) =
      window (sync_new owner device profile)" by simp_all
  have "window (sync_new owner device profile) = cp_max_in_memory_messages profile"
    by (simp add: window_def sync_new_def)
  with inv w show ?thesis unfolding sync_inv_def split_beta Let_def by metis
qed

theorem sync_window_witness:
  "let (ids, m) = sync_run [(10, \<lparr>env_device_id = ''d'', env_owner_onion = ''o'',
        env_payload_type = ''history_replay'', env_payload_b64 = [], env_nonce_b64 = [],
        env_timestamp = 5, env_sequence_id = 7\<rparr>)] (sync_new ''o'' ''d'' (TIER_PROFILES L0))
   in sm_fifo m = take_last 50 ids \<and> distinct (take_last 50 ids)"
  using sync_window [of "TIER_PROFILES L0"] by (simp add: Let_def split_beta del: sync_run.simps)

end
