(* ===== verification/Node_DB.thy ===== *)
theory Node_DB
  imports Crypto_At_Rest
begin

text \<open>
  The tables of a P2P node, \<^verbatim>\<open>transports/p2p/database.py\<close> over the schema of
  \<^verbatim>\<open>transports/p2p/migrations\<close>: configuration, contacts, messages, their edits, the
  notification queue and the pool of connections. Theory \<open>Node_DB_Groups\<close> has the tables of
  groups and profiles, \<open>Node_DB_Theorems\<close> the properties.

  A table is the list of its rows by row id. An operation whose effect depends on the foreign
  keys takes \<open>fk\<close>, whether the connection it drew from the pool enforces them. The clock is
  an argument. A stored value of the configuration is the string that was written, or
  \<open>FloatText x\<close> for \<^verbatim>\<open>str(x)\<close> of a float, which \<^verbatim>\<open>float\<close> reads back as \<open>x\<close>.
\<close>

section \<open>Rows\<close>

datatype config_value = Text string | FloatText real

text \<open>What \<^verbatim>\<open>get_contact\<close> returns of a contact, and the whole row.\<close>

record contact_info =
  c_onion :: string
  c_nickname :: string
  c_shared_secret :: "string option"
  c_peer_public_key :: "string option"
  c_status :: string
  c_my_onion :: "string option"
  c_ttl :: "int option"
  c_display_name :: "string option"
  c_dr_state :: "string option"
  c_peer_kem_public_key :: "string option"
  c_my_kem_private_key :: "string option"
  c_preferred_file_relay :: "string option"
  c_send_receipts :: "int option"

record contact = contact_info +
  c_notify_token :: "string option"
  c_profile_id :: string

record message =
  m_id :: nat
  m_peer :: string
  m_sender :: string
  m_text :: string
  m_timestamp :: int
  m_expires_at :: "int option"
  m_delivery_state :: string

record message_edit =
  ed_peer :: string
  ed_target :: int
  ed_old_text :: string
  ed_timestamp :: int

record group_row =
  g_id :: string
  g_name :: string
  g_founder :: string
  g_created_at :: int
  g_is_channel :: int
  g_profile_id :: string

record group_member =
  gm_group :: string
  gm_onion :: string
  gm_nickname :: string
  gm_invited_by :: "string option"
  gm_role :: string
  gm_joined_at :: int

record group_message =
  gx_id :: nat
  gx_group :: string
  gx_sender :: string
  gx_nickname :: string
  gx_text :: string
  gx_timestamp :: int

record group_invite =
  gi_token :: string
  gi_group :: string
  gi_created_at :: int
  gi_used_at :: "int option"

record vouch =
  v_group :: string
  v_by :: string
  v_for :: string
  v_timestamp :: int

record profile_row =
  p_id :: string
  p_display_name :: string
  p_hidden :: int
  p_passphrase_hash :: "string option"

record abuse_report =
  ar_id :: string
  ar_message_hash :: string
  ar_reporter :: string
  ar_reason :: "string option"
  ar_signature :: string
  ar_timestamp :: int

record badge =
  b_onion :: string
  b_signature :: string
  b_signed_by :: string
  b_timestamp :: int

record node_db =
  config :: "(string \<times> config_value) list"
  contacts :: "contact list"
  messages :: "message list"
  next_message :: nat
  notify_queue :: "string list"
  message_edits :: "message_edit list"
  groups :: "group_row list"
  group_members :: "group_member list"
  group_messages :: "group_message list"
  next_group_message :: nat
  group_invites :: "group_invite list"
  vouches :: "vouch list"
  profiles :: "profile_row list"
  abuse_reports :: "abuse_report list"
  badges :: "badge list"

text \<open>The database after the migrations: the default profile is its only row.\<close>

definition db_init :: node_db where
  "db_init = \<lparr>config = [], contacts = [], messages = [], next_message = 1, notify_queue = [],
     message_edits = [], groups = [], group_members = [], group_messages = [],
     next_group_message = 1, group_invites = [], vouches = [],
     profiles = [\<lparr>p_id = ''default'', p_display_name = ''Default Profile'', p_hidden = 0,
       p_passphrase_hash = None\<rparr>], abuse_reports = [], badges = []\<rparr>"

datatype db_error = IntegrityError

text \<open>\<^verbatim>\<open>INSERT OR REPLACE\<close> and \<^verbatim>\<open>INSERT OR IGNORE\<close> on a table with primary key \<open>k\<close>.\<close>

definition insert_or_replace :: "('r \<Rightarrow> 'k) \<Rightarrow> 'r \<Rightarrow> 'r list \<Rightarrow> 'r list" where
  "insert_or_replace k row rows = filter (\<lambda>r. k r \<noteq> k row) rows @ [row]"

definition insert_or_ignore :: "('r \<Rightarrow> 'k) \<Rightarrow> 'r \<Rightarrow> 'r list \<Rightarrow> 'r list" where
  "insert_or_ignore k row rows = (if k row \<in> k ` set rows then rows else rows @ [row])"

definition delete_where :: "('r \<Rightarrow> bool) \<Rightarrow> 'r list \<Rightarrow> 'r list" where
  "delete_where p rows = filter (\<lambda>r. \<not> p r) rows"

definition norm_onion :: "string \<Rightarrow> string" where
  "norm_onion s = py_lower (py_strip s)"

section \<open>The pool of connections\<close>

text \<open>
  A connection is represented by its foreign-key flag. \<open>pool_get\<close> is \<open>None\<close> when the wait
  of ten seconds ends without a connection.
\<close>

record pool =
  idle :: "bool list"
  created :: nat

definition max_connections :: nat where "max_connections = 5"

definition pool_get :: "pool \<Rightarrow> (bool \<times> pool) option" where
  "pool_get p = (case idle p of
     fk # rest \<Rightarrow> Some (fk, p\<lparr>idle := rest\<rparr>)
   | [] \<Rightarrow> if created p < max_connections then Some (True, p\<lparr>created := created p + 1\<rparr>) else None)"

definition pool_put :: "bool \<Rightarrow> pool \<Rightarrow> pool" where
  "pool_put fk p =
     (if length (idle p) < max_connections then p\<lparr>idle := idle p @ [fk]\<rparr>
      else p\<lparr>created := created p - 1\<rparr>)"

section \<open>Configuration and the local account\<close>

definition get_config :: "string \<Rightarrow> node_db \<Rightarrow> config_value option" where
  "get_config key s = map_of (config s) key"

definition set_config :: "string \<Rightarrow> config_value \<Rightarrow> node_db \<Rightarrow> node_db" where
  "set_config key v s = s\<lparr>config := insert_or_replace fst (key, v) (config s)\<rparr>"

definition is_initialized :: "node_db \<Rightarrow> bool" where
  "is_initialized s = (get_config ''password_hash'' s \<noteq> None)"

datatype account_result = Success | Failure string

text \<open>
  \<open>hashpw\<close> stands for \<^verbatim>\<open>bcrypt.hashpw\<close> with its fresh salt; \<open>key_salt\<close> is the fresh
  token. The three rows are inserted in one transaction.
\<close>

definition register_local_user ::
    "(bytes \<Rightarrow> string) \<Rightarrow> string \<Rightarrow> string \<Rightarrow> string \<Rightarrow> node_db \<Rightarrow> account_result \<times> node_db" where
  "register_local_user hashpw key_salt username password s =
     (if is_initialized s then (Failure ''Local database is already initialized.'', s)
      else if length username < 3 \<or> length username > 50
      then (Failure ''Username must be between 3 and 50 characters.'', s)
      else if length password < 8 then (Failure ''Password must be at least 8 characters.'', s)
      else if {''local_username'', ''password_hash'', ''db_key_salt''} \<inter> fst ` set (config s) \<noteq> {}
      then (Failure ''Failed to initialize local account.'', s)
      else (Success, s\<lparr>config := config s @
        [(''local_username'', Text (py_lower username)),
         (''password_hash'', Text (hashpw (utf8_encode password))),
         (''db_key_salt'', Text key_salt)]\<rparr>))"

text \<open>
  \<^verbatim>\<open>int(s)\<close> of a stored string (sign and decimal digits; the separators \<^verbatim>\<open>_\<close> that
  Python would also read are never stored), \<^verbatim>\<open>float(s)\<close> likewise.
\<close>

definition is_digits :: "string \<Rightarrow> bool" where
  "is_digits s = (s \<noteq> [] \<and> list_all is_digit s)"

definition py_int :: "string \<Rightarrow> int option" where
  "py_int str = (let s = py_strip str in
     if is_digits s then Some (int (digits_val 0 s))
     else if s \<noteq> [] \<and> hd s = CHR ''-'' \<and> is_digits (tl s) then Some (- int (digits_val 0 (tl s)))
     else if s \<noteq> [] \<and> hd s = CHR ''+'' \<and> is_digits (tl s) then Some (int (digits_val 0 (tl s)))
     else None)"

fun value_int :: "config_value \<Rightarrow> int option" where
  "value_int (Text s) = py_int s"
| "value_int (FloatText x) = None"

fun value_float :: "config_value \<Rightarrow> real option" where
  "value_float (Text s) = map_option real_of_int (py_int s)"
| "value_float (FloatText x) = Some x"

definition lock_duration :: "int \<Rightarrow> real" where
  "lock_duration attempts =
     (if attempts \<ge> 20 then 1800 else if attempts \<ge> 10 then 300 else if attempts \<ge> 5 then 60 else 0)"

definition register_failed_attempt :: "real \<Rightarrow> node_db \<Rightarrow> node_db" where
  "register_failed_attempt now s =
     (let stored = (case get_config ''failed_login_attempts'' s of Some v \<Rightarrow> v | None \<Rightarrow> Text ''0'');
          attempts = (case value_int stored of Some n \<Rightarrow> n + 1 | None \<Rightarrow> 1);
          s = set_config ''failed_login_attempts'' (Text (int_str attempts)) s
      in if lock_duration attempts > 0
         then set_config ''lockout_until'' (FloatText (now + lock_duration attempts)) s
         else s)"

text \<open>
  The seconds left of a lockout; the empty string and text that is no number are no lockout.
\<close>

definition lockout_remaining :: "real \<Rightarrow> node_db \<Rightarrow> real" where
  "lockout_remaining now s = (case get_config ''lockout_until'' s of
     Some v \<Rightarrow> (case value_float v of Some t \<Rightarrow> t - now | None \<Rightarrow> 0)
   | None \<Rightarrow> 0)"

text \<open>
  \<open>checkpw\<close> stands for \<^verbatim>\<open>bcrypt.checkpw\<close>. Its dummy calls, which only spend time, are
  left out.
\<close>

fun value_text :: "config_value \<Rightarrow> string" where
  "value_text (Text s) = s"
| "value_text (FloatText x) = []"   \<comment> \<open>no float is stored under a key read as text\<close>

definition login_local_user ::
    "(bytes \<Rightarrow> string \<Rightarrow> bool) \<Rightarrow> real \<Rightarrow> string \<Rightarrow> string \<Rightarrow> node_db \<Rightarrow> account_result \<times> node_db" where
  "login_local_user checkpw now username password s =
     (if \<not> is_initialized s then (Failure ''App not initialized yet.'', s)
      else if lockout_remaining now s > 0
      then (Failure (''Account is locked. Try again in '' @
              int_str (\<lfloor>lockout_remaining now s\<rfloor> + 1) @ '' seconds.''), s)
      else case (get_config ''password_hash'' s, get_config ''local_username'' s) of
        (Some stored_hash, Some stored_user) \<Rightarrow>
          if Text (py_lower username) \<noteq> stored_user
          then (Failure ''Wrong credentials.'', register_failed_attempt now s)
          else if \<not> checkpw (utf8_encode password) (value_text stored_hash)
          then (Failure ''Wrong credentials.'', register_failed_attempt now s)
          else (Success, set_config ''lockout_until'' (Text [])
                  (set_config ''failed_login_attempts'' (Text ''0'') s))
      | _ \<Rightarrow> (Failure ''Invalid configuration.'', s))"

section \<open>Contacts\<close>

text \<open>
  A missing nickname violates \<^verbatim>\<open>NOT NULL\<close>, which \<^verbatim>\<open>OR IGNORE\<close> skips as it does a
  present address; the operation reports success all the same.
\<close>

definition add_contact ::
    "string \<Rightarrow> string option \<Rightarrow> string \<Rightarrow> string option \<Rightarrow> string option \<Rightarrow> string option \<Rightarrow>
     string option \<Rightarrow> string option \<Rightarrow> string \<Rightarrow> node_db \<Rightarrow> bool \<times> node_db" where
  "add_contact onion nickname status my_onion display dr kem_pub kem_priv profile s =
     (case nickname of
        None \<Rightarrow> (True, s)
      | Some nick \<Rightarrow>
          (True, s\<lparr>contacts := insert_or_ignore c_onion
             \<lparr>c_onion = norm_onion onion, c_nickname = nick, c_shared_secret = None,
              c_peer_public_key = None, c_status = status, c_my_onion = my_onion, c_ttl = None,
              c_display_name = display, c_dr_state = dr, c_peer_kem_public_key = kem_pub,
              c_my_kem_private_key = kem_priv, c_preferred_file_relay = None,
              c_send_receipts = Some 1, c_notify_token = None, c_profile_id = profile\<rparr>
             (contacts s)\<rparr>))"

definition find_contact :: "string \<Rightarrow> node_db \<Rightarrow> contact option" where
  "find_contact onion s = List.find (\<lambda>c. c_onion c = norm_onion onion) (contacts s)"

definition opened_secret :: "crypto \<Rightarrow> string option \<Rightarrow> string option \<Rightarrow> string option py" where
  "opened_secret c db_key secret = (case (secret, db_key) of
     (Some x, Some k) \<Rightarrow>
       if x \<noteq> [] \<and> k \<noteq> [] then
         (case decrypt_secret c x k None of Inl e \<Rightarrow> Inl e | Inr t \<Rightarrow> Inr (Some t))
       else Inr secret
   | _ \<Rightarrow> Inr secret)"

definition get_contact :: "crypto \<Rightarrow> string \<Rightarrow> string option \<Rightarrow> node_db \<Rightarrow> contact_info option py" where
  "get_contact c onion db_key s = (case find_contact onion s of
     None \<Rightarrow> Inr None
   | Some row \<Rightarrow>
       (case opened_secret c db_key (c_shared_secret row) of
          Inl e \<Rightarrow> Inl e
        | Inr secret \<Rightarrow> Inr (Some ((contact_info.truncate row)\<lparr>c_shared_secret := secret\<rparr>))))"

text \<open>
  The configuration rows whose key is \<^verbatim>\<open>LIKE 'my_pubkey_for_%'\<close> (\<^verbatim>\<open>_\<close> matches any
  character, letters match in both cases), read into a dictionary whose keys have every
  \<^verbatim>\<open>my_pubkey_for_\<close> removed.
\<close>

definition my_pubkey_prefix :: string where "my_pubkey_prefix = ''my_pubkey_for_''"

definition like_my_pubkey :: "string \<Rightarrow> bool" where
  "like_my_pubkey key = (length my_pubkey_prefix \<le> length key \<and>
     list_all2 (\<lambda>p k. p = CHR ''_'' \<or> (code k < 128 \<and> py_lower_char k = p))
       my_pubkey_prefix (take (length my_pubkey_prefix) key))"

fun remove_all :: "nat \<Rightarrow> string \<Rightarrow> string \<Rightarrow> string" where
  "remove_all 0 p s = s"
| "remove_all (Suc fuel) p s = (case s of
     [] \<Rightarrow> []
   | c # cs \<Rightarrow> if py_startswith s p then remove_all fuel p (drop (length p) s)
               else c # remove_all fuel p cs)"

definition my_public_keys :: "node_db \<Rightarrow> (string \<times> config_value) list" where
  "my_public_keys s = rev (map (\<lambda>(k, v). (remove_all (length k) my_pubkey_prefix k, v))
     (filter (\<lambda>(k, v). like_my_pubkey k) (config s)))"

fun collect_contacts :: "crypto \<Rightarrow> string option \<Rightarrow> (string \<times> config_value) list \<Rightarrow> contact list \<Rightarrow>
    (contact_info \<times> config_value option) list py" where
  "collect_contacts c db_key keys [] = Inr []"
| "collect_contacts c db_key keys (row # rows) =
     (case opened_secret c db_key (c_shared_secret row) of
        Inl e \<Rightarrow> Inl e
      | Inr secret \<Rightarrow>
          (case collect_contacts c db_key keys rows of
             Inl e \<Rightarrow> Inl e
           | Inr rest \<Rightarrow> Inr (((contact_info.truncate row)\<lparr>c_shared_secret := secret\<rparr>,
               map_of keys (c_onion row)) # rest)))"

definition get_contacts :: "crypto \<Rightarrow> string option \<Rightarrow> string \<Rightarrow> node_db \<Rightarrow>
    (contact_info \<times> config_value option) list py" where
  "get_contacts c db_key profile s =
     collect_contacts c db_key (my_public_keys s) (filter (\<lambda>r. c_profile_id r = profile) (contacts s))"

text \<open>\<^verbatim>\<open>UPDATE contacts SET ... WHERE onion_address = ?\<close>\<close>

definition update_contact :: "string \<Rightarrow> (contact \<Rightarrow> contact) \<Rightarrow> node_db \<Rightarrow> node_db" where
  "update_contact onion f s =
     s\<lparr>contacts := update_where (\<lambda>c. c_onion c = norm_onion onion) f (contacts s)\<rparr>"

definition has_contact :: "string \<Rightarrow> node_db \<Rightarrow> bool" where
  "has_contact onion s = (norm_onion onion \<in> c_onion ` set (contacts s))"

definition update_contact_dr_state :: "string \<Rightarrow> string option \<Rightarrow> node_db \<Rightarrow> node_db" where
  "update_contact_dr_state onion dr = update_contact onion (\<lambda>c. c\<lparr>c_dr_state := dr\<rparr>)"

definition update_contact_kem_keys ::
    "string \<Rightarrow> string option \<Rightarrow> string option \<Rightarrow> node_db \<Rightarrow> node_db" where
  "update_contact_kem_keys onion peer_pub my_priv s =
     (let s = (if peer_pub \<noteq> None
               then update_contact onion (\<lambda>c. c\<lparr>c_peer_kem_public_key := peer_pub\<rparr>) s else s)
      in if my_priv \<noteq> None
         then update_contact onion (\<lambda>c. c\<lparr>c_my_kem_private_key := my_priv\<rparr>) s else s)"

definition update_contact_display_name :: "string \<Rightarrow> string option \<Rightarrow> node_db \<Rightarrow> node_db" where
  "update_contact_display_name onion name = update_contact onion (\<lambda>c. c\<lparr>c_display_name := name\<rparr>)"

definition update_contact_status :: "string \<Rightarrow> string \<Rightarrow> node_db \<Rightarrow> node_db" where
  "update_contact_status onion st = update_contact onion (\<lambda>c. c\<lparr>c_status := st\<rparr>)"

definition update_contact_my_onion :: "string \<Rightarrow> string \<Rightarrow> node_db \<Rightarrow> bool \<times> node_db" where
  "update_contact_my_onion onion my s =
     (has_contact onion s, update_contact onion (\<lambda>c. c\<lparr>c_my_onion := Some (norm_onion my)\<rparr>) s)"

definition update_contact_secret ::
    "crypto \<Rightarrow> bytes \<Rightarrow> string \<Rightarrow> string option \<Rightarrow> string option \<Rightarrow> string option \<Rightarrow> node_db \<Rightarrow>
     unit py \<times> node_db" where
  "update_contact_secret c nonce onion secret peer_pub db_key s =
     (let enc = (case (secret, db_key) of
          (Some x, Some k) \<Rightarrow>
            if x \<noteq> [] \<and> k \<noteq> [] then
              (case encrypt_secret c nonce x k None of Inl e \<Rightarrow> Inl e | Inr t \<Rightarrow> Inr (Some t))
            else Inr secret
        | _ \<Rightarrow> Inr secret)
      in case enc of
           Inl e \<Rightarrow> (Inl e, s)
         | Inr stored \<Rightarrow>
             (Inr (), update_contact onion (\<lambda>r. r\<lparr>c_shared_secret := stored,
                c_peer_public_key := peer_pub, c_status := ''accepted''\<rparr>) s))"

definition set_disappearing_ttl :: "string \<Rightarrow> int option \<Rightarrow> node_db \<Rightarrow> bool \<times> node_db" where
  "set_disappearing_ttl onion ttl s =
     (has_contact onion s, update_contact onion (\<lambda>c. c\<lparr>c_ttl := ttl\<rparr>) s)"

definition update_preferred_relay :: "string \<Rightarrow> string option \<Rightarrow> node_db \<Rightarrow> node_db" where
  "update_preferred_relay onion url = update_contact onion (\<lambda>c. c\<lparr>c_preferred_file_relay := url\<rparr>)"

definition get_preferred_relay :: "string \<Rightarrow> node_db \<Rightarrow> string option" where
  "get_preferred_relay onion s = Option.bind (find_contact onion s) c_preferred_file_relay"

definition update_send_receipts :: "string \<Rightarrow> bool \<Rightarrow> node_db \<Rightarrow> node_db" where
  "update_send_receipts onion enabled =
     update_contact onion (\<lambda>c. c\<lparr>c_send_receipts := Some (if enabled then 1 else 0)\<rparr>)"

definition get_send_receipts :: "string \<Rightarrow> node_db \<Rightarrow> bool" where
  "get_send_receipts onion s = (case Option.bind (find_contact onion s) c_send_receipts of
     Some v \<Rightarrow> v = 1 | None \<Rightarrow> True)"

text \<open>The cascade of the foreign key deletes the contact's messages, and so does the code.\<close>

definition delete_contact :: "bool \<Rightarrow> string \<Rightarrow> node_db \<Rightarrow> node_db" where
  "delete_contact fk onion s =
     (let gone = norm_onion onion;
          s = (if fk \<and> has_contact onion s
               then s\<lparr>messages := delete_where (\<lambda>m. m_peer m = gone) (messages s)\<rparr> else s);
          s = s\<lparr>contacts := delete_where (\<lambda>c. c_onion c = gone) (contacts s)\<rparr>
      in s\<lparr>messages := delete_where (\<lambda>m. m_peer m = gone) (messages s)\<rparr>)"

definition nuke_database :: "node_db \<Rightarrow> node_db" where
  "nuke_database s = s\<lparr>messages := [], contacts := []\<rparr>"

definition reset_app_data :: "node_db \<Rightarrow> node_db" where
  "reset_app_data s = nuke_database s"

text \<open>
  \<^verbatim>\<open>migrate_contact_address\<close>: the result, the database and the foreign-key flag of its
  connection afterwards. The pragma that turns the keys off runs before any transaction; the one
  that turns them on again runs inside the transaction the updates opened, where SQLite ignores
  it, or not at all after the error. A primary key that is taken rolls everything back.
\<close>

definition migrate_contact_address ::
    "bool \<Rightarrow> string \<Rightarrow> string \<Rightarrow> node_db \<Rightarrow> bool \<times> node_db \<times> bool" where
  "migrate_contact_address fk old new s =
     (let old = norm_onion old; new = norm_onion new in
      if old = new then (True, s, fk)
      else if old \<in> c_onion ` set (contacts s) \<and> new \<in> c_onion ` set (contacts s)
      then (False, s, False)
      else
        let s = s\<lparr>contacts := update_where (\<lambda>c. c_onion c = old) (\<lambda>c. c\<lparr>c_onion := new\<rparr>) (contacts s),
                  messages := update_where (\<lambda>m. m_peer m = old) (\<lambda>m. m\<lparr>m_peer := new\<rparr>) (messages s)\<rparr>
        in case get_config (my_pubkey_prefix @ old) s of
             None \<Rightarrow> (True, s, False)
           | Some v \<Rightarrow>
               (let s = set_config (my_pubkey_prefix @ new) v s
                in (True, s\<lparr>config := delete_where (\<lambda>(k, v). k = my_pubkey_prefix @ old) (config s)\<rparr>,
                    False)))"

section \<open>Notification flags\<close>

definition get_notify_token :: "string \<Rightarrow> node_db \<Rightarrow> string option" where
  "get_notify_token onion s = Option.bind (find_contact onion s) c_notify_token"

definition set_notify_token :: "string \<Rightarrow> string \<Rightarrow> node_db \<Rightarrow> node_db" where
  "set_notify_token onion token = update_contact onion (\<lambda>c. c\<lparr>c_notify_token := Some token\<rparr>)"

definition push_notify_queue :: "string \<Rightarrow> node_db \<Rightarrow> node_db" where
  "push_notify_queue token s = s\<lparr>notify_queue := notify_queue s @ [token]\<rparr>"

definition poll_notify_queue :: "string list \<Rightarrow> node_db \<Rightarrow> string set" where
  "poll_notify_queue tokens s = set (notify_queue s) \<inter> set tokens"

definition clear_notify_queue :: "string list \<Rightarrow> node_db \<Rightarrow> node_db" where
  "clear_notify_queue tokens s = s\<lparr>notify_queue := delete_where (\<lambda>t. t \<in> set tokens) (notify_queue s)\<rparr>"

section \<open>Messages\<close>

text \<open>\<open>None\<close> is a violated foreign key, which the code prints.\<close>

definition save_message ::
    "bool \<Rightarrow> string \<Rightarrow> string \<Rightarrow> string \<Rightarrow> int \<Rightarrow> int option \<Rightarrow> node_db \<Rightarrow> nat option \<times> node_db" where
  "save_message fk peer sender text timestamp expires_at s =
     (let expires_at = (case expires_at of
            Some e \<Rightarrow> Some e
          | None \<Rightarrow> (case Option.bind (find_contact peer s) c_ttl of
              Some ttl \<Rightarrow> if ttl > 0 then Some (timestamp + ttl) else None
            | None \<Rightarrow> None))
      in if fk \<and> \<not> has_contact peer s then (None, s)
         else (Some (next_message s),
               s\<lparr>messages := messages s @ [\<lparr>m_id = next_message s, m_peer = norm_onion peer,
                    m_sender = sender, m_text = text, m_timestamp = timestamp,
                    m_expires_at = expires_at, m_delivery_state = ''sent''\<rparr>],
                 next_message := next_message s + 1\<rparr>))"

text \<open>
  By time stamp, then by row id (the order of the index). A negative limit is no limit, a
  negative offset is none.
\<close>

definition get_messages :: "string \<Rightarrow> int option \<Rightarrow> int option \<Rightarrow> node_db \<Rightarrow> message list" where
  "get_messages peer limit offset s =
     (let rows = sort_key m_timestamp (filter (\<lambda>m. m_peer m = norm_onion peer) (messages s))
      in case limit of
           None \<Rightarrow> rows
         | Some n \<Rightarrow>
             (let rows = (case offset of Some k \<Rightarrow> drop (nat k) rows | None \<Rightarrow> rows)
              in if n < 0 then rows else take (nat n) rows))"

definition delete_message_by_id :: "nat \<Rightarrow> node_db \<Rightarrow> bool \<times> node_db" where
  "delete_message_by_id i s =
     (i \<in> m_id ` set (messages s), s\<lparr>messages := delete_where (\<lambda>m. m_id m = i) (messages s)\<rparr>)"

definition now_ms :: "real \<Rightarrow> int" where
  "now_ms now = \<lfloor>now * 1000\<rfloor>"

definition expired :: "real \<Rightarrow> message \<Rightarrow> bool" where
  "expired now m = (case m_expires_at m of Some e \<Rightarrow> e \<le> now_ms now | None \<Rightarrow> False)"

definition delete_expired_messages :: "real \<Rightarrow> node_db \<Rightarrow> nat \<times> node_db" where
  "delete_expired_messages now s =
     (length (filter (expired now) (messages s)),
      s\<lparr>messages := delete_where (expired now) (messages s)\<rparr>)"

definition get_expired_messages :: "real \<Rightarrow> node_db \<Rightarrow> (nat \<times> string \<times> int) list" where
  "get_expired_messages now s =
     map (\<lambda>m. (m_id m, m_peer m, m_timestamp m)) (filter (expired now) (messages s))"

definition sent_at :: "string \<Rightarrow> int \<Rightarrow> message \<Rightarrow> bool" where
  "sent_at peer t m = (m_peer m = norm_onion peer \<and> m_timestamp m = t)"

definition delete_message_by_timestamp :: "string \<Rightarrow> int \<Rightarrow> node_db \<Rightarrow> bool \<times> node_db" where
  "delete_message_by_timestamp peer t s =
     (\<exists>m\<in>set (messages s). sent_at peer t m,
      s\<lparr>messages := delete_where (sent_at peer t) (messages s)\<rparr>)"

text \<open>
  \<^verbatim>\<open>int(x)\<close> of a float that JSON text spells \<open>s\<close>: the number cut off towards zero, none
  for an infinity or not a number.
\<close>

definition float_trunc :: "string \<Rightarrow> int option" where
  "float_trunc s =
     (let neg = (s \<noteq> [] \<and> hd s = CHR ''-'');
          body = (if neg then tl s else s);
          mant = takeWhile (\<lambda>c. c \<noteq> CHR ''e'' \<and> c \<noteq> CHR ''E'') body;
          ex = tl (dropWhile (\<lambda>c. c \<noteq> CHR ''e'' \<and> c \<noteq> CHR ''E'') body);
          whole = takeWhile is_digit mant;
          frac = tl (dropWhile is_digit mant);
          n = int (digits_val 0 (whole @ frac))
      in if whole = [] then None
         else case (if ex = [] then Some 0 else py_int ex) of
           None \<Rightarrow> None
         | Some e \<Rightarrow>
             (let k = e - int (length frac);
                  v = (if 0 \<le> k then n * 10 ^ nat k else n div 10 ^ nat (- k))
              in Some (if neg then - v else v)))"

text \<open>
  The \<^verbatim>\<open>seq\<close> of the latest message, read by \<open>seq_of\<close>: 0 when the text is no JSON object with
  a number there.
\<close>

definition seq_of :: "json option \<Rightarrow> int" where
  "seq_of j = (case j of
     Some (JObj kvs) \<Rightarrow>
       (case map_of kvs ''seq'' of
          Some (JInt n) \<Rightarrow> n
        | Some (JBool b) \<Rightarrow> (if b then 1 else 0)
        | Some (JFloat f) \<Rightarrow> (case float_trunc f of Some n \<Rightarrow> n | None \<Rightarrow> 0)
        | Some (JStr t) \<Rightarrow> (case py_int t of Some n \<Rightarrow> n | None \<Rightarrow> 0)
        | _ \<Rightarrow> 0)
   | _ \<Rightarrow> 0)"

definition get_last_sequence_number :: "string \<Rightarrow> node_db \<Rightarrow> int" where
  "get_last_sequence_number peer s =
     (let rows = get_messages peer None None s
      in if rows = [] then 0 else seq_of (json_loads (m_text (last rows))))"

definition update_message_delivery_state :: "string \<Rightarrow> int \<Rightarrow> string \<Rightarrow> node_db \<Rightarrow> bool \<times> node_db" where
  "update_message_delivery_state peer t st s =
     (let hit = (\<lambda>m. sent_at peer t m \<and> m_sender m = ''You'')
      in (\<exists>m\<in>set (messages s). hit m,
          s\<lparr>messages := update_where hit (\<lambda>m. m\<lparr>m_delivery_state := st\<rparr>) (messages s)\<rparr>))"

definition add_message_edit :: "real \<Rightarrow> string \<Rightarrow> int \<Rightarrow> string \<Rightarrow> node_db \<Rightarrow> node_db" where
  "add_message_edit now peer target old_text s =
     s\<lparr>message_edits := message_edits s @ [\<lparr>ed_peer = norm_onion peer, ed_target = target,
        ed_old_text = old_text, ed_timestamp = now_ms now\<rparr>]\<rparr>"

definition get_message_edits :: "string \<Rightarrow> int \<Rightarrow> node_db \<Rightarrow> (string \<times> int) list" where
  "get_message_edits peer target s =
     map (\<lambda>e. (ed_old_text e, ed_timestamp e)) (sort_key ed_timestamp
       (filter (\<lambda>e. ed_peer e = norm_onion peer \<and> ed_target e = target) (message_edits s)))"

text \<open>The text of the first message at that time is archived, all messages at it are changed.\<close>

definition update_message_text :: "real \<Rightarrow> string \<Rightarrow> int \<Rightarrow> string \<Rightarrow> node_db \<Rightarrow> node_db" where
  "update_message_text now peer t new_text s = (case List.find (sent_at peer t) (messages s) of
     None \<Rightarrow> s
   | Some m \<Rightarrow>
       (let s = add_message_edit now peer t (m_text m) s
        in s\<lparr>messages := update_where (sent_at peer t) (\<lambda>m. m\<lparr>m_text := new_text\<rparr>) (messages s)\<rparr>))"

end
