(* ===== verification/Node_DB_Groups.thy ===== *)
theory Node_DB_Groups
  imports Node_DB
begin

text \<open>
  The remaining tables of \<^verbatim>\<open>transports/p2p/database.py\<close>: groups with their members,
  messages, invites and vouches, the profiles, the abuse reports and the supporter badges. An
  insertion that violates a key raises \<^verbatim>\<open>sqlite3.IntegrityError\<close>.
\<close>

section \<open>Groups\<close>

definition create_group ::
    "real \<Rightarrow> string \<Rightarrow> string \<Rightarrow> string \<Rightarrow> string \<Rightarrow> int \<Rightarrow> node_db \<Rightarrow> node_db" where
  "create_group now gid name founder profile is_channel s =
     s\<lparr>groups := insert_or_ignore g_id
        \<lparr>g_id = gid, g_name = name, g_founder = norm_onion founder, g_created_at = now_ms now,
         g_is_channel = is_channel, g_profile_id = profile\<rparr> (groups s)\<rparr>"

definition get_groups :: "string \<Rightarrow> node_db \<Rightarrow> group_row list" where
  "get_groups profile s = filter (\<lambda>g. g_profile_id g = profile) (groups s)"

definition get_group :: "string \<Rightarrow> node_db \<Rightarrow> group_row option" where
  "get_group gid s = List.find (\<lambda>g. g_id g = gid) (groups s)"

definition group_exists :: "string \<Rightarrow> node_db \<Rightarrow> bool" where
  "group_exists gid s = (gid \<in> g_id ` set (groups s))"

definition add_group_member ::
    "bool \<Rightarrow> real \<Rightarrow> string \<Rightarrow> string \<Rightarrow> string \<Rightarrow> string option \<Rightarrow> string \<Rightarrow> node_db \<Rightarrow>
     (db_error + unit) \<times> node_db" where
  "add_group_member fk now gid member nickname invited_by role s =
     (let inviter = (case invited_by of
            Some i \<Rightarrow> if i = [] then Some i else Some (norm_onion i) | None \<Rightarrow> None)
      in if fk \<and> \<not> group_exists gid s then (Inl IntegrityError, s)
         else (Inr (), s\<lparr>group_members := insert_or_replace (\<lambda>r. (gm_group r, gm_onion r))
            \<lparr>gm_group = gid, gm_onion = norm_onion member, gm_nickname = nickname,
             gm_invited_by = inviter, gm_role = role, gm_joined_at = now_ms now\<rparr>
            (group_members s)\<rparr>))"

definition remove_group_member :: "string \<Rightarrow> string \<Rightarrow> node_db \<Rightarrow> node_db" where
  "remove_group_member gid member s =
     s\<lparr>group_members := delete_where (\<lambda>r. gm_group r = gid \<and> gm_onion r = norm_onion member)
        (group_members s)\<rparr>"

definition get_group_members :: "string \<Rightarrow> node_db \<Rightarrow> group_member list" where
  "get_group_members gid s = filter (\<lambda>r. gm_group r = gid) (group_members s)"

definition save_group_message ::
    "bool \<Rightarrow> real \<Rightarrow> string \<Rightarrow> string \<Rightarrow> string \<Rightarrow> string \<Rightarrow> int option \<Rightarrow> node_db \<Rightarrow>
     (db_error + unit) \<times> node_db" where
  "save_group_message fk now gid sender nickname text timestamp s =
     (let t = (case timestamp of Some t \<Rightarrow> t | None \<Rightarrow> now_ms now)
      in if fk \<and> \<not> group_exists gid s then (Inl IntegrityError, s)
         else (Inr (), s\<lparr>group_messages := group_messages s @ [\<lparr>gx_id = next_group_message s,
             gx_group = gid, gx_sender = norm_onion sender, gx_nickname = nickname,
             gx_text = text, gx_timestamp = t\<rparr>],
           next_group_message := next_group_message s + 1\<rparr>))"

definition get_group_messages :: "string \<Rightarrow> node_db \<Rightarrow> group_message list" where
  "get_group_messages gid s =
     sort_key gx_timestamp (filter (\<lambda>r. gx_group r = gid) (group_messages s))"

definition create_group_invite ::
    "bool \<Rightarrow> real \<Rightarrow> string \<Rightarrow> string \<Rightarrow> node_db \<Rightarrow> (db_error + unit) \<times> node_db" where
  "create_group_invite fk now token gid s =
     (if token \<in> gi_token ` set (group_invites s) \<or> fk \<and> \<not> group_exists gid s
      then (Inl IntegrityError, s)
      else (Inr (), s\<lparr>group_invites := group_invites s @
        [\<lparr>gi_token = token, gi_group = gid, gi_created_at = now_ms now, gi_used_at = None\<rparr>]\<rparr>))"

definition use_group_invite :: "real \<Rightarrow> string \<Rightarrow> node_db \<Rightarrow> string option \<times> node_db" where
  "use_group_invite now token s =
     (case List.find (\<lambda>r. gi_token r = token) (group_invites s) of
        Some r \<Rightarrow>
          (if gi_used_at r = None
           then (Some (gi_group r),
                 s\<lparr>group_invites := update_where (\<lambda>r. gi_token r = token)
                    (\<lambda>r. r\<lparr>gi_used_at := Some (now_ms now)\<rparr>) (group_invites s)\<rparr>)
           else (None, s))
      | None \<Rightarrow> (None, s))"

definition add_member_vouch ::
    "bool \<Rightarrow> real \<Rightarrow> string \<Rightarrow> string \<Rightarrow> string \<Rightarrow> node_db \<Rightarrow> (db_error + unit) \<times> node_db" where
  "add_member_vouch fk now gid voucher vouched s =
     (if fk \<and> \<not> group_exists gid s then (Inl IntegrityError, s)
      else (Inr (), s\<lparr>vouches := insert_or_replace (\<lambda>v. (v_group v, v_by v, v_for v))
        \<lparr>v_group = gid, v_by = norm_onion voucher, v_for = norm_onion vouched,
         v_timestamp = now_ms now\<rparr> (vouches s)\<rparr>))"

definition get_member_vouches :: "string \<Rightarrow> node_db \<Rightarrow> vouch list" where
  "get_member_vouches gid s = filter (\<lambda>v. v_group v = gid) (vouches s)"

section \<open>Profiles, reports, badges\<close>

definition create_profile :: "string \<Rightarrow> string \<Rightarrow> int \<Rightarrow> string option \<Rightarrow> node_db \<Rightarrow> node_db" where
  "create_profile pid display hidden hash s =
     s\<lparr>profiles := insert_or_replace p_id \<lparr>p_id = pid, p_display_name = display, p_hidden = hidden,
        p_passphrase_hash = hash\<rparr> (profiles s)\<rparr>"

definition get_profiles :: "node_db \<Rightarrow> (string \<times> string \<times> int) list" where
  "get_profiles s = map (\<lambda>p. (p_id p, p_display_name p, p_hidden p))
     (filter (\<lambda>p. p_hidden p = 0) (profiles s))"

definition get_profile :: "string \<Rightarrow> node_db \<Rightarrow> profile_row option" where
  "get_profile pid s = List.find (\<lambda>p. p_id p = pid) (profiles s)"

text \<open>\<open>None\<close> of \<open>checkpw\<close> is an exception of bcrypt, which is passed over.\<close>

definition verify_hidden_profile ::
    "(bytes \<Rightarrow> string \<Rightarrow> bool option) \<Rightarrow> string \<Rightarrow> node_db \<Rightarrow> (string \<times> string) option" where
  "verify_hidden_profile checkpw passphrase s =
     map_option (\<lambda>p. (p_id p, p_display_name p))
       (List.find (\<lambda>p. case p_passphrase_hash p of
            Some h \<Rightarrow> h \<noteq> [] \<and> checkpw (utf8_encode passphrase) h = Some True
          | None \<Rightarrow> False)
        (filter (\<lambda>p. p_hidden p = 1) (profiles s)))"

definition save_abuse_report ::
    "real \<Rightarrow> string \<Rightarrow> string \<Rightarrow> string \<Rightarrow> string option \<Rightarrow> string \<Rightarrow> node_db \<Rightarrow>
     (db_error + unit) \<times> node_db" where
  "save_abuse_report now rid msg_hash reporter reason signature s =
     (if rid \<in> ar_id ` set (abuse_reports s) then (Inl IntegrityError, s)
      else (Inr (), s\<lparr>abuse_reports := abuse_reports s @ [\<lparr>ar_id = rid, ar_message_hash = msg_hash,
        ar_reporter = reporter, ar_reason = reason, ar_signature = signature,
        ar_timestamp = now_ms now\<rparr>]\<rparr>))"

definition get_abuse_reports :: "node_db \<Rightarrow> abuse_report list" where
  "get_abuse_reports s = abuse_reports s"

text \<open>\<open>dev_key\<close> is \<^verbatim>\<open>DEVELOPER_PUBLIC_KEY_B64\<close>. The address is not normalised.\<close>

definition save_supporter_badge :: "string \<Rightarrow> real \<Rightarrow> string \<Rightarrow> string \<Rightarrow> node_db \<Rightarrow> node_db" where
  "save_supporter_badge dev_key now onion signature s =
     s\<lparr>badges := insert_or_replace b_onion \<lparr>b_onion = onion, b_signature = signature,
        b_signed_by = dev_key, b_timestamp = now_ms now\<rparr> (badges s)\<rparr>"

definition get_supporter_badge :: "string \<Rightarrow> node_db \<Rightarrow> badge option" where
  "get_supporter_badge onion s = List.find (\<lambda>b. b_onion b = onion) (badges s)"

end
