(* ===== verification/Node_DB_Theorems.thy ===== *)
theory Node_DB_Theorems
  imports Node_DB_Groups
begin

text \<open>
  The properties of the node's tables: what holds of every state that concurrent requests can
  reach through the pool, the lockout of the local account, disappearing messages and invites.
\<close>

section \<open>The operations as steps\<close>

text \<open>Every operation that changes a table, with its arguments (the clock among them).\<close>

datatype db_op =
    Set_Config string config_value
  | Register "bytes \<Rightarrow> string" string string string
  | Login "bytes \<Rightarrow> string \<Rightarrow> bool" real string string
  | Add_Contact string "string option" string "string option" "string option" "string option"
      "string option" "string option" string
  | Update_Dr_State string "string option"
  | Update_Kem_Keys string "string option" "string option"
  | Update_Display_Name string "string option"
  | Update_Status string string
  | Update_My_Onion string string
  | Update_Secret crypto bytes string "string option" "string option" "string option"
  | Set_Ttl string "int option"
  | Update_Relay string "string option"
  | Update_Receipts string bool
  | Set_Notify_Token string string
  | Push_Notify string
  | Clear_Notify "string list"
  | Delete_Contact string
  | Nuke
  | Migrate string string
  | Save_Message string string string int "int option"
  | Delete_By_Id nat
  | Delete_Expired real
  | Delete_By_Timestamp string int
  | Delivery_State string int string
  | Edit_Text real string int string
  | Create_Group real string string string string int
  | Add_Member real string string string "string option" string
  | Remove_Member string string
  | Group_Message real string string string string "int option"
  | Create_Invite real string string
  | Use_Invite real string
  | Add_Vouch real string string string
  | Create_Profile string string int "string option"
  | Abuse_Report real string string string "string option" string
  | Save_Badge string real string string

text \<open>
  What an operation does on a connection with flag \<open>fk\<close>: whether it raises past its
  \<^verbatim>\<open>conn.close()\<close>, the tables, the flag afterwards.
\<close>

definition raising :: "bool \<Rightarrow> (db_error + unit) \<times> node_db \<Rightarrow> bool \<times> node_db \<times> bool" where
  "raising fk r = (isl (fst r), snd r, fk)"

fun exec :: "bool \<Rightarrow> db_op \<Rightarrow> node_db \<Rightarrow> bool \<times> node_db \<times> bool" where
  "exec fk (Set_Config k v) s = (False, set_config k v s, fk)"
| "exec fk (Register h salt u p) s = (False, snd (register_local_user h salt u p s), fk)"
| "exec fk (Login chk now u p) s = (False, snd (login_local_user chk now u p s), fk)"
| "exec fk (Add_Contact w n st my d dr kp kq prof) s = (False, snd (add_contact w n st my d dr kp kq prof s), fk)"
| "exec fk (Update_Dr_State w x) s = (False, update_contact_dr_state w x s, fk)"
| "exec fk (Update_Kem_Keys w x y) s = (False, update_contact_kem_keys w x y s, fk)"
| "exec fk (Update_Display_Name w x) s = (False, update_contact_display_name w x s, fk)"
| "exec fk (Update_Status w x) s = (False, update_contact_status w x s, fk)"
| "exec fk (Update_My_Onion w x) s = (False, snd (update_contact_my_onion w x s), fk)"
| "exec fk (Update_Secret c n w x y k) s = (False, snd (update_contact_secret c n w x y k s), fk)"
| "exec fk (Set_Ttl w x) s = (False, snd (set_disappearing_ttl w x s), fk)"
| "exec fk (Update_Relay w x) s = (False, update_preferred_relay w x s, fk)"
| "exec fk (Update_Receipts w x) s = (False, update_send_receipts w x s, fk)"
| "exec fk (Set_Notify_Token w x) s = (False, set_notify_token w x s, fk)"
| "exec fk (Push_Notify t) s = (False, push_notify_queue t s, fk)"
| "exec fk (Clear_Notify ts) s = (False, clear_notify_queue ts s, fk)"
| "exec fk (Delete_Contact w) s = (False, delete_contact fk w s, fk)"
| "exec fk Nuke s = (False, reset_app_data s, fk)"
| "exec fk (Migrate a b) s = (False, snd (migrate_contact_address fk a b s))"
| "exec fk (Save_Message p se x t e) s = (False, snd (save_message fk p se x t e s), fk)"
| "exec fk (Delete_By_Id i) s = (False, snd (delete_message_by_id i s), fk)"
| "exec fk (Delete_Expired now) s = (False, snd (delete_expired_messages now s), fk)"
| "exec fk (Delete_By_Timestamp p t) s = (False, snd (delete_message_by_timestamp p t s), fk)"
| "exec fk (Delivery_State p t st) s = (False, snd (update_message_delivery_state p t st s), fk)"
| "exec fk (Edit_Text now p t x) s = (False, update_message_text now p t x s, fk)"
| "exec fk (Create_Group now g n f p c) s = (False, create_group now g n f p c s, fk)"
| "exec fk (Add_Member now g m n i r) s = raising fk (add_group_member fk now g m n i r s)"
| "exec fk (Remove_Member g m) s = (False, remove_group_member g m s, fk)"
| "exec fk (Group_Message now g se n x t) s = raising fk (save_group_message fk now g se n x t s)"
| "exec fk (Create_Invite now t g) s = raising fk (create_group_invite fk now t g s)"
| "exec fk (Use_Invite now t) s = (False, snd (use_group_invite now t s), fk)"
| "exec fk (Add_Vouch now g a b) s = raising fk (add_member_vouch fk now g a b s)"
| "exec fk (Create_Profile p d h x) s = (False, create_profile p d h x s, fk)"
| "exec fk (Abuse_Report now i h r x sg) s = raising fk (save_abuse_report now i h r x sg s)"
| "exec fk (Save_Badge k now w x) s = (False, save_supporter_badge k now w x s, fk)"

text \<open>
  The node: its tables, its pool, the flags of the connections requests hold and the number of
  connections that were lost. A request acquires a connection, performs operations on it and
  releases it; an operation that raises loses it, since nothing closes the wrapper and the pool
  keeps the connection among its active ones. Any number of requests hold connections at once.
\<close>

record node =
  tables :: node_db
  conns :: pool
  held :: "bool list"
  leaked :: nat
  migrated :: bool      \<comment> \<open>whether a migration of an address has run\<close>

definition node_init :: node where
  "node_init = \<lparr>tables = db_init, conns = \<lparr>idle = [], created = 0\<rparr>, held = [], leaked = 0,
     migrated = False\<rparr>"

definition drop_nth :: "nat \<Rightarrow> 'a list \<Rightarrow> 'a list" where
  "drop_nth i xs = take i xs @ drop (Suc i) xs"

inductive db_step :: "node \<Rightarrow> node \<Rightarrow> bool" where
  acquire: "pool_get (conns n) = Some (fk, p) \<Longrightarrow>
    db_step n (n\<lparr>conns := p, held := held n @ [fk]\<rparr>)"
| release: "i < length (held n) \<Longrightarrow>
    db_step n (n\<lparr>conns := pool_put (held n ! i) (conns n), held := drop_nth i (held n)\<rparr>)"
| perform: "i < length (held n) \<Longrightarrow> exec (held n ! i) op (tables n) = (False, s, fk) \<Longrightarrow>
    db_step n (n\<lparr>tables := s, held := (held n)[i := fk],
      migrated := (migrated n \<or> (\<exists>a b. op = Migrate a b))\<rparr>)"
| lose: "i < length (held n) \<Longrightarrow> exec (held n ! i) op (tables n) = (True, s, fk) \<Longrightarrow>
    db_step n (n\<lparr>tables := s, held := drop_nth i (held n), leaked := leaked n + 1\<rparr>)"

definition db_reach :: "node \<Rightarrow> bool" where
  "db_reach n = db_step\<^sup>*\<^sup>* node_init n"

section \<open>Keys and references\<close>

definition keys_ok :: "node_db \<Rightarrow> bool" where
  "keys_ok s \<longleftrightarrow> distinct (map fst (config s)) \<and> distinct (map c_onion (contacts s)) \<and>
     distinct (map m_id (messages s)) \<and> (\<forall>m\<in>set (messages s). m_id m < next_message s) \<and>
     distinct (map g_id (groups s)) \<and>
     distinct (map (\<lambda>r. (gm_group r, gm_onion r)) (group_members s)) \<and>
     distinct (map gx_id (group_messages s)) \<and>
     (\<forall>m\<in>set (group_messages s). gx_id m < next_group_message s) \<and>
     distinct (map gi_token (group_invites s)) \<and>
     distinct (map (\<lambda>v. (v_group v, v_by v, v_for v)) (vouches s)) \<and>
     distinct (map p_id (profiles s)) \<and> distinct (map ar_id (abuse_reports s)) \<and>
     distinct (map b_onion (badges s))"

definition refs_ok :: "node_db \<Rightarrow> bool" where
  "refs_ok s \<longleftrightarrow> (\<forall>m\<in>set (messages s). m_peer m \<in> c_onion ` set (contacts s)) \<and>
     (\<forall>r\<in>set (group_members s). gm_group r \<in> g_id ` set (groups s)) \<and>
     (\<forall>r\<in>set (group_messages s). gx_group r \<in> g_id ` set (groups s)) \<and>
     (\<forall>r\<in>set (group_invites s). gi_group r \<in> g_id ` set (groups s)) \<and>
     (\<forall>r\<in>set (vouches s). v_group r \<in> g_id ` set (groups s))"

definition pool_ok :: "node \<Rightarrow> bool" where
  "pool_ok n \<longleftrightarrow> length (idle (conns n)) + length (held n) + leaked n = created (conns n) \<and>
     created (conns n) \<le> max_connections"

definition flags_ok :: "node \<Rightarrow> bool" where
  "flags_ok n \<longleftrightarrow> set (idle (conns n)) \<union> set (held n) \<subseteq> {True}"

lemma distinct_insert_or_replace:
  "distinct (map k rows) \<Longrightarrow> distinct (map k (insert_or_replace k row rows))"
  by (auto simp: insert_or_replace_def distinct_map_filter_key)

lemma distinct_insert_or_ignore:
  "distinct (map k rows) \<Longrightarrow> distinct (map k (insert_or_ignore k row rows))"
  by (auto simp: insert_or_ignore_def)

lemma distinct_delete_where: "distinct (map k rows) \<Longrightarrow> distinct (map k (delete_where p rows))"
  by (simp add: delete_where_def distinct_map_filter_key)

lemma distinct_update_where:
  "(\<And>r. k (f r) = k r) \<Longrightarrow> distinct (map k (update_where p f rows)) = distinct (map k rows)"
  by (simp add: map_update_where_same)

lemma set_delete_where: "set (delete_where p rows) = {r \<in> set rows. \<not> p r}"
  by (simp add: delete_where_def)

lemma ball_update_where:
  "(\<And>r. Q (f r) = Q r) \<Longrightarrow> (\<forall>r\<in>set (update_where p f rows). Q r) = (\<forall>r\<in>set rows. Q r)"
  unfolding set_update_where by (simp add: ball_Un) blast

lemma image_update_where:
  "(\<And>r. k (f r) = k r) \<Longrightarrow> k ` set (update_where p f rows) = k ` set rows"
  by (metis map_update_where_same list.set_map)

lemma set_insert_or_ignore:
  "r \<in> set (insert_or_ignore k row rows) \<Longrightarrow> r = row \<or> r \<in> set rows"
  by (auto simp: insert_or_ignore_def split: if_splits)

lemma image_insert_or_ignore: "k ` set (insert_or_ignore k row rows) = insert (k row) (k ` set rows)"
  by (auto simp: insert_or_ignore_def)

lemma set_insert_or_replace:
  "r \<in> set (insert_or_replace k row rows) \<Longrightarrow> r = row \<or> r \<in> set rows"
  by (auto simp: insert_or_replace_def)

lemma distinct_rekey:
  assumes "distinct (map k rows)" "new \<notin> k ` set rows" "\<And>r. k (f r) = new"
  shows "distinct (map k (update_where (\<lambda>r. k r = old) f rows))"
proof -
  have "map k (update_where (\<lambda>r. k r = old) f rows) =
      map (\<lambda>x. if x = old then new else x) (map k rows)"
    using assms(3) by (simp add: update_where_def)
  moreover have "inj_on (\<lambda>x. if x = old then new else x) (set (map k rows))"
    using assms(2) by (auto simp: inj_on_def)
  ultimately show ?thesis using assms(1) by (simp only: distinct_map)
qed

lemmas distinct_simps =
  distinct_insert_or_replace distinct_insert_or_ignore distinct_delete_where

lemma keys_set_config: "keys_ok s \<Longrightarrow> keys_ok (set_config k v s)"
  by (simp add: keys_ok_def set_config_def distinct_simps)

lemma refs_set_config: "refs_ok (set_config k v s) = refs_ok s"
  by (simp add: refs_ok_def set_config_def)

lemma keys_update_contact:
  "(\<And>c. c_onion (f c) = c_onion c) \<Longrightarrow> keys_ok (update_contact w f s) = keys_ok s"
  by (simp add: keys_ok_def update_contact_def distinct_update_where)

lemma refs_update_contact:
  "(\<And>c. c_onion (f c) = c_onion c) \<Longrightarrow> refs_ok (update_contact w f s) = refs_ok s"
  by (simp add: refs_ok_def update_contact_def image_update_where)

lemma keys_failed_attempt: "keys_ok s \<Longrightarrow> keys_ok (register_failed_attempt now s)"
  by (simp add: register_failed_attempt_def Let_def keys_set_config)

lemma refs_failed_attempt: "refs_ok (register_failed_attempt now s) = refs_ok s"
  by (simp add: register_failed_attempt_def Let_def refs_set_config)

lemma keys_migrate:
  assumes "keys_ok s"
  shows "keys_ok (fst (snd (migrate_contact_address fk a b s)))"
proof -
  let ?a = "norm_onion a" and ?b = "norm_onion b"
  let ?s = "s\<lparr>contacts := update_where (\<lambda>c. c_onion c = ?a) (\<lambda>c. c\<lparr>c_onion := ?b\<rparr>) (contacts s),
       messages := update_where (\<lambda>m. m_peer m = ?a) (\<lambda>m. m\<lparr>m_peer := ?b\<rparr>) (messages s)\<rparr>"
  have ks: "keys_ok ?s" if "\<not> (?a \<in> c_onion ` set (contacts s) \<and> ?b \<in> c_onion ` set (contacts s))"
  proof -
    have "distinct (map c_onion (contacts ?s))"
    proof (cases "?a \<in> c_onion ` set (contacts s)")
      case True
      with that assms show ?thesis by (simp add: keys_ok_def distinct_rekey)
    next
      case False
      then have "update_where (\<lambda>c. c_onion c = ?a) (\<lambda>c. c\<lparr>c_onion := ?b\<rparr>) (contacts s) = contacts s"
        by (intro update_where_unmatched) (metis image_eqI)
      then show ?thesis using assms by (simp add: keys_ok_def)
    qed
    with assms show ?thesis
      by (auto simp: keys_ok_def distinct_update_where set_update_where)
  qed
  have "keys_ok (t\<lparr>config := delete_where p (config t)\<rparr>)" if "keys_ok t" for t p
    using that by (simp add: keys_ok_def distinct_simps)
  with ks assms show ?thesis
    by (simp add: migrate_contact_address_def Let_def keys_set_config split: option.split)
qed

lemmas table_ops = set_config_def update_contact_def
  register_local_user_def add_contact_def update_contact_dr_state_def
  update_contact_kem_keys_def update_contact_display_name_def update_contact_status_def
  update_contact_my_onion_def update_contact_secret_def set_disappearing_ttl_def
  update_preferred_relay_def update_send_receipts_def set_notify_token_def push_notify_queue_def
  clear_notify_queue_def delete_contact_def reset_app_data_def nuke_database_def
  delete_message_by_id_def delete_expired_messages_def delete_message_by_timestamp_def
  update_message_delivery_state_def update_message_text_def add_message_edit_def
  create_group_def add_group_member_def remove_group_member_def create_group_invite_def
  add_member_vouch_def create_profile_def save_abuse_report_def save_supporter_badge_def

lemma exec_keys: "keys_ok s \<Longrightarrow> keys_ok (fst (snd (exec fk op s)))"
proof (cases op)
  case (Migrate a b)
  moreover assume "keys_ok s"
  ultimately show ?thesis by (simp add: keys_migrate)
next
  case (Login chk now u p)
  moreover assume "keys_ok s"
  ultimately show ?thesis
    by (simp add: login_local_user_def keys_set_config keys_failed_attempt split: option.split)
next
  case (Save_Message p se x t e)
  moreover assume "keys_ok s"
  ultimately show ?thesis
    by (auto simp: save_message_def keys_ok_def Let_def dest: less_imp_neq)
next
  case (Group_Message now g se n x t)
  moreover assume "keys_ok s"
  ultimately show ?thesis
    by (auto simp: save_group_message_def raising_def keys_ok_def Let_def dest: less_imp_neq)
next
  case (Use_Invite now t)
  moreover assume "keys_ok s"
  ultimately show ?thesis
    by (simp add: use_group_invite_def keys_ok_def distinct_update_where split: option.split)
qed (simp_all add: table_ops keys_ok_def raising_def Let_def distinct_simps distinct_update_where
  set_delete_where ball_update_where split: option.split sum.split)

lemma image_insert_or_ignore_subset: "k ` set rows \<subseteq> k ` set (insert_or_ignore k row rows)"
  by (auto simp: image_insert_or_ignore)

lemma exec_refs:
  "refs_ok s \<Longrightarrow> fk \<Longrightarrow> \<forall>a b. op \<noteq> Migrate a b \<Longrightarrow> refs_ok (fst (snd (exec fk op s)))"
proof (cases op)
  case (Login chk now u p)
  moreover assume "refs_ok s"
  ultimately show ?thesis
    by (simp add: login_local_user_def refs_set_config refs_failed_attempt split: option.split)
next
  case (Delete_Contact w)
  moreover assume "refs_ok s"
  ultimately show ?thesis by (auto simp: delete_contact_def refs_ok_def Let_def set_delete_where)
next
  case (Add_Member now g m n i r)
  moreover assume "refs_ok s" "fk"
  ultimately show ?thesis
    by (auto simp: add_group_member_def raising_def refs_ok_def Let_def group_exists_def
        dest!: set_insert_or_replace)
next
  case (Add_Vouch now g a b)
  moreover assume "refs_ok s" "fk"
  ultimately show ?thesis
    by (auto simp: add_member_vouch_def raising_def refs_ok_def group_exists_def
        dest!: set_insert_or_replace)
qed (auto simp: table_ops refs_ok_def raising_def Let_def set_delete_where
  ball_update_where image_update_where image_insert_or_ignore save_message_def has_contact_def
  save_group_message_def group_exists_def use_group_invite_def split: option.split sum.split)

lemma exec_flag:
  "\<forall>a b. op \<noteq> Migrate a b \<Longrightarrow> snd (snd (exec fk op s)) = fk"
  by (cases op) (auto simp: raising_def)

section \<open>Every reachable node\<close>

definition db_inv :: "node \<Rightarrow> bool" where
  "db_inv n \<longleftrightarrow> keys_ok (tables n) \<and> pool_ok n \<and> (migrated n \<or> refs_ok (tables n) \<and> flags_ok n)"

lemma length_drop_nth: "i < length xs \<Longrightarrow> Suc (length (drop_nth i xs)) = length xs"
  by (simp add: drop_nth_def)

lemma set_drop_nth: "set (drop_nth i xs) \<subseteq> set xs"
  by (auto simp: drop_nth_def dest: in_set_takeD in_set_dropD)

lemma inv_acquire:
  assumes "db_inv n" "pool_get (conns n) = Some (fk, p)"
  shows "db_inv (n\<lparr>conns := p, held := held n @ [fk]\<rparr>)"
  using assms
  by (auto simp: db_inv_def pool_ok_def flags_ok_def pool_get_def split: list.splits if_splits)

lemma inv_release:
  assumes "db_inv n" "i < length (held n)"
  shows "db_inv (n\<lparr>conns := pool_put (held n ! i) (conns n), held := drop_nth i (held n)\<rparr>)"
proof -
  have "set (held n) \<subseteq> {True} \<Longrightarrow> held n ! i" using nth_mem [OF assms(2)] by auto
  then show ?thesis
    using assms length_drop_nth [OF assms(2)] set_drop_nth [of i "held n"]
    by (auto simp: db_inv_def pool_ok_def flags_ok_def pool_put_def split: if_splits)
qed

lemma inv_perform:
  assumes "db_inv n" "i < length (held n)" "exec (held n ! i) op (tables n) = (False, s, fk)"
  shows "db_inv (n\<lparr>tables := s, held := (held n)[i := fk],
      migrated := (migrated n \<or> (\<exists>a b. op = Migrate a b))\<rparr>)"
proof -
  have "keys_ok s" using assms exec_keys [of "tables n" "held n ! i" op] by (simp add: db_inv_def)
  moreover have "refs_ok s \<and> flags_ok (n\<lparr>tables := s, held := (held n)[i := fk]\<rparr>)"
    if m: "\<not> migrated n" "\<forall>a b. op \<noteq> Migrate a b"
  proof -
    have r: "refs_ok (tables n)" "flags_ok n" using assms(1) m(1) by (simp_all add: db_inv_def)
    moreover have "held n ! i \<in> set (held n)" using assms(2) by simp
    ultimately have up: "held n ! i" by (auto simp: flags_ok_def)
    have "fk = held n ! i" using exec_flag [OF m(2), of "held n ! i" "tables n"] assms(3) by simp
    with r up show ?thesis
      using exec_refs [OF r(1) up m(2)] assms(3) set_update_subset_insert [of "held n" i fk]
      by (auto simp: flags_ok_def)
  qed
  ultimately show ?thesis using assms(1) by (auto simp: db_inv_def pool_ok_def flags_ok_def)
qed

lemma raised_unchanged: "exec fk op s = (True, s', fk') \<Longrightarrow> s' = s"
  by (cases op) (auto simp: raising_def add_group_member_def save_group_message_def Let_def
      create_group_invite_def add_member_vouch_def save_abuse_report_def split: if_splits)

lemma inv_lose:
  assumes "db_inv n" "i < length (held n)" "exec (held n ! i) op (tables n) = (True, s, fk)"
  shows "db_inv (n\<lparr>tables := s, held := drop_nth i (held n), leaked := leaked n + 1\<rparr>)"
  using assms length_drop_nth [OF assms(2)] set_drop_nth [of i "held n"] raised_unchanged [OF assms(3)]
  by (auto simp: db_inv_def pool_ok_def flags_ok_def)

lemma inv_db_step: "db_step n n' \<Longrightarrow> db_inv n \<Longrightarrow> db_inv n'"
  by (induction rule: db_step.induct) (blast intro: inv_acquire inv_release inv_perform inv_lose)+

lemma reach_db_inv:
  assumes "db_reach n"
  shows "db_inv n"
proof -
  have "db_inv node_init"
    by (simp add: db_inv_def node_init_def db_init_def keys_ok_def refs_ok_def pool_ok_def flags_ok_def)
  with assms show ?thesis
    unfolding db_reach_def by (induction rule: rtranclp_induct) (auto intro: inv_db_step)
qed

lemma db_reach_start: "db_reach node_init"
  by (simp add: db_reach_def)

lemma db_reach_trans: "db_reach n \<Longrightarrow> db_step n n' \<Longrightarrow> db_reach n'"
  by (simp add: db_reach_def)

text \<open>C22: whatever the requests of any number of threads do through the pool, the primary keys
  of all tables stay unique, message ids stay below the next one, and every connection is idle,
  in use or lost, at most five in all; as long as no address has been migrated, every message
  belongs to a contact and every group row to a group, and foreign keys are enforced on every
  connection.\<close>

theorem db_integrity:
  assumes "db_reach n"
  shows "keys_ok (tables n) \<and>
     length (idle (conns n)) + length (held n) + leaked n = created (conns n) \<and>
     created (conns n) \<le> 5 \<and>
     (migrated n \<or> refs_ok (tables n) \<and> set (idle (conns n)) \<union> set (held n) \<subseteq> {True})"
  using reach_db_inv [OF assms]
  by (auto simp: db_inv_def pool_ok_def flags_ok_def max_connections_def)

text \<open>A request that stores one operation, and what it leaves.\<close>

definition one_held :: "bool \<Rightarrow> node_db \<Rightarrow> bool \<Rightarrow> node" where
  "one_held fk s m = \<lparr>tables = s, conns = \<lparr>idle = [], created = 1\<rparr>, held = [fk], leaked = 0,
     migrated = m\<rparr>"

lemma reach_first: "db_reach (one_held True db_init False)"
proof -
  have "pool_get (conns node_init) = Some (True, \<lparr>idle = [], created = 1\<rparr>)"
    by (simp add: node_init_def pool_get_def max_connections_def)
  from db_reach_trans [OF db_reach_start acquire [OF this]] show ?thesis
    by (simp add: node_init_def one_held_def)
qed

lemma reach_exec:
  assumes "db_reach (one_held fk s m)" "exec fk op s = (False, s', fk')"
  shows "db_reach (one_held fk' s' (m \<or> (\<exists>a b. op = Migrate a b)))"
proof -
  have "exec (held (one_held fk s m) ! 0) op (tables (one_held fk s m)) = (False, s', fk')"
    using assms(2) by (simp add: one_held_def)
  from db_reach_trans [OF assms(1) perform [OF _ this]] show ?thesis by (simp add: one_held_def)
qed

definition demo_contact :: db_op where
  "demo_contact = Add_Contact ''a'' (Some ''Ann'') ''accepted'' None None None None None ''default''"

definition demo_db :: node_db where
  "demo_db = fst (snd (exec True demo_contact db_init))"

lemma reach_demo: "db_reach (one_held True demo_db False)"
  using reach_exec [OF reach_first, of demo_contact demo_db True]
  by (simp add: demo_db_def demo_contact_def)

theorem db_integrity_witness:
  "keys_ok demo_db \<and> refs_ok demo_db"
  using db_integrity [OF reach_demo] by (simp add: one_held_def)

text \<open>The address migration leaves foreign keys off on its connection: after it a message
  for an address that is no contact is stored, which breaks the integrity the schema declares.\<close>

theorem migration_breaks_integrity:
  "\<exists>n. db_reach n \<and> \<not> refs_ok (tables n)"
proof -
  let ?m = "snd (migrate_contact_address True ''a'' ''b'' demo_db)"
  have off: "snd ?m = False" and cs: "\<not> has_contact ''c'' (fst ?m)"
    by (simp_all add: migrate_contact_address_def demo_db_def demo_contact_def add_contact_def
      db_init_def insert_or_ignore_def norm_onion_def get_config_def has_contact_def
      update_where_def str_simps)
  have 1: "db_reach (one_held False (fst ?m) True)"
    using reach_exec [OF reach_demo, of "Migrate ''a'' ''b''" "fst ?m" False] off
    by (simp add: prod_eq_iff)
  let ?s = "snd (save_message False ''c'' ''me'' ''hello'' 1 None (fst ?m))"
  have "db_reach (one_held False ?s True)"
    using reach_exec [OF 1, of "Save_Message ''c'' ''me'' ''hello'' 1 None" ?s False] by simp
  moreover have "\<not> refs_ok ?s"
    using cs by (simp add: save_message_def refs_ok_def has_contact_def)
  ultimately show ?thesis by (intro exI [of _ "one_held False ?s True"]) (simp add: one_held_def)
qed

text \<open>An insertion that violates a key never gives its connection back: five group messages
  for a group that does not exist leave a node whose pool has no connection to give, no request
  holds one, and no step is possible any more.\<close>

theorem pool_exhausted:
  "\<exists>n. db_reach n \<and> tables n = db_init \<and> leaked n = 5 \<and> pool_get (conns n) = None \<and>
     (\<nexists>n'. db_step n n')"
proof -
  define lost where "lost k = \<lparr>tables = db_init, conns = \<lparr>idle = [], created = k\<rparr>, held = [],
    leaked = k, migrated = False\<rparr>" for k
  have burn: "db_reach (lost (Suc k))" if "db_reach (lost k)" "k < 5" for k
  proof -
    let ?n = "\<lparr>tables = db_init, conns = \<lparr>idle = [], created = Suc k\<rparr>, held = [True],
       leaked = k, migrated = False\<rparr>"
    have "pool_get (conns (lost k)) = Some (True, \<lparr>idle = [], created = Suc k\<rparr>)"
      using that(2) by (simp add: lost_def pool_get_def max_connections_def)
    from db_reach_trans [OF that(1) acquire [OF this]] have r: "db_reach ?n" by (simp add: lost_def)
    have "exec (held ?n ! 0) (Group_Message 0 ''g'' ''x'' ''x'' ''x'' None) (tables ?n) =
        (True, db_init, True)"
      by (simp add: raising_def save_group_message_def group_exists_def db_init_def)
    from db_reach_trans [OF r lose [OF _ this]] show ?thesis by (simp add: lost_def drop_nth_def)
  qed
  have "db_reach (lost 0)" using db_reach_start by (simp add: lost_def node_init_def)
  then have "db_reach (lost (Suc (Suc (Suc (Suc (Suc 0))))))" by (intro burn) simp_all
  then have "db_reach (lost 5)" by (simp add: eval_nat_numeral)
  moreover have "pool_get (conns (lost 5)) = None"
    by (simp add: lost_def pool_get_def max_connections_def)
  moreover from this have "\<nexists>n'. db_step (lost 5) n'"
    by (auto simp: lost_def elim!: db_step.cases)
  ultimately show ?thesis by (intro exI [of _ "lost 5"]) (simp add: lost_def)
qed

section \<open>The lockout of the local account\<close>

lemma digits_not_space: "is_digit ch \<Longrightarrow> \<not> py_isspace ch"
  by (auto simp: is_digit_def py_isspace_def code_def Let_def)

lemma py_int_nat_str: "py_int (int_str (int n)) = Some (int n)"
proof -
  have "list_all (\<lambda>c. \<not> py_isspace c) (nat_str n)"
    using nat_str_digits [of n] digits_not_space by (auto simp: list_all_iff)
  then have "py_strip (nat_str n) = nat_str n" by (rule py_strip_id)
  then show ?thesis
    using nat_str_digits [of n] nat_str_not_Nil [of n]
    by (simp add: py_int_def int_str_def is_digits_def list_all_iff)
qed

lemma py_int_0: "py_int ''0'' = Some 0"
  by (simp add: py_int_def str_simps is_digits_def is_digit_def code_def)

lemma get_set_config [simp]:
  "get_config k (set_config k' v s) = (if k = k' then Some v else get_config k s)"
proof -
  have "map_of (filter (\<lambda>r. fst r \<noteq> k') xs @ [(k', v)]) k = (if k = k' then Some v else map_of xs k)"
    for xs :: "(string \<times> config_value) list"
    by (induction xs) auto
  then show ?thesis by (simp add: get_config_def set_config_def insert_or_replace_def)
qed

text \<open>
  A run of login attempts: the times of those that were checked against the stored credentials
  and found wrong, and the database afterwards.
\<close>

fun login_run :: "(bytes \<Rightarrow> string \<Rightarrow> bool) \<Rightarrow> (real \<times> string \<times> string) list \<Rightarrow> node_db \<Rightarrow>
    real list \<times> node_db" where
  "login_run checkpw [] s = ([], s)"
| "login_run checkpw ((now, user, pw) # rest) s =
     (let (r, s') = login_local_user checkpw now user pw s;
          (ts, s'') = login_run checkpw rest s'
      in (if r = Failure ''Wrong credentials.'' then now # ts else ts, s''))"

definition account :: "string \<Rightarrow> string \<Rightarrow> node_db \<Rightarrow> bool" where
  "account user hash s \<longleftrightarrow> get_config ''password_hash'' s = Some (Text hash) \<and>
     get_config ''local_username'' s = Some (Text user)"

definition wrong :: "(bytes \<Rightarrow> string \<Rightarrow> bool) \<Rightarrow> string \<Rightarrow> string \<Rightarrow> real \<times> string \<times> string \<Rightarrow> bool" where
  "wrong checkpw user hash attempt =
     (case attempt of (_, u, pw) \<Rightarrow> py_lower u \<noteq> user \<or> \<not> checkpw (utf8_encode pw) hash)"

text \<open>After \<open>a\<close> failures, the last at \<open>t0\<close>.\<close>

definition failed :: "nat \<Rightarrow> real \<Rightarrow> node_db \<Rightarrow> bool" where
  "failed a t0 s \<longleftrightarrow>
     (case get_config ''failed_login_attempts'' s of Some v \<Rightarrow> value_int v | None \<Rightarrow> Some 0) = Some (int a) \<and>
     (if lock_duration (int a) > 0
      then get_config ''lockout_until'' s = Some (FloatText (t0 + lock_duration (int a)))
      else get_config ''lockout_until'' s \<in> {None, Some (Text [])})"

lemma failed_remaining:
  "failed a t0 s \<Longrightarrow> t0 \<le> now \<Longrightarrow>
   lockout_remaining now s > 0 \<longleftrightarrow> now < t0 + lock_duration (int a)"
  by (auto simp: failed_def lockout_remaining_def py_int_def is_digits_def lock_duration_def split: if_splits)

lemma account_failed_attempt: "account u h (register_failed_attempt now s) = account u h s"
  by (simp add: account_def register_failed_attempt_def Let_def)

lemma lock_mono: "lock_duration (int a) > 0 \<Longrightarrow> lock_duration (int a + 1) > 0"
  by (auto simp: lock_duration_def split: if_splits)

lemma failed_attempt:
  assumes "failed a t0 s"
  shows "failed (Suc a) now (register_failed_attempt now s)"
proof -
  have n: "(case value_int (case get_config ''failed_login_attempts'' s of Some v \<Rightarrow> v | None \<Rightarrow> Text ''0'')
      of Some n \<Rightarrow> n + 1 | None \<Rightarrow> 1) = int (Suc a)"
    using assms by (auto simp: failed_def py_int_0 split: option.splits)
  have "lock_duration (int (Suc a)) \<le> 0 \<Longrightarrow> \<not> lock_duration (int a) > 0"
    using lock_mono [of a] by (auto simp: lock_duration_def split: if_splits)
  with assms show ?thesis
    unfolding register_failed_attempt_def Let_def n
    by (auto simp: failed_def py_int_nat_str [of "Suc a", simplified])
qed

lemma login_step:
  assumes "account u h s" "failed a t0 s" "t0 \<le> now" "wrong checkpw u h (now, user, pw)"
  shows "login_local_user checkpw now user pw s =
    (if now < t0 + lock_duration (int a)
     then (Failure (''Account is locked. Try again in '' @
              int_str (\<lfloor>lockout_remaining now s\<rfloor> + 1) @ '' seconds.''), s)
     else (Failure ''Wrong credentials.'', register_failed_attempt now s))"
  using assms failed_remaining [OF assms(2,3)]
  by (auto simp: login_local_user_def is_initialized_def account_def wrong_def)

fun spaced :: "nat \<Rightarrow> real \<Rightarrow> real list \<Rightarrow> bool" where
  "spaced a t0 [] = True"
| "spaced a t0 (t # ts) = (t0 + lock_duration (int a) \<le> t \<and> spaced (Suc a) t ts)"

lemma login_run_spaced:
  "account u h s \<Longrightarrow> failed a t0 s \<Longrightarrow> sorted (t0 # map fst attempts) \<Longrightarrow>
   \<forall>x\<in>set attempts. wrong checkpw u h x \<Longrightarrow> spaced a t0 (fst (login_run checkpw attempts s))"
proof (induction attempts arbitrary: a t0 s)
  case (Cons x attempts)
  obtain now user pw where x: "x = (now, user, pw)" by (cases x)
  have le: "t0 \<le> now" "sorted (now # map fst attempts)" "sorted (t0 # map fst attempts)"
    using Cons.prems(3) by (auto simp: x)
  have w: "wrong checkpw u h (now, user, pw)" "\<forall>x\<in>set attempts. wrong checkpw u h x"
    using Cons.prems(4) by (simp_all add: x)
  note st = login_step [OF Cons.prems(1,2) le(1) w(1)]
  show ?case
  proof (cases "now < t0 + lock_duration (int a)")
    case True
    then show ?thesis using Cons.IH [OF Cons.prems(1,2) le(3) w(2)] st
      by (simp add: x split_beta)
  next
    case False
    have "spaced (Suc a) now (fst (login_run checkpw attempts (register_failed_attempt now s)))"
      using Cons.prems(1,2) by (intro Cons.IH [OF _ _ le(2) w(2)])
        (simp_all add: account_failed_attempt failed_attempt)
    then show ?thesis using st False by (simp add: x split_beta)
  qed
qed simp

lemma spaced_nth:
  "spaced a t0 ts \<Longrightarrow> Suc i < length ts \<Longrightarrow> ts ! i + lock_duration (int (a + Suc i)) \<le> ts ! Suc i"
proof (induction ts arbitrary: a t0 i)
  case (Cons t ts)
  then show ?case
    by (cases i; cases ts) (force simp: add.commute)+
qed simp

text \<open>C37: guessing the master password is slowed down: of a sequence of wrong attempts on an
  account with no failures, however close together and however many, those that are checked at
  all keep a distance: after the fifth wrong guess at least a minute passes before the next,
  after the tenth five minutes, after the twentieth half an hour.\<close>

theorem login_lockout:
  assumes "account user hash s" "failed 0 0 s"
    and "sorted (map fst attempts)" "\<forall>x\<in>set attempts. 0 \<le> fst x \<and> wrong checkpw user hash x"
    and "fst (login_run checkpw attempts s) = ts" "Suc i < length ts"
  shows "ts ! i + (if i + 1 \<ge> 20 then 1800 else if i + 1 \<ge> 10 then 300 else if i + 1 \<ge> 5 then 60 else 0)
           \<le> ts ! (i + 1)"
proof -
  have "spaced 0 0 ts"
    using login_run_spaced [OF assms(1,2)] assms(3-5) by auto
  from spaced_nth [OF this assms(6)] show ?thesis by (simp add: lock_duration_def split: if_splits)
qed

definition demo_account :: node_db where
  "demo_account = db_init\<lparr>config := [(''local_username'', Text ''bob''), (''password_hash'', Text ''h'')]\<rparr>"

theorem login_lockout_witness:
  "fst (login_run (\<lambda>_ _. False) (map (\<lambda>t. (t, ''bob'', ''guess'')) [1, 2, 3, 4, 5, 70]) demo_account) ! 4 + 60 \<le>
   fst (login_run (\<lambda>_ _. False) (map (\<lambda>t. (t, ''bob'', ''guess'')) [1, 2, 3, 4, 5, 70]) demo_account) ! 5"
proof -
  let ?c = "\<lambda>_ _. False"
  have acc: "account ''bob'' ''h'' demo_account" "failed 0 0 demo_account"
    by (simp_all add: account_def failed_def demo_account_def get_config_def db_init_def lock_duration_def)
  have w: "wrong ?c ''bob'' ''h'' (t, ''bob'', ''guess'')" for t by (simp add: wrong_def)
  have one: "fst (login_run ?c ((now, ''bob'', ''guess'') # rest) s) =
      now # fst (login_run ?c rest (register_failed_attempt now s))"
    if "account ''bob'' ''h'' s" "failed a t0 s" "t0 + lock_duration (int a) \<le> now" "t0 \<le> now"
    for s a t0 now rest
    using login_step [OF that(1,2,4) w] that(3) by (simp add: split_beta)
  note fs = failed_attempt [OF acc(2), of 1]
  note fs2 = failed_attempt [OF fs, of 2]
  note fs3 = failed_attempt [OF fs2, of 3]
  note fs4 = failed_attempt [OF fs3, of 4]
  note fs5 = failed_attempt [OF fs4, of 5]
  have run: "fst (login_run ?c (map (\<lambda>t. (t, ''bob'', ''guess'')) [1, 2, 3, 4, 5, 70]) demo_account) =
      [1, 2, 3, 4, 5, 70]"
    using acc(1)
    by (simp add: one [OF _ acc(2)] one [OF _ fs] one [OF _ fs2] one [OF _ fs3] one [OF _ fs4]
      one [OF _ fs5] account_failed_attempt lock_duration_def del: login_run.simps(2))
  show ?thesis
    using login_lockout [OF acc _ _ run, of 4] run by (simp add: wrong_def)
qed

section \<open>Disappearing messages\<close>

lemma find_contact_has: "find_contact w s = Some c \<Longrightarrow> has_contact w s"
  unfolding find_contact_def has_contact_def by (drule find_SomeD) force

text \<open>A message saved for a contact with a time to live is part of the conversation at once
  and survives exactly the sweeps that run before its time is up.\<close>

theorem disappearing_message:
  assumes "keys_ok s" "find_contact peer s = Some c" "c_ttl c = Some ttl" "0 < ttl"
    and "save_message fk peer sender text t None s = (r, s')"
  shows "\<exists>i. r = Some i \<and>
     (\<exists>m\<in>set (get_messages peer None None s'). m_id m = i \<and> m_text m = text \<and> m_sender m = sender \<and>
        m_timestamp m = t \<and> m_expires_at m = Some (t + ttl)) \<and>
     (i \<in> m_id ` set (messages (snd (delete_expired_messages now s'))) \<longleftrightarrow> now_ms now < t + ttl)"
proof -
  let ?m = "\<lparr>m_id = next_message s, m_peer = norm_onion peer, m_sender = sender, m_text = text,
    m_timestamp = t, m_expires_at = Some (t + ttl), m_delivery_state = ''sent''\<rparr>"
  have s': "s' = s\<lparr>messages := messages s @ [?m], next_message := next_message s + 1\<rparr>"
    and r: "r = Some (next_message s)"
    using assms(2-5) find_contact_has [OF assms(2)] by (auto simp: save_message_def)
  have "?m \<in> set (get_messages peer None None s')"
    by (simp add: get_messages_def s')
  moreover have "\<forall>m\<in>set (messages s). m_id m \<noteq> next_message s"
    using assms(1) by (auto simp: keys_ok_def)
  then have "next_message s \<in> m_id ` set (messages (snd (delete_expired_messages now s'))) \<longleftrightarrow>
      now_ms now < t + ttl"
    by (force simp: delete_expired_messages_def s' set_delete_where expired_def not_le)
  ultimately show ?thesis
    unfolding r by (intro exI [of _ "next_message s"] conjI bexI [of _ ?m]) simp_all
qed

definition ttl_db :: node_db where
  "ttl_db = snd (set_disappearing_ttl ''a'' (Some 1000) demo_db)"

theorem disappearing_message_witness:
  "\<exists>i. fst (save_message True ''a'' ''me'' ''hi'' 5000 None ttl_db) = Some i \<and>
     i \<in> m_id ` set (messages (snd (delete_expired_messages 5 (snd (save_message True ''a'' ''me'' ''hi'' 5000 None ttl_db))))) \<and>
     i \<notin> m_id ` set (messages (snd (delete_expired_messages 6 (snd (save_message True ''a'' ''me'' ''hi'' 5000 None ttl_db)))))"
proof -
  have k: "keys_ok demo_db" using exec_keys [of db_init True demo_contact]
    by (simp add: demo_db_def) (simp add: keys_ok_def db_init_def)
  have "keys_ok ttl_db" using exec_keys [OF k, of True "Set_Ttl ''a'' (Some 1000)"]
    by (simp add: ttl_db_def)
  moreover obtain c where "find_contact ''a'' ttl_db = Some c" "c_ttl c = Some 1000"
    by (simp add: ttl_db_def demo_db_def demo_contact_def add_contact_def db_init_def
      insert_or_ignore_def set_disappearing_ttl_def update_contact_def update_where_def
      find_contact_def norm_onion_def str_simps)
  ultimately show ?thesis
    using disappearing_message [of ttl_db "''a''" c 1000 True "''me''" "''hi''" 5000 _ _ 5]
      disappearing_message [of ttl_db "''a''" c 1000 True "''me''" "''hi''" 5000 _ _ 6]
    by (cases "save_message True ''a'' ''me'' ''hi'' 5000 None ttl_db") (auto simp: now_ms_def)
qed

section \<open>Invites\<close>

definition invite_used :: "string \<Rightarrow> node_db \<Rightarrow> bool" where
  "invite_used token s \<longleftrightarrow> token \<in> gi_token ` set (group_invites s) \<and>
     (\<forall>r\<in>set (group_invites s). gi_token r = token \<longrightarrow> gi_used_at r \<noteq> None)"

lemma invite_used_frame: "group_invites s' = group_invites s \<Longrightarrow> invite_used token s' = invite_used token s"
  by (simp add: invite_used_def)

lemma invite_used_create:
  "invite_used token s \<Longrightarrow> invite_used token (snd (create_group_invite fk now t g s))"
  by (auto simp: create_group_invite_def invite_used_def)

lemma invite_used_mark:
  "invite_used token (s\<lparr>group_invites := update_where (\<lambda>r. gi_token r = t)
      (\<lambda>r. r\<lparr>gi_used_at := Some x\<rparr>) (group_invites s)\<rparr>) \<longleftrightarrow>
   token \<in> gi_token ` set (group_invites s) \<and> (token = t \<or> invite_used token s)"
  by (simp add: invite_used_def image_update_where) (auto simp: set_update_where)

lemma invite_used_use:
  "invite_used token s \<Longrightarrow> invite_used token (snd (use_group_invite now t s))"
  by (auto simp: use_group_invite_def invite_used_mark split: option.split)
    (simp add: invite_used_def)

lemma group_invites_config [simp]:
  "group_invites (set_config k v s) = group_invites s"
  "group_invites (register_failed_attempt now s) = group_invites s"
  "group_invites (update_contact w f s) = group_invites s"
  by (simp_all add: set_config_def register_failed_attempt_def Let_def update_contact_def)

lemma exec_group_invites:
  "\<forall>now t g. op \<noteq> Create_Invite now t g \<Longrightarrow> \<forall>now t. op \<noteq> Use_Invite now t \<Longrightarrow>
   group_invites (fst (snd (exec fk op s))) = group_invites s"
proof (cases op)
  case (Login chk now u p)
  then show ?thesis by (simp add: login_local_user_def split: option.split)
next
  case (Migrate a b)
  then show ?thesis
    by (simp add: migrate_contact_address_def Let_def split: option.split)
qed (simp_all add: table_ops raising_def Let_def save_message_def save_group_message_def
  split: option.split sum.split)

lemma exec_invite_used:
  assumes "invite_used token s"
  shows "invite_used token (fst (snd (exec fk op s)))"
proof (cases "(\<exists>now t g. op = Create_Invite now t g) \<or> (\<exists>now t. op = Use_Invite now t)")
  case True
  with assms show ?thesis by (auto simp: raising_def invite_used_create invite_used_use)
next
  case False
  then show ?thesis using assms invite_used_frame [OF exec_group_invites] by blast
qed

definition run_ops :: "(bool \<times> db_op) list \<Rightarrow> node_db \<Rightarrow> node_db" where
  "run_ops ops s = fold (\<lambda>(fk, op) s. fst (snd (exec fk op s))) ops s"

lemma run_ops_invite_used: "invite_used token s \<Longrightarrow> invite_used token (run_ops ops s)"
  unfolding run_ops_def
  by (induction ops arbitrary: s) (auto simp: exec_invite_used)

text \<open>An invite opens its group once: after one use has given the group, no later use gives
  anything, whatever other operations run in between.\<close>

theorem invite_single_use:
  assumes "use_group_invite now token s = (Some gid, s')"
  shows "fst (use_group_invite later token (run_ops ops s')) = None"
proof -
  obtain r where r: "List.find (\<lambda>r. gi_token r = token) (group_invites s) = Some r"
    and s': "s' = s\<lparr>group_invites := update_where (\<lambda>r. gi_token r = token)
        (\<lambda>r. r\<lparr>gi_used_at := Some (now_ms now)\<rparr>) (group_invites s)\<rparr>"
    using assms by (auto simp: use_group_invite_def split: option.splits if_splits)
  then have "invite_used token s'"
    using find_SomeD [OF r] by (auto simp: invite_used_mark)
  then have "invite_used token (run_ops ops s')" by (rule run_ops_invite_used)
  then show ?thesis
    unfolding use_group_invite_def invite_used_def
    by (auto dest: find_SomeD split: option.split)
qed

definition invite_db :: node_db where
  "invite_db = db_init\<lparr>group_invites := [\<lparr>gi_token = ''t'', gi_group = ''g'', gi_created_at = 0,
     gi_used_at = None\<rparr>]\<rparr>"

theorem invite_single_use_witness:
  "fst (use_group_invite 1 ''t'' invite_db) = Some ''g'' \<and>
   fst (use_group_invite 2 ''t'' (run_ops [(True, Create_Invite 1 ''t'' ''g'')]
     (snd (use_group_invite 1 ''t'' invite_db)))) = None"
proof -
  have "use_group_invite 1 ''t'' invite_db = (Some ''g'', snd (use_group_invite 1 ''t'' invite_db))"
    by (simp add: use_group_invite_def invite_db_def)
  from invite_single_use [OF this] this show ?thesis by (metis fst_conv)
qed

end
