(* ===== verification/V3_Auth.thy ===== *)
theory V3_Auth
  imports Limiters Encodings
begin

text \<open>
  The accounts of the FastAPI node, \<^verbatim>\<open>transports/p2p/routers/auth.py\<close>: registration, login with
  the lockout per client address, the session's user. The session cookie is the name it stores;
  bcrypt is a parameter. The address pattern shared by the other routers is here too.
\<close>

section \<open>Shared by the routers\<close>

text \<open>\<^verbatim>\<open>ONION_RE = ^[a-z2-7]{16,56}\.onion$\<close>\<close>

definition is_base32 :: "char \<Rightarrow> bool" where
  "is_base32 c = ((97 \<le> code c \<and> code c \<le> 122) \<or> (50 \<le> code c \<and> code c \<le> 55))"

definition onion_body :: "string \<Rightarrow> bool" where
  "onion_body s = (py_endswith s ''.onion'' \<and>
     (let host = take (length s - 6) s in 16 \<le> length host \<and> length host \<le> 56 \<and> list_all is_base32 host))"

definition ONION_RE :: "string \<Rightarrow> bool" where
  "ONION_RE s = re_dollar onion_body s"

text \<open>\<^verbatim>\<open>_client_ip\<close>: the peer of the socket, or the first forwarded address behind loopback.\<close>

definition client_ip :: "string option \<Rightarrow> string \<Rightarrow> string" where
  "client_ip peer forwarded =
     (let peer = (case peer of Some p \<Rightarrow> p | None \<Rightarrow> ''unknown'')
      in if peer \<in> {''127.0.0.1'', ''::1'', ''localhost''} \<and> forwarded \<noteq> []
         then py_strip (hd (py_split CHR '','' forwarded)) else peer)"

section \<open>State\<close>

record user =
  u_username :: string
  u_password_hash :: string
  u_onion :: "string option"

record auth =
  users :: "user list"
  login_failures :: "string \<rightharpoonup> real list"
  locked_until :: "string \<rightharpoonup> real"

section \<open>The lockout per address\<close>

definition MAX_FAILURES_SHORT :: nat where "MAX_FAILURES_SHORT = 5"
definition SHORT_WINDOW :: real where "SHORT_WINDOW = 300"
definition LOCKOUT_DURATION :: real where "LOCKOUT_DURATION = 900"

definition ip_failures :: "string \<Rightarrow> auth \<Rightarrow> real list" where
  "ip_failures ip s = (case login_failures s ip of Some q \<Rightarrow> q | None \<Rightarrow> [])"

definition ip_until :: "string \<Rightarrow> auth \<Rightarrow> real" where
  "ip_until ip s = (case locked_until s ip of Some t \<Rightarrow> t | None \<Rightarrow> 0)"

definition is_locked :: "string \<Rightarrow> real \<Rightarrow> auth \<Rightarrow> bool \<times> auth" where
  "is_locked ip now s =
     (let t = ip_until ip s in
      if now < t then (True, s)
      else if t \<noteq> 0
      then (False, s\<lparr>locked_until := (locked_until s)(ip := None),
                     login_failures := (login_failures s)(ip := None)\<rparr>)
      else (False, s))"

definition record_failure :: "string \<Rightarrow> real \<Rightarrow> auth \<Rightarrow> auth" where
  "record_failure ip now s =
     (let q = dropWhile (\<lambda>t. now - t > SHORT_WINDOW) (ip_failures ip s @ [now]);
          s = s\<lparr>login_failures := (login_failures s)(ip \<mapsto> q)\<rparr>
      in if MAX_FAILURES_SHORT \<le> length q
         then s\<lparr>locked_until := (locked_until s)(ip \<mapsto> now + LOCKOUT_DURATION)\<rparr> else s)"

definition record_success :: "string \<Rightarrow> auth \<Rightarrow> auth" where
  "record_success ip s = s\<lparr>login_failures := (login_failures s)(ip := None),
     locked_until := (locked_until s)(ip := None)\<rparr>"

section \<open>Endpoints\<close>

definition username_char :: "char \<Rightarrow> bool" where
  "username_char c = (let n = code c in (97 \<le> n \<and> n \<le> 122) \<or> (65 \<le> n \<and> n \<le> 90) \<or>
     (48 \<le> n \<and> n \<le> 57) \<or> n = 95 \<or> n = 45)"

text \<open>The validated name, lower case; \<open>None\<close> is refused with status 422.\<close>

definition register_request :: "string \<Rightarrow> string \<Rightarrow> string option" where
  "register_request username password =
     (if 3 \<le> length username \<and> length username \<le> 64 \<and> 8 \<le> length password \<and> length password \<le> 256 \<and>
         re_dollar (\<lambda>v. v \<noteq> [] \<and> list_all username_char v) username
      then Some (py_lower username) else None)"

definition find_user :: "string \<Rightarrow> auth \<Rightarrow> user option" where
  "find_user name s = List.find (\<lambda>u. u_username u = name) (users s)"

definition register_user :: "(bytes \<Rightarrow> string) \<Rightarrow> string \<Rightarrow> string \<Rightarrow> auth \<Rightarrow> user http \<times> auth" where
  "register_user hashpw username password s = (case register_request username password of
     None \<Rightarrow> (Inl (HTTP 422 ''validation''), s)
   | Some name \<Rightarrow>
       (case find_user name s of
          Some _ \<Rightarrow> (Inl (HTTP 409 ''Username already taken''), s)
        | None \<Rightarrow>
            (let u = \<lparr>u_username = name, u_password_hash = hashpw (utf8_encode password), u_onion = None\<rparr>
             in (Inr u, s\<lparr>users := users s @ [u]\<rparr>))))"

text \<open>The result holds the user whose name the session then stores.\<close>

definition login_endpoint ::
    "(bytes \<Rightarrow> string \<Rightarrow> bool) \<Rightarrow> string \<Rightarrow> real \<Rightarrow> string \<Rightarrow> string \<Rightarrow> auth \<Rightarrow> user http \<times> auth" where
  "login_endpoint checkpw ip now username password s =
     (let (locked, s) = is_locked ip now s in
      if locked then (Inl (HTTP 429 ''Too many failed login attempts. Try again later.''), s)
      else case find_user (py_lower username) s of
        None \<Rightarrow> (Inl (HTTP 401 ''Invalid credentials''), record_failure ip now s)
      | Some u \<Rightarrow>
          if \<not> checkpw (utf8_encode password) (u_password_hash u)
          then (Inl (HTTP 401 ''Invalid credentials''), record_failure ip now s)
          else (Inr u, record_success ip s))"

definition logout_endpoint :: "string option \<Rightarrow> string option" where
  "logout_endpoint cookie = None"

definition get_current_user :: "string option \<Rightarrow> auth \<Rightarrow> user http" where
  "get_current_user cookie s = (case cookie of
     None \<Rightarrow> Inl (HTTP 401 ''Not authenticated'')
   | Some name \<Rightarrow>
       if name = [] then Inl (HTTP 401 ''Not authenticated'')
       else (case find_user name s of
               None \<Rightarrow> Inl (HTTP 401 ''User not found'') | Some u \<Rightarrow> Inr u))"

definition me_endpoint :: "string option \<Rightarrow> auth \<Rightarrow> user http" where
  "me_endpoint cookie s = (case cookie of
     None \<Rightarrow> Inl (HTTP 401 ''Not authenticated'')
   | Some name \<Rightarrow>
       if name = [] then Inl (HTTP 401 ''Not authenticated'')
       else (case find_user name s of
               None \<Rightarrow> Inl (HTTP 404 ''User not found'') | Some u \<Rightarrow> Inr u))"

section \<open>The lockout\<close>

lemma ip_failures_record:
  "ip_failures ip (record_failure ip now s) =
     dropWhile (\<lambda>t. now - t > SHORT_WINDOW) (ip_failures ip s @ [now])"
  by (simp add: record_failure_def ip_failures_def Let_def)

lemma ip_until_record:
  "ip_until ip (record_failure ip now s) =
     (if MAX_FAILURES_SHORT \<le> length (ip_failures ip (record_failure ip now s))
      then now + LOCKOUT_DURATION else ip_until ip s)"
  unfolding ip_failures_record by (simp add: record_failure_def ip_until_def Let_def)

interpretation login_ip: failure_lock "\<lambda>now t. now - t \<le> SHORT_WINDOW" "ip_failures ip" "ip_until ip"
    "record_failure ip" MAX_FAILURES_SHORT LOCKOUT_DURATION for ip
proof
  fix s :: auth and now :: real
  assume s: "sorted (ip_failures ip s)" "\<forall>t\<in>set (ip_failures ip s). t \<le> now"
  then have "sorted (ip_failures ip s @ [now])" by (rule sorted_snoc_le)
  then show "ip_failures ip (record_failure ip now s) =
      filter (\<lambda>t. now - t \<le> SHORT_WINDOW) (ip_failures ip s @ [now])"
    using dropWhile_sorted_filter [of "ip_failures ip s @ [now]" "\<lambda>t. now - t \<le> SHORT_WINDOW"]
    by (simp add: ip_failures_record not_le)
qed (simp_all add: ip_until_record)

definition bad_login :: "(bytes \<Rightarrow> string \<Rightarrow> bool) \<Rightarrow> string \<Rightarrow> string \<Rightarrow> auth \<Rightarrow> bool" where
  "bad_login checkpw username password s = (case find_user (py_lower username) s of
     None \<Rightarrow> True | Some u \<Rightarrow> \<not> checkpw (utf8_encode password) (u_password_hash u))"

lemma find_user_record [simp]: "find_user n (record_failure ip now s) = find_user n s"
  by (simp add: find_user_def record_failure_def Let_def)

lemma bad_login_record [simp]: "bad_login c u p (record_failure ip now s) = bad_login c u p s"
  by (simp add: bad_login_def)

lemma login_unlocked:
  "ip_until ip s = 0 \<Longrightarrow> 0 \<le> now \<Longrightarrow> bad_login checkpw u p s \<Longrightarrow>
   login_endpoint checkpw ip now u p s = (Inl (HTTP 401 ''Invalid credentials''), record_failure ip now s)"
  by (auto simp: login_endpoint_def is_locked_def Let_def bad_login_def split: option.splits)

text \<open>A client's attempts, each a time, a name and a password.\<close>

definition attempt :: "(bytes \<Rightarrow> string \<Rightarrow> bool) \<Rightarrow> string \<Rightarrow> real \<times> string \<times> string \<Rightarrow> auth \<Rightarrow> auth" where
  "attempt checkpw ip a s = (case a of (now, u, p) \<Rightarrow> snd (login_endpoint checkpw ip now u p s))"

lemma attempts_are_failures:
  "length as \<le> 5 \<Longrightarrow> ip_failures ip s = [] \<Longrightarrow> ip_until ip s = 0 \<Longrightarrow>
   \<forall>(now, u, p)\<in>set as. 0 \<le> now \<and> bad_login checkpw u p s \<Longrightarrow>
   fold (attempt checkpw ip) as s = fold (record_failure ip) (map fst as) s \<and>
   length (ip_failures ip (fold (attempt checkpw ip) as s)) \<le> length as \<and>
   (length as < 5 \<longrightarrow> ip_until ip (fold (attempt checkpw ip) as s) = 0) \<and>
   (\<forall>u p. bad_login checkpw u p (fold (attempt checkpw ip) as s) = bad_login checkpw u p s)"
proof (induction as rule: rev_induct)
  case (snoc a as)
  obtain now u p where a: "a = (now, u, p)" by (cases a)
  let ?s = "fold (attempt checkpw ip) as s"
  have I: "?s = fold (record_failure ip) (map fst as) s \<and> length (ip_failures ip ?s) \<le> length as \<and>
      (length as < 5 \<longrightarrow> ip_until ip ?s = 0) \<and>
      (\<forall>u p. bad_login checkpw u p ?s = bad_login checkpw u p s)"
    by (rule snoc.IH) (use snoc.prems in auto)
  note ih = conjunct1 [OF I] conjunct1 [OF conjunct2 [OF I]]
    conjunct1 [OF conjunct2 [OF conjunct2 [OF I]]] conjunct2 [OF conjunct2 [OF conjunct2 [OF I]]]
  have un: "ip_until ip ?s = 0" using ih(3) snoc.prems(1) by simp
  have st: "attempt checkpw ip a ?s = record_failure ip now ?s"
    using login_unlocked [OF un, of now checkpw u p] snoc.prems(4) ih(4)
    by (simp add: attempt_def a)
  have len: "length (ip_failures ip (record_failure ip now ?s)) \<le> length (as @ [a])"
    unfolding ip_failures_record
    by (rule order.trans [OF length_dropWhile_le]) (use ih(2) in simp)
  have "ip_until ip (record_failure ip now ?s) = 0" if "length (as @ [a]) < 5"
    using len that un by (simp add: ip_until_record MAX_FAILURES_SHORT_def)
  moreover have "fold (attempt checkpw ip) (as @ [a]) s = record_failure ip now ?s"
    using st by simp
  moreover have "record_failure ip now ?s = fold (record_failure ip) (map fst (as @ [a])) s"
    unfolding ih(1) by (simp add: a)
  ultimately show ?case using len ih(4) [unfolded ih(1)] ih(4) by simp
qed simp

lemma is_locked_fresh [simp]: "login_failures s ip = None \<Longrightarrow> ip_failures ip s = []"
  "locked_until s ip = None \<Longrightarrow> ip_until ip s = 0"
  by (simp_all add: ip_failures_def ip_until_def)

lemma other_ip_record:
  "ip' \<noteq> ip \<Longrightarrow> ip_until ip' (record_failure ip now s) = ip_until ip' s"
  by (simp add: record_failure_def ip_until_def Let_def)

lemma other_ip_fold:
  "ip' \<noteq> ip \<Longrightarrow> ip_until ip' (fold (record_failure ip) ts s) = ip_until ip' s"
  by (induction ts arbitrary: s) (simp_all add: other_ip_record)

text \<open>Five wrong logins from one address within five minutes lock that address out: for the
  next fifteen minutes every login from it is answered with 429, the right password included, and
  no other address is locked by it.\<close>

theorem login_ip_lockout:
  assumes "login_failures s ip = None" "locked_until s ip = None"
    and "length as = 5" "sorted (map fst as)" "fst (last as) \<le> fst (hd as) + 300"
    and "\<forall>a\<in>set as. 0 \<le> fst a \<and> bad_login checkpw (fst (snd a)) (snd (snd a)) s"
    and "s' = fold (attempt checkpw ip) as s"
  shows "(fst (last as) \<le> now \<and> now < fst (last as) + 900 \<longrightarrow>
       http_code (fst (login_endpoint checkpw ip now username password s')) = 429) \<and>
     (ip' \<noteq> ip \<longrightarrow> fst (is_locked ip' now s') = fst (is_locked ip' now s))"
proof -
  have s': "s' = fold (record_failure ip) (map fst as) s"
    using attempts_are_failures [of as ip s checkpw] assms by (auto simp: split_beta)
  have ne: "as \<noteq> []" using assms(3) by auto
  then have last: "last (map fst as) = fst (last as)" and hd: "hd (map fst as) = fst (hd as)"
    by (simp_all add: last_map hd_map)
  have "fst (hd as) \<le> t" if "t \<in> set (map fst as)" for t
    using assms(4) that ne by (cases as) auto
  then have fresh: "\<forall>t\<in>set (map fst as). last (map fst as) - t \<le> SHORT_WINDOW"
    using assms(5) by (fastforce simp: last SHORT_WINDOW_def)
  have "ip_until ip s' = last (map fst as) + LOCKOUT_DURATION"
    unfolding s' using assms(1,3,4) ne fresh
    by (intro login_ip.burst_locks) (auto simp: MAX_FAILURES_SHORT_def)
  then have "fst (last as) \<le> now \<and> now < fst (last as) + 900 \<longrightarrow>
      http_code (fst (login_endpoint checkpw ip now username password s')) = 429"
    by (simp add: login_endpoint_def is_locked_def last LOCKOUT_DURATION_def)
  moreover have "ip' \<noteq> ip \<longrightarrow> fst (is_locked ip' now s') = fst (is_locked ip' now s)"
    by (auto simp: s' is_locked_def Let_def other_ip_fold)
  ultimately show ?thesis by blast
qed

definition auth_demo :: auth where
  "auth_demo = \<lparr>users = [\<lparr>u_username = ''bob'', u_password_hash = ''h'', u_onion = None\<rparr>],
     login_failures = Map.empty, locked_until = Map.empty\<rparr>"

theorem login_ip_lockout_witness:
  "http_code (fst (login_endpoint (\<lambda>p h. p = []) ''10.0.0.1'' 100 ''bob'' []
     (fold (attempt (\<lambda>p h. p = []) ''10.0.0.1'')
       (map (\<lambda>t. (t, ''bob'', ''guess'')) [1, 2, 3, 4, 5]) auth_demo))) = 429"
  using login_ip_lockout [of auth_demo "''10.0.0.1''" "map (\<lambda>t. (t, ''bob'', ''guess'')) [1, 2, 3, 4, 5]"
      "\<lambda>p h. p = []" _ 100 "''bob''" "[]"]
  by (simp add: auth_demo_def bad_login_def find_user_def str_simps utf8_encode_def utf8_char_def
    code_def del: fold_simps)

end
