(* ===== verification/Onion_Keys.thy ===== *)
theory Onion_Keys
  imports Encodings
begin

text \<open>
  What the signature checks of \<^verbatim>\<open>transports/p2p/routers/files.py\<close> and
  \<^verbatim>\<open>transports/relay/routers/nodes.py\<close> share: the base32 decoding of the key in an onion address
  and the result of reading an ISO-8601 time. A time without an offset can not be subtracted from
  the clock's time, which has one; the subtraction raises outside the code's \<^verbatim>\<open>try\<close>.
\<close>

text \<open>\<^verbatim>\<open>datetime.fromisoformat\<close>: seconds since the epoch, or a time without an offset.\<close>

datatype iso_time = Aware real | Naive

text \<open>
  \<^verbatim>\<open>base64.b32decode(s)\<close> for text without padding: upper-case letters and the digits 2 to 7,
  in groups of eight; anything else raises.
\<close>

definition b32_val :: "char \<Rightarrow> nat option" where
  "b32_val c = (let n = code c in
     if 65 \<le> n \<and> n \<le> 90 then Some (n - 65) else if 50 \<le> n \<and> n \<le> 55 then Some (n - 24) else None)"

fun b32_number :: "nat \<Rightarrow> string \<Rightarrow> nat option" where
  "b32_number acc [] = Some acc"
| "b32_number acc (c # cs) = (case b32_val c of None \<Rightarrow> None | Some v \<Rightarrow> b32_number (acc * 32 + v) cs)"

definition b32_group :: "string \<Rightarrow> bytes option" where
  "b32_group g = map_option (\<lambda>n. map (\<lambda>i. nat_byte (n div 256 ^ i)) [4, 3, 2, 1, 0]) (b32_number 0 g)"

fun b32_groups :: "nat \<Rightarrow> string \<Rightarrow> bytes option" where
  "b32_groups 0 s = (if s = [] then Some [] else None)"
| "b32_groups (Suc n) s = (case (b32_group (take 8 s), b32_groups n (drop 8 s)) of
     (Some a, Some b) \<Rightarrow> Some (a @ b) | _ \<Rightarrow> None)"

definition b32_decode :: "string \<Rightarrow> bytes option" where
  "b32_decode s = (if length s mod 8 = 0 then b32_groups (length s div 8) s else None)"

section \<open>Lower-case text is refused\<close>

lemma b32_number_None: "c \<in> set g \<Longrightarrow> b32_val c = None \<Longrightarrow> b32_number acc g = None"
  by (induction g arbitrary: acc) (auto split: option.split)

lemma b32_groups_None: "length s = 8 * n \<Longrightarrow> c \<in> set s \<Longrightarrow> b32_val c = None \<Longrightarrow> b32_groups n s = None"
proof (induction n arbitrary: s)
  case (Suc n)
  then have "c \<in> set (take 8 s) \<or> c \<in> set (drop 8 s)" by (metis append_take_drop_id Un_iff set_append)
  then show ?case
  proof
    assume "c \<in> set (take 8 s)"
    then show ?thesis using Suc.prems(3) by (simp add: b32_group_def b32_number_None)
  next
    assume "c \<in> set (drop 8 s)"
    then have "b32_groups n (drop 8 s) = None" using Suc by (intro Suc.IH) auto
    then show ?thesis by (simp split: option.split)
  qed
qed simp

lemma b32_decode_None: "c \<in> set s \<Longrightarrow> b32_val c = None \<Longrightarrow> b32_decode s = None"
  by (auto simp: b32_decode_def b32_groups_None)

end
