(* ===== verification/V3_Files.thy ===== *)
theory V3_Files
  imports Protocol Limiters Sha256 Onion_Keys
begin

text \<open>
  \<^verbatim>\<open>transports/p2p/routers/files.py\<close>: the disk-backed store of file chunks, its pruning, the
  encryption of chunks at rest, the signature check of uploads from peers and the rate limit per
  uploader. The directory is a list of files, each with the sub-directory it is in (the empty name
  is the store's own directory). HKDF, AES-GCM and Ed25519 are parameters, as is
  \<open>fromiso\<close>, the reading of an ISO-8601 time.
\<close>

definition MAX_TOTAL_STORAGE_BYTES :: nat where "MAX_TOTAL_STORAGE_BYTES = 500 * 1024 * 1024"
definition CHUNK_TTL_SECONDS :: real where "CHUNK_TTL_SECONDS = 900"
definition MAX_CHUNK :: nat where "MAX_CHUNK = 10 * 1024 * 1024"

definition CHUNK_MAGIC :: bytes where "CHUNK_MAGIC = utf8_encode ''AMENC1''"

record chunk_file =
  f_dir :: string
  f_name :: string
  f_mtime :: real
  f_blob :: bytes

record files =
  chunk_dir :: "chunk_file list"
  uploads :: "string \<rightharpoonup> real list"

section \<open>Names\<close>

text \<open>\<^verbatim>\<open>_ONION_V3_RE\<close>: a v3 host and an optional port; the host is the first 62 characters.\<close>

definition base32_lower :: "char \<Rightarrow> bool" where
  "base32_lower c = ((97 \<le> code c \<and> code c \<le> 122) \<or> (50 \<le> code c \<and> code c \<le> 55))"

definition onion_v3_full :: "string \<Rightarrow> bool" where
  "onion_v3_full s = (list_all base32_lower (take 56 s) \<and> length (take 56 s) = 56 \<and>
     (let rest = drop 56 s in
      rest = ''.onion'' \<or>
      (take 7 rest = ''.onion:'' \<and> (let port = drop 7 rest in
         port \<noteq> [] \<and> length port \<le> 5 \<and> list_all is_digit port))))"

definition ONION_V3_RE :: "string \<Rightarrow> bool" where
  "ONION_V3_RE s = re_dollar onion_v3_full s"

definition chunk_id_char :: "char \<Rightarrow> bool" where
  "chunk_id_char c = (let n = code c in (97 \<le> n \<and> n \<le> 122) \<or> (65 \<le> n \<and> n \<le> 90) \<or>
     (48 \<le> n \<and> n \<le> 57) \<or> n = 95 \<or> n = 45)"

definition CHUNK_ID_RE :: "string \<Rightarrow> bool" where
  "CHUNK_ID_RE s = re_dollar (\<lambda>s. s \<noteq> [] \<and> length s \<le> 128 \<and> list_all chunk_id_char s) s"

text \<open>\<open>uploader_dir\<close> is called for a sender that is given; a chunk's directory without one is the root.\<close>

definition uploader_dir :: "string \<Rightarrow> string http" where
  "uploader_dir sender = (if ONION_V3_RE sender then Inr (take 32 (sha256_hex (utf8_encode sender)))
     else Inl (HTTP 400 ''Invalid sender onion address format''))"

definition sanitize_chunk_id :: "string \<Rightarrow> string http" where
  "sanitize_chunk_id chunk_id = (if CHUNK_ID_RE chunk_id then Inr chunk_id
     else Inl (HTTP 400 ''Invalid chunk identifier format''))"

text \<open>The directory and file name of a chunk; no separator or dot can be in the id.\<close>

definition chunk_path :: "string \<Rightarrow> string option \<Rightarrow> (string \<times> string) http" where
  "chunk_path chunk_id sender =
     (case (case sender of Some o_ \<Rightarrow> if o_ = [] then Inr [] else uploader_dir o_ | None \<Rightarrow> Inr []) of
        Inl e \<Rightarrow> Inl e
      | Inr d \<Rightarrow> (case sanitize_chunk_id chunk_id of Inl e \<Rightarrow> Inl e | Inr i \<Rightarrow> Inr (d, i @ ''.chunk'')))"

section \<open>Pruning\<close>

definition chunk_expired :: "real \<Rightarrow> chunk_file \<Rightarrow> bool" where
  "chunk_expired now f = (now - f_mtime f > CHUNK_TTL_SECONDS)"

definition total_bytes :: "chunk_file list \<Rightarrow> nat" where
  "total_bytes fs = (\<Sum>f\<leftarrow>fs. length (f_blob f))"

text \<open>The oldest files go first until the rest fits.\<close>

fun evict_oldest :: "nat \<Rightarrow> chunk_file list \<Rightarrow> chunk_file list" where
  "evict_oldest size_left [] = []"
| "evict_oldest size_left (f # fs) =
     (if size_left \<le> MAX_TOTAL_STORAGE_BYTES then f # fs else evict_oldest (size_left - length (f_blob f)) fs)"

text \<open>
  The list of files is taken before the expired ones are removed, and sorting it by modification
  time stats the removed ones: that raises, and the handler around it ends the pruning.
\<close>

definition prune_expired_chunks :: "real \<Rightarrow> chunk_file list \<Rightarrow> chunk_file list" where
  "prune_expired_chunks now fs =
     (let kept = filter (\<lambda>f. \<not> chunk_expired now f) fs
      in if total_bytes kept > MAX_TOTAL_STORAGE_BYTES then
           (if list_ex (chunk_expired now) fs then kept
            else evict_oldest (total_bytes kept) (sort_key f_mtime fs))
         else kept)"

section \<open>Encryption at rest\<close>

text \<open>
  HKDF without a salt uses 32 zero bytes. \<open>master\<close> is \<^verbatim>\<open>_master_chunk_key()\<close>: derived from the
  configured database key, or the random key of the process.
\<close>

definition master_chunk_key :: "crypto \<Rightarrow> string \<Rightarrow> bytes \<Rightarrow> bytes" where
  "master_chunk_key c db_key process_key =
     (if db_key \<noteq> [] then hkdf c 32 zeros32 (utf8_encode ''AnonyMus-XFTP-Master-Chunk-Key'') (utf8_encode db_key)
      else process_key)"

definition derive_chunk_key :: "crypto \<Rightarrow> bytes \<Rightarrow> string option \<Rightarrow> string \<Rightarrow> bytes" where
  "derive_chunk_key c master secret chunk_id =
     (let ikm = (case secret of
          Some x \<Rightarrow> if x = [] then master
                    else (case b64_decode x of Some b \<Rightarrow> b | None \<Rightarrow> utf8_encode x)
        | None \<Rightarrow> master)
      in hkdf c 32 zeros32 (utf8_encode ''AnonyMus-XFTP-ChunkKey/'' @ utf8_encode chunk_id) ikm)"

text \<open>The first contact row with the address, when its secret is set.\<close>

definition lookup_shared_secret :: "(string \<times> string option) list \<Rightarrow> string option \<Rightarrow> string option" where
  "lookup_shared_secret contacts sender = (case sender of
     None \<Rightarrow> None
   | Some o_ \<Rightarrow> if o_ = [] then None else
       (case map_of contacts o_ of
          Some (Some x) \<Rightarrow> if x = [] then None else Some x | _ \<Rightarrow> None))"

definition encrypt_chunk :: "crypto \<Rightarrow> bytes \<Rightarrow> bytes \<Rightarrow> bytes \<Rightarrow> bytes option" where
  "encrypt_chunk c nonce plaintext key =
     (case aead_seal c key nonce plaintext [] of None \<Rightarrow> None | Some ct \<Rightarrow> Some (CHUNK_MAGIC @ nonce @ ct))"

definition decrypt_chunk :: "crypto \<Rightarrow> bytes \<Rightarrow> bytes \<Rightarrow> bytes option" where
  "decrypt_chunk c blob key =
     (if length blob < 6 + 12 + 16 then None
      else if take 6 blob \<noteq> CHUNK_MAGIC then None
      else aead_open c key (take 12 (drop 6 blob)) (drop 18 blob) [])"

definition save_chunk ::
    "crypto \<Rightarrow> bytes \<Rightarrow> bytes \<Rightarrow> (string \<times> string option) list \<Rightarrow> real \<Rightarrow> string \<Rightarrow> bytes \<Rightarrow>
     string option \<Rightarrow> files \<Rightarrow> unit http \<times> files" where
  "save_chunk c master nonce contacts now chunk_id data sender s =
     (let s = s\<lparr>chunk_dir := prune_expired_chunks now (chunk_dir s)\<rparr>
      in case chunk_path chunk_id sender of
           Inl e \<Rightarrow> (Inl e, s)
         | Inr (d, name) \<Rightarrow>
             (let key = derive_chunk_key c master (lookup_shared_secret contacts sender) chunk_id
              in case encrypt_chunk c nonce data key of
                   None \<Rightarrow> (Inl (HTTP 500 ''encryption''), s)
                 | Some blob \<Rightarrow>
                     (Inr (), s\<lparr>chunk_dir := filter (\<lambda>f. (f_dir f, f_name f) \<noteq> (d, name)) (chunk_dir s) @
                        [\<lparr>f_dir = d, f_name = name, f_mtime = now, f_blob = blob\<rparr>]\<rparr>)))"

definition load_chunk ::
    "crypto \<Rightarrow> bytes \<Rightarrow> (string \<times> string option) list \<Rightarrow> real \<Rightarrow> string \<Rightarrow> string option \<Rightarrow> files \<Rightarrow>
     bytes option http \<times> files" where
  "load_chunk c master contacts now chunk_id sender s =
     (case chunk_path chunk_id sender of
        Inl e \<Rightarrow> (Inl e, s)
      | Inr (d, name) \<Rightarrow>
          (case List.find (\<lambda>f. f_dir f = d \<and> f_name f = name) (chunk_dir s) of
             None \<Rightarrow> (Inr None, s)
           | Some f \<Rightarrow>
               if chunk_expired now f
               then (Inr None, s\<lparr>chunk_dir := filter (\<lambda>f. (f_dir f, f_name f) \<noteq> (d, name)) (chunk_dir s)\<rparr>)
               else if take 6 (f_blob f) \<noteq> CHUNK_MAGIC then (Inr (Some (f_blob f)), s)
               else
                 let by_contact = (case lookup_shared_secret contacts sender of
                       Some x \<Rightarrow> decrypt_chunk c (f_blob f) (derive_chunk_key c master (Some x) chunk_id)
                     | None \<Rightarrow> None)
                 in (Inr (case by_contact of
                       Some p \<Rightarrow> Some p
                     | None \<Rightarrow> decrypt_chunk c (f_blob f) (derive_chunk_key c master None chunk_id)), s)))"

section \<open>Uploads from peers\<close>

definition WINDOW_SECONDS :: real where "WINDOW_SECONDS = 300"
definition MAX_UPLOADS_PER_WINDOW :: nat where "MAX_UPLOADS_PER_WINDOW = 50"

definition uploader_stamps :: "string \<Rightarrow> files \<Rightarrow> real list" where
  "uploader_stamps w s = (case uploads s w of Some q \<Rightarrow> q | None \<Rightarrow> [])"

definition check_and_record :: "string \<Rightarrow> real \<Rightarrow> files \<Rightarrow> bool \<times> files" where
  "check_and_record w now s =
     (let q = dropWhile (\<lambda>t. now - t > WINDOW_SECONDS) (uploader_stamps w s)
      in if MAX_UPLOADS_PER_WINDOW \<le> length q then (False, s\<lparr>uploads := (uploads s)(w \<mapsto> q)\<rparr>)
         else (True, s\<lparr>uploads := (uploads s)(w \<mapsto> q @ [now])\<rparr>))"

definition verify_p2p_upload_signature ::
    "(bytes \<Rightarrow> bytes \<Rightarrow> bytes \<Rightarrow> bool option) \<Rightarrow> (string \<Rightarrow> iso_time option) \<Rightarrow> real \<Rightarrow>
     string \<Rightarrow> string \<Rightarrow> string \<Rightarrow> string \<Rightarrow> unit http" where
  "verify_p2p_upload_signature ed25519 fromiso now chunk_id timestamp signature_b64 sender =
     (if \<not> ONION_V3_RE sender then Inl (HTTP 400 ''Sender must be a v3 onion address (56 base32 chars + .onion)'')
      else case b32_decode (take 56 sender) of
        None \<Rightarrow> Inl (HTTP 400 ''Could not decode onion address public key'')
      | Some pubkey \<Rightarrow>
          if length pubkey \<noteq> 35 then Inl (HTTP 400 ''Decoded onion address must be 35 bytes'')
          else case fromiso timestamp of
            None \<Rightarrow> Inl (HTTP 400 ''Invalid timestamp format (expected ISO-8601)'')
          | Some Naive \<Rightarrow> Inl (HTTP 500 ''Internal server error'')
          | Some (Aware ts) \<Rightarrow>
              if \<bar>now - ts\<bar> > 300 then Inl (HTTP 401 ''Timestamp skew'')
              else case b64_decode signature_b64 of
                None \<Rightarrow> Inl (HTTP 400 ''Signature verification failed'')
              | Some sig \<Rightarrow>
                  (case ed25519 (take 32 pubkey) sig (utf8_encode (chunk_id @ ''|'' @ timestamp)) of
                     None \<Rightarrow> Inl (HTTP 400 ''Signature verification failed'')
                   | Some False \<Rightarrow> Inl (HTTP 401 ''Invalid Ed25519 signature'')
                   | Some True \<Rightarrow> Inr ()))"

definition body_check :: "bytes \<Rightarrow> unit http" where
  "body_check body = (if body = [] then Inl (HTTP 400 ''Empty request body'')
     else if length body > MAX_CHUNK then Inl (HTTP 413 ''Chunk size too large'') else Inr ())"

definition local_upload ::
    "crypto \<Rightarrow> bytes \<Rightarrow> bytes \<Rightarrow> (string \<times> string option) list \<Rightarrow> real \<Rightarrow> string \<Rightarrow> bytes \<Rightarrow> files \<Rightarrow>
     unit http \<times> files" where
  "local_upload c master nonce contacts now chunk_id body s = (case body_check body of
     Inl e \<Rightarrow> (Inl e, s) | Inr _ \<Rightarrow> save_chunk c master nonce contacts now chunk_id body None s)"

definition chunk_response :: "bytes option http \<times> files \<Rightarrow> bytes http \<times> files" where
  "chunk_response r = (case r of
     (Inl e, s) \<Rightarrow> (Inl e, s)
   | (Inr None, s) \<Rightarrow> (Inl (HTTP 404 ''Chunk not found''), s)
   | (Inr (Some p), s) \<Rightarrow> (if p = [] then Inl (HTTP 404 ''Chunk not found'') else Inr p, s))"

text \<open>
  \<open>fetch\<close> is the request over Tor for a host, an optional port and a chunk: the status and the
  content, or nothing when it raises. The status of a refusal raises inside the handler's own
  \<^verbatim>\<open>try\<close>, which turns it into 502.
\<close>

definition local_download ::
    "crypto \<Rightarrow> bytes \<Rightarrow> (string \<times> string option) list \<Rightarrow>
     (string \<Rightarrow> string option \<Rightarrow> string \<Rightarrow> (nat \<times> bytes) option) \<Rightarrow> real \<Rightarrow> string \<Rightarrow> string option \<Rightarrow>
     files \<Rightarrow> bytes http \<times> files" where
  "local_download c master contacts fetch now chunk_id onion s =
     (if onion \<noteq> None \<and> onion \<noteq> Some [] then
        (let target = py_lower (py_strip (the onion));
             host = take 62 target;
             port = (if length target > 62 then Some (drop 63 target) else None)
         in if list_ex (\<lambda>ch. ch \<in> set ''/?#@'' \<or> code ch = 92) target \<or> \<not> onion_v3_full target
            then (Inl (HTTP 400 ''Invalid onion address format''), s)
            else if (case port of Some p \<Rightarrow> \<not> (1 \<le> digits_val 0 p \<and> digits_val 0 p \<le> 65535) | None \<Rightarrow> False)
            then (Inl (HTTP 400 ''Invalid onion port''), s)
            else (case fetch host port chunk_id of
                    Some (status, content) \<Rightarrow>
                      (if status = 200 then Inr content
                       else Inl (HTTP 502 ''Failed to download from peer over Tor''), s)
                  | None \<Rightarrow> (Inl (HTTP 502 ''Failed to download from peer over Tor''), s)))
      else chunk_response (load_chunk c master contacts now chunk_id None s))"

definition p2p_upload ::
    "crypto \<Rightarrow> bytes \<Rightarrow> bytes \<Rightarrow> (string \<times> string option) list \<Rightarrow>
     (bytes \<Rightarrow> bytes \<Rightarrow> bytes \<Rightarrow> bool option) \<Rightarrow> (string \<Rightarrow> iso_time option) \<Rightarrow> real \<Rightarrow>
     string \<Rightarrow> string \<Rightarrow> string \<Rightarrow> string \<Rightarrow> bytes \<Rightarrow> files \<Rightarrow> unit http \<times> files" where
  "p2p_upload c master nonce contacts ed25519 fromiso now chunk_id sender timestamp signature body s =
     (if sender = [] \<or> timestamp = [] \<or> signature = []
      then (Inl (HTTP 401 ''P2P upload requires X-Sender-Onion, X-Timestamp, and X-Signature headers''), s)
      else case verify_p2p_upload_signature ed25519 fromiso now chunk_id timestamp signature sender of
        Inl e \<Rightarrow> (Inl e, s)
      | Inr _ \<Rightarrow>
          (let (ok, s) = check_and_record sender now s
           in if \<not> ok then (Inl (HTTP 429 ''Per-uploader rate limit exceeded; try again later''), s)
              else case body_check body of
                Inl e \<Rightarrow> (Inl e, s)
              | Inr _ \<Rightarrow> save_chunk c master nonce contacts now chunk_id body (Some sender) s))"

definition p2p_download ::
    "crypto \<Rightarrow> bytes \<Rightarrow> (string \<times> string option) list \<Rightarrow> real \<Rightarrow> string \<Rightarrow> string \<Rightarrow> files \<Rightarrow>
     bytes http \<times> files" where
  "p2p_download c master contacts now chunk_id sender s =
     chunk_response (load_chunk c master contacts now chunk_id (if sender = [] then None else Some sender) s)"

section \<open>What the endpoints guarantee\<close>

text \<open>The limiter of one uploader meets the window contract.\<close>

interpretation upload_window: window_limiter
  "\<lambda>now t. now - t \<le> WINDOW_SECONDS" "uploader_stamps w" "check_and_record w" MAX_UPLOADS_PER_WINDOW
  for w :: string
proof unfold_locales
  fix s :: files and now :: real
  assume srt: "sorted (uploader_stamps w s)"
  have q: "dropWhile (\<lambda>t. now - t > WINDOW_SECONDS) (uploader_stamps w s) =
      filter (\<lambda>t. now - t \<le> WINDOW_SECONDS) (uploader_stamps w s)"
    using dropWhile_sorted_filter [OF srt, of "\<lambda>t. now - t \<le> WINDOW_SECONDS"] by (simp add: not_le)
  show "fst (check_and_record w now s) =
      (length (filter (\<lambda>t. now - t \<le> WINDOW_SECONDS) (uploader_stamps w s)) < MAX_UPLOADS_PER_WINDOW)"
    by (auto simp: check_and_record_def q Let_def)
  show "uploader_stamps w (snd (check_and_record w now s)) =
      filter (\<lambda>t. now - t \<le> WINDOW_SECONDS) (uploader_stamps w s) @ [now]"
    if "fst (check_and_record w now s)"
    using that unfolding check_and_record_def Let_def q
    by (simp add: uploader_stamps_def split: if_splits)
  show "uploader_stamps w (snd (check_and_record w now s)) = uploader_stamps w s \<or>
      uploader_stamps w (snd (check_and_record w now s)) =
        filter (\<lambda>t. now - t \<le> WINDOW_SECONDS) (uploader_stamps w s)"
    if "\<not> fst (check_and_record w now s)"
    using that unfolding check_and_record_def Let_def q
    by (simp add: uploader_stamps_def split: if_splits)
qed auto

text \<open>Whatever an uploader sends, at most 50 of its uploads pass the limiter in any five
  minutes.\<close>

theorem upload_rate_bound:
  assumes "uploads s w = None" "sorted ts"
  shows "length (filter (\<lambda>t. t \<le> x \<and> x - t \<le> 300) (serve (check_and_record w) ts s)) \<le> 50"
  using upload_window.serve_bound [of w s ts x] assms
  by (simp add: uploader_stamps_def WINDOW_SECONDS_def MAX_UPLOADS_PER_WINDOW_def)

theorem upload_rate_bound_witness:
  "length (filter (\<lambda>t. t \<le> 9 \<and> 9 - t \<le> 300)
     (serve (check_and_record ''w'') [1, 2, 3] \<lparr>chunk_dir = [], uploads = Map.empty\<rparr>)) \<le> 50"
  by (rule upload_rate_bound) simp_all

section \<open>The quota\<close>

lemma total_bytes_simps [simp]:
  "total_bytes [] = 0" "total_bytes (f # fs) = length (f_blob f) + total_bytes fs"
  by (simp_all add: total_bytes_def)

lemma evict_oldest_cap: "n = total_bytes fs \<Longrightarrow> total_bytes (evict_oldest n fs) \<le> MAX_TOTAL_STORAGE_BYTES"
  by (induction fs arbitrary: n) simp_all

lemma evict_oldest_suffix: "\<exists>k. evict_oldest n fs = drop k fs"
proof (induction fs arbitrary: n)
  case (Cons f fs)
  obtain k where "evict_oldest (n - length (f_blob f)) fs = drop k fs" using Cons.IH by blast
  then have "evict_oldest n (f # fs) = drop (if n \<le> MAX_TOTAL_STORAGE_BYTES then 0 else Suc k) (f # fs)"
    by simp
  then show ?case by blast
qed simp

lemma total_bytes_insort: "total_bytes (insort_key k f fs) = length (f_blob f) + total_bytes fs"
  by (induction fs) simp_all

lemma total_bytes_sort: "total_bytes (sort_key k fs) = total_bytes fs"
  by (induction fs) (simp_all add: total_bytes_insort)

text \<open>Pruning removes every expired chunk and nothing else while the rest fits; over the quota,
  if no chunk has expired, it removes oldest chunks first until at most 500 MB are left. But with
  an expired chunk in the listing the eviction is abandoned: the quota stays exceeded.\<close>

theorem prune_quota:
  shows "(\<forall>f\<in>set (prune_expired_chunks now fs). f \<in> set fs \<and> \<not> chunk_expired now f) \<and>
     (list_ex (chunk_expired now) fs \<longrightarrow>
        prune_expired_chunks now fs = filter (\<lambda>f. \<not> chunk_expired now f) fs) \<and>
     (\<not> list_ex (chunk_expired now) fs \<longrightarrow>
        total_bytes (prune_expired_chunks now fs) \<le> 500 * 1024 * 1024 \<and>
        (prune_expired_chunks now fs = fs \<or>
         (\<exists>k. prune_expired_chunks now fs = drop k (sort_key f_mtime fs))))"
proof -
  have all: "\<not> list_ex (chunk_expired now) fs \<Longrightarrow> filter (\<lambda>f. \<not> chunk_expired now f) fs = fs"
    by (simp add: filter_id_conv list_ex_iff)
  obtain k where k: "evict_oldest (total_bytes fs) (sort_key f_mtime fs) = drop k (sort_key f_mtime fs)"
    using evict_oldest_suffix by blast
  have cap: "total_bytes (evict_oldest (total_bytes fs) (sort_key f_mtime fs)) \<le> 500 * 1024 * 1024"
    using evict_oldest_cap [of "total_bytes fs" "sort_key f_mtime fs"]
    by (simp add: total_bytes_sort MAX_TOTAL_STORAGE_BYTES_def)
  show ?thesis
  proof (cases "list_ex (chunk_expired now) fs")
    case True
    then show ?thesis by (simp add: prune_expired_chunks_def Let_def)
  next
    case False
    have "\<forall>f\<in>set (drop k (sort_key f_mtime fs)). f \<in> set fs \<and> \<not> chunk_expired now f"
      using False by (auto simp: list_ex_iff dest: in_set_dropD)
    with False k cap all show ?thesis
      by (auto simp: prune_expired_chunks_def MAX_TOTAL_STORAGE_BYTES_def list_ex_iff Let_def not_less)
  qed
qed

theorem prune_quota_witness:
  "prune_expired_chunks 2000
     [\<lparr>f_dir = [], f_name = ''old'', f_mtime = 1, f_blob = [1]\<rparr>,
      \<lparr>f_dir = [], f_name = ''new'', f_mtime = 1999, f_blob = [2]\<rparr>] =
   [\<lparr>f_dir = [], f_name = ''new'', f_mtime = 1999, f_blob = [2]\<rparr>]"
  using prune_quota [of 2000 "[\<lparr>f_dir = [], f_name = ''old'', f_mtime = 1, f_blob = [1]\<rparr>,
      \<lparr>f_dir = [], f_name = ''new'', f_mtime = 1999, f_blob = [2]\<rparr>]"]
  by (simp add: chunk_expired_def CHUNK_TTL_SECONDS_def)

section \<open>Stored chunks read back\<close>

text \<open>AES-GCM appends a tag of 16 bytes.\<close>

definition aead_tagged :: "crypto \<Rightarrow> bool" where
  "aead_tagged c \<longleftrightarrow> (\<forall>k n p a ct. aead_seal c k n p a = Some ct \<longrightarrow> 16 \<le> length ct)"

lemma chunk_magic_length [simp]: "length CHUNK_MAGIC = 6"
  by (simp add: CHUNK_MAGIC_def utf8_encode_def utf8_char_def code_def)

lemma chunk_roundtrip:
  assumes "aead_correct c" "aead_tagged c" "length nonce = 12" "encrypt_chunk c nonce p key = Some blob"
  shows "decrypt_chunk c blob key = Some p \<and> take 6 blob = CHUNK_MAGIC"
proof -
  obtain ct where ct: "aead_seal c key nonce p [] = Some ct" and b: "blob = CHUNK_MAGIC @ nonce @ ct"
    using assms(4) by (auto simp: encrypt_chunk_def split: option.splits)
  have "16 \<le> length ct" using assms(2) ct unfolding aead_tagged_def by blast
  moreover have "aead_open c key nonce ct [] = Some p" using assms(1) ct unfolding aead_correct_def by blast
  moreover have "take 6 blob = CHUNK_MAGIC" "drop 6 blob = nonce @ ct" "drop 18 blob = ct"
    using assms(3) by (simp_all add: b)
  ultimately show ?thesis using assms(3) by (simp add: decrypt_chunk_def b)
qed

lemma find_after_write:
  "f_dir x = d \<Longrightarrow> f_name x = name \<Longrightarrow>
   List.find (\<lambda>f. f_dir f = d \<and> f_name f = name)
     (filter (\<lambda>f. f_dir f = d \<longrightarrow> f_name f \<noteq> name) fs @ [x]) = Some x"
  by (induction fs) auto

text \<open>A chunk that was stored reads back unchanged for fifteen minutes, from the same uploader's
  directory, whether or not the contact's secret is known, and never after that.\<close>

theorem chunk_reads_back:
  assumes "aead_correct c" "aead_tagged c" "length nonce = 12"
    and "save_chunk c master nonce contacts now chunk_id data sender s = (Inr (), s')"
  shows "fst (load_chunk c master contacts later chunk_id sender s') =
     Inr (if later - now \<le> 900 then Some data else None)"
proof -
  obtain d name blob where path: "chunk_path chunk_id sender = Inr (d, name)"
    and enc: "encrypt_chunk c nonce data
        (derive_chunk_key c master (lookup_shared_secret contacts sender) chunk_id) = Some blob"
    and s': "s' = s\<lparr>chunk_dir := filter (\<lambda>f. (f_dir f, f_name f) \<noteq> (d, name))
        (prune_expired_chunks now (chunk_dir s)) @
        [\<lparr>f_dir = d, f_name = name, f_mtime = now, f_blob = blob\<rparr>]\<rparr>"
    using assms(4) by (auto simp: save_chunk_def Let_def split: sum.splits option.splits)
  note rt = chunk_roundtrip [OF assms(1-3) enc]
  have f: "List.find (\<lambda>f. f_dir f = d \<and> f_name f = name) (chunk_dir s') =
      Some \<lparr>f_dir = d, f_name = name, f_mtime = now, f_blob = blob\<rparr>"
    unfolding s' by (simp add: find_after_write)
  show ?thesis
  proof (cases "lookup_shared_secret contacts sender")
    case None
    then show ?thesis using path f rt
      by (simp add: load_chunk_def chunk_expired_def CHUNK_TTL_SECONDS_def)
  next
    case (Some x)
    then show ?thesis using path f rt
      by (simp add: load_chunk_def chunk_expired_def CHUNK_TTL_SECONDS_def)
  qed
qed

definition tagged_crypto :: crypto where
  "tagged_crypto = toy_crypto\<lparr>aead_seal := (\<lambda>k n p a. Some (replicate 16 0 @ p)),
     aead_open := (\<lambda>k n ct a. Some (drop 16 ct))\<rparr>"

theorem chunk_reads_back_witness:
  "\<exists>s'. save_chunk tagged_crypto [9] (replicate 12 1) [] 10 ''c1'' [5, 6] None
       \<lparr>chunk_dir = [], uploads = Map.empty\<rparr> = (Inr (), s') \<and>
     fst (load_chunk tagged_crypto [9] [] 20 ''c1'' None s') = Inr (Some [5, 6])"
proof -
  have ok: "aead_correct tagged_crypto" "aead_tagged tagged_crypto"
    by (auto simp: aead_correct_def aead_tagged_def tagged_crypto_def)
  have "\<exists>s'. save_chunk tagged_crypto [9] (replicate 12 1) [] 10 ''c1'' [5, 6] None
       \<lparr>chunk_dir = [], uploads = Map.empty\<rparr> = (Inr (), s')"
    by (simp add: save_chunk_def chunk_path_def sanitize_chunk_id_def CHUNK_ID_RE_def re_dollar_def
      chunk_id_char_def code_def encrypt_chunk_def tagged_crypto_def)
  then obtain s' where s': "save_chunk tagged_crypto [9] (replicate 12 1) [] 10 ''c1'' [5, 6] None
       \<lparr>chunk_dir = [], uploads = Map.empty\<rparr> = (Inr (), s')" by blast
  from chunk_reads_back [OF ok _ s', of 20] s' show ?thesis by simp
qed

section \<open>Uploads from peers\<close>

text \<open>C38: no peer with a Tor v3 address can upload: the version byte makes the 56th character of
  such an address the letter d, the pattern admits only lower case, and the base32 decoder that is
  called without folding refuses lower-case letters. Every upload is answered with an error and
  stores nothing.\<close>

theorem p2p_upload_refused:
  assumes "take 56 sender = host @ ''d''"
  shows "\<exists>e. p2p_upload c master nonce contacts ed25519 fromiso now chunk_id sender timestamp signature body s =
     (Inl e, s)"
proof -
  have "CHR ''d'' \<in> set (take 56 sender)" using assms by simp
  then have "b32_decode (take 56 sender) = None"
    by (rule b32_decode_None) (simp add: b32_val_def code_def)
  then show ?thesis by (simp add: p2p_upload_def verify_p2p_upload_signature_def)
qed

theorem p2p_upload_refused_witness:
  "\<exists>e. p2p_upload toy_crypto [] [] [] (\<lambda>_ _ _. Some True) (\<lambda>_. Some (Aware 0)) 0 ''c1''
     (replicate 55 (CHR ''a'') @ ''d.onion'') ''t'' ''s'' [1] \<lparr>chunk_dir = [], uploads = Map.empty\<rparr> =
     (Inl e, \<lparr>chunk_dir = [], uploads = Map.empty\<rparr>)"
  by (rule p2p_upload_refused [where host = "replicate 55 (CHR ''a'')"]) simp

end
