(* ===== verification/Prekeys.thy ===== *)
theory Prekeys
  imports V3_Auth
begin

text \<open>
  One-time pre-keys: the pool in memory, \<^verbatim>\<open>core/prekey_pool.py\<close>, and the bundles that the
  routes of \<^verbatim>\<open>transports/p2p/routers/keys.py\<close> publish, rotate and hand out. Freshly
  generated key pairs are an argument. The lists of a bundle are kept in the row as JSON text,
  which reads back as it was written (\<open>loads_dumps\<close>), and are lists here.
\<close>

section \<open>State\<close>

record prekey_bundle =
  bd_onion :: string
  bd_identity_key :: string
  bd_signed_prekey :: string
  bd_signed_prekey_sig :: string
  bd_pq_prekey :: string
  bd_pq_prekey_sig :: string
  bd_one_time_prekeys :: "string list"
  bd_one_time_pq_prekeys :: "string list"
  bd_published_at :: real

text \<open>
  \<open>pending\<close> are the refills that were started and have not run, \<open>refill_task\<close> says whether the
  task of the event loop is in flight.
\<close>

record keys =
  accounts :: "user list"
  bundles :: "prekey_bundle list"
  prekey_pool :: "string \<rightharpoonup> (string \<times> string) list"
  refill_task :: bool
  pending :: "(string \<times> nat) list"

text \<open>The sizes read from the environment.\<close>

record pool_config =
  cfg_pool_size :: nat
  cfg_low_watermark :: nat
  cfg_refill_batch :: nat

definition default_config :: pool_config where
  "default_config = \<lparr>cfg_pool_size = 100, cfg_low_watermark = 20, cfg_refill_batch = 40\<rparr>"

section \<open>The pool in memory\<close>

definition pool_of :: "string \<Rightarrow> keys \<Rightarrow> (string \<times> string) list" where
  "pool_of onion s = (case prekey_pool s onion of Some p \<Rightarrow> p | None \<Rightarrow> [])"

definition pool_size_for :: "string \<Rightarrow> keys \<Rightarrow> nat" where
  "pool_size_for onion s = length (pool_of onion s)"

text \<open>
  \<open>fresh\<close> are the pairs the generator would give, as many as it can before it fails. The entry of
  the address is created even when nothing is added.
\<close>

definition fill_pool ::
    "pool_config \<Rightarrow> (string \<times> string) list \<Rightarrow> string \<Rightarrow> nat option \<Rightarrow> keys \<Rightarrow>
     (string \<times> string) list \<times> keys" where
  "fill_pool cfg fresh onion target s =
     (let target = (case target of Some t \<Rightarrow> t | None \<Rightarrow> cfg_pool_size cfg);
          added = take (target - pool_size_for onion s) fresh
      in (added, s\<lparr>prekey_pool := (prekey_pool s)(onion \<mapsto> pool_of onion s @ added)\<rparr>))"

definition schedule_refill_if_low :: "pool_config \<Rightarrow> bool \<Rightarrow> string \<Rightarrow> keys \<Rightarrow> keys" where
  "schedule_refill_if_low cfg event_loop onion s =
     (if cfg_low_watermark cfg \<le> pool_size_for onion s then s
      else if refill_task s then s
      else s\<lparr>refill_task := event_loop, pending := pending s @ [(onion, cfg_refill_batch cfg)]\<rparr>)"

definition take_one_time_prekey ::
    "pool_config \<Rightarrow> bool \<Rightarrow> string \<Rightarrow> keys \<Rightarrow> (string \<times> string) option \<times> keys" where
  "take_one_time_prekey cfg event_loop onion s =
     (if pool_of onion s = [] then (None, s)
      else
        let s' = s\<lparr>prekey_pool := (prekey_pool s)(onion \<mapsto> butlast (pool_of onion s))\<rparr>
        in (Some (last (pool_of onion s)),
            if length (butlast (pool_of onion s)) < cfg_low_watermark cfg
            then schedule_refill_if_low cfg event_loop onion s' else s'))"

text \<open>A started refill runs: \<^verbatim>\<open>_async_refill\<close>, or the body of the worker thread.\<close>

definition run_refill :: "pool_config \<Rightarrow> (string \<times> string) list \<Rightarrow> keys \<Rightarrow> keys" where
  "run_refill cfg fresh s = (case pending s of
     [] \<Rightarrow> s
   | (onion, batch) # rest \<Rightarrow>
       snd (fill_pool cfg fresh onion (Some batch) (s\<lparr>pending := rest, refill_task := False\<rparr>)))"

text \<open>It returns the number of keys it added.\<close>

definition initialise_pool_for_local_user ::
    "pool_config \<Rightarrow> (string \<times> string) list \<Rightarrow> string \<Rightarrow> keys \<Rightarrow> nat \<times> keys" where
  "initialise_pool_for_local_user cfg fresh onion s =
     (if onion = [] then (0, s)
      else let (added, s) = fill_pool cfg fresh onion (Some (cfg_pool_size cfg)) s in (length added, s))"

definition drain_pool :: "string \<Rightarrow> keys \<Rightarrow> (string \<times> string) list \<times> keys" where
  "drain_pool onion s = (pool_of onion s, s\<lparr>prekey_pool := (prekey_pool s)(onion := None)\<rparr>)"

definition sync_pool_to_db :: "string \<Rightarrow> keys \<Rightarrow> keys" where
  "sync_pool_to_db onion s =
     s\<lparr>bundles := update_where (\<lambda>b. bd_onion b = onion)
        (\<lambda>b. b\<lparr>bd_one_time_prekeys := map fst (pool_of onion s)\<rparr>) (bundles s)\<rparr>"

section \<open>Bundles\<close>

definition find_bundle :: "string \<Rightarrow> keys \<Rightarrow> prekey_bundle option" where
  "find_bundle onion s = List.find (\<lambda>b. bd_onion b = onion) (bundles s)"

definition put_bundle :: "prekey_bundle \<Rightarrow> keys \<Rightarrow> keys" where
  "put_bundle b s =
     (if find_bundle (bd_onion b) s = None then s\<lparr>bundles := bundles s @ [b]\<rparr>
      else s\<lparr>bundles := update_where (\<lambda>x. bd_onion x = bd_onion b) (\<lambda>_. b) (bundles s)\<rparr>)"

text \<open>The request body is a bundle; its length limits are checked before the handler runs.\<close>

definition valid_publish :: "prekey_bundle \<Rightarrow> bool" where
  "valid_publish b = (16 \<le> length (bd_onion b) \<and> length (bd_onion b) \<le> 128 \<and>
     length (bd_one_time_prekeys b) \<le> 100 \<and> length (bd_one_time_pq_prekeys b) \<le> 100)"

definition session_user :: "string option \<Rightarrow> keys \<Rightarrow> user http" where
  "session_user cookie s = get_current_user cookie
     \<lparr>users = accounts s, login_failures = Map.empty, locked_until = Map.empty\<rparr>"

text \<open>The onion address of a user, none when it is empty.\<close>

definition own_onion :: "user \<Rightarrow> string option" where
  "own_onion u = (case u_onion u of Some (ch # cs) \<Rightarrow> Some (ch # cs) | _ \<Rightarrow> None)"

text \<open>A user without an address claims the one it publishes; the column is unique.\<close>

definition publish_bundle :: "string option \<Rightarrow> real \<Rightarrow> prekey_bundle \<Rightarrow> keys \<Rightarrow> nat http \<times> keys" where
  "publish_bundle cookie now body s = (case session_user cookie s of
     Inl e \<Rightarrow> (Inl e, s)
   | Inr u \<Rightarrow>
       if \<not> valid_publish body then (Inl (HTTP 422 ''validation''), s)
       else
         let onion = py_lower (py_strip (bd_onion body));
             b = body\<lparr>bd_onion := onion, bd_published_at := now\<rparr>
         in if \<not> ONION_RE onion then (Inl (HTTP 400 ''Invalid onion address''), s)
            else (case own_onion u of
              Some mine \<Rightarrow>
                if onion \<noteq> py_lower (py_strip mine)
                then (Inl (HTTP 403 ''Cannot publish pre-key bundle for a different onion address''), s)
                else (Inr (length (bd_one_time_prekeys b)), put_bundle b s)
            | None \<Rightarrow>
                if list_ex (\<lambda>v. u_username v \<noteq> u_username u \<and> u_onion v = Some onion) (accounts s)
                then (Inl (HTTP 500 ''UNIQUE constraint failed''), s)
                else (Inr (length (bd_one_time_prekeys b)),
                      put_bundle b (s\<lparr>accounts := update_where (\<lambda>v. u_username v = u_username u)
                        (\<lambda>v. v\<lparr>u_onion := Some onion\<rparr>) (accounts s)\<rparr>))))"

definition rotate_signed_prekey ::
    "string option \<Rightarrow> string \<Rightarrow> string \<Rightarrow> string \<Rightarrow> string \<Rightarrow> string \<Rightarrow> keys \<Rightarrow> unit http \<times> keys" where
  "rotate_signed_prekey cookie addr spk sig pq pq_sig s = (case session_user cookie s of
     Inl e \<Rightarrow> (Inl e, s)
   | Inr u \<Rightarrow>
       if \<not> (16 \<le> length addr \<and> length addr \<le> 128) then (Inl (HTTP 422 ''validation''), s)
       else
         let onion = py_lower (py_strip addr)
         in if \<not> ONION_RE onion then (Inl (HTTP 400 ''Invalid onion address''), s)
            else if (case own_onion u of Some mine \<Rightarrow> onion \<noteq> py_lower (py_strip mine) | None \<Rightarrow> False)
            then (Inl (HTTP 403 ''Cannot rotate pre-key bundle for a different onion address''), s)
            else (case find_bundle onion s of
              None \<Rightarrow> (Inl (HTTP 404 ''No bundle published for this address. Call /publish first.''), s)
            | Some b \<Rightarrow> (Inr (), put_bundle (b\<lparr>bd_signed_prekey := spk, bd_signed_prekey_sig := sig,
                bd_pq_prekey := pq, bd_pq_prekey_sig := pq_sig\<rparr>) s)))"

text \<open>The response is the bundle, the one-time keys it shows and the size of the list
  (\<open>rs_bundle\<close> is the row as it was read; of its lists the response shows nothing else).\<close>

record bundle_response =
  rs_bundle :: prekey_bundle
  rs_one_time_prekey :: "string option"
  rs_one_time_pq_prekey :: "string option"
  rs_opk_pool_size :: nat

definition first :: "'a list \<Rightarrow> 'a option" where
  "first xs = (case xs of [] \<Rightarrow> None | x # _ \<Rightarrow> Some x)"

definition get_my_bundle :: "string option \<Rightarrow> keys \<Rightarrow> bundle_response http" where
  "get_my_bundle cookie s = (case session_user cookie s of
     Inl e \<Rightarrow> Inl e
   | Inr u \<Rightarrow>
       (case own_onion u of
          None \<Rightarrow> Inl (HTTP 404 ''No onion address configured for user'')
        | Some onion \<Rightarrow>
            (case find_bundle onion s of
               None \<Rightarrow> Inl (HTTP 404 ''No bundle published yet'')
             | Some b \<Rightarrow> Inr \<lparr>rs_bundle = b, rs_one_time_prekey = first (bd_one_time_prekeys b),
                 rs_one_time_pq_prekey = first (bd_one_time_pq_prekeys b),
                 rs_opk_pool_size = length (bd_one_time_prekeys b)\<rparr>)))"

text \<open>
  \<^verbatim>\<open>fetch_bundle\<close> awaits the database between reading the row and writing the shortened lists
  back, so another request can run in between: its first half reads, its second half computes
  from what was read. \<open>refill_from_pool\<close> is the loop that moves keys from the pool in memory.
\<close>

definition fetch_read :: "string option \<Rightarrow> string \<Rightarrow> keys \<Rightarrow> prekey_bundle http" where
  "fetch_read cookie addr s = (case session_user cookie s of
     Inl e \<Rightarrow> Inl e
   | Inr u \<Rightarrow>
       if \<not> (16 \<le> length addr \<and> length addr \<le> 128) then Inl (HTTP 422 ''validation'')
       else
         let onion = py_lower (py_strip addr)
         in if \<not> ONION_RE onion then Inl (HTTP 400 ''Invalid onion address'')
            else (case find_bundle onion s of
              None \<Rightarrow> Inl (HTTP 404 ''No pre-key bundle found for this address'')
            | Some b \<Rightarrow> Inr b))"

fun refill_from_pool ::
    "pool_config \<Rightarrow> bool \<Rightarrow> string \<Rightarrow> nat \<Rightarrow> string list \<Rightarrow> keys \<Rightarrow> string list \<times> keys" where
  "refill_from_pool cfg event_loop onion 0 opks s = (opks, s)"
| "refill_from_pool cfg event_loop onion (Suc n) opks s =
     (case take_one_time_prekey cfg event_loop onion s of
        (None, s) \<Rightarrow> (opks, s)
      | (Some pair, s) \<Rightarrow> refill_from_pool cfg event_loop onion n (opks @ [fst pair]) s)"

text \<open>Only the columns that were assigned are written.\<close>

definition set_one_time_keys :: "string \<Rightarrow> string list \<Rightarrow> string list \<Rightarrow> keys \<Rightarrow> keys" where
  "set_one_time_keys onion opks opqs s =
     s\<lparr>bundles := update_where (\<lambda>b. bd_onion b = onion)
        (\<lambda>b. b\<lparr>bd_one_time_prekeys := opks, bd_one_time_pq_prekeys := opqs\<rparr>) (bundles s)\<rparr>"

definition fetch_commit :: "pool_config \<Rightarrow> prekey_bundle \<Rightarrow> keys \<Rightarrow> bundle_response \<times> keys" where
  "fetch_commit cfg b s =
     (let onion = bd_onion b;
          opks = tl (bd_one_time_prekeys b);
          opqs = tl (bd_one_time_pq_prekeys b);
          s1 = set_one_time_keys onion opks opqs s;
          response = \<lparr>rs_bundle = b, rs_one_time_prekey = first (bd_one_time_prekeys b),
            rs_one_time_pq_prekey = first (bd_one_time_pq_prekeys b), rs_opk_pool_size = length opks\<rparr>
      in if length opks < 20 then
           (let (opks', s2) = refill_from_pool cfg True onion (20 - length opks) opks s1;
                s3 = (if opks' \<noteq> opks then set_one_time_keys onion opks' opqs s2 else s2)
            in (response, if pool_size_for onion s3 < 20
                          then schedule_refill_if_low cfg True onion s3 else s3))
         else (response, s1))"

definition fetch_bundle ::
    "pool_config \<Rightarrow> string option \<Rightarrow> string \<Rightarrow> keys \<Rightarrow> bundle_response http \<times> keys" where
  "fetch_bundle cfg cookie addr s = (case fetch_read cookie addr s of
     Inl e \<Rightarrow> (Inl e, s)
   | Inr b \<Rightarrow> (case fetch_commit cfg b s of (r, s) \<Rightarrow> (Inr r, s)))"

section \<open>A one-time key is handed out once\<close>

text \<open>The public keys of an address that are still to be handed out.\<close>

definition stock :: "string \<Rightarrow> keys \<Rightarrow> string list" where
  "stock onion s = (case find_bundle onion s of Some b \<Rightarrow> bd_one_time_prekeys b | None \<Rightarrow> []) @
     map fst (pool_of onion s)"

definition opks_of :: "string \<Rightarrow> keys \<Rightarrow> string list" where
  "opks_of onion s = (case find_bundle onion s of Some b \<Rightarrow> bd_one_time_prekeys b | None \<Rightarrow> [])"

lemma find_update_where:
  "(\<And>b. bd_onion (f b) = bd_onion b) \<Longrightarrow>
   List.find (\<lambda>b. bd_onion b = w) (update_where (\<lambda>b. bd_onion b = v) f bs) =
     (if w = v then map_option f (List.find (\<lambda>b. bd_onion b = w) bs)
      else List.find (\<lambda>b. bd_onion b = w) bs)"
  by (induction bs) (auto simp: update_where_def)

lemma opks_of_set:
  "opks_of w (set_one_time_keys onion opks opqs s) =
     (if w = onion \<and> find_bundle w s \<noteq> None then opks else opks_of w s)"
  by (auto simp: opks_of_def find_bundle_def set_one_time_keys_def find_update_where split: option.split)

lemma find_bundle_set:
  "find_bundle w (set_one_time_keys onion opks opqs s) = None \<longleftrightarrow> find_bundle w s = None"
  by (simp add: find_bundle_def set_one_time_keys_def find_update_where)

lemma schedule_frame [simp]:
  "bundles (schedule_refill_if_low cfg l w s) = bundles s"
  "prekey_pool (schedule_refill_if_low cfg l w s) = prekey_pool s"
  "accounts (schedule_refill_if_low cfg l w s) = accounts s"
  by (simp_all add: schedule_refill_if_low_def)

lemma take_one_frame [simp]:
  "bundles (snd (take_one_time_prekey cfg l w s)) = bundles s"
  "accounts (snd (take_one_time_prekey cfg l w s)) = accounts s"
  by (simp_all add: take_one_time_prekey_def Let_def)

lemma take_one_pool:
  "pool_of v (snd (take_one_time_prekey cfg l w s)) = (if v = w then butlast (pool_of w s) else pool_of v s)"
  "fst (take_one_time_prekey cfg l w s) = (if pool_of w s = [] then None else Some (last (pool_of w s)))"
  by (auto simp: take_one_time_prekey_def Let_def pool_of_def)

lemma set_one_time_frame [simp]:
  "prekey_pool (set_one_time_keys w x y s) = prekey_pool s"
  "accounts (set_one_time_keys w x y s) = accounts s"
  by (simp_all add: set_one_time_keys_def)

lemma same_rows:
  "bundles s' = bundles s \<Longrightarrow> find_bundle w s' = find_bundle w s \<and> opks_of w s' = opks_of w s"
  "prekey_pool s' = prekey_pool s \<Longrightarrow> pool_of w s' = pool_of w s"
  by (simp_all add: find_bundle_def opks_of_def pool_of_def)

text \<open>The keys move from the end of the pool to the end of the list.\<close>

lemma refill_moves:
  "fst (refill_from_pool cfg l w n opks s) = opks @ map fst (take n (rev (pool_of w s))) \<and>
   pool_of w (snd (refill_from_pool cfg l w n opks s)) = take (length (pool_of w s) - n) (pool_of w s) \<and>
   bundles (snd (refill_from_pool cfg l w n opks s)) = bundles s \<and>
   accounts (snd (refill_from_pool cfg l w n opks s)) = accounts s"
proof (induction n arbitrary: opks s)
  case (Suc n)
  obtain r s' where t: "take_one_time_prekey cfg l w s = (r, s')"
    by (cases "take_one_time_prekey cfg l w s")
  have s': "pool_of w s' = butlast (pool_of w s)" "bundles s' = bundles s" "accounts s' = accounts s"
    "r = (if pool_of w s = [] then None else Some (last (pool_of w s)))"
    using t take_one_pool [where cfg = cfg and l = l and w = w and s = s]
      take_one_frame [where cfg = cfg and l = l and w = w and s = s] by auto
  show ?case
  proof (cases "pool_of w s = []")
    case True
    then show ?thesis using t s' by simp
  next
    case False
    then obtain p k where p: "pool_of w s = p @ [k]" by (cases "pool_of w s" rule: rev_cases) auto
    have r: "r = Some k" using s'(4) p by simp
    have step: "refill_from_pool cfg l w (Suc n) opks s = refill_from_pool cfg l w n (opks @ [fst k]) s'"
      by (simp add: t r)
    show ?thesis unfolding step using Suc.IH [of "opks @ [fst k]" s'] s'(1-3) p
      by (simp add: take_Cons' )
  qed
qed simp

lemma distinct_moved:
  assumes "distinct (opks @ map fst pool)"
  shows "distinct ((opks @ map fst (take n (rev pool))) @ map fst (take (length pool - n) pool)) \<and>
     set ((opks @ map fst (take n (rev pool))) @ map fst (take (length pool - n) pool)) =
     set (opks @ map fst pool)"
proof -
  let ?k = "length pool - n"
  have split: "map fst pool = map fst (take ?k pool) @ map fst (drop ?k pool)"
    by (metis append_take_drop_id map_append)
  have moved: "map fst (take n (rev pool)) = rev (map fst (drop ?k pool))"
    by (simp add: take_rev rev_map)
  show ?thesis using assms unfolding moved split by auto
qed

lemma stock_alt: "stock w s = opks_of w s @ map fst (pool_of w s)"
  by (simp add: stock_def opks_of_def)

lemma commit_stock:
  assumes "find_bundle w s = Some b" "distinct (stock w s)" "fetch_commit cfg b s = (r, s')"
  shows "rs_one_time_prekey r = first (opks_of w s) \<and> distinct (stock w s') \<and>
     set (stock w s') = set (tl (opks_of w s) @ map fst (pool_of w s)) \<and> accounts s' = accounts s"
proof -
  have b: "bd_onion b = w" "opks_of w s = bd_one_time_prekeys b"
    using assms(1) find_SomeD [of "\<lambda>b. bd_onion b = w" "bundles s" b]
    by (auto simp: find_bundle_def opks_of_def)
  define opks where "opks = tl (bd_one_time_prekeys b)"
  define opqs where "opqs = tl (bd_one_time_pq_prekeys b)"
  define s1 where "s1 = set_one_time_keys w opks opqs s"
  have s1: "opks_of w s1 = opks" "pool_of w s1 = pool_of w s" "accounts s1 = accounts s"
    "find_bundle w s1 \<noteq> None"
    using assms(1) by (simp_all add: s1_def opks_of_set find_bundle_set pool_of_def)
  have d: "distinct (opks @ map fst (pool_of w s))"
    using assms(2) unfolding stock_alt b(2) opks_def by (cases "bd_one_time_prekeys b") auto
  show ?thesis
  proof (cases "length opks < 20")
    case False
    then have "s' = s1" "rs_one_time_prekey r = first (opks_of w s)"
      using assms(3) b by (auto simp: fetch_commit_def Let_def s1_def opks_def opqs_def)
    then show ?thesis using s1 d by (simp add: stock_alt b(2) opks_def)
  next
    case True
    define n where "n = 20 - length opks"
    define s2 where "s2 = snd (refill_from_pool cfg True w n opks s1)"
    have f: "fst (refill_from_pool cfg True w n opks s1) = opks @ map fst (take n (rev (pool_of w s)))"
      and s2: "pool_of w s2 = take (length (pool_of w s) - n) (pool_of w s)"
        "bundles s2 = bundles s1" "accounts s2 = accounts s1"
      using refill_moves [of cfg True w n opks s1] s1(2) by (simp_all add: s2_def)
    define opks' where "opks' = opks @ map fst (take n (rev (pool_of w s)))"
    define s3 where "s3 = (if opks' \<noteq> opks then set_one_time_keys w opks' opqs s2 else s2)"
    have r: "rs_one_time_prekey r = first (opks_of w s)"
      and s': "s' = (if pool_size_for w s3 < 20 then schedule_refill_if_low cfg True w s3 else s3)"
      using assms(3) b True f
      by (auto simp: fetch_commit_def Let_def split_beta s1_def s2_def s3_def n_def opks'_def opks_def
          opqs_def)
    have rows: "find_bundle w s2 \<noteq> None" "opks_of w s2 = opks"
      using same_rows(1) [OF s2(2), of w] s1 by auto
    have s3: "opks_of w s3 = opks'" "pool_of w s3 = pool_of w s2" "accounts s3 = accounts s"
      using rows s2(3) s1(3) by (auto simp: s3_def opks_of_set pool_of_def)
    have "bundles s' = bundles s3" "prekey_pool s' = prekey_pool s3" "accounts s' = accounts s3"
      by (simp_all add: s')
    then have "stock w s' = opks' @ map fst (pool_of w s2)" "accounts s' = accounts s"
      using s3 same_rows [of s' s3 w] by (simp_all add: stock_alt)
    then show ?thesis
      using distinct_moved [OF d, of n] r s2(1) by (simp add: opks'_def b(2) opks_def)
  qed
qed

text \<open>
  What runs on the node, one request at a time: fetches of bundles, keys taken from the pool,
  refills. \<open>handed w\<close> are the one-time keys of the address \<open>w\<close> that were handed out.
\<close>

datatype key_op =
    Fetch "string option" string
  | Take_Key string
  | Refill "(string \<times> string) list"

definition key_step :: "pool_config \<Rightarrow> string \<Rightarrow> key_op \<Rightarrow> keys \<Rightarrow> string list \<times> keys" where
  "key_step cfg w op s = (case op of
     Fetch cookie addr \<Rightarrow>
       (case fetch_bundle cfg cookie addr s of
          (Inr r, s') \<Rightarrow> (if bd_onion (rs_bundle r) = w
             then (case rs_one_time_prekey r of Some k \<Rightarrow> [k] | None \<Rightarrow> []) else [], s')
        | (Inl _, s') \<Rightarrow> ([], s'))
   | Take_Key v \<Rightarrow>
       (case take_one_time_prekey cfg True v s of
          (Some k, s') \<Rightarrow> (if v = w then [fst k] else [], s')
        | (None, s') \<Rightarrow> ([], s'))
   | Refill fresh \<Rightarrow> ([], run_refill cfg fresh s))"

fun handed :: "pool_config \<Rightarrow> string \<Rightarrow> key_op list \<Rightarrow> keys \<Rightarrow> string list" where
  "handed cfg w [] s = []"
| "handed cfg w (op # ops) s =
     (case key_step cfg w op s of (out, s') \<Rightarrow> out @ handed cfg w ops s')"

fun fresh_keys :: "key_op list \<Rightarrow> string list" where
  "fresh_keys [] = []"
| "fresh_keys (Refill fresh # ops) = map fst fresh @ fresh_keys ops"
| "fresh_keys (_ # ops) = fresh_keys ops"

text \<open>A step gives keys of the stock away and adds fresh ones only.\<close>

definition spends :: "string list \<Rightarrow> string list \<Rightarrow> string list \<Rightarrow> string list \<Rightarrow> bool" where
  "spends old fresh out new \<longleftrightarrow> distinct (out @ new) \<and> set (out @ new) \<subseteq> set old \<union> set fresh"

lemma refill_other:
  "v \<noteq> w \<Longrightarrow> pool_of w (snd (refill_from_pool cfg l v n opks s)) = pool_of w s"
proof (induction n arbitrary: opks s)
  case (Suc n)
  obtain r s' where t: "take_one_time_prekey cfg l v s = (r, s')"
    by (cases "take_one_time_prekey cfg l v s")
  have "pool_of w s' = pool_of w s"
    using t take_one_pool(1) [where cfg = cfg and l = l and w = v and v = w and s = s] Suc.prems by simp
  then show ?case using Suc t by (auto split: option.split)
qed simp

lemma commit_other:
  assumes "bd_onion b \<noteq> w" "fetch_commit cfg b s = (r, s')"
  shows "stock w s' = stock w s"
proof -
  define s1 where "s1 = set_one_time_keys (bd_onion b) (tl (bd_one_time_prekeys b)) (tl (bd_one_time_pq_prekeys b)) s"
  define res where "res = refill_from_pool cfg True (bd_onion b) (20 - length (tl (bd_one_time_prekeys b)))
    (tl (bd_one_time_prekeys b)) s1"
  have s1: "opks_of w s1 = opks_of w s" "pool_of w s1 = pool_of w s"
    using assms(1) by (simp_all add: s1_def opks_of_set pool_of_def)
  have s2: "opks_of w (snd res) = opks_of w s1" "pool_of w (snd res) = pool_of w s1"
    using refill_other [OF assms(1)] refill_moves [of cfg True "bd_onion b"] same_rows(1)
    unfolding res_def by blast+
  define s3 where "s3 = (if fst res \<noteq> tl (bd_one_time_prekeys b)
    then set_one_time_keys (bd_onion b) (fst res) (tl (bd_one_time_pq_prekeys b)) (snd res) else snd res)"
  have s3: "opks_of w s3 = opks_of w s" "pool_of w s3 = pool_of w s"
    using assms(1) s1 s2 by (simp_all add: s3_def opks_of_set pool_of_def)
  have "s' = s1 \<or> s' = s3 \<or> s' = schedule_refill_if_low cfg True (bd_onion b) s3"
    using assms(2) unfolding fetch_commit_def Let_def split_beta s1_def [symmetric] res_def [symmetric]
      s3_def [symmetric] by (auto split: if_splits)
  then have "opks_of w s' = opks_of w s \<and> pool_of w s' = pool_of w s"
    using s1 s3 same_rows [of "schedule_refill_if_low cfg True (bd_onion b) s3" s3 w] by auto
  then show ?thesis by (simp add: stock_alt)
qed

lemma fetch_spends:
  assumes "distinct (stock w s)"
  shows "spends (stock w s) [] (fst (key_step cfg w (Fetch cookie addr) s)) (stock w (snd (key_step cfg w (Fetch cookie addr) s)))"
proof (cases "fetch_read cookie addr s")
  case (Inl e)
  then show ?thesis using assms by (simp add: key_step_def fetch_bundle_def spends_def)
next
  case (Inr b)
  then obtain onion where f: "find_bundle onion s = Some b"
    by (auto simp: fetch_read_def Let_def split: sum.splits if_splits option.splits)
  then have "bd_onion b = onion" unfolding find_bundle_def by (auto dest: find_SomeD)
  with f have fb: "find_bundle (bd_onion b) s = Some b" by simp
  obtain r s' where c: "fetch_commit cfg b s = (r, s')" by (cases "fetch_commit cfg b s")
  have rb: "rs_bundle r = b" using c by (auto simp: fetch_commit_def Let_def split_beta split: if_splits)
  show ?thesis
  proof (cases "bd_onion b = w")
    case True
    note cs = commit_stock [OF fb [unfolded True] assms c]
    have "stock w s = opks_of w s @ map fst (pool_of w s)" by (rule stock_alt)
    then show ?thesis using cs assms Inr c rb True
      by (cases "opks_of w s") (auto simp: key_step_def fetch_bundle_def spends_def first_def)
  next
    case False
    then show ?thesis using commit_other [OF False c] assms Inr c rb
      by (simp add: key_step_def fetch_bundle_def spends_def)
  qed
qed

lemma take_spends:
  assumes "distinct (stock w s)"
  shows "spends (stock w s) [] (fst (key_step cfg w (Take_Key v) s)) (stock w (snd (key_step cfg w (Take_Key v) s)))"
proof -
  obtain r s' where t: "take_one_time_prekey cfg True v s = (r, s')"
    by (cases "take_one_time_prekey cfg True v s")
  have s': "pool_of w s' = (if w = v then butlast (pool_of v s) else pool_of w s)"
    "r = (if pool_of v s = [] then None else Some (last (pool_of v s)))" "opks_of w s' = opks_of w s"
    using t take_one_pool [where cfg = cfg and l = True and w = v and s = s]
      same_rows(1) [of s' s w] take_one_frame(1) [of cfg True v s] by auto
  show ?thesis
  proof (cases "w = v \<and> pool_of v s \<noteq> []")
    case False
    then have "stock w s' = stock w s" "v = w \<Longrightarrow> r = None" using s' by (auto simp: stock_alt)
    then show ?thesis using t assms by (auto simp: key_step_def spends_def split: option.split)
  next
    case True
    then obtain p k where p: "pool_of v s = p @ [k]" by (cases "pool_of v s" rule: rev_cases) auto
    then show ?thesis using t assms s' True by (auto simp: key_step_def spends_def stock_alt)
  qed
qed

lemma stock_fill:
  "stock w (snd (fill_pool cfg fresh v (Some t) s)) =
     stock w s @ (if v = w then map fst (take (t - pool_size_for w s) fresh) else [])"
  by (simp add: fill_pool_def Let_def stock_def find_bundle_def pool_of_def)

lemma refill_spends:
  assumes "distinct (stock w s @ map fst fresh)"
  shows "spends (stock w s) (map fst fresh) [] (stock w (run_refill cfg fresh s))"
proof (cases "pending s")
  case Nil
  then show ?thesis using assms by (simp add: run_refill_def spends_def)
next
  case (Cons x rest)
  obtain v batch where x: "x = (v, batch)" by (cases x)
  let ?s = "s\<lparr>pending := rest, refill_task := False\<rparr>"
  have "stock w ?s = stock w s" by (simp add: stock_def find_bundle_def pool_of_def)
  then have st: "stock w (run_refill cfg fresh s) =
      stock w s @ (if v = w then map fst (take (batch - pool_size_for w ?s) fresh) else [])"
    by (simp add: run_refill_def Cons x stock_fill)
  have "\<exists>n. stock w (run_refill cfg fresh s) = stock w s @ take n (map fst fresh)"
    unfolding st by (cases "v = w") (auto simp: take_map intro: exI [of _ 0])
  then obtain n where n: "stock w (run_refill cfg fresh s) = stock w s @ take n (map fst fresh)" ..
  have "set (take n (map fst fresh)) \<subseteq> set (map fst fresh)" by (rule set_take_subset)
  with assms show ?thesis unfolding spends_def n by (simp add: distinct_take) blast
qed

lemma handed_spends:
  "distinct (stock w s @ fresh_keys ops) \<Longrightarrow>
   distinct (handed cfg w ops s) \<and> set (handed cfg w ops s) \<subseteq> set (stock w s) \<union> set (fresh_keys ops)"
proof (induction ops arbitrary: s)
  case (Cons op ops)
  define fr where "fr = (case op of Refill fresh \<Rightarrow> map fst fresh | _ \<Rightarrow> [])"
  obtain out s' where st: "key_step cfg w op s = (out, s')" by (cases "key_step cfg w op s")
  have fk: "fresh_keys (op # ops) = fr @ fresh_keys ops" by (cases op) (simp_all add: fr_def)
  have sp: "spends (stock w s) fr out (stock w s')"
  proof (cases op)
    case (Fetch cookie addr)
    then show ?thesis using fetch_spends [of w s cfg cookie addr] Cons.prems st by (simp add: fr_def)
  next
    case (Take_Key v)
    then show ?thesis using take_spends [of w s cfg v] Cons.prems st by (simp add: fr_def)
  next
    case (Refill fresh)
    then have "distinct (stock w s @ map fst fresh)" using Cons.prems by auto
    from refill_spends [OF this, of cfg] Refill st show ?thesis by (auto simp: fr_def key_step_def)
  qed
  then have "distinct (stock w s' @ fresh_keys ops)"
    using Cons.prems unfolding fk spends_def by auto
  from Cons.IH [OF this] sp Cons.prems show ?case
    unfolding fk spends_def handed.simps st by (simp add: subset_iff) blast
qed simp

text \<open>C36: as long as requests do not overlap, no one-time pre-key is handed out twice, through any
  sequence of fetches, takes and refills.\<close>

theorem one_time_keys_once:
  assumes "distinct (stock w s @ fresh_keys ops)"
  shows "distinct (handed cfg w ops s)"
  using handed_spends [OF assms] by blast

definition keys_demo :: keys where
  "keys_demo = \<lparr>accounts = [\<lparr>u_username = ''bob'', u_password_hash = ''h'', u_onion = None\<rparr>],
     bundles = [\<lparr>bd_onion = ''abcdefghijklmnop.onion'', bd_identity_key = ''i'', bd_signed_prekey = ''s'',
       bd_signed_prekey_sig = ''t'', bd_pq_prekey = ''p'', bd_pq_prekey_sig = ''q'',
       bd_one_time_prekeys = [''k1'', ''k2''], bd_one_time_pq_prekeys = [], bd_published_at = 0\<rparr>],
     prekey_pool = [''abcdefghijklmnop.onion'' \<mapsto> [(''k3'', ''x3'')]], refill_task = False, pending = []\<rparr>"

theorem one_time_keys_once_witness:
  "distinct (handed default_config ''abcdefghijklmnop.onion''
     [Fetch (Some ''bob'') ''abcdefghijklmnop.onion'', Refill [(''k4'', ''x4'')],
      Fetch (Some ''bob'') ''abcdefghijklmnop.onion''] keys_demo)"
  by (rule one_time_keys_once)
     (simp add: stock_def find_bundle_def pool_of_def keys_demo_def)

text \<open>The consumption is not atomic: when a second request reads the row between the first one's
  reading and its commit, both peers are given the same one-time key.\<close>

theorem one_time_key_race:
  assumes "fetch_read cookie addr s = Inr b" "bd_one_time_prekeys b = k # ks"
    and "fetch_read cookie' addr s = Inr b'"
    and "fetch_commit cfg b s = (r, s1)" "fetch_commit cfg b' s1 = (r', s2)"
  shows "rs_one_time_prekey r = Some k \<and> rs_one_time_prekey r' = Some k"
proof -
  have "b' = b" using assms(1,3)
    by (auto simp: fetch_read_def Let_def split: sum.splits if_splits option.splits)
  moreover have "rs_one_time_prekey (fst (fetch_commit cfg x t)) = first (bd_one_time_prekeys x)" for x t
    by (simp add: fetch_commit_def Let_def split_beta)
  from this [of b s] this [of b' s1] assms(4,5)
  have "rs_one_time_prekey r = first (bd_one_time_prekeys b)"
    "rs_one_time_prekey r' = first (bd_one_time_prekeys b')" by simp_all
  ultimately show ?thesis using assms(2) by (simp add: first_def)
qed

theorem one_time_key_race_witness:
  "\<exists>b. fetch_read (Some ''bob'') ''abcdefghijklmnop.onion'' keys_demo = Inr b \<and>
     rs_one_time_prekey (fst (fetch_commit default_config b keys_demo)) = Some ''k1'' \<and>
     rs_one_time_prekey (fst (fetch_commit default_config b (snd (fetch_commit default_config b keys_demo)))) = Some ''k1''"
proof -
  have "\<exists>b. fetch_read (Some ''bob'') ''abcdefghijklmnop.onion'' keys_demo = Inr b \<and>
      bd_one_time_prekeys b = [''k1'', ''k2'']"
    by (simp add: fetch_read_def session_user_def get_current_user_def find_user_def keys_demo_def
      find_bundle_def str_simps ONION_RE_def re_dollar_def onion_body_def is_base32_def code_def)
  then obtain b where b: "fetch_read (Some ''bob'') ''abcdefghijklmnop.onion'' keys_demo = Inr b"
    "bd_one_time_prekeys b = [''k1'', ''k2'']" by blast
  from one_time_key_race [OF b b(1) surjective_pairing surjective_pairing] b(1) show ?thesis by blast
qed

end
