(* ===== verification/V3_Sync.thy ===== *)
theory V3_Sync
  imports Protocol Json Limiters V3_Auth
begin

text \<open>
  Pairing of devices, \<^verbatim>\<open>transports/p2p/routers/sync.py\<close>: the broker that receives the
  database of another device under a pairing token, its limiter of failures per address, and the
  endpoints that start a pairing and push the database. The keys, tokens and nonces that are
  drawn at random are arguments. The request body is the JSON value it decodes to.
\<close>

section \<open>State\<close>

record pairing =
  pairing_private_key :: "bytes option"
  active_pairing_pin :: "string option"
  pairing_hkdf_salt :: "bytes option"
  broker_running :: bool
  short_failures :: "string \<rightharpoonup> real list"
  long_failures :: "string \<rightharpoonup> real list"
  blocked_until :: "string \<rightharpoonup> real"
  db_file :: "bytes option"
  db_backup :: "bytes option"

section \<open>The limiter\<close>

definition MAX_FAILURES_LONG :: nat where "MAX_FAILURES_LONG = 10"
definition PAIR_SHORT_WINDOW :: real where "PAIR_SHORT_WINDOW = 60"
definition LONG_WINDOW :: real where "LONG_WINDOW = 1800"
definition COOLDOWN :: real where "COOLDOWN = 1800"

definition queue_of :: "(string \<rightharpoonup> real list) \<Rightarrow> string \<Rightarrow> real list" where
  "queue_of m ip = (case m ip of Some q \<Rightarrow> q | None \<Rightarrow> [])"

definition pair_until :: "string \<Rightarrow> pairing \<Rightarrow> real" where
  "pair_until ip s = (case blocked_until s ip of Some t \<Rightarrow> t | None \<Rightarrow> 0)"

definition is_blocked :: "string \<Rightarrow> real \<Rightarrow> pairing \<Rightarrow> bool" where
  "is_blocked ip now s = (now < pair_until ip s)"

text \<open>The short queue is kept but no decision reads it.\<close>

definition pair_failure :: "string \<Rightarrow> real \<Rightarrow> pairing \<Rightarrow> pairing" where
  "pair_failure ip now s =
     (let short = dropWhile (\<lambda>t. now - t > PAIR_SHORT_WINDOW) (queue_of (short_failures s) ip @ [now]);
          long = dropWhile (\<lambda>t. now - t > LONG_WINDOW) (queue_of (long_failures s) ip @ [now]);
          s = s\<lparr>short_failures := (short_failures s)(ip \<mapsto> short),
                long_failures := (long_failures s)(ip \<mapsto> long)\<rparr>
      in if MAX_FAILURES_LONG \<le> length long
         then s\<lparr>blocked_until := (blocked_until s)(ip \<mapsto> now + COOLDOWN)\<rparr> else s)"

definition pair_success :: "string \<Rightarrow> pairing \<Rightarrow> pairing" where
  "pair_success ip s = s\<lparr>short_failures := (short_failures s)(ip := None),
     long_failures := (long_failures s)(ip := None), blocked_until := (blocked_until s)(ip := None)\<rparr>"

section \<open>The broker\<close>

definition sync_info :: bytes where
  "sync_info = utf8_encode ''AnonyMus-Device-Sync-Key''"

definition sqlite_magic :: bytes where
  "sqlite_magic = utf8_encode ''SQLite format 3'' @ [0]"

definition looks_like_sqlite :: "bytes \<Rightarrow> bool" where
  "looks_like_sqlite d = (16 \<le> length d \<and> (take 16 d = sqlite_magic \<or> take 16 d = replicate 16 0))"

definition json_bytes :: "json option \<Rightarrow> bytes option" where
  "json_bytes j = (case j of Some (JStr t) \<Rightarrow> b64_decode t | _ \<Rightarrow> None)"

text \<open>
  \<^verbatim>\<open>payload.get("pin", "").strip()\<close>; \<open>None\<close> when the payload is no object, the value no
  string, or (the comparison wants ASCII) a character is not ASCII.
\<close>

definition provided_pin :: "json option \<Rightarrow> string option" where
  "provided_pin body = (case body of
     Some (JObj kvs) \<Rightarrow>
       (case map_of kvs ''pin'' of
          None \<Rightarrow> Some []
        | Some (JStr p) \<Rightarrow> if list_all (\<lambda>ch. code ch < 128) (py_strip p) then Some (py_strip p) else None
        | _ \<Rightarrow> None)
   | _ \<Rightarrow> None)"

text \<open>The database a request that passed the token check carries.\<close>

definition received_db :: "crypto \<Rightarrow> bytes \<Rightarrow> bytes \<Rightarrow> json \<Rightarrow> bytes option" where
  "received_db c priv salt payload =
     (case (json_get payload ''client_public_key'', json_bytes (json_get payload ''iv''),
            json_bytes (json_get payload ''ciphertext'')) of
        (Some (JStr pub), Some iv, Some ct) \<Rightarrow>
          (case import_public_key pub of
             Inl _ \<Rightarrow> None
           | Inr peer \<Rightarrow>
               (case dh_exchange c priv peer of
                  None \<Rightarrow> None
                | Some shared \<Rightarrow>
                    (case aead_open c (hkdf c 32 salt sync_info shared) iv ct [] of
                       None \<Rightarrow> None
                     | Some d \<Rightarrow> if looks_like_sqlite d then Some d else None)))
      | _ \<Rightarrow> None)"

definition pairing_post :: "crypto \<Rightarrow> string \<Rightarrow> real \<Rightarrow> string \<Rightarrow> json option \<Rightarrow> pairing \<Rightarrow> nat \<times> pairing" where
  "pairing_post c ip now path body s =
     (if path \<noteq> ''/api/sync/pairing'' then (404, s)
      else if is_blocked ip now s then (429, s)
      else case (pairing_private_key s, pairing_hkdf_salt s, body, provided_pin body) of
        (Some priv, Some salt, Some payload, Some pin) \<Rightarrow>
          if active_pairing_pin s = None \<or> active_pairing_pin s = Some [] \<or> active_pairing_pin s \<noteq> Some pin
          then (401, pair_failure ip now s)
          else (case received_db c priv salt payload of
            None \<Rightarrow> (400, pair_failure ip now s)
          | Some d \<Rightarrow>
              (200, pair_success ip (s\<lparr>db_backup := (if db_file s = None then db_backup s else db_file s),
                 db_file := Some d\<rparr>)))
      | _ \<Rightarrow> (400, pair_failure ip now s))"

section \<open>Endpoints\<close>

definition verify_auth :: "string option \<Rightarrow> auth \<Rightarrow> unit http" where
  "verify_auth cookie a = (case get_current_user cookie a of Inl e \<Rightarrow> Inl e | Inr _ \<Rightarrow> Inr ())"

text \<open>\<^verbatim>\<open>base64.b32encode(raw).rstrip("=")\<close> of 32 bytes: 256 bits and 4 zero bits, 52 characters.\<close>

definition b32_char :: "nat \<Rightarrow> char" where
  "b32_char n = ''ABCDEFGHIJKLMNOPQRSTUVWXYZ234567'' ! n"

definition pairing_token :: "bytes \<Rightarrow> string" where
  "pairing_token raw =
     (let n = foldl (\<lambda>a b. a * 256 + unat b) 0 raw * 16
      in map (\<lambda>i. b32_char (n div 32 ^ (51 - i) mod 32)) [0..<52])"

text \<open>The answer to \<^verbatim>\<open>/pair\<close>: the broker's public key and salt in base64.\<close>

record pair_info =
  pi_k :: string
  pi_salt :: string

definition sync_pair ::
    "crypto \<Rightarrow> bytes \<Rightarrow> bytes \<Rightarrow> bytes \<Rightarrow> bool \<Rightarrow> string option \<Rightarrow> auth \<Rightarrow> pairing \<Rightarrow> pair_info http \<times> pairing" where
  "sync_pair c fresh_key fresh_token fresh_salt port_free cookie a s = (case verify_auth cookie a of
     Inl e \<Rightarrow> (Inl e, s)
   | Inr _ \<Rightarrow>
       (case (broker_running s, pairing_private_key s, active_pairing_pin s, pairing_hkdf_salt s) of
          (True, Some priv, Some pin, Some salt) \<Rightarrow>
            (Inr \<lparr>pi_k = b64_encode (dh_public c priv), pi_salt = b64_encode salt\<rparr>, s)
        | _ \<Rightarrow>
            (Inr \<lparr>pi_k = b64_encode (dh_public c fresh_key), pi_salt = b64_encode fresh_salt\<rparr>,
             s\<lparr>pairing_private_key := Some fresh_key, active_pairing_pin := Some (pairing_token fresh_token),
               pairing_hkdf_salt := Some fresh_salt, broker_running := (broker_running s \<or> port_free)\<rparr>)))"

text \<open>The pin in the answer is three stars, whatever the token.\<close>

definition sync_pair_token :: "string option \<Rightarrow> auth \<Rightarrow> pairing \<Rightarrow> (string \<times> string) http" where
  "sync_pair_token cookie a s = (case verify_auth cookie a of
     Inl e \<Rightarrow> Inl e
   | Inr _ \<Rightarrow>
       (case (active_pairing_pin s, pairing_hkdf_salt s, pairing_private_key s) of
          (Some (p # ps), Some (x # xs), Some _) \<Rightarrow> Inr (''***'', b64_encode (x # xs))
        | _ \<Rightarrow> Inl (HTTP 409 ''No active pairing session; call POST /v3/sync/pair first'')))"

definition push_payload :: "crypto \<Rightarrow> bytes \<Rightarrow> bytes \<Rightarrow> bytes \<Rightarrow> string \<Rightarrow> string \<Rightarrow> string \<Rightarrow> json option" where
  "push_payload c priv iv db k pin salt =
     (case (import_public_key k, if salt \<noteq> [] then b64_decode salt
            else if pin \<noteq> [] then Some (utf8_encode pin) else Some zeros32) of
        (Inr peer, Some salt_bytes) \<Rightarrow>
          (case dh_exchange c priv peer of
             None \<Rightarrow> None
           | Some shared \<Rightarrow>
               (case aead_seal c (hkdf c 32 salt_bytes sync_info shared) iv db [] of
                  None \<Rightarrow> None
                | Some ct \<Rightarrow> Some (JObj
                    [(''client_public_key'', JStr (b64_encode (dh_public c priv))),
                     (''iv'', JStr (b64_encode iv)), (''ciphertext'', JStr (b64_encode ct)),
                     (''pin'', JStr pin)])))
      | _ \<Rightarrow> None)"

text \<open>
  \<open>address\<close> is \<^verbatim>\<open>ipaddress.ip_address\<close>: whether the text is an address, and if so whether it
  is private, loopback, link-local, multicast, unspecified or reserved. \<open>post\<close> is the request,
  giving a status or raising. Every exception in the body, the refusals included, becomes 500.
\<close>

definition sync_push ::
    "crypto \<Rightarrow> bytes \<Rightarrow> bytes \<Rightarrow> (string \<Rightarrow> bool option) \<Rightarrow> (string \<Rightarrow> int \<Rightarrow> json \<Rightarrow> nat option) \<Rightarrow>
     string option \<Rightarrow> auth \<Rightarrow> string \<Rightarrow> int \<Rightarrow> string \<Rightarrow> string \<Rightarrow> string \<Rightarrow> pairing \<Rightarrow> unit http" where
  "sync_push c priv iv address post cookie a ip port k pin salt s =
     (if ip = [] \<or> k = [] \<or> port < 1 \<or> 65535 < port then Inl (HTTP 422 ''validation'')
      else case verify_auth cookie a of
        Inl e \<Rightarrow> Inl e
      | Inr _ \<Rightarrow>
          (case db_file s of
             None \<Rightarrow> Inl (HTTP 500 ''Database file not found'')
           | Some db \<Rightarrow>
               (case push_payload c priv iv db k pin salt of
                  None \<Rightarrow> Inl (HTTP 500 ''encryption'')
                | Some payload \<Rightarrow>
                    (case address ip of
                       None \<Rightarrow> Inl (HTTP 500 ''Invalid target IP address'')
                     | Some True \<Rightarrow> Inl (HTTP 500 ''Target IP address is not allowed'')
                     | Some False \<Rightarrow>
                         (case post ip port payload of
                            None \<Rightarrow> Inl (HTTP 500 ''connection'')
                          | Some st \<Rightarrow> if st = 200 then Inr () else Inl (HTTP 500 ''Pairing peer rejected''))))))"

section \<open>What pairing promises\<close>

lemma queue_of_upd [simp]: "queue_of (m(ip \<mapsto> q)) ip = q"
  by (simp add: queue_of_def)

lemma pair_failure_simps:
  "queue_of (long_failures (pair_failure ip now s)) ip =
     dropWhile (\<lambda>t. now - t > LONG_WINDOW) (queue_of (long_failures s) ip @ [now])"
  "pair_until ip (pair_failure ip now s) =
     (if MAX_FAILURES_LONG \<le> length (queue_of (long_failures (pair_failure ip now s)) ip)
      then now + COOLDOWN else pair_until ip s)"
  by (simp_all add: pair_failure_def Let_def pair_until_def)

interpretation pairing_ip: failure_lock "\<lambda>now t. now - t \<le> LONG_WINDOW"
    "\<lambda>s. queue_of (long_failures s) ip" "pair_until ip" "pair_failure ip" MAX_FAILURES_LONG COOLDOWN
  for ip
proof
  fix s :: pairing and now :: real
  assume s: "sorted (queue_of (long_failures s) ip)" "\<forall>t\<in>set (queue_of (long_failures s) ip). t \<le> now"
  then have "sorted (queue_of (long_failures s) ip @ [now])" by (rule sorted_snoc_le)
  then show "queue_of (long_failures (pair_failure ip now s)) ip =
      filter (\<lambda>t. now - t \<le> LONG_WINDOW) (queue_of (long_failures s) ip @ [now])"
    using dropWhile_sorted_filter [of "queue_of (long_failures s) ip @ [now]" "\<lambda>t. now - t \<le> LONG_WINDOW"]
    by (simp add: pair_failure_simps(1) not_le)
qed (simp_all add: pair_failure_simps(2))

text \<open>A request with a token that is not the active one.\<close>

definition wrong_token :: "json option \<Rightarrow> pairing \<Rightarrow> bool" where
  "wrong_token body s \<longleftrightarrow> (\<exists>p. provided_pin body = Some p \<and> active_pairing_pin s \<noteq> Some p) \<and>
     pairing_private_key s \<noteq> None \<and> pairing_hkdf_salt s \<noteq> None"

definition guess :: "crypto \<Rightarrow> string \<Rightarrow> real \<times> json option \<Rightarrow> pairing \<Rightarrow> pairing" where
  "guess c ip g s = snd (pairing_post c ip (fst g) ''/api/sync/pairing'' (snd g) s)"

lemma wrong_token_frame [simp]: "wrong_token body (pair_failure ip now s) = wrong_token body s"
  by (simp add: wrong_token_def pair_failure_def Let_def)

lemma wrong_token_refused:
  "\<not> is_blocked ip now s \<Longrightarrow> wrong_token body s \<Longrightarrow>
   pairing_post c ip now ''/api/sync/pairing'' body s = (401, pair_failure ip now s)"
  by (auto simp: pairing_post_def wrong_token_def provided_pin_def split: option.splits)

lemma guesses_are_failures:
  assumes "queue_of (long_failures s) ip = []" "pair_until ip s = 0"
  shows "length gs \<le> 10 \<Longrightarrow> sorted (map fst gs) \<Longrightarrow>
     \<forall>g\<in>set gs. 0 \<le> fst g \<and> wrong_token (snd g) s \<Longrightarrow>
     fold (guess c ip) gs s = fold (pair_failure ip) (map fst gs) s \<and>
     (\<forall>body. wrong_token body (fold (guess c ip) gs s) = wrong_token body s)"
proof (induction gs rule: rev_induct)
  case (snoc g gs)
  let ?s = "fold (guess c ip) gs s"
  have I: "?s = fold (pair_failure ip) (map fst gs) s \<and> (\<forall>body. wrong_token body ?s = wrong_token body s)"
    by (rule snoc.IH) (use snoc.prems in \<open>simp_all add: sorted_append\<close>)
  note ih = conjunct1 [OF I] conjunct2 [OF I]
  have "pair_until ip (fold (pair_failure ip) (map fst gs) s) = pair_until ip s"
    using snoc.prems(1,2) assms
    by (intro pairing_ip.few_in_a_row) (simp_all add: sorted_append MAX_FAILURES_LONG_def)
  then have "\<not> is_blocked ip (fst g) ?s"
    using snoc.prems(3) assms(2) ih(1) by (simp add: is_blocked_def)
  then have "guess c ip g ?s = pair_failure ip (fst g) ?s"
    using snoc.prems(3) ih(2) by (simp add: guess_def wrong_token_refused)
  moreover from this have "\<forall>body. wrong_token body (guess c ip g ?s) = wrong_token body s"
    using ih(2) by simp
  ultimately show ?case unfolding fold_append o_apply using ih(1) by simp
qed simp

text \<open>Guessing the pairing token: ten wrong tokens from one address within half an hour block the
  address for half an hour. Fewer never do, however fast they come: the documented limit of five
  failures a minute and the back-off after three are not enforced.\<close>

theorem pairing_block:
  assumes "long_failures s ip = None" "blocked_until s ip = None"
    and "gs \<noteq> []" "length gs \<le> 10" "sorted (map fst gs)" "fst (last gs) \<le> fst (hd gs) + 1800"
    and "\<forall>g\<in>set gs. 0 \<le> fst g \<and> wrong_token (snd g) s" "fst (last gs) \<le> now"
  shows "fst (pairing_post c ip now ''/api/sync/pairing'' body (fold (guess c ip) gs s)) = 429 \<longleftrightarrow>
     length gs = 10 \<and> now < fst (last gs) + 1800"
proof -
  have fresh0: "queue_of (long_failures s) ip = []" "pair_until ip s = 0"
    using assms(1,2) by (simp_all add: queue_of_def pair_until_def)
  have s': "fold (guess c ip) gs s = fold (pair_failure ip) (map fst gs) s"
    using guesses_are_failures [OF fresh0, of gs c] assms(4,5,7) by simp
  have last: "last (map fst gs) = fst (last gs)" using assms(3) by (rule last_map)
  have "fst (hd gs) \<le> t" if "t \<in> set (map fst gs)" for t
    using assms(3,5) that by (cases gs) auto
  then have fresh: "\<forall>t\<in>set (map fst gs). last (map fst gs) - t \<le> LONG_WINDOW"
    using assms(6) by (fastforce simp: last LONG_WINDOW_def)
  have "0 \<le> fst (last gs)" using assms(3,7) by simp
  have u: "pair_until ip (fold (pair_failure ip) (map fst gs) s) =
      (if length gs = 10 then fst (last gs) + 1800 else 0)"
  proof (cases "length gs = 10")
    case True
    then have "pair_until ip (fold (pair_failure ip) (map fst gs) s) = last (map fst gs) + COOLDOWN"
      using assms(3,5) fresh fresh0(1)
      by (intro pairing_ip.burst_locks) (auto simp: MAX_FAILURES_LONG_def)
    with True show ?thesis by (simp add: last COOLDOWN_def)
  next
    case False
    then show ?thesis
      using pairing_ip.few_in_a_row [of s ip "map fst gs"] assms(4,5) fresh0
      by (simp add: MAX_FAILURES_LONG_def)
  qed
  have "fst (pairing_post c ip now ''/api/sync/pairing'' body t) = 429 \<longleftrightarrow> is_blocked ip now t" for t
    by (auto simp: pairing_post_def split: option.split)
  then show ?thesis using u \<open>0 \<le> fst (last gs)\<close> assms(8) by (simp add: s' is_blocked_def)
qed

definition pairing_demo :: pairing where
  "pairing_demo = \<lparr>pairing_private_key = Some [1], active_pairing_pin = Some ''ABC'',
     pairing_hkdf_salt = Some [2], broker_running = True, short_failures = Map.empty,
     long_failures = Map.empty, blocked_until = Map.empty, db_file = None, db_backup = None\<rparr>"

theorem pairing_block_witness:
  "fst (pairing_post toy_crypto ''10.0.0.9'' 20 ''/api/sync/pairing'' None
     (fold (guess toy_crypto ''10.0.0.9'')
       (map (\<lambda>t. (t, Some (JObj [(''pin'', JStr ''X'')]))) [1, 2, 3, 4, 5, 6, 7, 8, 9, 10]) pairing_demo)) = 429"
  using pairing_block [of pairing_demo "''10.0.0.9''"
      "map (\<lambda>t. (t, Some (JObj [(''pin'', JStr ''X'')]))) [1, 2, 3, 4, 5, 6, 7, 8, 9, 10]" 20 toy_crypto None]
  by (simp add: pairing_demo_def wrong_token_def provided_pin_def str_simps code_def del: fold_simps)

text \<open>A push reaches its aim: what \<^verbatim>\<open>push\<close> builds from the broker's key, token and salt, the
  broker decrypts to the same database, which replaces its own and leaves a backup.\<close>

theorem pairing_restores:
  assumes "aead_correct c" "dh_commutes c" "dh_keys_ok c"
    and "pairing_private_key s = Some priv" "active_pairing_pin s = Some pin" "pairing_hkdf_salt s = Some salt"
    and "salt \<noteq> []" "pin \<noteq> []" "list_all (\<lambda>ch. code ch < 128 \<and> \<not> py_isspace ch) pin"
    and "\<not> is_blocked ip now s" "looks_like_sqlite db"
    and "push_payload c my iv db (b64_encode (dh_public c priv)) pin (b64_encode salt) = Some payload"
    and "pairing_post c ip now ''/api/sync/pairing'' (Some payload) s = (st, s')"
  shows "st = 200 \<and> db_file s' = Some db \<and> (db_file s \<noteq> None \<longrightarrow> db_backup s' = db_file s)"
proof -
  have imp: "import_public_key (b64_encode (dh_public c x)) = Inr (dh_public c x)" for x
    using assms(3) by (simp add: import_public_key_def dh_keys_ok_def)
  obtain shared where sh: "dh_exchange c my (dh_public c priv) = Some shared"
    using assms(3) unfolding dh_keys_ok_def by blast
  then obtain ct where ct: "aead_seal c (hkdf c 32 salt sync_info shared) iv db [] = Some ct"
    and p: "payload = JObj [(''client_public_key'', JStr (b64_encode (dh_public c my))),
      (''iv'', JStr (b64_encode iv)), (''ciphertext'', JStr (b64_encode ct)), (''pin'', JStr pin)]"
    using assms(7,12) imp by (auto simp: push_payload_def split: option.splits)
  have "dh_exchange c priv (dh_public c my) = Some shared"
    using sh assms(2) unfolding dh_commutes_def by metis
  moreover have "aead_open c (hkdf c 32 salt sync_info shared) iv ct [] = Some db"
    using assms(1) ct unfolding aead_correct_def by blast
  ultimately have r: "received_db c priv salt payload = Some db"
    using imp assms(11) by (simp add: received_db_def p json_get_def json_bytes_def)
  have "py_strip pin = pin" using assms(9) by (intro py_strip_id) (simp add: list_all_iff)
  then have pp: "provided_pin (Some payload) = Some pin"
    using assms(9) by (simp add: provided_pin_def p list_all_iff)
  show ?thesis
    using assms(13,4-6,8,10) r pp
    by (auto simp: pairing_post_def pair_success_def is_blocked_def pair_until_def)
qed

theorem pairing_restores_witness:
  "\<exists>payload. push_payload toy_crypto [3] [4] sqlite_magic (b64_encode (dh_public toy_crypto [1])) ''ABC''
       (b64_encode [2]) = Some payload \<and>
     fst (pairing_post toy_crypto ''10.0.0.9'' 5 ''/api/sync/pairing'' (Some payload) pairing_demo) = 200"
proof -
  have "\<exists>payload. push_payload toy_crypto [3] [4] sqlite_magic (b64_encode (dh_public toy_crypto [1])) ''ABC''
       (b64_encode [2]) = Some payload"
  proof -
    have i: "import_public_key (b64_encode (dh_public toy_crypto [1])) = Inr (dh_public toy_crypto [1])"
      using toy_crypto_ok(5) by (simp add: import_public_key_def dh_keys_ok_def)
    obtain x where x: "dh_exchange toy_crypto [3] (dh_public toy_crypto [1]) = Some x"
      using toy_crypto_ok(5) unfolding dh_keys_ok_def by blast
    obtain y where "aead_seal toy_crypto (hkdf toy_crypto 32 [2] sync_info x) [4] sqlite_magic [] = Some y"
      by (simp add: toy_crypto_def)
    then show ?thesis using i x by (simp add: push_payload_def del: b64_encode.simps)
  qed
  then obtain payload where p: "push_payload toy_crypto [3] [4] sqlite_magic
      (b64_encode (dh_public toy_crypto [1])) ''ABC'' (b64_encode [2]) = Some payload" by blast
  have "looks_like_sqlite sqlite_magic"
    by (simp add: looks_like_sqlite_def sqlite_magic_def utf8_encode_def utf8_char_def code_def)
  with pairing_restores [OF toy_crypto_ok(2,3,5), of pairing_demo "[1]" "''ABC''" "[2]" "''10.0.0.9''" 5
      sqlite_magic "[3]" "[4]" payload] p
  show ?thesis
    by (cases "pairing_post toy_crypto ''10.0.0.9'' 5 ''/api/sync/pairing'' (Some payload) pairing_demo")
      (simp add: pairing_demo_def is_blocked_def pair_until_def code_def py_isspace_def del: b64_encode.simps)
qed

end
