(* ===== verification/V3_State.thy ===== *)
theory V3_State
  imports Prekeys Json_Dumps
begin

text \<open>
  The tables of the FastAPI node, \<^verbatim>\<open>core/db/models.py\<close>, as far as its routers for contacts,
  messages, groups, profiles, badges and notifications use them, the session cookie, and what
  those routers share. A table is the list of its rows in the order of insertion; a time is a
  number of seconds; identifiers that the code draws with \<^verbatim>\<open>uuid4\<close> are arguments.
\<close>

section \<open>Tables\<close>

text \<open>The columns of a contact that only the routes for older interfaces touch.\<close>

record contact_columns =
  cc_shared_secret :: "string option"
  cc_dr_state :: "string option"
  cc_peer_kem :: "string option"
  cc_my_kem :: "string option"
  cc_file_relay :: "string option"
  cc_send_receipts :: bool

definition default_columns :: contact_columns where
  "default_columns = \<lparr>cc_shared_secret = None, cc_dr_state = None, cc_peer_kem = None, cc_my_kem = None,
     cc_file_relay = None, cc_send_receipts = True\<rparr>"

record v3_contact =
  vc_id :: nat
  vc_owner :: string
  vc_onion :: string
  vc_nickname :: "string option"
  vc_public_key :: "string option"
  vc_status :: string
  vc_verified :: bool
  vc_notify_token :: "string option"
  vc_profile :: string
  vc_columns :: contact_columns

record v3_message =
  vm_id :: string
  vm_sender :: string
  vm_recipient :: string
  vm_ciphertext :: string
  vm_iv :: string
  vm_seq :: int
  vm_sent_at :: real
  vm_delivered :: bool
  vm_disappears :: "real option"
  vm_deleted :: bool
  vm_sealed :: "string option"

record v3_group =
  vg_id :: string
  vg_name :: string
  vg_founder :: string
  vg_channel :: bool
  vg_profile :: string

record v3_group_message =
  vgm_id :: string
  vgm_group :: string
  vgm_sender :: string
  vgm_ciphertext :: string

record v3_profile =
  vp_id :: string
  vp_display_name :: string
  vp_hidden :: bool
  vp_hash :: "string option"

record v3_badge =
  vb_onion :: string
  vb_signature :: string
  vb_signed_by :: string
  vb_time :: real

text \<open>What the node tells its user interface.\<close>

datatype ui_event =
    Handshake_Received string string string
  | Contact_Status string string
  | Message_Received string string string nat
  | Message_Deleted string string

text \<open>
  \<open>v3_identity_keys\<close> is the column of the published pre-key bundles, \<open>v3_notify_queue\<close> the tokens with
  a pending notification, \<open>v3_file_relays\<close> the preferred file relay of a user by name.
\<close>

record v3 =
  v3_users :: "user list"
  v3_contacts :: "v3_contact list"
  v3_messages :: "v3_message list"
  v3_groups :: "v3_group list"
  v3_members :: "(string \<times> string) list"
  v3_group_messages :: "v3_group_message list"
  v3_profiles :: "v3_profile list"
  v3_badges :: "v3_badge list"
  v3_notify_queue :: "string list"
  v3_file_relays :: "string \<rightharpoonup> string"
  v3_identity_keys :: "string \<rightharpoonup> string"
  v3_events :: "ui_event list"

section \<open>Values in columns\<close>

definition sqlite_int :: "int \<Rightarrow> bool" where
  "sqlite_int i = (- (2 ^ 63) \<le> i \<and> i < 2 ^ 63)"

text \<open>
  A value bound where a column holds text: the text it is stored as or compared like, where
  \<open>real_text\<close> is SQLite's text of a float, none for \<^verbatim>\<open>null\<close>. A list, an object or a wide integer
  can not be bound.
\<close>

definition bound_text :: "(string \<Rightarrow> string) \<Rightarrow> json \<Rightarrow> string option option" where
  "bound_text real_text v = (case v of
     JStr s \<Rightarrow> Some (Some s)
   | JInt i \<Rightarrow> if sqlite_int i then Some (Some (int_str i)) else None
   | JBool b \<Rightarrow> Some (Some (if b then ''1'' else ''0''))
   | JFloat f \<Rightarrow> Some (Some (real_text f))
   | JNull \<Rightarrow> Some None
   | _ \<Rightarrow> None)"

section \<open>Sessions\<close>

record v3_session =
  ss_username :: "string option"
  ss_profile :: "string option"

text \<open>\<^verbatim>\<open>_get_current_user\<close> of the routers for contacts, messages and groups.\<close>

definition current_user :: "v3_session \<Rightarrow> v3 \<Rightarrow> user http" where
  "current_user ss s = me_endpoint (ss_username ss)
     \<lparr>users = v3_users s, login_failures = Map.empty, locked_until = Map.empty\<rparr>"

text \<open>\<^verbatim>\<open>_verify_auth\<close> of the routers for profiles and badges, and \<^verbatim>\<open>get_current_user\<close>.\<close>

definition session_auth :: "v3_session \<Rightarrow> v3 \<Rightarrow> user http" where
  "session_auth ss s = get_current_user (ss_username ss)
     \<lparr>users = v3_users s, login_failures = Map.empty, locked_until = Map.empty\<rparr>"

definition profile_of :: "v3_session \<Rightarrow> string" where
  "profile_of ss = (case ss_profile ss of Some p \<Rightarrow> p | None \<Rightarrow> ''default'')"

text \<open>\<^verbatim>\<open>user.onion_address or f"{user.username}.local.onion"\<close>\<close>

definition owner_of :: "user \<Rightarrow> string" where
  "owner_of u = (case own_onion u of Some w \<Rightarrow> w | None \<Rightarrow> u_username u @ ''.local.onion'')"

section \<open>Rows\<close>

text \<open>
  The foreign keys of a contact, which the connection enforces: its owner is the address of a user
  and its profile exists.
\<close>

definition contact_refs :: "v3 \<Rightarrow> v3_contact \<Rightarrow> bool" where
  "contact_refs s c = (list_ex (\<lambda>u. u_onion u = Some (vc_owner c)) (v3_users s) \<and>
     list_ex (\<lambda>p. vp_id p = vc_profile c) (v3_profiles s))"

definition next_contact_id :: "v3 \<Rightarrow> nat" where
  "next_contact_id s = Suc (fold max (map vc_id (v3_contacts s)) 0)"

definition insert_contact :: "v3_contact \<Rightarrow> v3 \<Rightarrow> v3 option" where
  "insert_contact c s =
     (if contact_refs s c then Some (s\<lparr>v3_contacts := v3_contacts s @ [c]\<rparr>) else None)"

text \<open>\<^verbatim>\<open>message_id\<close> is unique.\<close>

definition insert_message :: "v3_message \<Rightarrow> v3 \<Rightarrow> v3 option" where
  "insert_message m s =
     (if list_ex (\<lambda>x. vm_id x = vm_id m) (v3_messages s) then None
      else Some (s\<lparr>v3_messages := v3_messages s @ [m]\<rparr>))"

text \<open>The contact with an address among those of the local user; \<^verbatim>\<open>owner_onion = NULL\<close> has no row.\<close>

definition contact_with :: "string option \<Rightarrow> string \<Rightarrow> v3 \<Rightarrow> v3_contact option" where
  "contact_with owner onion s =
     List.find (\<lambda>c. owner = Some (vc_owner c) \<and> vc_onion c = onion) (v3_contacts s)"

text \<open>\<^verbatim>\<open>func.max(Message.sequence_number)\<close> over what a sender wrote to a recipient.\<close>

definition last_seq :: "string \<Rightarrow> string option \<Rightarrow> v3_message list \<Rightarrow> int option" where
  "last_seq sender recipient ms =
     (case map vm_seq (filter (\<lambda>m. vm_sender m = sender \<and> recipient = Some (vm_recipient m)) ms) of
        [] \<Rightarrow> None | n # ns \<Rightarrow> Some (Max (set (n # ns))))"

lemma last_seq_bound:
  assumes "m \<in> set ms" "vm_sender m = sender" "vm_recipient m = w"
  obtains k where "last_seq sender (Some w) ms = Some k" "vm_seq m \<le> k"
proof -
  define ns where "ns = map vm_seq (filter (\<lambda>m. vm_sender m = sender \<and> Some w = Some (vm_recipient m)) ms)"
  have m: "vm_seq m \<in> set ns" using assms by (auto simp: ns_def)
  have "last_seq sender (Some w) ms = (case ns of [] \<Rightarrow> None | n # ns \<Rightarrow> Some (Max (set (n # ns))))"
    by (simp only: last_seq_def ns_def)
  then have "last_seq sender (Some w) ms = Some (Max (set ns))" using m by (cases ns) auto
  moreover have "vm_seq m \<le> Max (set ns)" using m by (intro Max_ge) auto
  ultimately show ?thesis using that by blast
qed

end
