(* ===== verification/V3_Social.thy ===== *)
theory V3_Social
  imports V3_State Crypto_At_Rest
begin

text \<open>
  The smaller routers of the FastAPI node: groups, profiles, supporter badges, notifications and
  the node's settings (\<^verbatim>\<open>transports/p2p/routers/groups.py\<close>, \<^verbatim>\<open>profiles.py\<close>,
  \<^verbatim>\<open>supporter.py\<close>, \<^verbatim>\<open>notifications.py\<close>, \<^verbatim>\<open>node.py\<close>). bcrypt, Ed25519, Tor's creation
  of a hidden service and the identifiers drawn at random are arguments.
\<close>

section \<open>Groups\<close>

definition create_group_v3 ::
    "v3_session \<Rightarrow> string \<Rightarrow> string \<Rightarrow> string list \<Rightarrow> bool \<Rightarrow> v3 \<Rightarrow> v3_group http \<times> v3" where
  "create_group_v3 ss gid name member_onions is_channel s =
     (if name = [] \<or> 128 < length name then (Inl (HTTP 422 ''validation''), s)
      else case current_user ss s of
        Inl e \<Rightarrow> (Inl e, s)
      | Inr u \<Rightarrow>
          (case own_onion u of
             None \<Rightarrow> (Inl (HTTP 400 ''Onion address not configured''), s)
           | Some mine \<Rightarrow>
               if \<not> list_ex (\<lambda>p. vp_id p = profile_of ss) (v3_profiles s) \<or>
                  list_ex (\<lambda>g. vg_id g = gid) (v3_groups s)
               then (Inl (HTTP 500 ''Internal server error''), s)
               else
                 let g = \<lparr>vg_id = gid, vg_name = name, vg_founder = mine, vg_channel = is_channel,
                       vg_profile = profile_of ss\<rparr>
                 in (Inr g, s\<lparr>v3_groups := v3_groups s @ [g],
                       v3_members := v3_members s @ map (Pair gid) (remdups (mine # member_onions))\<rparr>)))"

definition list_groups :: "v3_session \<Rightarrow> v3 \<Rightarrow> v3_group list http" where
  "list_groups ss s = (case current_user ss s of
     Inl e \<Rightarrow> Inl e
   | Inr u \<Rightarrow> Inr (filter (\<lambda>g. vg_profile g = profile_of ss \<and>
       list_ex (\<lambda>m. fst m = vg_id g \<and> u_onion u = Some (snd m)) (v3_members s)) (v3_groups s)))"

definition send_group_message ::
    "v3_session \<Rightarrow> string \<Rightarrow> string \<Rightarrow> string \<Rightarrow> v3 \<Rightarrow> v3_group_message http \<times> v3" where
  "send_group_message ss mid gid ciphertext s = (case current_user ss s of
     Inl e \<Rightarrow> (Inl e, s)
   | Inr u \<Rightarrow>
       (case List.find (\<lambda>g. vg_id g = gid) (v3_groups s) of
          None \<Rightarrow> (Inl (HTTP 404 ''Group not found''), s)
        | Some g \<Rightarrow>
            (case u_onion u of
               None \<Rightarrow> (Inl (HTTP 403 ''Forbidden: You are not a member of this group''), s)
             | Some mine \<Rightarrow>
                 if (gid, mine) \<notin> set (v3_members s)
                 then (Inl (HTTP 403 ''Forbidden: You are not a member of this group''), s)
                 else if vg_channel g \<and> vg_founder g \<noteq> mine
                 then (Inl (HTTP 403 ''Only the channel founder can post to a broadcast channel''), s)
                 else if list_ex (\<lambda>m. vgm_id m = mid) (v3_group_messages s)
                 then (Inl (HTTP 500 ''Internal server error''), s)
                 else
                   let m = \<lparr>vgm_id = mid, vgm_group = gid, vgm_sender = mine, vgm_ciphertext = ciphertext\<rparr>
                   in (Inr m, s\<lparr>v3_group_messages := v3_group_messages s @ [m]\<rparr>))))"

section \<open>Profiles\<close>

definition list_profiles :: "v3_session \<Rightarrow> v3 \<Rightarrow> v3_profile list http" where
  "list_profiles ss s = (case session_auth ss s of
     Inl e \<Rightarrow> Inl e | Inr _ \<Rightarrow> Inr (filter (\<lambda>p. \<not> vp_hidden p) (v3_profiles s)))"

definition create_profile_v3 ::
    "(bytes \<Rightarrow> string) \<Rightarrow> v3_session \<Rightarrow> string \<Rightarrow> string \<Rightarrow> bool \<Rightarrow> string option \<Rightarrow> v3 \<Rightarrow> string http \<times> v3" where
  "create_profile_v3 hashpw ss pid display_name hidden passphrase s =
     (if display_name = [] \<or> 128 < length display_name \<or>
         (case passphrase of None \<Rightarrow> False | Some p \<Rightarrow> 256 < length p)
      then (Inl (HTTP 422 ''validation''), s)
      else case session_auth ss s of
        Inl e \<Rightarrow> (Inl e, s)
      | Inr _ \<Rightarrow>
          if list_ex (\<lambda>p. vp_id p = pid) (v3_profiles s) then (Inl (HTTP 500 ''Internal server error''), s)
          else (Inr pid, s\<lparr>v3_profiles := v3_profiles s @
            [\<lparr>vp_id = pid, vp_display_name = display_name, vp_hidden = hidden,
              vp_hash = (case passphrase of
                 Some (ch # cs) \<Rightarrow> if hidden then Some (hashpw (utf8_encode (ch # cs))) else None
               | _ \<Rightarrow> None)\<rparr>]\<rparr>))"

text \<open>The operations on the session return it; \<open>s\<close> is only read.\<close>

definition unlocks :: "(bytes \<Rightarrow> string \<Rightarrow> bool) \<Rightarrow> string \<Rightarrow> v3_profile \<Rightarrow> bool" where
  "unlocks checkpw passphrase p = (vp_hidden p \<and>
     (case vp_hash p of Some (ch # cs) \<Rightarrow> checkpw (utf8_encode passphrase) (ch # cs) | _ \<Rightarrow> False))"

definition unlock_profile ::
    "(bytes \<Rightarrow> string \<Rightarrow> bool) \<Rightarrow> v3_session \<Rightarrow> string \<Rightarrow> v3 \<Rightarrow> v3_profile http \<times> v3_session" where
  "unlock_profile checkpw ss passphrase s =
     (if passphrase = [] then (Inl (HTTP 422 ''validation''), ss)
      else case session_auth ss s of
        Inl e \<Rightarrow> (Inl e, ss)
      | Inr _ \<Rightarrow>
          (case List.find (unlocks checkpw passphrase) (v3_profiles s) of
             None \<Rightarrow> (Inl (HTTP 401 ''Invalid credentials''), ss)
           | Some p \<Rightarrow> (Inr p, ss\<lparr>ss_profile := Some (vp_id p)\<rparr>)))"

definition switch_profile :: "v3_session \<Rightarrow> string \<Rightarrow> v3 \<Rightarrow> string http \<times> v3_session" where
  "switch_profile ss pid s =
     (if pid = [] then (Inl (HTTP 422 ''validation''), ss)
      else case session_auth ss s of
        Inl e \<Rightarrow> (Inl e, ss)
      | Inr _ \<Rightarrow>
          (case List.find (\<lambda>p. vp_id p = pid) (v3_profiles s) of
             None \<Rightarrow> (Inl (HTTP 403 ''Unauthorized or profile not found''), ss)
           | Some p \<Rightarrow>
               if vp_hidden p then (Inl (HTTP 403 ''Unauthorized or profile not found''), ss)
               else (Inr pid, ss\<lparr>ss_profile := Some pid\<rparr>)))"

definition active_profile :: "v3_session \<Rightarrow> v3 \<Rightarrow> v3_profile http \<times> v3" where
  "active_profile ss s = (case session_auth ss s of
     Inl e \<Rightarrow> (Inl e, s)
   | Inr _ \<Rightarrow>
       (case List.find (\<lambda>p. vp_id p = profile_of ss) (v3_profiles s) of
          Some p \<Rightarrow> (Inr p, s)
        | None \<Rightarrow>
            (case List.find (\<lambda>p. vp_id p = ''default'') (v3_profiles s) of
               Some p \<Rightarrow> (Inr p, s)
             | None \<Rightarrow>
                 let p = \<lparr>vp_id = ''default'', vp_display_name = ''Default Profile'', vp_hidden = False, vp_hash = None\<rparr>
                 in (Inr p, s\<lparr>v3_profiles := v3_profiles s @ [p]\<rparr>))))"

section \<open>Supporter badges\<close>

definition verify_badge ::
    "hashes \<Rightarrow> string \<Rightarrow> v3_session \<Rightarrow> real \<Rightarrow> string \<Rightarrow> string \<Rightarrow> v3 \<Rightarrow> unit http \<times> v3" where
  "verify_badge h dev_key ss now onion_address signature s =
     (if length onion_address < 16 \<or> 128 < length onion_address \<or> signature = []
      then (Inl (HTTP 422 ''validation''), s)
      else case session_auth ss s of
        Inl e \<Rightarrow> (Inl e, s)
      | Inr _ \<Rightarrow>
          let onion = py_lower (py_strip onion_address); sig = py_strip signature;
              b = \<lparr>vb_onion = onion, vb_signature = sig, vb_signed_by = dev_key, vb_time = now\<rparr>
          in if \<not> verify_supporter_badge h dev_key onion sig
             then (Inl (HTTP 400 ''Invalid supporter signature.''), s)
             else (Inr (), s\<lparr>v3_badges :=
               (if list_ex (\<lambda>b. vb_onion b = onion) (v3_badges s)
                then update_where (\<lambda>b. vb_onion b = onion) (\<lambda>_. b) (v3_badges s)
                else v3_badges s @ [b])\<rparr>))"

text \<open>The signature of the badge, if there is one.\<close>

definition get_badge_status :: "v3_session \<Rightarrow> string \<Rightarrow> v3 \<Rightarrow> string option http" where
  "get_badge_status ss onion_address s = (case session_auth ss s of
     Inl e \<Rightarrow> Inl e
   | Inr _ \<Rightarrow> Inr (map_option vb_signature
       (List.find (\<lambda>b. vb_onion b = py_lower (py_strip onion_address)) (v3_badges s))))"

section \<open>Notifications\<close>

definition MAX_TOKENS :: nat where "MAX_TOKENS = 200"

definition valid_onion :: "string \<Rightarrow> string option" where
  "valid_onion addr = (let w = py_lower (py_strip addr) in if ONION_RE w then Some w else None)"

definition register_notification :: "v3_session \<Rightarrow> string \<Rightarrow> string \<Rightarrow> v3 \<Rightarrow> string http \<times> v3" where
  "register_notification ss token onion_address s = (case session_auth ss s of
     Inl e \<Rightarrow> (Inl e, s)
   | Inr u \<Rightarrow>
       if length onion_address < 16 \<or> 128 < length onion_address then (Inl (HTTP 422 ''validation''), s)
       else (case valid_onion onion_address of
          None \<Rightarrow> (Inl (HTTP 400 ''Invalid onion address''), s)
        | Some w \<Rightarrow>
            (case List.find (\<lambda>c. vc_owner c \<in> {owner_of u, u_username u} \<and> vc_onion c = w) (v3_contacts s) of
               None \<Rightarrow> (Inl (HTTP 404 ''Contact not found''), s)
             | Some c \<Rightarrow> (Inr token, s\<lparr>v3_contacts := update_where (\<lambda>x. vc_id x = vc_id c)
                 (\<lambda>x. x\<lparr>vc_notify_token := Some token\<rparr>) (v3_contacts s)\<rparr>))))"

definition poll_notifications :: "v3_session \<Rightarrow> string \<Rightarrow> v3 \<Rightarrow> (string \<rightharpoonup> bool) http" where
  "poll_notifications ss tokens s = (case session_auth ss s of
     Inl e \<Rightarrow> Inl e
   | Inr _ \<Rightarrow>
       let ts = filter (\<lambda>t. t \<noteq> []) (map py_strip (py_split CHR '','' tokens))
       in if MAX_TOKENS < length ts then Inl (HTTP 400 ''Too many tokens (max 200)'')
          else Inr (map_of (map (\<lambda>t. (t, t \<in> set (v3_notify_queue s))) ts)))"

definition clear_notifications :: "v3_session \<Rightarrow> string list \<Rightarrow> v3 \<Rightarrow> unit http \<times> v3" where
  "clear_notifications ss tokens s = (case session_auth ss s of
     Inl e \<Rightarrow> (Inl e, s)
   | Inr _ \<Rightarrow>
       if MAX_TOKENS < length tokens then (Inl (HTTP 422 ''validation''), s)
       else (Inr (), s\<lparr>v3_notify_queue := filter (\<lambda>t. t \<notin> set tokens) (v3_notify_queue s)\<rparr>))"

section \<open>The node\<close>

text \<open>\<open>spawn\<close> is the hidden service Tor creates for the name, \<open>None\<close> when that fails.\<close>

definition generate_invite ::
    "(string \<Rightarrow> string option) \<Rightarrow> string \<Rightarrow> v3_session \<Rightarrow> v3 \<Rightarrow> (string \<times> string \<times> string) http" where
  "generate_invite spawn token ss s = (case session_auth ss s of
     Inl e \<Rightarrow> Inl e
   | Inr u \<Rightarrow>
       let name = ''inv_'' @ token
       in Inr (case spawn name of
             Some w \<Rightarrow> w
           | None \<Rightarrow> (case own_onion u of Some w \<Rightarrow> w | None \<Rightarrow> ''pending.onion''), name, token))"

definition nickname_char :: "char \<Rightarrow> bool" where
  "nickname_char c = (let n = code c in (97 \<le> n \<and> n \<le> 122) \<or> (65 \<le> n \<and> n \<le> 90) \<or> (48 \<le> n \<and> n \<le> 57) \<or>
     c \<in> set ''._- @()'')"

definition accept_invite :: "v3_session \<Rightarrow> string \<Rightarrow> string \<Rightarrow> string \<Rightarrow> v3 \<Rightarrow> string http" where
  "accept_invite ss invite_onion nickname my_public_key s = (case session_auth ss s of
     Inl e \<Rightarrow> Inl e
   | Inr _ \<Rightarrow>
       if length invite_onion < 16 \<or> 128 < length invite_onion \<or> nickname = [] \<or> 50 < length nickname \<or>
          my_public_key = [] \<or> 5000 < length my_public_key \<or>
          \<not> re_dollar (\<lambda>v. v \<noteq> [] \<and> list_all nickname_char v) (py_strip nickname)
       then Inl (HTTP 422 ''validation'')
       else (case valid_onion invite_onion of None \<Rightarrow> Inl (HTTP 422 ''validation'') | Some w \<Rightarrow> Inr w))"

definition get_relay_setting :: "v3_session \<Rightarrow> v3 \<Rightarrow> string http" where
  "get_relay_setting ss s = (case session_auth ss s of
     Inl e \<Rightarrow> Inl e
   | Inr u \<Rightarrow> Inr (case v3_file_relays s (u_username u) of Some r \<Rightarrow> r | None \<Rightarrow> []))"

definition set_relay_setting :: "v3_session \<Rightarrow> string \<Rightarrow> v3 \<Rightarrow> string http \<times> v3" where
  "set_relay_setting ss relay s = (case session_auth ss s of
     Inl e \<Rightarrow> (Inl e, s)
   | Inr u \<Rightarrow>
       let r = py_strip relay
       in if 512 < length relay \<or> (r \<noteq> [] \<and> \<not> py_startswith r ''http://'' \<and> \<not> py_startswith r ''https://'')
          then (Inl (HTTP 422 ''validation''), s)
          else (Inr r, s\<lparr>v3_file_relays := (v3_file_relays s)(u_username u \<mapsto> r)\<rparr>))"

text \<open>The database file of the older node is removed beside these tables.\<close>

definition reset_data :: "v3_session \<Rightarrow> string \<Rightarrow> v3 \<Rightarrow> unit http \<times> v3" where
  "reset_data ss confirm s = (case session_auth ss s of
     Inl e \<Rightarrow> (Inl e, s)
   | Inr u \<Rightarrow>
       if length confirm \<noteq> 5 then (Inl (HTTP 422 ''validation''), s)
       else if confirm \<noteq> ''RESET'' then (Inl (HTTP 400 ''Confirmation phrase RESET is required''), s)
       else (Inr (), s\<lparr>
         v3_messages := filter (\<lambda>m. u_onion u \<noteq> Some (vm_sender m) \<and> u_onion u \<noteq> Some (vm_recipient m)) (v3_messages s),
         v3_contacts := filter (\<lambda>c. u_onion u \<noteq> Some (vc_owner c)) (v3_contacts s),
         v3_file_relays := (v3_file_relays s)(u_username u \<mapsto> []),
         v3_users := update_where (\<lambda>v. u_username v = u_username u) (\<lambda>v. v\<lparr>u_onion := None\<rparr>) (v3_users s)\<rparr>))"

section \<open>Who may post\<close>

definition posts_ok :: "v3 \<Rightarrow> bool" where
  "posts_ok s \<longleftrightarrow> distinct (map vg_id (v3_groups s)) \<and>
     (\<forall>m\<in>set (v3_group_messages s). (vgm_group m, vgm_sender m) \<in> set (v3_members s) \<and>
       (\<exists>g\<in>set (v3_groups s). vg_id g = vgm_group m \<and> (vg_channel g \<longrightarrow> vg_founder g = vgm_sender m)))"

lemma create_group_posts_ok:
  assumes "posts_ok s"
  shows "posts_ok (snd (create_group_v3 ss gid name member_onions is_channel s))"
proof (cases "snd (create_group_v3 ss gid name member_onions is_channel s) = s")
  case False
  then obtain g ms where g: "v3_groups (snd (create_group_v3 ss gid name member_onions is_channel s)) = v3_groups s @ [g]"
    "v3_members (snd (create_group_v3 ss gid name member_onions is_channel s)) = v3_members s @ ms"
    "v3_group_messages (snd (create_group_v3 ss gid name member_onions is_channel s)) = v3_group_messages s"
    "\<forall>x\<in>set (v3_groups s). vg_id x \<noteq> vg_id g"
    by (auto simp: create_group_v3_def Let_def list_ex_iff split: if_splits sum.splits option.splits)
  then show ?thesis using assms by (fastforce simp: posts_ok_def)
qed (use assms in simp)

lemma send_group_message_posts_ok:
  assumes "posts_ok s"
  shows "posts_ok (snd (send_group_message ss mid gid ct s))"
proof (cases "snd (send_group_message ss mid gid ct s) = s")
  case False
  then obtain u g mine where g: "List.find (\<lambda>g. vg_id g = gid) (v3_groups s) = Some g"
    "vg_channel g \<longrightarrow> vg_founder g = mine" "(gid, mine) \<in> set (v3_members s)"
    and m: "snd (send_group_message ss mid gid ct s) = s\<lparr>v3_group_messages := v3_group_messages s @
      [\<lparr>vgm_id = mid, vgm_group = gid, vgm_sender = mine, vgm_ciphertext = ct\<rparr>]\<rparr>"
    by (force simp: send_group_message_def Let_def split: if_splits sum.splits option.splits)
  then show ?thesis using assms find_SomeD [OF g(1)] by (fastforce simp: posts_ok_def)
qed (use assms in simp)

section \<open>A hidden profile opens only to its passphrase\<close>

datatype profile_request =
    Create string string bool "string option"
  | Unlock string
  | Switch string
  | Active

fun profile_step ::
    "(bytes \<Rightarrow> string) \<Rightarrow> (bytes \<Rightarrow> string \<Rightarrow> bool) \<Rightarrow> profile_request \<Rightarrow> v3_session \<times> v3 \<Rightarrow> v3_session \<times> v3" where
  "profile_step hashpw checkpw (Create pid name hidden pw) (ss, s) =
     (ss, snd (create_profile_v3 hashpw ss pid name hidden pw s))"
| "profile_step hashpw checkpw (Unlock pw) (ss, s) = (snd (unlock_profile checkpw ss pw s), s)"
| "profile_step hashpw checkpw (Switch pid) (ss, s) = (snd (switch_profile ss pid s), s)"
| "profile_step hashpw checkpw Active (ss, s) = (ss, snd (active_profile ss s))"

text \<open>The profile of the session is there, and if it is hidden one of the passphrases opened it.\<close>

definition entered_ok :: "(bytes \<Rightarrow> string \<Rightarrow> bool) \<Rightarrow> string set \<Rightarrow> v3_session \<times> v3 \<Rightarrow> bool" where
  "entered_ok checkpw pws st \<longleftrightarrow> distinct (map vp_id (v3_profiles (snd st))) \<and>
     (\<exists>p\<in>set (v3_profiles (snd st)). vp_id p = profile_of (fst st) \<and>
       (vp_hidden p \<longrightarrow> (\<exists>pw\<in>pws. unlocks checkpw pw p)))"

definition passphrases :: "profile_request list \<Rightarrow> string set" where
  "passphrases rs = {pw. Unlock pw \<in> set rs}"

lemma entered_ok_grow:
  assumes "entered_ok checkpw pws (ss, s)" "v3_profiles s' = v3_profiles s @ xs"
    "distinct (map vp_id (v3_profiles s'))"
  shows "entered_ok checkpw pws (ss, s')"
  using assms by (fastforce simp: entered_ok_def)

lemma entered_ok_step:
  assumes "entered_ok checkpw pws (ss, s)"
  shows "entered_ok checkpw (pws \<union> passphrases [r]) (profile_step hashpw checkpw r (ss, s))"
proof -
  have mono: "entered_ok checkpw (pws \<union> passphrases [r]) (ss, s)"
    using assms by (auto simp: entered_ok_def)
  note d = assms [unfolded entered_ok_def, THEN conjunct1, simplified]
  show ?thesis
  proof (cases r)
    case (Create pid name hidden pw)
    show ?thesis
    proof (cases "snd (create_profile_v3 hashpw ss pid name hidden pw s) = s")
      case False
      then obtain p where p: "v3_profiles (snd (create_profile_v3 hashpw ss pid name hidden pw s)) = v3_profiles s @ [p]"
        "\<forall>x\<in>set (v3_profiles s). vp_id x \<noteq> vp_id p"
        by (auto simp: create_profile_v3_def list_ex_iff split: if_splits sum.splits)
      with d have "distinct (map vp_id (v3_profiles s @ [p]))" by auto
      with entered_ok_grow [OF mono, OF p(1)] p(1) show ?thesis by (simp add: Create)
    qed (use mono Create in simp)
  next
    case (Unlock pw)
    show ?thesis
    proof (cases "snd (unlock_profile checkpw ss pw s) = ss")
      case False
      then obtain p where p: "List.find (unlocks checkpw pw) (v3_profiles s) = Some p"
        "snd (unlock_profile checkpw ss pw s) = ss\<lparr>ss_profile := Some (vp_id p)\<rparr>"
        by (auto simp: unlock_profile_def split: if_splits sum.splits option.splits)
      then show ?thesis using d find_SomeD [OF p(1)]
        by (auto simp: Unlock entered_ok_def profile_of_def passphrases_def)
    qed (use mono Unlock in simp)
  next
    case (Switch pid)
    show ?thesis
    proof (cases "snd (switch_profile ss pid s) = ss")
      case False
      then obtain p where p: "List.find (\<lambda>p. vp_id p = pid) (v3_profiles s) = Some p" "\<not> vp_hidden p"
        "snd (switch_profile ss pid s) = ss\<lparr>ss_profile := Some pid\<rparr>"
        by (auto simp: switch_profile_def split: if_splits sum.splits option.splits)
      then show ?thesis using d find_SomeD [OF p(1)]
        by (auto simp: Switch entered_ok_def profile_of_def)
    qed (use mono Switch in simp)
  next
    case Active
    obtain q where "q \<in> set (v3_profiles s)" "vp_id q = profile_of ss"
      using assms by (auto simp: entered_ok_def)
    then have "List.find (\<lambda>p. vp_id p = profile_of ss) (v3_profiles s) \<noteq> None"
      by (metis (mono_tags, lifting) find_None_iff)
    then have "snd (active_profile ss s) = s"
      by (auto simp: active_profile_def split: sum.split)
    then show ?thesis using mono Active by simp
  qed
qed

lemma entered_ok_run:
  "entered_ok checkpw pws st \<Longrightarrow>
   entered_ok checkpw (pws \<union> passphrases rs) (fold (profile_step hashpw checkpw) rs st)"
proof (induction rs arbitrary: pws st)
  case (Cons r rs)
  have "passphrases (r # rs) = passphrases [r] \<union> passphrases rs" by (auto simp: passphrases_def)
  then show ?case
    using Cons.IH [OF entered_ok_step [of checkpw pws "fst st" "snd st" r hashpw]] Cons.prems
    by (simp add: Un_assoc)
qed (simp add: passphrases_def)


definition vault :: v3 where
  "vault = \<lparr>v3_users = [\<lparr>u_username = ''u'', u_password_hash = ''h'', u_onion = None\<rparr>], v3_contacts = [],
     v3_messages = [], v3_groups = [], v3_members = [], v3_group_messages = [],
     v3_profiles = [\<lparr>vp_id = ''default'', vp_display_name = ''Default Profile'', vp_hidden = False, vp_hash = None\<rparr>,
       \<lparr>vp_id = ''v'', vp_display_name = ''Vault'', vp_hidden = True, vp_hash = Some ''x''\<rparr>],
     v3_badges = [], v3_notify_queue = [], v3_file_relays = Map.empty, v3_identity_keys = Map.empty, v3_events = []\<rparr>"


end
