(* ===== verification/P2P_Server.thy ===== *)
theory P2P_Server
  imports Node_DB_Groups V3_Social
begin

text \<open>
  The Flask server of a P2P node, \<^verbatim>\<open>transports/p2p/server.py\<close>: the boundary between local and
  public routes, the checks of request bodies, the cache of database keys, the store of file
  chunks, contacts, messages and what arrives from other nodes. Theory \<open>P2P_Messages\<close> has
  the messages, \<open>P2P_Account\<close> the account, groups and profiles.

  A body is the JSON value Flask decodes, \<open>None\<close> when it is not JSON. A handler returns the
  status and detail of an error or its result, and the node afterwards; \<open>busy\<close> says that the queue of
  the thread pool is full when it submits. Connections of the pool agree on \<open>fk\<close>. Session
  protection, limits per minute and templates belong to Flask's extensions.
\<close>

section \<open>State\<close>

record p2p_session =
  ps_username :: "string option"
  ps_profile :: "string option"
  ps_db_key_id :: "string option"

text \<open>What runs later on the thread pool: a request to another node.\<close>

datatype p2p_task =
    Handshake_Task string json string string bool
  | Accept_Task string json string
  | Message_Task string json json json int int "int option" bool
  | Batch_Task string json "json list" int "int option"
  | Delete_Task string json int

datatype p2p_event =
    Incoming_Request string string string
  | Handshake_Accepted string string json
  | Incoming_Message string json json int int json bool
  | Event_Message_Deleted string int
  | Event_Contact_Status string string
  | Delivery_Failed string int
  | Message_Expired nat string int
  | Group_Message_Saved string string string string json
  | Group_Vouch_Added string string string

record p2p_node =
  pn_db :: node_db
  pn_chunks :: "string \<rightharpoonup> bytes \<times> real"
  pn_keys :: "(string \<times> string \<times> real) list"
  pn_tasks :: "p2p_task list"
  pn_events :: "p2p_event list"

definition upd_db :: "(node_db \<Rightarrow> node_db) \<Rightarrow> p2p_node \<Rightarrow> p2p_node" where
  "upd_db f n = n\<lparr>pn_db := f (pn_db n)\<rparr>"

definition emit_event :: "p2p_event \<Rightarrow> p2p_node \<Rightarrow> p2p_node" where
  "emit_event e n = n\<lparr>pn_events := pn_events n @ [e]\<rparr>"

text \<open>\<^verbatim>\<open>BoundedThreadPoolExecutor.submit\<close>; a full queue raises, and the handler answers 503.\<close>

definition submit_task :: "bool \<Rightarrow> p2p_task \<Rightarrow> 'a \<Rightarrow> p2p_node \<Rightarrow> 'a http \<times> p2p_node" where
  "submit_task busy t r n =
     (if busy then (Inl (HTTP 503 ''Service busy. Thread pool queue full.''), n)
      else (Inr r, n\<lparr>pn_tasks := pn_tasks n @ [t]\<rparr>))"

abbreviation unexpected :: http_error where
  "unexpected \<equiv> HTTP 500 ''An unexpected error occurred''"

section \<open>Checks\<close>

definition validate_nickname :: "string \<Rightarrow> string option" where
  "validate_nickname nickname =
     (let s = py_strip nickname
      in if nickname = [] \<or> s = [] \<or> 50 < length s \<or> \<not> re_dollar (\<lambda>v. v \<noteq> [] \<and> list_all nickname_char v) s
         then None else Some s)"

definition base64_char :: "char \<Rightarrow> bool" where
  "base64_char c = (let n = code c in (97 \<le> n \<and> n \<le> 122) \<or> (65 \<le> n \<and> n \<le> 90) \<or> (48 \<le> n \<and> n \<le> 57) \<or>
     c \<in> set ''+/=_-'')"

definition is_valid_base64_like :: "nat \<Rightarrow> json \<Rightarrow> bool" where
  "is_valid_base64_like max_len v = (case v of
     JStr s \<Rightarrow> length s \<le> max_len \<and> re_dollar (\<lambda>x. x \<noteq> [] \<and> list_all base64_char x) s
   | _ \<Rightarrow> False)"

text \<open>\<^verbatim>\<open>int(x)\<close> of a decoded value; \<open>None\<close> raises.\<close>

definition json_int :: "json \<Rightarrow> int option" where
  "json_int v = (case v of
     JInt n \<Rightarrow> Some n
   | JBool b \<Rightarrow> Some (if b then 1 else 0)
   | JFloat f \<Rightarrow> float_trunc f
   | JStr s \<Rightarrow> py_int s
   | _ \<Rightarrow> None)"

datatype json_type = T_Str | T_Int | T_List | T_Bool

fun has_type :: "json_type \<Rightarrow> json \<Rightarrow> bool" where
  "has_type T_Str v = (case v of JStr _ \<Rightarrow> True | _ \<Rightarrow> False)"
| "has_type T_Int v = (json_int v \<noteq> None)"
| "has_type T_List v = (case v of JList _ \<Rightarrow> True | _ \<Rightarrow> False)"
| "has_type T_Bool v = (case v of JBool _ \<Rightarrow> True | _ \<Rightarrow> False)"

fun check_fields :: "(string \<times> json_type) list \<Rightarrow> (string \<times> json) list \<Rightarrow> unit http" where
  "check_fields [] kvs = Inr ()"
| "check_fields ((f, t) # fs) kvs = (case map_of kvs f of
     None \<Rightarrow> Inl (HTTP 400 (''Missing required field: '' @ f))
   | Some v \<Rightarrow> if has_type t v then check_fields fs kvs else Inl (HTTP 400 (''Field has invalid type: '' @ f)))"

text \<open>
  \<^verbatim>\<open>validate_json_schema\<close>. A list or a string is searched for the first field and then
  indexed by it, a number can not be searched.
\<close>

definition validate_json_schema :: "(string \<times> json_type) list \<Rightarrow> json option \<Rightarrow> (string \<times> json) list http" where
  "validate_json_schema fs body = (case body of
     None \<Rightarrow> Inl (HTTP 400 ''Invalid or missing JSON payload'')
   | Some JNull \<Rightarrow> Inl (HTTP 400 ''Invalid or missing JSON payload'')
   | Some (JObj kvs) \<Rightarrow> (case check_fields fs kvs of Inl e \<Rightarrow> Inl e | Inr _ \<Rightarrow> Inr kvs)
   | Some v \<Rightarrow>
       (case fs of
          [] \<Rightarrow> Inl unexpected
        | (f, t) # _ \<Rightarrow>
            (case v of
               JList xs \<Rightarrow> if JStr f \<in> set xs \<and> t \<noteq> T_Int then Inl unexpected else Inl (HTTP 400 f)
             | JStr s \<Rightarrow> if (\<exists>i\<le>length s. py_startswith (drop i s) f) \<and> t \<noteq> T_Int then Inl unexpected
                         else Inl (HTTP 400 f)
             | _ \<Rightarrow> Inl unexpected)))"

text \<open>A field the schema has checked for a string; an optional one, which must be a string.\<close>

definition str_field :: "(string \<times> json) list \<Rightarrow> string \<Rightarrow> string" where
  "str_field kvs k = (case map_of kvs k of Some (JStr s) \<Rightarrow> s | _ \<Rightarrow> [])"

definition opt_str :: "(string \<times> json) list \<Rightarrow> string \<Rightarrow> string option" where
  "opt_str kvs k = (case map_of kvs k of None \<Rightarrow> Some [] | Some (JStr s) \<Rightarrow> Some s | _ \<Rightarrow> None)"

definition int_field :: "(string \<times> json) list \<Rightarrow> string \<Rightarrow> int" where
  "int_field kvs k = (case Option.bind (map_of kvs k) json_int of Some n \<Rightarrow> n | None \<Rightarrow> 0)"

definition truthy_field :: "(string \<times> json) list \<Rightarrow> string \<Rightarrow> bool" where
  "truthy_field kvs k = (case map_of kvs k of None \<Rightarrow> False | Some v \<Rightarrow> json_truthy v)"

definition json_field :: "(string \<times> json) list \<Rightarrow> string \<Rightarrow> json" where
  "json_field kvs k = (case map_of kvs k of None \<Rightarrow> JNull | Some v \<Rightarrow> v)"

definition logged_in :: "p2p_session \<Rightarrow> 'a http \<times> p2p_node \<Rightarrow> p2p_node \<Rightarrow> 'a http \<times> p2p_node" where
  "logged_in ss r n = (if ps_username ss = None then (Inl (HTTP 401 ''Unauthorized''), n) else r)"

text \<open>A route with a schema that needs a login, in the order the decorators run.\<close>

definition api_route ::
    "(string \<times> json_type) list \<Rightarrow> p2p_session \<Rightarrow> json option \<Rightarrow>
     ((string \<times> json) list \<Rightarrow> 'a http \<times> p2p_node) \<Rightarrow> p2p_node \<Rightarrow> 'a http \<times> p2p_node" where
  "api_route fs ss body k n = (case validate_json_schema fs body of
     Inl e \<Rightarrow> (Inl e, n) | Inr kvs \<Rightarrow> logged_in ss (k kvs) n)"

text \<open>A route that goes on only with a valid address in a field.\<close>

definition with_onion ::
    "string \<Rightarrow> (string \<times> json) list \<Rightarrow> (string \<Rightarrow> 'a http \<times> p2p_node) \<Rightarrow> p2p_node \<Rightarrow> 'a http \<times> p2p_node" where
  "with_onion f kvs k n = (case valid_onion (str_field kvs f) of
     None \<Rightarrow> (Inl (HTTP 400 ''Invalid onion address''), n) | Some w \<Rightarrow> k w)"

section \<open>The boundary\<close>

definition restrict_access :: "string \<Rightarrow> string \<Rightarrow> unit http" where
  "restrict_access host_header path =
     (let host = py_lower (py_strip (hd (py_split CHR '':'' host_header)))
      in if host \<notin> {''127.0.0.1'', ''localhost'', ''[::1]''} \<and> \<not> py_startswith path ''/p2p/''
         then Inl (HTTP 403 ''Forbidden: Local access only'') else Inr ())"

section \<open>The cache of database keys\<close>

definition cache_db_key :: "string \<Rightarrow> string \<Rightarrow> real \<Rightarrow> real \<Rightarrow> p2p_node \<Rightarrow> p2p_node" where
  "cache_db_key i key_hex lifetime now n =
     n\<lparr>pn_keys := AList.update i (key_hex, now + lifetime) (filter (\<lambda>(_, _, t). \<not> t < now) (pn_keys n))\<rparr>"

definition get_db_key_hex :: "p2p_session \<Rightarrow> real \<Rightarrow> p2p_node \<Rightarrow> string option \<times> p2p_node" where
  "get_db_key_hex ss now n = (case ps_db_key_id ss of
     None \<Rightarrow> (None, n)
   | Some i \<Rightarrow>
       if i = [] then (None, n)
       else (case map_of (pn_keys n) i of
          None \<Rightarrow> (None, n)
        | Some (k, t) \<Rightarrow> if now < t then (Some k, n) else (None, n\<lparr>pn_keys := AList.delete i (pn_keys n)\<rparr>)))"

section \<open>File chunks\<close>

definition store_chunk :: "real \<Rightarrow> string \<Rightarrow> bytes \<Rightarrow> p2p_node \<Rightarrow> unit http \<times> p2p_node" where
  "store_chunk now chunk_id data n =
     (if 16500 < length data then (Inl (HTTP 400 ''Chunk size exceeds maximum limit''), n)
      else (Inr (), n\<lparr>pn_chunks := (pn_chunks n)(chunk_id \<mapsto> (data, now + 86400))\<rparr>))"

text \<open>A chunk is taken out of the store, also when it has expired.\<close>

definition take_chunk :: "real \<Rightarrow> string \<Rightarrow> p2p_node \<Rightarrow> bytes http \<times> p2p_node" where
  "take_chunk now chunk_id n =
     (let n' = n\<lparr>pn_chunks := (pn_chunks n)(chunk_id := None)\<rparr>
      in case pn_chunks n chunk_id of
           None \<Rightarrow> (Inl (HTTP 404 ''Chunk not found or expired''), n')
         | Some (data, t) \<Rightarrow> if t < now then (Inl (HTTP 404 ''Chunk not found or expired''), n') else (Inr data, n'))"

definition api_file_upload :: "p2p_session \<Rightarrow> real \<Rightarrow> string \<Rightarrow> bytes \<Rightarrow> p2p_node \<Rightarrow> unit http \<times> p2p_node" where
  "api_file_upload ss now chunk_id data n = logged_in ss (store_chunk now chunk_id data n) n"

text \<open>\<open>fetch\<close> is \<^verbatim>\<open>send_onion_get\<close>: the content and status of another node's chunk.\<close>

definition api_file_download ::
    "(string \<Rightarrow> string \<Rightarrow> bytes \<times> nat) \<Rightarrow> p2p_session \<Rightarrow> real \<Rightarrow> string \<Rightarrow> string option \<Rightarrow> p2p_node \<Rightarrow>
     bytes http \<times> p2p_node" where
  "api_file_download fetch ss now chunk_id onion n = logged_in ss
     (case onion of
        Some (ch # cs) \<Rightarrow>
          (case valid_onion (ch # cs) of
             None \<Rightarrow> (Inl (HTTP 400 ''Invalid peer onion address''), n)
           | Some w \<Rightarrow>
               let (content, st) = fetch w (''/p2p/file/download/'' @ chunk_id)
               in (if st \<noteq> 200 then Inl (HTTP st ''Failed to download chunk from peer'') else Inr content, n))
      | _ \<Rightarrow> take_chunk now chunk_id n) n"

definition p2p_file_upload :: "real \<Rightarrow> string \<Rightarrow> bytes \<Rightarrow> p2p_node \<Rightarrow> unit http \<times> p2p_node" where
  "p2p_file_upload = store_chunk"

definition p2p_file_download :: "real \<Rightarrow> string \<Rightarrow> p2p_node \<Rightarrow> bytes http \<times> p2p_node" where
  "p2p_file_download = take_chunk"

definition chunk_cleanup :: "real \<Rightarrow> p2p_node \<Rightarrow> p2p_node" where
  "chunk_cleanup now n = n\<lparr>pn_chunks := (\<lambda>k. case pn_chunks n k of
     Some (d, t) \<Rightarrow> if t < now then None else Some (d, t) | None \<Rightarrow> None)\<rparr>"

section \<open>Contacts\<close>

definition config_text :: "string \<Rightarrow> node_db \<Rightarrow> string option" where
  "config_text k s = map_option value_text (get_config k s)"

definition config_json :: "string \<Rightarrow> node_db \<Rightarrow> json" where
  "config_json k s = (case config_text k s of None \<Rightarrow> JNull | Some t \<Rightarrow> JStr t)"

definition session_profile :: "p2p_session \<Rightarrow> string" where
  "session_profile ss = (case ps_profile ss of Some p \<Rightarrow> p | None \<Rightarrow> ''default'')"

definition get_contacts_route ::
    "crypto \<Rightarrow> p2p_session \<Rightarrow> real \<Rightarrow> p2p_node \<Rightarrow> (contact_info \<times> config_value option) list http \<times> p2p_node" where
  "get_contacts_route c ss now n = logged_in ss
     (let (k, n) = get_db_key_hex ss now n
      in (case get_contacts c k (session_profile ss) (pn_db n) of Inl _ \<Rightarrow> Inl unexpected | Inr r \<Rightarrow> Inr r, n)) n"

text \<open>\<open>display\<close> is the random name by which the contact will know this node.\<close>

definition add_contact_route :: "bool \<Rightarrow> string \<Rightarrow> p2p_session \<Rightarrow> json option \<Rightarrow> p2p_node \<Rightarrow> unit http \<times> p2p_node" where
  "add_contact_route busy display ss body n =
     api_route [(''onion_address'', T_Str), (''nickname'', T_Str), (''my_public_key'', T_Str)] ss body (\<lambda>kvs.
       case validate_nickname (py_strip (str_field kvs ''nickname'')) of
         None \<Rightarrow> (Inl (HTTP 400 ''Invalid nickname.''), n)
       | Some nick \<Rightarrow>
           if \<not> is_valid_base64_like 5000 (json_field kvs ''my_public_key'')
           then (Inl (HTTP 400 ''Invalid public key format or size.''), n)
           else with_onion ''onion_address'' kvs (\<lambda>w.
             let key = str_field kvs ''my_public_key'';
                 mine = config_text ''my_onion_address'' (pn_db n);
                 n' = upd_db (\<lambda>s. set_config (''my_pubkey_for_'' @ w) (Text key)
                   (snd (add_contact w (Some nick) ''pending_outgoing'' mine (Some display) None None None
                     (session_profile ss) s))) n
             in submit_task busy (Handshake_Task w (config_json ''my_onion_address'' (pn_db n)) display key True) () n') n) n"

definition accept_contact_route ::
    "crypto \<Rightarrow> bytes \<Rightarrow> bool \<Rightarrow> p2p_session \<Rightarrow> real \<Rightarrow> json option \<Rightarrow> p2p_node \<Rightarrow> unit http \<times> p2p_node" where
  "accept_contact_route c nonce busy ss now body n =
     api_route [(''onion_address'', T_Str), (''my_public_key'', T_Str), (''shared_secret'', T_Str)] ss body (\<lambda>kvs.
       with_onion ''onion_address'' kvs (\<lambda>w.
         let (k, n) = get_db_key_hex ss now n
         in case get_contact c w k (pn_db n) of
              Inl _ \<Rightarrow> (Inl unexpected, n)
            | Inr None \<Rightarrow> (Inl (HTTP 404 ''Contact not found.''), n)
            | Inr (Some r) \<Rightarrow>
                (case update_contact_secret c nonce w (Some (str_field kvs ''shared_secret'')) (c_peer_public_key r) k (pn_db n) of
                   (Inl _, _) \<Rightarrow> (Inl unexpected, n)
                 | (Inr _, s) \<Rightarrow>
                     submit_task busy (Accept_Task w (config_json ''my_onion_address'' s) (str_field kvs ''my_public_key''))
                       () (n\<lparr>pn_db := s\<rparr>))) n) n"

text \<open>Optional values; only text and \<^verbatim>\<open>null\<close> are modelled for them.\<close>

definition optional_text :: "(string \<times> json) list \<Rightarrow> string \<Rightarrow> string option" where
  "optional_text kvs k = (case map_of kvs k of Some (JStr s) \<Rightarrow> Some s | _ \<Rightarrow> None)"

definition save_secret_route ::
    "crypto \<Rightarrow> bytes \<Rightarrow> p2p_session \<Rightarrow> real \<Rightarrow> json option \<Rightarrow> p2p_node \<Rightarrow> unit http \<times> p2p_node" where
  "save_secret_route c nonce ss now body n =
     api_route [(''onion_address'', T_Str), (''shared_secret'', T_Str), (''peer_public_key'', T_Str)] ss body (\<lambda>kvs.
       with_onion ''onion_address'' kvs (\<lambda>w.
         let (k, n) = get_db_key_hex ss now n
         in case update_contact_secret c nonce w (Some (str_field kvs ''shared_secret''))
                   (Some (str_field kvs ''peer_public_key'')) k (pn_db n) of
              (Inl _, _) \<Rightarrow> (Inl unexpected, n)
            | (Inr _, s) \<Rightarrow>
                let s = (if truthy_field kvs ''dr_state'' then update_contact_dr_state w (optional_text kvs ''dr_state'') s else s);
                    s = (if truthy_field kvs ''peer_kem_public_key'' \<or> truthy_field kvs ''my_kem_private_key''
                         then update_contact_kem_keys w (optional_text kvs ''peer_kem_public_key'')
                           (optional_text kvs ''my_kem_private_key'') s
                         else s)
                in (Inr (), n\<lparr>pn_db := s\<rparr>)) n) n"

definition delete_contact_route :: "bool \<Rightarrow> p2p_session \<Rightarrow> json option \<Rightarrow> p2p_node \<Rightarrow> unit http \<times> p2p_node" where
  "delete_contact_route fk ss body n = api_route [(''onion_address'', T_Str)] ss body (\<lambda>kvs.
     with_onion ''onion_address'' kvs (\<lambda>w. (Inr (), upd_db (delete_contact fk w) n)) n) n"

definition migrate_contact_route :: "bool \<Rightarrow> p2p_session \<Rightarrow> json option \<Rightarrow> p2p_node \<Rightarrow> unit http \<times> p2p_node" where
  "migrate_contact_route fk ss body n = api_route [(''old_address'', T_Str), (''new_address'', T_Str)] ss body (\<lambda>kvs.
     with_onion ''old_address'' kvs (\<lambda>old. with_onion ''new_address'' kvs (\<lambda>new.
       if find_contact old (pn_db n) = None then (Inl (HTTP 404 ''Contact not found''), n)
       else (let (ok, s, _) = migrate_contact_address fk old new (pn_db n)
             in (if ok then Inr () else Inl (HTTP 500 ''Failed to migrate contact address''), n\<lparr>pn_db := s\<rparr>))) n) n) n"

definition update_display_name_route :: "p2p_session \<Rightarrow> json option \<Rightarrow> p2p_node \<Rightarrow> unit http \<times> p2p_node" where
  "update_display_name_route ss body n = api_route [(''onion_address'', T_Str), (''display_name'', T_Str)] ss body (\<lambda>kvs.
     with_onion ''onion_address'' kvs (\<lambda>w.
       case validate_nickname (py_strip (str_field kvs ''display_name'')) of
         None \<Rightarrow> (Inl (HTTP 400 ''Invalid display name format''), n)
       | Some name \<Rightarrow> (Inr (), upd_db (update_contact_display_name w (Some name)) n)) n) n"

definition update_dr_state_route :: "p2p_session \<Rightarrow> json option \<Rightarrow> p2p_node \<Rightarrow> unit http \<times> p2p_node" where
  "update_dr_state_route ss body n = api_route [(''onion_address'', T_Str), (''dr_state'', T_Str)] ss body (\<lambda>kvs.
     with_onion ''onion_address'' kvs (\<lambda>w.
       (Inr (), upd_db (update_contact_dr_state w (Some (str_field kvs ''dr_state''))) n)) n) n"

section \<open>Notifications and invites\<close>

definition notifications_register :: "string \<Rightarrow> p2p_session \<Rightarrow> json option \<Rightarrow> p2p_node \<Rightarrow> string http \<times> p2p_node" where
  "notifications_register token ss body n = api_route [(''onion_address'', T_Str)] ss body (\<lambda>kvs.
     with_onion ''onion_address'' kvs (\<lambda>w. (Inr token, upd_db (set_notify_token w token) n)) n) n"

definition notifications_poll :: "p2p_session \<Rightarrow> string \<Rightarrow> p2p_node \<Rightarrow> (string \<rightharpoonup> bool) http \<times> p2p_node" where
  "notifications_poll ss tokens n = logged_in ss
     (let ts = filter (\<lambda>t. t \<noteq> []) (map py_strip (py_split CHR '','' tokens))
      in (if 200 < length ts then Inl (HTTP 400 ''Too many tokens (max 200)'')
          else Inr (map_of (map (\<lambda>t. (t, t \<in> poll_notify_queue ts (pn_db n))) ts)), n)) n"

definition notifications_clear :: "p2p_session \<Rightarrow> json option \<Rightarrow> p2p_node \<Rightarrow> unit http \<times> p2p_node" where
  "notifications_clear ss body n = api_route [(''tokens'', T_List)] ss body (\<lambda>kvs.
     case json_field kvs ''tokens'' of
       JList ts \<Rightarrow>
         if \<not> list_all (has_type T_Str) ts then (Inl (HTTP 400 ''tokens must be a list of strings''), n)
         else if 200 < length ts then (Inl (HTTP 400 ''Too many tokens (max 200)''), n)
         else (Inr (), upd_db (clear_notify_queue (map (\<lambda>t. case t of JStr x \<Rightarrow> x | _ \<Rightarrow> []) ts)) n)
     | _ \<Rightarrow> (Inl (HTTP 400 ''tokens must be a list of strings''), n)) n"

text \<open>\<open>spawn\<close> is the address of the hidden service Tor creates under a name, if it does.\<close>

definition spawned :: "(string \<Rightarrow> string option) \<Rightarrow> string \<Rightarrow> node_db \<Rightarrow> string" where
  "spawned spawn name s = (case spawn name of
     Some w \<Rightarrow> w
   | None \<Rightarrow> (case config_text ''my_onion_address'' s of Some (ch # cs) \<Rightarrow> ch # cs | _ \<Rightarrow> ''unavailable.onion''))"

definition generate_invite_route ::
    "(string \<Rightarrow> string option) \<Rightarrow> string \<Rightarrow> p2p_session \<Rightarrow> p2p_node \<Rightarrow> (string \<times> string \<times> string) http \<times> p2p_node" where
  "generate_invite_route spawn token ss n = logged_in ss
     (let name = ''inv_'' @ token in (Inr (spawned spawn name (pn_db n), name, token), n)) n"

definition accept_invite_route ::
    "(string \<Rightarrow> string option) \<Rightarrow> string \<Rightarrow> string \<Rightarrow> bool \<Rightarrow> p2p_session \<Rightarrow> json option \<Rightarrow> p2p_node \<Rightarrow>
     string http \<times> p2p_node" where
  "accept_invite_route spawn token display busy ss body n =
     api_route [(''invite_onion'', T_Str), (''nickname'', T_Str), (''my_public_key'', T_Str)] ss body (\<lambda>kvs.
       with_onion ''invite_onion'' kvs (\<lambda>w.
         case validate_nickname (py_strip (str_field kvs ''nickname'')) of
           None \<Rightarrow> (Inl (HTTP 400 ''Invalid nickname format''), n)
         | Some nick \<Rightarrow>
             if \<not> is_valid_base64_like 5000 (json_field kvs ''my_public_key'')
             then (Inl (HTTP 400 ''Invalid public key''), n)
             else
               let key = str_field kvs ''my_public_key'';
                   mine = spawned spawn (''contact_'' @ token) (pn_db n);
                   n' = upd_db (\<lambda>s. set_config (''my_pubkey_for_'' @ w) (Text key)
                     (snd (add_contact w (Some nick) ''pending_outgoing'' (Some mine) (Some display) None None None
                       (session_profile ss) s))) n
               in submit_task busy (Handshake_Task w (JStr mine) display key False) mine n') n) n"

end
