(* ===== verification/P2P_Messages.thy ===== *)
theory P2P_Messages
  imports P2P_Server
begin

text \<open>
  The messages of the Flask node (\<^verbatim>\<open>transports/p2p/server.py\<close>): sending them, the routes that
  other nodes reach over Tor, the tasks that run on the thread pool and the sweeper of expired
  messages.
\<close>

section \<open>Sending\<close>

text \<open>\<^verbatim>\<open>json.dumps({"iv": iv, "ciphertext": ciphertext, "seq": seq})\<close>\<close>

definition message_text :: "json \<Rightarrow> json \<Rightarrow> int \<Rightarrow> string" where
  "message_text iv ct seq = json_dumps (JObj [(''iv'', iv), (''ciphertext'', ct), (''seq'', JInt seq)])"

definition ttl_expiry :: "contact_info \<Rightarrow> int \<Rightarrow> int option" where
  "ttl_expiry r timestamp = (case c_ttl r of Some ttl \<Rightarrow> (if ttl > 0 then Some (timestamp + ttl) else None) | None \<Rightarrow> None)"

text \<open>A contact the local user may write to.\<close>

definition accepted_contact ::
    "crypto \<Rightarrow> string \<Rightarrow> string option \<Rightarrow> node_db \<Rightarrow> contact_info http" where
  "accepted_contact c w k s = (case get_contact c w k s of
     Inl _ \<Rightarrow> Inl unexpected
   | Inr None \<Rightarrow> Inl (HTTP 400 ''Contact not accepted or not found.'')
   | Inr (Some r) \<Rightarrow>
       if c_status r = ''accepted'' then Inr r else Inl (HTTP 400 ''Contact not accepted or not found.''))"

definition send_message_route ::
    "crypto \<Rightarrow> bool \<Rightarrow> bool \<Rightarrow> p2p_session \<Rightarrow> real \<Rightarrow> json option \<Rightarrow> p2p_node \<Rightarrow> (int \<times> int option) http \<times> p2p_node" where
  "send_message_route c fk busy ss now body n =
     api_route [(''onion_address'', T_Str), (''iv'', T_Str), (''ciphertext'', T_Str), (''seq'', T_Int)] ss body (\<lambda>kvs.
       with_onion ''onion_address'' kvs (\<lambda>w.
         let iv = json_field kvs ''iv''; ct = json_field kvs ''ciphertext''; seq = int_field kvs ''seq'';
             (k, n) = get_db_key_hex ss now n
         in case accepted_contact c w k (pn_db n) of
              Inl e \<Rightarrow> (Inl e, n)
            | Inr r \<Rightarrow>
                let timestamp = now_ms now; expires = ttl_expiry r timestamp;
                    ephemeral = truthy_field kvs ''ephemeral'';
                    n' = (if ephemeral then n
                          else upd_db (\<lambda>s. snd (save_message fk w ''me'' (message_text iv ct seq) timestamp expires s)) n)
                in submit_task busy
                     (Message_Task w (config_json ''my_onion_address'' (pn_db n')) iv ct seq timestamp expires ephemeral)
                     (timestamp, expires) n') n) n"

text \<open>What iterating over a decoded value gives; \<open>None\<close> where it or its first element raises.\<close>

definition event_list :: "json \<Rightarrow> json list option" where
  "event_list v = (case v of JList xs \<Rightarrow> Some xs | JObj [] \<Rightarrow> Some [] | JStr [] \<Rightarrow> Some [] | _ \<Rightarrow> None)"

text \<open>The events up to the first that raises are stored.\<close>

fun save_events :: "bool \<Rightarrow> string \<Rightarrow> int \<Rightarrow> int option \<Rightarrow> json list \<Rightarrow> node_db \<Rightarrow> bool \<times> node_db" where
  "save_events fk w timestamp expires [] s = (True, s)"
| "save_events fk w timestamp expires (ev # evs) s = (case ev of
     JObj kvs \<Rightarrow>
       if truthy_field kvs ''ephemeral'' then save_events fk w timestamp expires evs s
       else (case json_int (json_field kvs ''seq'') of
         None \<Rightarrow> (False, s)
       | Some seq \<Rightarrow>
           save_events fk w timestamp expires evs (snd (save_message fk w ''me''
             (message_text (json_field kvs ''iv'') (json_field kvs ''ciphertext'') seq) timestamp expires s)))
   | _ \<Rightarrow> (False, s))"

definition send_batch_route ::
    "crypto \<Rightarrow> bool \<Rightarrow> bool \<Rightarrow> p2p_session \<Rightarrow> real \<Rightarrow> json option \<Rightarrow> p2p_node \<Rightarrow> (int \<times> int option) option http \<times> p2p_node" where
  "send_batch_route c fk busy ss now body n = logged_in ss
     (case body of
        Some (JObj kvs) \<Rightarrow>
          (case opt_str kvs ''onion_address'' of
             None \<Rightarrow> (Inl unexpected, n)
           | Some addr \<Rightarrow>
               (case valid_onion addr of
                  None \<Rightarrow> (Inl (HTTP 400 ''Invalid onion address''), n)
                | Some w \<Rightarrow>
                    if \<not> truthy_field kvs ''events'' then (Inr None, n)
                    else
                      let (k, n) = get_db_key_hex ss now n
                      in case accepted_contact c w k (pn_db n) of
                           Inl e \<Rightarrow> (Inl e, n)
                         | Inr r \<Rightarrow>
                             let timestamp = now_ms now; expires = ttl_expiry r timestamp
                             in (case event_list (json_field kvs ''events'') of
                                   None \<Rightarrow> (Inl unexpected, n)
                                 | Some evs \<Rightarrow>
                                     let (ok, s) = save_events fk w timestamp expires evs (pn_db n);
                                         n = n\<lparr>pn_db := s\<rparr>
                                     in if \<not> ok then (Inl unexpected, n)
                                        else submit_task busy (Batch_Task w (config_json ''my_onion_address'' s) evs timestamp expires)
                                          (Some (timestamp, expires)) n)))
      | _ \<Rightarrow> (Inl unexpected, n)) n"

definition set_ttl_route :: "p2p_session \<Rightarrow> json option \<Rightarrow> p2p_node \<Rightarrow> unit http \<times> p2p_node" where
  "set_ttl_route ss body n = api_route [(''onion_address'', T_Str)] ss body (\<lambda>kvs.
     with_onion ''onion_address'' kvs (\<lambda>w.
       case json_field kvs ''ttl_ms'' of
         JNull \<Rightarrow> (Inr (), upd_db (\<lambda>s. snd (set_disappearing_ttl w None s)) n)
       | JStr t \<Rightarrow>
           (case py_int t of
              Some ttl \<Rightarrow> if ttl < 0 then (Inl (HTTP 400 ''TTL must be a non-negative integer or null''), n)
                          else (Inr (), upd_db (\<lambda>s. snd (set_disappearing_ttl w (Some ttl) s)) n)
            | None \<Rightarrow> (Inl (HTTP 400 ''TTL must be a non-negative integer or null''), n))
       | v \<Rightarrow>
           (case json_int v of
              Some ttl \<Rightarrow> if ttl < 0 then (Inl (HTTP 400 ''TTL must be a non-negative integer or null''), n)
                          else (Inr (), upd_db (\<lambda>s. snd (set_disappearing_ttl w (Some ttl) s)) n)
            | None \<Rightarrow> (Inl unexpected, n))) n) n"

definition delete_message_route :: "bool \<Rightarrow> p2p_session \<Rightarrow> json option \<Rightarrow> p2p_node \<Rightarrow> unit http \<times> p2p_node" where
  "delete_message_route busy ss body n = api_route [(''onion_address'', T_Str), (''timestamp'', T_Int)] ss body (\<lambda>kvs.
     with_onion ''onion_address'' kvs (\<lambda>w.
       let t = int_field kvs ''timestamp'';
           n' = upd_db (\<lambda>s. snd (delete_message_by_timestamp w t s)) n
       in submit_task busy (Delete_Task w (config_json ''my_onion_address'' (pn_db n')) t) () n') n) n"

section \<open>History, edits, receipts and settings\<close>

definition int_arg :: "string option \<Rightarrow> int option http" where
  "int_arg a = (case a of
     None \<Rightarrow> Inr None
   | Some t \<Rightarrow> (case py_int t of
       None \<Rightarrow> Inl (HTTP 400 ''Limit and offset must be integers'') | Some i \<Rightarrow> Inr (Some i)))"

definition get_messages_route ::
    "p2p_session \<Rightarrow> string \<Rightarrow> string option \<Rightarrow> string option \<Rightarrow> p2p_node \<Rightarrow> message list http \<times> p2p_node" where
  "get_messages_route ss onion limit offset n = logged_in ss
     (case valid_onion onion of
        None \<Rightarrow> (Inl (HTTP 400 ''Invalid onion address''), n)
      | Some w \<Rightarrow>
          (case (int_arg limit, int_arg offset) of
             (Inr l, Inr k) \<Rightarrow> (Inr (get_messages w l k (pn_db n)), n)
           | _ \<Rightarrow> (Inl (HTTP 400 ''Limit and offset must be integers''), n))) n"

definition get_preferred_relay_route :: "p2p_session \<Rightarrow> p2p_node \<Rightarrow> string http \<times> p2p_node" where
  "get_preferred_relay_route ss n = logged_in ss
     (Inr (case config_text ''preferred_file_relay'' (pn_db n) of Some t \<Rightarrow> t | None \<Rightarrow> []), n) n"

definition set_preferred_relay_route :: "p2p_session \<Rightarrow> json option \<Rightarrow> p2p_node \<Rightarrow> unit http \<times> p2p_node" where
  "set_preferred_relay_route ss body n = logged_in ss
     (case (case body of Some j \<Rightarrow> (if json_truthy j then Some j else Some (JObj [])) | None \<Rightarrow> None) of
        Some (JObj kvs) \<Rightarrow>
          (case opt_str kvs ''preferred_file_relay'' of
             None \<Rightarrow> (Inl unexpected, n)
           | Some t \<Rightarrow>
               let v = py_strip t
               in if v \<noteq> [] \<and> \<not> py_startswith v ''http''
                  then (Inl (HTTP 400 ''Preferred file relay must be a valid HTTP/HTTPS URL''), n)
                  else (Inr (), upd_db (set_config ''preferred_file_relay'' (Text v)) n))
      | _ \<Rightarrow> (Inl unexpected, n)) n"

definition update_receipts_route :: "p2p_session \<Rightarrow> json option \<Rightarrow> p2p_node \<Rightarrow> unit http \<times> p2p_node" where
  "update_receipts_route ss body n = api_route [(''onion_address'', T_Str), (''send_receipts'', T_Bool)] ss body (\<lambda>kvs.
     with_onion ''onion_address'' kvs (\<lambda>w.
       (Inr (), upd_db (update_send_receipts w (truthy_field kvs ''send_receipts'')) n)) n) n"

definition message_edits_route ::
    "p2p_session \<Rightarrow> string \<Rightarrow> string \<Rightarrow> p2p_node \<Rightarrow> (string \<times> int) list http \<times> p2p_node" where
  "message_edits_route ss onion ts n = logged_in ss
     (case valid_onion onion of
        None \<Rightarrow> (Inl (HTTP 400 ''Invalid onion address''), n)
      | Some w \<Rightarrow>
          (case py_int ts of
             None \<Rightarrow> (Inl (HTTP 400 ''Invalid timestamp''), n)
           | Some t \<Rightarrow> (Inr (get_message_edits w t (pn_db n)), n))) n"

definition edit_message_route :: "p2p_session \<Rightarrow> real \<Rightarrow> json option \<Rightarrow> p2p_node \<Rightarrow> unit http \<times> p2p_node" where
  "edit_message_route ss now body n =
     api_route [(''onion_address'', T_Str), (''timestamp'', T_Int), (''message'', T_Str)] ss body (\<lambda>kvs.
       with_onion ''onion_address'' kvs (\<lambda>w.
         (Inr (), upd_db (update_message_text now w (int_field kvs ''timestamp'')
           (py_strip (str_field kvs ''message''))) n)) n) n"

definition message_receipt_route :: "p2p_session \<Rightarrow> json option \<Rightarrow> p2p_node \<Rightarrow> unit http \<times> p2p_node" where
  "message_receipt_route ss body n =
     api_route [(''onion_address'', T_Str), (''timestamp'', T_Int), (''state'', T_Str)] ss body (\<lambda>kvs.
       with_onion ''onion_address'' kvs (\<lambda>w.
         (Inr (), upd_db (\<lambda>s. snd (update_message_delivery_state w (int_field kvs ''timestamp'')
           (py_strip (str_field kvs ''state'')) s)) n)) n) n"

definition reset_data_route :: "p2p_session \<Rightarrow> json option \<Rightarrow> p2p_node \<Rightarrow> unit http \<times> p2p_node" where
  "reset_data_route ss body n = api_route [(''confirm'', T_Str)] ss body (\<lambda>kvs.
     if str_field kvs ''confirm'' \<noteq> ''RESET'' then (Inl (HTTP 400 ''Confirmation phrase RESET is required''), n)
     else (Inr (), upd_db reset_app_data n)) n"

section \<open>Requests from other nodes\<close>

definition known_onions :: "crypto \<Rightarrow> node_db \<Rightarrow> string set" where
  "known_onions c s =
     (case get_contacts c None ''default'' s of
        Inl _ \<Rightarrow> {} | Inr rows \<Rightarrow> set (List.map_filter (\<lambda>(r, _). case c_my_onion r of
          Some (ch # cs) \<Rightarrow> Some (ch # cs) | _ \<Rightarrow> None) rows)) \<union>
     (case config_text ''my_onion_address'' s of Some (ch # cs) \<Rightarrow> {norm_onion (ch # cs)} | _ \<Rightarrow> {})"

definition host_known :: "crypto \<Rightarrow> string \<Rightarrow> node_db \<Rightarrow> bool" where
  "host_known c host_header s =
     (let host = hd (py_split CHR '':'' (py_lower (py_strip host_header)))
      in \<not> py_endswith host ''.onion'' \<or> known_onions c s = {} \<or> host \<in> known_onions c s)"

text \<open>A relay the peer names is kept if it looks like a URL; \<open>None\<close> raises.\<close>

definition note_relay :: "(string \<times> json) list \<Rightarrow> string \<Rightarrow> node_db \<Rightarrow> node_db option" where
  "note_relay kvs w s = (case opt_str kvs ''preferred_file_relay'' of
     None \<Rightarrow> None
   | Some t \<Rightarrow> let v = py_strip t
               in Some (if py_startswith v ''http'' then update_preferred_relay w (Some v) s else s))"

definition p2p_handshake_route ::
    "crypto \<Rightarrow> bytes \<Rightarrow> string \<Rightarrow> string \<Rightarrow> json option \<Rightarrow> p2p_node \<Rightarrow> unit http \<times> p2p_node" where
  "p2p_handshake_route c nonce display host_header body n =
     (case validate_json_schema [(''onion_address'', T_Str), (''nickname'', T_Str), (''public_key'', T_Str)] body of
        Inl e \<Rightarrow> (Inl e, n)
      | Inr kvs \<Rightarrow>
          (case validate_nickname (py_strip (str_field kvs ''nickname'')) of
             None \<Rightarrow> (Inl (HTTP 400 ''Invalid nickname''), n)
           | Some nick \<Rightarrow>
               let key = py_strip (str_field kvs ''public_key'')
               in if \<not> is_valid_base64_like 5000 (JStr key) then (Inl (HTTP 400 ''Invalid public key''), n)
                  else with_onion ''onion_address'' kvs (\<lambda>w.
                    if \<not> host_known c host_header (pn_db n) then (Inl (HTTP 404 ''Not found''), n)
                    else if (case find_contact w (pn_db n) of Some r \<Rightarrow> c_status r = ''blocked'' | None \<Rightarrow> False)
                    then (Inl (HTTP 403 ''blocked''), n)
                    else
                      let s = snd (add_contact w (Some nick) ''pending_incoming'' None (Some display) None None None
                                ''default'' (pn_db n));
                          s = snd (update_contact_secret c nonce w None (Some key) None s);
                          s = update_contact_status w ''pending_incoming'' s
                      in (case note_relay kvs w s of
                            None \<Rightarrow> (Inl unexpected, n\<lparr>pn_db := s\<rparr>)
                          | Some s \<Rightarrow> (Inr (), emit_event (Incoming_Request w nick key) (n\<lparr>pn_db := s\<rparr>)))) n))"

definition p2p_accept_route :: "json option \<Rightarrow> p2p_node \<Rightarrow> unit http \<times> p2p_node" where
  "p2p_accept_route body n =
     (case validate_json_schema [(''onion_address'', T_Str), (''public_key'', T_Str)] body of
        Inl e \<Rightarrow> (Inl e, n)
      | Inr kvs \<Rightarrow> with_onion ''onion_address'' kvs (\<lambda>w.
          let key = py_strip (str_field kvs ''public_key'')
          in if \<not> is_valid_base64_like 5000 (JStr key) then (Inl (HTTP 400 ''Invalid public key''), n)
             else if find_contact w (pn_db n) = None then (Inl (HTTP 404 ''No handshake record found.''), n)
             else (case note_relay kvs w (pn_db n) of
               None \<Rightarrow> (Inl unexpected, n)
             | Some s \<Rightarrow> (Inr (), emit_event (Handshake_Accepted w key (config_json (''my_pubkey_for_'' @ w) s))
                 (n\<lparr>pn_db := s\<rparr>)))) n)"

text \<open>
  The time of expiry the peer names, stored in an integer column: a list or an object can not be
  bound, which \<^verbatim>\<open>save_message\<close> prints; for text and floats \<open>affinity\<close> is the number the stored
  value compares like.
\<close>

definition save_incoming ::
    "(json \<Rightarrow> int) \<Rightarrow> bool \<Rightarrow> string \<Rightarrow> string \<Rightarrow> int \<Rightarrow> json \<Rightarrow> node_db \<Rightarrow> node_db" where
  "save_incoming affinity fk w text timestamp expires s = (case expires of
     JNull \<Rightarrow> snd (save_message fk w w text timestamp None s)
   | JInt e \<Rightarrow> snd (save_message fk w w text timestamp (Some e) s)
   | JBool b \<Rightarrow> snd (save_message fk w w text timestamp (Some (if b then 1 else 0)) s)
   | JList _ \<Rightarrow> s
   | JObj _ \<Rightarrow> s
   | v \<Rightarrow> snd (save_message fk w w text timestamp (Some (affinity v)) s))"

definition incoming_expiry :: "contact_info \<Rightarrow> int \<Rightarrow> json \<Rightarrow> json" where
  "incoming_expiry r timestamp v =
     (if v = JNull then (case c_ttl r of Some t \<Rightarrow> (if t \<noteq> 0 then JInt (timestamp + t) else JNull) | None \<Rightarrow> JNull)
      else v)"

definition take_message ::
    "(json \<Rightarrow> int) \<Rightarrow> bool \<Rightarrow> string \<Rightarrow> json \<Rightarrow> json \<Rightarrow> int \<Rightarrow> int \<Rightarrow> json \<Rightarrow> bool \<Rightarrow> p2p_node \<Rightarrow> p2p_node" where
  "take_message affinity fk w iv ct seq timestamp expires ephemeral n =
     emit_event (Incoming_Message w iv ct seq timestamp expires ephemeral)
       (if ephemeral then n
        else upd_db (\<lambda>s.
          let s = save_incoming affinity fk w (message_text iv ct seq) timestamp expires s
          in case get_notify_token w s of
               Some (ch # cs) \<Rightarrow> push_notify_queue (ch # cs) s | _ \<Rightarrow> s) n)"

definition payload_ok :: "json \<Rightarrow> json \<Rightarrow> bool" where
  "payload_ok iv ct = (is_valid_base64_like 100 iv \<and> is_valid_base64_like 100000 ct)"

definition p2p_message_route :: "(json \<Rightarrow> int) \<Rightarrow> bool \<Rightarrow> json option \<Rightarrow> p2p_node \<Rightarrow> unit http \<times> p2p_node" where
  "p2p_message_route affinity fk body n =
     (case validate_json_schema [(''sender'', T_Str), (''iv'', T_Str), (''ciphertext'', T_Str), (''seq'', T_Int),
          (''timestamp'', T_Int)] body of
        Inl e \<Rightarrow> (Inl e, n)
      | Inr kvs \<Rightarrow> with_onion ''sender'' kvs (\<lambda>w.
          let iv = json_field kvs ''iv''; ct = json_field kvs ''ciphertext'';
              seq = int_field kvs ''seq''; timestamp = int_field kvs ''timestamp''
          in if \<not> payload_ok iv ct then (Inl (HTTP 400 ''Invalid cryptographic payload''), n)
             else (case find_contact w (pn_db n) of
               None \<Rightarrow> (Inl (HTTP 403 ''Unauthorized contact.''), n)
             | Some r \<Rightarrow>
                 if c_status r \<noteq> ''accepted'' then (Inl (HTTP 403 ''Unauthorized contact.''), n)
                 else (case note_relay kvs w (pn_db n) of
                   None \<Rightarrow> (Inl unexpected, n)
                 | Some s \<Rightarrow>
                     let n = n\<lparr>pn_db := s\<rparr>
                     in if seq \<le> get_last_sequence_number w s
                        then (Inl (HTTP 400 ''Sequence number must be strictly monotonic''), n)
                        else (Inr (), take_message affinity fk w iv ct seq timestamp
                          (incoming_expiry (contact_info.truncate r) timestamp (json_field kvs ''expires_at''))
                          (truthy_field kvs ''ephemeral'') n)))) n)"

text \<open>Events with a bad payload or number are passed over; one that raises ends the request.\<close>

fun take_events ::
    "(json \<Rightarrow> int) \<Rightarrow> bool \<Rightarrow> string \<Rightarrow> int \<Rightarrow> json \<Rightarrow> json list \<Rightarrow> p2p_node \<Rightarrow> bool \<times> p2p_node" where
  "take_events affinity fk w timestamp expires [] n = (True, n)"
| "take_events affinity fk w timestamp expires (ev # evs) n = (case ev of
     JObj kvs \<Rightarrow>
       (case json_int (json_field kvs ''seq'') of
          None \<Rightarrow> (False, n)
        | Some seq \<Rightarrow>
            let iv = json_field kvs ''iv''; ct = json_field kvs ''ciphertext''
            in take_events affinity fk w timestamp expires evs
                 (if \<not> payload_ok iv ct \<or> seq \<le> get_last_sequence_number w (pn_db n) then n
                  else take_message affinity fk w iv ct seq timestamp expires (truthy_field kvs ''ephemeral'') n))
   | _ \<Rightarrow> (False, n))"

definition p2p_batch_route :: "(json \<Rightarrow> int) \<Rightarrow> bool \<Rightarrow> real \<Rightarrow> json option \<Rightarrow> p2p_node \<Rightarrow> unit http \<times> p2p_node" where
  "p2p_batch_route affinity fk now body n = (case body of
     Some (JObj kvs) \<Rightarrow>
       (case opt_str kvs ''sender'' of
          None \<Rightarrow> (Inl unexpected, n)
        | Some addr \<Rightarrow>
            (case valid_onion addr of
               None \<Rightarrow> (Inl (HTTP 400 ''Invalid onion address''), n)
             | Some w \<Rightarrow>
                 (case (case map_of kvs ''timestamp'' of None \<Rightarrow> Some (now_ms now) | Some v \<Rightarrow> json_int v) of
                    None \<Rightarrow> (Inl unexpected, n)
                  | Some timestamp \<Rightarrow>
                      (case find_contact w (pn_db n) of
                         None \<Rightarrow> (Inl (HTTP 403 ''Unauthorized contact.''), n)
                       | Some r \<Rightarrow>
                           if c_status r \<noteq> ''accepted'' then (Inl (HTTP 403 ''Unauthorized contact.''), n)
                           else (case event_list (case map_of kvs ''events'' of None \<Rightarrow> JList [] | Some v \<Rightarrow> v) of
                             None \<Rightarrow> (Inl unexpected, n)
                           | Some evs \<Rightarrow>
                               (let (ok, n) = take_events affinity fk w timestamp
                                  (incoming_expiry (contact_info.truncate r) timestamp (json_field kvs ''expires_at'')) evs n
                                in (if ok then Inr () else Inl unexpected, n)))))))
   | _ \<Rightarrow> (Inl unexpected, n))"

definition p2p_delete_route :: "json option \<Rightarrow> p2p_node \<Rightarrow> unit http \<times> p2p_node" where
  "p2p_delete_route body n =
     (case validate_json_schema [(''sender'', T_Str), (''timestamp'', T_Int)] body of
        Inl e \<Rightarrow> (Inl e, n)
      | Inr kvs \<Rightarrow> with_onion ''sender'' kvs (\<lambda>w.
          let t = int_field kvs ''timestamp''
          in case find_contact w (pn_db n) of
               None \<Rightarrow> (Inl (HTTP 403 ''Unauthorized contact.''), n)
             | Some r \<Rightarrow>
                 if c_status r \<noteq> ''accepted'' then (Inl (HTTP 403 ''Unauthorized contact.''), n)
                 else (Inr (), emit_event (Event_Message_Deleted w t)
                   (upd_db (\<lambda>s. snd (delete_message_by_timestamp w t s)) n))) n)"

section \<open>Behind the requests\<close>

text \<open>The request a task makes when it runs: address, path and payload.\<close>

definition with_relay :: "bool \<Rightarrow> node_db \<Rightarrow> (string \<times> json) list \<Rightarrow> json" where
  "with_relay wanted s kvs = (case config_text ''preferred_file_relay'' s of
     Some (ch # cs) \<Rightarrow> if wanted then JObj (kvs @ [(''preferred_file_relay'', JStr (ch # cs))]) else JObj kvs
   | _ \<Rightarrow> JObj kvs)"

definition with_expiry :: "int option \<Rightarrow> (string \<times> json) list \<Rightarrow> json" where
  "with_expiry expires kvs = JObj (kvs @ (case expires of Some e \<Rightarrow> [(''expires_at'', JInt e)] | None \<Rightarrow> []))"

fun task_request :: "p2p_task \<Rightarrow> node_db \<Rightarrow> string \<times> string \<times> json" where
  "task_request (Handshake_Task w mine nick key relay) s = (w, ''/p2p/handshake'',
     with_relay relay s [(''onion_address'', mine), (''nickname'', JStr nick), (''public_key'', JStr key)])"
| "task_request (Accept_Task w mine key) s = (w, ''/p2p/accept'',
     with_relay True s [(''onion_address'', mine), (''public_key'', JStr key)])"
| "task_request (Message_Task w mine iv ct seq t expires ephemeral) s = (w, ''/p2p/message'',
     with_expiry expires [(''sender'', mine), (''iv'', iv), (''ciphertext'', ct), (''seq'', JInt seq),
       (''timestamp'', JInt t), (''ephemeral'', JBool ephemeral)])"
| "task_request (Batch_Task w mine evs t expires) s = (w, ''/p2p/message/batch'',
     with_expiry expires [(''sender'', mine), (''events'', JList evs), (''timestamp'', JInt t)])"
| "task_request (Delete_Task w mine t) s = (w, ''/p2p/delete'', JObj [(''sender'', mine), (''timestamp'', JInt t)])"

text \<open>What the interface is told when the answer has an error.\<close>

fun task_failed :: "p2p_task \<Rightarrow> p2p_node \<Rightarrow> p2p_node" where
  "task_failed (Handshake_Task w mine nick key relay) n = emit_event (Event_Contact_Status w ''offline'') n"
| "task_failed (Message_Task w mine iv ct seq t expires ephemeral) n =
     (if ephemeral then n else emit_event (Delivery_Failed w t) n)"
| "task_failed (Batch_Task w mine evs t expires) n =
     fold (\<lambda>ev. case ev of JObj kvs \<Rightarrow> (if truthy_field kvs ''ephemeral'' then id else emit_event (Delivery_Failed w t))
       | _ \<Rightarrow> id) evs n"
| "task_failed t n = n"

definition expiry_sweep :: "real \<Rightarrow> p2p_node \<Rightarrow> p2p_node" where
  "expiry_sweep now n =
     (let gone = get_expired_messages now (pn_db n); (count, s) = delete_expired_messages now (pn_db n)
      in if gone = [] \<or> count = 0 then n
         else fold (\<lambda>(i, w, t). emit_event (Message_Expired i w t)) gone (n\<lparr>pn_db := s\<rparr>))"

text \<open>
  \<^verbatim>\<open>run_legacy_migration\<close> over the contacts: \<open>fresh\<close> gives the random token and display name
  drawn for a contact.
\<close>

definition migrate_row ::
    "(string \<Rightarrow> string option) \<Rightarrow> (string \<Rightarrow> string \<times> string) \<Rightarrow> string option \<Rightarrow> contact_info \<Rightarrow> node_db \<Rightarrow> node_db" where
  "migrate_row spawn fresh main r s =
     (let stale = (case c_my_onion r of
            None \<Rightarrow> True
          | Some w \<Rightarrow> w = [] \<or> (case main of Some (ch # cs) \<Rightarrow> norm_onion w = norm_onion (ch # cs) | _ \<Rightarrow> False));
          s = (if stale
               then (case spawn (''contact_'' @ fst (fresh (c_onion r))) of
                 None \<Rightarrow> s | Some new \<Rightarrow> snd (update_contact_my_onion (c_onion r) new s))
               else s)
      in if c_display_name r = None \<or> c_display_name r = Some []
         then update_contact_display_name (c_onion r) (Some (snd (fresh (c_onion r)))) s else s)"

definition run_legacy_migration ::
    "crypto \<Rightarrow> (string \<Rightarrow> string option) \<Rightarrow> (string \<Rightarrow> string \<times> string) \<Rightarrow> node_db \<Rightarrow> node_db" where
  "run_legacy_migration c spawn fresh s =
     (case get_contacts c None ''default'' s of
        Inl _ \<Rightarrow> s
      | Inr rows \<Rightarrow> fold (\<lambda>(r, _). migrate_row spawn fresh (config_text ''my_onion_address'' s) r) rows s)"

end
