(* ===== verification/P2P_Account.thy ===== *)
theory P2P_Account
  imports P2P_Server
begin

text \<open>
  The account, groups and profiles of the Flask node (\<^verbatim>\<open>transports/p2p/server.py\<close>): setting
  the node up, logging in and out, the routes of groups, supporter badges, reports and profiles.
  A login derives the key of the stored secrets and leaves it in the cache of keys. A route that
  answers with the same session has no session in its result.
\<close>

section \<open>The account\<close>

definition fresh_session :: p2p_session where
  "fresh_session = \<lparr>ps_username = None, ps_profile = None, ps_db_key_id = None\<rparr>"

definition register_route ::
    "(bytes \<Rightarrow> string) \<Rightarrow> string \<Rightarrow> json option \<Rightarrow> p2p_node \<Rightarrow> account_result http \<times> p2p_node" where
  "register_route hashpw key_salt body n =
     (case validate_json_schema [(''username'', T_Str), (''password'', T_Str)] body of
        Inl e \<Rightarrow> (Inl e, n)
      | Inr kvs \<Rightarrow>
          if length (str_field kvs ''password'') < 8
          then (Inl (HTTP 400 ''Password must be at least 8 characters.''), n)
          else (let (r, s) = register_local_user hashpw key_salt (str_field kvs ''username'') (str_field kvs ''password'') (pn_db n)
                in (Inr r, n\<lparr>pn_db := s\<rparr>)))"

text \<open>The key of the stored secrets; a salt that is no hexadecimal text raises.\<close>

definition login_key :: "hashes \<Rightarrow> string \<Rightarrow> node_db \<Rightarrow> bytes option" where
  "login_key h password s = (case config_text ''db_key_salt'' s of
     Some (ch # cs) \<Rightarrow> map_option (\<lambda>salt. pbkdf2_sha256 h (utf8_encode password) salt 600000) (from_hex (ch # cs))
   | _ \<Rightarrow> Some (pbkdf2_sha256 h (utf8_encode password) (utf8_encode ''salt_for_db_key_anonymus'') 10000))"

text \<open>\<open>key_id\<close> is the fresh \<^verbatim>\<open>uuid4().hex\<close> under which the key is kept for eight hours.\<close>

definition login_route ::
    "hashes \<Rightarrow> (bytes \<Rightarrow> string \<Rightarrow> bool) \<Rightarrow> string \<Rightarrow> real \<Rightarrow> json option \<Rightarrow> p2p_session \<Rightarrow> p2p_node \<Rightarrow>
     account_result http \<times> p2p_session \<times> p2p_node" where
  "login_route h checkpw key_id now body ss n =
     (case validate_json_schema [(''username'', T_Str), (''password'', T_Str)] body of
        Inl e \<Rightarrow> (Inl e, ss, n)
      | Inr kvs \<Rightarrow>
          let username = str_field kvs ''username''; password = str_field kvs ''password'';
              (r, s) = login_local_user checkpw now username password (pn_db n); n = n\<lparr>pn_db := s\<rparr>
          in (case r of
                Failure _ \<Rightarrow> (Inr r, ss, n)
              | Success \<Rightarrow>
                  let ss = \<lparr>ps_username = Some username, ps_profile = Some ''default'', ps_db_key_id = None\<rparr>
                  in (case login_key h password s of
                        None \<Rightarrow> (Inl unexpected, ss, n)
                      | Some key \<Rightarrow> (Inr r, ss\<lparr>ps_db_key_id := Some key_id\<rparr>, cache_db_key key_id (to_hex key) 28800 now n))))"

definition logout_route :: "p2p_session \<Rightarrow> p2p_node \<Rightarrow> p2p_session \<times> p2p_node" where
  "logout_route ss n = (fresh_session, case ps_db_key_id ss of
     Some (ch # cs) \<Rightarrow> n\<lparr>pn_keys := AList.delete (ch # cs) (pn_keys n)\<rparr> | _ \<Rightarrow> n)"

definition my_info_route :: "p2p_session \<Rightarrow> p2p_node \<Rightarrow> (json \<times> string) http \<times> p2p_node" where
  "my_info_route ss n = (case ps_username ss of
     None \<Rightarrow> (Inl (HTTP 401 ''Unauthorized''), n)
   | Some u \<Rightarrow> (Inr (config_json ''my_onion_address'' (pn_db n), u), n))"

section \<open>Values of loosely typed bodies\<close>

text \<open>\<^verbatim>\<open>request.get_json() or {}\<close>; \<open>None\<close> when the body is no JSON or has no fields to get.\<close>

definition loose_body :: "json option \<Rightarrow> (string \<times> json) list option" where
  "loose_body body = (case body of
     None \<Rightarrow> None
   | Some (JObj kvs) \<Rightarrow> Some kvs
   | Some v \<Rightarrow> if json_truthy v then None else Some [])"

definition int_default :: "int \<Rightarrow> (string \<times> json) list \<Rightarrow> string \<Rightarrow> int option" where
  "int_default d kvs k = (case map_of kvs k of None \<Rightarrow> Some d | Some v \<Rightarrow> json_int v)"

text \<open>What an insertion into a table gives: a violated key raises.\<close>

definition stored :: "'a \<Rightarrow> (db_error + unit) \<times> node_db \<Rightarrow> p2p_node \<Rightarrow> 'a http \<times> p2p_node" where
  "stored v r n = (case r of (Inl _, _) \<Rightarrow> (Inl unexpected, n) | (Inr _, s) \<Rightarrow> (Inr v, n\<lparr>pn_db := s\<rparr>))"

section \<open>Groups\<close>

definition get_groups_route :: "p2p_session \<Rightarrow> p2p_node \<Rightarrow> group_row list http \<times> p2p_node" where
  "get_groups_route ss n = logged_in ss (Inr (get_groups (session_profile ss) (pn_db n)), n) n"

definition group_details_route ::
    "p2p_session \<Rightarrow> string \<Rightarrow> p2p_node \<Rightarrow> (group_row \<times> group_member list) http \<times> p2p_node" where
  "group_details_route ss gid n = logged_in ss
     (case get_group gid (pn_db n) of
        None \<Rightarrow> (Inl (HTTP 404 ''Group not found''), n)
      | Some g \<Rightarrow> (Inr (g, get_group_members gid (pn_db n)), n)) n"

definition create_group_route ::
    "(string \<Rightarrow> string) \<Rightarrow> bool \<Rightarrow> string \<Rightarrow> real \<Rightarrow> p2p_session \<Rightarrow> json option \<Rightarrow> p2p_node \<Rightarrow> json http \<times> p2p_node" where
  "create_group_route real_text fk uuid now ss body n = logged_in ss
     (case loose_body body of
        None \<Rightarrow> (Inl unexpected, n)
      | Some kvs \<Rightarrow>
          let gid = (if truthy_field kvs ''group_id'' then json_field kvs ''group_id'' else JStr uuid)
          in (case (opt_str kvs ''name'', opt_str kvs ''founder_onion'', bound_text real_text gid, int_default 0 kvs ''is_channel'') of
                (Some name, Some founder, Some (Some g), Some channel) \<Rightarrow>
                  if \<not> sqlite_int channel then (Inl unexpected, n)
                  else
                    let n = upd_db (create_group now g (py_strip name) founder (session_profile ss) channel) n
                    in stored gid (add_group_member fk now g founder (the (ps_username ss)) None ''founder'' (pn_db n)) n
              | _ \<Rightarrow> (Inl unexpected, n))) n"

definition add_member_route :: "bool \<Rightarrow> real \<Rightarrow> p2p_session \<Rightarrow> json option \<Rightarrow> p2p_node \<Rightarrow> unit http \<times> p2p_node" where
  "add_member_route fk now ss body n =
     api_route [(''group_id'', T_Str), (''member_onion'', T_Str), (''nickname'', T_Str), (''role'', T_Str)] ss body (\<lambda>kvs.
       stored () (add_group_member fk now (str_field kvs ''group_id'') (str_field kvs ''member_onion'')
         (str_field kvs ''nickname'') None (str_field kvs ''role'') (pn_db n)) n) n"

definition remove_member_route :: "p2p_session \<Rightarrow> json option \<Rightarrow> p2p_node \<Rightarrow> unit http \<times> p2p_node" where
  "remove_member_route ss body n = api_route [(''group_id'', T_Str), (''member_onion'', T_Str)] ss body (\<lambda>kvs.
     (Inr (), upd_db (remove_group_member (str_field kvs ''group_id'') (str_field kvs ''member_onion'')) n)) n"

definition group_message_route :: "bool \<Rightarrow> real \<Rightarrow> p2p_session \<Rightarrow> json option \<Rightarrow> p2p_node \<Rightarrow> unit http \<times> p2p_node" where
  "group_message_route fk now ss body n =
     api_route [(''group_id'', T_Str), (''sender_onion'', T_Str), (''sender_nickname'', T_Str), (''message'', T_Str),
       (''timestamp'', T_Int)] ss body (\<lambda>kvs.
       let gid = str_field kvs ''group_id''; sender = str_field kvs ''sender_onion'';
           nick = str_field kvs ''sender_nickname''; msg = str_field kvs ''message''; t = int_field kvs ''timestamp''
       in if (case get_group gid (pn_db n) of
                None \<Rightarrow> False
              | Some g \<Rightarrow> g_is_channel g = 1 \<and> py_lower sender \<noteq> py_lower (g_founder g))
          then (Inl (HTTP 403 ''Unauthorized: Only channel founder can post messages.''), n)
          else if \<not> sqlite_int t then (Inl unexpected, n)
          else (let (r, n) = stored () (save_group_message fk now gid sender nick msg (Some t) (pn_db n)) n
                in case r of
                     Inl e \<Rightarrow> (Inl e, n)
                   | Inr _ \<Rightarrow> (Inr (), emit_event (Group_Message_Saved gid sender nick msg (json_field kvs ''timestamp'')) n))) n"

definition group_messages_route :: "p2p_session \<Rightarrow> string \<Rightarrow> p2p_node \<Rightarrow> group_message list http \<times> p2p_node" where
  "group_messages_route ss gid n = logged_in ss (Inr (get_group_messages gid (pn_db n)), n) n"

definition group_invite_route :: "bool \<Rightarrow> string \<Rightarrow> real \<Rightarrow> p2p_session \<Rightarrow> json option \<Rightarrow> p2p_node \<Rightarrow> string http \<times> p2p_node" where
  "group_invite_route fk token now ss body n = api_route [(''group_id'', T_Str)] ss body (\<lambda>kvs.
     stored token (create_group_invite fk now token (str_field kvs ''group_id'') (pn_db n)) n) n"

definition use_invite_route :: "real \<Rightarrow> p2p_session \<Rightarrow> json option \<Rightarrow> p2p_node \<Rightarrow> string http \<times> p2p_node" where
  "use_invite_route now ss body n = api_route [(''token'', T_Str)] ss body (\<lambda>kvs.
     case use_group_invite now (str_field kvs ''token'') (pn_db n) of
       (Some (ch # cs), s) \<Rightarrow> (Inr (ch # cs), n\<lparr>pn_db := s\<rparr>)
     | (_, s) \<Rightarrow> (Inl (HTTP 400 ''Invalid or expired invite token''), n\<lparr>pn_db := s\<rparr>)) n"

definition vouch_route :: "bool \<Rightarrow> real \<Rightarrow> p2p_session \<Rightarrow> json option \<Rightarrow> p2p_node \<Rightarrow> unit http \<times> p2p_node" where
  "vouch_route fk now ss body n =
     api_route [(''group_id'', T_Str), (''vouching_member'', T_Str), (''vouched_member'', T_Str)] ss body (\<lambda>kvs.
       let gid = str_field kvs ''group_id''; v1 = str_field kvs ''vouching_member''; v2 = str_field kvs ''vouched_member'';
           (r, n) = stored () (add_member_vouch fk now gid v1 v2 (pn_db n)) n
       in case r of Inl e \<Rightarrow> (Inl e, n) | Inr _ \<Rightarrow> (Inr (), emit_event (Group_Vouch_Added gid v1 v2) n)) n"

definition vouches_route :: "p2p_session \<Rightarrow> string \<Rightarrow> p2p_node \<Rightarrow> vouch list http \<times> p2p_node" where
  "vouches_route ss gid n = logged_in ss (Inr (get_member_vouches gid (pn_db n)), n) n"

section \<open>Reports and badges\<close>

definition report_message_route ::
    "string \<Rightarrow> real \<Rightarrow> p2p_session \<Rightarrow> json option \<Rightarrow> p2p_node \<Rightarrow> string http \<times> p2p_node" where
  "report_message_route uuid now ss body n =
     api_route [(''message_hash'', T_Str), (''reporter_onion'', T_Str), (''reason'', T_Str), (''signature'', T_Str)] ss body
       (\<lambda>kvs. stored uuid (save_abuse_report now uuid (str_field kvs ''message_hash'') (str_field kvs ''reporter_onion'')
         (Some (str_field kvs ''reason'')) (str_field kvs ''signature'') (pn_db n)) n) n"

definition supporter_badge_route ::
    "hashes \<Rightarrow> string \<Rightarrow> real \<Rightarrow> p2p_session \<Rightarrow> json option \<Rightarrow> p2p_node \<Rightarrow> unit http \<times> p2p_node" where
  "supporter_badge_route h dev_key now ss body n =
     api_route [(''onion_address'', T_Str), (''signature'', T_Str)] ss body (\<lambda>kvs.
       let w = py_lower (py_strip (str_field kvs ''onion_address'')); sig = py_strip (str_field kvs ''signature'')
       in if verify_supporter_badge h dev_key w sig then (Inr (), upd_db (save_supporter_badge dev_key now w sig) n)
          else (Inl (HTTP 400 ''Invalid supporter signature.''), n)) n"

definition badge_status_route :: "p2p_session \<Rightarrow> string \<Rightarrow> p2p_node \<Rightarrow> string option http \<times> p2p_node" where
  "badge_status_route ss onion n = logged_in ss
     (Inr (map_option b_signature (get_supporter_badge (py_lower (py_strip onion)) (pn_db n))), n) n"

section \<open>Profiles\<close>

definition get_profiles_route :: "p2p_session \<Rightarrow> p2p_node \<Rightarrow> (string \<times> string \<times> int) list http \<times> p2p_node" where
  "get_profiles_route ss n = logged_in ss (Inr (get_profiles (pn_db n)), n) n"

text \<open>The passphrase is encoded when there is one and the profile is hidden: text only.\<close>

definition create_profile_route ::
    "(bytes \<Rightarrow> string) \<Rightarrow> string \<Rightarrow> p2p_session \<Rightarrow> json option \<Rightarrow> p2p_node \<Rightarrow> string http \<times> p2p_node" where
  "create_profile_route hashpw uuid ss body n = logged_in ss
     (case loose_body body of
        None \<Rightarrow> (Inl unexpected, n)
      | Some kvs \<Rightarrow>
          (case (opt_str kvs ''display_name'', int_default 0 kvs ''hidden'') of
             (Some d, Some hidden) \<Rightarrow>
               let name = py_strip d
               in if name = [] then (Inl (HTTP 400 ''Display name is required''), n)
                  else if hidden \<noteq> 0 \<and> truthy_field kvs ''passphrase'' \<and> opt_str kvs ''passphrase'' = None \<or> \<not> sqlite_int hidden
                  then (Inl unexpected, n)
                  else (Inr uuid, upd_db (create_profile uuid name hidden
                    (if hidden \<noteq> 0 \<and> truthy_field kvs ''passphrase''
                     then Some (hashpw (utf8_encode (str_field kvs ''passphrase''))) else None)) n)
           | _ \<Rightarrow> (Inl unexpected, n))) n"

text \<open>A passphrase that is not text fails for every profile, as a wrong one does.\<close>

definition unlock_profile_route ::
    "(bytes \<Rightarrow> string \<Rightarrow> bool option) \<Rightarrow> json option \<Rightarrow> p2p_session \<Rightarrow> p2p_node \<Rightarrow> (string \<times> string) http \<times> p2p_session" where
  "unlock_profile_route checkpw body ss n =
     (if ps_username ss = None then (Inl (HTTP 401 ''Unauthorized''), ss)
      else case loose_body body of
        None \<Rightarrow> (Inl unexpected, ss)
      | Some kvs \<Rightarrow>
          (case Option.bind (opt_str kvs ''passphrase'') (\<lambda>pw. verify_hidden_profile checkpw pw (pn_db n)) of
             Some (pid, name) \<Rightarrow> (Inr (pid, name), ss\<lparr>ps_profile := Some pid\<rparr>)
           | None \<Rightarrow> (Inl (HTTP 401 ''Invalid credentials''), ss)))"

definition switch_profile_route ::
    "(string \<Rightarrow> string) \<Rightarrow> json option \<Rightarrow> p2p_session \<Rightarrow> p2p_node \<Rightarrow> json http \<times> p2p_session" where
  "switch_profile_route real_text body ss n =
     (if ps_username ss = None then (Inl (HTTP 401 ''Unauthorized''), ss)
      else case loose_body body of
        None \<Rightarrow> (Inl unexpected, ss)
      | Some kvs \<Rightarrow>
          let v = (case map_of kvs ''profile_id'' of None \<Rightarrow> JStr ''default'' | Some v \<Rightarrow> v)
          in (case bound_text real_text v of
                None \<Rightarrow> (Inl unexpected, ss)
              | Some pid \<Rightarrow>
                  (case Option.bind pid (\<lambda>p. get_profile p (pn_db n)) of
                     Some r \<Rightarrow> if p_hidden r = 0 then (Inr v, ss\<lparr>ps_profile := pid\<rparr>)
                               else (Inl (HTTP 403 ''Unauthorized or profile not found''), ss)
                   | None \<Rightarrow> (Inl (HTTP 403 ''Unauthorized or profile not found''), ss))))"

definition active_profile_route :: "p2p_session \<Rightarrow> p2p_node \<Rightarrow> (string \<times> string \<times> int) http \<times> p2p_node" where
  "active_profile_route ss n = logged_in ss
     (case get_profile (session_profile ss) (pn_db n) of
        Some r \<Rightarrow> (Inr (session_profile ss, p_display_name r, p_hidden r), n)
      | None \<Rightarrow> (Inr (''default'', ''Default Profile'', 0), n)) n"

text \<open>The retired routes \<^verbatim>\<open>/api/sync/pair\<close> and \<^verbatim>\<open>/api/sync/push\<close>.\<close>

definition sync_pair_deprecated :: "unit http" where
  "sync_pair_deprecated = Inl (HTTP 410 ''Endpoint deprecated (audit fix ANO-V2-NEW-003)'')"

definition sync_push_deprecated :: "unit http" where
  "sync_push_deprecated = Inl (HTTP 410 ''Endpoint deprecated (audit fix ANO-V2-NEW-003)'')"

end
