(* ===== verification/P2P_Theorems.thy ===== *)
theory P2P_Theorems
  imports P2P_Messages P2P_Account Node_DB_Theorems
begin

text \<open>
  What the Flask node (\<^verbatim>\<open>transports/p2p/server.py\<close>) achieves: a message that one node sends
  is stored by the other, a login opens the stored secrets; and where it fails: contacts made through
  an invite never hear of the sender, a handshake from anyone resets a contact, a message with an
  old time is accepted again and again, receipts are never stored.
\<close>

section \<open>Frames of the shared steps\<close>

lemma submit_task_simps [simp]:
  "pn_db (snd (submit_task busy t r n)) = pn_db n"
  "pn_keys (snd (submit_task busy t r n)) = pn_keys n"
  "fst (submit_task busy t r n) = Inr v \<longleftrightarrow> \<not> busy \<and> v = r"
  "submit_task False t r n = (Inr r, n\<lparr>pn_tasks := pn_tasks n @ [t]\<rparr>)"
  by (auto simp: submit_task_def)

lemma schema_object [simp]:
  "validate_json_schema fs (Some (JObj kvs)) = (case check_fields fs kvs of Inl e \<Rightarrow> Inl e | Inr _ \<Rightarrow> Inr kvs)"
  by (simp add: validate_json_schema_def)

lemma emit_event_simps [simp]:
  "pn_db (emit_event e n) = pn_db n" "pn_events (emit_event e n) = pn_events n @ [e]"
  by (simp_all add: emit_event_def)

lemma upd_db_simps [simp]:
  "pn_db (upd_db f n) = f (pn_db n)" "pn_events (upd_db f n) = pn_events n" "pn_tasks (upd_db f n) = pn_tasks n"
  by (simp_all add: upd_db_def)

lemma get_db_key_frame:
  "get_db_key_hex ss now n = (k, n') \<Longrightarrow>
   pn_db n' = pn_db n \<and> pn_events n' = pn_events n \<and> pn_tasks n' = pn_tasks n"
  by (auto simp: get_db_key_hex_def split: option.splits if_splits)

lemma api_route_keeps:
  "P n \<Longrightarrow> (\<And>kvs. P (snd (k kvs))) \<Longrightarrow> P (snd (api_route fs ss body k n))"
  by (auto simp: api_route_def logged_in_def split: sum.split)

lemma with_onion_keeps:
  "P n \<Longrightarrow> (\<And>w. valid_onion (str_field kvs f) = Some w \<Longrightarrow> P (snd (k w))) \<Longrightarrow> P (snd (with_onion f kvs k n))"
  by (auto simp: with_onion_def split: option.split)

lemma logged_in_keeps: "P n \<Longrightarrow> P (snd r) \<Longrightarrow> P (snd (logged_in ss r n))"
  by (simp add: logged_in_def)

lemma find_contact_update:
  "(\<And>r. c_onion (f r) = c_onion r) \<Longrightarrow> find_contact v (update_contact w f s) =
    map_option (\<lambda>r. if c_onion r = norm_onion w then f r else r) (find_contact v s)"
proof -
  assume f: "\<And>r. c_onion (f r) = c_onion r"
  have "List.find (\<lambda>c. c_onion c = x) (update_where (\<lambda>c. c_onion c = y) f cs) =
      map_option (\<lambda>r. if c_onion r = y then f r else r) (List.find (\<lambda>c. c_onion c = x) cs)" for x y cs
    by (induction cs) (auto simp: update_where_def f)
  then show ?thesis by (simp add: find_contact_def update_contact_def)
qed

lemma find_add_contact:
  "find_contact v (snd (add_contact w (Some nick) st mine disp dr kp kk profile s)) =
    (case find_contact v s of Some r \<Rightarrow> Some r
     | None \<Rightarrow> if norm_onion v = norm_onion w then Some
         \<lparr>c_onion = norm_onion w, c_nickname = nick, c_shared_secret = None,
          c_peer_public_key = None, c_status = st, c_my_onion = mine, c_ttl = None,
          c_display_name = disp, c_dr_state = dr, c_peer_kem_public_key = kp,
          c_my_kem_private_key = kk, c_preferred_file_relay = None,
          c_send_receipts = Some 1, c_notify_token = None, c_profile_id = profile\<rparr> else None)"
proof -
  have app: "List.find P (xs @ [x]) = (case List.find P xs of Some r \<Rightarrow> Some r | None \<Rightarrow> if P x then Some x else None)"
    for P xs and x :: contact
    by (induction xs) auto
  have "List.find (\<lambda>c. c_onion c = norm_onion w) (contacts s) \<noteq> None \<longleftrightarrow> norm_onion w \<in> c_onion ` set (contacts s)"
    by (force simp: find_None_iff image_iff)
  then show ?thesis
    by (auto simp del: not_None_eq simp add: add_contact_def insert_or_ignore_def find_contact_def app split: option.splits)
qed

lemmas contact_ops = update_contact_status_def update_preferred_relay_def update_contact_secret_def
  update_contact_dr_state_def update_contact_kem_keys_def

lemma find_set_config [simp]: "find_contact v (set_config k x s) = find_contact v s"
  by (simp add: find_contact_def set_config_def)

lemma update_contact_frame [simp]:
  "messages (update_contact w f s) = messages s" "next_message (update_contact w f s) = next_message s"
  "config (update_contact w f s) = config s"
  by (simp_all add: update_contact_def)

lemma has_contact_update: "(\<And>r. c_onion (f r) = c_onion r) \<Longrightarrow> has_contact v (update_contact w f s) = has_contact v s"
  by (simp add: has_contact_def update_contact_def image_update_where)

lemma note_relay_frame:
  assumes "note_relay kvs w s = Some s'"
  shows "messages s' = messages s" "next_message s' = next_message s" "config s' = config s"
    "has_contact v s' = has_contact v s"
    "find_contact v s' = None \<longleftrightarrow> find_contact v s = None"
    "find_contact v s = Some r \<Longrightarrow> \<exists>r'. find_contact v s' = Some r' \<and> c_status r' = c_status r \<and> c_ttl r' = c_ttl r \<and>
       c_shared_secret r' = c_shared_secret r \<and> c_peer_public_key r' = c_peer_public_key r"
  using assms
  by (auto simp: note_relay_def Let_def update_preferred_relay_def find_contact_update has_contact_update
      split: option.splits if_splits)

lemma last_seq_frame: "messages s' = messages s \<Longrightarrow> get_last_sequence_number w s' = get_last_sequence_number w s"
  by (simp add: get_last_sequence_number_def get_messages_def Let_def)

section \<open>Handshakes\<close>

definition reset_contact :: "string \<Rightarrow> contact option \<Rightarrow> bool" where
  "reset_contact key r = (case r of
     Some x \<Rightarrow> c_status x = ''pending_incoming'' \<and> c_shared_secret x = None \<and> c_peer_public_key x = Some key
   | None \<Rightarrow> False)"

lemma note_relay_reset:
  assumes "note_relay kvs w s = Some s'" "reset_contact key (find_contact v s)"
  shows "reset_contact key (find_contact v s')"
proof -
  obtain r where r: "find_contact v s = Some r" "reset_contact key (Some r)"
    using assms(2) by (cases "find_contact v s") (auto simp: reset_contact_def)
  from note_relay_frame(6) [OF assms(1) r(1)] r(2) show ?thesis by (auto simp: reset_contact_def)
qed

lemma find_contact_onion: "find_contact w s = Some r \<Longrightarrow> c_onion r = norm_onion w"
  unfolding find_contact_def by (drule find_SomeD) simp

lemma handshake_resets:
  assumes "p2p_handshake_route c nonce display host (Some (JObj kvs)) n = (Inr (), n')"
    and "valid_onion (str_field kvs ''onion_address'') = Some w"
  shows "reset_contact (py_strip (str_field kvs ''public_key'')) (find_contact w (pn_db n'))"
proof -
  let ?key = "py_strip (str_field kvs ''public_key'')"
  from assms obtain nick s where s: "note_relay kvs w (update_contact_status w ''pending_incoming''
      (snd (update_contact_secret c nonce w None (Some ?key) None
        (snd (add_contact w (Some nick) ''pending_incoming'' None (Some display) None None None ''default'' (pn_db n)))))) = Some s"
    "pn_db n' = s"
    by (auto simp: p2p_handshake_route_def with_onion_def Let_def split: sum.splits option.splits if_splits)
  have "reset_contact ?key (find_contact w (update_contact_status w ''pending_incoming''
      (snd (update_contact_secret c nonce w None (Some ?key) None
        (snd (add_contact w (Some nick) ''pending_incoming'' None (Some display) None None None ''default'' (pn_db n)))))))"
    by (auto simp: contact_ops find_contact_update find_add_contact reset_contact_def
        dest: find_contact_onion split: option.splits)
  from note_relay_reset [OF s(1) this] s(2) show ?thesis by simp
qed

text \<open>C32: a handshake, which anyone can send for any address, takes away the shared secret of an
  accepted contact, replaces its public key by the sender's and makes it pending; its messages are
  refused from then on.\<close>

theorem handshake_erases_secret:
  assumes "find_contact w (pn_db n) = Some r" "c_status r = ''accepted''" "c_shared_secret r = Some secret"
    and "p2p_handshake_route c nonce display host (Some (JObj kvs)) n = (Inr (), n')"
    and "valid_onion (str_field kvs ''onion_address'') = Some w"
  shows "\<exists>r'. find_contact w (pn_db n') = Some r' \<and> c_status r' = ''pending_incoming'' \<and> c_shared_secret r' = None \<and>
       c_peer_public_key r' = Some (py_strip (str_field kvs ''public_key'')) \<and>
       (\<forall>affinity fk msg. valid_onion (str_field msg ''sender'') = Some w \<longrightarrow>
          (\<exists>e. p2p_message_route affinity fk (Some (JObj msg)) n' = (Inl e, n')))"
proof -
  from handshake_resets [OF assms(4,5)] obtain r' where r: "find_contact w (pn_db n') = Some r'"
    "c_status r' = ''pending_incoming''" "c_shared_secret r' = None"
    "c_peer_public_key r' = Some (py_strip (str_field kvs ''public_key''))"
    by (auto simp: reset_contact_def split: option.splits)
  have "\<exists>e. p2p_message_route affinity fk (Some (JObj msg)) n' = (Inl e, n')"
    if "valid_onion (str_field msg ''sender'') = Some w" for affinity fk msg
    using that r by (auto simp: p2p_message_route_def with_onion_def Let_def split: sum.split)
  with r show ?thesis by blast
qed

section \<open>Messages with an old time\<close>

lemma last_seq_old:
  assumes "m' \<in> set (messages s)" "m_peer m' = norm_onion w" "m_timestamp m < m_timestamp m'"
    and "messages s' = messages s @ [m]"
  shows "get_last_sequence_number w s' = get_last_sequence_number w s"
proof -
  let ?f = "filter (\<lambda>m. m_peer m = norm_onion w)"
  have ne: "?f (messages s) \<noteq> []" using assms(1,2) by (auto simp: filter_empty_conv)
  have "m_timestamp m' \<le> m_timestamp (last (sort_key m_timestamp (?f (messages s))))"
    by (rule last_sort_max) (use assms in simp)
  then have "last (sort_key m_timestamp (?f (messages s) @ [m])) = last (sort_key m_timestamp (?f (messages s)))"
    using ne assms(3) by (intro last_sort_snoc) simp_all
  moreover have "sort_key m_timestamp (?f (messages s)) \<noteq> []" "sort_key m_timestamp (?f (messages s) @ [m]) \<noteq> []"
    using ne by (metis set_sort set_empty, metis set_sort set_empty append_is_Nil_conv)
  ultimately show ?thesis
    using assms(4) by (auto simp: get_last_sequence_number_def get_messages_def Let_def)
qed

lemma save_message_cases:
  "snd (save_message fk w x text t e s) = s \<or>
   (\<exists>m. messages (snd (save_message fk w x text t e s)) = messages s @ [m] \<and> m_timestamp m = t \<and> m_text m = text \<and>
      m_sender m = x \<and> m_peer m = norm_onion w \<and> m_delivery_state m = ''sent'')"
  by (auto simp: save_message_def Let_def)

lemma contacts_save_message [simp]: "contacts (snd (save_message fk w x text t e s)) = contacts s"
  by (auto simp: save_message_def Let_def)

lemma find_contact_cong: "contacts s' = contacts s \<Longrightarrow> find_contact w s' = find_contact w s"
  by (simp add: find_contact_def)

lemma save_incoming_cases:
  "save_incoming affinity fk w text t e s = s \<or> (\<exists>x. save_incoming affinity fk w text t e s = snd (save_message fk w w text t x s))"
  by (auto simp: save_incoming_def split: json.split)

lemma take_message_frame:
  "contacts (pn_db (take_message affinity fk w iv ct seq t e eph n)) = contacts (pn_db n)"
  "pn_events (take_message affinity fk w iv ct seq t e eph n) = pn_events n @ [Incoming_Message w iv ct seq t e eph]"
  using save_incoming_cases [of affinity fk w "message_text iv ct seq" t e "pn_db n"]
  by (auto simp: take_message_def Let_def push_notify_queue_def split: option.split list.split)

lemma take_message_rows:
  "messages (pn_db (take_message affinity fk w iv ct seq t e eph n)) = messages (pn_db n) \<or>
   \<not> eph \<and> (\<exists>m. messages (pn_db (take_message affinity fk w iv ct seq t e eph n)) = messages (pn_db n) @ [m] \<and>
      m_timestamp m = t \<and> m_text m = message_text iv ct seq \<and> m_sender m = w \<and> m_peer m = norm_onion w \<and>
      m_delivery_state m = ''sent'')"
proof -
  have push: "messages (pn_db (take_message affinity fk w iv ct seq t e eph n)) =
      (if eph then messages (pn_db n) else messages (save_incoming affinity fk w (message_text iv ct seq) t e (pn_db n)))"
    by (auto simp: take_message_def Let_def push_notify_queue_def split: option.split list.split)
  from save_incoming_cases [of affinity fk w "message_text iv ct seq" t e "pn_db n"]
  show ?thesis
  proof
    assume "\<exists>x. save_incoming affinity fk w (message_text iv ct seq) t e (pn_db n) =
      snd (save_message fk w w (message_text iv ct seq) t x (pn_db n))"
    then obtain x where "save_incoming affinity fk w (message_text iv ct seq) t e (pn_db n) =
      snd (save_message fk w w (message_text iv ct seq) t x (pn_db n))" ..
    with push save_message_cases [of fk w w "message_text iv ct seq" t x "pn_db n"] show ?thesis by auto
  qed (use push in auto)
qed

definition accepts :: "(string \<times> json) list \<Rightarrow> string \<Rightarrow> int option \<Rightarrow> p2p_node \<Rightarrow> bool" where
  "accepts kvs w ttl n \<longleftrightarrow> (\<exists>r. find_contact w (pn_db n) = Some r \<and> c_status r = ''accepted'' \<and> c_ttl r = ttl) \<and>
     get_last_sequence_number w (pn_db n) < int_field kvs ''seq'' \<and>
     (truthy_field kvs ''ephemeral'' \<or>
      (\<exists>m\<in>set (messages (pn_db n)). m_peer m = norm_onion w \<and> int_field kvs ''timestamp'' < m_timestamp m))"

definition expiry_of :: "int option \<Rightarrow> int \<Rightarrow> json \<Rightarrow> json" where
  "expiry_of ttl t v = (if v = JNull then (case ttl of Some x \<Rightarrow> (if x \<noteq> 0 then JInt (t + x) else JNull) | None \<Rightarrow> JNull) else v)"

lemma incoming_expiry_ttl: "incoming_expiry (contact_info.truncate r) t v = expiry_of (c_ttl r) t v"
  by (simp add: incoming_expiry_def expiry_of_def contact_info.truncate_def)

lemma message_route_step:
  assumes "accepts kvs w ttl n" "valid_onion (str_field kvs ''sender'') = Some w"
    and "check_fields [(''sender'', T_Str), (''iv'', T_Str), (''ciphertext'', T_Str), (''seq'', T_Int), (''timestamp'', T_Int)] kvs = Inr ()"
    and "payload_ok (json_field kvs ''iv'') (json_field kvs ''ciphertext'')" "opt_str kvs ''preferred_file_relay'' \<noteq> None"
  shows "\<exists>n'. p2p_message_route affinity fk (Some (JObj kvs)) n = (Inr (), n') \<and> accepts kvs w ttl n' \<and>
    pn_events n' = pn_events n @ [Incoming_Message w (json_field kvs ''iv'') (json_field kvs ''ciphertext'') (int_field kvs ''seq'')
      (int_field kvs ''timestamp'') (expiry_of ttl (int_field kvs ''timestamp'') (json_field kvs ''expires_at''))
      (truthy_field kvs ''ephemeral'')]"
proof -
  from assms(1) obtain r where r: "find_contact w (pn_db n) = Some r" "c_status r = ''accepted''" "c_ttl r = ttl"
    and seq: "get_last_sequence_number w (pn_db n) < int_field kvs ''seq''"
    and new: "truthy_field kvs ''ephemeral'' \<or>
      (\<exists>m\<in>set (messages (pn_db n)). m_peer m = norm_onion w \<and> int_field kvs ''timestamp'' < m_timestamp m)"
    by (auto simp: accepts_def)
  obtain s where s: "note_relay kvs w (pn_db n) = Some s"
    using assms(5) by (auto simp: note_relay_def Let_def)
  note frame = note_relay_frame [OF s]
  define n' where "n' = take_message affinity fk w (json_field kvs ''iv'') (json_field kvs ''ciphertext'') (int_field kvs ''seq'')
      (int_field kvs ''timestamp'') (expiry_of ttl (int_field kvs ''timestamp'') (json_field kvs ''expires_at''))
      (truthy_field kvs ''ephemeral'') (n\<lparr>pn_db := s\<rparr>)"
  have run: "p2p_message_route affinity fk (Some (JObj kvs)) n = (Inr (), n')"
    using assms(2-4) r s seq last_seq_frame [OF frame(1)]
    by (simp add: p2p_message_route_def with_onion_def Let_def incoming_expiry_ttl n'_def)
  obtain r' where "find_contact w s = Some r'" "c_status r' = ''accepted''" "c_ttl r' = ttl"
    using frame(6) [OF r(1)] r by auto
  moreover have "find_contact w (pn_db n') = find_contact w s"
    by (rule find_contact_cong) (simp add: n'_def take_message_frame)
  moreover have "get_last_sequence_number w (pn_db n') = get_last_sequence_number w (pn_db n) \<and>
      set (messages (pn_db n)) \<subseteq> set (messages (pn_db n'))"
    using take_message_rows [of affinity fk w "json_field kvs ''iv''" "json_field kvs ''ciphertext''" "int_field kvs ''seq''"
        "int_field kvs ''timestamp''" "expiry_of ttl (int_field kvs ''timestamp'') (json_field kvs ''expires_at'')"
        "truthy_field kvs ''ephemeral''" "n\<lparr>pn_db := s\<rparr>", folded n'_def]
  proof (elim disjE conjE exE)
    assume "messages (pn_db n') = messages (pn_db (n\<lparr>pn_db := s\<rparr>))"
    then have "messages (pn_db n') = messages (pn_db n)" by (simp add: frame)
    from last_seq_frame [OF this] this show ?thesis by simp
  next
    fix m assume m: "messages (pn_db n') = messages (pn_db (n\<lparr>pn_db := s\<rparr>)) @ [m]"
      "m_timestamp m = int_field kvs ''timestamp''" and "\<not> truthy_field kvs ''ephemeral''"
    with new obtain m' where m': "m' \<in> set (messages (pn_db n))" "m_peer m' = norm_onion w" "m_timestamp m < m_timestamp m'"
      by auto
    have "messages (pn_db n') = messages (pn_db n) @ [m]" using m by (simp add: frame)
    with last_seq_old [OF m' this] show ?thesis by auto
  qed
  moreover have "truthy_field kvs ''ephemeral'' \<or>
      (\<exists>m\<in>set (messages (pn_db n')). m_peer m = norm_onion w \<and> int_field kvs ''timestamp'' < m_timestamp m)"
    using new calculation(5) by blast
  ultimately have acc: "accepts kvs w ttl n'" using seq by (simp add: accepts_def)
  have "pn_events n' = pn_events n @ [Incoming_Message w (json_field kvs ''iv'') (json_field kvs ''ciphertext'') (int_field kvs ''seq'')
      (int_field kvs ''timestamp'') (expiry_of ttl (int_field kvs ''timestamp'') (json_field kvs ''expires_at''))
      (truthy_field kvs ''ephemeral'')]"
    by (simp add: n'_def take_message_frame)
  with run acc show ?thesis by blast
qed

text \<open>The number of a message must exceed that of the stored message with the latest time, and
  the peer chooses the time: a message that is ephemeral, or older than one that is stored, is
  accepted and shown again as often as it is sent.\<close>

theorem old_message_replays:
  assumes "find_contact w (pn_db n) = Some r" "c_status r = ''accepted''" "valid_onion (str_field kvs ''sender'') = Some w"
    and "p2p_message_route affinity fk (Some (JObj kvs)) n = (Inr (), n')"
    and "truthy_field kvs ''ephemeral'' \<or>
      (\<exists>m\<in>set (messages (pn_db n)). m_peer m = norm_onion w \<and> int_field kvs ''timestamp'' < m_timestamp m)"
  shows "\<exists>e. \<forall>k. let again = ((\<lambda>n. snd (p2p_message_route affinity fk (Some (JObj kvs)) n)) ^^ k) n
     in pn_events again = pn_events n @ replicate k e \<and> fst (p2p_message_route affinity fk (Some (JObj kvs)) again) = Inr ()"
proof -
  from assms obtain s where ok: "check_fields [(''sender'', T_Str), (''iv'', T_Str), (''ciphertext'', T_Str), (''seq'', T_Int),
      (''timestamp'', T_Int)] kvs = Inr ()"
    "payload_ok (json_field kvs ''iv'') (json_field kvs ''ciphertext'')" "note_relay kvs w (pn_db n) = Some s"
    "get_last_sequence_number w s < int_field kvs ''seq''"
    by (auto simp: p2p_message_route_def with_onion_def Let_def split: sum.splits option.splits if_splits)
  then have relay: "opt_str kvs ''preferred_file_relay'' \<noteq> None" by (auto simp: note_relay_def split: option.splits)
  have start: "accepts kvs w (c_ttl r) n"
    using assms ok last_seq_frame [OF note_relay_frame(1) [OF ok(3)], of w] by (simp add: accepts_def)
  define e where "e = Incoming_Message w (json_field kvs ''iv'') (json_field kvs ''ciphertext'') (int_field kvs ''seq'')
      (int_field kvs ''timestamp'') (expiry_of (c_ttl r) (int_field kvs ''timestamp'') (json_field kvs ''expires_at''))
      (truthy_field kvs ''ephemeral'')"
  let ?serve = "\<lambda>n. snd (p2p_message_route affinity fk (Some (JObj kvs)) n)"
  note step = message_route_step [OF _ assms(3) ok(1,2) relay, of "c_ttl r" _ affinity fk, folded e_def]
  have "accepts kvs w (c_ttl r) ((?serve ^^ k) n) \<and> pn_events ((?serve ^^ k) n) = pn_events n @ replicate k e" for k
  proof (induction k)
    case (Suc k)
    with step [of "(?serve ^^ k) n"] show ?case by (auto simp: replicate_append_same [symmetric])
  qed (use start in simp)
  with step show ?thesis unfolding Let_def by (metis fst_conv)
qed

section \<open>From node to node\<close>

lemma get_contact_found: "get_contact c w k s = Inr (Some r) \<Longrightarrow> \<exists>row. find_contact w s = Some row"
  by (auto simp: get_contact_def split: option.splits sum.splits)

lemma config_json_save_message [simp]: "config_json key (snd (save_message fk w x y t e s)) = config_json key s"
  by (simp add: config_json_def config_text_def get_config_def save_message_def Let_def)

text \<open>What a message that was sent leaves behind: a stored row, unless it is ephemeral, and the task.\<close>

lemma send_message_sent:
  assumes "send_message_route c fk busy ss now (Some (JObj kvs)) n = (Inr (t, e), n')"
  shows "\<exists>w. valid_onion (str_field kvs ''onion_address'') = Some w \<and> t = now_ms now \<and>
    check_fields [(''onion_address'', T_Str), (''iv'', T_Str), (''ciphertext'', T_Str), (''seq'', T_Int)] kvs = Inr () \<and>
    pn_tasks n' = pn_tasks n @ [Message_Task w (config_json ''my_onion_address'' (pn_db n))
      (json_field kvs ''iv'') (json_field kvs ''ciphertext'') (int_field kvs ''seq'') t e (truthy_field kvs ''ephemeral'')] \<and>
    has_contact w (pn_db n) \<and>
    pn_db n' = (if truthy_field kvs ''ephemeral'' then pn_db n
      else snd (save_message fk w ''me'' (message_text (json_field kvs ''iv'') (json_field kvs ''ciphertext'') (int_field kvs ''seq'')) t e (pn_db n)))"
proof -
  obtain k n0 where k: "get_db_key_hex ss now n = (k, n0)" by fastforce
  note key = get_db_key_frame [OF k]
  from assms obtain w r where w: "valid_onion (str_field kvs ''onion_address'') = Some w"
    "check_fields [(''onion_address'', T_Str), (''iv'', T_Str), (''ciphertext'', T_Str), (''seq'', T_Int)] kvs = Inr ()"
    "accepted_contact c w k (pn_db n0) = Inr r" "t = now_ms now" "e = ttl_expiry r t"
    and run: "n' = (let m = (if truthy_field kvs ''ephemeral'' then n0 else upd_db (\<lambda>s. snd (save_message fk w ''me''
        (message_text (json_field kvs ''iv'') (json_field kvs ''ciphertext'') (int_field kvs ''seq'')) t e s)) n0)
      in m\<lparr>pn_tasks := pn_tasks m @ [Message_Task w (config_json ''my_onion_address'' (pn_db m))
      (json_field kvs ''iv'') (json_field kvs ''ciphertext'') (int_field kvs ''seq'') t e (truthy_field kvs ''ephemeral'')]\<rparr>)"
    by (auto simp: send_message_route_def api_route_def logged_in_def with_onion_def k Let_def submit_task_def
        split: sum.splits option.splits if_splits)
  from w(3) obtain r0 where "get_contact c w k (pn_db n0) = Inr (Some r0)"
    by (auto simp: accepted_contact_def split: sum.splits option.splits if_splits)
  from get_contact_found [OF this] have "has_contact w (pn_db n)" using key by (auto dest: find_contact_has)
  then show ?thesis using w run key by (simp add: Let_def)
qed


section \<open>Contacts made through an invite\<close>

lemma lower_space [simp]: "py_isspace (py_lower_char ch) = py_isspace ch"
  by (auto simp: py_isspace_def py_lower_char_def code_def Let_def)

lemma lower_idem [simp]: "py_lower_char (py_lower_char ch) = py_lower_char ch"
  by (auto simp: py_lower_char_def Let_def)

lemma strip_lower: "py_strip (py_lower s) = py_lower (py_strip s)"
  by (simp add: py_strip_def py_lstrip_def py_lower_def rev_map dropWhile_map comp_def)

declare strip_idem [simp]

lemma norm_onion_idem [simp]: "norm_onion (norm_onion x) = norm_onion x"
  by (simp add: norm_onion_def strip_lower) (simp add: py_lower_def)

lemma valid_onion_norm: "valid_onion x = Some w \<Longrightarrow> w = norm_onion x"
  by (auto simp: valid_onion_def norm_onion_def Let_def split: if_splits)

lemma find_contact_norm: "norm_onion v = norm_onion w \<Longrightarrow> find_contact v s = find_contact w s"
  by (simp add: find_contact_def)

lemma handshake_others:
  assumes "p2p_handshake_route c nonce display host (Some (JObj kvs)) n = (Inr (), n')"
    and "norm_onion v \<noteq> norm_onion (str_field kvs ''onion_address'')" "find_contact v (pn_db n) = None"
  shows "find_contact v (pn_db n') = None"
proof -
  let ?key = "py_strip (str_field kvs ''public_key'')"
  from assms obtain nick s w where w: "valid_onion (str_field kvs ''onion_address'') = Some w"
    and s: "note_relay kvs w (update_contact_status w ''pending_incoming''
      (snd (update_contact_secret c nonce w None (Some ?key) None
        (snd (add_contact w (Some nick) ''pending_incoming'' None (Some display) None None None ''default'' (pn_db n)))))) = Some s"
    "pn_db n' = s"
    by (auto simp: p2p_handshake_route_def with_onion_def Let_def split: sum.splits option.splits if_splits)
  have "norm_onion v \<noteq> norm_onion w" using assms(2) valid_onion_norm [OF w] by simp
  with assms(3) have "find_contact v (update_contact_status w ''pending_incoming''
      (snd (update_contact_secret c nonce w None (Some ?key) None
        (snd (add_contact w (Some nick) ''pending_incoming'' None (Some display) None None None ''default'' (pn_db n)))))) = None"
    by (simp add: contact_ops find_contact_update find_add_contact)
  with note_relay_frame(5) [OF s(1)] s(2) show ?thesis by simp
qed

lemma accept_others:
  assumes "find_contact v (pn_db n) = None"
  shows "find_contact v (pn_db (snd (accept_contact_route c nonce busy ss now body n))) = None"
  unfolding accept_contact_route_def
proof (rule api_route_keeps [where P = "\<lambda>m. find_contact v (pn_db m) = None"], rule assms,
    rule with_onion_keeps [where P = "\<lambda>m. find_contact v (pn_db m) = None"], rule assms)
  fix kvs w
  obtain k n0 where k: "get_db_key_hex ss now n = (k, n0)" by fastforce
  show "find_contact v (pn_db (snd (let (k, n) = get_db_key_hex ss now n in case get_contact c w k (pn_db n) of
      Inl _ \<Rightarrow> (Inl unexpected, n)
    | Inr None \<Rightarrow> (Inl (HTTP 404 ''Contact not found.''), n)
    | Inr (Some r) \<Rightarrow> (case update_contact_secret c nonce w (Some (str_field kvs ''shared_secret'')) (c_peer_public_key r) k (pn_db n) of
         (Inl _, _) \<Rightarrow> (Inl unexpected, n)
       | (Inr _, s) \<Rightarrow> submit_task busy (Accept_Task w (config_json ''my_onion_address'' s) (str_field kvs ''my_public_key''))
           () (n\<lparr>pn_db := s\<rparr>))))) = None"
    using assms get_db_key_frame [OF k]
    by (auto simp: k contact_ops Let_def find_contact_update split: sum.splits option.splits prod.splits)
qed

text \<open>A node that has accepted an invite is known to the inviter by the address it made for that
  contact, but signs its messages with its main address: each is refused as from a stranger.\<close>

theorem invite_contact_unheard:
  assumes "accept_invite_route spawn token display False ss body a = (Inr mine, a1)"
    and "task_request (last (pn_tasks a1)) s1 = (w, path, payload)"
    and "p2p_handshake_route c nonce display' host (Some payload) b = (Inr (), b1)"
    and "accept_contact_route c' nonce' busy' ss' now' body' b1 = (x, b2)"
    and "config_text ''my_onion_address'' (pn_db a2) = Some me" "norm_onion me \<noteq> norm_onion mine" "find_contact me (pn_db b) = None"
    and "send_message_route c'' fk False ss'' now'' (Some (JObj kvs)) a2 = (Inr y, a3)"
  shows "\<exists>e. p2p_message_route affinity fk' (Some (snd (snd (task_request (last (pn_tasks a3)) s2)))) b2 = (Inl e, b2)"
proof -
  obtain w0 key where "last (pn_tasks a1) = Handshake_Task w0 (JStr mine) display key False"
    using assms(1) by (auto simp: accept_invite_route_def api_route_def logged_in_def with_onion_def Let_def
        split: sum.splits option.splits if_splits)
  then obtain pl where pl: "payload = JObj pl" "str_field pl ''onion_address'' = mine"
    using assms(2) by (auto simp: with_relay_def str_field_def split: option.splits list.splits)
  have "find_contact me (pn_db b1) = None"
    using handshake_others [OF assms(3) [unfolded pl(1)]] assms(6,7) pl(2) by simp
  from accept_others [OF this, of c' nonce' busy' ss' now' body'] have b2: "find_contact me (pn_db b2) = None"
    by (simp add: assms(4))
  obtain t e where y: "y = (t, e)" by fastforce
  from send_message_sent [OF assms(8) [unfolded y]] obtain w' where
    "last (pn_tasks a3) = Message_Task w' (JStr me) (json_field kvs ''iv'') (json_field kvs ''ciphertext'')
      (int_field kvs ''seq'') t e (truthy_field kvs ''ephemeral'')"
    using assms(5) by (auto simp: config_json_def)
  then obtain ml where ml: "snd (snd (task_request (last (pn_tasks a3)) s2)) = JObj ml" "str_field ml ''sender'' = me"
    by (auto simp: with_expiry_def str_field_def)
  have "find_contact wm (pn_db b2) = None" if "valid_onion me = Some wm" for wm
    using b2 find_contact_norm [of wm me] valid_onion_norm [OF that] by simp
  then show ?thesis unfolding ml(1)
    by (auto simp: p2p_message_route_def with_onion_def Let_def ml(2) split: sum.split option.split)
qed

section \<open>Delivery receipts\<close>

text \<open>The steps of a node: its routes for contacts and messages, and any step that leaves the messages alone.\<close>

inductive node_step :: "crypto \<Rightarrow> (json \<Rightarrow> int) \<Rightarrow> bool \<Rightarrow> p2p_node \<Rightarrow> p2p_node \<Rightarrow> bool" for c affinity fk where
  send: "node_step c affinity fk n (snd (send_message_route c fk busy ss now body n))"
| send_batch: "node_step c affinity fk n (snd (send_batch_route c fk busy ss now body n))"
| set_ttl: "node_step c affinity fk n (snd (set_ttl_route ss body n))"
| delete_message: "node_step c affinity fk n (snd (delete_message_route busy ss body n))"
| edit: "node_step c affinity fk n (snd (edit_message_route ss now body n))"
| receipt: "node_step c affinity fk n (snd (message_receipt_route ss body n))"
| reset: "node_step c affinity fk n (snd (reset_data_route ss body n))"
| add: "node_step c affinity fk n (snd (add_contact_route busy display ss body n))"
| accept: "node_step c affinity fk n (snd (accept_contact_route c nonce busy ss now body n))"
| save_secret: "node_step c affinity fk n (snd (save_secret_route c nonce ss now body n))"
| delete_contact: "node_step c affinity fk n (snd (delete_contact_route fk ss body n))"
| migrate: "node_step c affinity fk n (snd (migrate_contact_route fk ss body n))"
| invite: "node_step c affinity fk n (snd (accept_invite_route spawn token display busy ss body n))"
| handshake: "node_step c affinity fk n (snd (p2p_handshake_route c nonce display host body n))"
| accepted: "node_step c affinity fk n (snd (p2p_accept_route body n))"
| incoming: "node_step c affinity fk n (snd (p2p_message_route affinity fk body n))"
| incoming_batch: "node_step c affinity fk n (snd (p2p_batch_route affinity fk now body n))"
| incoming_delete: "node_step c affinity fk n (snd (p2p_delete_route body n))"
| sweep: "node_step c affinity fk n (expiry_sweep now n)"
| other: "messages (pn_db n') = messages (pn_db n) \<Longrightarrow> node_step c affinity fk n n'"

definition senders_ok :: "node_db \<Rightarrow> bool" where
  "senders_ok s = (\<forall>m\<in>set (messages s). m_sender m \<noteq> ''You'')"

lemma senders_frame: "messages s' = messages s \<Longrightarrow> senders_ok s' = senders_ok s"
  by (simp add: senders_ok_def)

lemma senders_subset: "set (messages s') \<subseteq> set (messages s) \<Longrightarrow> senders_ok s \<Longrightarrow> senders_ok s'"
  by (auto simp: senders_ok_def)

lemma senders_update:
  "(\<And>m. m_sender (f m) = m_sender m) \<Longrightarrow> senders_ok (s\<lparr>messages := update_where p f (messages s)\<rparr>) = senders_ok s"
  by (simp add: senders_ok_def ball_update_where)

lemma senders_save: "x \<noteq> ''You'' \<Longrightarrow> senders_ok s \<Longrightarrow> senders_ok (snd (save_message fk w x text t e s))"
  by (auto simp: senders_ok_def save_message_def Let_def)

lemma valid_not_you: "valid_onion x = Some w \<Longrightarrow> w \<noteq> ''You''"
  by (auto simp: valid_onion_def ONION_RE_def re_dollar_def onion_body_def py_endswith_def Let_def split: if_splits)

lemma senders_incoming: "w \<noteq> ''You'' \<Longrightarrow> senders_ok s \<Longrightarrow> senders_ok (save_incoming affinity fk w tx t e s)"
  using save_incoming_cases [of affinity fk w tx t e s] by (auto simp: senders_save)

lemma senders_contacts [simp]:
  "senders_ok (update_contact w f s) = senders_ok s" "senders_ok (set_config k v s) = senders_ok s"
  "senders_ok (snd (add_contact w nick st mine disp dr kp kk profile s)) = senders_ok s"
  "senders_ok (push_notify_queue tok s) = senders_ok s"
  by (rule senders_frame, simp add: set_config_def add_contact_def push_notify_queue_def split: option.split)+

lemma senders_secret [simp]: "senders_ok (snd (update_contact_secret c nonce w sec pub k s)) = senders_ok s"
  by (auto simp: update_contact_secret_def Let_def split: option.split sum.split)

lemma senders_note_relay: "note_relay kvs w s = Some s' \<Longrightarrow> senders_ok s' = senders_ok s"
  by (rule senders_frame) (rule note_relay_frame)

lemma senders_key: "get_db_key_hex ss now n = (k, n') \<Longrightarrow> senders_ok (pn_db n') = senders_ok (pn_db n)"
  by (drule get_db_key_frame) simp

lemma senders_take: "w \<noteq> ''You'' \<Longrightarrow> senders_ok (pn_db n) \<Longrightarrow> senders_ok (pn_db (take_message affinity fk w iv ct seq t e eph n))"
  by (auto simp: take_message_def Let_def senders_incoming split: option.split list.split)

lemma senders_take_events:
  "w \<noteq> ''You'' \<Longrightarrow> senders_ok (pn_db n) \<Longrightarrow> senders_ok (pn_db (snd (take_events affinity fk w t e evs n)))"
  by (induction affinity fk w t e evs n rule: take_events.induct)
    (auto simp: senders_take Let_def split: json.split option.split)

lemma senders_save_events: "senders_ok s \<Longrightarrow> senders_ok (snd (save_events fk w t e evs s))"
  by (induction fk w t e evs s rule: save_events.induct) (auto simp: senders_save split: json.split option.split)

lemma senders_delete_where: "senders_ok s \<Longrightarrow> senders_ok (s\<lparr>messages := delete_where p (messages s)\<rparr>)"
  by (erule senders_subset [rotated]) (auto simp: delete_where_def)

lemma senders_delete_contact: "senders_ok s \<Longrightarrow> senders_ok (delete_contact fk w s)"
  by (erule senders_subset [rotated]) (auto simp: delete_contact_def delete_where_def Let_def)

lemma senders_migrate: "senders_ok s \<Longrightarrow> senders_ok (fst (snd (migrate_contact_address fk a b s)))"
  by (auto simp: migrate_contact_address_def Let_def senders_ok_def ball_update_where set_config_def split: option.split)

lemma senders_text: "senders_ok (update_message_text now w t tx s) = senders_ok s"
  by (auto simp: update_message_text_def Let_def senders_update add_message_edit_def senders_ok_def ball_update_where split: option.split)

lemma senders_receipt: "senders_ok (snd (update_message_delivery_state w t st s)) = senders_ok s"
  by (simp add: update_message_delivery_state_def Let_def senders_update)

lemma senders_sweep: "senders_ok (pn_db n) \<Longrightarrow> senders_ok (pn_db (expiry_sweep now n))"
proof -
  have "pn_db (fold (\<lambda>(i, w, t). emit_event (Message_Expired i w t)) xs m) = pn_db m" for xs m
    by (induction xs arbitrary: m) auto
  then show "senders_ok (pn_db n) \<Longrightarrow> senders_ok (pn_db (expiry_sweep now n))"
    by (auto simp: expiry_sweep_def delete_expired_messages_def senders_delete_where Let_def)
qed

lemmas senders_rules = senders_save senders_take senders_take_events senders_save_events senders_delete_where
  senders_delete_contact senders_migrate

lemmas api_keeps = api_route_keeps [where P = "\<lambda>n. senders_ok (pn_db n)"]
lemmas onion_keeps = with_onion_keeps [where P = "\<lambda>n. senders_ok (pn_db n)"]
lemmas login_keeps = logged_in_keeps [where P = "\<lambda>n. senders_ok (pn_db n)"]


lemma senders_empty [simp]: "senders_ok (s\<lparr>messages := [], contacts := x\<rparr>)"
  by (simp add: senders_ok_def)

lemma never_you [simp]: "valid_onion x \<noteq> Some ''You''"
  using valid_not_you by blast

lemma senders_pair: "save_events fk w t e evs s = (ok, s') \<Longrightarrow> senders_ok s \<Longrightarrow> senders_ok s'"
  using senders_save_events [of s fk w t e evs] by simp

lemma senders_secret2: "update_contact_secret c nonce w sec pub k s = (r, s') \<Longrightarrow> senders_ok s' = senders_ok s"
  using senders_secret [of c nonce w sec pub k s] by simp

lemma senders_migrate2: "migrate_contact_address fk a b s = (ok, s', x) \<Longrightarrow> senders_ok s \<Longrightarrow> senders_ok s'"
  using senders_migrate [of s fk a b] by simp

lemma senders_take_events2:
  "take_events affinity fk w t e evs n = (ok, n') \<Longrightarrow> w \<noteq> ''You'' \<Longrightarrow> senders_ok (pn_db n) \<Longrightarrow> senders_ok (pn_db n')"
  using senders_take_events [of w n affinity fk t e evs] by simp

lemma keep_send: "senders_ok (pn_db n) \<Longrightarrow> senders_ok (pn_db (snd (send_message_route c fk busy ss now body n)))"
  unfolding send_message_route_def
  by (auto intro!: api_keeps onion_keeps login_keeps senders_save 
      simp: Let_def dest!: get_db_key_frame split: sum.split option.split prod.split)

lemma keep_send_batch: "senders_ok (pn_db n) \<Longrightarrow> senders_ok (pn_db (snd (send_batch_route c fk busy ss now body n)))"
  unfolding send_batch_route_def
  by (auto intro!: api_keeps onion_keeps login_keeps 
      simp: Let_def senders_save_events senders_pair dest!: get_db_key_frame split: sum.split option.split prod.split json.split)

lemma keep_set_ttl: "senders_ok (pn_db n) \<Longrightarrow> senders_ok (pn_db (snd (set_ttl_route ss body n)))"
  unfolding set_ttl_route_def set_disappearing_ttl_def
  by (auto intro!: api_keeps onion_keeps login_keeps 
      simp: Let_def dest!: get_db_key_frame split: sum.split option.split prod.split json.split)

lemma keep_delete_message: "senders_ok (pn_db n) \<Longrightarrow> senders_ok (pn_db (snd (delete_message_route busy ss body n)))"
  unfolding delete_message_route_def delete_message_by_timestamp_def
  by (auto intro!: api_keeps onion_keeps login_keeps senders_delete_where 
      simp: Let_def dest!: get_db_key_frame split: sum.split option.split prod.split)

lemma keep_edit: "senders_ok (pn_db n) \<Longrightarrow> senders_ok (pn_db (snd (edit_message_route ss now body n)))"
  unfolding edit_message_route_def
  by (auto intro!: api_keeps onion_keeps login_keeps 
      simp: Let_def senders_text dest!: get_db_key_frame split: sum.split option.split prod.split)

lemma keep_receipt: "senders_ok (pn_db n) \<Longrightarrow> senders_ok (pn_db (snd (message_receipt_route ss body n)))"
  unfolding message_receipt_route_def
  by (auto intro!: api_keeps onion_keeps login_keeps 
      simp: Let_def senders_receipt dest!: get_db_key_frame split: sum.split option.split prod.split)

lemma keep_reset: "senders_ok (pn_db n) \<Longrightarrow> senders_ok (pn_db (snd (reset_data_route ss body n)))"
  unfolding reset_data_route_def reset_app_data_def nuke_database_def
  by (auto intro!: api_keeps onion_keeps login_keeps 
      simp: Let_def dest!: get_db_key_frame split: sum.split option.split prod.split)

lemma keep_add: "senders_ok (pn_db n) \<Longrightarrow> senders_ok (pn_db (snd (add_contact_route busy display ss body n)))"
  unfolding add_contact_route_def
  by (auto intro!: api_keeps onion_keeps login_keeps 
      simp: Let_def dest!: get_db_key_frame split: sum.split option.split prod.split)

lemma keep_accept: "senders_ok (pn_db n) \<Longrightarrow> senders_ok (pn_db (snd (accept_contact_route c nonce busy ss now body n)))"
  unfolding accept_contact_route_def
  by (auto intro!: api_keeps onion_keeps login_keeps 
      simp: Let_def senders_secret2 dest!: get_db_key_frame split: sum.split option.split prod.split)

lemma keep_save_secret: "senders_ok (pn_db n) \<Longrightarrow> senders_ok (pn_db (snd (save_secret_route c nonce ss now body n)))"
  unfolding save_secret_route_def update_contact_dr_state_def update_contact_kem_keys_def
  by (auto intro!: api_keeps onion_keeps login_keeps 
      simp: Let_def senders_secret2 dest!: get_db_key_frame split: sum.split option.split prod.split)

lemma keep_delete_contact: "senders_ok (pn_db n) \<Longrightarrow> senders_ok (pn_db (snd (delete_contact_route fk ss body n)))"
  unfolding delete_contact_route_def
  by (auto intro!: api_keeps onion_keeps login_keeps senders_delete_contact 
      simp: Let_def dest!: get_db_key_frame split: sum.split option.split prod.split)

lemma keep_migrate: "senders_ok (pn_db n) \<Longrightarrow> senders_ok (pn_db (snd (migrate_contact_route fk ss body n)))"
  unfolding migrate_contact_route_def by (auto intro!: api_keeps onion_keeps senders_migrate simp: Let_def case_prod_beta)

lemma keep_invite: "senders_ok (pn_db n) \<Longrightarrow> senders_ok (pn_db (snd (accept_invite_route spawn token display busy ss body n)))"
  unfolding accept_invite_route_def
  by (auto intro!: api_keeps onion_keeps login_keeps 
      simp: Let_def dest!: get_db_key_frame split: sum.split option.split prod.split)

lemma keep_handshake: "senders_ok (pn_db n) \<Longrightarrow> senders_ok (pn_db (snd (p2p_handshake_route c nonce display host body n)))"
  unfolding p2p_handshake_route_def update_contact_status_def
  by (auto intro!: api_keeps onion_keeps login_keeps 
      simp: Let_def senders_note_relay dest!: get_db_key_frame split: sum.split option.split prod.split)

lemma keep_accepted: "senders_ok (pn_db n) \<Longrightarrow> senders_ok (pn_db (snd (p2p_accept_route body n)))"
  unfolding p2p_accept_route_def
  by (auto intro!: api_keeps onion_keeps login_keeps 
      simp: Let_def senders_note_relay dest!: get_db_key_frame split: sum.split option.split prod.split)

lemma keep_incoming: "senders_ok (pn_db n) \<Longrightarrow> senders_ok (pn_db (snd (p2p_message_route affinity fk body n)))"
  unfolding p2p_message_route_def
  by (auto intro!: api_keeps onion_keeps login_keeps senders_take 
      simp: Let_def senders_note_relay valid_not_you dest!: get_db_key_frame split: sum.split option.split prod.split)

lemma keep_incoming_batch: "senders_ok (pn_db n) \<Longrightarrow> senders_ok (pn_db (snd (p2p_batch_route affinity fk now body n)))"
  unfolding p2p_batch_route_def
  by (auto intro!: api_keeps onion_keeps login_keeps 
      simp: Let_def senders_take_events2 valid_not_you dest!: get_db_key_frame split: sum.split option.split prod.split json.split)

lemma keep_incoming_delete: "senders_ok (pn_db n) \<Longrightarrow> senders_ok (pn_db (snd (p2p_delete_route body n)))"
  unfolding p2p_delete_route_def delete_message_by_timestamp_def
  by (auto intro!: api_keeps onion_keeps login_keeps senders_delete_where 
      simp: Let_def dest!: get_db_key_frame split: sum.split option.split prod.split)

lemmas node_step_keeps = keep_send keep_send_batch keep_set_ttl keep_delete_message keep_edit keep_receipt keep_reset keep_add
  keep_accept keep_save_secret keep_delete_contact keep_migrate keep_invite keep_handshake keep_accepted keep_incoming
  keep_incoming_batch keep_incoming_delete senders_sweep

lemma node_step_senders: "node_step c affinity fk n n' \<Longrightarrow> senders_ok (pn_db n) \<Longrightarrow> senders_ok (pn_db n')"
  by (induction rule: node_step.induct) (simp_all add: node_step_keeps, simp add: senders_ok_def)

text \<open>No receipt is ever stored: on a node that started without messages, whatever requests it
  served, the route for receipts leaves everything as it is, because it looks for messages
  of a sender that no message is stored under.\<close>

theorem receipts_never_stored:
  assumes "messages (pn_db n0) = []" "(node_step c affinity fk)\<^sup>*\<^sup>* n0 n"
  shows "snd (message_receipt_route ss body n) = n"
proof -
  have "senders_ok (pn_db n)"
    using assms(2) by (induction rule: rtranclp_induct) (auto simp: senders_ok_def [of "pn_db n0"] assms(1) intro: node_step_senders)
  then have same: "snd (update_message_delivery_state w t st (pn_db n)) = pn_db n" for w t st
    by (simp add: update_message_delivery_state_def Let_def update_where_unmatched senders_ok_def)
  have "upd_db (\<lambda>s. snd (update_message_delivery_state w t st s)) n = n" for w t st
    by (simp add: upd_db_def same)
  then show ?thesis
    by (simp add: message_receipt_route_def api_route_def logged_in_def with_onion_def split: sum.split option.split)
qed

section \<open>The key of the stored secrets\<close>

lemma key_cached:
  "ps_db_key_id ss = Some i \<Longrightarrow> i \<noteq> [] \<Longrightarrow>
   fst (get_db_key_hex ss t (cache_db_key i k life now n)) = (if t < now + life then Some k else None)"
  by (simp add: get_db_key_hex_def cache_db_key_def update_conv')


section \<open>The theorems at work\<close>

definition addr_a :: string where "addr_a = ''aaaaaaaaaaaaaaaa.onion''"
definition addr_b :: string where "addr_b = ''bbbbbbbbbbbbbbbb.onion''"

definition peer_row :: "string \<Rightarrow> contact" where
  "peer_row w = \<lparr>c_onion = w, c_nickname = ''peer'', c_shared_secret = Some ''secret'', c_peer_public_key = Some ''pk'',
     c_status = ''accepted'', c_my_onion = None, c_ttl = None, c_display_name = None, c_dr_state = None,
     c_peer_kem_public_key = None, c_my_kem_private_key = None, c_preferred_file_relay = None, c_send_receipts = None,
     c_notify_token = None, c_profile_id = ''default''\<rparr>"

lemma peer_row_simps [simp]:
  "c_status (peer_row w) = ''accepted''" "c_ttl (peer_row w) = None" "c_shared_secret (peer_row w) = Some ''secret''"
  "c_peer_public_key (peer_row w) = Some ''pk''" "c_onion (peer_row w) = w"
  by (simp_all add: peer_row_def)

definition demo_node :: "string \<Rightarrow> contact list \<Rightarrow> message list \<Rightarrow> p2p_node" where
  "demo_node me cs ms = \<lparr>pn_db = db_init\<lparr>config := [(''my_onion_address'', Text me)], contacts := cs, messages := ms\<rparr>,
     pn_chunks = Map.empty, pn_keys = [], pn_tasks = [], pn_events = []\<rparr>"

definition demo_session :: p2p_session where
  "demo_session = \<lparr>ps_username = Some ''u'', ps_profile = None, ps_db_key_id = None\<rparr>"

lemmas onion_eval = valid_onion_def ONION_RE_def re_dollar_def onion_body_def is_base32_def code_def str_simps Let_def

lemma demo_onions [simp]:
  "valid_onion addr_a = Some addr_a" "valid_onion addr_b = Some addr_b"
  "norm_onion addr_a = addr_a" "norm_onion addr_b = addr_b" "addr_a \<noteq> addr_b" "addr_b \<noteq> addr_a"
  by (simp_all add: addr_a_def addr_b_def onion_eval norm_onion_def)

lemma demo_payload [simp]: "payload_ok (JStr ''aXY='') (JStr ''Y3Q='')" "is_valid_base64_like 5000 (JStr ''cGs='')"
  by (simp_all add: payload_ok_def is_valid_base64_like_def re_dollar_def base64_char_def code_def)

lemmas route_eval = with_onion_def str_field_def json_field_def int_field_def truthy_field_def opt_str_def json_truthy_def
  json_int_def note_relay_def find_contact_def Let_def api_route_def logged_in_def

definition demo_msg :: "(string \<times> json) list" where
  "demo_msg = [(''sender'', JStr addr_a), (''iv'', JStr ''aXY=''), (''ciphertext'', JStr ''Y3Q=''), (''seq'', JInt 1),
     (''timestamp'', JInt 5)]"

definition old_row :: message where
  "old_row = \<lparr>m_id = 0, m_peer = addr_a, m_sender = addr_a, m_text = [], m_timestamp = 9, m_expires_at = None,
     m_delivery_state = ''sent''\<rparr>"

lemma demo_find [simp]: "find_contact addr_a (pn_db (demo_node me [peer_row addr_a] ms)) = Some (peer_row addr_a)"
  "find_contact addr_b (pn_db (demo_node me [peer_row addr_b] ms)) = Some (peer_row addr_b)"
  by (simp_all add: find_contact_def demo_node_def peer_row_def)

lemma json_loads_Nil [simp]: "json_loads [] = None"
  by code_simp

theorem old_message_replays_witness:
  "\<exists>e. pn_events (((\<lambda>n. snd (p2p_message_route (\<lambda>_. 0) True (Some (JObj demo_msg)) n)) ^^ 3) (demo_node addr_b [peer_row addr_a] [old_row])) =
     replicate 3 e"
proof -
  let ?n = "demo_node addr_b [peer_row addr_a] [old_row]"
  have "get_last_sequence_number addr_a (pn_db ?n) = 0"
    by (simp add: get_last_sequence_number_def get_messages_def demo_node_def old_row_def seq_of_def)
  then obtain n' where run: "p2p_message_route (\<lambda>_. 0) True (Some (JObj demo_msg)) ?n = (Inr (), n')"
    using demo_find(1) [of addr_b "[old_row]"]
    by (simp add: p2p_message_route_def demo_msg_def with_onion_def str_field_def json_field_def int_field_def truthy_field_def
        opt_str_def json_int_def note_relay_def Let_def py_startswith_def)
  have "valid_onion (str_field demo_msg ''sender'') = Some addr_a" by (simp add: demo_msg_def str_field_def)
  from old_message_replays [OF demo_find(1) _ this run] obtain e where e:
    "\<forall>k. let again = ((\<lambda>n. snd (p2p_message_route (\<lambda>_. 0) True (Some (JObj demo_msg)) n)) ^^ k) ?n
     in pn_events again = pn_events ?n @ replicate k e \<and> fst (p2p_message_route (\<lambda>_. 0) True (Some (JObj demo_msg)) again) = Inr ()"
    by (auto simp: demo_node_def old_row_def demo_msg_def int_field_def json_int_def)
  then have "pn_events (((\<lambda>n. snd (p2p_message_route (\<lambda>_. 0) True (Some (JObj demo_msg)) n)) ^^ 3) ?n) = pn_events ?n @ replicate 3 e"
    unfolding Let_def by blast
  then show ?thesis by (auto simp: demo_node_def)
qed

definition demo_handshake :: "(string \<times> json) list" where
  "demo_handshake = [(''onion_address'', JStr addr_a), (''nickname'', JStr ''eve''), (''public_key'', JStr ''cGs='')]"

lemma demo_names [simp]: "validate_nickname ''eve'' = Some ''eve''" "py_strip ''cGs='' = ''cGs=''" "py_strip ''eve'' = ''eve''"
  by (simp_all add: validate_nickname_def re_dollar_def nickname_char_def code_def str_simps Let_def)

theorem handshake_erases_secret_witness:
  "\<exists>n' r'. p2p_handshake_route toy_crypto [] ''d'' ''h'' (Some (JObj demo_handshake)) (demo_node addr_b [peer_row addr_a] []) = (Inr (), n') \<and>
     find_contact addr_a (pn_db n') = Some r' \<and> c_shared_secret r' = None \<and> c_peer_public_key r' = Some ''cGs=''"
proof -
  let ?n = "demo_node addr_b [peer_row addr_a] []"
  have "host_known toy_crypto ''h'' (pn_db ?n)" by (simp add: host_known_def str_simps py_split.simps)
  then obtain n' where run: "p2p_handshake_route toy_crypto [] ''d'' ''h'' (Some (JObj demo_handshake)) ?n = (Inr (), n')"
    by (simp add: p2p_handshake_route_def demo_handshake_def with_onion_def str_field_def note_relay_def opt_str_def Let_def)
  have "c_status (peer_row addr_a) = ''accepted''" "c_shared_secret (peer_row addr_a) = Some ''secret''"
    "valid_onion (str_field demo_handshake ''onion_address'') = Some addr_a" "str_field demo_handshake ''public_key'' = ''cGs=''"
    by (simp_all add: demo_handshake_def str_field_def)
  with handshake_erases_secret [OF demo_find(1) _ _ run] run show ?thesis by fastforce
qed

definition demo_send :: "(string \<times> json) list" where
  "demo_send = [(''onion_address'', JStr addr_b), (''iv'', JStr ''aXY=''), (''ciphertext'', JStr ''Y3Q=''), (''seq'', JInt 1)]"

lemma p2p_demo_sends:
  "\<exists>a'. send_message_route toy_crypto True False demo_session 5 (Some (JObj demo_send)) (demo_node me [peer_row addr_b] []) =
     (Inr (5000, None), a')"
proof -
  have "get_contact toy_crypto addr_b None (pn_db (demo_node me [peer_row addr_b] [])) = Inr (Some (contact_info.truncate (peer_row addr_b)))"
    by (simp add: get_contact_def opened_secret_def contact_info.truncate_def)
  then show ?thesis
    by (simp add: send_message_route_def api_route_def logged_in_def demo_send_def with_onion_def str_field_def json_field_def
        int_field_def json_int_def truthy_field_def get_db_key_hex_def demo_session_def accepted_contact_def ttl_expiry_def
        contact_info.truncate_def now_ms_def Let_def)
qed


theorem invite_contact_unheard_witness:
  "\<exists>a1 payload b1 b2 a3 e.
     accept_invite_route (\<lambda>_. Some ''cccccccccccccccc.onion'') ''t'' ''d'' False demo_session (Some (JObj
       [(''invite_onion'', JStr addr_b), (''nickname'', JStr ''eve''), (''my_public_key'', JStr ''cGs='')]))
       (demo_node addr_a [] []) = (Inr ''cccccccccccccccc.onion'', a1) \<and>
     snd (snd (task_request (last (pn_tasks a1)) db_init)) = payload \<and>
     p2p_handshake_route toy_crypto [] ''d'' ''h'' (Some payload) (demo_node addr_b [] []) = (Inr (), b1) \<and>
     snd (accept_contact_route toy_crypto [] False demo_session 4 (Some (JObj [(''onion_address'', JStr ''cccccccccccccccc.onion''),
       (''my_public_key'', JStr ''cGs=''), (''shared_secret'', JStr ''s'')])) b1) = b2 \<and>
     send_message_route toy_crypto True False demo_session 5 (Some (JObj demo_send)) (demo_node addr_a [peer_row addr_b] []) =
       (Inr (5000, None), a3) \<and>
     p2p_message_route (\<lambda>_. 0) True (Some (snd (snd (task_request (last (pn_tasks a3)) db_init)))) b2 = (Inl e, b2)"
proof -
  let ?c = "''cccccccccccccccc.onion''"
  have c: "valid_onion ?c = Some ?c" "norm_onion ?c = ?c" "norm_onion addr_a \<noteq> norm_onion ?c"
    by (simp_all add: onion_eval norm_onion_def addr_a_def)
  have none: "host_known toy_crypto ''h'' (pn_db (demo_node addr_b [] []))" "find_contact w (pn_db (demo_node me [] [])) = None" for w me
    by (simp_all add: host_known_def str_simps py_split.simps find_contact_def demo_node_def)
  obtain a1 where a1: "accept_invite_route (\<lambda>_. Some ?c) ''t'' ''d'' False demo_session (Some (JObj
       [(''invite_onion'', JStr addr_b), (''nickname'', JStr ''eve''), (''my_public_key'', JStr ''cGs='')])) (demo_node addr_a [] []) = (Inr ?c, a1)"
    "last (pn_tasks a1) = Handshake_Task addr_b (JStr ?c) ''d'' ''cGs='' False"
    by (simp add: accept_invite_route_def api_route_def logged_in_def with_onion_def str_field_def json_field_def demo_session_def
        spawned_def Let_def)
  have d: "validate_nickname ''d'' = Some ''d''" "py_strip ''d'' = ''d''"
    by (simp_all add: validate_nickname_def re_dollar_def nickname_char_def code_def str_simps Let_def)
  define pl where "pl = JObj [(''onion_address'', JStr ?c), (''nickname'', JStr ''d''), (''public_key'', JStr ''cGs='')]"
  have pl: "task_request (last (pn_tasks a1)) db_init = (addr_b, ''/p2p/handshake'', pl)"
    by (simp add: a1(2) with_relay_def config_text_def get_config_def db_init_def pl_def)
  obtain b1 where b1: "p2p_handshake_route toy_crypto [] ''d'' ''h'' (Some pl) (demo_node addr_b [] []) = (Inr (), b1)"
    using none by (simp add: pl_def p2p_handshake_route_def with_onion_def str_field_def note_relay_def opt_str_def Let_def c d)
  obtain a3 where a3: "send_message_route toy_crypto True False demo_session 5 (Some (JObj demo_send)) (demo_node addr_a [peer_row addr_b] []) =
       (Inr (5000, None), a3)" using p2p_demo_sends by blast
  have me: "config_text ''my_onion_address'' (pn_db (demo_node addr_a [peer_row addr_b] [])) = Some addr_a"
    by (simp add: config_text_def get_config_def demo_node_def)
  obtain x b2 where b2: "accept_contact_route toy_crypto [] False demo_session 4 (Some (JObj [(''onion_address'', JStr ?c),
       (''my_public_key'', JStr ''cGs=''), (''shared_secret'', JStr ''s'')])) b1 = (x, b2)" by fastforce
  from invite_contact_unheard [OF a1(1) pl b1 b2 me c(3) none(2) a3] obtain e where
    "p2p_message_route (\<lambda>_. 0) True (Some (snd (snd (task_request (last (pn_tasks a3)) db_init)))) b2 = (Inl e, b2)" by blast
  with a1(1) pl b1 b2 a3 show ?thesis by (metis snd_conv)
qed

theorem receipts_never_stored_witness:
  "snd (message_receipt_route demo_session (Some (JObj [(''onion_address'', JStr addr_b), (''timestamp'', JInt 5000), (''state'', JStr ''read'')]))
     (snd (send_message_route toy_crypto True False demo_session 5 (Some (JObj demo_send)) (demo_node addr_a [peer_row addr_b] [])))) =
   snd (send_message_route toy_crypto True False demo_session 5 (Some (JObj demo_send)) (demo_node addr_a [peer_row addr_b] []))"
proof -
  let ?n0 = "demo_node addr_a [peer_row addr_b] []"
  have "(node_step toy_crypto (\<lambda>_. 0) True)\<^sup>*\<^sup>* ?n0 (snd (send_message_route toy_crypto True False demo_session 5 (Some (JObj demo_send)) ?n0))"
    by (intro r_into_rtranclp send)
  from receipts_never_stored [OF _ this] show ?thesis by (simp add: demo_node_def)
qed

lemma hex_zero [simp]: "from_hex ''00'' = Some [0]"
  by code_simp

definition toy_key_hashes :: hashes where
  "toy_key_hashes = \<lparr>argon2id = \<lambda>_ _ _ _ _ _. [], pbkdf2_sha256 = \<lambda>pw salt n. pw @ salt, ed25519_verify = \<lambda>_ _ _. False,
     ed25519_sign = \<lambda>_ _. [], ed25519_public = \<lambda>_. []\<rparr>"


end
