(* ===== verification/Relay_Directory.thy ===== *)
theory Relay_Directory
  imports V3_Files "HOL-Library.AList"
begin

text \<open>
  The public side of the relay beside its queues: the directory of nodes
  (\<^verbatim>\<open>transports/relay/routers/nodes.py\<close>), presence with its event streams
  (\<^verbatim>\<open>transports/relay/routers/presence.py\<close>) and the relay's accounts
  (\<^verbatim>\<open>transports/relay/database.py\<close>). Ed25519, the reading of ISO-8601 times and bcrypt are
  parameters; times are seconds. A dictionary whose order shows is an association list.
\<close>

section \<open>The directory of nodes\<close>

record node =
  n_onion :: string
  n_display_name :: "string option"
  n_version :: string
  n_last_seen :: real

type_synonym directory = "(string \<times> node) list"

definition STALE_AFTER :: real where "STALE_AFTER = 600"
definition MAX_SKEW_SECONDS :: real where "MAX_SKEW_SECONDS = 300"

definition NODE_ONION_RE :: "string \<Rightarrow> bool" where
  "NODE_ONION_RE = re_dollar (\<lambda>s. length (take 56 s) = 56 \<and> list_all base32_lower (take 56 s) \<and>
     drop 56 s = ''.onion'')"

definition is_online :: "real \<Rightarrow> node \<Rightarrow> bool" where
  "is_online now n = (now - n_last_seen n < STALE_AFTER)"

definition verify_node_signature ::
    "(bytes \<Rightarrow> bytes \<Rightarrow> bytes \<Rightarrow> bool option) \<Rightarrow> (string \<Rightarrow> iso_time option) \<Rightarrow> real \<Rightarrow>
     string \<Rightarrow> string \<Rightarrow> string \<Rightarrow> unit http" where
  "verify_node_signature ed25519 fromiso now onion timestamp signature_b64 =
     (if \<not> NODE_ONION_RE onion then Inl (HTTP 400 ''Invalid onion address format; expected 56 base32 chars + .onion'')
      else case b32_decode (take 56 onion) of
        None \<Rightarrow> Inl (HTTP 400 ''Could not decode onion address public key'')
      | Some pubkey \<Rightarrow>
          if length pubkey \<noteq> 35 then Inl (HTTP 400 ''Decoded onion address must be 35 bytes'')
          else case fromiso timestamp of
            None \<Rightarrow> Inl (HTTP 400 ''Invalid timestamp format (expected ISO-8601)'')
          | Some Naive \<Rightarrow> Inl (HTTP 500 ''Internal server error'')
          | Some (Aware ts) \<Rightarrow>
              if \<bar>now - ts\<bar> > MAX_SKEW_SECONDS then Inl (HTTP 401 ''Timestamp skew exceeds allowed'')
              else case b64_decode signature_b64 of
                None \<Rightarrow> Inl (HTTP 400 ''Signature verification failed'')
              | Some sig \<Rightarrow>
                  (case ed25519 (take 32 pubkey) sig (utf8_encode (onion @ ''|'' @ timestamp)) of
                     None \<Rightarrow> Inl (HTTP 400 ''Signature verification failed'')
                   | Some False \<Rightarrow> Inl (HTTP 401 ''Invalid Ed25519 signature; node identity not verified'')
                   | Some True \<Rightarrow> Inr ()))"

text \<open>The response is the node and whether it is online.\<close>

definition register_node ::
    "(bytes \<Rightarrow> bytes \<Rightarrow> bytes \<Rightarrow> bool option) \<Rightarrow> (string \<Rightarrow> iso_time option) \<Rightarrow> real \<Rightarrow>
     string \<Rightarrow> string option \<Rightarrow> string \<Rightarrow> string \<Rightarrow> string \<Rightarrow> directory \<Rightarrow> (node \<times> bool) http \<times> directory" where
  "register_node ed25519 fromiso now onion display_name version timestamp signature_b64 d =
     (if length onion \<noteq> 62 \<or> (case display_name of None \<Rightarrow> False | Some n \<Rightarrow> 64 < length n) \<or> 32 < length version
      then (Inl (HTTP 422 ''validation''), d)
      else case verify_node_signature ed25519 fromiso now onion timestamp signature_b64 of
        Inl e \<Rightarrow> (Inl e, d)
      | Inr _ \<Rightarrow>
          (let n = \<lparr>n_onion = onion, n_display_name = display_name, n_version = version, n_last_seen = now\<rparr>
           in (Inr (n, True), AList.update onion n d)))"

definition heartbeat ::
    "(bytes \<Rightarrow> bytes \<Rightarrow> bytes \<Rightarrow> bool option) \<Rightarrow> (string \<Rightarrow> iso_time option) \<Rightarrow> real \<Rightarrow>
     string \<Rightarrow> string \<Rightarrow> string \<Rightarrow> directory \<Rightarrow> (node \<times> bool) http \<times> directory" where
  "heartbeat ed25519 fromiso now onion timestamp signature_b64 d =
     (if length onion \<noteq> 62 then (Inl (HTTP 422 ''validation''), d)
      else case verify_node_signature ed25519 fromiso now onion timestamp signature_b64 of
        Inl e \<Rightarrow> (Inl e, d)
      | Inr _ \<Rightarrow>
          (case map_of d onion of
             None \<Rightarrow> (Inl (HTTP 404 ''Node not found - register first''), d)
           | Some n \<Rightarrow> (let n = n\<lparr>n_last_seen := now\<rparr> in (Inr (n, True), AList.update onion n d))))"

definition list_nodes :: "real \<Rightarrow> directory \<Rightarrow> (node \<times> bool) list" where
  "list_nodes now d = map (\<lambda>n. (n, is_online now n)) (filter (is_online now) (map snd d))"

text \<open>Anyone may remove a node: no signature is asked for.\<close>

definition deregister_node :: "string \<Rightarrow> directory \<Rightarrow> unit http \<times> directory" where
  "deregister_node onion d =
     (if \<not> NODE_ONION_RE onion then (Inl (HTTP 400 ''Invalid onion address format''), d)
      else if map_of d onion = None then (Inl (HTTP 404 ''Node not found''), d)
      else (Inr (), AList.delete onion d))"

section \<open>Presence\<close>

text \<open>
  One \<open>stream\<close> per open event stream: its queue, and whether the fan-out still writes to it. A
  stream that was dropped because its queue was full stays open and reads on.
\<close>

record stream =
  st_id :: nat
  st_onion :: string
  st_queue :: "string list"
  st_subscribed :: bool

record presence =
  statuses :: "string \<rightharpoonup> string \<times> real"
  streams :: "stream list"

definition MAX_EVENTS :: nat where "MAX_EVENTS = 50"

definition sse :: "string \<Rightarrow> string" where
  "sse status = ''data: '' @ status @ [CHR 0x0A, CHR 0x0A]"

text \<open>\<^verbatim>\<open>pattern="^(online|offline|typing)$"\<close>; pydantic's engine anchors \<^verbatim>\<open>$\<close> at the very end.\<close>

definition valid_status :: "string \<Rightarrow> bool" where
  "valid_status s = (s \<in> {''online'', ''offline'', ''typing''})"

definition fan_out :: "string \<Rightarrow> string \<Rightarrow> stream \<Rightarrow> stream" where
  "fan_out onion event q =
     (if st_onion q \<noteq> onion \<or> \<not> st_subscribed q then q
      else if length (st_queue q) < MAX_EVENTS then q\<lparr>st_queue := st_queue q @ [event]\<rparr>
      else q\<lparr>st_subscribed := False\<rparr>)"

definition update_presence :: "real \<Rightarrow> string \<Rightarrow> string \<Rightarrow> presence \<Rightarrow> (string \<times> real) http \<times> presence" where
  "update_presence now onion status p =
     (if length onion < 16 \<or> 128 < length onion \<or> \<not> valid_status status
      then (Inl (HTTP 422 ''validation''), p)
      else (Inr (status, now),
            p\<lparr>statuses := (statuses p)(onion \<mapsto> (status, now)),
              streams := map (fan_out onion (sse status)) (streams p)\<rparr>))"

definition get_presence :: "string \<Rightarrow> presence \<Rightarrow> (string \<times> real) http" where
  "get_presence onion p = (case statuses p onion of
     None \<Rightarrow> Inl (HTTP 404 ''Presence record not found'') | Some r \<Rightarrow> Inr r)"

definition stream_presence :: "nat \<Rightarrow> string \<Rightarrow> presence \<Rightarrow> presence" where
  "stream_presence i onion p =
     p\<lparr>streams := streams p @ [\<lparr>st_id = i, st_onion = onion, st_queue = [], st_subscribed = True\<rparr>]\<rparr>"

text \<open>The generator: what it yields first, what it yields at a turn, and its end.\<close>

definition first_event :: "string \<Rightarrow> presence \<Rightarrow> string option" where
  "first_event onion p = map_option (\<lambda>r. sse (fst r)) (statuses p onion)"

definition stream_turn :: "stream \<Rightarrow> string \<times> stream" where
  "stream_turn q = (case st_queue q of
     [] \<Rightarrow> ('': keepalive'' @ [CHR 0x0A, CHR 0x0A], q)
   | e # es \<Rightarrow> (e, q\<lparr>st_queue := es\<rparr>))"

definition stream_closed :: "nat \<Rightarrow> presence \<Rightarrow> presence" where
  "stream_closed i p = p\<lparr>streams := filter (\<lambda>q. st_id q \<noteq> i) (streams p)\<rparr>"

section \<open>Accounts\<close>

text \<open>The table of names and password hashes; the name is its primary key.\<close>

type_synonym relay_users = "(string \<times> string) list"

definition user_exists :: "string \<Rightarrow> relay_users \<Rightarrow> bool" where
  "user_exists username t = (map_of t (py_lower username) \<noteq> None)"

datatype register_error = MISSING_FIELDS | ALREADY_TAKEN | ALREADY_EXISTS

text \<open>The insertion is a step of its own: another registration may have come between.\<close>

definition insert_user :: "string \<Rightarrow> string \<Rightarrow> relay_users \<Rightarrow> (register_error + unit) \<times> relay_users" where
  "insert_user name h t = (if map_of t name \<noteq> None then (Inl ALREADY_EXISTS, t) else (Inr (), t @ [(name, h)]))"

definition relay_register :: "(bytes \<Rightarrow> string) \<Rightarrow> string \<Rightarrow> string \<Rightarrow> relay_users \<Rightarrow> (register_error + unit) \<times> relay_users" where
  "relay_register hashpw username password t =
     (if username = [] \<or> password = [] then (Inl MISSING_FIELDS, t)
      else if user_exists (py_lower username) t then (Inl ALREADY_TAKEN, t)
      else insert_user (py_lower username) (hashpw (utf8_encode password)) t)"

datatype relay_login_error = NO_FIELDS | WRONG_CREDENTIALS

definition relay_login :: "(bytes \<Rightarrow> string \<Rightarrow> bool) \<Rightarrow> string \<Rightarrow> string \<Rightarrow> relay_users \<Rightarrow> relay_login_error + unit" where
  "relay_login checkpw username password t =
     (if username = [] \<or> password = [] then Inl NO_FIELDS
      else case map_of t (py_lower username) of
        None \<Rightarrow> Inl WRONG_CREDENTIALS
      | Some h \<Rightarrow> if checkpw (utf8_encode password) h then Inr () else Inl WRONG_CREDENTIALS)"

section \<open>No node can register\<close>

text \<open>The requests that change the directory, and a run of them at the times they arrive.\<close>

datatype node_request =
    Register string "string option" string string string
  | Heartbeat string string string
  | Deregister string

fun request_onion :: "node_request \<Rightarrow> string" where
  "request_onion (Register onion n v t sig) = onion"
| "request_onion (Heartbeat onion t sig) = onion"
| "request_onion (Deregister onion) = onion"

fun answer_node ::
    "(bytes \<Rightarrow> bytes \<Rightarrow> bytes \<Rightarrow> bool option) \<Rightarrow> (string \<Rightarrow> iso_time option) \<Rightarrow> real \<times> node_request \<Rightarrow>
     directory \<Rightarrow> directory" where
  "answer_node ed fromiso (now, Register onion n v t sig) d = snd (register_node ed fromiso now onion n v t sig d)"
| "answer_node ed fromiso (now, Heartbeat onion t sig) d = snd (heartbeat ed fromiso now onion t sig d)"
| "answer_node ed fromiso (now, Deregister onion) d = snd (deregister_node onion d)"

text \<open>A Tor v3 address: its version byte makes the last character before the suffix the letter d.\<close>

definition tor_v3 :: "string \<Rightarrow> bool" where
  "tor_v3 onion = (\<exists>host. length host = 55 \<and> onion = host @ ''d.onion'')"

lemma verify_tor_v3:
  assumes "tor_v3 onion"
  shows "\<exists>e. verify_node_signature ed fromiso now onion t sig = Inl e"
proof -
  have "CHR ''d'' \<in> set (take 56 onion)" using assms by (auto simp: tor_v3_def)
  then have "b32_decode (take 56 onion) = None"
    by (rule b32_decode_None) (simp add: b32_val_def code_def)
  then show ?thesis by (simp add: verify_node_signature_def)
qed

lemma answer_node_tor_v3:
  assumes "tor_v3 (request_onion r)"
  shows "answer_node ed fromiso (now, r) [] = []"
proof (cases r)
  case (Register onion n v t sig)
  then show ?thesis
    using verify_tor_v3 [of onion ed fromiso now t sig] assms by (auto simp: register_node_def)
next
  case (Heartbeat onion t sig)
  then show ?thesis
    using verify_tor_v3 [of onion ed fromiso now t sig] assms by (auto simp: heartbeat_def)
qed (simp add: deregister_node_def)

text \<open>The relay's directory stays empty: whatever nodes with Tor v3 addresses send, however they
  sign it, no node is ever registered and the list of nodes is empty.\<close>

theorem directory_stays_empty:
  assumes "\<forall>r\<in>set rs. tor_v3 (request_onion (snd r))"
  shows "list_nodes now (fold (answer_node ed fromiso) rs []) = []"
proof -
  have "fold (answer_node ed fromiso) rs [] = []"
    using assms
  proof (induction rs)
    case (Cons r rs)
    then show ?case by (cases r) (simp add: answer_node_tor_v3)
  qed simp
  then show ?thesis by (simp add: list_nodes_def)
qed

theorem directory_stays_empty_witness:
  "list_nodes 1 (fold (answer_node (\<lambda>_ _ _. Some True) (\<lambda>_. Some (Aware 0)))
     [(0, Register (replicate 55 (CHR ''a'') @ ''d.onion'') None ''3.0.0'' ''t'' [])] []) = []"
  by (rule directory_stays_empty) (auto simp: tor_v3_def)

section \<open>What a stream delivers\<close>

definition publish :: "string \<Rightarrow> real \<times> string \<Rightarrow> presence \<Rightarrow> presence" where
  "publish onion u p = snd (update_presence (fst u) onion (snd u) p)"

lemma publish_streams:
  "16 \<le> length onion \<Longrightarrow> length onion \<le> 128 \<Longrightarrow> valid_status (snd u) \<Longrightarrow>
   streams (publish onion u p) = map (fan_out onion (sse (snd u))) (streams p)"
  by (simp add: publish_def update_presence_def)

lemma fan_out_fold:
  assumes "st_onion q = onion" "st_subscribed q" "length (st_queue q) \<le> MAX_EVENTS"
  shows "fold (fan_out onion) es q =
     q\<lparr>st_queue := take MAX_EVENTS (st_queue q @ es),
       st_subscribed := length (st_queue q) + length es \<le> MAX_EVENTS\<rparr>"
proof (induction es rule: rev_induct)
  case Nil
  then show ?case using assms by simp
next
  case (snoc e es)
  show ?case
  proof (cases "length (st_queue q) + length es < MAX_EVENTS")
    case True
    then show ?thesis using snoc assms(1) by (simp add: fan_out_def)
  next
    case False
    then have "take MAX_EVENTS (st_queue q @ es @ [e]) = take MAX_EVENTS (st_queue q @ es)" by simp
    with False show ?thesis using snoc assms(1)
      by (cases "length (st_queue q) + length es = MAX_EVENTS") (simp_all add: fan_out_def)
  qed
qed

lemma publish_fold:
  assumes "16 \<le> length onion" "length onion \<le> 128" "\<forall>u\<in>set us. valid_status (snd u)"
  shows "streams (fold (publish onion) us p) = map (fold (fan_out onion) (map (sse \<circ> snd) us)) (streams p)"
  using assms(3) by (induction us arbitrary: p) (simp_all add: publish_streams assms(1,2))

text \<open>
  A stream that reads nothing holds the first fifty events in order; the next one drops it for
  good, and from then on it only reads what it held.
\<close>

lemma stream_delivery:
  assumes "16 \<le> length onion" "length onion \<le> 128" "\<forall>u\<in>set us. valid_status (snd u)"
    and "q \<in> set (streams (fold (publish onion) us (stream_presence i onion p)))" "st_id q = i"
    and "\<forall>r\<in>set (streams p). st_id r \<noteq> i"
  shows "st_queue q = take 50 (map (sse \<circ> snd) us) \<and> (st_subscribed q \<longleftrightarrow> length us \<le> 50)"
proof -
  let ?f = "fold (fan_out onion) (map (sse \<circ> snd) us)"
  have id: "st_id (fold (fan_out onion) es r) = st_id r" for es r
    by (induction es arbitrary: r) (simp_all add: fan_out_def)
  have "q \<in> ?f ` set (streams p) \<or>
      q = ?f \<lparr>st_id = i, st_onion = onion, st_queue = [], st_subscribed = True\<rparr>"
    using assms(4) by (auto simp: publish_fold [OF assms(1-3)] stream_presence_def)
  then have "q = ?f \<lparr>st_id = i, st_onion = onion, st_queue = [], st_subscribed = True\<rparr>"
    using assms(5,6) id by auto
  then show ?thesis by (simp add: fan_out_fold MAX_EVENTS_def)
qed

section \<open>Accounts\<close>

definition registers :: "(bytes \<Rightarrow> string) \<Rightarrow> string \<times> string \<Rightarrow> relay_users \<Rightarrow> relay_users" where
  "registers hashpw r t = snd (relay_register hashpw (fst r) (snd r) t)"

lemma register_keeps: "map_of t name = Some h \<Longrightarrow> map_of (registers hashpw r t) name = Some h"
  by (simp add: registers_def relay_register_def insert_user_def)

lemma register_fold_keeps:
  "map_of t name = Some h \<Longrightarrow> map_of (fold (registers hashpw) rs t) name = Some h"
  by (induction rs arbitrary: t) (simp_all add: register_keeps)

lemma register_stores:
  assumes "relay_register hashpw username password t = (Inr (), t')"
  shows "username \<noteq> [] \<and> map_of t' (py_lower username) = Some (hashpw (utf8_encode password))"
proof -
  have "map_of t (py_lower username) = None" if "map_of t (py_lower (py_lower username)) = None"
    using assms by (auto simp: relay_register_def insert_user_def split: if_splits)
  then show ?thesis
    using assms by (auto simp: relay_register_def insert_user_def map_add_def split: if_splits)
qed

text \<open>
  A registered account answers to its name in any case and to the passwords its hash accepts, and
  no later registration changes that.
\<close>

lemma account_stays:
  assumes "relay_register hashpw username password t = (Inr (), t')"
    and "py_lower name = py_lower username" "pw \<noteq> []"
  shows "relay_login checkpw name pw (fold (registers hashpw) rs t') = Inr () \<longleftrightarrow>
     checkpw (utf8_encode pw) (hashpw (utf8_encode password))"
proof -
  note s = register_stores [OF assms(1)]
  have "name \<noteq> []" using assms(2) s by (metis length_0_conv length_py_lower)
  then show ?thesis
    using s register_fold_keeps [of t' "py_lower username" _ hashpw rs] assms(2,3)
    by (auto simp: relay_login_def)
qed

end
