(* ===== verification/V3_Messages.thy ===== *)
theory V3_Messages
  imports V3_State
begin

text \<open>
  Direct messages between FastAPI nodes: sending, history and deletion
  (\<^verbatim>\<open>transports/p2p/routers/messages.py\<close>), the requests that arrive from other nodes
  (\<^verbatim>\<open>transports/p2p/routers/p2p.py\<close>) and the list of contacts
  (\<^verbatim>\<open>transports/p2p/routers/contacts.py\<close>). A request body is the record it validates to. The
  POST to another node over Tor is a parameter; so are the writing and reading of ISO-8601 times.
\<close>

section \<open>What travels between nodes\<close>

type_synonym sealed_block = "string \<times> string \<times> string"

record p2p_payload =
  pp_sender :: "string option"
  pp_sealed :: "sealed_block option"
  pp_iv :: string
  pp_ciphertext :: string
  pp_seq :: nat
  pp_timestamp :: int
  pp_disappears :: "real option"
  pp_ephemeral :: bool

text \<open>\<^verbatim>\<open>json.dumps(sealed_sender.model_dump())\<close>\<close>

fun sealed_json :: "sealed_block \<Rightarrow> json" where
  "sealed_json (k, ct, iv) = JObj [(''ephemeral_pub'', JStr k), (''ciphertext'', JStr ct), (''iv'', JStr iv)]"

definition sealed_text :: "sealed_block option \<Rightarrow> string option" where
  "sealed_text b = map_option (\<lambda>b. json_dumps (sealed_json b)) b"

text \<open>\<^verbatim>\<open>MessageResponse.parse_sealed_sender\<close>: what a response shows of the column.\<close>

definition response_sealed :: "v3_message \<Rightarrow> json option" where
  "response_sealed m = (case vm_sealed m of None \<Rightarrow> None | Some t \<Rightarrow> json_loads t)"

text \<open>
  One attempt after the other until one is answered with 200; \<open>post\<close> gives the status of an
  attempt, \<open>None\<close> when it raises. The result says whether the message went through, and how many
  requests were made.
\<close>

fun transmit_attempts :: "(nat \<Rightarrow> string \<Rightarrow> p2p_payload \<Rightarrow> nat option) \<Rightarrow> string \<Rightarrow> p2p_payload \<Rightarrow> nat \<Rightarrow> nat \<Rightarrow> bool \<times> nat" where
  "transmit_attempts post url payload i 0 = (False, i)"
| "transmit_attempts post url payload i (Suc n) =
     (if post i url payload = Some 200 then (True, Suc i)
      else transmit_attempts post url payload (Suc i) n)"

definition transmit_p2p_message ::
    "bool \<Rightarrow> (nat \<Rightarrow> string \<Rightarrow> p2p_payload \<Rightarrow> nat option) \<Rightarrow> string \<Rightarrow> p2p_payload \<Rightarrow> bool \<times> nat" where
  "transmit_p2p_message test_env post recipient payload =
     (if test_env then (False, 0)
      else transmit_attempts post (''http://'' @ py_lower (py_strip recipient) @ ''/p2p/message'') payload 0 3)"

section \<open>Sending\<close>

record send_request =
  sr_recipient :: string
  sr_ciphertext :: string
  sr_iv :: string
  sr_seq :: nat
  sr_disappears :: "real option"
  sr_sealed :: "sealed_block option"

text \<open>The result: the response, the tables, and the message queued for transmission.\<close>

definition send_message_v3 ::
    "v3_session \<Rightarrow> string \<Rightarrow> real \<Rightarrow> send_request \<Rightarrow> v3 \<Rightarrow> v3_message http \<times> v3 \<times> (string \<times> p2p_payload) option" where
  "send_message_v3 ss mid now r s =
     (if length (sr_recipient r) < 16 \<or> 128 < length (sr_recipient r) then (Inl (HTTP 422 ''validation''), s, None)
      else case current_user ss s of
        Inl e \<Rightarrow> (Inl e, s, None)
      | Inr u \<Rightarrow>
          (case own_onion u of
             None \<Rightarrow> (Inl (HTTP 400 ''Onion address not configured''), s, None)
           | Some mine \<Rightarrow>
               let m = \<lparr>vm_id = mid, vm_sender = mine, vm_recipient = sr_recipient r,
                     vm_ciphertext = sr_ciphertext r, vm_iv = sr_iv r, vm_seq = int (sr_seq r), vm_sent_at = now,
                     vm_delivered = False, vm_disappears = sr_disappears r, vm_deleted = False,
                     vm_sealed = sealed_text (sr_sealed r)\<rparr>;
                   p = \<lparr>pp_sender = Some (if sr_sealed r = None then mine else ''sealed''),
                     pp_sealed = sr_sealed r, pp_iv = sr_iv r, pp_ciphertext = sr_ciphertext r,
                     pp_seq = sr_seq r, pp_timestamp = \<lfloor>now * 1000\<rfloor>,
                     pp_disappears = sr_disappears r, pp_ephemeral = False\<rparr>
               in (case insert_message m s of
                     None \<Rightarrow> (Inl (HTTP 500 ''Internal server error''), s, None)
                   | Some s' \<Rightarrow> (Inr m, s', Some (sr_recipient r, p)))))"

section \<open>History\<close>

text \<open>\<^verbatim>\<open>raw.partition("||")[0]\<close>\<close>

fun before_bars :: "string \<Rightarrow> string" where
  "before_bars (c # cs) = (if take 2 (c # cs) = ''||'' then [] else c # before_bars cs)"
| "before_bars [] = []"

definition b64url_encode :: "bytes \<Rightarrow> string" where
  "b64url_encode bs = map (\<lambda>c. if c = CHR ''+'' then CHR ''-'' else if c = CHR ''/'' then CHR ''_'' else c) (b64_encode bs)"

definition b64url_decode :: "string \<Rightarrow> bytes option" where
  "b64url_decode s = b64_decode (map (\<lambda>c. if c = CHR ''-'' then CHR ''+'' else if c = CHR ''_'' then CHR ''/'' else c) s)"

definition cursor_token :: "(real \<Rightarrow> string) \<Rightarrow> v3_message \<Rightarrow> string" where
  "cursor_token isoformat m = b64url_encode (utf8_encode (isoformat (vm_sent_at m) @ ''||'' @ vm_id m))"

definition cursor_time :: "(string \<Rightarrow> real option) \<Rightarrow> string \<Rightarrow> real option" where
  "cursor_time fromiso cursor = (case b64url_decode cursor of
     None \<Rightarrow> None
   | Some bs \<Rightarrow> (case utf8_decode bs of None \<Rightarrow> None | Some raw \<Rightarrow> fromiso (before_bars raw)))"

definition between :: "string option \<Rightarrow> string \<Rightarrow> v3_message \<Rightarrow> bool" where
  "between mine peer m = (\<not> vm_deleted m \<and>
     (mine = Some (vm_sender m) \<and> vm_recipient m = peer \<or> vm_sender m = peer \<and> mine = Some (vm_recipient m)))"

text \<open>
  Newest first. Rows with the same time have no order the code asks for; here the later row comes
  first. The second result is the token for the next page, which the code leaves in
  \<^verbatim>\<open>request.state.next_cursor\<close>.
\<close>

definition history_rows :: "user \<Rightarrow> string \<Rightarrow> real option \<Rightarrow> v3 \<Rightarrow> v3_message list" where
  "history_rows u peer cutoff s =
     rev (sort_key vm_sent_at (filter (\<lambda>m. between (u_onion u) peer m \<and>
       (case cutoff of None \<Rightarrow> True | Some t \<Rightarrow> vm_sent_at m < t)) (v3_messages s)))"

definition message_history ::
    "(real \<Rightarrow> string) \<Rightarrow> (string \<Rightarrow> real option) \<Rightarrow> v3_session \<Rightarrow> string \<Rightarrow> nat \<Rightarrow> string option \<Rightarrow> string option \<Rightarrow>
     v3 \<Rightarrow> (v3_message list \<times> string option) http" where
  "message_history isoformat fromiso ss peer limit before cursor s =
     (if limit < 1 \<or> 200 < limit then Inl (HTTP 422 ''validation'')
      else case current_user ss s of
        Inl e \<Rightarrow> Inl e
      | Inr u \<Rightarrow>
          let page = (\<lambda>cutoff. let ms = take limit (history_rows u peer cutoff s)
                in Inr (ms, if ms = [] then None else Some (cursor_token isoformat (last ms))))
          in (case cursor of
                Some (ch # cs) \<Rightarrow>
                  (case cursor_time fromiso (ch # cs) of
                     None \<Rightarrow> Inl (HTTP 400 ''Invalid cursor token'')
                   | Some t \<Rightarrow> page (Some t))
              | _ \<Rightarrow>
                  (case before of
                     Some (ch # cs) \<Rightarrow>
                       page (map_option vm_sent_at (List.find (\<lambda>m. vm_id m = ch # cs) (v3_messages s)))
                   | _ \<Rightarrow> page None)))"

section \<open>Deleting and resolving\<close>

definition delete_message :: "v3_session \<Rightarrow> string \<Rightarrow> v3 \<Rightarrow> unit http \<times> v3" where
  "delete_message ss mid s = (case current_user ss s of
     Inl e \<Rightarrow> (Inl e, s)
   | Inr u \<Rightarrow>
       let mine = (\<lambda>m. vm_id m = mid \<and> u_onion u = Some (vm_sender m))
       in if List.find mine (v3_messages s) = None then (Inl (HTTP 404 ''Message not found''), s)
          else (Inr (), s\<lparr>v3_messages := update_where mine (\<lambda>m. m\<lparr>vm_deleted := True\<rparr>) (v3_messages s)\<rparr>))"

definition drop_message :: "string \<Rightarrow> v3 \<Rightarrow> v3" where
  "drop_message mid s = s\<lparr>v3_messages := filter (\<lambda>m. vm_id m \<noteq> mid) (v3_messages s)\<rparr>"

definition resolve_sender :: "v3_session \<Rightarrow> string \<Rightarrow> string \<Rightarrow> v3 \<Rightarrow> string http \<times> v3" where
  "resolve_sender ss mid sender_onion s = (case current_user ss s of
     Inl e \<Rightarrow> (Inl e, s)
   | Inr u \<Rightarrow>
       (case List.find (\<lambda>m. vm_id m = mid) (v3_messages s) of
          None \<Rightarrow> (Inl (HTTP 404 ''Message not found''), s)
        | Some m \<Rightarrow>
            let sender = py_lower (py_strip sender_onion)
            in (case contact_with (u_onion u) sender s of
                  None \<Rightarrow> (Inl (HTTP 403 ''Unauthorized sender identity''), drop_message mid s)
                | Some c \<Rightarrow>
                    if vc_status c \<noteq> ''accepted''
                    then (Inl (HTTP 403 ''Unauthorized sender identity''), drop_message mid s)
                    else if (case last_seq sender (u_onion u) (filter (\<lambda>x. vm_id x \<noteq> mid) (v3_messages s)) of
                               None \<Rightarrow> False | Some k \<Rightarrow> vm_seq m \<le> k)
                    then (Inl (HTTP 400 ''Sequence number must be strictly monotonic''), drop_message mid s)
                    else (Inr sender, s\<lparr>v3_messages :=
                       update_where (\<lambda>x. vm_id x = mid) (\<lambda>x. x\<lparr>vm_sender := sender\<rparr>) (v3_messages s)\<rparr>))))"

section \<open>Requests from other nodes\<close>

definition validate_onion :: "string \<Rightarrow> string http" where
  "validate_onion addr = (let w = py_lower (py_strip addr)
     in if ONION_RE w then Inr w else Inl (HTTP 400 ''Invalid onion address''))"

text \<open>\<^verbatim>\<open>select(User).limit(1)\<close>\<close>

definition local_user :: "v3 \<Rightarrow> user http" where
  "local_user s = (case v3_users s of
     [] \<Rightarrow> Inl (HTTP 500 ''Local user node not configured'') | u # _ \<Rightarrow> Inr u)"

definition emit_ui :: "ui_event list \<Rightarrow> v3 \<Rightarrow> v3" where
  "emit_ui es s = s\<lparr>v3_events := v3_events s @ es\<rparr>"

definition update_contact_row :: "nat \<Rightarrow> (v3_contact \<Rightarrow> v3_contact) \<Rightarrow> v3 \<Rightarrow> v3" where
  "update_contact_row i f s = s\<lparr>v3_contacts := update_where (\<lambda>c. vc_id c = i) f (v3_contacts s)\<rparr>"

definition p2p_handshake :: "string \<Rightarrow> string \<Rightarrow> string \<Rightarrow> v3 \<Rightarrow> unit http \<times> v3" where
  "p2p_handshake onion_address nickname public_key s =
     (if 64 < length nickname then (Inl (HTTP 422 ''validation''), s)
      else case validate_onion onion_address of
        Inl e \<Rightarrow> (Inl e, s)
      | Inr onion \<Rightarrow>
          (case local_user s of
             Inl e \<Rightarrow> (Inl e, s)
           | Inr u \<Rightarrow>
               let done = (\<lambda>s. (Inr (), emit_ui [Handshake_Received onion nickname public_key,
                     Contact_Status onion ''pending_incoming''] s))
               in (case contact_with (u_onion u) onion s of
                     None \<Rightarrow>
                       (case u_onion u of
                          None \<Rightarrow> (Inl (HTTP 500 ''Internal server error''), s)
                        | Some mine \<Rightarrow>
                            (case insert_contact \<lparr>vc_id = next_contact_id s, vc_owner = mine, vc_onion = onion,
                                 vc_nickname = Some nickname, vc_public_key = Some public_key,
                                 vc_status = ''pending_incoming'', vc_verified = False,
                                 vc_notify_token = None, vc_profile = ''default'',
                                 vc_columns = default_columns\<rparr> s of
                               None \<Rightarrow> (Inl (HTTP 500 ''Internal server error''), s)
                             | Some s' \<Rightarrow> done s'))
                   | Some c \<Rightarrow>
                       if vc_status c = ''blocked'' then (Inl (HTTP 403 ''Blocked contact''), s)
                       else done (update_contact_row (vc_id c) (\<lambda>c. c\<lparr>vc_nickname := Some nickname,
                              vc_public_key := Some public_key, vc_status := ''pending_incoming''\<rparr>) s))))"

definition p2p_accept :: "string \<Rightarrow> string \<Rightarrow> v3 \<Rightarrow> unit http \<times> v3" where
  "p2p_accept onion_address public_key s = (case validate_onion onion_address of
     Inl e \<Rightarrow> (Inl e, s)
   | Inr onion \<Rightarrow>
       (case local_user s of
          Inl e \<Rightarrow> (Inl e, s)
        | Inr u \<Rightarrow>
            (case contact_with (u_onion u) onion s of
               None \<Rightarrow> (Inl (HTTP 404 ''Handshake contact record not found''), s)
             | Some c \<Rightarrow> (Inr (), emit_ui [Contact_Status onion ''accepted'']
                 (update_contact_row (vc_id c) (\<lambda>c. c\<lparr>vc_public_key := Some public_key,
                    vc_status := ''accepted''\<rparr>) s)))))"

text \<open>\<^verbatim>\<open>datetime.fromtimestamp(ms / 1000.0, utc)\<close>, which raises outside the years 1 to 9999.\<close>

definition from_millis :: "int \<Rightarrow> real option" where
  "from_millis ms = (if -62135596800000 \<le> ms \<and> ms < 253402300800000 then Some (real_of_int ms / 1000) else None)"

definition sender_of :: "p2p_payload \<Rightarrow> string http" where
  "sender_of b = (case pp_sender b of
     Some (ch # cs) \<Rightarrow> validate_onion (ch # cs)
   | _ \<Rightarrow> (if pp_sealed b \<noteq> None then Inr ''sealed'' else Inl (HTTP 400 ''Missing sender or sealed_sender'')))"

text \<open>The checks of a message whose sender is known.\<close>

definition sender_check :: "user \<Rightarrow> string \<Rightarrow> int \<Rightarrow> v3 \<Rightarrow> unit http" where
  "sender_check u sender seq s =
     (if sender = ''sealed'' then Inr ()
      else case contact_with (u_onion u) sender s of
        None \<Rightarrow> Inl (HTTP 403 ''Unauthorized contact connection'')
      | Some c \<Rightarrow>
          if vc_status c \<noteq> ''accepted'' then Inl (HTTP 403 ''Unauthorized contact connection'')
          else (case last_seq sender (u_onion u) (v3_messages s) of
            None \<Rightarrow> Inr ()
          | Some k \<Rightarrow> if seq \<le> k then Inl (HTTP 400 ''Sequence number must be strictly monotonic'') else Inr ()))"

text \<open>
  An address that is given is checked before the local user is looked up, a missing one after.
\<close>

definition p2p_message :: "string \<Rightarrow> p2p_payload \<Rightarrow> v3 \<Rightarrow> unit http \<times> v3" where
  "p2p_message mid b s =
     (case (sender_of b, local_user s) of
        (Inl e, Inr _) \<Rightarrow> (Inl e, s)
      | (Inl e, Inl e') \<Rightarrow> (Inl (if pp_sender b = None \<or> pp_sender b = Some [] then e' else e), s)
      | (Inr _, Inl e) \<Rightarrow> (Inl e, s)
      | (Inr sender, Inr u) \<Rightarrow>
          (case (sender_check u sender (int (pp_seq b)) s, from_millis (pp_timestamp b)) of
             (Inl e, _) \<Rightarrow> (Inl e, s)
           | (Inr _, None) \<Rightarrow> (Inl (HTTP 500 ''Internal server error''), s)
           | (Inr _, Some t) \<Rightarrow>
               let event = Message_Received sender (pp_ciphertext b) (pp_iv b) (pp_seq b)
               in if pp_ephemeral b then (Inr (), emit_ui [event] s)
                  else (case insert_message \<lparr>vm_id = mid, vm_sender = sender,
                          vm_recipient = (case own_onion u of Some w \<Rightarrow> w | None \<Rightarrow> ''sealed_recipient''),
                          vm_ciphertext = pp_ciphertext b, vm_iv = pp_iv b, vm_seq = int (pp_seq b), vm_sent_at = t,
                          vm_delivered = False, vm_disappears = pp_disappears b, vm_deleted = False,
                          vm_sealed = sealed_text (pp_sealed b)\<rparr> s of
                    None \<Rightarrow> (Inl (HTTP 500 ''Internal server error''), s)
                  | Some s' \<Rightarrow> (Inr (), emit_ui [event] s'))))"

definition p2p_delete :: "string \<Rightarrow> string \<Rightarrow> v3 \<Rightarrow> unit http \<times> v3" where
  "p2p_delete sender_onion mid s = (case validate_onion sender_onion of
     Inl e \<Rightarrow> (Inl e, s)
   | Inr sender \<Rightarrow>
       let mine = (\<lambda>m. vm_id m = mid \<and> vm_sender m = sender)
       in if List.find mine (v3_messages s) = None then (Inr (), s)
          else (Inr (), emit_ui [Message_Deleted sender mid]
            (s\<lparr>v3_messages := update_where mine (\<lambda>m. m\<lparr>vm_deleted := True\<rparr>) (v3_messages s)\<rparr>)))"

section \<open>Contacts\<close>

definition list_contacts :: "v3_session \<Rightarrow> v3 \<Rightarrow> v3_contact list http" where
  "list_contacts ss s = (case current_user ss s of
     Inl e \<Rightarrow> Inl e
   | Inr u \<Rightarrow> Inr (filter (\<lambda>c. vc_owner c \<in> {owner_of u, u_username u} \<and> vc_profile c = profile_of ss)
       (v3_contacts s)))"

text \<open>The handshake that is queued for the new contact: the address, the name and the key sent.\<close>

definition add_contact_v3 ::
    "v3_session \<Rightarrow> string \<Rightarrow> string option \<Rightarrow> v3 \<Rightarrow>
     v3_contact http \<times> v3 \<times> (string \<times> string \<times> string \<times> string) option" where
  "add_contact_v3 ss onion nickname s =
     (if length onion < 16 \<or> 128 < length onion \<or> (case nickname of None \<Rightarrow> False | Some n \<Rightarrow> 64 < length n)
      then (Inl (HTTP 422 ''validation''), s, None)
      else case current_user ss s of
        Inl e \<Rightarrow> (Inl e, s, None)
      | Inr u \<Rightarrow>
          if list_ex (\<lambda>c. vc_owner c = owner_of u \<and> vc_onion c = onion \<and> vc_profile c = profile_of ss)
               (v3_contacts s)
          then (Inl (HTTP 409 ''Contact already exists''), s, None)
          else
            let c = \<lparr>vc_id = next_contact_id s, vc_owner = owner_of u, vc_onion = onion, vc_nickname = nickname,
                  vc_public_key = None, vc_status = ''pending_outgoing'', vc_verified = False,
                  vc_notify_token = None, vc_profile = profile_of ss, vc_columns = default_columns\<rparr>
            in (case insert_contact c s of
                  None \<Rightarrow> (Inl (HTTP 500 ''Internal server error''), s, None)
                | Some s' \<Rightarrow> (Inr c, s',
                    map_option (\<lambda>w. (onion, w, u_username u,
                      case v3_identity_keys s w of Some k \<Rightarrow> k | None \<Rightarrow> ''bootstrap_key_placeholder''))
                      (own_onion u))))"

definition remove_contact :: "v3_session \<Rightarrow> nat \<Rightarrow> v3 \<Rightarrow> unit http \<times> v3" where
  "remove_contact ss i s = (case current_user ss s of
     Inl e \<Rightarrow> (Inl e, s)
   | Inr u \<Rightarrow>
       let p = (\<lambda>c. u_onion u = Some (vc_owner c) \<and> vc_id c = i)
       in if list_ex p (v3_contacts s)
          then (Inr (), s\<lparr>v3_contacts := filter (\<lambda>c. \<not> p c) (v3_contacts s)\<rparr>)
          else (Inl (HTTP 404 ''Contact not found''), s))"

end
