(* ===== verification/V3_Conversations.thy ===== *)
theory V3_Conversations
  imports V3_Messages "HOL-Library.Multiset"
begin

text \<open>
  What the routers for messages promise: delivery from node to node, no replays, a history that
  pages completely, and where the promises fail.
\<close>

section \<open>From one node to another\<close>

lemma send_message_queued:
  assumes "send_message_v3 ss mid now r s = (Inr m, s', Some (w, p))"
  obtains u mine where "own_onion u = Some mine" "w = sr_recipient r"
    "p = \<lparr>pp_sender = Some (if sr_sealed r = None then mine else ''sealed''),
       pp_sealed = sr_sealed r, pp_iv = sr_iv r, pp_ciphertext = sr_ciphertext r,
       pp_seq = sr_seq r, pp_timestamp = \<lfloor>now * 1000\<rfloor>,
       pp_disappears = sr_disappears r, pp_ephemeral = False\<rparr>"
    "current_user ss s = Inr u" "vm_sender m = mine"
  using assms by (auto simp: send_message_v3_def Let_def split: if_splits sum.splits option.splits)

lemma sealed_no_onion: "validate_onion ''sealed'' = Inl (HTTP 400 ''Invalid onion address'')"
  by (simp add: validate_onion_def ONION_RE_def onion_body_def str_simps re_dollar_def)

text \<open>No sealed-sender message arrives: whatever a node sends with a sealed sender, every node,
  another copy of this program, answers 400 to what is transmitted and stores nothing. The sender
  field carries the word sealed, which the receiver validates as an address.\<close>

theorem sealed_refused:
  assumes "send_message_v3 ss mid now r s = (Inr m, s', Some (w, p))" "sr_sealed r = Some blk"
  shows "p2p_message mid' p t = (Inl (HTTP 400 ''Invalid onion address''), t)"
proof -
  have "pp_sender p = Some ''sealed''"
    using assms by (elim send_message_queued) simp
  then show ?thesis
    by (simp add: p2p_message_def sender_of_def sealed_no_onion split: sum.split)
qed

definition demo_user :: "string \<Rightarrow> user" where
  "demo_user w = \<lparr>u_username = ''u'', u_password_hash = ''h'', u_onion = Some w\<rparr>"

definition demo_onion :: "char \<Rightarrow> string" where
  "demo_onion ch = replicate 16 ch @ ''.onion''"

definition demo_contact :: "string \<Rightarrow> string \<Rightarrow> string \<Rightarrow> v3_contact" where
  "demo_contact mine w st = \<lparr>vc_id = 1, vc_owner = mine, vc_onion = w, vc_nickname = None,
     vc_public_key = None, vc_status = st, vc_verified = False, vc_notify_token = None, vc_profile = ''default'',
     vc_columns = default_columns\<rparr>"

definition demo_v3 :: "string \<Rightarrow> string \<Rightarrow> string \<Rightarrow> v3" where
  "demo_v3 mine w st = \<lparr>v3_users = [demo_user mine], v3_contacts = [demo_contact mine w st],
     v3_messages = [], v3_groups = [], v3_members = [], v3_group_messages = [],
     v3_profiles = [\<lparr>vp_id = ''default'', vp_display_name = ''Default Profile'', vp_hidden = False, vp_hash = None\<rparr>],
     v3_badges = [], v3_notify_queue = [], v3_file_relays = Map.empty, v3_identity_keys = Map.empty, v3_events = []\<rparr>"

definition demo_session :: v3_session where
  "demo_session = \<lparr>ss_username = Some ''u'', ss_profile = None\<rparr>"

definition demo_request :: "sealed_block option \<Rightarrow> send_request" where
  "demo_request b = \<lparr>sr_recipient = demo_onion CHR ''b'', sr_ciphertext = ''c'', sr_iv = ''i'', sr_seq = 1,
     sr_disappears = None, sr_sealed = b\<rparr>"

lemmas demo_defs = demo_user_def demo_contact_def demo_v3_def demo_session_def demo_request_def

lemma demo_onion_simps [simp]:
  "length (demo_onion ch) = 22" "demo_onion ch \<noteq> []" "demo_onion ch = demo_onion ch' \<longleftrightarrow> ch = ch'"
  by (auto simp: demo_onion_def)

lemma demo_onion_valid [simp]:
  "validate_onion (demo_onion CHR ''a'') = Inr (demo_onion CHR ''a'')"
  "validate_onion (demo_onion CHR ''b'') = Inr (demo_onion CHR ''b'')"
  by (simp_all add: validate_onion_def demo_onion_def ONION_RE_def onion_body_def str_simps re_dollar_def
      is_base32_def code_def eval_nat_numeral)

lemma demo_current [simp]:
  "current_user demo_session (demo_v3 mine w st) = Inr (demo_user mine)"
  by (simp add: current_user_def me_endpoint_def find_user_def demo_defs)

lemma own_onion_demo [simp]: "w \<noteq> [] \<Longrightarrow> own_onion (demo_user w) = Some w"
  by (cases w) (simp_all add: own_onion_def demo_user_def)

theorem sealed_refused_witness:
  "\<exists>m s' w p. send_message_v3 demo_session ''m1'' 1 (demo_request (Some (''k'', ''c'', ''i'')))
       (demo_v3 (demo_onion CHR ''a'') (demo_onion CHR ''b'') ''accepted'') = (Inr m, s', Some (w, p)) \<and>
     p2p_message ''m2'' p (demo_v3 (demo_onion CHR ''b'') (demo_onion CHR ''a'') ''accepted'') =
       (Inl (HTTP 400 ''Invalid onion address''), demo_v3 (demo_onion CHR ''b'') (demo_onion CHR ''a'') ''accepted'')"
proof -
  have "\<exists>m s' w p. send_message_v3 demo_session ''m1'' 1 (demo_request (Some (''k'', ''c'', ''i'')))
       (demo_v3 (demo_onion CHR ''a'') (demo_onion CHR ''b'') ''accepted'') = (Inr m, s', Some (w, p))"
    by (simp add: send_message_v3_def demo_request_def insert_message_def)
      (simp add: demo_v3_def Let_def)
  then show ?thesis
    using sealed_refused [where blk = "(''k'', ''c'', ''i'')"] by (metis demo_request_def send_request.select_convs(6))
qed

text \<open>A node that accepted the sender.\<close>

definition accepts_from :: "v3 \<Rightarrow> string \<Rightarrow> int \<Rightarrow> bool" where
  "accepts_from t mine n = (\<exists>u us c. v3_users t = u # us \<and> contact_with (u_onion u) mine t = Some c \<and>
     vc_status c = ''accepted'' \<and> (\<forall>k. last_seq mine (u_onion u) (v3_messages t) = Some k \<longrightarrow> k < n))"

lemma p2p_message_stores:
  assumes "pp_sender b = Some mine" "validate_onion mine = Inr mine" "mine \<noteq> []"
    and "accepts_from t mine (int (pp_seq b))" "from_millis (pp_timestamp b) = Some time"
    and "\<not> pp_ephemeral b" "\<forall>m\<in>set (v3_messages t). vm_id m \<noteq> mid"
  shows "fst (p2p_message mid b t) = Inr () \<and>
    (\<exists>m. v3_messages (snd (p2p_message mid b t)) = v3_messages t @ [m] \<and> vm_id m = mid \<and> vm_sender m = mine \<and>
       vm_ciphertext m = pp_ciphertext b \<and> vm_iv m = pp_iv b \<and> vm_seq m = int (pp_seq b) \<and> vm_sent_at m = time)"
proof -
  obtain u us c where u: "v3_users t = u # us" and c: "contact_with (u_onion u) mine t = Some c"
    "vc_status c = ''accepted''" and l: "\<forall>k. last_seq mine (u_onion u) (v3_messages t) = Some k \<longrightarrow> k < int (pp_seq b)"
    using assms(4) unfolding accepts_from_def by blast
  have "sender_check u mine (int (pp_seq b)) t = Inr ()"
    using c l by (auto simp: sender_check_def not_le split: option.split)
  moreover have "sender_of b = Inr mine"
    using assms(1-3) by (cases mine) (simp_all add: sender_of_def)
  moreover have "\<not> list_ex (\<lambda>x. vm_id x = mid) (v3_messages t)"
    using assms(7) by (simp add: list_ex_iff)
  ultimately show ?thesis
    using assms(5,6) u by (simp add: p2p_message_def local_user_def insert_message_def emit_ui_def)
qed

text \<open>C16: an unsealed message sent to a node that accepted the sender, with a number above those it
  has, is stored there as the last message, with the ciphertext, nonce and number it was sent with.\<close>

theorem delivery:
  assumes "send_message_v3 ss mid now r s = (Inr m, s', Some (w, p))" "sr_sealed r = None"
    and "validate_onion (vm_sender m) = Inr (vm_sender m)" "accepts_from t (vm_sender m) (int (sr_seq r))"
    and "0 \<le> now" "now < 253402300800" "\<forall>x\<in>set (v3_messages t). vm_id x \<noteq> mid'"
  shows "fst (p2p_message mid' p t) = Inr () \<and>
    (\<exists>m'. v3_messages (snd (p2p_message mid' p t)) = v3_messages t @ [m'] \<and> vm_sender m' = vm_sender m \<and>
       vm_ciphertext m' = vm_ciphertext m \<and> vm_iv m' = vm_iv m \<and> vm_seq m' = vm_seq m)"
proof -
  obtain u mine where u: "own_onion u = Some mine" and p: "p = \<lparr>pp_sender = Some mine,
       pp_sealed = None, pp_iv = sr_iv r, pp_ciphertext = sr_ciphertext r, pp_seq = sr_seq r,
       pp_timestamp = \<lfloor>now * 1000\<rfloor>, pp_disappears = sr_disappears r, pp_ephemeral = False\<rparr>"
    and m: "vm_sender m = mine"
    using assms(1,2) by (elim send_message_queued) simp
  have m': "vm_ciphertext m = sr_ciphertext r \<and> vm_iv m = sr_iv r \<and> vm_seq m = int (sr_seq r)"
    using assms(1) by (auto simp: send_message_v3_def Let_def split: if_splits sum.splits option.splits)
  have ne: "mine \<noteq> []" using u by (auto simp: own_onion_def split: option.splits list.splits)
  have "0 \<le> \<lfloor>now * 1000\<rfloor>" "\<lfloor>now * 1000\<rfloor> < 253402300800000"
    using assms(5,6) by (simp_all add: floor_less_iff)
  then have "from_millis (pp_timestamp p) = Some (real_of_int (pp_timestamp p) / 1000)"
    by (simp add: from_millis_def p)
  then obtain time where "from_millis (pp_timestamp p) = Some time" by blast
  with p2p_message_stores [of p mine t time mid'] assms(3,4,7) ne m show ?thesis
    by (auto simp: p m')
qed

lemma demo_accepts:
  "accepts_from (demo_v3 w mine ''accepted'') mine n"
  by (simp add: accepts_from_def contact_with_def last_seq_def demo_v3_def demo_user_def demo_contact_def)

lemma demo_sends:
  "\<exists>m s' w p. send_message_v3 demo_session ''m1'' 1 (demo_request b)
     (demo_v3 (demo_onion CHR ''a'') (demo_onion CHR ''b'') ''accepted'') = (Inr m, s', Some (w, p)) \<and>
     vm_sender m = demo_onion CHR ''a''"
  by (simp add: send_message_v3_def demo_request_def insert_message_def) (simp add: demo_v3_def Let_def)

theorem delivery_witness:
  "\<exists>m s' w p. send_message_v3 demo_session ''m1'' 1 (demo_request None)
       (demo_v3 (demo_onion CHR ''a'') (demo_onion CHR ''b'') ''accepted'') = (Inr m, s', Some (w, p)) \<and>
     fst (p2p_message ''m2'' p (demo_v3 (demo_onion CHR ''b'') (demo_onion CHR ''a'') ''accepted'')) = Inr ()"
proof -
  obtain m s' w p where s: "send_message_v3 demo_session ''m1'' 1 (demo_request None)
       (demo_v3 (demo_onion CHR ''a'') (demo_onion CHR ''b'') ''accepted'') = (Inr m, s', Some (w, p))"
    and m: "vm_sender m = demo_onion CHR ''a''"
    using demo_sends by blast
  from delivery [OF s, of "demo_v3 (demo_onion CHR ''b'') (demo_onion CHR ''a'') ''accepted''" "''m2''"] s
  show ?thesis by (simp add: m demo_accepts) (simp add: demo_request_def demo_v3_def)
qed

section \<open>A blocked contact lets itself back in\<close>

lemma find_update_row:
  assumes "List.find P xs = Some c" "\<And>x. P (f x) = P x" "i c"
    "\<And>x. x \<in> set xs \<Longrightarrow> P x \<Longrightarrow> i x \<Longrightarrow> x = c"
  shows "List.find P (update_where i f xs) = Some (f c)"
  using assms(1,3,4)
proof (induction xs)
  case (Cons x xs)
  show ?case
  proof (cases "P x")
    case True
    then have "x = c" using Cons.prems(1) by simp
    then show ?thesis using True Cons.prems(2) assms(2) by (simp add: update_where_def)
  next
    case False
    then have "\<not> P (if i x then f x else x)" by (simp add: assms(2))
    moreover have "List.find P (update_where i f xs) = Some (f c)"
      using False Cons.prems by (intro Cons.IH) auto
    ultimately show ?thesis by (simp add: update_where_def)
  qed
qed simp

text \<open>C29: blocking does not hold: anybody who can reach the node and knows the address of a blocked
  contact makes it an accepted one with a key of their choice by a single unauthenticated request,
  and what that contact was refused before is then stored.\<close>

theorem blocked_contact_returns:
  assumes "v3_users t = u # us" "contact_with (u_onion u) w t = Some c" "vc_status c = ''blocked''"
    and "distinct (map vc_id (v3_contacts t))" "validate_onion w = Inr w" "w \<noteq> []"
    and "pp_sender b = Some w" "\<not> pp_ephemeral b" "from_millis (pp_timestamp b) = Some time"
    and "\<forall>k. last_seq w (u_onion u) (v3_messages t) = Some k \<longrightarrow> k < int (pp_seq b)"
    and "\<forall>m\<in>set (v3_messages t). vm_id m \<noteq> mid"
  shows "fst (p2p_message mid b t) = Inl (HTTP 403 ''Unauthorized contact connection'') \<and>
     fst (p2p_accept w k t) = Inr () \<and>
     fst (p2p_message mid b (snd (p2p_accept w k t))) = Inr () \<and>
     (\<exists>m. v3_messages (snd (p2p_message mid b (snd (p2p_accept w k t)))) = v3_messages t @ [m] \<and> vm_sender m = w)"
proof -
  let ?f = "\<lambda>c. c\<lparr>vc_public_key := Some k, vc_status := ''accepted''\<rparr>"
  let ?P = "\<lambda>c. u_onion u = Some (vc_owner c) \<and> vc_onion c = w"
  let ?t = "emit_ui [Contact_Status w ''accepted''] (update_contact_row (vc_id c) ?f t)"
  have sender: "sender_of b = Inr w" using assms(5-7) by (cases w) (simp_all add: sender_of_def)
  have before: "fst (p2p_message mid b t) = Inl (HTTP 403 ''Unauthorized contact connection'')"
    using assms(1-3) sender sealed_no_onion assms(5)
    by (auto simp: p2p_message_def local_user_def sender_check_def split: option.split)
  have acc: "p2p_accept w k t = (Inr (), ?t)"
    using assms(1,2,5) by (simp add: p2p_accept_def local_user_def)
  have c: "c \<in> set (v3_contacts t)" using assms(2) find_SomeD unfolding contact_with_def by fast
  have row: "v3_contacts ?t = update_where (\<lambda>x. vc_id x = vc_id c) ?f (v3_contacts t)"
    by (simp add: emit_ui_def update_contact_row_def)
  have "contact_with (u_onion u) w ?t = Some (?f c)"
    unfolding contact_with_def row
  proof (rule find_update_row)
    show "List.find ?P (v3_contacts t) = Some c" using assms(2) by (simp add: contact_with_def)
  next
    fix x assume "x \<in> set (v3_contacts t)" "vc_id x = vc_id c"
    then show "x = c" using c assms(4) by (auto simp: distinct_map dest: inj_onD)
  qed simp_all
  then have "accepts_from ?t w (int (pp_seq b))"
    using assms(1,10) unfolding accepts_from_def
    by (intro exI [of _ u] exI [of _ us] exI [of _ "?f c"]) (simp add: emit_ui_def update_contact_row_def)
  moreover have "v3_messages ?t = v3_messages t" by (simp add: emit_ui_def update_contact_row_def)
  ultimately show ?thesis
    using p2p_message_stores [of b w ?t time mid] assms(5-9,11) before acc by auto
qed

theorem blocked_contact_returns_witness:
  "fst (p2p_message ''m'' \<lparr>pp_sender = Some (demo_onion CHR ''a''), pp_sealed = None, pp_iv = ''i'',
      pp_ciphertext = ''c'', pp_seq = 1, pp_timestamp = 0, pp_disappears = None, pp_ephemeral = False\<rparr>
     (snd (p2p_accept (demo_onion CHR ''a'') ''k'' (demo_v3 (demo_onion CHR ''b'') (demo_onion CHR ''a'') ''blocked'')))) =
   Inr ()"
  using blocked_contact_returns [where t = "demo_v3 (demo_onion CHR ''b'') (demo_onion CHR ''a'') ''blocked''"
      and u = "demo_user (demo_onion CHR ''b'')" and us = "[]" and w = "demo_onion CHR ''a''"
      and c = "demo_contact (demo_onion CHR ''b'') (demo_onion CHR ''a'') ''blocked''" and k = "''k''"
      and mid = "''m''" and time = 0
      and b = "\<lparr>pp_sender = Some (demo_onion CHR ''a''), pp_sealed = None, pp_iv = ''i'',
        pp_ciphertext = ''c'', pp_seq = 1, pp_timestamp = 0, pp_disappears = None, pp_ephemeral = False\<rparr>"]
  by (simp add: demo_v3_def demo_contact_def demo_user_def contact_with_def last_seq_def from_millis_def)

section \<open>No replays\<close>

text \<open>Everything that the routers do to contacts and messages, in any order.\<close>

inductive v3_step :: "v3 \<Rightarrow> v3 \<Rightarrow> bool" where
  received: "v3_step s (snd (p2p_message mid b s))"
| handshaken: "v3_step s (snd (p2p_handshake w nick k s))"
| accepted: "v3_step s (snd (p2p_accept w k s))"
| peer_deleted: "v3_step s (snd (p2p_delete w mid s))"
| sent: "v3_step s (fst (snd (send_message_v3 ss mid now r s)))"
| deleted: "v3_step s (snd (delete_message ss mid s))"
| resolved: "v3_step s (snd (resolve_sender ss mid w s))"
| contact_added: "v3_step s (fst (snd (add_contact_v3 ss w nick' s)))"
| contact_removed: "v3_step s (snd (remove_contact ss i s))"

definition from_peer :: "string \<Rightarrow> v3_message \<Rightarrow> bool" where
  "from_peer own m = (vm_recipient m = own \<and> vm_sender m \<noteq> ''sealed'' \<and> vm_sender m \<noteq> own)"

abbreviation numbered :: "v3_message \<Rightarrow> string \<times> int" where
  "numbered m \<equiv> (vm_sender m, vm_seq m)"

definition numbers_ok :: "string \<Rightarrow> v3_message list \<Rightarrow> bool" where
  "numbers_ok own ms = (distinct (map vm_id ms) \<and> distinct (map numbered (filter (from_peer own) ms)))"

definition node_ok :: "user \<Rightarrow> string \<Rightarrow> v3 \<Rightarrow> bool" where
  "node_ok u own s = (v3_users s = [u] \<and> numbers_ok own (v3_messages s))"

lemma current_user_single: "v3_users s = [u] \<Longrightarrow> current_user ss s = Inr v \<Longrightarrow> v = u"
  by (auto simp: current_user_def me_endpoint_def find_user_def split: option.splits if_splits)

lemma numbers_ok_snoc:
  assumes "numbers_ok own ms" "\<forall>x\<in>set ms. vm_id x \<noteq> vm_id m"
    and "from_peer own m \<Longrightarrow> \<forall>x\<in>set ms. vm_sender x = vm_sender m \<and> vm_recipient x = own \<longrightarrow> vm_seq x < vm_seq m"
  shows "numbers_ok own (ms @ [m])"
  using assms by (fastforce simp: numbers_ok_def from_peer_def)

lemma numbers_ok_filter: "numbers_ok own ms \<Longrightarrow> numbers_ok own (filter p ms)"
proof -
  have "filter (from_peer own) (filter p ms) = filter p (filter (from_peer own) ms)"
    by (simp add: conj_commute)
  then show "numbers_ok own ms \<Longrightarrow> numbers_ok own (filter p ms)"
    unfolding numbers_ok_def by (metis distinct_map_filter_key)
qed

lemma numbers_ok_mark:
  "numbers_ok own (update_where p (\<lambda>m. m\<lparr>vm_deleted := d\<rparr>) ms) = numbers_ok own ms"
proof -
  have f: "filter (from_peer own) (update_where p (\<lambda>m. m\<lparr>vm_deleted := d\<rparr>) ms) =
      update_where p (\<lambda>m. m\<lparr>vm_deleted := d\<rparr>) (filter (from_peer own) ms)"
    by (induction ms) (simp_all add: update_where_def from_peer_def)
  show ?thesis unfolding numbers_ok_def f by (simp add: map_update_where_same)
qed

lemma insert_message_ok:
  "insert_message m s = Some s' \<Longrightarrow> (\<forall>x\<in>set (v3_messages s). vm_id x \<noteq> vm_id m) \<and>
   v3_messages s' = v3_messages s @ [m] \<and> v3_users s' = v3_users s"
  by (auto simp: insert_message_def list_ex_iff split: if_splits)

lemma validate_not_sealed: "validate_onion w \<noteq> Inr ''sealed''"
proof -
  have "\<not> ONION_RE ''sealed''"
    using sealed_no_onion by (auto simp: ONION_RE_def onion_body_def str_simps re_dollar_def)
  then show ?thesis by (auto simp: validate_onion_def Let_def)
qed

lemma last_seq_above:
  assumes "case last_seq sender (Some own) ms of None \<Rightarrow> True | Some k \<Rightarrow> k < n"
  shows "\<forall>x\<in>set ms. vm_sender x = sender \<and> vm_recipient x = own \<longrightarrow> vm_seq x < n"
proof (intro ballI impI)
  fix x assume "x \<in> set ms" "vm_sender x = sender \<and> vm_recipient x = own"
  then obtain k where "last_seq sender (Some own) ms = Some k" "vm_seq x \<le> k"
    using last_seq_bound by blast
  with assms show "vm_seq x < n" by simp
qed

lemma sender_check_above:
  assumes "sender_check u sender n s = Inr ()" "sender \<noteq> ''sealed''" "u_onion u = Some own"
  shows "\<forall>x\<in>set (v3_messages s). vm_sender x = sender \<and> vm_recipient x = own \<longrightarrow> vm_seq x < n"
  using assms by (intro last_seq_above) (auto simp: sender_check_def split: option.splits if_splits)

lemma received_ok:
  assumes "node_ok u own s" "u_onion u = Some own"
  shows "node_ok u own (snd (p2p_message mid b s))"
proof (cases "snd (p2p_message mid b s) = s \<or> v3_messages (snd (p2p_message mid b s)) = v3_messages s")
  case True
  have "v3_users (snd (p2p_message mid b s)) = v3_users s"
    by (auto simp: p2p_message_def emit_ui_def Let_def insert_message_def
      split: sum.split option.split)
  with True assms show ?thesis by (auto simp: node_ok_def)
next
  case False
  then obtain sender m s' where r: "sender_of b = Inr sender" "sender_check u sender (int (pp_seq b)) s = Inr ()"
    and m: "insert_message m s = Some s'" "vm_sender m = sender" "vm_seq m = int (pp_seq b)"
    and s': "v3_messages (snd (p2p_message mid b s)) = v3_messages s'"
      "v3_users (snd (p2p_message mid b s)) = v3_users s'"
    using assms(1)
    by (auto simp: p2p_message_def local_user_def node_ok_def emit_ui_def Let_def
      split: sum.splits option.splits if_splits)
  have "numbers_ok own (v3_messages s @ [m])"
  proof (rule numbers_ok_snoc)
    assume "from_peer own m"
    then have "sender \<noteq> ''sealed''" using m(2) by (simp add: from_peer_def)
    from sender_check_above [OF r(2) this assms(2)]
    show "\<forall>x\<in>set (v3_messages s). vm_sender x = vm_sender m \<and> vm_recipient x = own \<longrightarrow> vm_seq x < vm_seq m"
      by (simp add: m)
  qed (use assms(1) insert_message_ok [OF m(1)] in \<open>auto simp: node_ok_def\<close>)
  then show ?thesis using assms(1) insert_message_ok [OF m(1)] s' by (simp add: node_ok_def)
qed

lemma sent_ok:
  assumes "node_ok u own s" "u_onion u = Some own"
  shows "node_ok u own (fst (snd (send_message_v3 ss mid now r s)))"
proof (cases "fst (snd (send_message_v3 ss mid now r s)) = s")
  case False
  then obtain v mine m s' where v: "current_user ss s = Inr v" "own_onion v = Some mine"
    and m: "insert_message m s = Some s'" "vm_sender m = mine"
    and s': "fst (snd (send_message_v3 ss mid now r s)) = s'"
    by (auto simp: send_message_v3_def Let_def split: if_splits sum.splits option.splits)
  have "v = u" using v(1) assms(1) current_user_single unfolding node_ok_def by blast
  then have "mine = own" using v(2) assms(2) by (auto simp: own_onion_def split: list.splits)
  then have "numbers_ok own (v3_messages s @ [m])"
    using assms(1) insert_message_ok [OF m(1)] m(2)
    by (intro numbers_ok_snoc) (auto simp: node_ok_def from_peer_def)
  then show ?thesis using assms(1) insert_message_ok [OF m(1)] s' by (simp add: node_ok_def)
qed (use assms in simp)

lemma find_split_id:
  assumes "distinct (map vm_id ms)" "List.find (\<lambda>m. vm_id m = mid) ms = Some m"
  obtains xs ys where "ms = xs @ m # ys" "\<forall>x\<in>set xs \<union> set ys. vm_id x \<noteq> mid" "vm_id m = mid"
proof -
  have m: "m \<in> set ms \<and> vm_id m = mid" using find_SomeD [OF assms(2)] by simp
  then obtain xs ys where ms: "ms = xs @ m # ys" by (meson split_list)
  have "distinct (map vm_id (xs @ m # ys))" using assms(1) by (simp add: ms)
  then have "vm_id m \<notin> vm_id ` (set xs \<union> set ys)" by auto
  then have "\<forall>x\<in>set xs \<union> set ys. vm_id x \<noteq> mid" using m by (metis image_eqI)
  then show ?thesis using that m ms by blast
qed

lemma numbers_ok_resolve:
  assumes ok: "numbers_ok own ms" and f: "List.find (\<lambda>m. vm_id m = mid) ms = Some m"
    and l: "\<forall>x\<in>set (filter (\<lambda>x. vm_id x \<noteq> mid) ms). vm_sender x = w \<and> vm_recipient x = own \<longrightarrow> vm_seq x < vm_seq m"
  shows "numbers_ok own (update_where (\<lambda>x. vm_id x = mid) (\<lambda>x. x\<lparr>vm_sender := w\<rparr>) ms)"
proof -
  have "distinct (map vm_id ms)" using ok by (simp add: numbers_ok_def)
  from find_split_id [OF this f]
  obtain xs ys where ms: "ms = xs @ m # ys" "\<forall>x\<in>set xs \<union> set ys. vm_id x \<noteq> mid" "vm_id m = mid" .
  let ?m = "m\<lparr>vm_sender := w\<rparr>"
  have u: "update_where (\<lambda>x. vm_id x = mid) (\<lambda>x. x\<lparr>vm_sender := w\<rparr>) ms = xs @ ?m # ys"
    using ms by (simp add: update_where_def map_idI)
  have "\<forall>x\<in>set xs \<union> set ys. vm_sender x = w \<and> vm_recipient x = own \<longrightarrow> vm_seq x < vm_seq m"
    using l ms(2,3) unfolding ms(1) by auto
  then have "numbered ?m \<notin> numbered ` set (filter (from_peer own) (xs @ ys))"
    if "from_peer own ?m"
    using that by (fastforce simp: from_peer_def)
  moreover have "distinct (map numbered (filter (from_peer own) (xs @ ys)))"
    using ok ms(1) by (auto simp: numbers_ok_def split: if_splits)
  moreover have "distinct (map vm_id (xs @ ?m # ys))" using ok ms(1) by (simp add: numbers_ok_def)
  ultimately show ?thesis unfolding u numbers_ok_def by auto
qed

lemma resolved_ok:
  assumes "node_ok u own s" "u_onion u = Some own"
  shows "node_ok u own (snd (resolve_sender ss mid w s))"
proof -
  have "numbers_ok own (v3_messages (snd (resolve_sender ss mid w s)))"
  proof (cases "v3_messages (snd (resolve_sender ss mid w s)) = v3_messages s \<or>
      v3_messages (snd (resolve_sender ss mid w s)) = filter (\<lambda>m. vm_id m \<noteq> mid) (v3_messages s)")
    case True
    then show ?thesis using assms(1) by (auto simp: node_ok_def numbers_ok_filter)
  next
    case False
    then obtain v m where v: "current_user ss s = Inr v"
      and m: "List.find (\<lambda>m. vm_id m = mid) (v3_messages s) = Some m"
      and l: "\<not> (case last_seq (py_lower (py_strip w)) (u_onion v) (filter (\<lambda>x. vm_id x \<noteq> mid) (v3_messages s)) of
                 None \<Rightarrow> False | Some k \<Rightarrow> vm_seq m \<le> k)"
      and r: "v3_messages (snd (resolve_sender ss mid w s)) =
        update_where (\<lambda>x. vm_id x = mid) (\<lambda>x. x\<lparr>vm_sender := py_lower (py_strip w)\<rparr>) (v3_messages s)"
      by (auto simp: resolve_sender_def Let_def drop_message_def split: sum.splits option.splits if_splits)
    have "v = u" using v assms(1) current_user_single unfolding node_ok_def by blast
    then have "case last_seq (py_lower (py_strip w)) (Some own) (filter (\<lambda>x. vm_id x \<noteq> mid) (v3_messages s)) of
        None \<Rightarrow> True | Some k \<Rightarrow> k < vm_seq m"
      using l assms(2) by (simp split: option.splits)
    from numbers_ok_resolve [OF _ m last_seq_above [OF this]] assms(1) r show ?thesis
      by (simp add: node_ok_def)
  qed
  moreover have "v3_users (snd (resolve_sender ss mid w s)) = v3_users s"
    by (auto simp: resolve_sender_def Let_def drop_message_def split: sum.split option.split)
  ultimately show ?thesis using assms(1) by (simp add: node_ok_def)
qed

lemma contacts_frame:
  "v3_users (snd (p2p_handshake w nick k s)) = v3_users s \<and> v3_messages (snd (p2p_handshake w nick k s)) = v3_messages s"
  "v3_users (snd (p2p_accept w k s)) = v3_users s \<and> v3_messages (snd (p2p_accept w k s)) = v3_messages s"
  "v3_users (fst (snd (add_contact_v3 ss w nick' s))) = v3_users s \<and>
   v3_messages (fst (snd (add_contact_v3 ss w nick' s))) = v3_messages s"
  "v3_users (snd (remove_contact ss i s)) = v3_users s \<and> v3_messages (snd (remove_contact ss i s)) = v3_messages s"
  by (auto simp: p2p_handshake_def p2p_accept_def add_contact_v3_def remove_contact_def emit_ui_def Let_def
      update_contact_row_def insert_contact_def split: sum.split option.split)

lemma deletions_ok:
  "node_ok u own s \<Longrightarrow> node_ok u own (snd (delete_message ss mid s))"
  "node_ok u own s \<Longrightarrow> node_ok u own (snd (p2p_delete w mid s))"
  by (auto simp: delete_message_def p2p_delete_def emit_ui_def Let_def node_ok_def numbers_ok_mark
      split: sum.split)

lemma v3_step_ok: "v3_step s s' \<Longrightarrow> u_onion u = Some own \<Longrightarrow> node_ok u own s \<Longrightarrow> node_ok u own s'"
proof (induction rule: v3_step.induct)
  case received
  then show ?case by (rule received_ok [rotated])
next
  case sent
  then show ?case by (rule sent_ok [rotated])
next
  case resolved
  then show ?case by (rule resolved_ok [rotated])
next
  case peer_deleted
  then show ?case by (intro deletions_ok)
next
  case deleted
  then show ?case by (intro deletions_ok)
qed (simp_all add: node_ok_def contacts_frame)

lemma v3_reach_ok: "rtranclp v3_step s s' \<Longrightarrow> u_onion u = Some own \<Longrightarrow> node_ok u own s \<Longrightarrow> node_ok u own s'"
  by (induction rule: rtranclp_induct) (simp_all add: v3_step_ok)

definition demo_payload :: p2p_payload where
  "demo_payload = \<lparr>pp_sender = Some (demo_onion CHR ''a''), pp_sealed = None, pp_iv = ''i'',
     pp_ciphertext = ''c'', pp_seq = 1, pp_timestamp = 0, pp_disappears = None, pp_ephemeral = False\<rparr>"



section \<open>Paging through a conversation\<close>

definition url_char :: "char \<Rightarrow> char" where
  "url_char c = (if c = CHR ''+'' then CHR ''-'' else if c = CHR ''/'' then CHR ''_'' else c)"

definition std_char :: "char \<Rightarrow> char" where
  "std_char c = (if c = CHR ''-'' then CHR ''+'' else if c = CHR ''_'' then CHR ''/'' else c)"

lemma b64_no_url: "c \<in> set (b64_encode bs) \<Longrightarrow> c \<noteq> CHR ''-'' \<and> c \<noteq> CHR ''_''"
proof (induction bs rule: b64_encode.induct)
  have A: "\<forall>c\<in>set b64_alphabet. c \<noteq> CHR ''-'' \<and> c \<noteq> CHR ''_''" by (simp add: b64_alphabet_def)
  have C: "b64_char n \<noteq> CHR ''-'' \<and> b64_char n \<noteq> CHR ''_''" if "n < 64" for n
    using A that by (simp add: b64_char_def b64_alphabet_length)
  {
    case 1
    then show ?case by simp
  next
    case (2 a)
    then show ?case using C unat_byte_lt [of a] by (auto simp: less_mult_imp_div_less)
  next
    case (3 a b)
    then show ?case using C unat_byte_lt [of a] unat_byte_lt [of b] by (auto simp: less_mult_imp_div_less)
  next
    case (4 a b c bs)
    then show ?case
      using C unat_byte_lt [of a] unat_byte_lt [of b] unat_byte_lt [of c] by (auto simp: less_mult_imp_div_less)
  }
qed

lemma b64url_roundtrip: "b64url_decode (b64url_encode bs) = Some bs"
proof -
  have "map std_char (map url_char (b64_encode bs)) = b64_encode bs"
    using b64_no_url by (auto simp: url_char_def std_char_def intro!: map_idI)
  then show ?thesis
    by (simp add: b64url_decode_def b64url_encode_def url_char_def [abs_def] std_char_def [abs_def] o_def)
qed

lemma b64_encode_eq_Nil: "b64_encode bs = [] \<longleftrightarrow> bs = []"
  by (cases bs rule: b64_encode.cases) simp_all

lemma before_bars_app: "CHR ''|'' \<notin> set t \<Longrightarrow> before_bars (t @ ''||'' @ rest) = t"
  by (induction t) auto

text \<open>The times of the messages are written without bars and read back.\<close>

definition times_readable :: "(real \<Rightarrow> string) \<Rightarrow> (string \<Rightarrow> real option) \<Rightarrow> v3 \<Rightarrow> bool" where
  "times_readable isoformat fromiso s \<longleftrightarrow> (\<forall>t\<in>vm_sent_at ` set (v3_messages s).
     CHR ''|'' \<notin> set (isoformat t) \<and> fromiso (isoformat t) = Some t)"

lemma cursor_roundtrip:
  "times_readable isoformat fromiso s \<Longrightarrow> m \<in> set (v3_messages s) \<Longrightarrow>
   cursor_time fromiso (cursor_token isoformat m) = Some (vm_sent_at m)"
  unfolding times_readable_def cursor_time_def cursor_token_def
  by (simp add: b64url_roundtrip utf8_roundtrip before_bars_app del: append_Cons)

lemma history_rows_subset: "set (history_rows u peer cutoff s) \<subseteq> set (v3_messages s)"
  by (auto simp: history_rows_def)

lemma cursor_not_Nil: "cursor_token isoformat m \<noteq> []"
  by (simp add: cursor_token_def b64url_encode_def b64_encode_eq_Nil utf8_encode_eq_Nil)

lemma history_rows_cutoff:
  "history_rows u peer (Some t) s = filter (\<lambda>m. vm_sent_at m < t) (history_rows u peer None s)"
  by (simp add: history_rows_def rev_filter [symmetric] filter_sort [symmetric])

definition newer :: "v3_message \<Rightarrow> v3_message \<Rightarrow> bool" where
  "newer a b = (vm_sent_at b < vm_sent_at a)"

lemma history_rows_sorted:
  assumes "distinct (map vm_sent_at (filter (between (u_onion u) peer) (v3_messages s)))"
  shows "sorted_wrt newer (history_rows u peer None s)"
proof -
  let ?xs = "sort_key vm_sent_at (filter (between (u_onion u) peer) (v3_messages s))"
  have "distinct (map vm_sent_at ?xs)"
    using assms by (simp add: distinct_map) 
  moreover have "sorted (map vm_sent_at ?xs)" by simp
  ultimately have "sorted_wrt (<) (map vm_sent_at ?xs)" by (simp add: strict_sorted_iff)
  then show ?thesis
    by (simp add: history_rows_def sorted_wrt_rev sorted_wrt_map newer_def)
qed

text \<open>A client that follows the tokens, for at most \<open>n\<close> requests.\<close>

fun pages ::
    "(real \<Rightarrow> string) \<Rightarrow> (string \<Rightarrow> real option) \<Rightarrow> v3_session \<Rightarrow> string \<Rightarrow> nat \<Rightarrow> v3 \<Rightarrow> nat \<Rightarrow>
     string option \<Rightarrow> v3_message list list" where
  "pages isoformat fromiso ss peer limit s 0 cursor = []"
| "pages isoformat fromiso ss peer limit s (Suc n) cursor =
     (case message_history isoformat fromiso ss peer limit None cursor s of
        Inr (ms, Some token) \<Rightarrow> ms # pages isoformat fromiso ss peer limit s n (Some token)
      | _ \<Rightarrow> [])"

lemma history_page:
  assumes "current_user ss s = Inr u" "1 \<le> limit" "limit \<le> 200" "times_readable isoformat fromiso s"
    and "sorted_wrt newer (xs @ ys)" "history_rows u peer None s = xs @ ys"
    and "cursor = (if xs = [] then None else Some (cursor_token isoformat (last xs)))"
  shows "message_history isoformat fromiso ss peer limit None cursor s =
    Inr (take limit ys, if ys = [] then None else Some (cursor_token isoformat (last (take limit ys))))"
proof (cases "xs = []")
  case True
  then show ?thesis using assms(1-3,6,7) by (simp add: message_history_def Let_def)
next
  case False
  obtain ch cs where c: "cursor_token isoformat (last xs) = ch # cs"
    using cursor_not_Nil by (meson neq_Nil_conv)
  have xs: "xs = butlast xs @ [last xs]" using False by simp
  have mem: "last xs \<in> set (v3_messages s)"
    using history_rows_subset [of u peer None s] assms(6) False by auto
  have "\<not> vm_sent_at m < vm_sent_at (last xs)" if "m \<in> set xs" for m
  proof -
    have "sorted_wrt newer (butlast xs @ [last xs])" using assms(5) xs by (simp add: sorted_wrt_append)
    then have "\<forall>x\<in>set (butlast xs). newer x (last xs)" by (simp add: sorted_wrt_append)
    moreover have "m \<in> set (butlast xs) \<or> m = last xs" using that xs by (metis in_set_conv_decomp
      Un_iff empty_iff list.set(1) set_ConsD set_append)
    ultimately show ?thesis by (auto simp: newer_def)
  qed
  moreover have "vm_sent_at m < vm_sent_at (last xs)" if "m \<in> set ys" for m
    using assms(5) False that by (simp add: sorted_wrt_append newer_def)
  ultimately have "history_rows u peer (Some (vm_sent_at (last xs))) s = ys"
    by (simp add: history_rows_cutoff assms(6))
  moreover have "cursor_time fromiso (ch # cs) = Some (vm_sent_at (last xs))"
    using cursor_roundtrip [OF assms(4) mem] c by metis
  ultimately show ?thesis using assms(1-3,7) False c by (simp add: message_history_def Let_def)
qed

lemma pages_cover:
  assumes "current_user ss s = Inr u" "1 \<le> limit" "limit \<le> 200" "times_readable isoformat fromiso s"
    and "sorted_wrt newer (history_rows u peer None s)"
  shows "history_rows u peer None s = xs @ ys \<Longrightarrow> length ys < n \<Longrightarrow>
    concat (pages isoformat fromiso ss peer limit s n
      (if xs = [] then None else Some (cursor_token isoformat (last xs)))) = ys"
proof (induction n arbitrary: xs ys)
  case (Suc n)
  note page = history_page [OF assms(1-4) _ Suc.prems(1) refl, unfolded Suc.prems(1) [symmetric], OF assms(5)]
  show ?case
  proof (cases "ys = []")
    case True
    then show ?thesis by (simp add: page del: if_split)
  next
    case False
    have t: "take limit ys \<noteq> []" using False assms(2) by simp
    have "concat (pages isoformat fromiso ss peer limit s n
        (if xs @ take limit ys = [] then None else Some (cursor_token isoformat (last (xs @ take limit ys))))) =
        drop limit ys"
      using Suc.prems assms(2) False by (intro Suc.IH) (auto simp: not_le length_greater_0_conv [symmetric] simp del: length_greater_0_conv)
    then show ?thesis using t by (simp add: page False)
  qed
qed simp

definition demo_talk :: "(string \<times> real) list \<Rightarrow> v3" where
  "demo_talk ms = (demo_v3 (demo_onion CHR ''a'') (demo_onion CHR ''b'') ''accepted'')\<lparr>v3_messages :=
     map (\<lambda>(i, t). \<lparr>vm_id = i, vm_sender = demo_onion CHR ''a'', vm_recipient = demo_onion CHR ''b'',
       vm_ciphertext = ''c'', vm_iv = ''i'', vm_seq = 1, vm_sent_at = t, vm_delivered = False,
       vm_disappears = None, vm_deleted = False, vm_sealed = None\<rparr>) ms\<rparr>"

lemma demo_talk_current [simp]:
  "current_user demo_session (demo_talk ms) = Inr (demo_user (demo_onion CHR ''a''))"
  using demo_current by (simp add: current_user_def demo_talk_def demo_v3_def)

lemma demo_talk_messages:
  "v3_messages (demo_talk [(a, t), (b, t')]) =
     [\<lparr>vm_id = a, vm_sender = demo_onion CHR ''a'', vm_recipient = demo_onion CHR ''b'',
       vm_ciphertext = ''c'', vm_iv = ''i'', vm_seq = 1, vm_sent_at = t, vm_delivered = False,
       vm_disappears = None, vm_deleted = False, vm_sealed = None\<rparr>,
      \<lparr>vm_id = b, vm_sender = demo_onion CHR ''a'', vm_recipient = demo_onion CHR ''b'',
       vm_ciphertext = ''c'', vm_iv = ''i'', vm_seq = 1, vm_sent_at = t', vm_delivered = False,
       vm_disappears = None, vm_deleted = False, vm_sealed = None\<rparr>]"
  by (simp add: demo_talk_def)

lemma demo_user_onion [simp]: "u_onion (demo_user w) = Some w"
  by (simp add: demo_user_def)

text \<open>C20: paging equals the whole conversation: following the tokens from page to page, with any page
  size from 1 to 200, gives every message between the two that is not deleted exactly once, newest
  first, and ends by itself, provided no two of them have the same time.\<close>

theorem history_pages:
  assumes "current_user ss s = Inr u" "1 \<le> limit" "limit \<le> 200" "times_readable isoformat fromiso s"
    and "distinct (map vm_sent_at (filter (between (u_onion u) peer) (v3_messages s)))"
    and "length (v3_messages s) < n"
  shows "mset (concat (pages isoformat fromiso ss peer limit s n None)) =
      mset (filter (between (u_onion u) peer) (v3_messages s)) \<and>
    sorted_wrt newer (concat (pages isoformat fromiso ss peer limit s n None))"
proof -
  have "length (history_rows u peer None s) < n"
    using assms(6) by (simp add: history_rows_def) (metis le_less_trans length_filter_le)
  then have "concat (pages isoformat fromiso ss peer limit s n None) = history_rows u peer None s"
    using pages_cover [OF assms(1-4) history_rows_sorted [OF assms(5)], of "[]"] by simp
  then show ?thesis using history_rows_sorted [OF assms(5)] by (simp add: history_rows_def)
qed

theorem history_pages_witness:
  "mset (concat (pages (\<lambda>t. if t = 1 then ''1'' else ''2'') (\<lambda>x. if x = ''1'' then Some 1 else Some 2)
     demo_session (demo_onion CHR ''b'') 1 (demo_talk [(''x'', 2), (''y'', 1)]) 3 None)) =
   mset (v3_messages (demo_talk [(''x'', 2), (''y'', 1)]))"
  using history_pages [of demo_session "demo_talk [(''x'', 2), (''y'', 1)]" "demo_user (demo_onion CHR ''a'')" 1
      "\<lambda>t. if t = 1 then ''1'' else ''2''" "\<lambda>x. if x = ''1'' then Some 1 else Some 2" "demo_onion CHR ''b''" 3]
  by (simp add: demo_talk_messages times_readable_def between_def)

end
