(* ===== verification/V3_Compat.thy ===== *)
theory V3_Compat
  imports V3_Social
begin

text \<open>
  The routes that the FastAPI node keeps for older interfaces,
  \<^verbatim>\<open>transports/p2p/routers/compat.py\<close>: they work on the same tables as the routers of V3_Messages
  and V3_Social, with checks of their own. An exception that the handler does not catch is
  answered with 500 and rolls its transaction back. A body is the record it validates to, or the
  decoded JSON value where the handler reads it itself (\<open>None\<close> when it is no JSON).
\<close>

section \<open>Sessions and bodies\<close>

abbreviation server_error :: http_error where
  "server_error \<equiv> HTTP 500 ''Internal server error''"

definition compat_auth :: "v3_session \<Rightarrow> string http" where
  "compat_auth ss = (case ss_username ss of Some (ch # cs) \<Rightarrow> Inr (ch # cs) | _ \<Rightarrow> Inl (HTTP 401 ''Unauthorized''))"

text \<open>The row of the session's user; the attributes of a missing one raise.\<close>

definition session_row :: "string \<Rightarrow> v3 \<Rightarrow> user option" where
  "session_row name s = List.find (\<lambda>u. u_username u = name) (v3_users s)"

definition body_text :: "string \<Rightarrow> json option \<Rightarrow> string option" where
  "body_text k body = (case body of
     Some (JObj kvs) \<Rightarrow> (case map_of kvs k of None \<Rightarrow> Some [] | Some (JStr t) \<Rightarrow> Some t | _ \<Rightarrow> None)
   | _ \<Rightarrow> None)"

section \<open>Login and settings\<close>

definition legacy_login ::
    "(bytes \<Rightarrow> string \<Rightarrow> bool) \<Rightarrow> string \<Rightarrow> string \<Rightarrow> v3_session \<Rightarrow> v3 \<Rightarrow> unit http \<times> v3_session" where
  "legacy_login checkpw username password ss s = (case session_row (py_lower username) s of
     None \<Rightarrow> (Inl (HTTP 401 ''Invalid credentials''), ss)
   | Some u \<Rightarrow>
       if checkpw (utf8_encode password) (u_password_hash u)
       then (Inr (), ss\<lparr>ss_username := Some (u_username u), ss_profile := Some ''default''\<rparr>)
       else (Inl (HTTP 401 ''Invalid credentials''), ss))"

definition legacy_my_info :: "v3_session \<Rightarrow> v3 \<Rightarrow> (string option \<times> string) http" where
  "legacy_my_info ss s = (case compat_auth ss of
     Inl e \<Rightarrow> Inl e | Inr name \<Rightarrow> Inr (Option.bind (session_row name s) u_onion, name))"

definition legacy_get_preferred_relay :: "v3_session \<Rightarrow> v3 \<Rightarrow> string http" where
  "legacy_get_preferred_relay ss s = (case compat_auth ss of
     Inl e \<Rightarrow> Inl e
   | Inr name \<Rightarrow>
       if session_row name s = None then Inl server_error
       else Inr (case v3_file_relays s name of Some r \<Rightarrow> r | None \<Rightarrow> []))"

definition legacy_set_preferred_relay :: "v3_session \<Rightarrow> json option \<Rightarrow> v3 \<Rightarrow> unit http \<times> v3" where
  "legacy_set_preferred_relay ss body s = (case compat_auth ss of
     Inl e \<Rightarrow> (Inl e, s)
   | Inr name \<Rightarrow>
       (case (body_text ''preferred_file_relay'' body, session_row name s) of
          (Some t, Some u) \<Rightarrow> (Inr (), s\<lparr>v3_file_relays := (v3_file_relays s)(name \<mapsto> py_strip t)\<rparr>)
        | _ \<Rightarrow> (Inl server_error, s)))"

section \<open>Contacts\<close>

text \<open>Every contact of the profile, whoever owns it.\<close>

definition legacy_get_contacts :: "v3_session \<Rightarrow> v3 \<Rightarrow> v3_contact list http" where
  "legacy_get_contacts ss s = (case compat_auth ss of
     Inl e \<Rightarrow> Inl e | Inr _ \<Rightarrow> Inr (filter (\<lambda>c. vc_profile c = profile_of ss) (v3_contacts s)))"

definition owned_contact :: "user \<Rightarrow> string \<Rightarrow> v3_session \<Rightarrow> v3 \<Rightarrow> v3_contact option" where
  "owned_contact u onion ss s = List.find (\<lambda>c. u_onion u = Some (vc_owner c) \<and>
     vc_onion c = py_lower (py_strip onion) \<and> vc_profile c = profile_of ss) (v3_contacts s)"

definition anyones_contact :: "string \<Rightarrow> v3_session \<Rightarrow> v3 \<Rightarrow> v3_contact option" where
  "anyones_contact onion ss s =
     List.find (\<lambda>c. vc_onion c = py_lower (py_strip onion) \<and> vc_profile c = profile_of ss) (v3_contacts s)"

definition update_columns :: "nat \<Rightarrow> (contact_columns \<Rightarrow> contact_columns) \<Rightarrow> (v3_contact \<Rightarrow> v3_contact) \<Rightarrow> v3 \<Rightarrow> v3" where
  "update_columns i f g s = s\<lparr>v3_contacts :=
     update_where (\<lambda>c. vc_id c = i) (\<lambda>c. g (c\<lparr>vc_columns := f (vc_columns c)\<rparr>)) (v3_contacts s)\<rparr>"

definition legacy_add_contact :: "v3_session \<Rightarrow> string \<Rightarrow> string \<Rightarrow> v3 \<Rightarrow> unit http \<times> v3" where
  "legacy_add_contact ss onion nickname s = (case compat_auth ss of
     Inl e \<Rightarrow> (Inl e, s)
   | Inr name \<Rightarrow>
       (case session_row name s of
          None \<Rightarrow> (Inl server_error, s)
        | Some u \<Rightarrow>
            if owned_contact u onion ss s \<noteq> None then (Inl (HTTP 409 ''Contact already exists''), s)
            else (case u_onion u of
              None \<Rightarrow> (Inl server_error, s)
            | Some mine \<Rightarrow>
                (case insert_contact \<lparr>vc_id = next_contact_id s, vc_owner = mine, vc_onion = py_lower (py_strip onion),
                     vc_nickname = Some nickname, vc_public_key = None, vc_status = ''pending_outgoing'', vc_verified = False,
                     vc_notify_token = None, vc_profile = profile_of ss, vc_columns = default_columns\<rparr> s of
                   None \<Rightarrow> (Inl server_error, s)
                 | Some s' \<Rightarrow> (Inr (), s')))))"

definition legacy_update_receipts :: "v3_session \<Rightarrow> json option \<Rightarrow> v3 \<Rightarrow> unit http \<times> v3" where
  "legacy_update_receipts ss body s = (case compat_auth ss of
     Inl e \<Rightarrow> (Inl e, s)
   | Inr _ \<Rightarrow>
       (case body_text ''onion_address'' body of
          None \<Rightarrow> (Inl server_error, s)
        | Some onion \<Rightarrow>
            (case anyones_contact onion ss s of
               None \<Rightarrow> (Inl (HTTP 404 ''Contact not found''), s)
             | Some c \<Rightarrow>
                 let wanted = (case body of Some (JObj kvs) \<Rightarrow>
                       (case map_of kvs ''send_receipts'' of Some v \<Rightarrow> json_truthy v | None \<Rightarrow> False) | _ \<Rightarrow> False)
                 in (Inr (), update_columns (vc_id c) (\<lambda>k. k\<lparr>cc_send_receipts := wanted\<rparr>) id s))))"

record secret_request =
  sq_onion :: string
  sq_shared_secret :: string
  sq_public_key :: string
  sq_dr_state :: "string option"
  sq_peer_kem :: "string option"
  sq_my_kem :: "string option"

definition given :: "string option \<Rightarrow> string option \<Rightarrow> string option" where
  "given new old = (case new of Some (ch # cs) \<Rightarrow> Some (ch # cs) | _ \<Rightarrow> old)"

definition legacy_save_secret :: "v3_session \<Rightarrow> secret_request \<Rightarrow> v3 \<Rightarrow> unit http \<times> v3" where
  "legacy_save_secret ss r s = (case compat_auth ss of
     Inl e \<Rightarrow> (Inl e, s)
   | Inr _ \<Rightarrow>
       (case anyones_contact (sq_onion r) ss s of
          None \<Rightarrow> (Inl (HTTP 404 ''Contact not found''), s)
        | Some c \<Rightarrow> (Inr (), update_columns (vc_id c)
            (\<lambda>k. k\<lparr>cc_shared_secret := Some (sq_shared_secret r), cc_dr_state := given (sq_dr_state r) (cc_dr_state k),
               cc_peer_kem := given (sq_peer_kem r) (cc_peer_kem k), cc_my_kem := given (sq_my_kem r) (cc_my_kem k)\<rparr>)
            (\<lambda>c. c\<lparr>vc_public_key := Some (sq_public_key r), vc_status := ''accepted''\<rparr>) s)))"

text \<open>The third result is the request to the peer: its address, the own address and the public key.\<close>

definition legacy_accept_contact ::
    "v3_session \<Rightarrow> string \<Rightarrow> string \<Rightarrow> string \<Rightarrow> v3 \<Rightarrow> unit http \<times> v3 \<times> (string \<times> string option \<times> string) option" where
  "legacy_accept_contact ss onion my_public_key shared_secret s = (case compat_auth ss of
     Inl e \<Rightarrow> (Inl e, s, None)
   | Inr name \<Rightarrow>
       (case session_row name s of
          None \<Rightarrow> (Inl server_error, s, None)
        | Some u \<Rightarrow>
            (case owned_contact u onion ss s of
               None \<Rightarrow> (Inl (HTTP 404 ''Contact not found''), s, None)
             | Some c \<Rightarrow> (Inr (), update_columns (vc_id c) (\<lambda>k. k\<lparr>cc_shared_secret := Some shared_secret\<rparr>)
                 (\<lambda>c. c\<lparr>vc_status := ''accepted''\<rparr>) s, Some (py_lower (py_strip onion), u_onion u, my_public_key)))))"

definition legacy_delete_contact :: "v3_session \<Rightarrow> string \<Rightarrow> v3 \<Rightarrow> unit http \<times> v3" where
  "legacy_delete_contact ss onion s = (case compat_auth ss of
     Inl e \<Rightarrow> (Inl e, s)
   | Inr name \<Rightarrow>
       (case session_row name s of
          None \<Rightarrow> (Inl server_error, s)
        | Some u \<Rightarrow>
            (case owned_contact u onion ss s of
               None \<Rightarrow> (Inr (), s)
             | Some c \<Rightarrow> (Inr (), s\<lparr>v3_contacts := filter (\<lambda>x. vc_id x \<noteq> vc_id c) (v3_contacts s)\<rparr>))))"

section \<open>Messages\<close>

text \<open>The message is stored; nothing is sent to the recipient.\<close>

definition legacy_send_message ::
    "v3_session \<Rightarrow> string \<Rightarrow> real \<Rightarrow> string \<Rightarrow> string \<Rightarrow> string \<Rightarrow> int \<Rightarrow> v3 \<Rightarrow> string http \<times> v3" where
  "legacy_send_message ss mid now recipient ciphertext iv seq s = (case compat_auth ss of
     Inl e \<Rightarrow> (Inl e, s)
   | Inr name \<Rightarrow>
       (case Option.bind (session_row name s) u_onion of
          None \<Rightarrow> (Inl server_error, s)
        | Some mine \<Rightarrow>
            if \<not> sqlite_int seq then (Inl server_error, s)
            else (case insert_message \<lparr>vm_id = mid, vm_sender = mine, vm_recipient = recipient, vm_ciphertext = ciphertext,
                     vm_iv = iv, vm_seq = seq, vm_sent_at = now, vm_delivered = False, vm_disappears = None,
                     vm_deleted = False, vm_sealed = None\<rparr> s of
                    None \<Rightarrow> (Inl server_error, s) | Some s' \<Rightarrow> (Inr mid, s'))))"

text \<open>
  The rows as the response shows them; the time is read without a zone, \<open>host_stamp\<close> is
  \<^verbatim>\<open>int(t.timestamp() * 1000)\<close> in the zone of the host.
\<close>

definition legacy_get_messages ::
    "(real \<Rightarrow> int) \<Rightarrow> v3_session \<Rightarrow> string option \<Rightarrow> v3 \<Rightarrow> (string \<times> string \<times> string \<times> string \<times> string \<times> int \<times> int) list http" where
  "legacy_get_messages host_stamp ss peer_onion s = (case compat_auth ss of
     Inl e \<Rightarrow> Inl e
   | Inr _ \<Rightarrow>
       (case peer_onion of
          Some (ch # cs) \<Rightarrow>
            let peer = py_lower (py_strip (ch # cs))
            in Inr (map (\<lambda>m. (vm_id m, vm_sender m, vm_recipient m, vm_ciphertext m, vm_iv m, vm_seq m, host_stamp (vm_sent_at m)))
                 (sort_key vm_sent_at (filter (\<lambda>m. vm_sender m = peer \<or> vm_recipient m = peer) (v3_messages s))))
        | _ \<Rightarrow> Inl (HTTP 400 ''Missing onion_address'')))"

section \<open>Groups\<close>

definition legacy_create_group ::
    "v3_session \<Rightarrow> string \<Rightarrow> string \<Rightarrow> string \<Rightarrow> int \<Rightarrow> string list \<Rightarrow> v3 \<Rightarrow> string http \<times> v3" where
  "legacy_create_group ss gid name founder is_channel member_onions s = (case compat_auth ss of
     Inl e \<Rightarrow> (Inl e, s)
   | Inr _ \<Rightarrow>
       if \<not> list_ex (\<lambda>p. vp_id p = profile_of ss) (v3_profiles s) \<or> list_ex (\<lambda>g. vg_id g = gid) (v3_groups s)
       then (Inl server_error, s)
       else (Inr gid, s\<lparr>
         v3_groups := v3_groups s @ [\<lparr>vg_id = gid, vg_name = name, vg_founder = founder,
           vg_channel = (is_channel \<noteq> 0), vg_profile = profile_of ss\<rparr>],
         v3_members := v3_members s @ map (Pair gid) (remdups (founder # member_onions))\<rparr>))"

definition legacy_save_group_message ::
    "v3_session \<Rightarrow> string \<Rightarrow> string \<Rightarrow> string \<Rightarrow> string \<Rightarrow> v3 \<Rightarrow> unit http \<times> v3" where
  "legacy_save_group_message ss mid gid sender ciphertext s = (case compat_auth ss of
     Inl e \<Rightarrow> (Inl e, s)
   | Inr _ \<Rightarrow>
       (case List.find (\<lambda>g. vg_id g = gid) (v3_groups s) of
          None \<Rightarrow> (Inl (HTTP 404 ''Group not found''), s)
        | Some g \<Rightarrow>
            if vg_channel g \<and> vg_founder g \<noteq> sender then (Inl (HTTP 403 ''Forbidden''), s)
            else if list_ex (\<lambda>m. vgm_id m = mid) (v3_group_messages s) then (Inl server_error, s)
            else (Inr (), s\<lparr>v3_group_messages := v3_group_messages s @
              [\<lparr>vgm_id = mid, vgm_group = gid, vgm_sender = sender, vgm_ciphertext = ciphertext\<rparr>]\<rparr>)))"

section \<open>Profiles and badges\<close>

definition legacy_profiles_list :: "v3_session \<Rightarrow> v3 \<Rightarrow> (string \<times> string) list http" where
  "legacy_profiles_list ss s = (case compat_auth ss of
     Inl e \<Rightarrow> Inl e
   | Inr _ \<Rightarrow> Inr (map (\<lambda>p. (vp_id p, vp_display_name p)) (filter (\<lambda>p. \<not> vp_hidden p) (v3_profiles s))))"

definition legacy_create_profile ::
    "(bytes \<Rightarrow> string) \<Rightarrow> v3_session \<Rightarrow> string \<Rightarrow> string \<Rightarrow> int \<Rightarrow> string \<Rightarrow> v3 \<Rightarrow> string http \<times> v3" where
  "legacy_create_profile hashpw ss pid display_name hidden passphrase s = (case compat_auth ss of
     Inl e \<Rightarrow> (Inl e, s)
   | Inr _ \<Rightarrow>
       if list_ex (\<lambda>p. vp_id p = pid) (v3_profiles s) then (Inl server_error, s)
       else (Inr pid, s\<lparr>v3_profiles := v3_profiles s @
         [\<lparr>vp_id = pid, vp_display_name = display_name, vp_hidden = (hidden \<noteq> 0),
           vp_hash = (if hidden \<noteq> 0 \<and> passphrase \<noteq> [] then Some (hashpw (utf8_encode passphrase)) else None)\<rparr>]\<rparr>))"

text \<open>A passphrase that is no text raises at the first profile that has a hash.\<close>

definition legacy_unlock_profile ::
    "(bytes \<Rightarrow> string \<Rightarrow> bool) \<Rightarrow> v3_session \<Rightarrow> json option \<Rightarrow> v3 \<Rightarrow> (string \<times> string) http \<times> v3_session" where
  "legacy_unlock_profile checkpw ss body s = (case compat_auth ss of
     Inl e \<Rightarrow> (Inl e, ss)
   | Inr _ \<Rightarrow>
       (case body of
          Some (JObj kvs) \<Rightarrow>
            (case body_text ''passphrase'' body of
               None \<Rightarrow>
                 (if list_ex (\<lambda>p. vp_hidden p \<and> vp_hash p \<notin> {None, Some []}) (v3_profiles s) then (Inl server_error, ss)
                  else (Inl (HTTP 401 ''Invalid credentials''), ss))
             | Some pw \<Rightarrow>
                 (case List.find (unlocks checkpw pw) (v3_profiles s) of
                    None \<Rightarrow> (Inl (HTTP 401 ''Invalid credentials''), ss)
                  | Some p \<Rightarrow> (Inr (vp_id p, vp_display_name p), ss\<lparr>ss_profile := Some (vp_id p)\<rparr>)))
        | _ \<Rightarrow> (Inl server_error, ss)))"

definition legacy_switch_profile ::
    "(string \<Rightarrow> string) \<Rightarrow> v3_session \<Rightarrow> json option \<Rightarrow> v3 \<Rightarrow> json http \<times> v3_session" where
  "legacy_switch_profile real_text ss body s = (case compat_auth ss of
     Inl e \<Rightarrow> (Inl e, ss)
   | Inr _ \<Rightarrow>
       (case body of
          Some (JObj kvs) \<Rightarrow>
            let v = (case map_of kvs ''profile_id'' of None \<Rightarrow> JStr ''default'' | Some v \<Rightarrow> v)
            in (case bound_text real_text v of
                  None \<Rightarrow> (Inl server_error, ss)
                | Some pid \<Rightarrow>
                    (case List.find (\<lambda>p. pid = Some (vp_id p)) (v3_profiles s) of
                       None \<Rightarrow> (Inl (HTTP 403 ''Unauthorized or profile not found''), ss)
                     | Some p \<Rightarrow>
                         if vp_hidden p then (Inl (HTTP 403 ''Unauthorized or profile not found''), ss)
                         else (Inr v, ss\<lparr>ss_profile := pid\<rparr>)))
        | _ \<Rightarrow> (Inl server_error, ss)))"

definition legacy_active_profile :: "v3_session \<Rightarrow> v3 \<Rightarrow> v3_profile http \<times> v3" where
  "legacy_active_profile ss s = (case compat_auth ss of
     Inl e \<Rightarrow> (Inl e, s)
   | Inr _ \<Rightarrow>
       (case List.find (\<lambda>p. vp_id p = profile_of ss) (v3_profiles s) of
          Some p \<Rightarrow> (Inr p, s)
        | None \<Rightarrow>
            let p = \<lparr>vp_id = ''default'', vp_display_name = ''Default Profile'', vp_hidden = False, vp_hash = None\<rparr>
            in if list_ex (\<lambda>p. vp_id p = ''default'') (v3_profiles s) then (Inl server_error, s)
               else (Inr p, s\<lparr>v3_profiles := v3_profiles s @ [p]\<rparr>)))"

definition legacy_supporter_badge ::
    "hashes \<Rightarrow> string \<Rightarrow> v3_session \<Rightarrow> real \<Rightarrow> string \<Rightarrow> string \<Rightarrow> v3 \<Rightarrow> unit http \<times> v3" where
  "legacy_supporter_badge h dev_key ss now onion_address signature s = (case compat_auth ss of
     Inl e \<Rightarrow> (Inl e, s)
   | Inr _ \<Rightarrow>
       let onion = py_lower (py_strip onion_address); sig = py_strip signature;
           b = \<lparr>vb_onion = onion, vb_signature = sig, vb_signed_by = dev_key, vb_time = now\<rparr>
       in if \<not> verify_supporter_badge h dev_key onion sig then (Inl (HTTP 400 ''Invalid supporter signature.''), s)
          else (Inr (), s\<lparr>v3_badges :=
            (if list_ex (\<lambda>b. vb_onion b = onion) (v3_badges s)
             then update_where (\<lambda>b. vb_onion b = onion) (\<lambda>_. b) (v3_badges s) else v3_badges s @ [b])\<rparr>))"

definition legacy_badge_status :: "v3_session \<Rightarrow> string \<Rightarrow> v3 \<Rightarrow> string option http" where
  "legacy_badge_status ss onion_address s = (case compat_auth ss of
     Inl e \<Rightarrow> Inl e
   | Inr _ \<Rightarrow> Inr (map_option vb_signature
       (List.find (\<lambda>b. vb_onion b = py_lower (py_strip onion_address)) (v3_badges s))))"

section \<open>Against the newer routers\<close>

lemma session_auth_row:
  assumes "session_auth ss s = Inr u"
  shows "\<exists>name. compat_auth ss = Inr name \<and> session_row name s = Some u"
  using assms
  by (auto simp: session_auth_def get_current_user_def compat_auth_def session_row_def find_user_def
      split: option.splits if_splits list.splits)

text \<open>For a session of a user that exists, the older routes for profiles and badges give what the
  newer ones give, as far as a newer one accepts the lengths of the request.\<close>

theorem legacy_agrees:
  assumes "session_auth ss s = Inr u"
  shows "list_profiles ss s = Inr ps \<longleftrightarrow> ps = filter (\<lambda>p. \<not> vp_hidden p) (v3_profiles s) \<and>
       legacy_profiles_list ss s = Inr (map (\<lambda>p. (vp_id p, vp_display_name p)) ps)"
    and "get_badge_status ss w s = legacy_badge_status ss w s"
    and "http_code (fst (verify_badge h dev_key ss now w sig s)) \<noteq> 422 \<Longrightarrow>
       verify_badge h dev_key ss now w sig s = legacy_supporter_badge h dev_key ss now w sig s"
    and "pw \<noteq> [] \<Longrightarrow> snd (unlock_profile checkpw ss pw s) =
       snd (legacy_unlock_profile checkpw ss (Some (JObj [(''passphrase'', JStr pw)])) s)"
    and "pid \<noteq> [] \<Longrightarrow> snd (switch_profile ss pid s) =
       snd (legacy_switch_profile real_text ss (Some (JObj [(''profile_id'', JStr pid)])) s)"
proof -
  obtain name where a: "compat_auth ss = Inr name" using session_auth_row [OF assms] by blast
  show "list_profiles ss s = Inr ps \<longleftrightarrow> ps = filter (\<lambda>p. \<not> vp_hidden p) (v3_profiles s) \<and>
       legacy_profiles_list ss s = Inr (map (\<lambda>p. (vp_id p, vp_display_name p)) ps)"
    using assms a by (auto simp: list_profiles_def legacy_profiles_list_def)
  show "get_badge_status ss w s = legacy_badge_status ss w s"
    using assms a by (simp add: get_badge_status_def legacy_badge_status_def)
  show "http_code (fst (verify_badge h dev_key ss now w sig s)) \<noteq> 422 \<Longrightarrow>
       verify_badge h dev_key ss now w sig s = legacy_supporter_badge h dev_key ss now w sig s"
    using assms a by (auto simp: verify_badge_def legacy_supporter_badge_def Let_def split: if_splits)
  show "pw \<noteq> [] \<Longrightarrow> snd (unlock_profile checkpw ss pw s) =
       snd (legacy_unlock_profile checkpw ss (Some (JObj [(''passphrase'', JStr pw)])) s)"
    using assms a by (auto simp: unlock_profile_def legacy_unlock_profile_def body_text_def split: option.split)
  have swap: "List.find (\<lambda>p. pid = vp_id p) xs = List.find (\<lambda>p. vp_id p = pid) xs" for xs
    by (rule arg_cong [where f = "\<lambda>P. List.find P xs"]) auto
  show "pid \<noteq> [] \<Longrightarrow> snd (switch_profile ss pid s) =
       snd (legacy_switch_profile real_text ss (Some (JObj [(''profile_id'', JStr pid)])) s)"
    using assms a by (auto simp: switch_profile_def legacy_switch_profile_def bound_text_def swap split: option.split)
qed

text \<open>The older route for group messages takes the sender from the request: any session posts in
  any group under any address that is not barred by the channel rule, in a channel under its
  founder's, so a stored message need not come from a member.\<close>

theorem legacy_post_forged:
  assumes "ss_username ss = Some (ch # name)" "List.find (\<lambda>g. vg_id g = gid) (v3_groups s) = Some g"
    and "\<not> vg_channel g \<or> sender = vg_founder g" "\<forall>m\<in>set (v3_group_messages s). vgm_id m \<noteq> mid"
  shows "\<exists>s'. legacy_save_group_message ss mid gid sender ct s = (Inr (), s') \<and>
     last (v3_group_messages s') = \<lparr>vgm_id = mid, vgm_group = gid, vgm_sender = sender, vgm_ciphertext = ct\<rparr> \<and>
     ((gid, sender) \<notin> set (v3_members s) \<longrightarrow> \<not> posts_ok s')"
  using assms by (auto simp: legacy_save_group_message_def compat_auth_def list_ex_iff posts_ok_def)

theorem legacy_post_forged_witness:
  "\<exists>s'. legacy_save_group_message \<lparr>ss_username = Some ''u'', ss_profile = None\<rparr> ''m'' ''g'' ''boss'' ''x''
      (vault\<lparr>v3_groups := [\<lparr>vg_id = ''g'', vg_name = ''n'', vg_founder = ''boss'', vg_channel = True, vg_profile = ''default''\<rparr>]\<rparr>) =
      (Inr (), s') \<and> vgm_sender (last (v3_group_messages s')) = ''boss'' \<and> \<not> posts_ok s'"
proof -
  let ?s = "vault\<lparr>v3_groups := [\<lparr>vg_id = ''g'', vg_name = ''n'', vg_founder = ''boss'', vg_channel = True, vg_profile = ''default''\<rparr>]\<rparr>"
  from legacy_post_forged [of "\<lparr>ss_username = Some ''u'', ss_profile = None\<rparr>" "CHR ''u''" "[]" "''g''" ?s
      "\<lparr>vg_id = ''g'', vg_name = ''n'', vg_founder = ''boss'', vg_channel = True, vg_profile = ''default''\<rparr>" "''boss''" "''m''" "''x''"]
  show ?thesis by (auto simp: vault_def)
qed

end
