(* ===== verification/Socket_Batcher.thy ===== *)
theory Socket_Batcher
  imports "HOL-Library.Multiset"
begin

text \<open>
  The coalescing of events for the user interface, \<^verbatim>\<open>_OutgoingBatcher\<close> of
  \<^verbatim>\<open>transports/p2p/socket_v3.py\<close>, as steps of the event loop. A step runs up to the next
  point where the code can be suspended: the lock is never held across one, so the critical sections are
  single steps, and the calls of \<^verbatim>\<open>sio.emit\<close> are the only points inside a flush. Whether
  such a call is suspended (it is when clients are connected) is a parameter of its step.
\<close>

section \<open>State and steps\<close>

text \<open>\<^verbatim>\<open>_flush_task\<close>: none, asleep, or kept after it has ended.\<close>

datatype flush_timer = No_Task | Sleeping | Finished

text \<open>
  \<open>detached\<close> counts the started flushes that have not run. A batch in flight remembers whether the
  task that emits it has cancelled itself. \<open>handed\<close> are the events given to \<^verbatim>\<open>sio.emit\<close>,
  \<open>lost\<close> those that never will be.
\<close>

record 'e batcher =
  bq_queue :: "'e list"
  bq_timer :: flush_timer
  bq_detached :: nat
  bq_inflight :: "(bool \<times> 'e list) list"
  bq_handed :: "'e list"
  bq_lost :: "'e list"

definition MAX_BATCH_SIZE :: nat where "MAX_BATCH_SIZE = 5"

definition batcher_init :: "'e batcher" where
  "batcher_init = \<lparr>bq_queue = [], bq_timer = No_Task, bq_detached = 0, bq_inflight = [], bq_handed = [],
     bq_lost = []\<rparr>"

definition batch_enqueue :: "'e \<Rightarrow> 'e batcher \<Rightarrow> 'e batcher" where
  "batch_enqueue e b =
     (let b = b\<lparr>bq_queue := bq_queue b @ [e]\<rparr>
      in if MAX_BATCH_SIZE \<le> length (bq_queue b) then b\<lparr>bq_detached := Suc (bq_detached b)\<rparr>
         else if bq_timer b = No_Task then b\<lparr>bq_timer := Sleeping\<rparr> else b)"

text \<open>
  The critical section of \<^verbatim>\<open>_flush\<close>; \<open>own\<close> says that it runs in the timer's task. An empty
  queue returns at once. Otherwise the timer's task, if it has not ended, is cancelled, even when it
  is the one that runs.
\<close>

definition batch_flush :: "bool \<Rightarrow> 'e batcher \<Rightarrow> 'e batcher" where
  "batch_flush own b =
     (if bq_queue b = [] then b
      else b\<lparr>bq_queue := [], bq_timer := No_Task, bq_inflight := bq_inflight b @ [(own, bq_queue b)]\<rparr>)"

definition run_detached :: "'e batcher \<Rightarrow> 'e batcher" where
  "run_detached b = (case bq_detached b of 0 \<Rightarrow> b | Suc n \<Rightarrow> batch_flush False (b\<lparr>bq_detached := n\<rparr>))"

text \<open>\<^verbatim>\<open>_flush_after_latency\<close> after its sleep; its task ends when there is nothing to flush.\<close>

definition timer_fires :: "'e batcher \<Rightarrow> 'e batcher" where
  "timer_fires b = (if bq_timer b \<noteq> Sleeping then b
     else if bq_queue b = [] then b\<lparr>bq_timer := Finished\<rparr> else batch_flush True b)"

text \<open>
  The next event of the batch at a position is emitted. A task that has cancelled itself ends where
  the call is suspended; what follows in its batch is gone.
\<close>

definition emit_next :: "nat \<Rightarrow> bool \<Rightarrow> 'e batcher \<Rightarrow> 'e batcher" where
  "emit_next i suspends b =
     (if length (bq_inflight b) \<le> i then b
      else case bq_inflight b ! i of
        (_, []) \<Rightarrow> b\<lparr>bq_inflight := take i (bq_inflight b) @ drop (Suc i) (bq_inflight b)\<rparr>
      | (cancelled, e # es) \<Rightarrow>
          if cancelled \<and> suspends
          then b\<lparr>bq_inflight := take i (bq_inflight b) @ drop (Suc i) (bq_inflight b),
                 bq_handed := bq_handed b @ [e], bq_lost := bq_lost b @ es\<rparr>
          else b\<lparr>bq_inflight := (bq_inflight b)[i := (cancelled, es)], bq_handed := bq_handed b @ [e]\<rparr>)"

datatype 'e batch_event = Enqueue 'e | Detached | Timer | Flush_Now | Emit nat bool

fun batch_step :: "'e batch_event \<Rightarrow> 'e batcher \<Rightarrow> 'e batcher" where
  "batch_step (Enqueue e) b = batch_enqueue e b"
| "batch_step Detached b = run_detached b"
| "batch_step Timer b = timer_fires b"
| "batch_step Flush_Now b = batch_flush False b"
| "batch_step (Emit i suspends) b = emit_next i suspends b"

definition enqueued :: "'e batch_event list \<Rightarrow> 'e list" where
  "enqueued evs = concat (map (\<lambda>v. case v of Enqueue e \<Rightarrow> [e] | _ \<Rightarrow> []) evs)"

section \<open>Every event is accounted for, and something will flush\<close>

definition events_of :: "'e batcher \<Rightarrow> 'e multiset" where
  "events_of b = mset (bq_handed b) + mset (concat (map snd (bq_inflight b))) + mset (bq_queue b) + mset (bq_lost b)"

definition batch_live :: "'e batcher \<Rightarrow> bool" where
  "batch_live b = ((bq_queue b = [] \<longrightarrow> bq_timer b \<noteq> Sleeping) \<and>
     (bq_queue b \<noteq> [] \<longrightarrow> bq_timer b = Sleeping \<or> 0 < bq_detached b) \<and> bq_timer b \<noteq> Finished)"

lemma mset_inflight_split:
  "i < length xs \<Longrightarrow> mset (concat (map snd xs)) =
     mset (snd (xs ! i)) + mset (concat (map snd (take i xs @ drop (Suc i) xs)))"
  by (subst id_take_nth_drop [of i xs]) simp_all

lemma mset_inflight_update:
  "i < length xs \<Longrightarrow> mset (concat (map snd (xs[i := (c, es)]))) =
     mset es + mset (concat (map snd (take i xs @ drop (Suc i) xs)))"
  by (simp add: upd_conv_take_nth_drop)

lemma batch_step_events:
  "events_of (batch_step v b) = events_of b + mset (enqueued [v])"
proof (cases v)
  case (Emit i sus)
  show ?thesis
  proof (cases "length (bq_inflight b) \<le> i")
    case False
    then show ?thesis
      using mset_inflight_split [of i "bq_inflight b"] mset_inflight_update [of i "bq_inflight b"] Emit
      by (cases "bq_inflight b ! i"; cases "snd (bq_inflight b ! i)")
        (simp_all add: emit_next_def events_of_def enqueued_def)
  qed (simp add: Emit emit_next_def enqueued_def)
qed (auto simp: events_of_def enqueued_def batch_enqueue_def batch_flush_def run_detached_def timer_fires_def
    Let_def split: nat.split)

lemma batch_step_live: "batch_live b \<Longrightarrow> batch_live (batch_step v b)"
  by (cases v; cases "bq_timer b") (auto simp: batch_live_def batch_enqueue_def batch_flush_def run_detached_def timer_fires_def
    emit_next_def Let_def split: nat.split prod.split list.split)

lemma batch_run_live: "batch_live b \<Longrightarrow> batch_live (fold batch_step evs b)"
  by (induction evs arbitrary: b) (simp_all add: batch_step_live)

lemma batch_run_events: "events_of (fold batch_step evs b) = events_of b + mset (enqueued evs)"
proof (induction evs arbitrary: b)
  case (Cons v evs)
  have "enqueued (v # evs) = enqueued [v] @ enqueued evs" by (simp add: enqueued_def)
  then show ?case using Cons by (simp add: batch_step_events)
qed (simp add: enqueued_def)

text \<open>C35: in every order of the event loop's steps, each event that was queued is exactly once
  handed over, in flight, waiting or lost, and as long as events wait, a timer is running or a flush
  has been started: nothing waits for ever.\<close>

theorem batcher_accounts:
  "let b = fold batch_step evs batcher_init in
    mset (bq_handed b) + mset (concat (map snd (bq_inflight b))) + mset (bq_queue b) + mset (bq_lost b) =
      mset (enqueued evs) \<and>
    (bq_queue b = [] \<or> bq_timer b = Sleeping \<or> 0 < bq_detached b)"
proof -
  let ?b = "fold batch_step evs batcher_init"
  have "batch_live (batcher_init :: 'a batcher)" by (simp add: batch_live_def batcher_init_def)
  then have "batch_live ?b" by (rule batch_run_live)
  moreover have "events_of ?b = mset (enqueued evs)"
    by (simp add: batch_run_events) (simp add: events_of_def batcher_init_def)
  ultimately show ?thesis by (auto simp: batch_live_def events_of_def Let_def)
qed

lemma enqueue_few:
  "length (bq_queue b @ es) < MAX_BATCH_SIZE \<Longrightarrow> bq_timer b \<noteq> No_Task \<Longrightarrow>
   fold batch_step (map Enqueue es) b = b\<lparr>bq_queue := bq_queue b @ es\<rparr>"
  by (induction es arbitrary: b) (simp_all add: batch_enqueue_def)

text \<open>With clients connected, of two to four events queued within the ten milliseconds of the
  timer only the first reaches the server; the flush cancels the task it runs in, which ends at the
  first suspended emit. The second event of every handshake is one of the lost.\<close>

theorem timer_batch_loses:
  assumes "es \<noteq> []" "length es < 5"
  shows "let b = fold batch_step (map Enqueue es @ [Timer, Emit 0 True]) batcher_init in
    bq_handed b = [hd es] \<and> bq_lost b = tl es \<and> bq_inflight b = [] \<and> bq_queue b = [] \<and> bq_timer b = No_Task"
proof -
  obtain e fs where es: "es = e # fs" using assms(1) by (cases es) auto
  let ?b = "batch_enqueue e batcher_init"
  have b: "?b = batcher_init\<lparr>bq_queue := [e], bq_timer := Sleeping\<rparr>"
    by (simp add: batch_enqueue_def batcher_init_def MAX_BATCH_SIZE_def)
  have "fold batch_step (map Enqueue es) batcher_init = batcher_init\<lparr>bq_queue := es, bq_timer := Sleeping\<rparr>"
    using enqueue_few [of ?b fs] assms(2) by (simp add: es b MAX_BATCH_SIZE_def)
  then show ?thesis
    using assms(1) by (simp add: es timer_fires_def batch_flush_def emit_next_def batcher_init_def)
qed

theorem timer_batch_loses_witness:
  "bq_lost (fold batch_step (map Enqueue [''handshake_received'', ''contact_status_change''] @ [Timer, Emit 0 True])
     batcher_init) = [''contact_status_change'']"
  using timer_batch_loses [of "[''handshake_received'', ''contact_status_change'']"] by (simp add: Let_def)

end
