(* ===== verification/App_V3.thy ===== *)
theory App_V3
  imports Limiters Encodings
begin

text \<open>
  What stands in front of the routers: the rate limit per client and the gate of the metrics of
  \<^verbatim>\<open>transports/p2p/app_v3.py\<close> and \<^verbatim>\<open>transports/relay/app_relay.py\<close>, and the headers of
  \<^verbatim>\<open>core/security_headers.py\<close>.
\<close>

section \<open>The rate limit\<close>

type_synonym request_log = "string \<rightharpoonup> real list"

definition MAX_REQUESTS :: nat where "MAX_REQUESTS = 120"
definition PERIOD :: real where "PERIOD = 60"

definition request_stamps :: "string \<Rightarrow> request_log \<Rightarrow> real list" where
  "request_stamps ip m = (case m ip of Some q \<Rightarrow> q | None \<Rightarrow> [])"

definition admit_request :: "string \<Rightarrow> real \<Rightarrow> request_log \<Rightarrow> bool \<times> request_log" where
  "admit_request ip now m =
     (let ts = filter (\<lambda>t. now - t < PERIOD) (request_stamps ip m)
      in if MAX_REQUESTS \<le> length ts then (False, m) else (True, m(ip \<mapsto> ts @ [now])))"

text \<open>The middleware: whether the request reaches the application; otherwise it is answered with 429.\<close>

definition rate_limit_middleware ::
    "string \<Rightarrow> string option \<Rightarrow> string \<Rightarrow> real \<Rightarrow> request_log \<Rightarrow> unit http \<times> request_log" where
  "rate_limit_middleware typ client path now m =
     (if typ \<noteq> ''http'' \<or> path \<in> {''/healthz'', ''/readyz'', ''/metrics''} then (Inr (), m)
      else let (ok, m) = admit_request (case client of Some ip \<Rightarrow> ip | None \<Rightarrow> ''127.0.0.1'') now m
           in (if ok then Inr () else Inl (HTTP 429 ''Too many requests. Please try again later.''), m))"

interpretation http_rate: window_limiter "\<lambda>now t. now - t < PERIOD" "request_stamps ip" "admit_request ip"
    MAX_REQUESTS for ip
  by unfold_locales (auto simp: admit_request_def request_stamps_def Let_def)

definition through :: "string \<Rightarrow> string \<Rightarrow> real \<Rightarrow> request_log \<Rightarrow> bool \<times> request_log" where
  "through ip path t m = (let (r, m) = rate_limit_middleware ''http'' (Some ip) path t m in (r = Inr (), m))"

lemma through_admit: "path \<notin> {''/healthz'', ''/readyz'', ''/metrics''} \<Longrightarrow> through ip path = admit_request ip"
  by (rule ext)+ (auto simp: through_def rate_limit_middleware_def split: prod.split)

text \<open>In no minute do more than 120 requests of a client for the application's paths pass.\<close>

theorem http_rate_bound:
  assumes "path \<notin> {''/healthz'', ''/readyz'', ''/metrics''}" "sorted ts" "request_stamps ip m = []"
  shows "length (filter (\<lambda>t. t \<le> x \<and> x - t < 60) (serve (through ip path) ts m)) \<le> 120"
  using http_rate.serve_bound [of ip m ts x] assms
  by (simp add: through_admit MAX_REQUESTS_def PERIOD_def)

section \<open>Metrics\<close>

definition is_ascii :: "string \<Rightarrow> bool" where
  "is_ascii s = list_all (\<lambda>c. code c < 128) s"

definition bearer_token :: "string \<Rightarrow> string" where
  "bearer_token h = (if py_startswith (py_lower h) ''bearer '' then py_strip (drop 7 h) else [])"

text \<open>\<^verbatim>\<open>secrets.compare_digest\<close> raises on text outside ASCII.\<close>

definition metrics_gate :: "string option \<Rightarrow> string \<Rightarrow> string \<Rightarrow> unit http" where
  "metrics_gate client auth_header expected =
     (let ip = (case client of Some ip \<Rightarrow> ip | None \<Rightarrow> []); token = bearer_token auth_header
      in if ip \<in> {''127.0.0.1'', ''::1'', ''localhost''} then Inr ()
         else if expected = [] \<or> token = [] then Inl (HTTP 401 ''Metrics endpoint requires loopback or token'')
         else if \<not> is_ascii token \<or> \<not> is_ascii expected then Inl (HTTP 500 ''Internal server error'')
         else if token = expected then Inr ()
         else Inl (HTTP 401 ''Metrics endpoint requires loopback or token''))"

lemma metrics_gate_token:
  "client \<noteq> Some ''127.0.0.1'' \<Longrightarrow> client \<noteq> Some ''::1'' \<Longrightarrow> client \<noteq> Some ''localhost'' \<Longrightarrow>
   metrics_gate client h expected = Inr () \<Longrightarrow> expected \<noteq> [] \<and> bearer_token h = expected"
  by (auto simp: metrics_gate_def Let_def split: if_splits option.splits)

section \<open>Security headers\<close>

definition CSP :: string where
  "CSP = ''default-src 'self'; script-src 'self' https://cdn.socket.io https://cdnjs.cloudflare.com; '' @
     ''style-src 'self' 'unsafe-inline' https://fonts.googleapis.com; font-src 'self' https://fonts.gstatic.com; '' @
     ''object-src 'none'; base-uri 'self'; frame-ancestors 'none'; connect-src 'self' ws: wss:;''"

definition base_headers :: "(string \<times> string) list" where
  "base_headers =
     [(''X-Content-Type-Options'', ''nosniff''), (''X-Frame-Options'', ''DENY''), (''X-XSS-Protection'', ''0''),
      (''Referrer-Policy'', ''no-referrer''),
      (''Permissions-Policy'', ''camera=(), microphone=(), geolocation=()''),
      (''Cross-Origin-Opener-Policy'', ''same-origin''), (''Cross-Origin-Resource-Policy'', ''same-origin''),
      (''Cross-Origin-Embedder-Policy'', ''require-corp''), (''Content-Security-Policy'', CSP)]"

definition sensitive_path :: "string \<Rightarrow> bool" where
  "sensitive_path path = (path \<in> {''/'', ''/login'', ''/register'', ''/chat''} \<or>
     py_startswith path ''/v3/auth'' \<or> py_startswith path ''/v3/keys'' \<or> py_startswith path ''/v3/sync'')"

text \<open>What is set on a response, over what it has; \<open>forwarded\<close> is \<^verbatim>\<open>x-forwarded-proto\<close>.\<close>

definition secured :: "bool \<Rightarrow> bool \<Rightarrow> (string \<rightharpoonup> string) \<Rightarrow> (string \<rightharpoonup> string)" where
  "secured https no_store h =
     ((if https then h(''Strict-Transport-Security'' \<mapsto> ''max-age=31536000; includeSubDomains'') else h)
        ++ map_of (rev base_headers)) ++
     (if no_store then [''Cache-Control'' \<mapsto> ''no-store, max-age=0''] else Map.empty)"

definition security_dispatch ::
    "string \<Rightarrow> string \<Rightarrow> string \<Rightarrow> (string \<rightharpoonup> string) \<Rightarrow> (string \<rightharpoonup> string)" where
  "security_dispatch scheme forwarded path =
     secured (scheme = ''https'' \<or> py_lower forwarded = ''https'') (sensitive_path path)"

text \<open>The hook of the older Flask server knows fewer sensitive paths.\<close>

definition set_security_headers ::
    "bool \<Rightarrow> string \<Rightarrow> string \<Rightarrow> (string \<rightharpoonup> string) \<Rightarrow> (string \<rightharpoonup> string)" where
  "set_security_headers is_secure forwarded path =
     secured (is_secure \<or> py_lower forwarded = ''https'') (path \<in> {''/'', ''/login'', ''/register'', ''/chat''})"

lemma framing_denied:
  "security_dispatch scheme forwarded path h ''X-Frame-Options'' = Some ''DENY''"
  "set_security_headers is_secure forwarded path h ''X-Frame-Options'' = Some ''DENY''"
  by (simp_all add: security_dispatch_def set_security_headers_def secured_def base_headers_def)

end
