(* ===== verification/Startup.thy ===== *)
theory Startup
  imports Node_DB Json App_V3 "HOL-Library.List_Lexorder" "HOL-Library.Char_ord"
begin

text \<open>
  What runs around the servers: the migrations of the schema (\<^verbatim>\<open>core/migrations.py\<close>), the
  registry that switches between the relay and the peer-to-peer transport
  (\<^verbatim>\<open>core/transport_registry.py\<close>) and the check for several workers
  (\<^verbatim>\<open>core/gunicorn_check.py\<close>), and the dispatcher that serves the active one
  (\<^verbatim>\<open>server.py\<close>). The effect of a migration file and of starting, handing over
  and stopping a transport are parameters.
\<close>

section \<open>Migrations\<close>

text \<open>
  \<open>schema_data\<close> is everything in the database but the table of applied versions. A script says
  whether it succeeded and what it left behind.
\<close>

record 'd schema =
  schema_data :: 'd
  schema_versions :: "string list"

definition migration_files :: "string list \<Rightarrow> string list" where
  "migration_files listing = sort (filter (\<lambda>f. py_endswith f ''.sql'') listing)"

text \<open>
  \<^verbatim>\<open>executescript\<close> commits as it goes, so what a failed script did before it failed stays; on a
  connection without it (\<open>script_api = False\<close>) the rollback takes it back.
\<close>

definition apply_migration ::
    "(string \<Rightarrow> 'd \<Rightarrow> bool \<times> 'd) \<Rightarrow> bool \<Rightarrow> string \<Rightarrow> 'd schema \<Rightarrow> bool \<times> 'd schema" where
  "apply_migration script script_api f s =
     (if f \<in> set (schema_versions s) then (True, s)
      else let (ok, d) = script f (schema_data s)
           in if ok then (True, s\<lparr>schema_data := d, schema_versions := schema_versions s @ [f]\<rparr>)
              else (False, if script_api then s\<lparr>schema_data := d\<rparr> else s))"

text \<open>The first failure is raised; the result says whether all went through.\<close>

fun apply_migrations ::
    "(string \<Rightarrow> 'd \<Rightarrow> bool \<times> 'd) \<Rightarrow> bool \<Rightarrow> string list \<Rightarrow> 'd schema \<Rightarrow> bool \<times> 'd schema" where
  "apply_migrations script script_api [] s = (True, s)"
| "apply_migrations script script_api (f # fs) s =
     (let (ok, s) = apply_migration script script_api f s
      in if ok then apply_migrations script script_api fs s else (False, s))"

definition run_migrations ::
    "(string \<Rightarrow> 'd \<Rightarrow> bool \<times> 'd) \<Rightarrow> bool \<Rightarrow> string list option \<Rightarrow> 'd schema \<Rightarrow> bool \<times> 'd schema" where
  "run_migrations script script_api dir s = (case dir of
     None \<Rightarrow> (True, s) | Some listing \<Rightarrow> apply_migrations script script_api (migration_files listing) s)"

section \<open>The transports\<close>

record registry =
  transports :: "string list"
  active_mode :: string

datatype transport_call = Start string | Handoff string string | Stop string

datatype switch_result = Switched bool | No_Active_Transport

text \<open>
  \<open>starts\<close>, \<open>hands_over\<close> and \<open>stops\<close> say which calls return; a handover that raises skips the
  stop. The calls made are the third result.
\<close>

definition switch_mode ::
    "(string \<Rightarrow> bool) \<Rightarrow> (string \<Rightarrow> string \<Rightarrow> bool) \<Rightarrow> string \<Rightarrow> registry \<Rightarrow> switch_result \<times> registry \<times> transport_call list" where
  "switch_mode starts hands_over new_mode r =
     (let new = py_lower new_mode; cur = active_mode r
      in if new \<notin> set (transports r) then (Switched False, r, [])
         else if new = cur then (Switched True, r, [])
         else if cur \<notin> set (transports r) then (No_Active_Transport, r, [])
         else if \<not> starts new then (Switched False, r, [Start new])
         else (Switched True, r\<lparr>active_mode := new\<rparr>,
               [Start new, Handoff cur new] @ (if hands_over cur new then [Stop cur] else [])))"

section \<open>The dispatcher\<close>

definition PLACEHOLDER_SECRETS :: "string list" where
  "PLACEHOLDER_SECRETS = [''your-secure-random-key-here'', ''diagnostics_ephemeral_control_key_2026'', ''changeme'',
     [], ''ci-testing-secret-key-do-not-use-in-production'', ''CHANGE_ME_TO_A_RANDOM_32_BYTE_HEX_VALUE'',
     ''e3b0c44298fc1c149afbf4c8996fb92427ae41e4649b934ca495991b7852b855'']"

text \<open>The key the process runs with, if it starts; the arguments are the two variables.\<close>

definition boot_secret :: "string \<Rightarrow> string \<Rightarrow> py_error + string" where
  "boot_secret flask_secret_key secret_key =
     (let k = (if flask_secret_key = [] then secret_key else flask_secret_key)
      in if k \<in> set PLACEHOLDER_SECRETS
         then Inl (RuntimeError ''Refusing to start: FLASK_SECRET_KEY is missing, empty, or a known placeholder.'')
         else Inr k)"

text \<open>\<^verbatim>\<open>is_authorized_admin\<close>; the comparison raises on text outside ASCII.\<close>

definition is_authorized_admin :: "string \<Rightarrow> string \<Rightarrow> bool http" where
  "is_authorized_admin admin_secret provided =
     (if admin_secret = [] \<or> provided = [] then Inr False
      else if \<not> is_ascii admin_secret \<or> \<not> is_ascii provided then Inl (HTTP 500 ''Internal Server Error'')
      else Inr (provided = admin_secret))"

record dispatcher =
  dp_registry :: registry
  dp_mode :: string

definition requested_mode :: "json \<Rightarrow> string http" where
  "requested_mode j = (case (if json_truthy j then j else JObj []) of
     JObj kvs \<Rightarrow>
       (case map_of kvs ''mode'' of
          Some (JStr new) \<Rightarrow> (if new = ''relay'' \<or> new = ''p2p'' then Inr new else Inl (HTTP 400 ''Invalid mode''))
        | _ \<Rightarrow> Inl (HTTP 400 ''Invalid mode''))
   | _ \<Rightarrow> Inl (HTTP 500 ''Internal Server Error''))"

definition dispatcher_switch ::
    "(string \<Rightarrow> bool) \<Rightarrow> (string \<Rightarrow> string \<Rightarrow> bool) \<Rightarrow> string \<Rightarrow> dispatcher \<Rightarrow>
     string http \<times> dispatcher \<times> transport_call list" where
  "dispatcher_switch starts hands_over new d = (case switch_mode starts hands_over new (dp_registry d) of
     (Switched True, r, calls) \<Rightarrow> (Inr new, d\<lparr>dp_registry := r, dp_mode := new\<rparr>, calls)
   | (Switched False, r, calls) \<Rightarrow> (Inl (HTTP 500 ''Mode switch failed''), d\<lparr>dp_registry := r\<rparr>, calls)
   | (No_Active_Transport, r, calls) \<Rightarrow> (Inl (HTTP 500 ''Internal Server Error''), d, calls))"

text \<open>
  The POST of \<^verbatim>\<open>/api/mode\<close>. \<open>body\<close> is what Flask's \<^verbatim>\<open>get_json\<close> gives or raises,
  \<open>ports_ok\<close> whether the two port variables are integers.
\<close>

definition handle_mode_post ::
    "(string \<Rightarrow> bool) \<Rightarrow> (string \<Rightarrow> string \<Rightarrow> bool) \<Rightarrow> string \<Rightarrow> string \<Rightarrow> bool \<Rightarrow> json http \<Rightarrow> dispatcher \<Rightarrow>
     string http \<times> dispatcher \<times> transport_call list" where
  "handle_mode_post starts hands_over admin_secret provided ports_ok body d =
     (case is_authorized_admin admin_secret provided of
        Inl e \<Rightarrow> (Inl e, d, [])
      | Inr authorized \<Rightarrow>
          if \<not> authorized then (Inl (HTTP 401 ''Unauthorized''), d, [])
          else (case body of
            Inl e \<Rightarrow> (Inl e, d, [])
          | Inr j \<Rightarrow>
              (case requested_mode j of
                 Inl e \<Rightarrow> (Inl e, d, [])
               | Inr new \<Rightarrow>
                   if \<not> ports_ok then (Inl (HTTP 500 ''Internal Server Error''), d, [])
                   else dispatcher_switch starts hands_over new d)))"

text \<open>\<^verbatim>\<open>UnifiedWSGIDispatcher\<close>: which application serves a path.\<close>

datatype wsgi_app = Dispatcher_App | Relay_App | P2P_App

definition wsgi_dispatch :: "dispatcher \<Rightarrow> string \<Rightarrow> wsgi_app" where
  "wsgi_dispatch d path =
     (if py_startswith path ''/api/mode'' \<or> py_startswith path ''/api/health'' then Dispatcher_App
      else if dp_mode d = ''relay'' then Relay_App else P2P_App)"

section \<open>Workers\<close>

text \<open>The arguments of the process: the number of workers asked for and whether gunicorn is in use.\<close>

fun scan_args :: "string list \<Rightarrow> int \<times> bool \<Rightarrow> int \<times> bool" where
  "scan_args [] acc = acc"
| "scan_args (a # as) acc =
     scan_args as
       (if a = ''-w'' \<or> a = ''--workers''
        then (case as of [] \<Rightarrow> acc | v # _ \<Rightarrow> (case py_int v of None \<Rightarrow> acc | Some n \<Rightarrow> (n, True)))
        else if py_startswith a ''--workers=''
        then (case py_int (drop 10 a) of None \<Rightarrow> acc | Some n \<Rightarrow> (n, True))
        else acc)"

definition infix_of :: "string \<Rightarrow> string \<Rightarrow> bool" where
  "infix_of p s = list_ex (\<lambda>i. take (length p) (drop i s) = p) [0..<Suc (length s)]"

text \<open>\<open>siblings\<close> is the number of processes with the same parent, \<open>None\<close> when it can not be read.\<close>

definition assert_single_worker ::
    "string \<Rightarrow> string list \<Rightarrow> string \<Rightarrow> int option \<Rightarrow> string \<Rightarrow> py_error + unit" where
  "assert_single_worker server_software argv web_concurrency siblings redis_url =
     (let (workers, gunicorn) = scan_args argv (1, infix_of ''gunicorn'' (py_lower server_software));
          (workers, gunicorn) =
            (if web_concurrency = [] then (workers, gunicorn)
             else case py_int web_concurrency of
               None \<Rightarrow> (workers, gunicorn)
             | Some n \<Rightarrow> if workers < n then (n, True) else (workers, gunicorn));
          workers =
            (if gunicorn \<and> workers = 1
             then (case siblings of None \<Rightarrow> workers | Some n \<Rightarrow> max n workers) else workers)
      in if gunicorn \<and> 1 < workers \<and> redis_url = []
         then Inl (RuntimeError ''Multi-worker Gunicorn detected but REDIS_URL is not set.'') else Inr ())"

section \<open>What they promise\<close>

lemma apply_migrations_done:
  "set fs \<subseteq> set (schema_versions s) \<Longrightarrow> apply_migrations script script_api fs s = (True, s)"
  by (induction fs) (simp_all add: apply_migration_def)

lemma apply_migration_versions:
  "apply_migration script script_api f s = (ok, s') \<Longrightarrow>
   set (schema_versions s) \<subseteq> set (schema_versions s') \<and> (ok \<longrightarrow> f \<in> set (schema_versions s'))"
  by (auto simp: apply_migration_def split: if_splits prod.splits)

lemma apply_migrations_versions:
  "apply_migrations script script_api fs s = (ok, s') \<Longrightarrow>
   set (schema_versions s) \<subseteq> set (schema_versions s') \<and> (ok \<longrightarrow> set fs \<subseteq> set (schema_versions s'))"
proof (induction fs arbitrary: s)
  case (Cons f fs)
  obtain b t where b: "apply_migration script script_api f s = (b, t)" by (cases "apply_migration script script_api f s")
  show ?case
  proof (cases b)
    case True
    then have "apply_migrations script script_api fs t = (ok, s')" using Cons.prems b by simp
    from Cons.IH [OF this] apply_migration_versions [OF b] True show ?thesis by auto
  next
    case False
    then show ?thesis using Cons.prems b apply_migration_versions [OF b] by simp
  qed
qed simp

text \<open>
  The scripts of a run in the order they were executed: the numbered files that were not applied
  before, each once.
\<close>

definition applied_all :: "(string \<Rightarrow> 'd \<Rightarrow> bool \<times> 'd) \<Rightarrow> string list \<Rightarrow> 'd \<Rightarrow> 'd" where
  "applied_all script fs d = fold (\<lambda>f d. snd (script f d)) fs d"

lemma apply_migrations_effect:
  "apply_migrations script script_api fs s = (True, s') \<Longrightarrow> distinct fs \<Longrightarrow>
   schema_versions s' = schema_versions s @ filter (\<lambda>f. f \<notin> set (schema_versions s)) fs \<and>
   schema_data s' = applied_all script (filter (\<lambda>f. f \<notin> set (schema_versions s)) fs) (schema_data s)"
proof (induction fs arbitrary: s)
  case (Cons f fs)
  have same: "filter (\<lambda>g. g \<noteq> f \<and> g \<notin> X) fs = filter (\<lambda>g. g \<notin> X) fs" for X
    using Cons.prems(2) by (intro filter_cong) auto
  show ?case
  proof (cases "f \<in> set (schema_versions s)")
    case True
    then show ?thesis using Cons by (simp add: apply_migration_def)
  next
    case False
    obtain d where d: "script f (schema_data s) = (True, d)"
      using Cons.prems(1) False by (auto simp: apply_migration_def split: prod.splits if_splits)
    have "apply_migrations script script_api fs
        (s\<lparr>schema_data := d, schema_versions := schema_versions s @ [f]\<rparr>) = (True, s')"
      using Cons.prems(1) False d by (simp add: apply_migration_def)
    from Cons.IH [OF this] Cons.prems(2) show ?thesis
      using False d by (simp add: applied_all_def same conj_commute)
  qed
qed (simp add: applied_all_def)

text \<open>Migrations run once: a start that succeeds has executed, in the order of their names, exactly the
  files not applied before, has recorded each, and a second start executes nothing.\<close>

theorem migrations_once:
  assumes "run_migrations script script_api (Some listing) s = (True, s')" "distinct listing"
  shows "schema_data s' =
      applied_all script (filter (\<lambda>f. f \<notin> set (schema_versions s)) (migration_files listing)) (schema_data s) \<and>
    set (migration_files listing) \<subseteq> set (schema_versions s') \<and> sorted (migration_files listing) \<and>
    run_migrations script' api' (Some listing) s' = (True, s')"
proof -
  have r: "apply_migrations script script_api (migration_files listing) s = (True, s')"
    using assms(1) by (simp add: run_migrations_def)
  have "distinct (migration_files listing)" using assms(2) by (simp add: migration_files_def)
  from apply_migrations_effect [OF r this] apply_migrations_versions [OF r]
  have "schema_data s' =
      applied_all script (filter (\<lambda>f. f \<notin> set (schema_versions s)) (migration_files listing)) (schema_data s)"
    "set (migration_files listing) \<subseteq> set (schema_versions s')" by auto
  then show ?thesis by (simp add: run_migrations_def apply_migrations_done migration_files_def)
qed

theorem migrations_once_witness:
  "run_migrations (\<lambda>f d. (True, d)) True (Some [''0001.sql'', ''README''])
     \<lparr>schema_data = (), schema_versions = [''0001.sql'']\<rparr> =
   (True, \<lparr>schema_data = (), schema_versions = [''0001.sql'']\<rparr>)"
proof -
  have r: "run_migrations (\<lambda>f d. (True, d)) True (Some [''0001.sql'', ''README''])
      \<lparr>schema_data = (), schema_versions = []\<rparr> = (True, \<lparr>schema_data = (), schema_versions = [''0001.sql'']\<rparr>)"
    by (simp add: run_migrations_def migration_files_def apply_migration_def py_endswith_def)
  from migrations_once [OF r, of "\<lambda>f d. (True, d)" True] show ?thesis by simp
qed

text \<open>A switch never leaves the registry on a transport that did not start.\<close>

lemma switch_mode_active:
  "switch_mode starts hands_over new r = (Switched True, r', calls) \<Longrightarrow>
   active_mode r' = py_lower new \<and> (active_mode r' = active_mode r \<or> starts (active_mode r')) \<and>
   active_mode r' \<in> set (transports r')"
  by (auto simp: switch_mode_def Let_def split: if_splits)

definition dispatch_ok :: "dispatcher \<Rightarrow> bool" where
  "dispatch_ok d \<longleftrightarrow> transports (dp_registry d) = [''relay'', ''p2p''] \<and> dp_mode d = active_mode (dp_registry d)"

text \<open>The dispatcher always serves the transport that the registry holds for active.\<close>

lemma dispatcher_switch_ok:
  "dispatch_ok d \<Longrightarrow> py_lower new = new \<Longrightarrow> dispatch_ok (fst (snd (dispatcher_switch starts hands_over new d)))"
  by (auto simp: dispatch_ok_def dispatcher_switch_def switch_mode_def Let_def)

lemma requested_mode_lower: "requested_mode j = Inr new \<Longrightarrow> py_lower new = new"
  by (auto simp: requested_mode_def py_lower_def py_lower_char_def
    split: if_splits json.splits option.splits)

lemma handle_mode_post_ok:
  "dispatch_ok d \<Longrightarrow> dispatch_ok (fst (snd (handle_mode_post starts hands_over admin provided ports_ok body d)))"
  by (auto simp: handle_mode_post_def dispatcher_switch_ok requested_mode_lower split: sum.split)

text \<open>Several workers without a shared store never boot when they are asked for on the command line.\<close>

lemma workers_need_redis:
  "py_int n = Some k \<Longrightarrow> 1 < k \<Longrightarrow> \<not> py_startswith n ''--workers='' \<Longrightarrow> n \<noteq> ''-w'' \<Longrightarrow>
   n \<noteq> ''--workers'' \<Longrightarrow> assert_single_worker sw [''-w'', n] [] siblings [] \<noteq> Inr ()"
  by (simp add: assert_single_worker_def Let_def)

end
