(* ===== verification/Tor_Circuits.thy ===== *)
theory Tor_Circuits
  imports Onion_Keys Sha256
begin

text \<open>
  The Tor process and its control port, \<^verbatim>\<open>transports/p2p/tor_manager.py\<close> and
  \<^verbatim>\<open>core/tor_daemon.py\<close>: finding ports, checking and unpacking the downloaded bundle, the
  configuration, hidden services, the bootstrap, the client of the control port with its fallback,
  and the HTTP clients that keep one circuit per peer. Sockets, processes, the file system,
  \<^verbatim>\<open>stem\<close>, \<^verbatim>\<open>gpg\<close> and SHA-3 are arguments: the answers they give.
\<close>

section \<open>Ports\<close>

text \<open>\<open>free\<close> says whether a port of the loopback interface can be bound.\<close>

function find_free_port :: "(int \<Rightarrow> bool) \<Rightarrow> int \<Rightarrow> int py" where
  "find_free_port free port =
     (if port < 65535 then (if free port then Inr port else find_free_port free (port + 1))
      else Inl (RuntimeError ''No free ports available!''))"
  by pat_completeness auto

termination by (relation "measure (\<lambda>(free, port). nat (65535 - port))") auto

declare find_free_port.simps [simp del]

section \<open>The bundle\<close>

text \<open>\<^verbatim>\<open>os.walk\<close> as the list of the directories with their files.\<close>

definition find_tor_binary :: "string \<Rightarrow> (string \<times> string list) list \<Rightarrow> (string \<times> string) option" where
  "find_tor_binary exe_name walk = (case concat (map (\<lambda>(root, files).
       map (Pair root) (filter (\<lambda>f. py_lower f = py_lower exe_name) files)) walk) of
     [] \<Rightarrow> None | hit # _ \<Rightarrow> Some hit)"

fun split_where :: "(char \<Rightarrow> bool) \<Rightarrow> string \<Rightarrow> string list" where
  "split_where p [] = [[]]"
| "split_where p (c # cs) = (if p c then [] # split_where p cs
     else case split_where p cs of [] \<Rightarrow> [[c]] | w # ws \<Rightarrow> (c # w) # ws)"

definition line_end :: "char \<Rightarrow> bool" where
  "line_end c = (code c \<in> {10, 11, 12, 13, 28, 29, 30, 133})"

definition py_words :: "string \<Rightarrow> string list" where
  "py_words s = filter (\<lambda>w. w \<noteq> []) (split_where py_isspace s)"

text \<open>The first line that names the file; an empty line more or less makes no difference.\<close>

fun listed_hash :: "string \<Rightarrow> string list \<Rightarrow> string option" where
  "listed_hash filename [] = None"
| "listed_hash filename (l # ls) = (case py_words l of
     h # f # _ \<Rightarrow> if dropWhile (\<lambda>c. c = CHR ''*'') f = filename then Some h else listed_hash filename ls
   | _ \<Rightarrow> listed_hash filename ls)"

text \<open>The lists of hashes the two addresses give, \<open>None\<close> when a request or its decoding raises.\<close>

fun fetch_expected_sha256 :: "string \<Rightarrow> string option list \<Rightarrow> string py" where
  "fetch_expected_sha256 filename [] = Inl (RuntimeError ''Could not retrieve checksum'')"
| "fetch_expected_sha256 filename (None # rs) = fetch_expected_sha256 filename rs"
| "fetch_expected_sha256 filename (Some content # rs) = (case listed_hash filename (split_where line_end content) of
     Some h \<Rightarrow> Inr h | None \<Rightarrow> fetch_expected_sha256 filename rs)"

text \<open>What \<^verbatim>\<open>gpg --verify\<close> says, or that running it raises a \<^verbatim>\<open>SubprocessError\<close>.\<close>

datatype gpg_run = Gpg_Good | Gpg_Bad | Gpg_Broken

definition verify_gpg_signature :: "bool \<Rightarrow> gpg_run \<Rightarrow> bool py" where
  "verify_gpg_signature gpg_bin run =
     (if \<not> gpg_bin then Inr False
      else case run of
        Gpg_Good \<Rightarrow> Inr True
      | Gpg_Bad \<Rightarrow> Inl (ValueError ''Tor Expert Bundle GPG signature is INVALID!'')
      | Gpg_Broken \<Rightarrow> Inr False)"

text \<open>
  The checks of \<^verbatim>\<open>download_and_extract_tor\<close>: \<open>fetched\<close> says that the signature file could be
  loaded. Whatever the signature check raises is printed.
\<close>

definition bundle_accepted :: "bool \<Rightarrow> bool \<Rightarrow> gpg_run \<Rightarrow> string \<Rightarrow> string option list \<Rightarrow> bytes \<Rightarrow> unit py" where
  "bundle_accepted gpg_bin fetched run filename listings archive =
     (let verified = (gpg_bin \<and> fetched \<and> verify_gpg_signature gpg_bin run = Inr True)
      in if verified then Inr ()
         else case fetch_expected_sha256 filename listings of
           Inl e \<Rightarrow> Inl e
         | Inr h \<Rightarrow> if sha256_hex archive = h then Inr () else Inl (ValueError ''Tor Expert Bundle checksum mismatch!''))"

text \<open>
  The members that are extracted: \<open>resolve\<close> is \<^verbatim>\<open>os.path.realpath\<close> below the directory after
  the members before it were extracted.
\<close>

fun extract_members :: "(string list \<Rightarrow> string \<Rightarrow> string) \<Rightarrow> string \<Rightarrow> string list \<Rightarrow> string list \<Rightarrow> string list" where
  "extract_members resolve dir before [] = before"
| "extract_members resolve dir before (m # ms) =
     (let path = resolve before m
      in extract_members resolve dir
           (if py_startswith path (dir @ ''/'') \<or> path = dir then before @ [m] else before) ms)"

section \<open>Configuration and hidden services\<close>

definition torrc :: "nat \<Rightarrow> nat \<Rightarrow> nat \<Rightarrow> string \<Rightarrow> string list \<Rightarrow> string" where
  "torrc socks_port control_port peer_port data_dir dirs =
     ''SocksPort 127.0.0.1:'' @ nat_str socks_port @ [newline] @
     ''ControlPort 127.0.0.1:'' @ nat_str control_port @ [newline] @
     ''CookieAuthentication 1'' @ [newline] @
     ''DataDirectory '' @ data_dir @ [newline] @
     concat (map (\<lambda>d. ''HiddenServiceDir '' @ d @ [newline] @
       ''HiddenServicePort 80 127.0.0.1:'' @ nat_str peer_port @ [newline]) dirs)"

fun contains_text :: "string \<Rightarrow> string \<Rightarrow> bool" where
  "contains_text p s = (py_startswith s p \<or> (case s of [] \<Rightarrow> False | _ # cs \<Rightarrow> contains_text p cs))"

declare contains_text.simps [simp del]

definition hex_upper :: "string \<Rightarrow> string" where
  "hex_upper s = map (\<lambda>c. if 97 \<le> code c \<and> code c \<le> 102 then char_of (code c - 32) else c) s"

text \<open>
  The exchange over the control port: the commands sent, without their line ends, and the result.
  \<open>cookie\<close> is the file's content, the replies are what is received after each command.
\<close>

definition reload_tor_config :: "bytes option \<Rightarrow> string \<Rightarrow> string \<Rightarrow> string list \<times> unit py" where
  "reload_tor_config cookie reply1 reply2 = (case cookie of
     None \<Rightarrow> ([], Inl (RuntimeError ''Tor control auth cookie not found.''))
   | Some bs \<Rightarrow>
       let auth = ''AUTHENTICATE '' @ hex_upper (to_hex bs)
       in if \<not> contains_text ''250'' reply1 then ([auth], Inl (RuntimeError (''Tor control authentication failed: '' @ reply1)))
          else if \<not> contains_text ''250'' reply2
          then ([auth, ''SIGNAL RELOAD''], Inl (RuntimeError (''Tor configuration reload failed: '' @ reply2)))
          else ([auth, ''SIGNAL RELOAD''], Inr ()))"

text \<open>The file \<^verbatim>\<open>hostname\<close> as the thirty looks at it find it.\<close>

definition wait_hostname :: "(nat \<Rightarrow> string option) \<Rightarrow> string option" where
  "wait_hostname look = Option.bind (List.find (\<lambda>i. case look i of Some t \<Rightarrow> py_strip t \<noteq> [] | None \<Rightarrow> False) [0..<30])
     (\<lambda>i. map_option py_strip (look i))"

text \<open>The directories are those found after the new one was made.\<close>

definition add_onion_service_dir ::
    "bytes option \<Rightarrow> string \<Rightarrow> string \<Rightarrow> (nat \<Rightarrow> string option) \<Rightarrow> string \<Rightarrow> string py" where
  "add_onion_service_dir cookie reply1 reply2 look name = (case snd (reload_tor_config cookie reply1 reply2) of
     Inl e \<Rightarrow> Inl e
   | Inr _ \<Rightarrow> (case wait_hostname look of
       Some w \<Rightarrow> Inr w | None \<Rightarrow> Inl (RuntimeError (''Tor failed to generate hostname for '' @ name))))"

definition get_onion_address :: "(nat \<Rightarrow> string option) \<Rightarrow> string py" where
  "get_onion_address look = (case wait_hostname look of
     Some w \<Rightarrow> Inr w | None \<Rightarrow> Inl (RuntimeError ''Tor failed to generate main Onion service hostname.''))"

section \<open>The bootstrap\<close>

text \<open>
  What the loop of \<^verbatim>\<open>launch_tor\<close> meets: the process has ended, its output is closed, or it
  wrote a line at a time since the start. \<open>Waiting\<close> is a process that writes nothing more.
\<close>

datatype tor_output = Exited | Closed | Line real string

datatype boot = Bootstrapped | Boot_Failed string | Waiting

fun bootstrap :: "tor_output list \<Rightarrow> boot" where
  "bootstrap [] = Waiting"
| "bootstrap (Exited # outs) = Boot_Failed ''Tor process exited prematurely.''"
| "bootstrap (Closed # outs) = Boot_Failed ''Tor failed to bootstrap.''"
| "bootstrap (Line t l # outs) =
     (if contains_text ''Bootstrapped 100%'' l then Bootstrapped
      else if t > 120 then Boot_Failed ''Tor bootstrap timed out after 120 seconds.''
      else bootstrap outs)"

definition launch_tor :: "tor_output list \<Rightarrow> (nat \<Rightarrow> string option) \<Rightarrow> string py option" where
  "launch_tor outs look = (case bootstrap outs of
     Waiting \<Rightarrow> None
   | Boot_Failed m \<Rightarrow> Some (Inl (RuntimeError m))
   | Bootstrapped \<Rightarrow> Some (get_onion_address look))"

section \<open>One circuit per peer\<close>

definition peer_circuit_auth :: "bytes \<Rightarrow> string \<Rightarrow> string \<times> string" where
  "peer_circuit_auth salt peer =
     (let h = sha256 (utf8_encode peer @ salt) in (to_hex (take 12 h), to_hex (take 12 (drop 12 h))))"

definition peer_circuit_socks_url :: "bytes \<Rightarrow> nat \<Rightarrow> string \<Rightarrow> string" where
  "peer_circuit_socks_url salt socks_port peer = (case peer_circuit_auth salt peer of (user, password) \<Rightarrow>
     ''socks5h://'' @ user @ '':'' @ password @ ''@127.0.0.1:'' @ nat_str socks_port)"

definition peer_circuit_proxies :: "bytes \<Rightarrow> nat \<Rightarrow> string \<Rightarrow> (string \<times> string) list" where
  "peer_circuit_proxies salt socks_port peer =
     (let url = peer_circuit_socks_url salt socks_port peer in [(''http://'', url), (''https://'', url)])"

text \<open>
  The cached clients: a client is a number and its proxy. \<open>socks\<close> says that the client with
  credentials can be built; without, every peer gets the plain proxy.
\<close>

record peer_clients =
  hc_cache :: "(string \<times> (nat \<times> string) \<times> real) list"
  hc_next :: nat

definition PEER_CLIENT_TTL :: real where "PEER_CLIENT_TTL = 300"

definition clients_init :: peer_clients where
  "clients_init = \<lparr>hc_cache = [], hc_next = 0\<rparr>"

definition get_peer_client :: "(string \<Rightarrow> string) \<Rightarrow> string \<Rightarrow> bool \<Rightarrow> string \<times> real \<Rightarrow> peer_clients \<Rightarrow> (nat \<times> string) \<times> peer_clients" where
  "get_peer_client url plain socks r s = (case r of (peer, now) \<Rightarrow>
     let live = filter (\<lambda>(_, _, used). \<not> now - used > PEER_CLIENT_TTL) (hc_cache s)
     in case map_of live peer of
          Some (c, _) \<Rightarrow> (c, s\<lparr>hc_cache := AList.update peer (c, now) live\<rparr>)
        | None \<Rightarrow>
            let c = (hc_next s, if socks then url peer else plain)
            in (c, s\<lparr>hc_cache := AList.update peer (c, now) live, hc_next := Suc (hc_next s)\<rparr>))"

definition close_all_peer_clients :: "peer_clients \<Rightarrow> (nat \<times> string) list \<times> peer_clients" where
  "close_all_peer_clients s = (map (fst \<circ> snd) (hc_cache s), s\<lparr>hc_cache := []\<rparr>)"

fun run_clients :: "(string \<Rightarrow> string) \<Rightarrow> string \<Rightarrow> bool \<Rightarrow> (string \<times> real) list \<Rightarrow> peer_clients \<Rightarrow> (nat \<times> string) list" where
  "run_clients url plain socks [] s = []"
| "run_clients url plain socks (r # rs) s =
     (case get_peer_client url plain socks r s of (c, s') \<Rightarrow> c # run_clients url plain socks rs s')"

section \<open>The control port\<close>

text \<open>\<^verbatim>\<open>base64.b32encode\<close>, without the padding, which the inputs here do not need.\<close>

definition b32_low_char :: "nat \<Rightarrow> char" where
  "b32_low_char n = ''abcdefghijklmnopqrstuvwxyz234567'' ! n"

definition b32_lower_group :: "bytes \<Rightarrow> string" where
  "b32_lower_group g = (let n = fold (\<lambda>b acc. acc * 256 + unat b) g 0
     in map (\<lambda>i. b32_low_char (n div 32 ^ i mod 32)) [7, 6, 5, 4, 3, 2, 1, 0])"

fun b32_lower_groups :: "nat \<Rightarrow> bytes \<Rightarrow> string" where
  "b32_lower_groups 0 bs = []"
| "b32_lower_groups (Suc n) bs = b32_lower_group (take 5 bs) @ b32_lower_groups n (drop 5 bs)"

text \<open>The address of a public key of 32 bytes, as the code puts it together.\<close>

definition onion_of_key :: "(bytes \<Rightarrow> bytes) \<Rightarrow> bytes \<Rightarrow> string" where
  "onion_of_key sha3 pubkey =
     (let checksum = take 2 (sha3 (utf8_encode ''.onion checksum'' @ pubkey @ [3]))
      in b32_lower_groups 7 (pubkey @ [3] @ checksum) @ ''.onion'')"

definition detest_v3_onion :: "(bytes \<Rightarrow> bytes) \<Rightarrow> nat \<Rightarrow> string" where
  "detest_v3_onion sha3 target_port =
     onion_of_key sha3 (sha256 (utf8_encode (''AnonyMus-TestMode-Onion-'' @ nat_str target_port)))"

definition generate_random_v3_onion :: "(bytes \<Rightarrow> bytes) \<Rightarrow> bytes \<Rightarrow> string" where
  "generate_random_v3_onion sha3 pubkey = onion_of_key sha3 pubkey"

record tor_client =
  tc_authenticated :: bool
  tc_onions :: "(string \<times> nat) list"
  tc_connected :: bool
  tc_test_mode :: bool

definition tor_client_init :: "bool \<Rightarrow> tor_client" where
  "tor_client_init test_mode = \<lparr>tc_authenticated = False, tc_onions = [], tc_connected = False, tc_test_mode = test_mode\<rparr>"

text \<open>\<open>val\<close> is the variable \<^verbatim>\<open>ANONYMUS_TOR_TEST_MODE\<close>, \<open>pytest\<close> that of a running test.\<close>

definition is_test_mode :: "string \<Rightarrow> string \<Rightarrow> bool" where
  "is_test_mode val pytest = (py_lower (py_strip val) \<in> {''1'', ''true'', ''yes'', ''on''} \<or> pytest \<noteq> [])"

text \<open>How the controller answers \<^verbatim>\<open>authenticate\<close>: it may raise an \<^verbatim>\<open>AuthenticationFailure\<close> or
  something else. \<open>None\<close> is an exception that leaves the method.\<close>

datatype auth_reply = Auth_Ok | Auth_Failure | Auth_Error

definition tor_fallback :: "tor_client \<Rightarrow> tor_client" where
  "tor_fallback s = s\<lparr>tc_connected := False, tc_test_mode := True, tc_authenticated := True\<rparr>"

definition authenticate ::
    "bool \<Rightarrow> bool \<Rightarrow> auth_reply \<Rightarrow> (string \<Rightarrow> auth_reply) \<Rightarrow> string option \<Rightarrow> tor_client \<Rightarrow> bool option \<times> tor_client" where
  "authenticate stem reachable cookie password secret s =
     (if tc_test_mode s then (Some True, s\<lparr>tc_authenticated := True\<rparr>)
      else if \<not> stem \<or> \<not> reachable then (Some True, s\<lparr>tc_test_mode := True, tc_authenticated := True\<rparr>)
      else
        let s = s\<lparr>tc_connected := True\<rparr>
        in case cookie of
             Auth_Ok \<Rightarrow> (Some True, s\<lparr>tc_authenticated := True\<rparr>)
           | Auth_Error \<Rightarrow> (None, s)
           | Auth_Failure \<Rightarrow>
               (case secret of
                  Some (ch # cs) \<Rightarrow>
                    if password (ch # cs) = Auth_Ok then (Some True, s\<lparr>tc_authenticated := True\<rparr>)
                    else (Some True, tor_fallback s)
                | _ \<Rightarrow> (Some True, tor_fallback s)))"

text \<open>\<open>create\<close> is the identifier Tor gives a new service, if it makes one.\<close>

definition add_onion_service ::
    "(bytes \<Rightarrow> bytes) \<Rightarrow> string option \<Rightarrow> nat \<Rightarrow> tor_client \<Rightarrow> (string \<times> bool) py \<times> tor_client" where
  "add_onion_service sha3 create target_port s =
     (if \<not> tc_authenticated s then (Inl PermissionError, s)
      else if tc_test_mode s \<or> \<not> tc_connected s
      then (let w = detest_v3_onion sha3 target_port
            in (Inr (w, True), s\<lparr>tc_onions := AList.update w target_port (tc_onions s)\<rparr>))
      else case create of
        None \<Rightarrow> (Inl (RuntimeError ''Failed to create ephemeral onion service''), s)
      | Some i \<Rightarrow>
          let w = i @ ''.onion'' in (Inr (w, False), s\<lparr>tc_onions := AList.update w target_port (tc_onions s)\<rparr>))"

text \<open>The second result is the service that Tor is told to remove.\<close>

definition remove_onion_service :: "string \<Rightarrow> tor_client \<Rightarrow> bool py \<times> string option \<times> tor_client" where
  "remove_onion_service w s =
     (if \<not> tc_authenticated s then (Inl PermissionError, None, s)
      else if map_of (tc_onions s) w = None then (Inr False, None, s)
      else (Inr True,
        if tc_connected s \<and> \<not> tc_test_mode s
        then Some (if py_endswith w ''.onion'' then take (length w - 6) w else w) else None,
        s\<lparr>tc_onions := AList.delete w (tc_onions s)\<rparr>))"

definition list_active_onions :: "tor_client \<Rightarrow> string list" where
  "list_active_onions s = map fst (tc_onions s)"

definition close_tor :: "tor_client \<Rightarrow> tor_client" where
  "close_tor s = (if tc_connected s then s\<lparr>tc_connected := False, tc_authenticated := False\<rparr> else s)"

section \<open>Addresses\<close>

definition b32_upper :: "char \<Rightarrow> char" where
  "b32_upper c = (if 97 \<le> code c \<and> code c \<le> 122 then char_of (code c - 32) else c)"

lemma b32_val_char:
  assumes "k < 32"
  shows "b32_val (b32_upper (b32_low_char k)) = Some k"
proof -
  have "[0..<32] = [0, 1, 2, 3, 4, 5, 6, 7, 8, 9, 10, 11, 12, 13, 14, 15, 16, 17, 18, 19, 20, 21, 22, 23, 24, 25,
      26, 27, 28, 29, 30, 31]" by code_simp
  moreover have "k \<in> set [0..<32]" using assms by simp
  ultimately have "k \<in> set [0, 1, 2, 3, 4, 5, 6, 7, 8, 9, 10, 11, 12, 13, 14, 15, 16, 17, 18, 19, 20, 21, 22, 23,
      24, 25, 26, 27, 28, 29, 30, 31]" by simp
  then show ?thesis by (simp only: list.set insert_iff empty_iff, elim disjE)
    (simp_all add: b32_low_char_def b32_upper_def b32_val_def code_def)
qed

lemma b32_number_digits:
  "b32_number acc (map (\<lambda>i. b32_upper (b32_low_char (n div 32 ^ i mod 32))) (rev [0..<k])) = Some (acc * 32 ^ k + n mod 32 ^ k)"
proof (induction k arbitrary: acc)
  case (Suc k)
  have "n mod (32 ^ k * 32) = 32 ^ k * (n div 32 ^ k mod 32) + n mod 32 ^ k" by (rule mod_mult2_eq)
  with Suc show ?case by (simp add: b32_val_char algebra_simps)
qed simp

lemma byte_snoc: "nat_byte (x * 256 + unat b) = b" "(x * 256 + unat (b :: byte)) div 256 = x"
proof -
  have lt: "unat b < 256" by (rule unat_byte_lt)
  have "(x * 256 + unat b) mod 256 = unat b" using lt by simp
  moreover have "unat (nat_byte n) = n mod 256" for n by (simp only: nat_byte_def unat_of_nat) (simp add: take_bit_eq_mod)
  ultimately show "nat_byte (x * 256 + unat b) = b" by (simp only: word_unat_eq_iff)
  show "(x * 256 + unat b) div 256 = x" using lt by simp
qed

lemma number_bytes:
  "map (\<lambda>i. nat_byte (fold (\<lambda>b acc. acc * 256 + unat b) g acc div 256 ^ i)) (rev [0..<length g]) = g \<and>
   fold (\<lambda>b acc. acc * 256 + unat b) g acc div 256 ^ length g = acc"
proof (induction g rule: rev_induct)
  case (snoc b g)
  let ?n = "fold (\<lambda>b acc. acc * 256 + unat b) g acc"
  have "(?n * 256 + unat b) div 256 ^ Suc i = ?n div 256 ^ i" for i
    by (simp add: div_mult2_eq byte_snoc)
  moreover have "rev [0..<Suc n] = map Suc (rev [0..<n]) @ [0]" for n
    by (simp only: upt_conv_Cons map_Suc_upt rev_map [symmetric] zero_less_Suc rev.simps)
  ultimately show ?case using snoc.IH by (simp add: byte_snoc o_def del: upt_Suc power_Suc)
qed simp

lemma b32_group_lower:
  assumes "length g = 5"
  shows "b32_group (map b32_upper (b32_lower_group g)) = Some g"
proof -
  let ?n = "fold (\<lambda>b acc. acc * 256 + unat b) g 0"
  have "?n div 256 ^ 5 = 0" using number_bytes [of g 0] assms by simp
  then have small: "?n < 32 ^ 8" by (simp add: div_eq_0_iff)
  have "map b32_upper (b32_lower_group g) = map (\<lambda>i. b32_upper (b32_low_char (?n div 32 ^ i mod 32))) (rev [0..<8])"
    by (simp add: b32_lower_group_def Let_def upt_rec)
  then have num: "b32_number 0 (map b32_upper (b32_lower_group g)) = Some ?n"
    using b32_number_digits [of 0 ?n 8] small by simp
  have "[4, 3, 2, 1, 0] = rev [0..<length g]" using assms by (simp add: upt_rec)
  then have "map (\<lambda>i. nat_byte (?n div 256 ^ i)) [4, 3, 2, 1, 0] = g" using number_bytes [of g 0] by simp
  with num show ?thesis by (simp add: b32_group_def)
qed

lemma length_b32_lower_group [simp]: "length (b32_lower_group g) = 8"
  by (simp add: b32_lower_group_def Let_def)

lemma length_b32_lower_groups [simp]: "length (b32_lower_groups n bs) = 8 * n"
  by (induction n arbitrary: bs) simp_all

lemma b32_groups_lower:
  "length bs = 5 * n \<Longrightarrow> b32_groups n (map b32_upper (b32_lower_groups n bs)) = Some bs"
proof (induction n arbitrary: bs)
  case (Suc n)
  then have "b32_group (map b32_upper (b32_lower_group (take 5 bs))) = Some (take 5 bs)"
    by (intro b32_group_lower) simp
  with Suc show ?case by (simp flip: take_map drop_map)
qed simp

text \<open>An address the code makes carries its key: \<open>onion_of_key\<close> gives 56 characters and
  the suffix, and decoding them in upper case (the only case \<^verbatim>\<open>base64.b32decode\<close> takes)
  returns the 32 bytes of the key, then the version, then the checksum.\<close>

theorem onion_roundtrip:
  assumes "length pubkey = 32" and "\<And>m. 2 \<le> length (sha3 m)"
  shows "length (onion_of_key sha3 pubkey) = 62 \<and>
    b32_decode (map b32_upper (take 56 (onion_of_key sha3 pubkey))) =
      Some (pubkey @ [3] @ take 2 (sha3 (utf8_encode ''.onion checksum'' @ pubkey @ [3])))"
proof -
  let ?m = "utf8_encode ''.onion checksum'' @ pubkey @ [3]"
  have l: "length (take 2 (sha3 ?m)) = 2" using assms(2) [of ?m] by simp
  let ?raw = "pubkey @ [3] @ take 2 (sha3 ?m)"
  have "length ?raw = 5 * 7" using assms(1) l by simp
  then have "b32_groups 7 (map b32_upper (b32_lower_groups 7 ?raw)) = Some ?raw" by (rule b32_groups_lower)
  then show ?thesis by (simp add: onion_of_key_def Let_def b32_decode_def)
qed

lemma onion_roundtrip_witness:
  "length (onion_of_key (\<lambda>m. [1, 2, 3]) (replicate 32 7)) = 62 \<and>
   b32_decode (map b32_upper (take 56 (onion_of_key (\<lambda>m. [1, 2, 3]) (replicate 32 7)))) =
     Some (replicate 32 7 @ [3] @ [1, 2])"
  using onion_roundtrip [of "replicate 32 7" "\<lambda>m. [1, 2, 3]"] by simp

section \<open>The search for a port ends\<close>

text \<open>C34: The search for a port returns on every answer the system gives: it ends with the lowest
  port from the given one up to 65534 that can be bound, or raises when none of them can.\<close>

theorem find_free_port_search:
  "find_free_port free port =
     (case List.find free [port..65534] of Some p \<Rightarrow> Inr p | None \<Rightarrow> Inl (RuntimeError ''No free ports available!''))"
proof (induction free port rule: find_free_port.induct)
  case (1 free port)
  show ?case
  proof (cases "port < 65535")
    case True
    then have "[port..65534] = port # [port + 1..65534]" by (simp add: upto_rec1)
    with 1 True show ?thesis by (simp add: find_free_port.simps [of free port])
  next
    case False
    then show ?thesis by (simp add: find_free_port.simps [of free port])
  qed
qed

section \<open>Clients of peers\<close>

definition live_clients :: "real \<Rightarrow> peer_clients \<Rightarrow> (string \<times> (nat \<times> string) \<times> real) list" where
  "live_clients now s = filter (\<lambda>(_, _, used). \<not> now - used > PEER_CLIENT_TTL) (hc_cache s)"

lemma get_peer_client_cases:
  obtains (old) c u where "map_of (live_clients now s) peer = Some (c, u)"
      "get_peer_client url plain socks (peer, now) s =
         (c, s\<lparr>hc_cache := AList.update peer (c, now) (live_clients now s)\<rparr>)"
  | (new) c where "map_of (live_clients now s) peer = None" "fst c = hc_next s"
      "get_peer_client url plain socks (peer, now) s =
         (c, s\<lparr>hc_cache := AList.update peer (c, now) (live_clients now s), hc_next := Suc (hc_next s)\<rparr>)"
proof (cases "map_of (live_clients now s) peer")
  case None
  then show ?thesis
    by (intro new [of "(hc_next s, if socks then url peer else plain)"]) (auto simp: get_peer_client_def live_clients_def Let_def)
next
  case (Some cu)
  then show ?thesis by (cases cu) (auto intro!: old simp: get_peer_client_def live_clients_def Let_def)
qed

definition clients_ok :: "peer_clients \<Rightarrow> bool" where
  "clients_ok s = (distinct (map fst (hc_cache s)) \<and> (\<forall>p c u. map_of (hc_cache s) p = Some (c, u) \<longrightarrow>
     fst c < hc_next s \<and> (\<forall>p' c' u'. map_of (hc_cache s) p' = Some (c', u') \<longrightarrow> fst c' = fst c \<longrightarrow> p' = p)))"

lemma clients_okD:
  assumes "clients_ok s" and "map_of (hc_cache s) p = Some ((n, w), u)"
  shows "n < hc_next s" "map_of (hc_cache s) p' = Some ((n, w'), u') \<Longrightarrow> p' = p"
  using assms unfolding clients_ok_def by (metis fst_conv)+

lemma map_of_live_clients:
  assumes "distinct (map fst (hc_cache s))"
  shows "map_of (live_clients now s) p = Some (c, u) \<longleftrightarrow>
     map_of (hc_cache s) p = Some (c, u) \<and> now - u \<le> PEER_CLIENT_TTL"
proof -
  have "distinct (map fst (live_clients now s))" using assms by (simp add: live_clients_def distinct_map_filter)
  with assms show ?thesis by (cases c) (auto simp: live_clients_def not_less)
qed

lemma distinct_live_clients: "distinct (map fst (hc_cache s)) \<Longrightarrow> distinct (map fst (live_clients now s))"
  by (simp add: live_clients_def distinct_map_filter)

lemma get_peer_client_ok:
  assumes ok: "clients_ok s" and g: "get_peer_client url plain socks (peer, now) s = (c, s')"
  shows "clients_ok s' \<and> map_of (hc_cache s') peer = Some (c, now) \<and> hc_next s \<le> hc_next s' \<and>
    (\<forall>p. p \<noteq> peer \<longrightarrow> map_of (hc_cache s') p = map_of (live_clients now s) p) \<and>
    ((\<exists>u. map_of (hc_cache s) peer = Some (c, u)) \<or> fst c = hc_next s)"
proof -
  have d: "distinct (map fst (hc_cache s))" using ok by (simp add: clients_ok_def)
  note live = map_of_live_clients [OF d] distinct_live_clients [OF d]
  show ?thesis
  proof (cases rule: get_peer_client_cases [of now s peer url plain socks])
    case (old c' u)
    then have "s' = s\<lparr>hc_cache := AList.update peer (c, now) (live_clients now s)\<rparr>" "c' = c"
      "map_of (hc_cache s) peer = Some (c, u)" using g live by auto
    with ok old show ?thesis
      by (auto simp: clients_ok_def update_conv' distinct_update live simp del: map_of_eq_Some_iff)
  next
    case (new c')
    then have s': "s' = s\<lparr>hc_cache := AList.update peer (c, now) (live_clients now s), hc_next := Suc (hc_next s)\<rparr>"
      "c' = c" using g by auto
    have old: "n < hc_next s \<and> (\<forall>p' w' u'. map_of (live_clients now s) p' = Some ((n, w'), u') \<longrightarrow> p' = p)"
      if "map_of (live_clients now s) p = Some ((n, w), u)" for n w u p
      using that clients_okD [OF ok] live(1) by blast
    then have "map_of (live_clients now s) p \<noteq> Some ((hc_next s, w), u)" for p w u by blast
    with old new s' live(2) show ?thesis
      by (auto simp: clients_ok_def update_conv' distinct_update less_Suc_eq simp del: map_of_eq_Some_iff)
  qed
qed

lemma known_before:
  assumes "clients_ok s" and g: "get_peer_client url plain socks (peer, now) s = (c, s')"
    and "map_of (hc_cache s') p = Some (c', u)" and "fst c' < hc_next s \<or> p \<noteq> peer"
  shows "\<exists>u. map_of (hc_cache s) p = Some (c', u)"
proof (cases "p = peer")
  case True
  with get_peer_client_ok [OF assms(1) g] assms(3,4) show ?thesis by auto
next
  case False
  with get_peer_client_ok [OF assms(1) g] assms(3) have "map_of (live_clients now s) p = Some (c', u)" by auto
  then show ?thesis using assms(1) map_of_live_clients by (auto simp: clients_ok_def simp del: map_of_eq_Some_iff)
qed

lemma run_clients_known:
  "clients_ok s \<Longrightarrow> j < length rs \<Longrightarrow> hc_next s \<le> fst (run_clients url plain socks rs s ! j) \<or>
     (\<exists>u. map_of (hc_cache s) (fst (rs ! j)) = Some (run_clients url plain socks rs s ! j, u))"
proof (induction rs arbitrary: s j)
  case (Cons r rs)
  obtain peer now where r: "r = (peer, now)" by (cases r)
  obtain c s' where g: "get_peer_client url plain socks (peer, now) s = (c, s')" by fastforce
  note step = get_peer_client_ok [OF Cons.prems(1) g]
  show ?case
  proof (cases j)
    case 0
    with step g r show ?thesis by auto
  next
    case (Suc k)
    let ?c = "run_clients url plain socks rs s' ! k"
    from Cons.IH [of s' k] Cons.prems Suc step
    have "hc_next s' \<le> fst ?c \<or> (\<exists>u. map_of (hc_cache s') (fst (rs ! k)) = Some (?c, u))" by auto
    then have "hc_next s \<le> fst ?c \<or> (\<exists>u. map_of (hc_cache s) (fst (rs ! k)) = Some (?c, u))"
      using step known_before [OF Cons.prems(1) g] by (meson le_trans not_le)
    with g r Suc show ?thesis by simp
  qed
qed simp

lemma run_clients_sticks:
  "clients_ok s \<Longrightarrow> map_of (hc_cache s) p = Some (c, u) \<Longrightarrow> sorted (u # map snd rs) \<Longrightarrow> j < length rs \<Longrightarrow>
     fst (rs ! j) = p \<Longrightarrow> snd (rs ! j) - u \<le> PEER_CLIENT_TTL \<Longrightarrow> run_clients url plain socks rs s ! j = c"
proof (induction rs arbitrary: s j u)
  case (Cons r rs)
  obtain peer now where r: "r = (peer, now)" by (cases r)
  obtain c' s' where g: "get_peer_client url plain socks (peer, now) s = (c', s')" by fastforce
  note step = get_peer_client_ok [OF Cons.prems(1) g]
  have d: "distinct (map fst (hc_cache s))" using Cons.prems by (simp add: clients_ok_def)
  have le: "u \<le> now" "now \<le> snd ((r # rs) ! j)"
    using Cons.prems(3,4) r by (auto simp: nth_Cons split: nat.split)
  then have live: "map_of (live_clients now s) p = Some (c, u)"
    using map_of_live_clients [OF d, of now p c u] Cons.prems(2,6) by simp
  have pc: "c' = c" if "peer = p"
    using get_peer_client_cases [of now s peer url plain socks] g live that by fastforce
  show ?case
  proof (cases j)
    case 0
    with pc g r Cons.prems(5) show ?thesis by simp
  next
    case (Suc k)
    have "run_clients url plain socks rs s' ! k = c"
    proof (cases "peer = p")
      case True
      with Cons.IH [of s' now k] Cons.prems Suc step pc r le show ?thesis by auto
    next
      case False
      with step live have "map_of (hc_cache s') p = Some (c, u)" by auto
      with Cons.IH [of s' u k] Cons.prems Suc step r show ?thesis by auto
    qed
    with g r Suc show ?thesis by simp
  qed
qed simp

lemma run_clients_split:
  "i < length rs \<Longrightarrow> clients_ok s \<Longrightarrow> \<exists>s'. clients_ok s' \<and>
     map_of (hc_cache s') (fst (rs ! i)) = Some (run_clients url plain socks rs s ! i, snd (rs ! i)) \<and>
     drop (Suc i) (run_clients url plain socks rs s) = run_clients url plain socks (drop (Suc i) rs) s'"
proof (induction rs arbitrary: s i)
  case (Cons r rs)
  obtain peer now where r: "r = (peer, now)" by (cases r)
  obtain c s' where g: "get_peer_client url plain socks (peer, now) s = (c, s')" by fastforce
  note step = get_peer_client_ok [OF Cons.prems(2) g]
  show ?case
  proof (cases i)
    case 0
    with step g r show ?thesis by auto
  next
    case (Suc k)
    with Cons.IH [of k s'] Cons.prems step g r show ?thesis by auto
  qed
qed simp

lemma length_run_clients [simp]: "length (run_clients url plain socks rs s) = length rs"
  by (induction rs arbitrary: s) (simp_all split: prod.split)

text \<open>One client, and so one circuit, per peer: of two requests at most 300 seconds apart, both
  get the same client exactly when they name the same peer.\<close>

theorem peer_client_sticky:
  assumes "sorted (map snd rs)" and "i < j" and "j < length rs"
    and "snd (rs ! j) - snd (rs ! i) \<le> PEER_CLIENT_TTL"
  shows "run_clients url plain socks rs clients_init ! i = run_clients url plain socks rs clients_init ! j \<longleftrightarrow>
    fst (rs ! i) = fst (rs ! j)"
proof -
  let ?cs = "run_clients url plain socks rs clients_init" and ?rs = "drop (Suc i) rs"
  have "clients_ok clients_init" by (simp add: clients_ok_def clients_init_def)
  then obtain s where s: "clients_ok s" "map_of (hc_cache s) (fst (rs ! i)) = Some (?cs ! i, snd (rs ! i))"
    and d: "drop (Suc i) ?cs = run_clients url plain socks ?rs s"
    using run_clients_split [of i rs clients_init url plain socks] assms by auto
  obtain k where j: "j = Suc i + k" using assms(2) by (auto dest: less_imp_Suc_add)
  have at: "?cs ! j = run_clients url plain socks ?rs s ! k" "rs ! j = ?rs ! k" "k < length ?rs"
    using assms(3) j by (simp_all flip: d)
  have id: "fst (?cs ! i) < hc_next s" using s clients_okD(1) by (cases "?cs ! i") force
  have "map snd rs = map snd (take i rs) @ snd (rs ! i) # map snd ?rs"
    using assms by (metis id_take_nth_drop list.simps(9) map_append order.strict_trans)
  then have sorted: "sorted (snd (rs ! i) # map snd ?rs)" using assms(1) by (simp add: sorted_append)
  show ?thesis
  proof
    assume eq: "?cs ! i = ?cs ! j"
    with run_clients_known [OF s(1) at(3), of url plain socks] at id
    obtain u where "map_of (hc_cache s) (fst (rs ! j)) = Some (?cs ! i, u)" by auto
    with s show "fst (rs ! i) = fst (rs ! j)" using clients_okD(2) by (cases "?cs ! i") metis
  next
    assume "fst (rs ! i) = fst (rs ! j)"
    with run_clients_sticks [OF s sorted at(3)] at assms(4) show "?cs ! i = ?cs ! j" by simp
  qed
qed

lemma peer_client_sticky_witness:
  "run_clients id [] True [(''a'', 0), (''b'', 1), (''a'', 250)] clients_init ! 0 =
   run_clients id [] True [(''a'', 0), (''b'', 1), (''a'', 250)] clients_init ! 2"
  using peer_client_sticky [of "[(''a'', 0), (''b'', 1), (''a'', 250)]" 0 2 id "[]" True]
  by (simp add: PEER_CLIENT_TTL_def)

section \<open>Failures that are passed over\<close>

text \<open>A refused authentication is not reported: when the controller takes neither the cookie nor
  (there being none) a password, \<open>authenticate\<close> still answers true, and the service then
  added has the fixed address of the test mode, which depends on the port alone.\<close>

theorem failed_auth_fake_address:
  "fst (authenticate True True Auth_Failure password None s) = Some True \<and>
   fst (add_onion_service sha3 create target_port (snd (authenticate True True Auth_Failure password None s))) =
     Inr (detest_v3_onion sha3 target_port, True)"
  by (simp add: authenticate_def add_onion_service_def tor_fallback_def Let_def)

text \<open>A bundle whose signature \<^verbatim>\<open>gpg\<close> calls invalid is treated as one that was never
  checked: it is taken or refused by the hash list alone, which comes from the same server.\<close>

theorem bad_signature_ignored:
  "bundle_accepted True True Gpg_Bad filename listings archive =
   bundle_accepted False fetched run filename listings archive"
  by (simp add: bundle_accepted_def verify_gpg_signature_def)

lemma bundle_accepted_unsigned:
  "bundle_accepted False fetched run filename listings archive = Inr () \<longleftrightarrow>
   fetch_expected_sha256 filename listings = Inr (sha256_hex archive)"
  by (auto simp: bundle_accepted_def split: sum.split)

end
