(* ===== verification/Schema_Migrations.thy ===== *)
theory Schema_Migrations
  imports Prelude
begin

text \<open>
  The schema of the FastAPI node: the revisions of \<^verbatim>\<open>alembic/versions\<close>, which
  \<^verbatim>\<open>app_v3.py\<close> runs at every start, and the tables \<^verbatim>\<open>core/db/models.py\<close> declares. A
  revision is the list of the operations it calls on the schema; an operation that SQL refuses
  raises (\<open>None\<close>). Of the rows of a table only their number is kept: it decides whether a column
  that must have a value can be added.
\<close>

section \<open>Schemas\<close>

datatype sql_type = SInteger | SString nat | SText | SBoolean | SDateTime

record column =
  c_name :: string
  c_type :: sql_type
  c_nullable :: bool
  c_default :: "string option"

text \<open>A foreign key: its name, the columns, the table and the columns they refer to. All of them cascade.\<close>

type_synonym foreign_key = "string option \<times> string list \<times> string \<times> string list"

record sql_table =
  t_columns :: "column list"
  t_primary :: "string list"
  t_uniques :: "(string option \<times> string list) list"
  t_foreign :: "foreign_key list"
  t_indexes :: "(string \<times> string list \<times> bool) list"
  t_rows :: nat

type_synonym schema = "(string \<times> sql_table) list"

definition col :: "string \<Rightarrow> sql_type \<Rightarrow> bool \<Rightarrow> column" where
  "col n ty nullable = \<lparr>c_name = n, c_type = ty, c_nullable = nullable, c_default = None\<rparr>"

definition col_default :: "string \<Rightarrow> sql_type \<Rightarrow> bool \<Rightarrow> string \<Rightarrow> column" where
  "col_default n ty nullable d = \<lparr>c_name = n, c_type = ty, c_nullable = nullable, c_default = Some d\<rparr>"

definition table_of :: "column list \<Rightarrow> string list \<Rightarrow> (string option \<times> string list) list \<Rightarrow> foreign_key list \<Rightarrow> sql_table" where
  "table_of cs pk us fks = \<lparr>t_columns = cs, t_primary = pk, t_uniques = us, t_foreign = fks, t_indexes = [], t_rows = 0\<rparr>"

definition column_names :: "sql_table \<Rightarrow> string list" where
  "column_names t = map c_name (t_columns t)"

text \<open>\<^verbatim>\<open>sa.func.now()\<close> as the default of a column.\<close>

abbreviation now_default :: string where "now_default \<equiv> ''CURRENT_TIMESTAMP''"

section \<open>Operations\<close>

datatype schema_op =
    Create_Table string sql_table
  | Drop_Table string
  | Add_Column string column
  | Drop_Column string string
  | Alter_Type string string sql_type
  | Create_Index string string "string list" bool
  | Drop_Index string string
  | Create_Foreign_Key string foreign_key
  | Drop_Foreign_Key string string
  | Insert_Default string

definition on_table :: "string \<Rightarrow> (sql_table \<Rightarrow> sql_table option) \<Rightarrow> schema \<Rightarrow> schema option" where
  "on_table n f db = (case map_of db n of
     None \<Rightarrow> None
   | Some t \<Rightarrow> (case f t of None \<Rightarrow> None | Some t' \<Rightarrow> Some (AList.update n t' db)))"

definition index_named :: "string \<Rightarrow> sql_table \<Rightarrow> bool" where
  "index_named i t = (i \<in> set (map fst (t_indexes t)))"

text \<open>A column that must have a value and has no default can be added to an empty table only.\<close>

definition add_column_to :: "column \<Rightarrow> sql_table \<Rightarrow> sql_table option" where
  "add_column_to c t =
     (if c_name c \<in> set (column_names t) \<or> \<not> c_nullable c \<and> c_default c = None \<and> 0 < t_rows t then None
      else Some (t\<lparr>t_columns := t_columns t @ [c]\<rparr>))"

definition drop_column_of :: "string \<Rightarrow> sql_table \<Rightarrow> sql_table option" where
  "drop_column_of c t = (if c \<in> set (column_names t)
     then Some (t\<lparr>t_columns := filter (\<lambda>x. c_name x \<noteq> c) (t_columns t)\<rparr>) else None)"

fun run_op :: "schema_op \<Rightarrow> schema \<Rightarrow> schema option" where
  "run_op (Create_Table n t) db = (if map_of db n = None then Some (db @ [(n, t)]) else None)"
| "run_op (Drop_Table n) db = (if map_of db n = None then None else Some (AList.delete n db))"
| "run_op (Add_Column n c) db = on_table n (add_column_to c) db"
| "run_op (Drop_Column n c) db = on_table n (drop_column_of c) db"
| "run_op (Alter_Type n c ty) db = on_table n (\<lambda>t. if c \<in> set (column_names t)
     then Some (t\<lparr>t_columns := map (\<lambda>x. if c_name x = c then x\<lparr>c_type := ty\<rparr> else x) (t_columns t)\<rparr>) else None) db"
| "run_op (Create_Index i n cs u) db =
     (if list_ex (\<lambda>(_, t). index_named i t) db then None
      else on_table n (\<lambda>t. if set cs \<subseteq> set (column_names t)
        then Some (t\<lparr>t_indexes := t_indexes t @ [(i, cs, u)]\<rparr>) else None) db)"
| "run_op (Drop_Index i n) db = on_table n (\<lambda>t. if index_named i t
     then Some (t\<lparr>t_indexes := filter (\<lambda>x. fst x \<noteq> i) (t_indexes t)\<rparr>) else None) db"
| "run_op (Create_Foreign_Key n fk) db = on_table n (\<lambda>t. Some (t\<lparr>t_foreign := t_foreign t @ [fk]\<rparr>)) db"
| "run_op (Drop_Foreign_Key n k) db = on_table n (\<lambda>t. if Some k \<in> set (map fst (t_foreign t))
     then Some (t\<lparr>t_foreign := filter (\<lambda>x. fst x \<noteq> Some k) (t_foreign t)\<rparr>) else None) db"
| "run_op (Insert_Default n) db = on_table n (\<lambda>t. Some (t\<lparr>t_rows := max 1 (t_rows t)\<rparr>)) db"

fun run_ops :: "schema_op list \<Rightarrow> schema \<Rightarrow> schema option" where
  "run_ops [] db = Some db"
| "run_ops (op # ops) db = (case run_op op db of None \<Rightarrow> None | Some db' \<Rightarrow> run_ops ops db')"

section \<open>The revisions\<close>

definition upgrade_0001 :: "schema_op list" where
  "upgrade_0001 =
    [Create_Table ''users'' (table_of
       [col ''id'' SInteger False, col ''username'' (SString 64) False, col ''password_hash'' (SString 256) False,
        col ''onion_address'' (SString 128) True, col_default ''created_at'' SDateTime False now_default]
       [''id''] [(None, [''username'']), (None, [''onion_address''])] []),
     Create_Table ''contacts'' (table_of
       [col ''id'' SInteger False, col ''owner_onion'' (SString 128) False, col ''onion_address'' (SString 128) False,
        col ''nickname'' (SString 64) True, col_default ''verified'' SBoolean False ''0'',
        col_default ''added_at'' SDateTime False now_default]
       [''id''] [(Some ''uq_contact_pair'', [''owner_onion'', ''onion_address''])] []),
     Create_Table ''messages'' (table_of
       [col ''message_id'' (SString 36) False, col ''sender_onion'' (SString 128) False,
        col ''recipient_onion'' (SString 128) False, col ''ciphertext_b64'' SText False, col ''iv_b64'' (SString 44) False,
        col ''sequence_number'' SInteger False, col_default ''sent_at'' SDateTime False now_default,
        col_default ''delivered'' SBoolean False ''0'', col_default ''is_deleted'' SBoolean False ''0'',
        col ''disappears_at'' SDateTime True]
       [''message_id''] [] []),
     Create_Index ''ix_messages_sender_recipient'' ''messages'' [''sender_onion'', ''recipient_onion''] False,
     Create_Index ''ix_messages_sent_at'' ''messages'' [''sent_at''] False,
     Create_Table ''groups'' (table_of
       [col ''group_id'' (SString 36) False, col ''name'' (SString 128) False, col ''founder_onion'' (SString 128) False,
        col_default ''is_channel'' SBoolean False ''0'', col_default ''created_at'' SDateTime False now_default]
       [''group_id''] [] []),
     Create_Table ''group_members'' (table_of
       [col ''id'' SInteger False, col ''group_id'' (SString 36) False, col ''onion_address'' (SString 128) False,
        col_default ''joined_at'' SDateTime False now_default]
       [''id''] [(Some ''uq_group_member'', [''group_id'', ''onion_address''])]
       [(None, [''group_id''], ''groups'', [''group_id''])]),
     Create_Table ''group_messages'' (table_of
       [col ''message_id'' (SString 36) False, col ''group_id'' (SString 36) False, col ''sender_onion'' (SString 128) False,
        col ''ciphertext_b64'' SText False, col_default ''sent_at'' SDateTime False now_default,
        col_default ''is_deleted'' SBoolean False ''0'']
       [''message_id''] [] [(None, [''group_id''], ''groups'', [''group_id''])]),
     Create_Index ''ix_group_messages_group_id'' ''group_messages'' [''group_id''] False]"

definition downgrade_0001 :: "schema_op list" where
  "downgrade_0001 =
    [Drop_Table ''group_messages'', Drop_Table ''group_members'', Drop_Table ''groups'',
     Drop_Index ''ix_messages_sent_at'' ''messages'', Drop_Index ''ix_messages_sender_recipient'' ''messages'',
     Drop_Table ''messages'', Drop_Table ''contacts'', Drop_Table ''users'']"

definition upgrade_0081668158d9 :: "schema_op list" where
  "upgrade_0081668158d9 =
    [Create_Table ''prekey_bundles'' (table_of
       [col ''onion_address'' (SString 128) False, col ''identity_key'' SText False, col ''signed_prekey'' SText False,
        col ''signed_prekey_sig'' SText False, col ''pq_prekey'' SText False, col ''pq_prekey_sig'' SText False,
        col_default ''one_time_prekeys_json'' SText False ''[]'', col_default ''one_time_pq_prekeys_json'' SText False ''[]'',
        col ''published_at'' SDateTime False]
       [''onion_address''] [] []),
     Create_Index ''ix_prekey_bundles_onion_address'' ''prekey_bundles'' [''onion_address''] False,
     Create_Foreign_Key ''contacts'' (Some ''fk_contacts_owner_onion_users'', [''owner_onion''], ''users'', [''onion_address'']),
     Alter_Type ''group_members'' ''group_id'' (SString 64),
     Create_Index ''ix_group_members_group_id'' ''group_members'' [''group_id''] False,
     Add_Column ''group_messages'' (col ''id'' SInteger False),
     Alter_Type ''group_messages'' ''message_id'' (SString 64),
     Alter_Type ''group_messages'' ''group_id'' (SString 64),
     Create_Index ''ix_group_messages_message_id'' ''group_messages'' [''message_id''] True,
     Create_Index ''ix_group_messages_sent_at'' ''group_messages'' [''sent_at''] False,
     Add_Column ''groups'' (col ''id'' SInteger False),
     Alter_Type ''groups'' ''group_id'' (SString 64),
     Create_Index ''ix_groups_group_id'' ''groups'' [''group_id''] True,
     Add_Column ''messages'' (col ''id'' SInteger False),
     Alter_Type ''messages'' ''message_id'' (SString 64),
     Alter_Type ''messages'' ''iv_b64'' (SString 64),
     Drop_Index ''ix_messages_sender_recipient'' ''messages'',
     Create_Index ''ix_messages_message_id'' ''messages'' [''message_id''] True,
     Create_Index ''ix_messages_recipient_onion'' ''messages'' [''recipient_onion''] False,
     Create_Index ''ix_messages_sender_onion'' ''messages'' [''sender_onion''] False,
     Add_Column ''users'' (col ''last_seen'' SDateTime True),
     Create_Index ''ix_users_username'' ''users'' [''username''] True]"

definition downgrade_0081668158d9 :: "schema_op list" where
  "downgrade_0081668158d9 =
    [Drop_Index ''ix_users_username'' ''users'', Drop_Column ''users'' ''last_seen'',
     Drop_Index ''ix_messages_sender_onion'' ''messages'', Drop_Index ''ix_messages_recipient_onion'' ''messages'',
     Drop_Index ''ix_messages_message_id'' ''messages'',
     Create_Index ''ix_messages_sender_recipient'' ''messages'' [''sender_onion'', ''recipient_onion''] False,
     Alter_Type ''messages'' ''iv_b64'' (SString 44), Alter_Type ''messages'' ''message_id'' (SString 36),
     Drop_Column ''messages'' ''id'',
     Drop_Index ''ix_groups_group_id'' ''groups'', Alter_Type ''groups'' ''group_id'' (SString 36), Drop_Column ''groups'' ''id'',
     Drop_Index ''ix_group_messages_sent_at'' ''group_messages'', Drop_Index ''ix_group_messages_message_id'' ''group_messages'',
     Alter_Type ''group_messages'' ''group_id'' (SString 36), Alter_Type ''group_messages'' ''message_id'' (SString 36),
     Drop_Column ''group_messages'' ''id'',
     Drop_Index ''ix_group_members_group_id'' ''group_members'', Alter_Type ''group_members'' ''group_id'' (SString 36),
     Drop_Foreign_Key ''contacts'' ''fk_contacts_owner_onion_users'',
     Drop_Index ''ix_prekey_bundles_onion_address'' ''prekey_bundles'', Drop_Table ''prekey_bundles'']"

definition upgrade_71b9e6fd267b :: "schema_op list" where
  "upgrade_71b9e6fd267b =
    [Create_Table ''notify_queue'' (table_of
       [col ''id'' SInteger False, col ''token'' (SString 256) False, col ''created_at'' SDateTime False] [''id''] [] []),
     Create_Index ''ix_notify_queue_token'' ''notify_queue'' [''token''] False,
     Add_Column ''contacts'' (col ''notify_queue_token'' SText True),
     Add_Column ''users'' (col ''preferred_file_relay'' (SString 512) True)]"

definition downgrade_71b9e6fd267b :: "schema_op list" where
  "downgrade_71b9e6fd267b =
    [Drop_Column ''users'' ''preferred_file_relay'', Drop_Column ''contacts'' ''notify_queue_token'',
     Drop_Index ''ix_notify_queue_token'' ''notify_queue'', Drop_Table ''notify_queue'']"

text \<open>
  The later revisions look at the schema first: \<open>missing\<close> lists the columns of a table that are
  not there yet. Looking at the columns of a missing table raises.
\<close>

definition missing :: "string \<Rightarrow> column list \<Rightarrow> schema \<Rightarrow> schema_op list option" where
  "missing n cs db = map_option (\<lambda>t. map (Add_Column n) (filter (\<lambda>c. c_name c \<notin> set (column_names t)) cs)) (map_of db n)"

definition upgrade_780ce35d17d9 :: "schema \<Rightarrow> schema_op list option" where
  "upgrade_780ce35d17d9 db = missing ''contacts''
     [col_default ''status'' (SString 32) False ''accepted'', col ''public_key_b64'' SText True, col ''shared_secret_b64'' SText True] db"

definition downgrade_780ce35d17d9 :: "schema_op list" where
  "downgrade_780ce35d17d9 =
     [Drop_Column ''contacts'' ''shared_secret_b64'', Drop_Column ''contacts'' ''public_key_b64'', Drop_Column ''contacts'' ''status'']"

definition contact_profile_columns :: "column list" where
  "contact_profile_columns =
     [col ''my_onion_address'' (SString 128) True, col_default ''disappearing_ttl'' SInteger False ''0'',
      col ''display_name'' (SString 64) True, col ''dr_state'' SText True, col ''peer_kem_public_key'' SText True,
      col ''my_kem_private_key'' SText True, col ''preferred_file_relay'' (SString 512) True,
      col_default ''send_receipts'' SBoolean False ''1'']"

text \<open>The column of the profile comes with its foreign key.\<close>

definition profile_link :: "string \<Rightarrow> string \<Rightarrow> schema \<Rightarrow> schema_op list option" where
  "profile_link n k db = map_option (\<lambda>adds. if adds = [] then [] else adds @
       [Create_Foreign_Key n (Some k, [''profile_id''], ''profiles'', [''profile_id''])])
     (missing n [col_default ''profile_id'' (SString 64) False ''default''] db)"

definition upgrade_698e812f0dfc :: "schema \<Rightarrow> schema_op list option" where
  "upgrade_698e812f0dfc db =
    (case (missing ''contacts'' contact_profile_columns db, profile_link ''contacts'' ''fk_contacts_profile'' db,
           profile_link ''groups'' ''fk_groups_profile'' db) of
       (Some cs, Some cl, Some gl) \<Rightarrow> Some (
         (if map_of db ''abuse_reports'' = None then
            [Create_Table ''abuse_reports'' (table_of
               [col ''report_id'' (SString 64) False, col ''message_hash'' (SString 256) False,
                col ''reporter_onion'' (SString 128) False, col ''reason'' (SString 1024) True,
                col ''signature'' (SString 512) False, col ''timestamp'' SDateTime False] [''report_id''] [] [])] else []) @
         (if map_of db ''profiles'' = None then
            [Create_Table ''profiles'' (table_of
               [col ''profile_id'' (SString 64) False, col ''display_name'' (SString 128) False,
                col_default ''hidden'' SBoolean False ''0'', col ''passphrase_hash'' (SString 256) True] [''profile_id''] [] []),
             Insert_Default ''profiles''] else []) @
         (if map_of db ''supporter_badges'' = None then
            [Create_Table ''supporter_badges'' (table_of
               [col ''onion_address'' (SString 128) False, col ''badge_signature'' (SString 512) False,
                col ''signed_by_key'' (SString 256) False, col ''timestamp'' SDateTime False] [''onion_address''] [] [])] else []) @
         cs @ cl @ gl)
     | _ \<Rightarrow> None)"

definition downgrade_698e812f0dfc :: "schema_op list" where
  "downgrade_698e812f0dfc =
    [Drop_Foreign_Key ''groups'' ''fk_groups_profile'', Drop_Column ''groups'' ''profile_id'',
     Drop_Foreign_Key ''contacts'' ''fk_contacts_profile'', Drop_Column ''contacts'' ''profile_id'',
     Drop_Column ''contacts'' ''send_receipts'', Drop_Column ''contacts'' ''preferred_file_relay'',
     Drop_Column ''contacts'' ''my_kem_private_key'', Drop_Column ''contacts'' ''peer_kem_public_key'',
     Drop_Column ''contacts'' ''dr_state'', Drop_Column ''contacts'' ''display_name'',
     Drop_Column ''contacts'' ''disappearing_ttl'', Drop_Column ''contacts'' ''my_onion_address'',
     Drop_Table ''supporter_badges'', Drop_Table ''profiles'', Drop_Table ''abuse_reports'']"

definition upgrade_075354cafd1e :: "schema \<Rightarrow> schema_op list option" where
  "upgrade_075354cafd1e db = missing ''messages'' [col ''sealed_sender'' SText True] db"

text \<open>Dropping the column may fail; the exception is dropped.\<close>

definition downgrade_075354cafd1e :: "schema \<Rightarrow> schema_op list option" where
  "downgrade_075354cafd1e db = map_option (\<lambda>t. if ''sealed_sender'' \<in> set (column_names t)
     then [Drop_Column ''messages'' ''sealed_sender''] else []) (map_of db ''messages'')"

text \<open>A table that is not there is passed over.\<close>

definition missing_if_there :: "string \<Rightarrow> column list \<Rightarrow> schema \<Rightarrow> schema_op list" where
  "missing_if_there n cs db = (case missing n cs db of None \<Rightarrow> [] | Some ops \<Rightarrow> ops)"

definition upgrade_82c9e7fd389a :: "schema \<Rightarrow> schema_op list option" where
  "upgrade_82c9e7fd389a db = Some (
     missing_if_there ''users'' [col ''last_seen'' SDateTime True, col_default ''is_blocked'' SBoolean True ''0''] db @
     missing_if_there ''contacts'' [col_default ''is_blocked'' SBoolean True ''0''] db @
     missing_if_there ''messages'' [col_default ''is_deleted'' SBoolean True ''0''] db)"

text \<open>
  A revision is its name, the one it follows, and what upgrading and downgrading do. The
  list is in the order of the files; \<^verbatim>\<open>upgrade head\<close> follows the chain from the current
  revision.
\<close>

record revision =
  r_id :: string
  r_down :: "string option"
  r_upgrade :: "schema \<Rightarrow> schema_op list option"
  r_downgrade :: "schema \<Rightarrow> schema_op list option"

definition revisions :: "revision list" where
  "revisions =
    [\<lparr>r_id = ''0001'', r_down = None, r_upgrade = \<lambda>_. Some upgrade_0001, r_downgrade = \<lambda>_. Some downgrade_0001\<rparr>,
     \<lparr>r_id = ''0081668158d9'', r_down = Some ''0001'', r_upgrade = \<lambda>_. Some upgrade_0081668158d9,
      r_downgrade = \<lambda>_. Some downgrade_0081668158d9\<rparr>,
     \<lparr>r_id = ''075354cafd1e'', r_down = Some ''698e812f0dfc'', r_upgrade = upgrade_075354cafd1e,
      r_downgrade = downgrade_075354cafd1e\<rparr>,
     \<lparr>r_id = ''698e812f0dfc'', r_down = Some ''780ce35d17d9'', r_upgrade = upgrade_698e812f0dfc,
      r_downgrade = \<lambda>_. Some downgrade_698e812f0dfc\<rparr>,
     \<lparr>r_id = ''71b9e6fd267b'', r_down = Some ''0081668158d9'', r_upgrade = \<lambda>_. Some upgrade_71b9e6fd267b,
      r_downgrade = \<lambda>_. Some downgrade_71b9e6fd267b\<rparr>,
     \<lparr>r_id = ''780ce35d17d9'', r_down = Some ''71b9e6fd267b'', r_upgrade = upgrade_780ce35d17d9,
      r_downgrade = \<lambda>_. Some downgrade_780ce35d17d9\<rparr>,
     \<lparr>r_id = ''82c9e7fd389a'', r_down = Some ''075354cafd1e'', r_upgrade = upgrade_82c9e7fd389a,
      r_downgrade = \<lambda>_. Some []\<rparr>]"

definition apply_ops :: "(schema \<Rightarrow> schema_op list option) \<Rightarrow> schema \<Rightarrow> schema option" where
  "apply_ops f db = (case f db of None \<Rightarrow> None | Some ops \<Rightarrow> run_ops ops db)"

text \<open>The database is its schema and the revision it is at.\<close>

fun upgrade_head :: "nat \<Rightarrow> string option \<times> schema \<Rightarrow> (string option \<times> schema) option" where
  "upgrade_head 0 s = Some s"
| "upgrade_head (Suc n) (cur, db) = (case List.find (\<lambda>r. r_down r = cur) revisions of
     None \<Rightarrow> Some (cur, db)
   | Some r \<Rightarrow> (case apply_ops (r_upgrade r) db of
       None \<Rightarrow> None | Some db' \<Rightarrow> upgrade_head n (Some (r_id r), db')))"

text \<open>\<^verbatim>\<open>downgrade base\<close> goes back the same way.\<close>

fun downgrade_base :: "nat \<Rightarrow> string option \<times> schema \<Rightarrow> (string option \<times> schema) option" where
  "downgrade_base 0 s = Some s"
| "downgrade_base (Suc n) (cur, db) = (case List.find (\<lambda>r. Some (r_id r) = cur) revisions of
     None \<Rightarrow> Some (cur, db)
   | Some r \<Rightarrow> (case apply_ops (r_downgrade r) db of
       None \<Rightarrow> None | Some db' \<Rightarrow> downgrade_base n (r_down r, db')))"

section \<open>The declared tables\<close>

text \<open>
  What \<^verbatim>\<open>core/db/models.py\<close> declares. An insert of the mapper names every column but the
  integer primary key that numbers itself: the columns with a Python default get that, the
  others their given value or \<^verbatim>\<open>NULL\<close>. A column that is unique and indexed gets a unique index.
\<close>

definition indexed :: "(string \<times> string list \<times> bool) list \<Rightarrow> sql_table \<Rightarrow> sql_table" where
  "indexed ixs t = t\<lparr>t_indexes := ixs\<rparr>"

definition orm_users :: sql_table where
  "orm_users = indexed [(''ix_users_username'', [''username''], True)]
    (table_of
       [col ''id'' SInteger False, col ''username'' (SString 64) False, col ''password_hash'' (SString 256) False,
      col ''onion_address'' (SString 128) True, col ''created_at'' SDateTime False, col ''last_seen'' SDateTime True,
      col ''preferred_file_relay'' (SString 512) True]
     [''id''] [(None, [''onion_address''])] [])"

definition orm_contacts :: sql_table where
  "orm_contacts = indexed [(''ix_contacts_owner_onion_onion_address'', [''owner_onion'', ''onion_address''], False),
      (''ix_contacts_owner_onion'', [''owner_onion''], False),
      (''ix_contacts_onion_address'', [''onion_address''], False)]
    (table_of
       [col ''id'' SInteger False, col ''owner_onion'' (SString 128) False, col ''onion_address'' (SString 128) False,
      col ''nickname'' (SString 64) True, col ''public_key_b64'' SText True, col ''shared_secret_b64'' SText True,
      col ''status'' (SString 32) False, col ''verified'' SBoolean False, col ''added_at'' SDateTime False,
      col ''notify_queue_token'' SText True, col ''my_onion_address'' (SString 128) True,
      col ''disappearing_ttl'' SInteger False, col ''display_name'' (SString 64) True, col ''dr_state'' SText True,
      col ''peer_kem_public_key'' SText True, col ''my_kem_private_key'' SText True,
      col ''preferred_file_relay'' (SString 512) True, col ''send_receipts'' SBoolean False,
      col ''profile_id'' (SString 64) False]
     [''id''] []
     [(None, [''owner_onion''], ''users'', [''onion_address'']), (None, [''profile_id''], ''profiles'', [''profile_id''])])"

definition orm_notify_queue :: sql_table where
  "orm_notify_queue = indexed [(''ix_notify_queue_token'', [''token''], False)]
    (table_of
       [col ''id'' SInteger False, col ''token'' (SString 256) False, col ''created_at'' SDateTime False] [''id''] [] [])"

definition orm_messages :: sql_table where
  "orm_messages = indexed [(''ix_messages_sender_recipient_sent_at'', [''sender_onion'', ''recipient_onion'', ''sent_at''], False),
      (''ix_messages_recipient_sender_sent_at'', [''recipient_onion'', ''sender_onion'', ''sent_at''], False),
      (''ix_messages_message_id'', [''message_id''], True),
      (''ix_messages_sender_onion'', [''sender_onion''], False),
      (''ix_messages_recipient_onion'', [''recipient_onion''], False),
      (''ix_messages_sent_at'', [''sent_at''], False)]
    (table_of
       [col ''id'' SInteger False, col ''message_id'' (SString 64) False, col ''sender_onion'' (SString 128) False,
      col ''recipient_onion'' (SString 128) False, col ''ciphertext_b64'' SText False, col ''iv_b64'' (SString 64) False,
      col ''sequence_number'' SInteger False, col ''sent_at'' SDateTime False, col ''delivered'' SBoolean False,
      col ''disappears_at'' SDateTime True, col ''is_deleted'' SBoolean False, col ''sealed_sender'' SText True]
     [''id''] [] [])"

definition orm_groups :: sql_table where
  "orm_groups = indexed [(''ix_groups_group_id'', [''group_id''], True)]
    (table_of
       [col ''id'' SInteger False, col ''group_id'' (SString 64) False, col ''name'' (SString 128) False,
      col ''founder_onion'' (SString 128) False, col ''is_channel'' SBoolean False, col ''created_at'' SDateTime False,
      col ''profile_id'' (SString 64) False]
     [''id''] [] [(None, [''profile_id''], ''profiles'', [''profile_id''])])"

definition orm_group_members :: sql_table where
  "orm_group_members = indexed [(''ix_group_members_group_id'', [''group_id''], False)]
    (table_of
       [col ''id'' SInteger False, col ''group_id'' (SString 64) False, col ''onion_address'' (SString 128) False,
      col ''joined_at'' SDateTime False]
     [''id''] [(None, [''group_id'', ''onion_address''])] [(None, [''group_id''], ''groups'', [''group_id''])])"

definition orm_group_messages :: sql_table where
  "orm_group_messages = indexed [(''ix_group_messages_message_id'', [''message_id''], True),
      (''ix_group_messages_group_id'', [''group_id''], False),
      (''ix_group_messages_sent_at'', [''sent_at''], False)]
    (table_of
       [col ''id'' SInteger False, col ''message_id'' (SString 64) False, col ''group_id'' (SString 64) False,
      col ''sender_onion'' (SString 128) False, col ''ciphertext_b64'' SText False, col ''sent_at'' SDateTime False,
      col ''is_deleted'' SBoolean False]
     [''id''] [] [(None, [''group_id''], ''groups'', [''group_id''])])"

definition orm_prekey_bundles :: sql_table where
  "orm_prekey_bundles = indexed [(''ix_prekey_bundles_onion_address'', [''onion_address''], False)]
    (table_of
       [col ''onion_address'' (SString 128) False, col ''identity_key'' SText False, col ''signed_prekey'' SText False,
      col ''signed_prekey_sig'' SText False, col ''pq_prekey'' SText False, col ''pq_prekey_sig'' SText False,
      col ''one_time_prekeys_json'' SText False, col ''one_time_pq_prekeys_json'' SText False,
      col ''published_at'' SDateTime False]
     [''onion_address''] [] [])"

definition orm_profiles :: sql_table where
  "orm_profiles = table_of
       [col ''profile_id'' (SString 64) False, col ''display_name'' (SString 128) False, col ''hidden'' SBoolean False,
      col ''passphrase_hash'' (SString 256) True]
     [''profile_id''] [] []"

definition orm_abuse_reports :: sql_table where
  "orm_abuse_reports = table_of
       [col ''report_id'' (SString 64) False, col ''message_hash'' (SString 256) False,
      col ''reporter_onion'' (SString 128) False, col ''reason'' (SString 1024) True, col ''signature'' (SString 512) False,
      col ''timestamp'' SDateTime False]
     [''report_id''] [] []"

definition orm_supporter_badges :: sql_table where
  "orm_supporter_badges = table_of
       [col ''onion_address'' (SString 128) False, col ''badge_signature'' (SString 512) False,
      col ''signed_by_key'' (SString 256) False, col ''timestamp'' SDateTime False]
     [''onion_address''] [] []"

definition orm_tables :: schema where
  "orm_tables =
    [(''users'', orm_users),
     (''contacts'', orm_contacts),
     (''notify_queue'', orm_notify_queue),
     (''messages'', orm_messages),
     (''groups'', orm_groups),
     (''group_members'', orm_group_members),
     (''group_messages'', orm_group_messages),
     (''prekey_bundles'', orm_prekey_bundles),
     (''profiles'', orm_profiles),
     (''abuse_reports'', orm_abuse_reports),
     (''supporter_badges'', orm_supporter_badges)]"

definition numbered :: "sql_table \<Rightarrow> column \<Rightarrow> bool" where
  "numbered t c = (t_primary t = [c_name c] \<and> c_type c = SInteger)"

definition mapper_columns :: "sql_table \<Rightarrow> string list" where
  "mapper_columns t = map c_name (filter (\<lambda>c. \<not> numbered t c) (t_columns t))"

text \<open>An insert that gives values to \<open>given\<close> finds every column and leaves none without its value.\<close>

definition insert_ok :: "sql_table \<Rightarrow> string list \<Rightarrow> bool" where
  "insert_ok t given = (set given \<subseteq> set (column_names t) \<and>
     list_all (\<lambda>c. c_nullable c \<or> c_default c \<noteq> None \<or> c_name c \<in> set given \<or> numbered t c) (t_columns t))"

definition refused_tables :: "schema \<Rightarrow> string list" where
  "refused_tables db = map fst (filter (\<lambda>(n, t).
     case map_of db n of None \<Rightarrow> True | Some t' \<Rightarrow> \<not> insert_ok t' (mapper_columns t)) orm_tables)"

text \<open>The columns of the database that no declaration has.\<close>

definition undeclared_columns :: "schema \<Rightarrow> (string \<times> string) list" where
  "undeclared_columns db = concat (map (\<lambda>(n, t). map (Pair n) (filter (\<lambda>c.
     case map_of orm_tables n of None \<Rightarrow> True | Some t' \<Rightarrow> c \<notin> set (column_names t')) (column_names t))) db)"

text \<open>The declared indexes that the database lacks.\<close>

definition absent_indexes :: "schema \<Rightarrow> string list" where
  "absent_indexes db = concat (map (\<lambda>(n, t). filter (\<lambda>i. case map_of db n of None \<Rightarrow> True | Some t' \<Rightarrow> \<not> index_named i t')
     (map fst (t_indexes t))) orm_tables)"

text \<open>Schemas that differ in the order of indexes only.\<close>

definition same_table :: "sql_table \<Rightarrow> sql_table \<Rightarrow> bool" where
  "same_table t u = (t\<lparr>t_indexes := []\<rparr> = u\<lparr>t_indexes := []\<rparr> \<and> set (t_indexes t) = set (t_indexes u))"

definition same_schema :: "schema \<Rightarrow> schema \<Rightarrow> bool" where
  "same_schema db db' = list_all2 (\<lambda>(n, t) (m, u). n = m \<and> same_table t u) db db'"

section \<open>What the guarded revisions share\<close>

lemma map_of_on_table: "on_table n f db = Some db' \<Longrightarrow> map_of db' m = (if m = n then Option.bind (map_of db n) f else map_of db m)"
  by (auto simp: on_table_def update_conv' split: option.splits)

definition optional :: "column \<Rightarrow> bool" where
  "optional c = (c_nullable c \<or> c_default c \<noteq> None)"

lemma add_column_runs:
  "map_of db n = Some t \<Longrightarrow> optional c \<Longrightarrow> c_name c \<notin> set (column_names t) \<Longrightarrow>
   run_op (Add_Column n c) db = Some (AList.update n (t\<lparr>t_columns := t_columns t @ [c]\<rparr>) db)"
  by (auto simp: on_table_def add_column_to_def optional_def)

text \<open>Adding the columns that are missing never fails, leaves none missing, and touches no other table.\<close>

lemma run_adds:
  assumes "map_of db n = Some t" "list_all optional cs" "distinct (map c_name cs)"
    and "\<forall>c\<in>set cs. c_name c \<notin> set (column_names t)"
  shows "\<exists>db'. run_ops (map (Add_Column n) cs) db = Some db' \<and>
    map_of db' n = Some (t\<lparr>t_columns := t_columns t @ cs\<rparr>) \<and> (\<forall>m. m \<noteq> n \<longrightarrow> map_of db' m = map_of db m)"
  using assms
proof (induction cs arbitrary: db t)
  case (Cons c cs)
  let ?t = "t\<lparr>t_columns := t_columns t @ [c]\<rparr>" and ?db = "AList.update n (t\<lparr>t_columns := t_columns t @ [c]\<rparr>) db"
  have "run_op (Add_Column n c) db = Some ?db" using Cons.prems by (intro add_column_runs) auto
  moreover have "\<forall>c\<in>set cs. c_name c \<notin> set (column_names ?t)" using Cons.prems by (auto simp: column_names_def) (metis image_eqI)
  ultimately show ?case using Cons.IH [of ?db ?t] Cons.prems by (auto simp: update_conv')
qed auto

lemma run_missing:
  assumes "missing n cs db = Some ops" "list_all optional cs" "distinct (map c_name cs)"
  shows "\<exists>db'. run_ops ops db = Some db' \<and> missing n cs db' = Some [] \<and> (\<forall>m. m \<noteq> n \<longrightarrow> map_of db' m = map_of db m)"
proof -
  from assms(1) obtain t where t: "map_of db n = Some t"
    and ops: "ops = map (Add_Column n) (filter (\<lambda>c. c_name c \<notin> set (column_names t)) cs)"
    by (auto simp: missing_def)
  let ?cs = "filter (\<lambda>c. c_name c \<notin> set (column_names t)) cs"
  have "list_all optional ?cs" "distinct (map c_name ?cs)"
    using assms(2,3) by (auto simp: list_all_iff distinct_map_filter)
  moreover have "\<forall>c\<in>set ?cs. c_name c \<notin> set (column_names t)" by simp
  ultimately obtain db' where "run_ops ops db = Some db'"
    "map_of db' n = Some (t\<lparr>t_columns := t_columns t @ ?cs\<rparr>)" "\<forall>m. m \<noteq> n \<longrightarrow> map_of db' m = map_of db m"
    using run_adds [OF t, of ?cs] unfolding ops by blast
  moreover have "filter (\<lambda>c. c_name c \<notin> set (column_names (t\<lparr>t_columns := t_columns t @ ?cs\<rparr>))) cs = []"
    by (auto simp: filter_empty_conv column_names_def)
  ultimately show ?thesis unfolding missing_def by simp
qed

lemma missing_cong: "map_of db' n = map_of db n \<Longrightarrow> missing n cs db' = missing n cs db"
  by (simp add: missing_def)

lemma run_ops_append: "run_ops (xs @ ys) db = Option.bind (run_ops xs db) (run_ops ys)"
  by (induction xs arbitrary: db) (auto split: option.split)

lemma run_missing_if_there:
  assumes "list_all optional cs" "distinct (map c_name cs)"
  shows "\<exists>db'. run_ops (missing_if_there n cs db) db = Some db' \<and> missing_if_there n cs db' = [] \<and>
    (\<forall>m. m \<noteq> n \<longrightarrow> map_of db' m = map_of db m)"
proof (cases "missing n cs db")
  case (Some ops)
  with run_missing [OF Some assms] show ?thesis by (auto simp: missing_if_there_def)
qed (auto simp: missing_if_there_def)

lemma missing_if_there_cong: "map_of db' n = map_of db n \<Longrightarrow> missing_if_there n cs db' = missing_if_there n cs db"
  by (simp add: missing_if_there_def missing_cong [of db' n db])

text \<open>The reconciling revision can be run on any database, whatever tables and columns it has:
  it does not fail, and running it again changes nothing.\<close>

theorem reconcile_idempotent:
  "\<exists>db'. apply_ops upgrade_82c9e7fd389a db = Some db' \<and> apply_ops upgrade_82c9e7fd389a db' = Some db'"
proof -
  let ?u = "[col ''last_seen'' SDateTime True, col_default ''is_blocked'' SBoolean True ''0'']"
    and ?c = "[col_default ''is_blocked'' SBoolean True ''0'']" and ?m = "[col_default ''is_deleted'' SBoolean True ''0'']"
  have ok: "list_all optional ?u" "distinct (map c_name ?u)" "list_all optional ?c" "distinct (map c_name ?c)"
    "list_all optional ?m" "distinct (map c_name ?m)"
    by (simp_all add: optional_def col_def col_default_def)
  obtain d1 where d1: "run_ops (missing_if_there ''users'' ?u db) db = Some d1" "missing_if_there ''users'' ?u d1 = []"
    "\<forall>n. n \<noteq> ''users'' \<longrightarrow> map_of d1 n = map_of db n" using run_missing_if_there [OF ok(1,2)] by blast
  obtain d2 where d2: "run_ops (missing_if_there ''contacts'' ?c d1) d1 = Some d2" "missing_if_there ''contacts'' ?c d2 = []"
    "\<forall>n. n \<noteq> ''contacts'' \<longrightarrow> map_of d2 n = map_of d1 n" using run_missing_if_there [OF ok(3,4)] by blast
  obtain d3 where d3: "run_ops (missing_if_there ''messages'' ?m d2) d2 = Some d3" "missing_if_there ''messages'' ?m d3 = []"
    "\<forall>n. n \<noteq> ''messages'' \<longrightarrow> map_of d3 n = map_of d2 n" using run_missing_if_there [OF ok(5,6)] by blast
  have "missing_if_there ''contacts'' ?c db = missing_if_there ''contacts'' ?c d1"
    "missing_if_there ''messages'' ?m db = missing_if_there ''messages'' ?m d2"
    "missing_if_there ''users'' ?u d3 = missing_if_there ''users'' ?u d1"
    "missing_if_there ''contacts'' ?c d3 = missing_if_there ''contacts'' ?c d2"
    using d1(3) d2(3) d3(3) by (auto intro!: missing_if_there_cong)
  with d1 d2 d3 show ?thesis by (simp add: apply_ops_def upgrade_82c9e7fd389a_def run_ops_append)
qed

section \<open>The chain\<close>

definition schema_0001 :: schema where
  "schema_0001 = (case run_ops upgrade_0001 [] of Some db \<Rightarrow> db | None \<Rightarrow> [])"

definition with_rows :: "(string \<Rightarrow> nat) \<Rightarrow> schema \<Rightarrow> schema" where
  "with_rows rows db = map (\<lambda>(n, t). (n, t\<lparr>t_rows := rows n\<rparr>)) db"

lemma upgrade_fails_iff:
  "run_ops upgrade_0081668158d9 (with_rows rows schema_0001) = None \<longleftrightarrow>
   0 < rows ''group_messages'' \<or> 0 < rows ''groups'' \<or> 0 < rows ''messages''"
  by (simp add: schema_0001_def upgrade_0001_def with_rows_def upgrade_0081668158d9_def on_table_def add_column_to_def
      index_named_def column_names_def col_def col_default_def table_of_def)

lemma rows_block_messages:
  "0 < rows ''messages'' \<Longrightarrow> run_ops upgrade_0081668158d9 (with_rows rows schema_0001) = None"
  by (simp add: upgrade_fails_iff)

text \<open>The second revision fails exactly on the databases that are in use: of the schema the first
  one made, it raises when there is a row in the messages, the groups or the group messages, for
  it adds a column to them that must have a value and has no default.\<close>

theorem rows_block:
  "run_ops upgrade_0081668158d9 (with_rows rows schema_0001) = None \<longleftrightarrow>
   0 < rows ''group_messages'' \<or> 0 < rows ''groups'' \<or> 0 < rows ''messages''"
  by (rule upgrade_fails_iff)

definition migrated :: "string option \<times> schema" where
  "migrated = (case upgrade_head 7 (None, []) of Some s \<Rightarrow> s | None \<Rightarrow> (None, []))"


lemma migrated_undeclared:
  "undeclared_columns (snd migrated) = [(''users'', ''is_blocked''), (''contacts'', ''is_blocked'')]"
  by code_simp

lemma migrated_absent_indexes:
  "absent_indexes (snd migrated) =
    [''ix_contacts_owner_onion_onion_address'', ''ix_contacts_owner_onion'', ''ix_contacts_onion_address'',
     ''ix_messages_sender_recipient_sent_at'', ''ix_messages_recipient_sender_sent_at'']"
  by code_simp

lemma migrated_at_head: "upgrade_head 7 (None, []) = Some migrated \<and> List.find (\<lambda>r. r_down r = fst migrated) revisions = None"
  by code_simp

text \<open>The chain has seven revisions; more fuel gives the same.\<close>

lemma upgrade_head_more:
  "upgrade_head n s = Some s' \<Longrightarrow> List.find (\<lambda>r. r_down r = fst s') revisions = None \<Longrightarrow> upgrade_head (n + k) s = Some s'"
proof (induction n s rule: upgrade_head.induct)
  case (1 s)
  then show ?case by (cases k; cases s) auto
qed (auto split: option.splits)

text \<open>Upgrades by one revision at a time and says of each whether going back from it undoes it.\<close>

fun undone :: "nat \<Rightarrow> string option \<times> schema \<Rightarrow> bool list" where
  "undone 0 s = []"
| "undone (Suc n) s = (case upgrade_head 1 s of
     None \<Rightarrow> [False]
   | Some s' \<Rightarrow> (case downgrade_base 1 s' of
       None \<Rightarrow> False | Some d \<Rightarrow> fst d = fst s \<and> same_schema (snd d) (snd s)) # undone n s')"

lemma migrated_downgrades: "downgrade_base 7 migrated = Some (None, [])"
  by code_simp


end
