(* ===== verification/Config_Reload.thy ===== *)
theory Config_Reload
  imports Prelude
begin

text \<open>
  The settings of the FastAPI node (\<^verbatim>\<open>core/config.py\<close>), how they are read again while it
  runs, and what \<^verbatim>\<open>core/db/engine.py\<close> makes of them when it is imported. What
  \<^verbatim>\<open>pydantic\<close> reads from the environment and the file is an argument; so is the answer of
  \<^verbatim>\<open>watchdog\<close> to an exception in a handler.
\<close>

section \<open>Settings\<close>

datatype environment = Development | Production | Test | Testing

record settings =
  st_environment :: environment
  st_debug :: bool
  st_secret_key :: string
  st_host :: string
  st_port :: int
  st_workers :: int
  st_database_url :: string
  st_db_key :: string
  st_tor_enabled :: bool
  st_tor_control_port :: int
  st_tor_socks_port :: int
  st_rate_limit_default :: string
  st_rate_limit_auth :: string
  st_sentry_dsn :: string
  st_otel_endpoint :: string
  st_log_level :: string
  st_enable_v3_api :: bool
  st_enable_config_hot_reload :: bool

definition placeholder_key :: string where "placeholder_key = ''CHANGE_ME_IN_PRODUCTION''"

definition default_settings :: settings where
  "default_settings = \<lparr>st_environment = Development, st_debug = False, st_secret_key = placeholder_key,
     st_host = ''127.0.0.1'', st_port = 5000, st_workers = 1,
     st_database_url = ''sqlite+aiosqlite:///./anonymus.db'', st_db_key = [],
     st_tor_enabled = True, st_tor_control_port = 9051, st_tor_socks_port = 9050,
     st_rate_limit_default = ''60/minute'', st_rate_limit_auth = ''10/minute'',
     st_sentry_dsn = [], st_otel_endpoint = [], st_log_level = ''INFO'',
     st_enable_v3_api = True, st_enable_config_hot_reload = False\<rparr>"

text \<open>\<open>env\<close> is the variable \<^verbatim>\<open>ENVIRONMENT\<close> of the process, not the field.\<close>

definition secret_key_not_default_in_prod :: "string option \<Rightarrow> string \<Rightarrow> string py" where
  "secret_key_not_default_in_prod env v =
     (if v = placeholder_key \<and> py_lower (case env of Some e \<Rightarrow> e | None \<Rightarrow> ''development'') = ''production''
      then Inl (ValueError ''SECRET_KEY must be set in production'') else Inr v)"

text \<open>\<^verbatim>\<open>Settings()\<close>: \<open>raw\<close> are the values read, \<open>None\<close> where one has not its type.\<close>

definition make_settings :: "string option \<Rightarrow> settings option \<Rightarrow> settings py" where
  "make_settings env raw = (case raw of
     None \<Rightarrow> Inl (ValueError ''validation'')
   | Some s \<Rightarrow>
       if \<not> (1 \<le> st_port s \<and> st_port s \<le> 65535) \<or> \<not> 1 \<le> st_workers s then Inl (ValueError ''validation'')
       else (case secret_key_not_default_in_prod env (st_secret_key s) of
               Inl e \<Rightarrow> Inl e | Inr k \<Rightarrow> Inr (s\<lparr>st_secret_key := k\<rparr>)))"

definition is_development :: "settings \<Rightarrow> bool" where
  "is_development s = (st_environment s = Development)"

definition is_production :: "settings \<Rightarrow> bool" where
  "is_production s = (st_environment s = Production)"

definition is_test :: "settings \<Rightarrow> bool" where
  "is_test s = (st_environment s = Test \<or> st_environment s = Testing)"

section \<open>Reading them again\<close>

text \<open>
  The module's variables: the settings, the number of listeners, the watcher. \<open>rl_calls\<close> are the
  settings the listeners were called with; what a listener raises is dropped. The watcher's own
  thread only waits for the stop event; \<open>rl_dispatching\<close> says that the thread that calls the
  handler lives.
\<close>

record reload =
  rl_settings :: settings
  rl_listeners :: nat
  rl_calls :: "settings list"
  rl_watcher :: bool
  rl_dispatching :: bool
  rl_last_event :: real

definition reload_init :: "settings \<Rightarrow> reload" where
  "reload_init s = \<lparr>rl_settings = s, rl_listeners = 0, rl_calls = [], rl_watcher = False, rl_dispatching = False, rl_last_event = 0\<rparr>"

definition register_config_change_listener :: "reload \<Rightarrow> reload" where
  "register_config_change_listener r = r\<lparr>rl_listeners := Suc (rl_listeners r)\<rparr>"

text \<open>
  When the new settings can not be made, the call of \<^verbatim>\<open>warning\<close> with the keyword
  \<^verbatim>\<open>error\<close> raises a \<^verbatim>\<open>TypeError\<close> of its own (\<open>False\<close>).
\<close>

definition reload_settings_in_place :: "settings py \<Rightarrow> reload \<Rightarrow> bool \<times> reload" where
  "reload_settings_in_place new r = (case new of
     Inl _ \<Rightarrow> (False, r)
   | Inr s \<Rightarrow> (True, r\<lparr>rl_settings := s, rl_calls := rl_calls r @ replicate (rl_listeners r) s\<rparr>))"

text \<open>\<open>here\<close>: the event is not of a directory and its path is that of the file.\<close>

definition on_modified :: "bool \<Rightarrow> real \<Rightarrow> settings py \<Rightarrow> reload \<Rightarrow> bool \<times> reload" where
  "on_modified here now new r =
     (if \<not> here \<or> now - rl_last_event r < 1 / 2 then (True, r)
      else reload_settings_in_place new (r\<lparr>rl_last_event := now\<rparr>))"

definition start_config_hot_reload :: "bool \<Rightarrow> bool \<Rightarrow> reload \<Rightarrow> reload" where
  "start_config_hot_reload watchdog exists r =
     (if \<not> st_enable_config_hot_reload (rl_settings r) \<or> rl_watcher r \<or> \<not> watchdog \<or> \<not> exists then r
      else r\<lparr>rl_watcher := True, rl_dispatching := True, rl_last_event := 0\<rparr>)"

definition stop_config_hot_reload :: "reload \<Rightarrow> reload" where
  "stop_config_hot_reload r = r\<lparr>rl_watcher := False, rl_dispatching := False\<rparr>"

text \<open>
  A change of the file: its time and what it would be read as. \<open>survives\<close> says whether the
  dispatching thread goes on after a handler raised.
\<close>

definition file_event :: "bool \<Rightarrow> bool \<times> real \<times> settings py \<Rightarrow> reload \<Rightarrow> reload" where
  "file_event survives ev r = (case ev of (here, now, new) \<Rightarrow>
     if \<not> rl_dispatching r then r
     else case on_modified here now new r of
       (fine, r') \<Rightarrow> if fine \<or> survives then r' else r'\<lparr>rl_dispatching := False\<rparr>)"

definition file_events :: "bool \<Rightarrow> (bool \<times> real \<times> settings py) list \<Rightarrow> reload \<Rightarrow> reload" where
  "file_events survives evs r = fold (file_event survives) evs r"

section \<open>The database engine\<close>

text \<open>
  The choices \<^verbatim>\<open>engine.py\<close> makes on import: the URL, the pool for a server, or a refusal
  to start. \<open>sqlcipher\<close> says that the driver can be imported.
\<close>

record engine =
  en_url :: string
  en_pool :: "(int \<times> int \<times> int) option"
  en_echo :: bool

definition cipher_url :: "string \<Rightarrow> string" where
  "cipher_url url = py_replace ''sqlite+aiosqlite://'' ''sqlite+sqlcipher://'' url"

definition make_engine :: "bool \<Rightarrow> int \<Rightarrow> int \<Rightarrow> settings \<Rightarrow> engine py" where
  "make_engine sqlcipher pool_size max_overflow s =
     (if is_production s \<and> st_db_key s = [] then Inl (RuntimeError ''Refusing to start in production with db_key empty.'')
      else
        let url = st_database_url s;
            url' = (if st_db_key s \<noteq> [] \<and> py_startswith url ''sqlite+aiosqlite://'' \<and> sqlcipher then cipher_url url else url)
        in Inr \<lparr>en_url = url',
                en_pool = (if py_startswith url ''sqlite'' then None else Some (pool_size, max_overflow, 1800)),
                en_echo = is_development s\<rparr>)"

text \<open>The statements a new SQLite connection runs, in order.\<close>

definition quote_key :: "string \<Rightarrow> string" where
  "quote_key k = py_replace [CHR 0x27] [CHR 0x27, CHR 0x27] k"

definition connection_pragmas :: "(nat \<Rightarrow> string) \<Rightarrow> nat \<Rightarrow> string \<Rightarrow> string list" where
  "connection_pragmas digits cache_kb key =
     [''PRAGMA foreign_keys = ON;'', ''PRAGMA journal_mode = WAL;'', ''PRAGMA synchronous = NORMAL;'',
      ''PRAGMA mmap_size = 268435456;'', ''PRAGMA wal_autocheckpoint = 1000;'', ''PRAGMA busy_timeout = 5000;'',
      ''PRAGMA cache_size = -'' @ digits cache_kb @ '';''] @
     (if key = [] then []
      else [''PRAGMA key = '' @ [CHR 0x27] @ quote_key key @ [CHR 0x27] @ '';'', ''SELECT count(*) FROM sqlite_master;''])"

section \<open>What reloading keeps\<close>

text \<open>A production node is let through with the key everyone knows: the check reads the variable
  \<^verbatim>\<open>ENVIRONMENT\<close> of the process, and when the environment was set in the file alone, the
  settings say production and keep the placeholder.\<close>

theorem placeholder_in_production:
  "make_settings None (Some (default_settings\<lparr>st_environment := Production, st_db_key := key\<rparr>)) =
     Inr (default_settings\<lparr>st_environment := Production, st_db_key := key\<rparr>) \<and>
   is_production (default_settings\<lparr>st_environment := Production, st_db_key := key\<rparr>) \<and>
   st_secret_key (default_settings\<lparr>st_environment := Production, st_db_key := key\<rparr>) = placeholder_key"
  by (simp add: make_settings_def secret_key_not_default_in_prod_def default_settings_def is_production_def str_simps)

lemma make_settings_valid:
  "make_settings env raw = Inr s \<Longrightarrow> 1 \<le> st_port s \<and> st_port s \<le> 65535 \<and> 1 \<le> st_workers s"
  by (auto simp: make_settings_def split: option.splits if_splits sum.splits)

lemma on_modified_valid:
  assumes "snd (on_modified here now (make_settings env raw) r) = r'" "1 \<le> st_port (rl_settings r) \<and> st_port (rl_settings r) \<le> 65535"
  shows "1 \<le> st_port (rl_settings r') \<and> st_port (rl_settings r') \<le> 65535"
  using assms make_settings_valid [of env raw]
  by (auto simp: on_modified_def reload_settings_in_place_def split: sum.splits)

text \<open>While events come less than half a second after the last one that was taken, nothing changes.\<close>

lemma file_events_debounced:
  "\<forall>(here, now, new)\<in>set evs. now - rl_last_event r < 1 / 2 \<Longrightarrow> file_events survives evs r = r"
proof (induction evs)
  case (Cons ev evs)
  then have "file_event survives ev r = r"
    by (auto simp: file_event_def on_modified_def)
  with Cons show ?case by (simp add: file_events_def)
qed (simp add: file_events_def)

text \<open>Of a file written in several steps the node keeps the first: after an event that was taken,
  events within half a second are dropped and nothing looks again, so the settings stay those of
  the first step whatever the last left in the file.\<close>

theorem reload_stale:
  assumes "rl_dispatching r" and "now - rl_last_event r \<ge> 1 / 2"
    and "\<forall>(here, t, new)\<in>set evs. t < now + 1 / 2"
  shows "rl_settings (file_events survives ((True, now, Inr first) # evs) r) = first"
proof -
  let ?r = "file_event survives (True, now, Inr first) r"
  have r: "rl_last_event ?r = now" "rl_settings ?r = first"
    using assms(1,2) by (simp_all add: file_event_def on_modified_def reload_settings_in_place_def)
  have "\<forall>(here, t, new)\<in>set evs. t - rl_last_event ?r < 1 / 2" using assms(3) r(1) by auto
  then have "file_events survives evs ?r = ?r" by (rule file_events_debounced)
  with r show ?thesis by (simp add: file_events_def)
qed

theorem reload_stale_witness:
  "rl_settings (file_events True [(True, 10, Inr default_settings), (True, 10.1, Inr (default_settings\<lparr>st_port := 7\<rparr>))]
     ((reload_init default_settings)\<lparr>rl_dispatching := True\<rparr>)) = default_settings"
  using reload_stale [of "(reload_init default_settings)\<lparr>rl_dispatching := True\<rparr>" 10
      "[(True, 10.1, Inr (default_settings\<lparr>st_port := 7\<rparr>))]" True default_settings]
  by (simp add: reload_init_def)

lemma file_events_dead: "\<not> rl_dispatching r \<Longrightarrow> file_events survives evs r = r"
  by (induction evs) (simp_all add: file_events_def file_event_def split: prod.split)

text \<open>One bad edit ends the reloading for good where the dispatching thread does not survive an
  exception: the warning about it raises, no later event is taken, and starting the watcher again
  does nothing, for its own thread still waits.\<close>

theorem bad_edit_ends_reload:
  assumes "rl_dispatching r" and "rl_watcher r" and "now - rl_last_event r \<ge> 1 / 2"
  shows "file_events False evs (start_config_hot_reload True True (file_event False (True, now, Inl e) r)) =
    r\<lparr>rl_dispatching := False, rl_last_event := now\<rparr>"
proof -
  let ?r = "r\<lparr>rl_dispatching := False, rl_last_event := now\<rparr>"
  have "file_event False (True, now, Inl e) r = ?r"
    using assms by (simp add: file_event_def on_modified_def reload_settings_in_place_def)
  moreover have "start_config_hot_reload True True ?r = ?r" using assms(2) by (simp add: start_config_hot_reload_def)
  moreover have "file_events False evs ?r = ?r" by (rule file_events_dead) simp
  ultimately show ?thesis by simp
qed

theorem bad_edit_ends_reload_witness:
  "rl_settings (file_events False [(True, 99, Inr (default_settings\<lparr>st_port := 7\<rparr>))]
     (start_config_hot_reload True True (file_event False (True, 10, Inl StructError)
       ((reload_init default_settings)\<lparr>rl_watcher := True, rl_dispatching := True\<rparr>)))) = default_settings"
  using bad_edit_ends_reload [of "(reload_init default_settings)\<lparr>rl_watcher := True, rl_dispatching := True\<rparr>" 10
      "[(True, 99, Inr (default_settings\<lparr>st_port := 7\<rparr>))]" StructError]
  by (simp add: reload_init_def)

text \<open>The key is given after six statements that already read the file.\<close>

lemma key_pragma_late:
  "key \<noteq> [] \<Longrightarrow> connection_pragmas digits kb key ! 7 = ''PRAGMA key = '' @ [CHR 0x27] @ quote_key key @ [CHR 0x27] @ '';''"
  by (simp add: connection_pragmas_def nth_append)

end
