(* ===== verification/Sdk_Requests.thy ===== *)
theory Sdk_Requests
  imports Sdk_Client P2P_Server
begin

text \<open>
  The operations of the Python client SDK (\<^verbatim>\<open>core/sdk.py\<close>) around the message keys of
  Sdk_Client: what it asks of the node, how it reads the answers, and the two events of its
  socket. An answer of the node is an argument, \<open>None\<close> when the request raises; the result names
  the requests sent. Every request that changes something is preceded by one of the start page,
  whose text may carry the token for the header.
\<close>

section \<open>Requests and answers\<close>

record answer =
  an_status :: nat
  an_body :: "json option"    \<comment> \<open>\<open>None\<close>: not JSON\<close>

datatype request = Get string | Post string "string option" json

definition csrf_mark :: string where
  "csrf_mark = ''meta name='' @ [CHR 0x22] @ ''csrf-token'' @ [CHR 0x22] @ '' content='' @ [CHR 0x22]"

fun extract_csrf :: "string \<Rightarrow> string option" where
  "extract_csrf [] = None"
| "extract_csrf (ch # cs) =
     (let rest = drop (length csrf_mark) (ch # cs); v = takeWhile (\<lambda>x. x \<noteq> CHR 0x22) rest
      in if py_startswith (ch # cs) csrf_mark \<and> v \<noteq> [] \<and> length v < length rest then Some v else extract_csrf cs)"

text \<open>\<open>page\<close> is the text of the start page.\<close>

definition posted :: "string option \<Rightarrow> answer option \<Rightarrow> string \<Rightarrow> json \<Rightarrow> request list \<times> answer option" where
  "posted page a path body = (case page of
     None \<Rightarrow> ([Get ''/''], None)
   | Some html \<Rightarrow> ([Get ''/'', Post path (extract_csrf html) body], a))"

text \<open>\<^verbatim>\<open>res.status_code == 200 and res.json().get("success")\<close>\<close>

definition succeeded :: "answer option \<Rightarrow> bool" where
  "succeeded a = (case a of
     Some r \<Rightarrow> an_status r = 200 \<and>
       (case an_body r of Some b \<Rightarrow> (case json_get b ''success'' of Some v \<Rightarrow> json_truthy v | None \<Rightarrow> False) | None \<Rightarrow> False)
   | None \<Rightarrow> False)"

definition ok_body :: "answer option \<Rightarrow> json option" where
  "ok_body a = (case a of Some r \<Rightarrow> (if an_status r = 200 then an_body r else None) | None \<Rightarrow> None)"

section \<open>The client\<close>

record client =
  cl_keys :: sdk
  cl_private :: bytes
  cl_username :: "json option"
  cl_onion :: "json option"
  cl_callbacks :: nat

definition client_public :: "crypto \<Rightarrow> client \<Rightarrow> string" where
  "client_public c cl = export_public_key (dh_public c (cl_private cl))"

definition client_init :: "bytes \<Rightarrow> client" where
  "client_init priv = \<lparr>cl_keys = \<lparr>is_logged_in = False, chain_keys = Map.empty, session_ids = Map.empty\<rparr>,
     cl_private = priv, cl_username = None, cl_onion = None, cl_callbacks = 0\<rparr>"

text \<open>
  \<^verbatim>\<open>init_contact_session\<close> on an entry of the list; \<open>None\<close> raises. A session stored under
  an address that is no text is one no later operation names.
\<close>

definition contact_session :: "crypto \<Rightarrow> string \<Rightarrow> (string \<times> json) list \<Rightarrow> sdk \<Rightarrow> sdk option" where
  "contact_session c pub kvs s =
     (case (map_of kvs ''shared_secret'', map_of kvs ''peer_public_key'',
            (if truthy_field kvs ''my_public_key'' then map_of kvs ''my_public_key'' else Some (JStr pub))) of
        (Some (JStr secret), Some (JStr peer), Some (JStr my)) \<Rightarrow>
          (case map_of kvs ''onion_address'' of
             Some (JStr w) \<Rightarrow> init_contact_session c w secret my peer s
           | Some (JList _) \<Rightarrow> None
           | Some (JObj _) \<Rightarrow> None
           | _ \<Rightarrow> (if b64_decode secret = None then None else Some s))
      | _ \<Rightarrow> None)"

definition usable_contact :: "(string \<times> json) list \<Rightarrow> bool" where
  "usable_contact kvs = (map_of kvs ''status'' = Some (JStr ''accepted'') \<and> truthy_field kvs ''shared_secret'')"

text \<open>The first entry that raises ends the loop; the sessions before it are kept.\<close>

fun sync_list :: "crypto \<Rightarrow> string \<Rightarrow> json list \<Rightarrow> sdk \<Rightarrow> sdk" where
  "sync_list c pub [] s = s"
| "sync_list c pub (x # xs) s = (case x of
     JObj kvs \<Rightarrow>
       if usable_contact kvs
       then (case contact_session c pub kvs s of None \<Rightarrow> s | Some s' \<Rightarrow> sync_list c pub xs s')
       else sync_list c pub xs s
   | _ \<Rightarrow> s)"

definition sync_contacts :: "crypto \<Rightarrow> answer option \<Rightarrow> client \<Rightarrow> request list \<times> client" where
  "sync_contacts c a cl =
     (if \<not> is_logged_in (cl_keys cl) then ([], cl)
      else ([Get ''/api/contacts''], case ok_body a of
        Some (JList xs) \<Rightarrow> cl\<lparr>cl_keys := sync_list c (client_public c cl) xs (cl_keys cl)\<rparr>
      | _ \<Rightarrow> cl))"

definition fetch_my_info :: "answer option \<Rightarrow> client \<Rightarrow> request list \<times> client" where
  "fetch_my_info a cl = ([Get ''/api/my_info''], case ok_body a of
     Some (JObj kvs) \<Rightarrow> cl\<lparr>cl_onion := map_of kvs ''onion_address'', cl_username := map_of kvs ''local_username''\<rparr>
   | _ \<Rightarrow> cl)"

text \<open>What \<^verbatim>\<open>register\<close> returns: \<open>None\<close> stands for the dictionary with the text of the exception.\<close>

definition credentials :: "string \<Rightarrow> string \<Rightarrow> json" where
  "credentials name password = JObj [(''username'', JStr name), (''password'', JStr password)]"

definition sdk_register :: "string option \<Rightarrow> answer option \<Rightarrow> string \<Rightarrow> string \<Rightarrow> request list \<times> json option" where
  "sdk_register page a name password =
     (case posted page a ''/register'' (credentials name password) of
        (reqs, r) \<Rightarrow> (reqs, Option.bind r an_body))"

definition sdk_login ::
    "crypto \<Rightarrow> string option \<Rightarrow> answer option \<Rightarrow> answer option \<Rightarrow> answer option \<Rightarrow> string \<Rightarrow> string \<Rightarrow> client
     \<Rightarrow> bool \<times> request list \<times> client" where
  "sdk_login c page a info listed name password cl =
     (case posted page a ''/login'' (credentials name password) of (reqs, r) \<Rightarrow>
        if succeeded r
        then (case fetch_my_info info (cl\<lparr>cl_keys := (cl_keys cl)\<lparr>is_logged_in := True\<rparr>, cl_username := Some (JStr name)\<rparr>) of
                (r1, cl1) \<Rightarrow> (case sync_contacts c listed cl1 of (r2, cl2) \<Rightarrow> (True, reqs @ r1 @ r2, cl2)))
        else (False, reqs, cl))"

section \<open>Contacts\<close>

definition sdk_add_contact ::
    "crypto \<Rightarrow> string option \<Rightarrow> answer option \<Rightarrow> string \<Rightarrow> string \<Rightarrow> client \<Rightarrow> bool \<times> request list" where
  "sdk_add_contact c page a onion nickname cl =
     (if \<not> is_logged_in (cl_keys cl) then (False, [])
      else case posted page a ''/api/contacts/add'' (JObj [(''onion_address'', JStr onion), (''nickname'', JStr nickname),
             (''my_public_key'', JStr (client_public c cl))]) of
        (reqs, r) \<Rightarrow> (succeeded r, reqs))"

definition save_shared_secret ::
    "string option \<Rightarrow> answer option \<Rightarrow> string \<Rightarrow> string \<Rightarrow> string \<Rightarrow> bool \<times> request list" where
  "save_shared_secret page a onion secret peer =
     (case posted page a ''/api/contacts/save_secret'' (JObj [(''onion_address'', JStr onion), (''shared_secret'', JStr secret),
        (''peer_public_key'', JStr peer)]) of
      (reqs, r) \<Rightarrow> (succeeded r, reqs))"

text \<open>\<^verbatim>\<open>derive_shared_secret\<close> with an imported key, as text; \<open>None\<close> raises.\<close>

definition shared_secret_text :: "crypto \<Rightarrow> bytes \<Rightarrow> string \<Rightarrow> string option" where
  "shared_secret_text c priv peer = (case import_public_key peer of
     Inl _ \<Rightarrow> None | Inr raw \<Rightarrow> map_option b64_encode (dh_exchange c priv raw))"

text \<open>The first entry of the list with the address; looking at an entry that is no object raises.\<close>

fun listed_contact :: "string \<Rightarrow> json list \<Rightarrow> (string \<times> json) list option" where
  "listed_contact onion [] = None"
| "listed_contact onion (x # xs) = (case x of
     JObj kvs \<Rightarrow> if map_of kvs ''onion_address'' = Some (JStr onion) then Some kvs else listed_contact onion xs
   | _ \<Rightarrow> None)"

definition sdk_accept_contact ::
    "crypto \<Rightarrow> answer option \<Rightarrow> string option \<Rightarrow> answer option \<Rightarrow> answer option \<Rightarrow> string \<Rightarrow> client
     \<Rightarrow> bool \<times> request list \<times> client" where
  "sdk_accept_contact c listing page a listed onion cl =
     (if \<not> is_logged_in (cl_keys cl) then (False, [], cl)
      else
        let peer = (case Option.bind listing an_body of
              Some (JList xs) \<Rightarrow> (case listed_contact onion xs of
                 Some kvs \<Rightarrow> (case map_of kvs ''peer_public_key'' of Some (JStr p) \<Rightarrow> Some p | _ \<Rightarrow> None)
               | None \<Rightarrow> None)
            | _ \<Rightarrow> None)
        in case Option.bind peer (shared_secret_text c (cl_private cl)) of
             None \<Rightarrow> (False, [Get ''/api/contacts''], cl)
           | Some secret \<Rightarrow>
               (case posted page a ''/api/contacts/accept'' (JObj [(''onion_address'', JStr onion),
                       (''my_public_key'', JStr (client_public c cl)), (''shared_secret'', JStr secret)]) of
                  (reqs, r) \<Rightarrow>
                    if succeeded r
                    then (case sync_contacts c listed cl of (r2, cl2) \<Rightarrow> (True, Get ''/api/contacts'' # reqs @ r2, cl2))
                    else (False, Get ''/api/contacts'' # reqs, cl)))"

section \<open>Messages\<close>

text \<open>
  An entry of the history as \<^verbatim>\<open>get_messages\<close> returns it: \<open>None\<close> stands for one of the
  texts in brackets that say why it could not be read.
\<close>

record history_entry =
  he_sender :: "json option"
  he_text :: "string option"
  he_timestamp :: "json option"
  he_seq :: int

definition history_entry_of :: "crypto \<Rightarrow> string \<Rightarrow> (string \<times> json) list \<Rightarrow> sdk \<Rightarrow> history_entry" where
  "history_entry_of c onion kvs s =
     (let sender = map_of kvs ''sender''; ts = map_of kvs ''timestamp'';
          payload = (case map_of kvs ''message'' of Some (JStr t) \<Rightarrow> json_loads t | _ \<Rightarrow> None)
      in case payload of
           Some (JObj p) \<Rightarrow>
             (case (case map_of p ''seq'' of None \<Rightarrow> Some 0 | Some v \<Rightarrow> json_int v) of
                None \<Rightarrow> \<lparr>he_sender = sender, he_text = None, he_timestamp = ts, he_seq = 0\<rparr>
              | Some seq \<Rightarrow>
                  \<lparr>he_sender = sender,
                   he_text = (case (map_of p ''iv'', map_of p ''ciphertext'') of
                      (Some (JStr iv), Some (JStr ct)) \<Rightarrow>
                        decrypt_historical c onion iv ct seq (if sender = Some (JStr ''me'') then ''me'' else ''peer'') s
                    | _ \<Rightarrow> None),
                   he_timestamp = ts, he_seq = seq\<rparr>)
         | _ \<Rightarrow> \<lparr>he_sender = sender, he_text = None, he_timestamp = ts, he_seq = 0\<rparr>)"

definition sdk_get_messages :: "crypto \<Rightarrow> answer option \<Rightarrow> string \<Rightarrow> client \<Rightarrow> history_entry list" where
  "sdk_get_messages c a onion cl =
     (if \<not> is_logged_in (cl_keys cl) then []
      else case ok_body a of
        Some (JList xs) \<Rightarrow>
          if list_all (\<lambda>x. case x of JObj _ \<Rightarrow> True | _ \<Rightarrow> False) xs
          then map (\<lambda>x. case x of JObj kvs \<Rightarrow> history_entry_of c onion kvs (cl_keys cl)
                 | _ \<Rightarrow> \<lparr>he_sender = None, he_text = None, he_timestamp = None, he_seq = 0\<rparr>) xs
          else []
      | _ \<Rightarrow> [])"

text \<open>
  \<^verbatim>\<open>send_message\<close> with its requests: the history has been asked for before the keys are
  touched, and the chain has moved on even when the post fails.
\<close>

definition sdk_send ::
    "crypto \<Rightarrow> (nat \<Rightarrow> bytes) \<Rightarrow> bytes \<Rightarrow> answer option \<Rightarrow> string option \<Rightarrow> answer option \<Rightarrow> string \<Rightarrow> string \<Rightarrow> client
     \<Rightarrow> bool \<times> request list \<times> client" where
  "sdk_send c rnd iv history page a onion text cl =
     (if \<not> is_logged_in (cl_keys cl) \<or> chain_keys (cl_keys cl) onion = None then (False, [], cl)
      else case Sdk_Client.send_message c rnd iv (length (sdk_get_messages c history onion cl)) onion text (cl_keys cl) of
        (None, s) \<Rightarrow> (False, [Get ''/api/messages''], cl\<lparr>cl_keys := s\<rparr>)
      | (Some (iv_b64, ct_b64, seq), s) \<Rightarrow>
          (case posted page a ''/api/messages/send'' (JObj [(''onion_address'', JStr onion), (''iv'', JStr iv_b64),
                  (''ciphertext'', JStr ct_b64), (''seq'', JInt seq)]) of
             (reqs, r) \<Rightarrow> (succeeded r, Get ''/api/messages'' # reqs, cl\<lparr>cl_keys := s\<rparr>)))"

section \<open>Events of the socket\<close>

definition on_message :: "client \<Rightarrow> client" where
  "on_message cl = cl\<lparr>cl_callbacks := Suc (cl_callbacks cl)\<rparr>"

text \<open>The calls of the callbacks; what a callback raises is printed.\<close>

definition on_incoming_message ::
    "crypto \<Rightarrow> string \<Rightarrow> string \<Rightarrow> string \<Rightarrow> int \<Rightarrow> int \<Rightarrow> client \<Rightarrow> (string \<times> string \<times> int) list \<times> client" where
  "on_incoming_message c sender iv ct seq timestamp cl =
     (case decrypt_incoming c sender iv ct seq (cl_keys cl) of
        (None, s) \<Rightarrow> ([], cl\<lparr>cl_keys := s\<rparr>)
      | (Some text, s) \<Rightarrow> (replicate (cl_callbacks cl) (sender, text, timestamp), cl\<lparr>cl_keys := s\<rparr>))"

definition on_handshake_accepted ::
    "crypto \<Rightarrow> string option \<Rightarrow> answer option \<Rightarrow> answer option \<Rightarrow> string \<Rightarrow> string \<Rightarrow> client \<Rightarrow> request list \<times> client" where
  "on_handshake_accepted c page a listed onion peer cl =
     (case shared_secret_text c (cl_private cl) peer of
        None \<Rightarrow> ([], cl)
      | Some secret \<Rightarrow>
          (case (snd (save_shared_secret page a onion secret peer), sync_contacts c listed cl) of
             (reqs, (r2, cl2)) \<Rightarrow> (reqs @ r2, cl2)))"

section \<open>Keys after a sync\<close>

definition known_in :: "sdk \<Rightarrow> sdk \<Rightarrow> bool" where
  "known_in s0 s = (\<forall>w k. chain_keys s0 w = Some k \<longrightarrow> chain_keys s w = Some k \<and> session_ids s w = session_ids s0 w)"

lemma init_contact_session_known:
  assumes "known_in s0 s" "init_contact_session c w secret my peer s0 = Some s0'"
  shows "\<exists>s'. init_contact_session c w secret my peer s = Some s' \<and> known_in s0' s'"
  using assms by (auto simp: init_contact_session_def known_in_def Let_def split: option.splits)

lemma init_contact_session_fails:
  "init_contact_session c w secret my peer s0 = None \<Longrightarrow> init_contact_session c w secret my peer s = None"
  by (auto simp: init_contact_session_def Let_def split: option.splits)

lemma contact_session_known:
  assumes "known_in s0 s" "contact_session c pub kvs s0 = Some s0'"
  shows "\<exists>s'. contact_session c pub kvs s = Some s' \<and> known_in s0' s'"
  using assms init_contact_session_known [OF assms(1)]
  by (auto simp: contact_session_def split: option.splits json.splits if_splits)

lemma contact_session_fails: "contact_session c pub kvs s0 = None \<Longrightarrow> contact_session c pub kvs s = None"
  using init_contact_session_fails [of c _ _ _ _ s0 s]
  by (auto simp: contact_session_def split: option.splits json.splits if_splits)

text \<open>What a sync finds in the list it finds from every state.\<close>

lemma sync_list_known: "known_in s0 s \<Longrightarrow> known_in (sync_list c pub xs s0) (sync_list c pub xs s)"
proof (induction xs arbitrary: s0 s)
  case (Cons x xs)
  show ?case
  proof (cases x)
    case (JObj kvs)
    show ?thesis
    proof (cases "usable_contact kvs")
      case True
      show ?thesis
      proof (cases "contact_session c pub kvs s0")
        case None
        with Cons.prems JObj True contact_session_fails [OF None, of s] show ?thesis by simp
      next
        case (Some s0')
        with contact_session_known [OF Cons.prems Some] Cons.IH JObj True show ?thesis by auto
      qed
    qed (use Cons JObj in simp)
  qed (use Cons in simp_all)
qed simp

lemma send_opens:
  assumes "aead_correct c" "\<forall>n. length (rnd n) = n" "length (utf8_encode t) < 2 ^ 32"
    and "Sdk_Client.send_message c rnd iv n w t s = (Some (iv_b64, ct_b64, seq), s')"
    and "chain_keys s w = Some keys"
  shows "\<exists>sid. session_ids s w = Some sid \<and>
    decrypt_message c (fst (derive_chain_keys c (send_chain_key keys))) iv_b64 ct_b64 ''me'' seq sid = Inr t"
proof -
  obtain sid where "session_ids s w = Some sid"
    and "encrypt_message c rnd iv (fst (derive_chain_keys c (send_chain_key keys))) t ''me'' seq sid = Inr (iv_b64, ct_b64)"
    using assms(4,5)
    by (auto simp: Sdk_Client.send_message_def Let_def split_beta split: if_splits option.splits sum.splits)
  then show ?thesis using message_roundtrip [OF assms(1-3)] by blast
qed

definition fresh_client :: "client \<Rightarrow> client" where
  "fresh_client cl = cl\<lparr>cl_keys := \<lparr>is_logged_in = True, chain_keys = Map.empty, session_ids = Map.empty\<rparr>\<rparr>"

lemma synced_keys:
  assumes "is_logged_in (cl_keys cl)"
    and "chain_keys (cl_keys (snd (sync_contacts c listed (fresh_client cl)))) w = Some keys"
  shows "chain_keys (cl_keys (snd (sync_contacts c listed cl))) w = Some keys \<and>
    session_ids (cl_keys (snd (sync_contacts c listed cl))) w =
    session_ids (cl_keys (snd (sync_contacts c listed (fresh_client cl)))) w"
proof -
  have "known_in (cl_keys (fresh_client cl)) (cl_keys cl)" by (simp add: known_in_def fresh_client_def)
  moreover have "client_public c (fresh_client cl) = client_public c cl" by (simp add: client_public_def fresh_client_def)
  ultimately show ?thesis using assms sync_list_known [of "cl_keys (fresh_client cl)" "cl_keys cl" c "client_public c cl"]
    by (auto simp: sync_contacts_def known_in_def fresh_client_def split: option.splits json.splits)
qed

text \<open>C30: A sync starts the chains again: the first messages a client sends to a contact after two
  syncs with the same list, which login, accepting a contact and every handshake make, are
  encrypted under one key, whatever was sent before and between.\<close>

theorem sdk_resync_reuses_key:
  assumes "aead_correct c" "\<forall>n. length (rnd n) = n" "length (utf8_encode t1) < 2 ^ 32" "length (utf8_encode t2) < 2 ^ 32"
    and "is_logged_in (cl_keys a)" "is_logged_in (cl_keys b)" "fresh_client a = fresh_client b"
    and "chain_keys (cl_keys (snd (sync_contacts c listed (fresh_client a)))) w \<noteq> None"
    and "Sdk_Client.send_message c rnd iv1 n1 w t1 (cl_keys (snd (sync_contacts c listed a))) = (Some (i1, x1, seq1), s1)"
    and "Sdk_Client.send_message c rnd iv2 n2 w t2 (cl_keys (snd (sync_contacts c listed b))) = (Some (i2, x2, seq2), s2)"
  shows "\<exists>key sid. decrypt_message c key i1 x1 ''me'' seq1 sid = Inr t1 \<and> decrypt_message c key i2 x2 ''me'' seq2 sid = Inr t2"
proof -
  obtain keys where k: "chain_keys (cl_keys (snd (sync_contacts c listed (fresh_client a)))) w = Some keys" using assms(8) by blast
  note ka = synced_keys [OF assms(5) k] and kb = synced_keys [OF assms(6) k [unfolded assms(7)]]
  from send_opens [OF assms(1,2,3,9)] ka obtain sid where
    "session_ids (cl_keys (snd (sync_contacts c listed (fresh_client a)))) w = Some sid"
    "decrypt_message c (fst (derive_chain_keys c (send_chain_key keys))) i1 x1 ''me'' seq1 sid = Inr t1" by auto
  moreover from send_opens [OF assms(1,2,4,10)] kb obtain sid' where
    "session_ids (cl_keys (snd (sync_contacts c listed (fresh_client b)))) w = Some sid'"
    "decrypt_message c (fst (derive_chain_keys c (send_chain_key keys))) i2 x2 ''me'' seq2 sid' = Inr t2" by auto
  ultimately show ?thesis using assms(7) by auto
qed

lemma toy_send:
  assumes "is_logged_in s" "chain_keys s w = Some keys" "session_ids s w = Some sid"
  shows "\<exists>i x s'. Sdk_Client.send_message toy_crypto (\<lambda>n. replicate n 0) [7] 0 w ''hi'' s = (Some (i, x, 0), s')"
proof -
  have len: "length (utf8_encode ''hi'') < 2 ^ 32" by (simp add: utf8_encode_def utf8_char_def code_def)
  obtain p where "pad_plaintext (\<lambda>n. replicate n 0) ''hi'' = Inr p"
    using pad_plaintext_ok [of "\<lambda>n. replicate n 0", OF _ len] by auto
  moreover obtain a where "construct_aad ''me'' 0 sid 2 = Inr a" using aad_exists [of 0] by auto
  ultimately show ?thesis using assms
    by (simp add: Sdk_Client.send_message_def encrypt_message_def toy_crypto_def split_beta)
qed

definition demo_list :: "answer option" where
  "demo_list = Some \<lparr>an_status = 200, an_body = Some (JList [JObj [(''onion_address'', JStr ''peer.onion''),
     (''status'', JStr ''accepted''), (''shared_secret'', JStr ''AQID''), (''peer_public_key'', JStr ''zz'')]])\<rparr>"

definition demo_client :: client where
  "demo_client = fresh_client (client_init [5])"

lemma demo_synced:
  "\<exists>keys sid. is_logged_in (cl_keys (snd (sync_contacts toy_crypto demo_list demo_client))) \<and>
     chain_keys (cl_keys (snd (sync_contacts toy_crypto demo_list demo_client))) ''peer.onion'' = Some keys \<and>
     session_ids (cl_keys (snd (sync_contacts toy_crypto demo_list demo_client))) ''peer.onion'' = Some sid"
proof -
  have "b64_decode ''AQID'' \<noteq> None" by code_simp
  then show ?thesis
    by (auto simp: demo_client_def demo_list_def fresh_client_def sync_contacts_def ok_body_def usable_contact_def truthy_field_def
        json_truthy_def contact_session_def init_contact_session_def Let_def)
qed

theorem sdk_resync_reuses_key_witness:
  "\<exists>i x s1 key sid.
     Sdk_Client.send_message toy_crypto (\<lambda>n. replicate n 0) [7] 0 ''peer.onion'' ''hi''
       (cl_keys (snd (sync_contacts toy_crypto demo_list demo_client))) = (Some (i, x, 0), s1) \<and>
     decrypt_message toy_crypto key i x ''me'' 0 sid = Inr ''hi''"
proof -
  have ok: "aead_correct toy_crypto" "\<forall>n. length (replicate n (0 :: byte)) = n" "length (utf8_encode ''hi'') < 2 ^ 32"
    using toy_crypto_ok by (auto simp: utf8_encode_def utf8_char_def code_def)
  have f: "is_logged_in (cl_keys demo_client)" "fresh_client demo_client = demo_client"
    by (simp_all add: demo_client_def fresh_client_def)
  obtain i x s1 where s: "Sdk_Client.send_message toy_crypto (\<lambda>n. replicate n 0) [7] 0 ''peer.onion'' ''hi''
      (cl_keys (snd (sync_contacts toy_crypto demo_list demo_client))) = (Some (i, x, 0), s1)"
    using demo_synced toy_send by blast
  have "chain_keys (cl_keys (snd (sync_contacts toy_crypto demo_list (fresh_client demo_client)))) ''peer.onion'' \<noteq> None"
    using demo_synced f by auto
  from sdk_resync_reuses_key [OF ok(1,2,3,3) f(1) f(1) refl this s s] s show ?thesis by blast
qed

end
