(* ===== verification/Node_Panic.thy ===== *)
theory Node_Panic
  imports V3_Compat
begin

text \<open>
  The rest of \<^verbatim>\<open>transports/p2p/routers/node.py\<close>: the node's information, the state of the
  Tor process, the peers of the local network, and the panic wipe. The file system is a map from
  paths to contents; what the files held between being opened and removed is recorded, since that
  is what the wipe is about.
\<close>

section \<open>Information\<close>

text \<open>
  \<open>legacy\<close> is the answer of the older node's configuration: \<open>None\<close> when it raises. When another
  user has that address the commit fails, and the expired row can not be read for the answer.
\<close>

definition get_node_info :: "string option option \<Rightarrow> v3_session \<Rightarrow> v3 \<Rightarrow> (string option \<times> string) http \<times> v3" where
  "get_node_info legacy ss s = (case session_auth ss s of
     Inl e \<Rightarrow> (Inl e, s)
   | Inr u \<Rightarrow>
       (case u_onion u of
          Some (ch # cs) \<Rightarrow> (Inr (u_onion u, u_username u), s)
        | _ \<Rightarrow>
            (case legacy of
               Some (Some (ch # cs)) \<Rightarrow>
                 if \<exists>v\<in>set (v3_users s). u_onion v = Some (ch # cs) then (Inl server_error, s)
                 else (Inr (Some (ch # cs), u_username u),
                   s\<lparr>v3_users := update_where (\<lambda>v. u_username v = u_username u) (\<lambda>v. v\<lparr>u_onion := Some (ch # cs)\<rparr>) (v3_users s)\<rparr>)
             | Some w \<Rightarrow> (Inr (w, u_username u), s)
             | None \<Rightarrow> (Inr (u_onion u, u_username u), s))))"

text \<open>\<open>tor\<close>: whether the process of the Tor manager runs, \<open>None\<close> when asking raises.\<close>

definition get_tor_status :: "bool option \<Rightarrow> nat \<Rightarrow> v3_session \<Rightarrow> v3 \<Rightarrow> (bool \<times> nat option) http" where
  "get_tor_status tor socks_port ss s = (case session_auth ss s of
     Inl e \<Rightarrow> Inl e
   | Inr _ \<Rightarrow> Inr (case tor of
       Some running \<Rightarrow> (running, if running then Some socks_port else None) | None \<Rightarrow> (False, None)))"

text \<open>The process is stopped before the answer; it is started on a thread of its own.\<close>

definition restart_tor :: "bool \<Rightarrow> v3_session \<Rightarrow> v3 \<Rightarrow> unit http" where
  "restart_tor fails ss s = (case session_auth ss s of
     Inl e \<Rightarrow> Inl e
   | Inr _ \<Rightarrow> if fails then Inl (HTTP 500 ''Failed to restart Tor'') else Inr ())"

text \<open>A service that answered: its addresses, its port and the property with the onion address.\<close>

record lan_info =
  li_addresses :: "bytes list"
  li_port :: nat
  li_onion :: "bytes option"

record lan_peer =
  lp_name :: string
  lp_ip :: string
  lp_port :: nat
  lp_onion :: string

definition inet_ntoa :: "bytes \<Rightarrow> string option" where
  "inet_ntoa bs = (case bs of
     [a, b, c, d] \<Rightarrow> Some (nat_str (unat a) @ ''.'' @ nat_str (unat b) @ ''.'' @ nat_str (unat c) @ ''.'' @ nat_str (unat d))
   | _ \<Rightarrow> None)"

text \<open>What raises in the callback, such as an address of sixteen bytes, is lost with its service.\<close>

definition add_service :: "string \<Rightarrow> lan_info option \<Rightarrow> lan_peer list \<Rightarrow> lan_peer list" where
  "add_service name info peers = (case info of
     None \<Rightarrow> peers
   | Some i \<Rightarrow>
       (case utf8_decode (case li_onion i of Some b \<Rightarrow> b | None \<Rightarrow> []) of
          Some w \<Rightarrow>
            if \<forall>a\<in>set (li_addresses i). inet_ntoa a \<noteq> None
            then peers @ [\<lparr>lp_name = name,
              lp_ip = (case li_addresses i of [] \<Rightarrow> ''127.0.0.1'' | a # _ \<Rightarrow> the (inet_ntoa a)), lp_port = li_port i, lp_onion = w\<rparr>]
            else peers
        | None \<Rightarrow> peers))"

definition get_lan_peers :: "(string \<times> lan_info option) list option \<Rightarrow> v3_session \<Rightarrow> v3 \<Rightarrow> lan_peer list http" where
  "get_lan_peers seen ss s = (case session_auth ss s of
     Inl e \<Rightarrow> Inl e
   | Inr _ \<Rightarrow> Inr (case seen of
       None \<Rightarrow> [] | Some infos \<Rightarrow> fold (\<lambda>(name, info). add_service name info) infos []))"

section \<open>The panic wipe\<close>

type_synonym file_system = "string \<Rightarrow> bytes option"

text \<open>The state of a wipe: the files, and each content a file was given or had when it was opened.\<close>

type_synonym wiped = "(string \<times> bytes) list \<times> file_system"

text \<open>
  \<open>urandom n\<close> are \<open>n\<close> random bytes; \<open>works path\<close> says that the file can be opened, written and
  removed. The mode \<^verbatim>\<open>ba+\<close> appends: the position set by \<^verbatim>\<open>seek(0)\<close> does not
  matter for the write.
\<close>

definition append_write :: "bytes \<Rightarrow> bytes \<Rightarrow> bytes" where
  "append_write old new = old @ new"

definition secure_wipe_file :: "(nat \<Rightarrow> bytes) \<Rightarrow> (string \<Rightarrow> bool) \<Rightarrow> string \<Rightarrow> wiped \<Rightarrow> wiped" where
  "secure_wipe_file urandom works path st = (case st of (trace, fs) \<Rightarrow>
     (case fs path of
        None \<Rightarrow> (trace, fs)
      | Some old \<Rightarrow>
          if \<not> works path then (trace, fs)
          else (trace @ (if old = [] then [] else [(path, append_write old (urandom (length old)))]), fs(path := None))))"

definition below :: "string \<Rightarrow> string \<Rightarrow> bool" where
  "below dir path = py_startswith path (dir @ ''/'')"

text \<open>
  \<open>walk\<close> are the paths of the files \<^verbatim>\<open>os.walk\<close> finds below the directory. The tree is
  then removed, but for what can not be.
\<close>

definition secure_wipe_dir :: "(nat \<Rightarrow> bytes) \<Rightarrow> (string \<Rightarrow> bool) \<Rightarrow> string list \<Rightarrow> string \<Rightarrow> wiped \<Rightarrow> wiped" where
  "secure_wipe_dir urandom works walk dir st =
     (case fold (secure_wipe_file urandom works) (filter (below dir) walk) st of
        (trace, fs) \<Rightarrow> (trace, \<lambda>p. if below dir p \<and> works p then None else fs p))"

definition db_path :: "(string \<Rightarrow> string) \<Rightarrow> string \<Rightarrow> string" where
  "db_path abspath url = abspath (py_replace ''sqlite:///'' [] (py_replace ''sqlite+aiosqlite:///'' [] url))"

definition db_files :: "string \<Rightarrow> string list" where
  "db_files p = [p, p @ ''-wal'', p @ ''-shm'', p @ ''-journal'']"

text \<open>The effect of \<^verbatim>\<open>obliviate\<close> on the files; the process then ends.\<close>

definition wipe_all ::
    "(nat \<Rightarrow> bytes) \<Rightarrow> (string \<Rightarrow> bool) \<Rightarrow> string list \<Rightarrow> string \<Rightarrow> string \<Rightarrow> string \<Rightarrow> file_system \<Rightarrow> wiped" where
  "wipe_all urandom works walk database tor_data tor_services fs =
     secure_wipe_dir urandom works walk tor_services
       (secure_wipe_dir urandom works walk tor_data
         (fold (secure_wipe_file urandom works) (db_files database) ([], fs)))"

definition obliviate ::
    "(nat \<Rightarrow> bytes) \<Rightarrow> (string \<Rightarrow> bool) \<Rightarrow> (string \<Rightarrow> string) \<Rightarrow> string list \<Rightarrow> string \<Rightarrow> string \<Rightarrow> string
     \<Rightarrow> v3_session \<Rightarrow> v3 \<Rightarrow> file_system \<Rightarrow> unit http \<times> wiped" where
  "obliviate urandom works abspath walk url tor_data tor_services ss s fs = (case session_auth ss s of
     Inl e \<Rightarrow> (Inl e, [], fs)
   | Inr _ \<Rightarrow> (Inr (), wipe_all urandom works walk (db_path abspath url) tor_data tor_services fs))"

section \<open>What the wipe leaves\<close>

text \<open>\<open>wiped_from fs st\<close>: files are only removed, and whatever a file was given starts with what it had.\<close>

definition wiped_from :: "file_system \<Rightarrow> wiped \<Rightarrow> bool" where
  "wiped_from fs st \<longleftrightarrow> snd st \<subseteq>\<^sub>m fs \<and> (\<forall>(p, c)\<in>set (fst st). \<exists>old r. fs p = Some old \<and> old \<noteq> [] \<and> c = old @ r)"

lemma wiped_from_file:
  assumes "wiped_from fs st"
  shows "wiped_from fs (secure_wipe_file urandom works path st)"
proof (cases "snd st path")
  case None
  with assms show ?thesis by (cases st) (simp add: secure_wipe_file_def)
next
  case (Some old)
  then have "fs path = Some old" using assms by (auto simp: wiped_from_def map_le_def dom_def)
  with assms Some show ?thesis
    by (cases st) (auto simp: wiped_from_def secure_wipe_file_def append_write_def map_le_def)
qed

lemma wiped_from_files: "wiped_from fs st \<Longrightarrow> wiped_from fs (fold (secure_wipe_file urandom works) ps st)"
  by (induction ps arbitrary: st) (simp_all add: wiped_from_file)

lemma wiped_from_dir:
  assumes "wiped_from fs st"
  shows "wiped_from fs (secure_wipe_dir urandom works walk dir st)"
proof -
  obtain trace fs' where f: "fold (secure_wipe_file urandom works) (filter (below dir) walk) st = (trace, fs')" by fastforce
  with wiped_from_files [OF assms, of urandom works "filter (below dir) walk"] show ?thesis
    by (auto simp: secure_wipe_dir_def wiped_from_def map_le_def dom_def)
qed

lemma wiped_from_all: "wiped_from fs (wipe_all urandom works walk database tor_data tor_services fs)"
  unfolding wipe_all_def
  by (intro wiped_from_dir wiped_from_files) (simp add: wiped_from_def)

lemma files_left:
  "snd (fold (secure_wipe_file urandom works) ps st) p = (if p \<in> set ps \<and> works p then None else snd st p)"
proof (induction ps arbitrary: st)
  case (Cons q ps)
  have "snd (secure_wipe_file urandom works q st) p = (if p = q \<and> works p then None else snd st p)"
    by (cases st) (auto simp: secure_wipe_file_def split: option.split)
  with Cons show ?case by auto
qed simp

lemma dir_left:
  "snd (secure_wipe_dir urandom works walk dir st) p = (if below dir p \<and> works p then None else snd st p)"
proof -
  obtain trace fs' where f: "fold (secure_wipe_file urandom works) (filter (below dir) walk) st = (trace, fs')" by fastforce
  have "fs' p = (if p \<in> set (filter (below dir) walk) \<and> works p then None else snd st p)"
    using files_left [of urandom works "filter (below dir) walk" st p] f by simp
  with f show ?thesis by (auto simp: secure_wipe_dir_def)
qed

text \<open>The wipe overwrites nothing: whatever it writes to a file is what the file held followed by
  the random bytes, so the old content is still there in full when the file is removed.\<close>

theorem wipe_keeps_content:
  "list_all (\<lambda>(p, c). case fs p of Some old \<Rightarrow> old \<noteq> [] \<and> take (length old) c = old | None \<Rightarrow> False)
     (fst (wipe_all urandom works walk database tor_data tor_services fs))"
  using wiped_from_all [of fs urandom works walk database tor_data tor_services]
  by (auto simp: wiped_from_def list_all_iff)


text \<open>With a database that is not SQLite the path is the address itself, which names no file.\<close>

lemma db_path_server: "db_path id ''postgresql+asyncpg://u:p@h/db'' = ''postgresql+asyncpg://u:p@h/db''"
  by code_simp

end
