(* ===== verification/Launcher_Control.thy ===== *)
theory Launcher_Control
  imports Startup
begin

text \<open>
  The desktop launcher (\<^verbatim>\<open>launcher/launcher.py\<close>) without its widgets: the settings file, the
  start and the stop of the service, what the status and the tests show. The module
  \<^verbatim>\<open>server\<close> is imported once and keeps its registry and its dispatcher (Startup); the thread
  that serves a socket is never ended, so the sockets are kept as a list.
\<close>

section \<open>Output\<close>

text \<open>\<^verbatim>\<open>QueueWriter\<close> and \<^verbatim>\<open>poll_logs\<close>: the queue and the text shown.\<close>

definition queue_write :: "string \<Rightarrow> string list \<Rightarrow> string list" where
  "queue_write t q = (if py_strip t \<noteq> [] then q @ [t] else q)"

definition poll_logs :: "string \<Rightarrow> string list \<Rightarrow> string \<times> string list" where
  "poll_logs shown q = (shown @ concat (map (\<lambda>t. t @ [newline]) q), [])"

section \<open>Settings\<close>

definition LAUNCHER_PLACEHOLDERS :: "string list" where
  "LAUNCHER_PLACEHOLDERS = [''your-secure-random-key-here'', ''diagnostics_ephemeral_control_key_2026'', ''changeme'', []]"

type_synonym launcher_settings = "(string \<times> json) list"

definition launcher_defaults :: launcher_settings where
  "launcher_defaults = [(''mode'', JStr ''relay''), (''port'', JInt 5000), (''disguise'', JBool False), (''flask_secret_key'', JStr [])]"

definition setting :: "string \<Rightarrow> launcher_settings \<Rightarrow> json \<Rightarrow> json" where
  "setting k st d = (case map_of st k of Some v \<Rightarrow> v | None \<Rightarrow> d)"

text \<open>
  \<open>saved\<close> is the decoded file, \<open>None\<close> when it is missing or can not be read; one that is no object
  is passed over. The result is \<open>None\<close> when the stored key is a list or an object, which can not be
  looked up in the set; the flag says whether the settings were written back.
\<close>

definition load_settings :: "json option \<Rightarrow> string \<Rightarrow> (launcher_settings \<times> bool) option" where
  "load_settings saved token =
     (let st = (case saved of Some (JObj kvs) \<Rightarrow> fold (\<lambda>(k, v). AList.update k v) kvs launcher_defaults | _ \<Rightarrow> launcher_defaults);
          key = setting ''flask_secret_key'' st (JStr []);
          fresh = Some (AList.update ''flask_secret_key'' (JStr token) st, True)
      in if \<not> json_truthy key then fresh
         else case key of
           JStr t \<Rightarrow> if t \<in> set LAUNCHER_PLACEHOLDERS then fresh else Some (st, False)
         | JList _ \<Rightarrow> None
         | JObj _ \<Rightarrow> None
         | _ \<Rightarrow> Some (st, False))"

definition disguised :: "launcher_settings \<Rightarrow> bool" where
  "disguised st = json_truthy (setting ''disguise'' st (JBool False))"

definition toggle_disguise :: "bool \<Rightarrow> launcher_settings \<Rightarrow> launcher_settings" where
  "toggle_disguise on st = AList.update ''disguise'' (JBool on) st"

definition window_title :: "launcher_settings \<Rightarrow> string" where
  "window_title st = (if disguised st then ''Secure Local Service'' else ''AnonyMus Secure Messenger Launcher'')"

definition banner_text :: "launcher_settings \<Rightarrow> string" where
  "banner_text st = (if disguised st then ''Network Diagnostics & Loopback Interface Utility (v2.6.4)''
     else ''AnonyMus Secure Messenger Controller (v2.6.4)'')"

section \<open>The service\<close>

text \<open>
  \<open>la_sockets\<close> are the addresses served, \<open>la_started\<close> the transports that were started and not
  stopped since, \<open>la_server\<close> the imported module.
\<close>

record launcher =
  la_settings :: launcher_settings
  la_active :: bool
  la_mode :: "string option"
  la_port :: int
  la_onion :: string
  la_since :: real
  la_server :: "dispatcher option"
  la_sockets :: "(string \<times> int) list"
  la_started :: "string list"

definition launcher_init :: "launcher_settings \<Rightarrow> launcher" where
  "launcher_init st = \<lparr>la_settings = st, la_active = False, la_mode = None, la_port = 5000, la_onion = ''N/A'',
     la_since = 0, la_server = None, la_sockets = [], la_started = []\<rparr>"

text \<open>The window's part of \<^verbatim>\<open>start_daemon\<close>: whether the thread is started.\<close>

definition start_daemon :: "string \<Rightarrow> string \<Rightarrow> real \<Rightarrow> launcher \<Rightarrow> bool \<times> launcher" where
  "start_daemon mode_var port_text now l =
     (if la_active l then (False, l)
      else
        let hidden = disguised (la_settings l); mode = (if hidden then ''p2p'' else mode_var)
        in case (if hidden then Some 8080 else py_int port_text) of
             None \<Rightarrow> (False, l\<lparr>la_mode := Some mode\<rparr>)
           | Some port \<Rightarrow>
               (True, l\<lparr>la_mode := Some mode, la_port := port, la_active := True, la_since := now,
                 la_settings := AList.update ''port'' (JInt port) (AList.update ''mode'' (JStr mode) (la_settings l))\<rparr>))"

text \<open>Importing \<^verbatim>\<open>server\<close> reads the mode from the environment the first time only.\<close>

definition imported_server :: "string \<Rightarrow> launcher \<Rightarrow> dispatcher" where
  "imported_server mode l = (case la_server l of
     Some d \<Rightarrow> d
   | None \<Rightarrow> \<lparr>dp_registry = \<lparr>transports = [''relay'', ''p2p''], active_mode = py_lower mode\<rparr>, dp_mode = py_lower mode\<rparr>)"

definition stop_daemon :: "launcher \<Rightarrow> launcher" where
  "stop_daemon l =
     (if \<not> la_active l then l
      else l\<lparr>la_active := False, la_mode := None, la_onion := ''N/A'',
        la_started := (case la_server l of
          Some d \<Rightarrow> filter (\<lambda>t. t \<noteq> active_mode (dp_registry d)) (la_started l) | None \<Rightarrow> la_started l)\<rparr>)"

text \<open>
  \<^verbatim>\<open>launch_server_wrapper\<close>: \<open>starts\<close> says which transports start, \<open>onion\<close> is the address
  that of Tor then has, \<open>binds\<close> says whether the system lets an address be bound beside those
  that are.
\<close>

definition launch_server ::
    "(string \<Rightarrow> bool) \<Rightarrow> ((string \<times> int) list \<Rightarrow> string \<times> int \<Rightarrow> bool) \<Rightarrow> string \<Rightarrow> launcher \<Rightarrow> launcher" where
  "launch_server starts binds onion l = (case la_mode l of
     None \<Rightarrow> stop_daemon l
   | Some mode \<Rightarrow>
       let d = (imported_server mode l)\<lparr>dp_mode := mode\<rparr>;
           transport = active_mode (dp_registry d);
           l = l\<lparr>la_server := Some d\<rparr>
       in if \<not> starts transport then stop_daemon l
          else
            let l = l\<lparr>la_started := la_started l @ [transport],
                      la_onion := (if mode = ''p2p'' then (if transport = ''p2p'' then onion else ''N/A'') else la_onion l)\<rparr>;
                ip = (if mode = ''p2p'' then ''127.0.0.1'' else ''0.0.0.0'')
            in if \<not> binds (la_sockets l) (ip, la_port l) then stop_daemon l
               else l\<lparr>la_sockets := la_sockets l @ [(ip, la_port l)]\<rparr>)"

definition open_dashboard :: "launcher \<Rightarrow> string option" where
  "open_dashboard l = (if la_active l then Some (''http://127.0.0.1:'' @
     (if la_port l < 0 then ''-'' @ nat_str (nat (- la_port l)) else nat_str (nat (la_port l)))) else None)"

text \<open>The application that answers on the sockets: every socket has the one dispatcher.\<close>

definition served_app :: "string \<Rightarrow> launcher \<Rightarrow> wsgi_app option" where
  "served_app path l = (if la_sockets l = [] then None else map_option (\<lambda>d. wsgi_dispatch d path) (la_server l))"

section \<open>The status\<close>

definition two_digits :: "nat \<Rightarrow> string" where
  "two_digits n = (if n < 10 then ''0'' @ nat_str n else nat_str n)"

definition uptime_text :: "nat \<Rightarrow> string" where
  "uptime_text s = two_digits (s div 3600) @ '':'' @ two_digits (s mod 3600 div 60) @ '':'' @ two_digits (s mod 60)"

text \<open>\<open>now\<close> is not before the start.\<close>

definition update_daemon_status :: "real \<Rightarrow> launcher \<Rightarrow> string \<times> string \<times> string" where
  "update_daemon_status now l =
     (if la_active l then
        (''Status: RUNNING (ACTIVE)'',
         (if la_mode l = Some ''p2p'' then
            (if la_onion l \<noteq> ''N/A'' then ''Onion Address: '' @ la_onion l else ''Onion Address: Bootstrapping Onion routing...'')
          else ''Onion Address: N/A (Relay Mode)''),
         ''Service Uptime: '' @ uptime_text (nat \<lfloor>now - la_since l\<rfloor>))
      else (''Status: STOPPED'', ''Onion Address: N/A'', ''Service Uptime: 00:00:00''))"

text \<open>The four tests; the first is not run. \<open>listens\<close> says which local ports accept a connection.\<close>

definition port_text :: "int \<Rightarrow> string" where
  "port_text p = (if p < 0 then ''-'' @ nat_str (nat (- p)) else nat_str (nat p))"

definition run_diagnostic_tests :: "bool \<Rightarrow> (int \<Rightarrow> bool) \<Rightarrow> int \<Rightarrow> int \<Rightarrow> string list" where
  "run_diagnostic_tests dns listens socks_port port =
     [''PASS (Loopback Active)'',
      (if dns then ''PASS (Resolved Google DNS)'' else ''WARNING (External DNS lookup failed)''),
      (if listens socks_port then ''PASS (SOCKS5 proxy listening on 127.0.0.1:'' @ port_text socks_port @ '')''
       else ''INACTIVE (Optional proxy wrapper not started)''),
      (if listens port then ''ACTIVE (Service bound to local port '' @ port_text port @ '')''
       else ''INACTIVE (Service daemon is not running)'')]"

section \<open>Starting, stopping, starting again\<close>

text \<open>A stored key is never one everyone knows, if the random one is not.\<close>

lemma load_settings_key:
  assumes "load_settings saved token = Some (st, w)" "token \<notin> set LAUNCHER_PLACEHOLDERS" "t \<in> set LAUNCHER_PLACEHOLDERS"
  shows "map_of st ''flask_secret_key'' \<noteq> Some (JStr t)"
proof -
  define st0 where "st0 = (case saved of Some (JObj kvs) \<Rightarrow> fold (\<lambda>(k, v). AList.update k v) kvs launcher_defaults | _ \<Rightarrow> launcher_defaults)"
  define key where "key = setting ''flask_secret_key'' st0 (JStr [])"
  have l: "load_settings saved token = (if \<not> json_truthy key then Some (AList.update ''flask_secret_key'' (JStr token) st0, True)
      else case key of
        JStr t \<Rightarrow> if t \<in> set LAUNCHER_PLACEHOLDERS then Some (AList.update ''flask_secret_key'' (JStr token) st0, True) else Some (st0, False)
      | JList _ \<Rightarrow> None | JObj _ \<Rightarrow> None | _ \<Rightarrow> Some (st0, False))"
    by (simp only: load_settings_def Let_def key_def st0_def)
  have "st = AList.update ''flask_secret_key'' (JStr token) st0 \<or> st = st0 \<and> (\<forall>t. key = JStr t \<longrightarrow> t \<notin> set LAUNCHER_PLACEHOLDERS)"
    using assms(1) unfolding l by (cases key) (simp_all split: if_splits)
  moreover have "map_of st0 ''flask_secret_key'' = Some (JStr t) \<Longrightarrow> key = JStr t" by (simp add: key_def setting_def)
  ultimately show ?thesis using assms(2,3) by (auto simp: update_conv')
qed

definition run_service ::
    "(string \<Rightarrow> bool) \<Rightarrow> ((string \<times> int) list \<Rightarrow> string \<times> int \<Rightarrow> bool) \<Rightarrow> string \<Rightarrow> string \<Rightarrow> string \<Rightarrow> real \<Rightarrow> launcher \<Rightarrow> launcher" where
  "run_service starts binds onion mode port now l = (case start_daemon mode port now l of
     (True, l') \<Rightarrow> launch_server starts binds onion l' | (False, l') \<Rightarrow> l')"

text \<open>Once a socket is served it stays so, and its port can not be used again.\<close>

lemma stop_keeps_sockets [simp]: "la_sockets (stop_daemon l) = la_sockets l"
  by (simp add: stop_daemon_def)

lemma launch_keeps_sockets: "set (la_sockets l) \<subseteq> set (la_sockets (launch_server starts binds onion l))"
  by (cases "la_mode l") (simp_all add: launch_server_def Let_def, blast)

lemma start_daemon_started:
  assumes "\<not> la_active l" "\<not> disguised (la_settings l)" "py_int a = Some p"
  shows "start_daemon mode a now l = (True, l\<lparr>la_mode := Some mode, la_port := p, la_active := True, la_since := now,
    la_settings := AList.update ''port'' (JInt p) (AList.update ''mode'' (JStr mode) (la_settings l))\<rparr>)"
  using assms by (simp add: start_daemon_def Let_def)

lemma launch_server_bound:
  assumes "la_mode l = Some mode" "active_mode (dp_registry (imported_server mode l)) = transport" "starts transport"
    and "ip = (if mode = ''p2p'' then ''127.0.0.1'' else ''0.0.0.0'')" "binds (la_sockets l) (ip, la_port l)"
  shows "\<exists>w. launch_server starts binds onion l = l\<lparr>la_server := Some ((imported_server mode l)\<lparr>dp_mode := mode\<rparr>),
    la_started := la_started l @ [transport], la_onion := w, la_sockets := la_sockets l @ [(ip, la_port l)]\<rparr>"
  using assms by (cases l) (auto simp: launch_server_def Let_def)

text \<open>C7: Shutting the service down and starting it in the other mode shows the local node to the
  network: a launcher that served the relay on all interfaces and then is started as a node on
  another port still serves the first port, now with the node's application, while the transport
  it started again is the relay's and Tor is not.\<close>

theorem restart_exposes_node:
  assumes "\<not> disguised st" and "py_int a = Some p" and "py_int b = Some q" and "starts ''relay''"
    and "binds [] (''0.0.0.0'', p)" and "binds [(''0.0.0.0'', p)] (''127.0.0.1'', q)"
    and "\<not> py_startswith path ''/api/mode''" and "\<not> py_startswith path ''/api/health''"
  shows "(let l = run_service starts binds onion ''p2p'' b t2 (stop_daemon (run_service starts binds onion ''relay'' a t1 (launcher_init st)))
    in la_active l \<and> (''0.0.0.0'', p) \<in> set (la_sockets l) \<and> served_app path l = Some P2P_App \<and> la_started l = [''relay''])"
proof -
  have low: "py_lower ''relay'' = ''relay''" by (simp add: str_simps)
  let ?i = "launcher_init st"
  let ?s1 = "AList.update ''port'' (JInt p) (AList.update ''mode'' (JStr ''relay'') st)"
  let ?a1 = "?i\<lparr>la_mode := Some ''relay'', la_port := p, la_active := True, la_since := t1, la_settings := ?s1\<rparr>"
  let ?d = "\<lparr>dp_registry = \<lparr>transports = [''relay'', ''p2p''], active_mode = ''relay''\<rparr>, dp_mode = ''relay''\<rparr>"
  have "start_daemon ''relay'' a t1 ?i = (True, ?a1)"
    using start_daemon_started [of ?i a p] assms(1,2) by (simp add: launcher_init_def)
  moreover have imp: "imported_server ''relay'' ?a1 = ?d" by (simp add: imported_server_def launcher_init_def low)
  then obtain w where "launch_server starts binds onion ?a1 = ?a1\<lparr>la_server := Some ?d, la_started := [''relay''],
      la_onion := w, la_sockets := [(''0.0.0.0'', p)]\<rparr>"
    using launch_server_bound [of ?a1 "''relay''" "''relay''" starts "''0.0.0.0''" binds onion] assms(4,5)
    by (auto simp: launcher_init_def)
  ultimately have l1: "run_service starts binds onion ''relay'' a t1 ?i = ?a1\<lparr>la_server := Some ?d, la_started := [''relay''],
      la_onion := w, la_sockets := [(''0.0.0.0'', p)]\<rparr>" by (simp add: run_service_def)
  define l2 where "l2 = stop_daemon (run_service starts binds onion ''relay'' a t1 ?i)"
  have l2: "\<not> la_active l2" "la_settings l2 = ?s1" "la_server l2 = Some ?d" "la_started l2 = []" "la_sockets l2 = [(''0.0.0.0'', p)]"
    unfolding l2_def l1 by (simp_all add: stop_daemon_def)
  have "\<not> disguised (la_settings l2)" using assms(1) l2(2) by (simp add: disguised_def setting_def update_conv')
  from start_daemon_started [OF l2(1) this assms(3)]
  obtain a2 where a2: "start_daemon ''p2p'' b t2 l2 = (True, a2)" "la_mode a2 = Some ''p2p''" "la_port a2 = q" "la_active a2"
    "la_server a2 = Some ?d" "la_started a2 = []" "la_sockets a2 = [(''0.0.0.0'', p)]"
    using l2 by simp
  have imp2: "imported_server ''p2p'' a2 = ?d" using a2 by (simp add: imported_server_def)
  obtain w2 where "launch_server starts binds onion a2 = a2\<lparr>la_server := Some (?d\<lparr>dp_mode := ''p2p''\<rparr>), la_started := [''relay''],
      la_onion := w2, la_sockets := [(''0.0.0.0'', p), (''127.0.0.1'', q)]\<rparr>"
    using launch_server_bound [of a2 "''p2p''" "''relay''" starts "''127.0.0.1''" binds onion] a2 imp2 assms(4,6) by auto
  then have "run_service starts binds onion ''p2p'' b t2 l2 = a2\<lparr>la_server := Some (?d\<lparr>dp_mode := ''p2p''\<rparr>), la_started := [''relay''],
      la_onion := w2, la_sockets := [(''0.0.0.0'', p), (''127.0.0.1'', q)]\<rparr>"
    using a2(1) by (simp add: run_service_def)
  then show ?thesis using a2(4) assms(7,8) unfolding l2_def [symmetric] Let_def
    by (simp add: served_app_def wsgi_dispatch_def)
qed

theorem restart_exposes_node_witness:
  "(let l = run_service (\<lambda>_. True) (\<lambda>_ _. True) ''x'' ''p2p'' ''5001'' 9
      (stop_daemon (run_service (\<lambda>_. True) (\<lambda>_ _. True) ''x'' ''relay'' ''5000'' 1 (launcher_init launcher_defaults)))
    in served_app ''/api/contacts'' l = Some P2P_App \<and> (''0.0.0.0'', 5000) \<in> set (la_sockets l))"
proof -
  have p: "py_int ''5000'' = Some 5000" "py_int ''5001'' = Some 5001" by code_simp+
  have d: "\<not> disguised launcher_defaults" by code_simp
  have s: "\<not> py_startswith ''/api/contacts'' ''/api/mode''" "\<not> py_startswith ''/api/contacts'' ''/api/health''"
    by (simp_all add: py_startswith_def)
  from restart_exposes_node [OF d p _ _ _ s, of "\<lambda>_. True" "\<lambda>_ _. True" "''x''" 9 1] show ?thesis by (simp add: Let_def)
qed

end
