(* ===== verification/Node_Lifecycle.thy ===== *)
theory Node_Lifecycle
  imports Schema_Migrations Config_Reload Tor_Circuits
begin

text \<open>
  How the processes start and stop: the two transports of \<^verbatim>\<open>transports/*/adapter.py\<close>, the
  lifespan of the FastAPI node and its middleware for metrics and unhandled exceptions
  (\<^verbatim>\<open>transports/p2p/app_v3.py\<close>). What starting Tor gives and whether a service can be
  announced are arguments.
\<close>

section \<open>Transports\<close>

text \<open>The Tor node's transport; a new instance knows no address.\<close>

record p2p_transport =
  pt_onion :: "string option"
  pt_socks :: int

definition p2p_transport_init :: p2p_transport where
  "p2p_transport_init = \<lparr>pt_onion = None, pt_socks = 9050\<rparr>"

text \<open>
  \<open>port\<close> is the configured value, \<open>None\<close> when \<^verbatim>\<open>int\<close> raises on it; \<open>launched\<close> is what
  \<^verbatim>\<open>launch_tor\<close> gives: the address and the SOCKS port. The second result is the stored
  configuration \<^verbatim>\<open>my_onion_address\<close>, when it is written.
\<close>

definition p2p_start :: "int option \<Rightarrow> (string \<times> int) option \<Rightarrow> bool \<Rightarrow> p2p_transport \<Rightarrow> bool \<times> string option \<times> p2p_transport" where
  "p2p_start port launched config_ok t = (case (port, launched) of
     (Some _, Some (onion, socks)) \<Rightarrow>
       let t = t\<lparr>pt_socks := socks, pt_onion := Some onion\<rparr>
       in if config_ok then (True, Some onion, t) else (False, None, t)
   | _ \<Rightarrow> (False, None, t))"

text \<open>Stopping ends the process and changes nothing of the instance.\<close>

definition p2p_stop :: "p2p_transport \<Rightarrow> p2p_transport" where
  "p2p_stop t = t"

definition p2p_health :: "p2p_transport \<Rightarrow> string option \<times> int \<times> bool" where
  "p2p_health t = (pt_onion t, pt_socks t, pt_onion t \<noteq> None)"

record relay_transport =
  rt_mdns :: bool
  rt_onion :: "string option"
  rt_proxy :: "string option"

definition relay_start ::
    "bool \<Rightarrow> bool \<Rightarrow> int option \<Rightarrow> (string \<times> int) option \<Rightarrow> int \<Rightarrow> relay_transport \<Rightarrow> bool \<times> relay_transport" where
  "relay_start mdns as_onion port launched socks_port t =
     (if mdns \<and> port = None then (False, t)
      else
        let t = (if mdns then t\<lparr>rt_mdns := True\<rparr> else t);
            proxied = (\<lambda>p t. t\<lparr>rt_proxy := Some (''socks5h://127.0.0.1:'' @
              (if p < 0 then ''-'' @ nat_str (nat (- p)) else nat_str (nat p)))\<rparr>)
        in if \<not> as_onion then (True, proxied socks_port t)
           else (case (port, launched) of
             (Some _, Some (onion, socks)) \<Rightarrow> (True, proxied socks (t\<lparr>rt_onion := Some onion\<rparr>))
           | _ \<Rightarrow> (False, t)))"

definition relay_stop :: "bool \<Rightarrow> relay_transport \<Rightarrow> relay_transport" where
  "relay_stop close_ok t = (if rt_mdns t \<and> close_ok then t\<lparr>rt_mdns := False\<rparr> else t)"

definition relay_health :: "relay_transport \<Rightarrow> bool" where
  "relay_health t = rt_mdns t"

section \<open>The FastAPI node\<close>

record app_run =
  ar_database :: "string option \<times> schema"
  ar_transport :: "p2p_transport option"
  ar_mdns :: "string option"     \<comment> \<open>the address announced\<close>

definition is_test_env :: "settings \<Rightarrow> string option \<Rightarrow> bool \<Rightarrow> bool" where
  "is_test_env s testing pytest_loaded = (is_test s \<or> testing = Some ''True'' \<or> pytest_loaded)"

text \<open>
  The part of \<^verbatim>\<open>lifespan\<close> before the \<^verbatim>\<open>yield\<close>. A migration that fails leaves the
  database as \<open>failed\<close> says and is logged; a transport whose start fails is kept, and stopped at the
  end. \<open>announce\<close> gives whether the announcement succeeds for the address of the first user.
\<close>

definition lifespan_start ::
    "(string option \<times> schema \<Rightarrow> string option \<times> schema) \<Rightarrow> settings \<Rightarrow> bool \<Rightarrow> string option \<Rightarrow> (string \<times> int) option \<Rightarrow> bool
     \<Rightarrow> string option \<Rightarrow> (string \<Rightarrow> bool) \<Rightarrow> string option \<times> schema \<Rightarrow> app_run" where
  "lifespan_start failed s test mdns_var launched config_ok user_onion announce db =
     (let db' = (case upgrade_head 7 db of Some d \<Rightarrow> d | None \<Rightarrow> failed db);
          onion = (case user_onion of Some w \<Rightarrow> w | None \<Rightarrow> [])
      in \<lparr>ar_database = db',
          ar_transport = (if st_tor_enabled s \<and> \<not> test
            then Some (snd (snd (p2p_start (Some (st_port s)) launched config_ok p2p_transport_init))) else None),
          ar_mdns = (if py_lower (case mdns_var of Some v \<Rightarrow> v | None \<Rightarrow> ''false'') = ''true'' \<and> \<not> test \<and> announce onion
            then Some onion else None)\<rparr>)"

text \<open>The steps after it: what is closed, in this order; an exception of one is logged.\<close>

datatype shutdown_step = Close_Mdns | Stop_Transport | Dispose_Engine

definition lifespan_stop :: "app_run \<Rightarrow> shutdown_step list" where
  "lifespan_stop r = (if ar_mdns r \<noteq> None then [Close_Mdns] else []) @
     (if ar_transport r \<noteq> None then [Stop_Transport] else []) @ [Dispose_Engine]"

definition docs_urls :: "settings \<Rightarrow> (string \<times> string \<times> string) option" where
  "docs_urls s = (if is_development s then Some (''/v3/docs'', ''/v3/redoc'', ''/v3/openapi.json'') else None)"

section \<open>Metrics and failures\<close>

text \<open>
  The counter and the histogram by their labels. The middleware is inside the handler of
  unhandled exceptions: what the application raises passes through it.
\<close>

record app_metrics =
  request_count :: "(string \<times> string \<times> nat) \<Rightarrow> nat"
  request_latency :: "(string \<times> string) \<Rightarrow> real list"

definition metrics_init :: app_metrics where
  "metrics_init = \<lparr>request_count = (\<lambda>_. 0), request_latency = (\<lambda>_. [])\<rparr>"

definition metrics_middleware :: "string \<Rightarrow> string \<Rightarrow> real \<Rightarrow> nat option \<Rightarrow> app_metrics \<Rightarrow> nat option \<times> app_metrics" where
  "metrics_middleware meth path duration answer m = (case answer of
     None \<Rightarrow> (None, m)
   | Some status \<Rightarrow>
       (Some status, m\<lparr>request_count := (request_count m)((meth, path, status) := Suc (request_count m (meth, path, status))),
         request_latency := (request_latency m)((meth, path) := request_latency m (meth, path) @ [duration])\<rparr>))"

definition unhandled_exception_handler :: "nat option \<Rightarrow> nat" where
  "unhandled_exception_handler answer = (case answer of Some status \<Rightarrow> status | None \<Rightarrow> 500)"

text \<open>A request: its method, its path, its duration and the status of the application, \<open>None\<close> when it raises.\<close>

definition serve_request :: "string \<times> string \<times> real \<times> nat option \<Rightarrow> app_metrics \<Rightarrow> nat \<times> app_metrics" where
  "serve_request r m = (case r of (meth, path, duration, answer) \<Rightarrow>
     (case metrics_middleware meth path duration answer m of (a, m') \<Rightarrow> (unhandled_exception_handler a, m')))"

fun serve_requests :: "(string \<times> string \<times> real \<times> nat option) list \<Rightarrow> app_metrics \<Rightarrow> nat list \<times> app_metrics" where
  "serve_requests [] m = ([], m)"
| "serve_requests (r # rs) m = (case serve_request r m of (a, m') \<Rightarrow>
     (case serve_requests rs m' of (as, m'') \<Rightarrow> (a # as, m'')))"

section \<open>What the metrics count\<close>

lemma serve_requests_count:
  "request_count (snd (serve_requests rs m)) (meth, path, status) = request_count m (meth, path, status) +
     length (filter (\<lambda>(me, pa, d, a). me = meth \<and> pa = path \<and> a = Some status) rs)"
proof (induction rs arbitrary: m)
  case (Cons r rs)
  obtain me pa d a where r: "r = (me, pa, d, a)" by (cases r)
  have "request_count (snd (serve_request r m)) (meth, path, status) = request_count m (meth, path, status) +
      (if me = meth \<and> pa = path \<and> a = Some status then 1 else 0)"
    by (auto simp: r serve_request_def metrics_middleware_def split: option.split)
  with Cons.IH [of "snd (serve_request r m)"] show ?case by (auto simp: r split_beta)
qed simp

text \<open>The count of a status is the number of requests the application itself answered with it;
  the requests that are answered with 500 because the application raised are in no count.\<close>

theorem metrics_miss_failures:
  "request_count (snd (serve_requests rs metrics_init)) (meth, path, 500) =
     length (filter (\<lambda>(me, pa, d, a). me = meth \<and> pa = path \<and> a = Some 500) rs) \<and>
   length (filter (\<lambda>s. s = 500) (fst (serve_requests rs metrics_init))) =
     length (filter (\<lambda>(me, pa, d, a). a = Some 500) rs) + length (filter (\<lambda>(me, pa, d, a). a = None) rs)"
proof
  show "request_count (snd (serve_requests rs metrics_init)) (meth, path, 500) =
     length (filter (\<lambda>(me, pa, d, a). me = meth \<and> pa = path \<and> a = Some 500) rs)"
    by (simp add: serve_requests_count metrics_init_def)
  show "length (filter (\<lambda>s. s = 500) (fst (serve_requests rs m))) =
     length (filter (\<lambda>(me, pa, d, a). a = Some 500) rs) + length (filter (\<lambda>(me, pa, d, a). a = None) rs)" for m
  proof (induction rs arbitrary: m)
    case (Cons r rs)
    then show ?case
      by (cases r) (auto simp: serve_request_def metrics_middleware_def unhandled_exception_handler_def split_beta split: option.split)
  qed simp
qed

section \<open>Starting on an old database\<close>

lemma stopped_still_active: "p2p_health (p2p_stop t) = p2p_health t"
  by (simp add: p2p_stop_def)

text \<open>A node whose first revision holds messages starts and serves the schema the failed upgrade left.\<close>

lemma old_node_serves:
  assumes "0 < rows ''messages''" "failed (Some ''0001'', with_rows rows schema_0001) = (Some ''0001'', with_rows rows schema_0001)"
  shows "ar_database (lifespan_start failed s test mdns_var launched config_ok user_onion announce (Some ''0001'', with_rows rows schema_0001)) =
    (Some ''0001'', with_rows rows schema_0001)"
proof -
  have "List.find (\<lambda>r. r_down r = Some ''0001'') revisions =
      Some \<lparr>r_id = ''0081668158d9'', r_down = Some ''0001'', r_upgrade = \<lambda>_. Some upgrade_0081668158d9,
        r_downgrade = \<lambda>_. Some downgrade_0081668158d9\<rparr>"
    by (simp add: revisions_def)
  moreover have "run_ops upgrade_0081668158d9 (with_rows rows schema_0001) = None"
    using rows_block_messages assms(1) by blast
  ultimately have "upgrade_head 7 (Some ''0001'', with_rows rows schema_0001) = None"
    by (simp add: eval_nat_numeral apply_ops_def)
  with assms(2) show ?thesis by (simp add: lifespan_start_def Let_def)
qed

end
