(* ===== verification/Cli_Shell.thy ===== *)
theory Cli_Shell
  imports Sdk_Requests Tor_Circuits
begin

text \<open>
  The terminal client (\<^verbatim>\<open>cli.py\<close>) on the SDK: how it reads its commands, what each asks
  of the SDK or of the node, and the loop in front of the shell. What it prints is reduced to
  which of its messages it is; the client's calls take the node's answers as arguments.
\<close>

section \<open>Reading commands\<close>

text \<open>\<^verbatim>\<open>arg.split(maxsplit=1)\<close>: the first word and the rest, which keeps its blanks at the end.\<close>

definition first_word :: "string \<Rightarrow> string list" where
  "first_word s =
     (let t = py_lstrip s; w = takeWhile (\<lambda>c. \<not> py_isspace c) t; rest = py_lstrip (dropWhile (\<lambda>c. \<not> py_isspace c) t)
      in (if w = [] then [] else [w]) @ (if rest = [] then [] else [rest]))"

text \<open>The two arguments of \<^verbatim>\<open>connect\<close>; \<open>None\<close> prints the usage.\<close>

definition connect_args :: "string \<Rightarrow> (string \<times> string) option" where
  "connect_args arg = (case py_words arg of
     onion # nickname # _ \<Rightarrow> Some (py_lower (py_strip onion), py_strip nickname) | _ \<Rightarrow> None)"

definition address_arg :: "string \<Rightarrow> string option" where
  "address_arg arg = (let w = py_lower (py_strip arg) in if w = [] then None else Some w)"

definition text_args :: "string \<Rightarrow> (string \<times> string) option" where
  "text_args arg = (case first_word arg of [onion, t] \<Rightarrow> Some (py_lower (py_strip onion), py_strip t) | _ \<Rightarrow> None)"

definition group_args :: "string \<Rightarrow> (string \<times> string) option" where
  "group_args arg = (case first_word arg of [g, t] \<Rightarrow> Some (py_strip g, py_strip t) | _ \<Rightarrow> None)"

definition member_list :: "string \<Rightarrow> string list" where
  "member_list t = filter (\<lambda>w. w \<noteq> []) (map py_strip (py_split CHR 0x2C t))"

definition group_arg :: "string \<Rightarrow> string option" where
  "group_arg arg = (let g = py_strip arg in if g = [] then None else Some g)"

section \<open>Commands\<close>

datatype said = Usage | Success | Failure | Shown "string list"

definition do_connect ::
    "crypto \<Rightarrow> string option \<Rightarrow> answer option \<Rightarrow> string \<Rightarrow> client \<Rightarrow> said \<times> request list" where
  "do_connect c page a arg cl = (case connect_args arg of
     None \<Rightarrow> (Usage, [])
   | Some (onion, nickname) \<Rightarrow> (case sdk_add_contact c page a onion nickname cl of
       (ok, reqs) \<Rightarrow> (if ok then Success else Failure, reqs)))"

definition do_accept ::
    "crypto \<Rightarrow> answer option \<Rightarrow> string option \<Rightarrow> answer option \<Rightarrow> answer option \<Rightarrow> string \<Rightarrow> client
     \<Rightarrow> said \<times> request list \<times> client" where
  "do_accept c listing page a listed arg cl = (case address_arg arg of
     None \<Rightarrow> (Usage, [], cl)
   | Some onion \<Rightarrow> (case sdk_accept_contact c listing page a listed onion cl of
       (ok, reqs, cl') \<Rightarrow> (if ok then Success else Failure, reqs, cl')))"

definition do_send ::
    "crypto \<Rightarrow> (nat \<Rightarrow> bytes) \<Rightarrow> bytes \<Rightarrow> answer option \<Rightarrow> string option \<Rightarrow> answer option \<Rightarrow> string \<Rightarrow> client
     \<Rightarrow> said \<times> request list \<times> client" where
  "do_send c rnd iv history page a arg cl = (case text_args arg of
     None \<Rightarrow> (Usage, [], cl)
   | Some (onion, t) \<Rightarrow> (case sdk_send c rnd iv history page a onion t cl of
       (ok, reqs, cl') \<Rightarrow> (if ok then Success else Failure, reqs, cl')))"

text \<open>The history: who wrote each line, and its text; a time that is no number raises out of the shell.\<close>

definition history_line :: "history_entry \<Rightarrow> (string \<times> string option) option" where
  "history_line e = (case he_timestamp e of
     Some (JInt _) \<Rightarrow> Some (if he_sender e = Some (JStr ''me'') then ''Me'' else ''Peer'', he_text e)
   | Some (JFloat _) \<Rightarrow> Some (if he_sender e = Some (JStr ''me'') then ''Me'' else ''Peer'', he_text e)
   | Some (JBool _) \<Rightarrow> Some (if he_sender e = Some (JStr ''me'') then ''Me'' else ''Peer'', he_text e)
   | _ \<Rightarrow> None)"

definition do_history ::
    "crypto \<Rightarrow> answer option \<Rightarrow> string \<Rightarrow> client \<Rightarrow> said \<times> (string \<times> string option) option list" where
  "do_history c a arg cl = (case address_arg arg of
     None \<Rightarrow> (Usage, [])
   | Some onion \<Rightarrow>
       let entries = sdk_get_messages c a onion cl
       in if entries = [] then (Failure, []) else (Success, map history_line entries))"

definition answered :: "answer option \<Rightarrow> said" where
  "answered a = (case a of Some r \<Rightarrow> if an_status r = 200 then Success else Failure | None \<Rightarrow> Failure)"

definition do_creategroup :: "answer option \<Rightarrow> string \<Rightarrow> said \<times> request list" where
  "do_creategroup a arg = (case group_args arg of
     None \<Rightarrow> (Usage, [])
   | Some (g, t) \<Rightarrow> (answered a, [Post ''/api/v3/groups'' None
       (JObj [(''group_id'', JStr g), (''members'', JList (map JStr (member_list t)))])]))"

definition do_joingroup :: "answer option \<Rightarrow> string \<Rightarrow> said \<times> request list" where
  "do_joingroup a arg = (case group_arg arg of
     None \<Rightarrow> (Usage, [])
   | Some g \<Rightarrow> (answered a, [Post ''/api/v3/groups/join'' None (JObj [(''group_id'', JStr g)])]))"

definition do_groupsend :: "answer option \<Rightarrow> string \<Rightarrow> said \<times> request list" where
  "do_groupsend a arg = (case group_args arg of
     None \<Rightarrow> (Usage, [])
   | Some (g, t) \<Rightarrow> (answered a, [Post ''/api/v3/groups/messages'' None
       (JObj [(''group_id'', JStr g), (''message_text'', JStr t)])]))"

text \<open>A line of the group's history can be printed: a time that is a number, a sender and a text.\<close>

definition group_line_ok :: "json \<Rightarrow> bool" where
  "group_line_ok m = (json_get m ''sender'' \<noteq> None \<and> json_get m ''text'' \<noteq> None \<and>
     (case json_get m ''timestamp'' of Some (JInt _) \<Rightarrow> True | Some (JFloat _) \<Rightarrow> True | Some (JBool _) \<Rightarrow> True | _ \<Rightarrow> False))"

definition do_grouphistory :: "answer option \<Rightarrow> string \<Rightarrow> said \<times> request list" where
  "do_grouphistory a arg = (case group_arg arg of
     None \<Rightarrow> (Usage, [])
   | Some g \<Rightarrow>
       (case ok_body a of
          Some (JList (x # xs)) \<Rightarrow> (if list_all group_line_ok (x # xs) then Success else Failure)
        | Some v \<Rightarrow> (if json_truthy v then Failure else Shown [])
        | None \<Rightarrow> Failure, [Get (''/api/v3/groups/'' @ g @ ''/messages'')]))"

text \<open>The shell ends on \<^verbatim>\<open>quit\<close> and on the end of its input.\<close>

section \<open>In front of the shell\<close>

text \<open>
  One round of the loop: a login with its result, a registration with the two passwords and the
  node's answer, the wish to leave, or anything else.
\<close>

datatype auth_input =
    Try_Login string string "string option" "answer option" "answer option" "answer option"
  | Try_Register string string string "string option" "answer option"
  | Try_Quit
  | Try_Other

text \<open>What is typed at the prompt for the action.\<close>

datatype action = Act_Login | Act_Register | Act_Quit | Act_Other

definition read_action :: "string \<Rightarrow> action" where
  "read_action line = (let a = py_lower (py_strip line) in
     if a \<in> {''l'', ''login''} then Act_Login
     else if a \<in> {''r'', ''register''} then Act_Register
     else if a \<in> {''q'', ''quit'', ''exit''} then Act_Quit else Act_Other)"

datatype front = In_Shell client | Left | Waiting_Input client

fun auth_loop :: "crypto \<Rightarrow> auth_input list \<Rightarrow> client \<Rightarrow> front" where
  "auth_loop c [] cl = Waiting_Input cl"
| "auth_loop c (i # is) cl = (case i of
     Try_Login name password page a info listed \<Rightarrow>
       (case sdk_login c page a info listed (py_strip name) password cl of
          (ok, _, cl') \<Rightarrow> if ok then In_Shell (on_message cl') else auth_loop c is cl')
   | Try_Register name password confirm page a \<Rightarrow> auth_loop c is cl
   | Try_Quit \<Rightarrow> Left
   | Try_Other \<Rightarrow> auth_loop c is cl)"

section \<open>The shell is for those logged in\<close>

lemma sdk_login_true: "sdk_login c page a info listed name password cl = (True, reqs, cl') \<Longrightarrow> is_logged_in (cl_keys cl')"
proof -
  have s: "is_logged_in (sync_list c pub xs k) = is_logged_in k" for pub xs k
  proof (induction xs arbitrary: k)
    case (Cons x xs)
    have "is_logged_in k' = is_logged_in k" if "contact_session c pub kvs k = Some k'" for kvs k'
      using that by (auto simp: contact_session_def init_contact_session_def Let_def split: option.splits json.splits if_splits)
    with Cons show ?case by (auto split: json.split option.split)
  qed simp
  assume "sdk_login c page a info listed name password cl = (True, reqs, cl')"
  then show ?thesis
    by (auto simp: sdk_login_def fetch_my_info_def sync_contacts_def s split: prod.splits if_splits option.splits json.splits)
qed

lemma sdk_login_false: "sdk_login c page a info listed name password cl = (False, reqs, cl') \<Longrightarrow> cl' = cl"
  by (auto simp: sdk_login_def split: prod.splits if_splits)

text \<open>Whoever reaches the shell is logged in: after every sequence of rounds at the prompt that ends
  in it, its client has been let in by the node, and a client still at the prompt is unchanged.\<close>

theorem shell_logged_in:
  "case auth_loop c is cl of
     In_Shell cl' \<Rightarrow> is_logged_in (cl_keys cl') \<and> 0 < cl_callbacks cl'
   | Waiting_Input cl' \<Rightarrow> cl' = cl
   | Left \<Rightarrow> True"
proof (induction "is" arbitrary: cl)
  case (Cons i "is")
  show ?case
  proof (cases i)
    case (Try_Login name password page a info listed)
    obtain ok reqs cl' where l: "sdk_login c page a info listed (py_strip name) password cl = (ok, reqs, cl')"
      by (cases "sdk_login c page a info listed (py_strip name) password cl")
    show ?thesis
    proof (cases ok)
      case True
      with l sdk_login_true [of c page a info listed "py_strip name" password cl reqs cl'] Try_Login show ?thesis
        by (simp add: on_message_def)
    next
      case False
      with l sdk_login_false [of c page a info listed "py_strip name" password cl reqs cl'] Try_Login Cons show ?thesis by simp
    qed
  qed (use Cons in simp_all)
qed simp

end
