(* ===== verification/Relay_Redis.thy ===== *)
theory Relay_Redis
  imports Relay_Server Encodings
begin

text \<open>
  The relay of \<^verbatim>\<open>transports/relay/server.py\<close> with \<^verbatim>\<open>REDIS_URL\<close> set: several workers
  share the tables of queues through a Redis server, and fall back to their own dictionaries when a
  command raises. A cluster is the dictionaries of each worker (\<open>relay\<close>) with the server's
  state; a handler runs on one worker. The commands are the fields of \<open>redis\<close>, a parameter: each
  takes the time, since keys expire, and is \<open>None\<close> when the client raises. What is relied on of
  them is \<open>redis_laws\<close>, their documented effect on the key space.
\<close>

section \<open>The server and its documentation\<close>

record 'r redis =
  rd_sadd :: "string \<Rightarrow> string \<Rightarrow> real \<Rightarrow> 'r \<Rightarrow> 'r option"
  rd_srem :: "string \<Rightarrow> string \<Rightarrow> real \<Rightarrow> 'r \<Rightarrow> 'r option"
  rd_sismember :: "string \<Rightarrow> string \<Rightarrow> real \<Rightarrow> 'r \<Rightarrow> bool option"
  rd_expire :: "string \<Rightarrow> real \<Rightarrow> real \<Rightarrow> 'r \<Rightarrow> 'r option"
  rd_set :: "string \<Rightarrow> bytes \<Rightarrow> real \<Rightarrow> real \<Rightarrow> 'r \<Rightarrow> 'r option"
  rd_get :: "string \<Rightarrow> real \<Rightarrow> 'r \<Rightarrow> string option option"
  rd_rpush :: "string \<Rightarrow> string \<Rightarrow> real \<Rightarrow> 'r \<Rightarrow> 'r option"
  rd_ltrim :: "string \<Rightarrow> int \<Rightarrow> int \<Rightarrow> real \<Rightarrow> 'r \<Rightarrow> 'r option"
  rd_lrange :: "string \<Rightarrow> int \<Rightarrow> int \<Rightarrow> real \<Rightarrow> 'r \<Rightarrow> string list option"
  rd_delete :: "string \<Rightarrow> real \<Rightarrow> 'r \<Rightarrow> 'r option"

text \<open>The values of the key space; a key may have the time at which it expires.\<close>

datatype redis_value = RSet "string set" | RStr bytes | RList "string list"

type_synonym keyspace = "string \<Rightarrow> (redis_value \<times> real option) option"

definition live :: "real \<Rightarrow> keyspace \<Rightarrow> keyspace" where
  "live now K k = (case K k of
      Some (v, Some d) \<Rightarrow> if d \<le> now then None else Some (v, Some d)
    | x \<Rightarrow> x)"

definition set_at :: "keyspace \<Rightarrow> string \<Rightarrow> (string set \<times> real option) option" where
  "set_at K k = (case K k of
      None \<Rightarrow> Some ({}, None)
    | Some (RSet S, d) \<Rightarrow> Some (S, d)
    | _ \<Rightarrow> None)"

definition list_at :: "keyspace \<Rightarrow> string \<Rightarrow> (string list \<times> real option) option" where
  "list_at K k = (case K k of
      None \<Rightarrow> Some ([], None)
    | Some (RList xs, d) \<Rightarrow> Some (xs, d)
    | _ \<Rightarrow> None)"

text \<open>Bytes that are in no text that UTF-8 encodes; a client that decodes answers
  (\<^verbatim>\<open>decode_responses=True\<close>) raises \<^verbatim>\<open>UnicodeDecodeError\<close> on them.\<close>

definition never_utf8 :: "bytes \<Rightarrow> bool" where
  "never_utf8 b \<longleftrightarrow> (\<exists>x\<in>set b. unat x = 192 \<or> unat x = 193 \<or> 245 \<le> unat x)"

definition set_laws :: "'r redis \<Rightarrow> ('r \<Rightarrow> keyspace) \<Rightarrow> bool" where
  "set_laws c ks \<longleftrightarrow> (\<forall>k v now r S d. set_at (live now (ks r)) k = Some (S, d) \<longrightarrow>
     (\<exists>r'. rd_sadd c k v now r = Some r' \<and> ks r' = (ks r)(k \<mapsto> (RSet (insert v S), d))) \<and>
     (\<exists>r'. rd_srem c k v now r = Some r' \<and>
        ks r' = (ks r)(k := (if S - {v} = {} then None else Some (RSet (S - {v}), d)))) \<and>
     rd_sismember c k v now r = Some (v \<in> S))"

definition key_laws :: "'r redis \<Rightarrow> ('r \<Rightarrow> keyspace) \<Rightarrow> bool" where
  "key_laws c ks \<longleftrightarrow> (\<forall>k now r.
     (\<forall>x d ttl. live now (ks r) k = Some (x, d) \<longrightarrow>
        (\<exists>r'. rd_expire c k ttl now r = Some r' \<and> ks r' = (ks r)(k \<mapsto> (x, Some (now + ttl))))) \<and>
     (\<exists>r'. rd_delete c k now r = Some r' \<and> ks r' = (ks r)(k := None)))"

definition string_laws :: "'r redis \<Rightarrow> ('r \<Rightarrow> keyspace) \<Rightarrow> bool" where
  "string_laws c ks \<longleftrightarrow> (\<forall>k now r.
     (\<forall>b ex. \<exists>r'. rd_set c k b ex now r = Some r' \<and> ks r' = (ks r)(k \<mapsto> (RStr b, Some (now + ex)))) \<and>
     (live now (ks r) k = None \<longrightarrow> rd_get c k now r = Some None) \<and>
     (\<forall>s d. live now (ks r) k = Some (RStr (utf8_encode s), d) \<longrightarrow> rd_get c k now r = Some (Some s)) \<and>
     (\<forall>b d. live now (ks r) k = Some (RStr b, d) \<longrightarrow> never_utf8 b \<longrightarrow> rd_get c k now r = None))"

definition list_laws :: "'r redis \<Rightarrow> ('r \<Rightarrow> keyspace) \<Rightarrow> bool" where
  "list_laws c ks \<longleftrightarrow> (\<forall>k now r xs d. list_at (live now (ks r)) k = Some (xs, d) \<longrightarrow>
     (\<forall>v. \<exists>r'. rd_rpush c k v now r = Some r' \<and> ks r' = (ks r)(k \<mapsto> (RList (xs @ [v]), d))) \<and>
     (\<forall>n>0. xs \<noteq> [] \<longrightarrow> (\<exists>r'. rd_ltrim c k (- int n) (- 1) now r = Some r' \<and>
        ks r' = (ks r)(k \<mapsto> (RList (take_last n xs), d)))) \<and>
     rd_lrange c k 0 (- 1) now r = Some xs)"

definition redis_laws :: "'r redis \<Rightarrow> ('r \<Rightarrow> keyspace) \<Rightarrow> bool" where
  "redis_laws c ks \<longleftrightarrow> set_laws c ks \<and> key_laws c ks \<and> string_laws c ks \<and> list_laws c ks"

section \<open>Operations\<close>

definition OFFLINE_QUEUE_TTL :: real where
  "OFFLINE_QUEUE_TTL = 86400"

definition add_queue_owner_rd ::
    "'r redis \<Rightarrow> string \<Rightarrow> string \<Rightarrow> real \<Rightarrow> relay \<times> 'r \<Rightarrow> relay \<times> 'r" where
  "add_queue_owner_rd c qid sid now = (\<lambda>(s, r).
     (case rd_sadd c (''queue_owner:'' @ qid) sid now r of
        Some r1 \<Rightarrow>
          (case rd_expire c (''queue_owner:'' @ qid) 86400 now r1 of
             Some r2 \<Rightarrow> (s, r2)
           | None \<Rightarrow> (add_queue_owner qid sid s, r1))
      | None \<Rightarrow> (add_queue_owner qid sid s, r)))"

definition add_queue_creator_rd ::
    "'r redis \<Rightarrow> string \<Rightarrow> string \<Rightarrow> real \<Rightarrow> relay \<times> 'r \<Rightarrow> relay \<times> 'r" where
  "add_queue_creator_rd c qid sid now = (\<lambda>(s, r).
     (case rd_set c (''queue_creator:'' @ qid) (utf8_encode sid) 86400 now r of
        Some r1 \<Rightarrow> (s, r1)
      | None \<Rightarrow> (add_queue_creator qid sid s, r)))"

definition is_queue_owner_rd ::
    "'r redis \<Rightarrow> string \<Rightarrow> string \<Rightarrow> real \<Rightarrow> relay \<times> 'r \<Rightarrow> bool" where
  "is_queue_owner_rd c qid sid now = (\<lambda>(s, r).
     (case rd_sismember c (''queue_owner:'' @ qid) sid now r of
        Some member \<Rightarrow> member
      | None \<Rightarrow> is_queue_owner qid sid s))"

text \<open>When the creator was read but the question for its presence raises, the worker looks the
  creator up in its own connections.\<close>

definition is_recipient_online_rd ::
    "'r redis \<Rightarrow> string \<Rightarrow> real \<Rightarrow> relay \<times> 'r \<Rightarrow> bool" where
  "is_recipient_online_rd c qid now = (\<lambda>(s, r).
     (case rd_get c (''queue_creator:'' @ qid) now r of
        Some (Some creator) \<Rightarrow>
          if creator = [] then is_recipient_online qid s
          else (case rd_sismember c ''online_sids'' creator now r of
                  Some member \<Rightarrow> member
                | None \<Rightarrow> socket_connect_times s creator \<noteq> None)
      | _ \<Rightarrow> is_recipient_online qid s))"

definition enqueue_offline_rd ::
    "'r redis \<Rightarrow> string \<Rightarrow> string \<Rightarrow> real \<Rightarrow> relay \<times> 'r \<Rightarrow> relay \<times> 'r" where
  "enqueue_offline_rd c qid payload now = (\<lambda>(s, r).
     (let key = ''offline_queue:'' @ qid in
      case rd_rpush c key payload now r of
        None \<Rightarrow> (enqueue_offline qid payload s, r)
      | Some r1 \<Rightarrow>
          (case rd_ltrim c key (- int MAX_OFFLINE_QUEUE) (- 1) now r1 of
             None \<Rightarrow> (enqueue_offline qid payload s, r1)
           | Some r2 \<Rightarrow>
               (case rd_expire c key OFFLINE_QUEUE_TTL now r2 of
                  None \<Rightarrow> (enqueue_offline qid payload s, r2)
                | Some r3 \<Rightarrow> (s, r3)))))"

text \<open>The list is read and then deleted; when the second command raises, what was read is sent
  all the same. The worker's own buffer is only taken when nothing was read.\<close>

definition flush_offline_queue_rd ::
    "'r redis \<Rightarrow> string \<Rightarrow> string \<Rightarrow> real \<Rightarrow> relay \<times> 'r \<Rightarrow> relay_out list \<times> relay \<times> 'r" where
  "flush_offline_queue_rd c qid sid now = (\<lambda>(s, r).
     (let key = ''offline_queue:'' @ qid;
          payloads = (case rd_lrange c key 0 (- 1) now r of Some xs \<Rightarrow> xs | None \<Rightarrow> []);
          r' = (case rd_lrange c key 0 (- 1) now r of
                  Some _ \<Rightarrow> (case rd_delete c key now r of Some r1 \<Rightarrow> r1 | None \<Rightarrow> r)
                | None \<Rightarrow> r)
      in if payloads = [] then let (out, s') = flush_offline_queue qid sid s in (out, s', r')
         else (map (QueuePayload sid qid) payloads, s, r')))"

section \<open>Event handlers\<close>

definition handle_connect_rd ::
    "'r redis \<Rightarrow> string \<Rightarrow> real \<Rightarrow> relay \<times> 'r \<Rightarrow> relay_out list \<times> relay \<times> 'r" where
  "handle_connect_rd c sid now = (\<lambda>(s, r).
     (let (out, s') = handle_connect sid now s;
          r' = (case rd_sadd c ''online_sids'' sid now r of Some r1 \<Rightarrow> r1 | None \<Rightarrow> r)
      in (out, s', r')))"

definition own_queue_rd ::
    "'r redis \<Rightarrow> string \<Rightarrow> string \<Rightarrow> real \<Rightarrow> relay \<times> 'r \<Rightarrow> relay_out list \<times> relay \<times> 'r" where
  "own_queue_rd c qid sid now sr =
     flush_offline_queue_rd c qid sid now
       (add_queue_creator_rd c qid sid now (add_queue_owner_rd c qid sid now sr))"

definition handle_create_queue_rd ::
    "'r redis \<Rightarrow> string \<Rightarrow> real \<Rightarrow> string \<Rightarrow> relay \<times> 'r \<Rightarrow> relay_out list \<times> relay \<times> 'r" where
  "handle_create_queue_rd c sid now uuid = (\<lambda>(s, r).
     (let (limited, s) = is_rate_limited sid 5 10 now s
      in if limited then ([], s, r)
         else let (out, sr) = own_queue_rd c uuid sid now (s, r)
              in (JoinRoom uuid # QueueCreated uuid # out, sr)))"

definition handle_rejoin_queue_rd ::
    "'r redis \<Rightarrow> string \<Rightarrow> real \<Rightarrow> string option \<Rightarrow> relay \<times> 'r \<Rightarrow> relay_out list \<times> relay \<times> 'r" where
  "handle_rejoin_queue_rd c sid now data_queue_id = (\<lambda>(s, r).
     (let (limited, s) = is_rate_limited sid 5 10 now s
      in if limited then ([], s, r)
         else
           let qid = py_strip (case data_queue_id of Some q \<Rightarrow> q | None \<Rightarrow> [])
           in if qid = [] then ([], s, r)
              else let (out, sr) = own_queue_rd c qid sid now (s, r)
                   in (JoinRoom qid # QueueRejoined qid # out, sr)))"

definition handle_register_peer_rd ::
    "'r redis \<Rightarrow> string \<Rightarrow> real \<Rightarrow> string option \<Rightarrow> string option \<Rightarrow> relay \<times> 'r
     \<Rightarrow> relay_out list \<times> relay \<times> 'r" where
  "handle_register_peer_rd c sid now my_queue peer_queue sr =
     (case (my_queue, peer_queue) of
        (Some mine, Some peer) \<Rightarrow>
          if mine = [] \<or> peer = [] then ([], sr)
          else if is_queue_owner_rd c mine sid now sr
               then ([], add_queue_owner_rd c peer sid now sr)
          else ([], sr)
      | _ \<Rightarrow> ([], sr))"

definition handle_push_queue_rd ::
    "'r redis \<Rightarrow> string \<Rightarrow> real \<Rightarrow> string option \<Rightarrow> string option \<Rightarrow> relay \<times> 'r
     \<Rightarrow> relay_out list \<times> relay \<times> 'r" where
  "handle_push_queue_rd c sid now data_queue_id data_payload = (\<lambda>(s, r).
     (let (limited, s) = is_rate_limited sid 10 1 now s
      in if limited then ([], s, r)
         else
           case (data_queue_id, data_payload) of
             (Some qid, Some payload) \<Rightarrow>
               if qid = [] \<or> payload = [] then ([], s, r)
               else if 100 * 1024 < length payload then ([], s, r)
               else if \<not> is_queue_owner_rd c qid sid now (s, r) then ([], s, r)
               else if \<not> is_recipient_online_rd c qid now (s, r) then
                 if payload_ephemeral payload then ([], s, r)
                 else ([PushQueueError qid ''recipient_offline_queued''],
                       enqueue_offline_rd c qid payload now (s, r))
               else ([QueuePayload qid qid payload], s, r)
           | _ \<Rightarrow> ([], s, r)))"

definition handle_disconnect_rd ::
    "'r redis \<Rightarrow> string \<Rightarrow> real \<Rightarrow> relay \<times> 'r \<Rightarrow> relay_out list \<times> relay \<times> 'r" where
  "handle_disconnect_rd c sid now = (\<lambda>(s, r).
     (let r' = (case rd_srem c ''online_sids'' sid now r of Some r1 \<Rightarrow> r1 | None \<Rightarrow> r);
          (out, s') = handle_disconnect sid s
      in (out, s', r')))"

fun worker_handle :: "'r redis \<Rightarrow> real \<Rightarrow> relay_event \<Rightarrow> relay \<times> 'r \<Rightarrow> relay_out list \<times> relay \<times> 'r" where
  "worker_handle c now (Connect sid) sr = handle_connect_rd c sid now sr"
| "worker_handle c now (CreateQueue sid uuid) sr = handle_create_queue_rd c sid now uuid sr"
| "worker_handle c now (RejoinQueue sid q) sr = handle_rejoin_queue_rd c sid now q sr"
| "worker_handle c now (RegisterPeer sid m p) sr = handle_register_peer_rd c sid now m p sr"
| "worker_handle c now (PushQueue sid q p) sr = handle_push_queue_rd c sid now q p sr"
| "worker_handle c now (Disconnect sid) sr = handle_disconnect_rd c sid now sr"

section \<open>Clusters and runs\<close>

text \<open>Every socket belongs to one worker, \<open>home\<close>. An event is handled there; the other
  workers' dictionaries stay as they are.\<close>

type_synonym 'r cluster = "(nat \<Rightarrow> relay) \<times> 'r"

definition cluster_handle ::
    "'r redis \<Rightarrow> (string \<Rightarrow> nat) \<Rightarrow> real \<Rightarrow> relay_event \<Rightarrow> 'r cluster \<Rightarrow> relay_out list \<times> 'r cluster" where
  "cluster_handle c home now e = (\<lambda>(ws, r).
     (let w = home (event_sid e); (out, s', r') = worker_handle c now e (ws w, r)
      in (out, ws(w := s'), r')))"

fun cluster_run ::
    "'r redis \<Rightarrow> (string \<Rightarrow> nat) \<Rightarrow> (real \<times> relay_event) list \<Rightarrow> 'r cluster
     \<Rightarrow> relay_out list list \<times> 'r cluster" where
  "cluster_run c home [] cl = ([], cl)"
| "cluster_run c home ((now, e) # es) cl =
     (let (out, cl1) = cluster_handle c home now e cl; (outs, cl2) = cluster_run c home es cl1
      in (out # outs, cl2))"

fun relay_run :: "(real \<times> relay_event) list \<Rightarrow> relay \<Rightarrow> relay_out list list \<times> relay" where
  "relay_run [] s = ([], s)"
| "relay_run ((now, e) # es) s =
     (let (out, s1) = relay_handle now e s; (outs, s2) = relay_run es s1 in (out # outs, s2))"

text \<open>Events as Socket.IO raises them: a socket connects once, with an identifier not used
  before, and sends events until it disconnects; all times are before \<open>T\<close>, and no earlier than
  a day before it.\<close>

fun well_timed :: "real \<Rightarrow> (real \<times> relay_event) list \<Rightarrow> bool" where
  "well_timed T [] \<longleftrightarrow> True"
| "well_timed T ((now, e) # es) \<longleftrightarrow> T - 86400 \<le> now \<and> now < T \<and> well_timed T es"

fun well_ordered :: "string set \<Rightarrow> string set \<Rightarrow> (real \<times> relay_event) list \<Rightarrow> bool" where
  "well_ordered used online [] \<longleftrightarrow> True"
| "well_ordered used online ((now, e) # es) \<longleftrightarrow>
     (case e of
        Connect sid \<Rightarrow> sid \<notin> used \<and> well_ordered (insert sid used) (insert sid online) es
      | Disconnect sid \<Rightarrow> sid \<in> online \<and> well_ordered used (online - {sid}) es
      | _ \<Rightarrow> event_sid e \<in> online \<and> well_ordered used online es)"

section \<open>The cluster and one relay in memory\<close>

text \<open>No key expires before \<open>T\<close>.\<close>

definition keeps :: "real \<Rightarrow> keyspace \<Rightarrow> bool" where
  "keeps T K \<longleftrightarrow> (\<forall>k v d. K k = Some (v, Some d) \<longrightarrow> T \<le> d)"

definition relay_online :: "relay \<Rightarrow> string set" where
  "relay_online a = {sid. socket_connect_times a sid \<noteq> None}"

definition owner_sim :: "string set \<Rightarrow> relay \<Rightarrow> keyspace \<Rightarrow> string \<Rightarrow> bool" where
  "owner_sim used a K q \<longleftrightarrow> (\<exists>S d. set_at K (''queue_owner:'' @ q) = Some (S, d) \<and> S \<subseteq> used \<and>
     (\<forall>sid. is_queue_owner q sid a \<longleftrightarrow> sid \<in> S \<and> sid \<in> relay_online a))"

definition creator_sim :: "string set \<Rightarrow> relay \<Rightarrow> keyspace \<Rightarrow> string \<Rightarrow> bool" where
  "creator_sim used a K q \<longleftrightarrow>
     (case K (''queue_creator:'' @ q) of
        None \<Rightarrow> queue_creators a q = None
      | Some (v, d) \<Rightarrow> \<exists>c\<in>used. v = RStr (utf8_encode c) \<and>
          queue_creators a q = (if c \<in> relay_online a then Some c else None))"

definition buffer_sim :: "relay \<Rightarrow> keyspace \<Rightarrow> string \<Rightarrow> bool" where
  "buffer_sim a K q \<longleftrightarrow> (\<exists>d. list_at K (''offline_queue:'' @ q) =
     Some (case offline_queue a q of Some x \<Rightarrow> x | None \<Rightarrow> [], d))"

definition local_sim :: "(string \<Rightarrow> nat) \<Rightarrow> relay \<Rightarrow> (nat \<Rightarrow> relay) \<Rightarrow> bool" where
  "local_sim home a ws \<longleftrightarrow>
     (\<forall>w. queue_owners (ws w) = Map.empty \<and> queue_creators (ws w) = Map.empty \<and>
          offline_queue (ws w) = Map.empty) \<and>
     (\<forall>sid. socket_rate_limits (ws (home sid)) sid = socket_rate_limits a sid)"

definition shared_sim :: "real \<Rightarrow> string set \<Rightarrow> relay \<Rightarrow> keyspace \<Rightarrow> bool" where
  "shared_sim T used a K \<longleftrightarrow> keeps T K \<and> relay_online a \<subseteq> used \<and>
     (\<exists>d. set_at K ''online_sids'' = Some (relay_online a, d)) \<and>
     (\<forall>q. owner_sim used a K q \<and> creator_sim used a K q \<and> buffer_sim a K q)"

lemmas shared_sim_defs =
  shared_sim_def owner_sim_def creator_sim_def buffer_sim_def relay_online_def

lemma live_keeps: "keeps T K \<Longrightarrow> now < T \<Longrightarrow> live now K = K"
  by (fastforce simp: keeps_def live_def fun_eq_iff split: option.split)

lemma keeps_upd:
  "keeps T K \<Longrightarrow> keeps T (K(k \<mapsto> (v, d))) \<longleftrightarrow> (\<forall>x. d = Some x \<longrightarrow> T \<le> x)"
  "keeps T K \<Longrightarrow> keeps T (K(k := None))"
  by (auto simp: keeps_def)

lemma keeps_set_at: "keeps T K \<Longrightarrow> set_at K k = Some (S, Some d) \<Longrightarrow> T \<le> d"
  by (auto simp: keeps_def set_at_def split: option.splits redis_value.splits)

lemma set_at_upd [simp]:
  "set_at (K(k := x)) k' = (if k' = k then set_at (\<lambda>_. x) k else set_at K k')"
  "set_at (\<lambda>_. None) k = Some ({}, None)" "set_at (\<lambda>_. Some (RSet S, d)) k = Some (S, d)"
  by (simp_all add: set_at_def)

lemma list_at_upd [simp]:
  "list_at (K(k := x)) k' = (if k' = k then list_at (\<lambda>_. x) k else list_at K k')"
  "list_at (\<lambda>_. None) k = Some ([], None)" "list_at (\<lambda>_. Some (RList xs, d)) k = Some (xs, d)"
  by (simp_all add: list_at_def)

text \<open>What an operation of the relay leaves of the tables it does not concern.\<close>

lemma relay_online_simps [simp]:
  "relay_online (add_queue_owner q sid a) = relay_online a"
  "relay_online (add_queue_creator q sid a) = relay_online a"
  "relay_online (enqueue_offline q p a) = relay_online a"
  "relay_online (snd (flush_offline_queue q sid a)) = relay_online a"
  "relay_online (snd (is_rate_limited sid l w now a)) = relay_online a"
  "relay_online (snd (handle_connect sid now a)) = insert sid (relay_online a)"
  "relay_online (snd (handle_disconnect sid a)) = relay_online a - {sid}"
  by (auto simp: relay_online_def handle_connect_def Let_def)

lemma owner_sim_frame:
  "owner_sim used a K q \<Longrightarrow> set_at K' (''queue_owner:'' @ q) = set_at K (''queue_owner:'' @ q) \<Longrightarrow>
   relay_online a' = relay_online a \<Longrightarrow> (\<And>sid. is_queue_owner q sid a' = is_queue_owner q sid a) \<Longrightarrow>
   owner_sim used a' K' q"
  by (simp add: owner_sim_def)

lemma creator_sim_frame:
  "creator_sim used a K q \<Longrightarrow> K' (''queue_creator:'' @ q) = K (''queue_creator:'' @ q) \<Longrightarrow>
   relay_online a' = relay_online a \<Longrightarrow> queue_creators a' q = queue_creators a q \<Longrightarrow>
   creator_sim used a' K' q"
  by (simp only: creator_sim_def)

lemma buffer_sim_frame:
  "buffer_sim a K q \<Longrightarrow> list_at K' (''offline_queue:'' @ q) = list_at K (''offline_queue:'' @ q) \<Longrightarrow>
   offline_queue a' q = offline_queue a q \<Longrightarrow> buffer_sim a' K' q"
  by (simp add: buffer_sim_def)

lemmas sim_frames = owner_sim_frame creator_sim_frame buffer_sim_frame

text \<open>What stays to be shown of an operation that connects and disconnects nobody.\<close>

lemma shared_simI:
  assumes "shared_sim T used a K" "keeps T K'" "relay_online a' = relay_online a"
    and "set_at K' ''online_sids'' = set_at K ''online_sids''"
    and "\<And>q. owner_sim used a K q \<Longrightarrow> owner_sim used a' K' q"
    and "\<And>q. creator_sim used a K q \<Longrightarrow> creator_sim used a' K' q"
    and "\<And>q. buffer_sim a K q \<Longrightarrow> buffer_sim a' K' q"
  shows "shared_sim T used a' K'"
  using assms by (simp add: shared_sim_def)

section \<open>Each operation on Redis and its counterpart in memory\<close>

lemma sadd_expire:
  assumes "redis_laws c ks" "keeps T (ks r)" "now < T"
    and "set_at (ks r) k = Some (S, d)"
  obtains r1 r2 where "rd_sadd c k v now r = Some r1" "rd_expire c k ttl now r1 = Some r2"
    "ks r2 = (ks r)(k \<mapsto> (RSet (insert v S), Some (now + ttl)))"
proof -
  from assms(1) have s: "set_laws c ks" and k: "key_laws c ks" by (simp_all add: redis_laws_def)
  have "set_at (live now (ks r)) k = Some (S, d)"
    by (simp add: live_keeps [OF assms(2,3)] assms(4))
  with s obtain r1 where 1: "rd_sadd c k v now r = Some r1"
      "ks r1 = (ks r)(k \<mapsto> (RSet (insert v S), d))"
    unfolding set_laws_def by meson
  have "keeps T (ks r1)"
    using keeps_set_at [OF assms(2), of k S] assms(2,4) by (auto simp: 1 keeps_upd)
  then have "live now (ks r1) k = Some (RSet (insert v S), d)"
    using live_keeps [OF _ assms(3), of "ks r1"] by (simp add: 1)
  with k obtain r2 where "rd_expire c k ttl now r1 = Some r2"
      "ks r2 = (ks r1)(k \<mapsto> (RSet (insert v S), Some (now + ttl)))"
    unfolding key_laws_def by meson
  with 1 show ?thesis by (auto intro!: that)
qed

lemma add_owner_sim:
  assumes "redis_laws c ks" "shared_sim T used a (ks r)" "now < T" "T \<le> now + 86400"
    and "sid \<in> relay_online a"
  shows "\<exists>r'. add_queue_owner_rd c q sid now (s, r) = (s, r') \<and>
           shared_sim T used (add_queue_owner q sid a) (ks r')"
proof -
  from assms(2) obtain S d where S: "set_at (ks r) (''queue_owner:'' @ q) = Some (S, d)"
      "S \<subseteq> used" "\<forall>c. is_queue_owner q c a \<longleftrightarrow> c \<in> S \<and> c \<in> relay_online a"
    unfolding shared_sim_def owner_sim_def by meson
  from assms(2) have k: "keeps T (ks r)" and "sid \<in> used"
    using assms(5) by (auto simp: shared_sim_def)
  from sadd_expire [OF assms(1) k assms(3) S(1)] obtain r1 r2
    where r: "rd_sadd c (''queue_owner:'' @ q) sid now r = Some r1"
      "rd_expire c (''queue_owner:'' @ q) 86400 now r1 = Some r2"
      "ks r2 = (ks r)(''queue_owner:'' @ q \<mapsto> (RSet (insert sid S), Some (now + 86400)))"
    by metis
  have "shared_sim T used (add_queue_owner q sid a) (ks r2)"
  proof (rule shared_simI [OF assms(2)])
    show "keeps T (ks r2)" using assms(4) k by (simp add: r keeps_upd)
    fix q'
    assume "owner_sim used a (ks r) q'"
    then show "owner_sim used (add_queue_owner q sid a) (ks r2) q'"
      using assms(5) S \<open>sid \<in> used\<close> by (cases "q' = q") (auto simp: r owner_sim_def)
  qed (auto simp: r elim!: sim_frames)
  with r show ?thesis by (simp add: add_queue_owner_rd_def)
qed

lemma add_creator_sim:
  assumes "redis_laws c ks" "shared_sim T used a (ks r)" "T \<le> now + 86400"
    and "sid \<in> relay_online a"
  shows "\<exists>r'. add_queue_creator_rd c q sid now (s, r) = (s, r') \<and>
           shared_sim T used (add_queue_creator q sid a) (ks r')"
proof -
  from assms(1) obtain r1 where r: "rd_set c (''queue_creator:'' @ q) (utf8_encode sid) 86400 now r = Some r1"
      "ks r1 = (ks r)(''queue_creator:'' @ q \<mapsto> (RStr (utf8_encode sid), Some (now + 86400)))"
    unfolding redis_laws_def string_laws_def by meson
  have "sid \<in> used" using assms(2,4) by (auto simp: shared_sim_def)
  have "shared_sim T used (add_queue_creator q sid a) (ks r1)"
  proof (rule shared_simI [OF assms(2)])
    show "keeps T (ks r1)" using assms(2,3) by (simp add: r keeps_upd shared_sim_def)
    fix q'
    assume "creator_sim used a (ks r) q'"
    then show "creator_sim used (add_queue_creator q sid a) (ks r1) q'"
    proof (cases "q' = q")
      case True
      then show ?thesis using assms(4) \<open>sid \<in> used\<close> by (auto simp: r creator_sim_def)
    next
      case False
      then show ?thesis
        using creator_sim_frame [OF \<open>creator_sim used a (ks r) q'\<close>, of "ks r1"] by (simp add: r)
    qed
  qed (auto simp: r elim!: sim_frames)
  with r show ?thesis by (simp add: add_queue_creator_rd_def)
qed

lemma owner_test_sim:
  assumes "redis_laws c ks" "shared_sim T used a (ks r)" "now < T" "sid \<in> relay_online a"
  shows "is_queue_owner_rd c q sid now (s, r) = is_queue_owner q sid a"
proof -
  from assms(2) obtain S d where S: "set_at (ks r) (''queue_owner:'' @ q) = Some (S, d)"
      "\<forall>c. is_queue_owner q c a \<longleftrightarrow> c \<in> S \<and> c \<in> relay_online a"
    unfolding shared_sim_def owner_sim_def by meson
  from assms(2) have "keeps T (ks r)" by (simp add: shared_sim_def)
  then have "set_at (live now (ks r)) (''queue_owner:'' @ q) = Some (S, d)"
    by (simp only: live_keeps [OF _ assms(3)] S)
  with assms(1) have "rd_sismember c (''queue_owner:'' @ q) sid now r = Some (sid \<in> S)"
    unfolding redis_laws_def set_laws_def by meson
  with S(2) assms(4) show ?thesis by (simp add: is_queue_owner_rd_def)
qed

lemma online_test_sim:
  assumes "redis_laws c ks" "shared_sim T used a (ks r)" "now < T" "queue_creators s = Map.empty"
  shows "is_recipient_online_rd c q now (s, r) = is_recipient_online q a"
proof -
  let ?k = "''queue_creator:'' @ q"
  from assms(2,3) have live: "live now (ks r) = ks r"
    by (intro live_keeps [of T]) (simp_all add: shared_sim_def)
  from assms(2) have sim: "creator_sim used a (ks r) q" by (simp add: shared_sim_def)
  have l: "\<not> is_recipient_online q s" by (simp add: is_recipient_online_def assms(4))
  show ?thesis
  proof (cases "ks r ?k")
    case None
    with live have "live now (ks r) ?k = None" by simp
    with assms(1) have "rd_get c ?k now r = Some None"
      unfolding redis_laws_def string_laws_def by meson
    with None sim l show ?thesis
      by (simp add: is_recipient_online_rd_def creator_sim_def is_recipient_online_def)
  next
    case (Some vd)
    with sim obtain sid d where c: "ks r ?k = Some (RStr (utf8_encode sid), d)"
        "queue_creators a q = (if sid \<in> relay_online a then Some sid else None)"
      unfolding creator_sim_def by (cases vd) auto
    from c live have "live now (ks r) ?k = Some (RStr (utf8_encode sid), d)" by simp
    with assms(1) have g: "rd_get c ?k now r = Some (Some sid)"
      unfolding redis_laws_def string_laws_def by meson
    from assms(2) obtain d' where "set_at (live now (ks r)) ''online_sids'' = Some (relay_online a, d')"
      unfolding shared_sim_def live by meson
    with assms(1) have "rd_sismember c ''online_sids'' sid now r = Some (sid \<in> relay_online a)"
      unfolding redis_laws_def set_laws_def by meson
    with g c(2) l show ?thesis
      by (auto simp: is_recipient_online_rd_def is_recipient_online_def relay_online_def)
  qed
qed

lemma enqueue_sim:
  assumes "redis_laws c ks" "shared_sim T used a (ks r)" "now < T" "T \<le> now + 86400"
  shows "\<exists>r'. enqueue_offline_rd c q p now (s, r) = (s, r') \<and>
           shared_sim T used (enqueue_offline q p a) (ks r')"
proof -
  let ?k = "''offline_queue:'' @ q"
  define xs where "xs = (case offline_queue a q of Some x \<Rightarrow> x | None \<Rightarrow> [])"
  define K3 where "K3 = (ks r)(?k \<mapsto> (RList (take_last MAX_OFFLINE_QUEUE (xs @ [p])), Some (now + 86400)))"
  from assms(2) obtain d where d: "list_at (ks r) ?k = Some (xs, d)"
    unfolding shared_sim_def buffer_sim_def xs_def by meson
  from assms(2) have k: "keeps T (ks r)" by (simp add: shared_sim_def)
  then have dT: "\<forall>x. d = Some x \<longrightarrow> T \<le> x"
    using d by (auto simp: keeps_def list_at_def split: option.splits redis_value.splits)
  have laws: "list_laws c ks" "key_laws c ks" using assms(1) by (simp_all add: redis_laws_def)
  have "list_at (live now (ks r)) ?k = Some (xs, d)" by (simp only: live_keeps [OF k assms(3)] d)
  with laws(1) obtain r1 where 1: "rd_rpush c ?k p now r = Some r1"
      "ks r1 = (ks r)(?k \<mapsto> (RList (xs @ [p]), d))"
    unfolding list_laws_def by meson
  have k1: "keeps T (ks r1)" using k dT by (simp add: 1 keeps_upd)
  have "list_at (live now (ks r1)) ?k = Some (xs @ [p], d)"
    by (simp only: live_keeps [OF k1 assms(3)]) (simp add: 1)
  moreover have "0 < MAX_OFFLINE_QUEUE" by (simp add: MAX_OFFLINE_QUEUE_def)
  moreover have "xs @ [p] \<noteq> []" by simp
  ultimately obtain r2 where 2: "rd_ltrim c ?k (- int MAX_OFFLINE_QUEUE) (- 1) now r1 = Some r2"
      "ks r2 = (ks r1)(?k \<mapsto> (RList (take_last MAX_OFFLINE_QUEUE (xs @ [p])), d))"
    using laws(1) unfolding list_laws_def by meson
  have k2: "keeps T (ks r2)" using k1 dT by (simp add: 2 keeps_upd)
  have "live now (ks r2) ?k = Some (RList (take_last MAX_OFFLINE_QUEUE (xs @ [p])), d)"
    by (simp only: live_keeps [OF k2 assms(3)]) (simp add: 2)
  with laws(2) obtain r3 where r3: "rd_expire c ?k OFFLINE_QUEUE_TTL now r2 = Some r3"
      "ks r3 = (ks r2)(?k \<mapsto> (RList (take_last MAX_OFFLINE_QUEUE (xs @ [p])),
         Some (now + OFFLINE_QUEUE_TTL)))"
    unfolding key_laws_def by meson
  then have 3: "ks r3 = K3" by (simp add: 1 2 K3_def OFFLINE_QUEUE_TTL_def)
  have "shared_sim T used (enqueue_offline q p a) (ks r3)"
  proof (rule shared_simI [OF assms(2)])
    show "keeps T (ks r3)" using k assms(4) by (simp add: 3 K3_def keeps_upd)
    fix q'
    assume "buffer_sim a (ks r) q'"
    then show "buffer_sim (enqueue_offline q p a) (ks r3) q'"
      by (cases "q' = q")
        (auto simp: 3 K3_def buffer_sim_def enqueue_offline_def xs_def Let_def take_last_all)
  qed (auto simp: 3 K3_def elim!: sim_frames)
  with 1(1) 2(1) r3(1) show ?thesis by (simp add: enqueue_offline_rd_def Let_def)
qed

lemma flush_sim:
  assumes "redis_laws c ks" "shared_sim T used a (ks r)" "now < T" "offline_queue s = Map.empty"
  shows "\<exists>r'. flush_offline_queue_rd c q sid now (s, r) = (fst (flush_offline_queue q sid a), s, r') \<and>
           shared_sim T used (snd (flush_offline_queue q sid a)) (ks r')"
proof -
  let ?k = "''offline_queue:'' @ q"
  define xs where "xs = (case offline_queue a q of Some x \<Rightarrow> x | None \<Rightarrow> [])"
  from assms(2) obtain d where d: "list_at (ks r) ?k = Some (xs, d)"
    unfolding shared_sim_def buffer_sim_def xs_def by meson
  from assms(2) have k: "keeps T (ks r)" by (simp add: shared_sim_def)
  have "list_at (live now (ks r)) ?k = Some (xs, d)" by (simp only: live_keeps [OF k assms(3)] d)
  with assms(1) have l: "rd_lrange c ?k 0 (- 1) now r = Some xs"
    unfolding redis_laws_def list_laws_def by meson
  from assms(1) obtain r1 where r: "rd_delete c ?k now r = Some r1" "ks r1 = (ks r)(?k := None)"
    unfolding redis_laws_def key_laws_def by meson
  have "shared_sim T used (snd (flush_offline_queue q sid a)) (ks r1)"
  proof (rule shared_simI [OF assms(2)])
    show "keeps T (ks r1)" using k by (simp add: r keeps_upd)
    fix q'
    assume "buffer_sim a (ks r) q'"
    then show "buffer_sim (snd (flush_offline_queue q sid a)) (ks r1) q'"
      by (cases "q' = q") (auto simp: r buffer_sim_def)
  qed (auto simp: r elim!: sim_frames)
  moreover have "s\<lparr>offline_queue := (offline_queue s)(q := None)\<rparr> = s"
    using assms(4) by (cases s) (auto simp: fun_eq_iff)
  ultimately show ?thesis
    using l r assms(4)
    by (auto simp: flush_offline_queue_rd_def flush_offline_queue_def Let_def xs_def
        split: option.split)
qed

lemma connect_sim:
  assumes "redis_laws c ks" "shared_sim T used a (ks r)" "now < T" "sid \<notin> used"
  shows "\<exists>r'. handle_connect_rd c sid now (s, r) = ([], snd (handle_connect sid now s), r') \<and>
           shared_sim T (insert sid used) (snd (handle_connect sid now a)) (ks r')"
proof -
  from assms(2) have k: "keeps T (ks r)" and used: "relay_online a \<subseteq> used"
    by (simp_all add: shared_sim_def)
  from assms(2) obtain d where d: "set_at (ks r) ''online_sids'' = Some (relay_online a, d)"
    unfolding shared_sim_def by meson
  then have "set_at (live now (ks r)) ''online_sids'' = Some (relay_online a, d)"
    by (simp only: live_keeps [OF k assms(3)])
  with assms(1) obtain r1 where r: "rd_sadd c ''online_sids'' sid now r = Some r1"
      "ks r1 = (ks r)(''online_sids'' \<mapsto> (RSet (insert sid (relay_online a)), d))"
    unfolding redis_laws_def set_laws_def by meson
  have dT: "\<forall>x. d = Some x \<longrightarrow> T \<le> x" using keeps_set_at [OF k] d by auto
  have frame: "is_queue_owner q x (snd (handle_connect sid now a)) = is_queue_owner q x a"
    "queue_creators (snd (handle_connect sid now a)) = queue_creators a"
    "offline_queue (snd (handle_connect sid now a)) = offline_queue a" for q x
    by (simp_all add: handle_connect_def is_queue_owner_def Let_def)
  have "shared_sim T (insert sid used) (snd (handle_connect sid now a)) (ks r1)"
    unfolding shared_sim_def
  proof (intro conjI allI)
    fix q
    from assms(2) have o: "owner_sim used a (ks r) q" and cr: "creator_sim used a (ks r) q"
        and b: "buffer_sim a (ks r) q" by (simp_all add: shared_sim_def)
    from o assms(4) show "owner_sim (insert sid used) (snd (handle_connect sid now a)) (ks r1) q"
      by (auto simp: owner_sim_def frame r)
    from cr assms(4) show "creator_sim (insert sid used) (snd (handle_connect sid now a)) (ks r1) q"
      by (fastforce simp: creator_sim_def frame r split: option.splits)
    from b show "buffer_sim (snd (handle_connect sid now a)) (ks r1) q"
      by (simp add: buffer_sim_def frame r)
  qed (use k dT used in \<open>auto simp: r keeps_upd\<close>)
  with r show ?thesis by (simp add: handle_connect_rd_def handle_connect_def Let_def)
qed

lemma creator_gone:
  assumes "queue_creators a' q = (if queue_creators a q = Some sid then None else queue_creators a q)"
    and "K' (''queue_creator:'' @ q) = K (''queue_creator:'' @ q)" "creator_sim used a K q"
    and "relay_online a' = relay_online a - {sid}"
  shows "creator_sim used a' K' q"
proof (cases "K (''queue_creator:'' @ q)")
  case None
  with assms show ?thesis by (simp add: creator_sim_def)
next
  case (Some vd)
  with assms(3) obtain c d where "c \<in> used" "K (''queue_creator:'' @ q) = Some (RStr (utf8_encode c), d)"
      "queue_creators a q = (if c \<in> relay_online a then Some c else None)"
    by (cases vd) (auto simp: creator_sim_def)
  with assms show ?thesis by (auto simp: creator_sim_def intro!: bexI [of _ c])
qed

lemma disconnect_sim:
  assumes "redis_laws c ks" "shared_sim T used a (ks r)" "now < T"
  shows "\<exists>r'. handle_disconnect_rd c sid now (s, r) = ([], snd (handle_disconnect sid s), r') \<and>
           shared_sim T used (snd (handle_disconnect sid a)) (ks r')"
proof -
  from assms(2) have k: "keeps T (ks r)" and used: "relay_online a \<subseteq> used"
    by (simp_all add: shared_sim_def)
  let ?S = "relay_online a - {sid}"
  from assms(2) obtain d where d: "set_at (ks r) ''online_sids'' = Some (relay_online a, d)"
    unfolding shared_sim_def by meson
  then have "set_at (live now (ks r)) ''online_sids'' = Some (relay_online a, d)"
    by (simp only: live_keeps [OF k assms(3)])
  with assms(1) obtain r1 where r: "rd_srem c ''online_sids'' sid now r = Some r1"
      "ks r1 = (ks r)(''online_sids'' := (if ?S = {} then None else Some (RSet ?S, d)))"
    unfolding redis_laws_def set_laws_def by meson
  have dT: "\<forall>x. d = Some x \<longrightarrow> T \<le> x" using keeps_set_at [OF k] d by auto
  have "shared_sim T used (snd (handle_disconnect sid a)) (ks r1)"
    unfolding shared_sim_def
  proof (intro conjI allI)
    fix q
    from assms(2) have o: "owner_sim used a (ks r) q" and cr: "creator_sim used a (ks r) q"
        and b: "buffer_sim a (ks r) q" by (simp_all add: shared_sim_def)
    from o show "owner_sim used (snd (handle_disconnect sid a)) (ks r1) q"
      by (auto simp: owner_sim_def r)
    have "queue_creators (snd (handle_disconnect sid a)) q =
        (if queue_creators a q = Some sid then None else queue_creators a q)"
      by (simp add: handle_disconnect_def)
    moreover have "ks r1 (''queue_creator:'' @ q) = ks r (''queue_creator:'' @ q)" by (simp add: r)
    ultimately show "creator_sim used (snd (handle_disconnect sid a)) (ks r1) q"
      using cr by (rule creator_gone) simp
    from b show "buffer_sim (snd (handle_disconnect sid a)) (ks r1) q"
      by (simp add: buffer_sim_def r)
  qed (use k dT used in \<open>auto simp: r keeps_upd\<close>)
  with r show ?thesis by (simp add: handle_disconnect_rd_def handle_disconnect_def Let_def)
qed

section \<open>Each event\<close>

text \<open>What holds between the cluster and the relay before and after an event.\<close>

definition cluster_sim ::
    "('r \<Rightarrow> keyspace) \<Rightarrow> (string \<Rightarrow> nat) \<Rightarrow> real \<Rightarrow> string set \<Rightarrow> relay \<Rightarrow> 'r cluster \<Rightarrow> bool" where
  "cluster_sim ks home T used a cl \<longleftrightarrow>
     local_sim home a (fst cl) \<and> shared_sim T used a (ks (snd cl))"

lemma limited_sim:
  assumes "local_sim home a ws"
  shows "fst (is_rate_limited sid l w now (ws (home sid))) = fst (is_rate_limited sid l w now a)"
    and "local_sim home (snd (is_rate_limited sid l w now a))
           (ws(home sid := snd (is_rate_limited sid l w now (ws (home sid)))))"
proof -
  have rates: "socket_rate_limits (ws (home x)) x = socket_rate_limits a x" for x
    using assms by (simp add: local_sim_def)
  then show "fst (is_rate_limited sid l w now (ws (home sid))) = fst (is_rate_limited sid l w now a)"
    by (simp add: is_rate_limited_def Let_def)
  have "home x = home sid \<Longrightarrow> socket_rate_limits (ws (home sid)) x = socket_rate_limits a x" for x
    using rates [of x] by simp
  with assms show "local_sim home (snd (is_rate_limited sid l w now a))
      (ws(home sid := snd (is_rate_limited sid l w now (ws (home sid)))))"
    by (simp add: local_sim_def is_rate_limited_def Let_def)
qed

lemma shared_sim_limited:
  assumes "shared_sim T used a K"
  shows "shared_sim T used (snd (is_rate_limited sid l w now a)) K"
proof (rule shared_simI [OF assms])
  show "keeps T K" using assms by (simp add: shared_sim_def)
qed (auto elim!: sim_frames)

lemma own_queue_sim:
  assumes "redis_laws c ks" "shared_sim T used a (ks r)" "now < T" "T \<le> now + 86400"
    and "sid \<in> relay_online a" "offline_queue s = Map.empty"
  shows "\<exists>r'. own_queue_rd c q sid now (s, r) =
       (fst (flush_offline_queue q sid (add_queue_creator q sid (add_queue_owner q sid a))), s, r') \<and>
     shared_sim T used (snd (flush_offline_queue q sid
       (add_queue_creator q sid (add_queue_owner q sid a)))) (ks r')"
proof -
  from add_owner_sim [OF assms(1-5)] obtain r1 where 1:
    "add_queue_owner_rd c q sid now (s, r) = (s, r1)"
    "shared_sim T used (add_queue_owner q sid a) (ks r1)" by blast
  from add_creator_sim [OF assms(1) 1(2) assms(4), of sid q s] assms(5) obtain r2 where 2:
    "add_queue_creator_rd c q sid now (s, r1) = (s, r2)"
    "shared_sim T used (add_queue_creator q sid (add_queue_owner q sid a)) (ks r2)" by auto
  from flush_sim [OF assms(1) 2(2) assms(3,6)] 1(1) 2(1) show ?thesis
    by (simp add: own_queue_rd_def)
qed

lemma flush_rates [simp]:
  "local_sim home (snd (flush_offline_queue q sid a)) ws = local_sim home a ws"
  "local_sim home (add_queue_owner q sid a) ws = local_sim home a ws"
  "local_sim home (add_queue_creator q sid a) ws = local_sim home a ws"
  "local_sim home (enqueue_offline q p a) ws = local_sim home a ws"
  by (simp_all add: local_sim_def)

lemma local_sim_empty:
  "local_sim home a ws \<Longrightarrow> queue_creators (ws w) = Map.empty \<and> offline_queue (ws w) = Map.empty"
  by (simp add: local_sim_def)

text \<open>The events between connect and disconnect.\<close>

lemma create_sim:
  assumes "redis_laws c ks" "cluster_sim ks home T used a (ws, r)" "now < T" "T \<le> now + 86400"
    and "sid \<in> relay_online a"
  shows "\<exists>cl. cluster_handle c home now (CreateQueue sid u) (ws, r) =
           (fst (handle_create_queue sid now u a), cl) \<and>
         cluster_sim ks home T used (snd (handle_create_queue sid now u a)) cl"
proof -
  let ?a = "snd (is_rate_limited sid 5 10 now a)"
  let ?s = "snd (is_rate_limited sid 5 10 now (ws (home sid)))"
  from assms(2) have l: "local_sim home a ws" and s: "shared_sim T used ?a (ks r)"
    by (simp_all add: cluster_sim_def shared_sim_limited)
  note lim = limited_sim [OF l, of sid 5 10 now]
  have "offline_queue ?s = Map.empty" using local_sim_empty [OF l] by simp
  from own_queue_sim [OF assms(1) s assms(3,4) _ this, of sid u] assms(5) obtain r' where
    "own_queue_rd c u sid now (?s, r) =
       (fst (flush_offline_queue u sid (add_queue_creator u sid (add_queue_owner u sid ?a))), ?s, r')"
    "shared_sim T used (snd (flush_offline_queue u sid
       (add_queue_creator u sid (add_queue_owner u sid ?a)))) (ks r')" by auto
  with lim s show ?thesis
    by (auto simp: cluster_handle_def handle_create_queue_rd_def handle_create_queue_def
        cluster_sim_def Let_def split_beta)
qed

lemma rejoin_sim:
  assumes "redis_laws c ks" "cluster_sim ks home T used a (ws, r)" "now < T" "T \<le> now + 86400"
    and "sid \<in> relay_online a"
  shows "\<exists>cl. cluster_handle c home now (RejoinQueue sid q) (ws, r) =
           (fst (handle_rejoin_queue sid now q a), cl) \<and>
         cluster_sim ks home T used (snd (handle_rejoin_queue sid now q a)) cl"
proof -
  let ?a = "snd (is_rate_limited sid 5 10 now a)"
  let ?s = "snd (is_rate_limited sid 5 10 now (ws (home sid)))"
  let ?q = "py_strip (case q of Some x \<Rightarrow> x | None \<Rightarrow> [])"
  from assms(2) have l: "local_sim home a ws" and s: "shared_sim T used ?a (ks r)"
    by (simp_all add: cluster_sim_def shared_sim_limited)
  note lim = limited_sim [OF l, of sid 5 10 now]
  have "offline_queue ?s = Map.empty" using local_sim_empty [OF l] by simp
  from own_queue_sim [OF assms(1) s assms(3,4) _ this, of sid ?q] assms(5) obtain r' where
    "own_queue_rd c ?q sid now (?s, r) =
       (fst (flush_offline_queue ?q sid (add_queue_creator ?q sid (add_queue_owner ?q sid ?a))), ?s, r')"
    "shared_sim T used (snd (flush_offline_queue ?q sid
       (add_queue_creator ?q sid (add_queue_owner ?q sid ?a)))) (ks r')" by auto
  with lim s show ?thesis
    by (auto simp: cluster_handle_def handle_rejoin_queue_rd_def handle_rejoin_queue_def
        cluster_sim_def Let_def split_beta)
qed

lemma register_sim:
  assumes "redis_laws c ks" "cluster_sim ks home T used a (ws, r)" "now < T" "T \<le> now + 86400"
    and "sid \<in> relay_online a"
  shows "\<exists>cl. cluster_handle c home now (RegisterPeer sid m p) (ws, r) =
           (fst (handle_register_peer sid m p a), cl) \<and>
         cluster_sim ks home T used (snd (handle_register_peer sid m p a)) cl"
proof -
  from assms(2) have l: "local_sim home a ws" and s: "shared_sim T used a (ks r)"
    by (simp_all add: cluster_sim_def)
  show ?thesis
  proof (cases "\<exists>x y. m = Some x \<and> p = Some y \<and> x \<noteq> [] \<and> y \<noteq> [] \<and> is_queue_owner x sid a")
    case True
    then obtain x y where xy: "m = Some x" "p = Some y" "x \<noteq> []" "y \<noteq> []" "is_queue_owner x sid a"
      by blast
    from add_owner_sim [OF assms(1) s assms(3-5)] obtain r' where
      "add_queue_owner_rd c y sid now (ws (home sid), r) = (ws (home sid), r')"
      "shared_sim T used (add_queue_owner y sid a) (ks r')" by blast
    with xy l owner_test_sim [OF assms(1) s assms(3,5)] show ?thesis
      by (simp add: cluster_handle_def handle_register_peer_rd_def handle_register_peer_def
          cluster_sim_def)
  next
    case False
    with l s owner_test_sim [OF assms(1) s assms(3,5)] show ?thesis
      by (auto simp: cluster_handle_def handle_register_peer_rd_def handle_register_peer_def
          cluster_sim_def split: option.split)
  qed
qed

lemma push_sim:
  assumes "redis_laws c ks" "cluster_sim ks home T used a (ws, r)" "now < T" "T \<le> now + 86400"
    and "sid \<in> relay_online a"
  shows "\<exists>cl. cluster_handle c home now (PushQueue sid qo po) (ws, r) =
           (fst (handle_push_queue sid now qo po a), cl) \<and>
         cluster_sim ks home T used (snd (handle_push_queue sid now qo po a)) cl"
proof -
  let ?a = "snd (is_rate_limited sid 10 1 now a)"
  let ?s = "snd (is_rate_limited sid 10 1 now (ws (home sid)))"
  let ?ws = "ws(home sid := ?s)"
  from assms(2) have l: "local_sim home a ws" and s: "shared_sim T used ?a (ks r)"
    by (simp_all add: cluster_sim_def shared_sim_limited)
  note lim = limited_sim [OF l, of sid 10 1 now]
  have "queue_creators ?s = Map.empty" using local_sim_empty [OF l] by simp
  note online = online_test_sim [OF assms(1) s assms(3) this]
  have owner: "is_queue_owner_rd c q sid now (?s, r) = is_queue_owner q sid ?a" for q
    by (rule owner_test_sim [OF assms(1) s assms(3)]) (simp add: assms(5))
  show ?thesis
  proof (cases "\<exists>q p. qo = Some q \<and> po = Some p \<and> \<not> fst (is_rate_limited sid 10 1 now a) \<and>
      q \<noteq> [] \<and> p \<noteq> [] \<and> \<not> 100 * 1024 < length p \<and> is_queue_owner q sid ?a \<and>
      \<not> is_recipient_online q ?a \<and> \<not> payload_ephemeral p")
    case True
    then obtain q p where qp: "qo = Some q" "po = Some p" "\<not> fst (is_rate_limited sid 10 1 now a)"
      "q \<noteq> []" "p \<noteq> []" "\<not> 100 * 1024 < length p" "is_queue_owner q sid ?a"
      "\<not> is_recipient_online q ?a" "\<not> payload_ephemeral p" by blast
    from enqueue_sim [OF assms(1) s assms(3,4), of q p ?s] obtain r' where
      "enqueue_offline_rd c q p now (?s, r) = (?s, r')"
      "shared_sim T used (enqueue_offline q p ?a) (ks r')" by blast
    with qp lim owner online show ?thesis
      by (simp add: cluster_handle_def handle_push_queue_rd_def handle_push_queue_def
          cluster_sim_def Let_def split_beta)
  next
    case False
    have "cluster_handle c home now (PushQueue sid qo po) (ws, r) =
        (fst (handle_push_queue sid now qo po a), ?ws, r)"
      using False lim(1) owner online
      by (auto simp: cluster_handle_def handle_push_queue_rd_def handle_push_queue_def
          Let_def split_beta split: option.split)
    moreover have "snd (handle_push_queue sid now qo po a) = ?a"
      using False by (auto simp: handle_push_queue_def Let_def split_beta split: option.split)
    ultimately show ?thesis using lim(2) s by (simp add: cluster_sim_def)
  qed
qed

lemma connect_cluster_sim:
  assumes "redis_laws c ks" "cluster_sim ks home T used a (ws, r)" "now < T" "sid \<notin> used"
  shows "\<exists>cl. cluster_handle c home now (Connect sid) (ws, r) = (fst (handle_connect sid now a), cl) \<and>
         cluster_sim ks home T (insert sid used) (snd (handle_connect sid now a)) cl"
proof -
  from assms(2) have l: "local_sim home a ws" and s: "shared_sim T used a (ks r)"
    by (simp_all add: cluster_sim_def)
  have rates: "socket_rate_limits (ws (home x)) x = socket_rate_limits a x" for x
    using l by (simp add: local_sim_def)
  have "home x = home sid \<Longrightarrow> socket_rate_limits (ws (home sid)) x = socket_rate_limits a x" for x
    using rates [of x] by simp
  with l have "local_sim home (snd (handle_connect sid now a))
      (ws(home sid := snd (handle_connect sid now (ws (home sid)))))"
    by (auto simp: local_sim_def handle_connect_def Let_def)
  moreover from connect_sim [OF assms(1) s assms(3,4), of "ws (home sid)"] obtain r' where
    "handle_connect_rd c sid now (ws (home sid), r) = ([], snd (handle_connect sid now (ws (home sid))), r')"
    "shared_sim T (insert sid used) (snd (handle_connect sid now a)) (ks r')" by blast
  moreover have "fst (handle_connect sid now a) = []" by (simp add: handle_connect_def Let_def)
  ultimately show ?thesis by (simp add: cluster_handle_def cluster_sim_def Let_def)
qed

lemma disconnect_cluster_sim:
  assumes "redis_laws c ks" "cluster_sim ks home T used a (ws, r)" "now < T"
  shows "\<exists>cl. cluster_handle c home now (Disconnect sid) (ws, r) = (fst (handle_disconnect sid a), cl) \<and>
         cluster_sim ks home T used (snd (handle_disconnect sid a)) cl"
proof -
  from assms(2) have l: "local_sim home a ws" and s: "shared_sim T used a (ks r)"
    by (simp_all add: cluster_sim_def)
  have rates: "socket_rate_limits (ws (home x)) x = socket_rate_limits a x" for x
    using l by (simp add: local_sim_def)
  have "home x = home sid \<Longrightarrow> socket_rate_limits (ws (home sid)) x = socket_rate_limits a x" for x
    using rates [of x] by simp
  with l have "local_sim home (snd (handle_disconnect sid a))
      (ws(home sid := snd (handle_disconnect sid (ws (home sid)))))"
    by (auto simp: local_sim_def handle_disconnect_def)
  moreover from disconnect_sim [OF assms(1) s assms(3), of sid "ws (home sid)"] obtain r' where
    "handle_disconnect_rd c sid now (ws (home sid), r) =
       ([], snd (handle_disconnect sid (ws (home sid))), r')"
    "shared_sim T used (snd (handle_disconnect sid a)) (ks r')" by blast
  moreover have "fst (handle_disconnect sid a) = []" by (simp add: handle_disconnect_def)
  ultimately show ?thesis by (simp add: cluster_handle_def cluster_sim_def Let_def)
qed

text \<open>The sockets that are known and those that are connected after an event.\<close>

fun used_after :: "relay_event \<Rightarrow> string set \<Rightarrow> string set" where
  "used_after (Connect sid) used = insert sid used"
| "used_after _ used = used"

fun online_after :: "relay_event \<Rightarrow> string set \<Rightarrow> string set" where
  "online_after (Connect sid) online = insert sid online"
| "online_after (Disconnect sid) online = online - {sid}"
| "online_after _ online = online"

fun event_ok :: "string set \<Rightarrow> string set \<Rightarrow> relay_event \<Rightarrow> bool" where
  "event_ok used online (Connect sid) \<longleftrightarrow> sid \<notin> used"
| "event_ok used online e \<longleftrightarrow> event_sid e \<in> online"

lemma well_ordered_Cons:
  "well_ordered used online ((now, e) # es) \<longleftrightarrow>
     event_ok used online e \<and> well_ordered (used_after e used) (online_after e online) es"
  by (cases e) auto

lemma online_after_handle: "relay_online (snd (relay_handle now e a)) = online_after e (relay_online a)"
  by (cases e) (auto simp: relay_online_def handle_create_queue_def handle_rejoin_queue_def
      handle_register_peer_def handle_push_queue_def handle_connect_def handle_disconnect_def
      Let_def split_beta split: option.splits)

lemma event_sim:
  assumes "redis_laws c ks" "cluster_sim ks home T used a cl" "now < T" "T \<le> now + 86400"
    and "event_ok used (relay_online a) e"
  shows "\<exists>cl'. cluster_handle c home now e cl = (fst (relay_handle now e a), cl') \<and>
         cluster_sim ks home T (used_after e used) (snd (relay_handle now e a)) cl'"
proof -
  obtain ws r where cl: "cl = (ws, r)" by (cases cl)
  note pre = assms(1) assms(2) [unfolded cl] assms(3)
  from assms(4,5) show ?thesis
    using connect_cluster_sim [OF pre] disconnect_cluster_sim [OF pre] create_sim [OF pre]
      rejoin_sim [OF pre] register_sim [OF pre] push_sim [OF pre]
    by (cases e) (simp_all add: cl)
qed

lemma run_sim:
  assumes "redis_laws c ks" "cluster_sim ks home T used a cl"
    and "well_timed T es" "well_ordered used (relay_online a) es"
  shows "fst (cluster_run c home es cl) = fst (relay_run es a)"
  using assms(2-4)
proof (induction es arbitrary: used a cl)
  case Nil
  then show ?case by simp
next
  case (Cons te es)
  obtain now e where te: "te = (now, e)" by (cases te)
  with Cons.prems have "now < T" "T \<le> now + 86400" "event_ok used (relay_online a) e"
    and rest: "well_timed T es" "well_ordered (used_after e used) (online_after e (relay_online a)) es"
    by (auto simp: well_ordered_Cons simp del: well_ordered.simps(2))
  with event_sim [OF assms(1) Cons.prems(1)] obtain cl' where
    1: "cluster_handle c home now e cl = (fst (relay_handle now e a), cl')"
       "cluster_sim ks home T (used_after e used) (snd (relay_handle now e a)) cl'" by blast
  from Cons.IH [OF 1(2) rest(1)] rest(2)
  have "fst (cluster_run c home es cl') = fst (relay_run es (snd (relay_handle now e a)))"
    by (simp add: online_after_handle)
  with 1(1) show ?case by (simp add: te split_beta Let_def)
qed

lemma cluster_sim_init:
  "ks r0 = Map.empty \<Longrightarrow> cluster_sim ks home T {} relay_init (\<lambda>_. relay_init, r0)"
  by (simp add: cluster_sim_def local_sim_def shared_sim_defs keeps_def set_at_def list_at_def
      relay_init_def is_queue_owner_def)

section \<open>Redis in place of the dictionaries\<close>

text \<open>C11: for a day, several workers that share a Redis server send exactly what one relay with
  its tables in memory sends, event by event, whichever worker each socket is connected to.\<close>

theorem cluster_refines_relay:
  assumes "redis_laws c ks" "ks r0 = Map.empty" "well_timed T es" "well_ordered {} {} es"
  shows "fst (cluster_run c home es (\<lambda>_. relay_init, r0)) = fst (relay_run es relay_init)"
proof (rule run_sim [OF assms(1) cluster_sim_init [of ks r0 home T, OF assms(2)] assms(3)])
  show "well_ordered {} (relay_online relay_init) es"
    using assms(4) by (simp add: relay_online_def relay_init_def)
qed

text \<open>A server that is nothing but its key space, for the concrete runs.\<close>

definition keyspace_redis :: "keyspace redis" where
  "keyspace_redis = \<lparr>
     rd_sadd = (\<lambda>k v now K. map_option (\<lambda>(S, d). K(k \<mapsto> (RSet (insert v S), d))) (set_at (live now K) k)),
     rd_srem = (\<lambda>k v now K. map_option (\<lambda>(S, d).
        K(k := (if S - {v} = {} then None else Some (RSet (S - {v}), d)))) (set_at (live now K) k)),
     rd_sismember = (\<lambda>k v now K. map_option (\<lambda>(S, d). v \<in> S) (set_at (live now K) k)),
     rd_expire = (\<lambda>k ttl now K. Some (case live now K k of
        Some (x, d) \<Rightarrow> K(k \<mapsto> (x, Some (now + ttl))) | None \<Rightarrow> K)),
     rd_set = (\<lambda>k b ex now K. Some (K(k \<mapsto> (RStr b, Some (now + ex))))),
     rd_get = (\<lambda>k now K. case live now K k of
        None \<Rightarrow> Some None
      | Some (RStr b, d) \<Rightarrow> (if never_utf8 b then None else map_option Some (utf8_decode b))
      | _ \<Rightarrow> None),
     rd_rpush = (\<lambda>k v now K. map_option (\<lambda>(xs, d). K(k \<mapsto> (RList (xs @ [v]), d))) (list_at (live now K) k)),
     rd_ltrim = (\<lambda>k from until now K. map_option (\<lambda>(xs, d).
        K(k \<mapsto> (RList (take_last (nat (- from)) xs), d))) (list_at (live now K) k)),
     rd_lrange = (\<lambda>k from until now K. map_option fst (list_at (live now K) k)),
     rd_delete = (\<lambda>k now K. Some (K(k := None)))\<rparr>"

lemma encoded_utf8: "\<not> never_utf8 (utf8_encode s)"
proof (induction s)
  case Nil
  show ?case by (simp add: never_utf8_def)
next
  case (Cons ch s)
  have "code ch < 256" by (simp add: code_def)
  then have "\<forall>x\<in>set (utf8_char ch). unat x \<noteq> 192 \<and> unat x \<noteq> 193 \<and> unat x < 245"
    by (auto simp: utf8_char_def Let_def unat_nat_byte)
  with Cons show ?case by (fastforce simp: never_utf8_def utf8_encode_def)
qed

lemma keyspace_redis_laws: "redis_laws keyspace_redis id"
  unfolding redis_laws_def
proof (intro conjI)
  show "list_laws keyspace_redis id"
    by (auto simp: list_laws_def keyspace_redis_def)
qed (auto simp: set_laws_def key_laws_def string_laws_def keyspace_redis_def encoded_utf8)

definition cluster_demo :: "(real \<times> relay_event) list" where
  "cluster_demo =
     [(0, Connect ''A''), (1, CreateQueue ''A'' ''qa''), (2, Connect ''B''),
      (3, CreateQueue ''B'' ''qb''), (4, RegisterPeer ''B'' (Some ''qb'') (Some ''qa'')),
      (5, Disconnect ''A''), (6, PushQueue ''B'' (Some ''qa'') (Some ''hi'')), (7, Connect ''C''),
      (8, RejoinQueue ''C'' (Some ''qa''))]"

theorem cluster_refines_relay_witness:
  "last (fst (cluster_run keyspace_redis (\<lambda>sid. if sid = ''B'' then 1 else 0) cluster_demo
      (\<lambda>_. relay_init, Map.empty))) =
     [JoinRoom ''qa'', QueueRejoined ''qa'', QueuePayload ''C'' ''qa'' ''hi'']"
proof -
  have "fst (cluster_run keyspace_redis (\<lambda>sid. if sid = ''B'' then 1 else 0) cluster_demo
      (\<lambda>_. relay_init, Map.empty)) = fst (relay_run cluster_demo relay_init)"
    by (rule cluster_refines_relay [OF keyspace_redis_laws, where T = 86400])
      (simp_all add: cluster_demo_def)
  moreover have "payload_ephemeral ''hi'' = False" "py_strip ''qa'' = ''qa''" by code_simp+
  then have "last (fst (relay_run cluster_demo relay_init)) =
      [JoinRoom ''qa'', QueueRejoined ''qa'', QueuePayload ''C'' ''qa'' ''hi'']"
    by (simp add: cluster_demo_def relay_eval)
  ultimately show ?thesis by simp
qed

text \<open>The day is needed: a queue's owners expire from Redis a day after the last of them was
  added, though the socket is still connected.\<close>

lemma ownership_expires:
  assumes "redis_laws c ks" "set_at (live t (ks r)) (''queue_owner:'' @ q) = Some (S, d)"
    and "case d of Some x \<Rightarrow> t < x | None \<Rightarrow> True"
    and "t + 86400 \<le> now"
  shows "\<not> is_queue_owner_rd c q sid now (add_queue_owner_rd c q sid t (s, r))"
proof -
  let ?k = "''queue_owner:'' @ q"
  from assms(1) have set: "set_laws c ks" and key: "key_laws c ks" by (simp_all add: redis_laws_def)
  from set assms(2) obtain r1 where 1: "rd_sadd c ?k sid t r = Some r1"
      "ks r1 = (ks r)(?k \<mapsto> (RSet (insert sid S), d))"
    unfolding set_laws_def by meson
  have "live t (ks r1) ?k = Some (RSet (insert sid S), d)"
    using assms(3) by (auto simp: 1 live_def split: option.splits)
  with key obtain r2 where 2: "rd_expire c ?k 86400 t r1 = Some r2"
      "ks r2 = (ks r1)(?k \<mapsto> (RSet (insert sid S), Some (t + 86400)))"
    unfolding key_laws_def by meson
  have "set_at (live now (ks r2)) ?k = Some ({}, None)"
    using assms(4) by (simp add: 2 live_def set_at_def)
  with set have "rd_sismember c ?k sid now r2 = Some (sid \<in> {})"
    unfolding set_laws_def by meson
  with 1(1) 2(1) show ?thesis by (simp add: add_queue_owner_rd_def is_queue_owner_rd_def)
qed

section \<open>Where the shared tables fail\<close>

text \<open>A worker that dies runs no disconnect handlers, and \<^verbatim>\<open>online_sids\<close> does not expire: its
  sockets stay recipients that are online. What is pushed to their queues goes to a room without
  members; nothing is kept for the recipient's return.\<close>

lemma crashed_recipient_loses:
  assumes "redis_laws c ks"
    and "live now (ks r) (''queue_creator:'' @ q) = Some (RStr (utf8_encode gone), d1)" "gone \<noteq> []"
    and "set_at (live now (ks r)) ''online_sids'' = Some (S, d2)" "gone \<in> S"
    and "set_at (live now (ks r)) (''queue_owner:'' @ q) = Some (owners, d3)" "sid \<in> owners"
    and "q \<noteq> []" "p \<noteq> []" "length p \<le> 102400"
    and "\<not> fst (is_rate_limited sid 10 1 now s)"
  shows "handle_push_queue_rd c sid now (Some q) (Some p) (s, r) =
           ([QueuePayload q q p], snd (is_rate_limited sid 10 1 now s), r)"
proof -
  from assms(1) have set: "set_laws c ks" and str: "string_laws c ks"
    by (simp_all add: redis_laws_def)
  from str assms(2) have "rd_get c (''queue_creator:'' @ q) now r = Some (Some gone)"
    unfolding string_laws_def by meson
  moreover from set assms(4) have "rd_sismember c ''online_sids'' gone now r = Some (gone \<in> S)"
    unfolding set_laws_def by meson
  moreover from set assms(6) have
    "rd_sismember c (''queue_owner:'' @ q) sid now r = Some (sid \<in> owners)"
    unfolding set_laws_def by meson
  ultimately show ?thesis
    using assms by (simp add: handle_push_queue_rd_def is_queue_owner_rd_def
        is_recipient_online_rd_def Let_def split_beta)
qed

section \<open>Chunks of file transfers\<close>

definition upload_chunk_rd ::
    "'r redis \<Rightarrow> string \<Rightarrow> bytes \<Rightarrow> real \<Rightarrow> chunk_store \<times> 'r \<Rightarrow> chunk_store \<times> 'r" where
  "upload_chunk_rd c cid data now = (\<lambda>(m, r).
     (case rd_set c (''file_chunk:'' @ cid) data 86400 now r of
        Some r1 \<Rightarrow> (m, r1)
      | None \<Rightarrow> (upload_chunk cid data now m, r)))"

text \<open>The value comes back as the text the client decodes; Flask encodes it again. A key that
  was read but can not be deleted sends the worker to its own store.\<close>

definition download_chunk_rd ::
    "'r redis \<Rightarrow> string \<Rightarrow> real \<Rightarrow> chunk_store \<times> 'r \<Rightarrow> bytes option \<times> chunk_store \<times> 'r" where
  "download_chunk_rd c cid now = (\<lambda>(m, r).
     (let own = (let (data, m') = download_chunk cid now m in (data, m', r)) in
      case rd_get c (''file_chunk:'' @ cid) now r of
        Some (Some text_data) \<Rightarrow>
          if text_data = [] then own
          else (case rd_delete c (''file_chunk:'' @ cid) now r of
                  Some r1 \<Rightarrow> (Some (utf8_encode text_data), m, r1)
                | None \<Rightarrow> own)
      | _ \<Rightarrow> own))"

definition relay_file_upload_rd ::
    "'r redis \<Rightarrow> string \<Rightarrow> bytes \<Rightarrow> real \<Rightarrow> chunk_store \<times> 'r \<Rightarrow> unit http \<times> chunk_store \<times> 'r" where
  "relay_file_upload_rd c cid data now mr =
     (if 16500 < length data then (Inl (HTTP 400 ''Chunk size exceeds maximum limit''), mr)
      else (Inr (), upload_chunk_rd c cid data now mr))"

definition relay_file_download_rd ::
    "'r redis \<Rightarrow> string \<Rightarrow> real \<Rightarrow> chunk_store \<times> 'r \<Rightarrow> bytes http \<times> chunk_store \<times> 'r" where
  "relay_file_download_rd c cid now mr =
     (case download_chunk_rd c cid now mr of
        (None, mr') \<Rightarrow> (Inl (HTTP 404 ''Chunk not found or expired''), mr')
      | (Some data, mr') \<Rightarrow> (Inr data, mr'))"

text \<open>With Redis, an encrypted chunk that is uploaded can not be downloaded: the client decodes
  what it reads as UTF-8, which fails on a byte that is in no UTF-8 text, and the worker answers
  404 from its own empty store, while the chunk stays in Redis.\<close>

theorem binary_chunk_lost:
  assumes "redis_laws c ks" "never_utf8 data" "length data \<le> 16500"
    and "t \<le> now" "now < t + 86400" "m cid = None"
    and "relay_file_upload_rd c cid data t (m, r) = (Inr (), mr)"
  shows "http_code (fst (relay_file_download_rd c cid now mr)) = 404 \<and>
         ks (snd (snd (relay_file_download_rd c cid now mr))) (''file_chunk:'' @ cid) =
           Some (RStr data, Some (t + 86400))"
proof -
  let ?k = "''file_chunk:'' @ cid"
  from assms(1) have str: "string_laws c ks" by (simp add: redis_laws_def)
  then obtain r1 where 1: "rd_set c ?k data 86400 t r = Some r1"
      "ks r1 = (ks r)(?k \<mapsto> (RStr data, Some (t + 86400)))"
    unfolding string_laws_def by meson
  with assms(3,7) have mr: "mr = (m, r1)"
    by (simp add: relay_file_upload_rd_def upload_chunk_rd_def)
  have "live now (ks r1) ?k = Some (RStr data, Some (t + 86400))"
    using assms(5) by (simp add: 1 live_def)
  with str assms(2) have "rd_get c ?k now r1 = None"
    unfolding string_laws_def by meson
  with assms(6) show ?thesis
    by (simp add: mr relay_file_download_rd_def download_chunk_rd_def download_chunk_def 1 Let_def)
qed

theorem binary_chunk_lost_witness:
  "http_code (fst (relay_file_download_rd keyspace_redis ''c1'' 5
     (snd (relay_file_upload_rd keyspace_redis ''c1'' [7, 255] 0 (Map.empty, Map.empty))))) = 404"
proof -
  have "relay_file_upload_rd keyspace_redis ''c1'' [7, 255] 0 (Map.empty, Map.empty) =
      (Inr (), snd (relay_file_upload_rd keyspace_redis ''c1'' [7, 255] 0 (Map.empty, Map.empty)))"
    by (simp add: relay_file_upload_rd_def)
  moreover have "never_utf8 [7, 255]" by (simp add: never_utf8_def)
  ultimately show ?thesis
    using binary_chunk_lost [OF keyspace_redis_laws, of "[7, 255]" 0 5 Map.empty "''c1''"] by simp
qed

end
