(* ===== verification/Service_Edges.thy ===== *)
theory Service_Edges
  imports Relay_Server Startup Tor_Circuits Node_Lifecycle
begin

text \<open>
  The edges of the servers. What reaches the logs (\<^verbatim>\<open>core/logging.py\<close>,
  \<^verbatim>\<open>core/logging_v3.py\<close> and the relay's own filter), the checks and settings with which the two
  Flask servers start (\<^verbatim>\<open>transports/relay/server.py\<close>, \<^verbatim>\<open>transports/p2p/server.py\<close>), how they
  answer exceptions and cross-origin requests, the certificate of the relay, the calls to other
  onions, and the FastAPI application of the relay (\<^verbatim>\<open>transports/relay/app_relay.py\<close>).
\<close>

section \<open>What reaches the logs\<close>

text \<open>An argument of a log call is a string or another object, kept as its \<^verbatim>\<open>str\<close>.\<close>

datatype log_arg = LogStr string | LogObj string

datatype log_args = NoArgs | DictArgs "(string \<times> log_arg) list" | TupleArgs "log_arg list"

record log_record =
  rec_msg :: log_arg
  rec_args :: log_args

text \<open>\<^verbatim>\<open>core/logging.py\<close> and the relay each have a function for a text, with the same patterns.\<close>

definition redact_log_message :: "string \<Rightarrow> string" where
  "redact_log_message s = redact_b64 (redact_uuid s)"

fun redact_arg :: "(string \<Rightarrow> string) \<Rightarrow> log_arg \<Rightarrow> log_arg" where
  "redact_arg redact (LogStr s) = LogStr (redact s)"
| "redact_arg redact (LogObj s) = LogObj s"

fun redact_args :: "log_args \<Rightarrow> log_args" where
  "redact_args NoArgs = NoArgs"
| "redact_args (DictArgs kvs) = DictArgs (map (\<lambda>(k, v). (k, redact_arg redact_log_message v)) kvs)"
| "redact_args (TupleArgs vs) = TupleArgs (map (redact_arg redact_log_message) vs)"

text \<open>The filter of \<^verbatim>\<open>core/logging.py\<close>, and the one the relay adds, which leaves arguments alone.\<close>

definition redacting_filter :: "log_record \<Rightarrow> log_record" where
  "redacting_filter r = r\<lparr>rec_msg := redact_arg redact_log_message (rec_msg r), rec_args := redact_args (rec_args r)\<rparr>"

definition relay_redacting_filter :: "log_record \<Rightarrow> log_record" where
  "relay_redacting_filter r = r\<lparr>rec_msg := redact_arg redact_sensitive (rec_msg r)\<rparr>"

text \<open>A logger applies the filters that were added to itself; the handlers of its ancestors get the
  record without their filters. \<^verbatim>\<open>setup_logging\<close> adds the filter to the root logger (the empty
  name) and to the application's.\<close>

definition setup_logging :: "string option \<Rightarrow> (string \<Rightarrow> (log_record \<Rightarrow> log_record) list)
    \<Rightarrow> string \<Rightarrow> (log_record \<Rightarrow> log_record) list" where
  "setup_logging app fs =
     (let fs = fs([] := fs [] @ [redacting_filter])
      in case app of Some name \<Rightarrow> fs(name := fs name @ [redacting_filter]) | None \<Rightarrow> fs)"

definition relay_loggers :: "string \<Rightarrow> string \<Rightarrow> (log_record \<Rightarrow> log_record) list" where
  "relay_loggers name =
     (let fs = setup_logging (Some name) (\<lambda>_. []);
          fs = fs(name := fs name @ [relay_redacting_filter])
      in fs([] := fs [] @ [relay_redacting_filter]))"

definition handled_record :: "(string \<Rightarrow> (log_record \<Rightarrow> log_record) list) \<Rightarrow> string \<Rightarrow> log_record \<Rightarrow> log_record" where
  "handled_record fs logger r = fold (\<lambda>f r. f r) (fs logger) r"

definition secured_print :: "string list \<Rightarrow> string" where
  "secured_print args = redact_log_message (case args of [] \<Rightarrow> [] | a # as \<Rightarrow> a @ concat (map ((#) (CHR '' '')) as))"

lemma printed_no_secret: "no_b64_run (secured_print args)"
  by (simp add: secured_print_def redact_log_message_def no_run_redacted)

definition arg_clean :: "log_arg \<Rightarrow> bool" where
  "arg_clean a = (case a of LogStr s \<Rightarrow> no_b64_run s | LogObj _ \<Rightarrow> True)"

lemma redact_arg_clean: "arg_clean (redact_arg redact_log_message a)"
  by (cases a) (simp_all add: arg_clean_def redact_log_message_def no_run_redacted)

text \<open>What the application and the root logger pass on has no long run in its text or its
  string arguments.\<close>

lemma filtered_clean:
  "arg_clean (rec_msg (redacting_filter r)) \<and>
   (case rec_args (redacting_filter r) of
      NoArgs \<Rightarrow> True
    | DictArgs kvs \<Rightarrow> list_all (arg_clean \<circ> snd) kvs
    | TupleArgs vs \<Rightarrow> list_all arg_clean vs)"
  by (cases "rec_args r") (auto simp: redacting_filter_def redact_arg_clean list_all_iff)

text \<open>A logger of a module has no filter of its own: what it logs is written as it is, although
  the filter is on the root logger.\<close>

lemma module_logger_unfiltered:
  "logger \<noteq> [] \<Longrightarrow> logger \<noteq> name \<Longrightarrow> handled_record (relay_loggers name) logger r = r"
  by (simp add: handled_record_def relay_loggers_def setup_logging_def Let_def)

section \<open>Structured logs\<close>

type_synonym event_dict = "(string \<times> json) list"

definition SENSITIVE :: "string list" where
  "SENSITIVE = [''password'', ''secret'', ''key'', ''token'', ''ciphertext'', ''plaintext'', ''iv'', ''nonce'',
     ''private_key'', ''shared_secret'', ''db_key'', ''session_key'', ''auth_tag'']"

definition scrub_sensitive_fields :: "event_dict \<Rightarrow> event_dict" where
  "scrub_sensitive_fields ev = fold (\<lambda>field ev.
     if map_of ev field = None then ev else AList.update field (JStr ''[REDACTED]'') ev) SENSITIVE ev"

text \<open>The processors before the renderer: the context's variables under the event's own, the
  level, the time, the scrubbing.\<close>

definition shared_processors :: "event_dict \<Rightarrow> string \<Rightarrow> string \<Rightarrow> event_dict \<Rightarrow> event_dict" where
  "shared_processors ctx level stamp ev =
     (let ev = fold (\<lambda>(k, v) m. AList.update k v m) ev ctx;
          ev = AList.update ''level'' (JStr level) ev;
          ev = AList.update ''timestamp'' (JStr stamp) ev
      in scrub_sensitive_fields ev)"

text \<open>A record of the standard library's loggers enters the same chain as an event of one field.\<close>

definition foreign_event :: "event_dict \<Rightarrow> string \<Rightarrow> string \<Rightarrow> string \<Rightarrow> event_dict" where
  "foreign_event ctx level stamp message = shared_processors ctx level stamp [(''event'', JStr message)]"

lemma scrub_fold:
  "map_of (fold (\<lambda>field ev. if map_of ev field = None then ev
      else AList.update field (JStr ''[REDACTED]'') ev) names ev) k =
   (if k \<in> set names \<and> map_of ev k \<noteq> None then Some (JStr ''[REDACTED]'') else map_of ev k)"
  by (induction names arbitrary: ev) (auto simp: update_conv')

text \<open>No event, with the context's variables in it, carries a value under a sensitive name; every
  other field is what it was.\<close>

lemma scrubbed:
  "map_of (shared_processors ctx level stamp ev) k =
     (let m = (map_of (fold (\<lambda>(k, v) m. AList.update k v m) ev ctx))
                (''level'' \<mapsto> JStr level, ''timestamp'' \<mapsto> JStr stamp)
      in if k \<in> set SENSITIVE \<and> m k \<noteq> None then Some (JStr ''[REDACTED]'') else m k)"
  by (simp add: shared_processors_def scrub_sensitive_fields_def scrub_fold update_conv' Let_def)

text \<open>The names have to match exactly: a secret under another name, or inside a message, stays.\<close>

lemma message_not_scrubbed:
  "map_of (foreign_event [] level stamp message) ''event'' = Some (JStr message)"
  by (simp add: foreign_event_def scrubbed SENSITIVE_def Let_def update_conv')

lemma other_name_not_scrubbed:
  "map_of (shared_processors [] level stamp [(''event'', e), (''api_token'', v)]) ''api_token'' = Some v"
  by (simp add: scrubbed SENSITIVE_def Let_def update_conv')

section \<open>How the Flask servers start\<close>

type_synonym environ = "string \<rightharpoonup> string"

definition getenv :: "environ \<Rightarrow> string \<Rightarrow> string \<Rightarrow> string" where
  "getenv env k d = (case env k of Some v \<Rightarrow> v | None \<Rightarrow> d)"

definition env_flag :: "environ \<Rightarrow> string \<Rightarrow> bool" where
  "env_flag env k = (py_lower (getenv env k ''False'') = ''true'')"

definition production_debug :: "environ \<Rightarrow> bool" where
  "production_debug env =
     (py_lower (getenv env ''ANONYMUS_ENV'' []) = ''production'' \<and> py_lower (getenv env ''FLASK_DEBUG'' []) = ''true'')"

definition FLASK_PLACEHOLDERS :: "string list" where
  "FLASK_PLACEHOLDERS = [''your-secure-random-key-here'', ''diagnostics_ephemeral_control_key_2026'', ''changeme'', []]"

text \<open>The key for the sessions; \<open>drawn\<close> is the one drawn when there is none and the server runs in
  debug mode.\<close>

definition flask_secret :: "environ \<Rightarrow> string \<Rightarrow> string py" where
  "flask_secret env drawn =
     (let k = getenv env ''FLASK_SECRET_KEY'' [] in
      if k \<in> set FLASK_PLACEHOLDERS then
        if \<not> env_flag env ''FLASK_DEBUG'' then
          Inl (RuntimeError ''A secure FLASK_SECRET_KEY environment variable is required in production mode!'')
        else Inr drawn
      else Inr k)"

record flask_config =
  fc_secret_key :: string
  fc_cookie_secure :: bool
  fc_cookie_httponly :: bool
  fc_cookie_samesite :: string
  fc_max_content :: nat
  fc_session_hours :: nat
  fc_limits :: "string list"
  fc_limit_storage :: string
  fc_origins :: "string list option"    \<comment> \<open>None: every origin\<close>

definition relay_origins :: "environ \<Rightarrow> string \<Rightarrow> string list option" where
  "relay_origins env local_ip =
     (if getenv env ''CORS_ORIGINS'' [] \<noteq> [] then
        Some (filter (\<lambda>w. w \<noteq> []) (map py_strip (py_split (CHR '','') (getenv env ''CORS_ORIGINS'' []))))
      else if env_flag env ''FLASK_DEBUG'' \<and> py_lower (getenv env ''ANONYMUS_ENV'' []) \<noteq> ''production'' then None
      else Some [''https://localhost'', ''https://127.0.0.1'', ''https://'' @ local_ip])"

definition relay_boot :: "environ \<Rightarrow> string \<Rightarrow> string \<Rightarrow> flask_config py" where
  "relay_boot env drawn local_ip =
     (if production_debug env then
        Inl (RuntimeError ''Security Violation: FLASK_DEBUG=true is active while ANONYMUS_ENV=production. Refusing to boot.'')
      else case flask_secret env drawn of Inl e \<Rightarrow> Inl e
      | Inr k \<Rightarrow> Inr \<lparr>fc_secret_key = k, fc_cookie_secure = (\<not> env_flag env ''DISABLE_SSL''),
          fc_cookie_httponly = True, fc_cookie_samesite = ''Strict'', fc_max_content = 1 * 1024 * 1024,
          fc_session_hours = 8, fc_limits = [''200 per day'', ''50 per hour''],
          fc_limit_storage = getenv env ''REDIS_URL'' ''memory://'',
          fc_origins = relay_origins env local_ip\<rparr>)"

text \<open>The port is read after the checks; a text that is no number raises.\<close>

definition p2p_origins :: "int \<Rightarrow> string list" where
  "p2p_origins port = [''http://127.0.0.1:'' @ int_str port, ''http://localhost:'' @ int_str port,
     ''http://[::1]:'' @ int_str port]"

definition p2p_boot :: "environ \<Rightarrow> string \<Rightarrow> flask_config py" where
  "p2p_boot env drawn =
     (if production_debug env then
        Inl (RuntimeError ''Security Violation: FLASK_DEBUG=true is active while ANONYMUS_ENV=production. Refusing to boot.'')
      else case flask_secret env drawn of Inl e \<Rightarrow> Inl e
      | Inr k \<Rightarrow>
          (case py_int (getenv env ''PORT'' ''5000'') of
             None \<Rightarrow> Inl (ValueError ''invalid literal for int() with base 10'')
           | Some port \<Rightarrow> Inr \<lparr>fc_secret_key = k, fc_cookie_secure = False,
               fc_cookie_httponly = True, fc_cookie_samesite = ''Strict'', fc_max_content = 1 * 1024 * 1024,
               fc_session_hours = 8, fc_limits = [''200 per day'', ''50 per hour''],
               fc_limit_storage = ''memory://'', fc_origins = Some (p2p_origins port)\<rparr>))"

text \<open>The check of \<^verbatim>\<open>engineio\<close>: an origin passes when it is in the list.\<close>

definition origin_accepted :: "flask_config \<Rightarrow> string \<Rightarrow> bool" where
  "origin_accepted cfg origin = (case fc_origins cfg of None \<Rightarrow> True | Some os \<Rightarrow> origin \<in> set os)"

text \<open>The origin a browser sends for a page: the port is left out when it is the scheme's own.\<close>

definition page_origin :: "bool \<Rightarrow> string \<Rightarrow> int \<Rightarrow> string" where
  "page_origin https host port =
     (if https then ''https://'' else ''http://'') @ host @
     (if port = (if https then 443 else 80) then [] else '':'' @ int_str port)"

text \<open>What a server that starts has: a key that is no placeholder or a drawn one, and never debug
  mode in production.\<close>

lemma relay_boot_checked:
  "relay_boot env drawn ip = Inr cfg \<Longrightarrow> \<not> production_debug env \<and>
     (fc_secret_key cfg \<notin> set FLASK_PLACEHOLDERS \<or> env_flag env ''FLASK_DEBUG'' \<and> fc_secret_key cfg = drawn)"
  by (auto simp: relay_boot_def flask_secret_def Let_def split: if_splits sum.splits)

text \<open>\<^verbatim>\<open>python server.py\<close> of the P2P node: Tor is started without a port of its own, and the server
  listens on the first free port from 8080 on, not on the one the origins were made for.\<close>

definition p2p_main_port :: "(int \<Rightarrow> bool) \<Rightarrow> int py" where
  "p2p_main_port free = find_free_port free 8080"

lemma free_port_from: "find_free_port free p = Inr q \<Longrightarrow> p \<le> q"
  by (induction free p rule: find_free_port.induct)
    (auto simp: find_free_port.simps split: if_splits)

lemma int_str_inj: "0 \<le> i \<Longrightarrow> 0 \<le> j \<Longrightarrow> int_str i = int_str j \<longleftrightarrow> i = j"
  by (metis int_str_def nat_str_val not_less nat_eq_iff2)

text \<open>The panel of a node that is started by itself can not open its socket: it listens on
  the first free port from 8080 on, the origins are those of the port 5000, and the origin of the
  panel's own page is none of them.\<close>

theorem panel_socket_refused:
  assumes "env ''PORT'' = None" "p2p_boot env drawn = Inr cfg" "p2p_main_port free = Inr port"
  shows "\<not> origin_accepted cfg (page_origin False ''127.0.0.1'' port)"
proof -
  have "py_int ''5000'' = Some 5000" by code_simp
  with assms(1,2) have "fc_origins cfg = Some (p2p_origins 5000)"
    by (auto simp: p2p_boot_def getenv_def split: if_splits sum.splits)
  moreover have "8080 \<le> port" using assms(3) free_port_from by (simp add: p2p_main_port_def)
  ultimately show ?thesis
    by (simp add: origin_accepted_def page_origin_def p2p_origins_def int_str_inj)
qed

theorem panel_socket_refused_witness:
  "\<exists>cfg port. p2p_boot [''FLASK_SECRET_KEY'' \<mapsto> ''k1''] ''r'' = Inr cfg \<and>
     p2p_main_port (\<lambda>p. p = 8081) = Inr port \<and>
     \<not> origin_accepted cfg (page_origin False ''127.0.0.1'' port)"
proof -
  have "py_int ''5000'' = Some 5000" by code_simp
  then obtain cfg where 1: "p2p_boot [''FLASK_SECRET_KEY'' \<mapsto> ''k1''] ''r'' = Inr cfg"
    by (simp add: p2p_boot_def production_debug_def getenv_def flask_secret_def FLASK_PLACEHOLDERS_def
        py_lower_def)
  have 2: "p2p_main_port (\<lambda>p. p = 8081) = Inr 8081"
    by (simp add: p2p_main_port_def find_free_port.simps)
  from panel_socket_refused [OF _ 1 2] have
    "\<not> origin_accepted cfg (page_origin False ''127.0.0.1'' 8081)" by simp
  with 1 2 show ?thesis by blast
qed

text \<open>Nor can a page that the relay serves under one of its own names, unless its port is the
  scheme's own.\<close>

lemma relay_page_refused:
  assumes "env ''CORS_ORIGINS'' = None" "\<not> env_flag env ''FLASK_DEBUG''" "relay_boot env drawn ip = Inr cfg"
    and "port \<noteq> 443" "CHR '':'' \<notin> set ip"
  shows "\<not> origin_accepted cfg (page_origin True h port)"
proof
  assume "origin_accepted cfg (page_origin True h port)"
  moreover have "fc_origins cfg = relay_origins env ip"
    using assms(3) by (auto simp: relay_boot_def split: if_splits sum.splits)
  moreover have "relay_origins env ip = Some [''https://localhost'', ''https://127.0.0.1'', ''https://'' @ ip]"
    using assms(1,2) by (simp add: relay_origins_def getenv_def)
  ultimately have "h @ '':'' @ int_str port \<in> {''localhost'', ''127.0.0.1'', ip}"
    using assms(4) by (simp add: origin_accepted_def page_origin_def)
  then have "CHR '':'' \<in> set ''localhost'' \<or> CHR '':'' \<in> set ''127.0.0.1'' \<or> CHR '':'' \<in> set ip"
    by (metis empty_iff insert_iff in_set_conv_decomp append_Cons append_Nil)
  with assms(5) show False by simp
qed

section \<open>Answers to exceptions and to other origins\<close>

text \<open>Flask looks for a handler of the exception's class and then of its ancestors; the exceptions
  of HTTP itself (unknown path, method, size, rate limit, CSRF) are ancestors of
  \<^verbatim>\<open>Exception\<close>, and the applications have no handler nearer to them.\<close>

datatype flask_exc = Queue_Full | Http_Exception nat | Other_Exception

record flask_answer =
  fa_status :: nat
  fa_error :: string
  fa_headers :: "(string \<times> string) list"

definition handle_unexpected_exception :: "flask_exc \<Rightarrow> flask_answer" where
  "handle_unexpected_exception e = \<lparr>fa_status = 500, fa_error = ''An unexpected error occurred'', fa_headers = []\<rparr>"

definition handle_queue_full :: "flask_exc \<Rightarrow> flask_answer" where
  "handle_queue_full e = \<lparr>fa_status = 503, fa_error = ''Service busy. Thread pool queue full.'',
     fa_headers = [(''Retry-After'', ''10'')]\<rparr>"

definition p2p_answer_exception :: "flask_exc \<Rightarrow> flask_answer" where
  "p2p_answer_exception e = (case e of Queue_Full \<Rightarrow> handle_queue_full e | _ \<Rightarrow> handle_unexpected_exception e)"

definition relay_answer_exception :: "flask_exc \<Rightarrow> flask_answer" where
  "relay_answer_exception e = \<lparr>fa_status = 500, fa_error = ''An unexpected error occurred'', fa_headers = []\<rparr>"

lemma limit_answered_500:
  "fa_status (p2p_answer_exception (Http_Exception 429)) = 500"
  "fa_status (relay_answer_exception (Http_Exception 429)) = 500"
  by (simp_all add: p2p_answer_exception_def handle_unexpected_exception_def relay_answer_exception_def)

definition cors_headers :: "(string \<times> string) list" where
  "cors_headers = [(''Access-Control-Allow-Origin'', ''*''), (''Access-Control-Allow-Methods'', ''GET, POST, OPTIONS''),
     (''Access-Control-Allow-Headers'', ''Content-Type'')]"

text \<open>Runs before every other check; an answer ends the request.\<close>

definition handle_options_preflight :: "string \<Rightarrow> flask_answer option" where
  "handle_options_preflight meth = (if meth = ''OPTIONS''
     then Some \<lparr>fa_status = 200, fa_error = [], fa_headers = cors_headers\<rparr> else None)"

definition add_cors_headers :: "string \<Rightarrow> flask_answer \<Rightarrow> flask_answer" where
  "add_cors_headers path a = (if py_startswith path ''/file/'' \<or> py_startswith path ''/p2p/file/''
     then a\<lparr>fa_headers := fold (\<lambda>(k, v) m. AList.update k v m) cors_headers (fa_headers a)\<rparr> else a)"

definition relay_options_preflight :: "string \<Rightarrow> flask_answer option" where
  "relay_options_preflight meth = (if meth = ''OPTIONS''
     then Some \<lparr>fa_status = 200, fa_error = [], fa_headers = cors_headers\<rparr> else None)"

definition relay_add_cors_headers :: "string \<Rightarrow> flask_answer \<Rightarrow> flask_answer" where
  "relay_add_cors_headers path a = (if py_startswith path ''/file/'' \<or> py_startswith path ''/p2p/file/''
     then a\<lparr>fa_headers := fold (\<lambda>(k, v) m. AList.update k v m) cors_headers (fa_headers a)\<rparr> else a)"

lemma cors_only_files:
  "map_of (fa_headers (add_cors_headers path a)) ''Access-Control-Allow-Origin'' =
     (if py_startswith path ''/file/'' \<or> py_startswith path ''/p2p/file/'' then Some ''*''
      else map_of (fa_headers a) ''Access-Control-Allow-Origin'')"
  by (simp add: add_cors_headers_def cors_headers_def update_conv')

section \<open>Pages\<close>

datatype page = Template string bool | Redirect string

definition p2p_index :: "bool \<Rightarrow> bool \<Rightarrow> page" where
  "p2p_index initialised logged_in =
     (if \<not> initialised then Template ''login.html'' True
      else if logged_in then Redirect ''chat''
      else Template ''login.html'' False)"

definition p2p_chat :: "bool \<Rightarrow> page" where
  "p2p_chat logged_in = (if \<not> logged_in then Redirect ''index'' else Template ''chat.html'' False)"

definition relay_index :: page where "relay_index = Template ''chat.html'' False"
definition relay_chat :: page where "relay_chat = Redirect ''index''"

text \<open>The two pages of a node do not redirect to each other for ever.\<close>

lemma pages_settle:
  "p2p_index True logged_in = Redirect ''chat'' \<Longrightarrow> p2p_chat logged_in = Template ''chat.html'' False"
  by (auto simp: p2p_index_def p2p_chat_def split: if_splits)

section \<open>The key of the limits on what other nodes send\<close>

definition get_p2p_rate_limit_key :: "bool \<Rightarrow> json option \<Rightarrow> string \<Rightarrow> string" where
  "get_p2p_rate_limit_key is_json body remote =
     (if \<not> is_json then remote
      else case body of
        None \<Rightarrow> remote
      | Some j \<Rightarrow>
          let sender = json_get j ''sender'';
              onion = (case sender of
                  Some v \<Rightarrow> if json_truthy v then sender else json_get j ''onion_address''
                | None \<Rightarrow> json_get j ''onion_address'')
          in (case onion of
                Some (JStr s) \<Rightarrow> if s \<noteq> [] then py_lower (py_strip s) else remote
              | _ \<Rightarrow> remote))"

text \<open>The requests an address sends, counted under the key of the limit.\<close>

definition key_count :: "string \<Rightarrow> (json option \<times> string) list \<Rightarrow> nat" where
  "key_count k reqs = length (filter (\<lambda>(body, remote). get_p2p_rate_limit_key True body remote = k) reqs)"

lemma named_key: "get_p2p_rate_limit_key True (Some (JObj [(''sender'', JStr s)])) remote =
    (if s = [] then remote else py_lower (py_strip s))"
  by (simp add: get_p2p_rate_limit_key_def json_get_def json_truthy_def)

text \<open>The limit counts by the sender a request names, before anything is verified: an address that
  names another sender each time has one request under every key, and one that names somebody else
  uses up that sender's requests.\<close>

lemma limit_key_chosen:
  assumes "distinct names" "\<forall>s\<in>set names. s \<noteq> [] \<and> py_lower (py_strip s) = s" "s \<in> set names"
  shows "key_count s (map (\<lambda>s. (Some (JObj [(''sender'', JStr s)]), remote)) names) = 1"
proof -
  have "filter (\<lambda>w. py_lower (py_strip w) = s) names = filter (\<lambda>w. w = s) names"
    using assms(2) by (intro filter_cong) auto
  moreover have "length (filter (\<lambda>w. w = s) names) = 1"
    using assms(1,3) by (simp add: distinct_length_filter)
  moreover have "filter (\<lambda>w. get_p2p_rate_limit_key True (Some (JObj [(''sender'', JStr w)])) remote = s) names =
      filter (\<lambda>w. py_lower (py_strip w) = s) names"
    using assms(2) by (intro filter_cong) (auto simp: named_key)
  ultimately show ?thesis by (simp add: key_count_def filter_map o_def)
qed

section \<open>Starting the relay\<close>

text \<open>\<open>routed\<close> is the address of the socket after the connect, \<open>None\<close> when that raises.\<close>

definition get_local_ip :: "string option \<Rightarrow> string" where
  "get_local_ip routed = (case routed of Some ip \<Rightarrow> ip | None \<Rightarrow> ''127.0.0.1'')"

record mdns_service =
  ms_type :: string
  ms_name :: string
  ms_addresses :: "bytes list"
  ms_port :: int

text \<open>The announcement; any exception leaves it out.\<close>

definition advertise_mdns :: "(string \<Rightarrow> bytes option) \<Rightarrow> bool \<Rightarrow> string option \<Rightarrow> int \<Rightarrow> mdns_service option" where
  "advertise_mdns aton zeroconf routed port =
     (if \<not> zeroconf then None
      else case aton (get_local_ip routed) of
        None \<Rightarrow> None
      | Some w \<Rightarrow> Some \<lparr>ms_type = ''_anonymus._tcp.local.'', ms_name = ''AnonyMus Server._anonymus._tcp.local.'',
          ms_addresses = [w], ms_port = port\<rparr>)"

text \<open>
  The certificate as far as the code decides it. \<open>ip_name\<close> is \<^verbatim>\<open>x509.IPAddress\<close> on bytes,
  \<open>None\<close> when it raises; the files are written, with the mode 0600, after the certificate is built.
\<close>

record 'g self_signed =
  ss_key_bits :: nat
  ss_common_name :: string
  ss_not_before :: real
  ss_not_after :: real
  ss_dns_names :: "string list"
  ss_ip_names :: "'g list"

record 'g cert_files =
  cf_key :: "(nat \<times> 'g self_signed) option"
  cf_cert :: "(nat \<times> 'g self_signed) option"

definition generate_self_signed_cert ::
    "(string \<Rightarrow> bytes option) \<Rightarrow> (bytes \<Rightarrow> 'g option) \<Rightarrow> string option \<Rightarrow> real \<Rightarrow> 'g cert_files \<Rightarrow> bool \<times> 'g cert_files" where
  "generate_self_signed_cert aton ip_name routed now files =
     (case (Option.bind (aton ''127.0.0.1'') ip_name, Option.bind (aton (get_local_ip routed)) ip_name) of
        (Some a, Some b) \<Rightarrow>
          (let cert = \<lparr>ss_key_bits = 2048, ss_common_name = ''workspace.local'', ss_not_before = now - 86400,
                 ss_not_after = now + 365 * 86400, ss_dns_names = [''localhost'', ''workspace.local''],
                 ss_ip_names = [a, b]\<rparr>
           in (True, files\<lparr>cf_key := Some (384, cert), cf_cert := Some (384, cert)\<rparr>))
      | _ \<Rightarrow> (False, files))"

datatype run_mode = Run_Http | Run_Https

record 'g relay_process =
  rp_mode :: run_mode
  rp_host :: string
  rp_port :: int
  rp_debug :: bool
  rp_mdns :: "mdns_service option"
  rp_files :: "'g cert_files"

text \<open>The main block, after the checks of \<^verbatim>\<open>relay_boot\<close>; \<open>None\<close> when it raises.\<close>

definition relay_main ::
    "(string \<Rightarrow> bytes option) \<Rightarrow> (bytes \<Rightarrow> 'g option) \<Rightarrow> bool \<Rightarrow> environ \<Rightarrow> string option \<Rightarrow> real \<Rightarrow> 'g cert_files
     \<Rightarrow> 'g relay_process option" where
  "relay_main aton ip_name zeroconf env routed now files =
     (case py_int (getenv env ''PORT'' ''5000'') of
        None \<Rightarrow> None
      | Some port \<Rightarrow>
          let debug = env_flag env ''FLASK_DEBUG'';
              mdns = (if env_flag env ''ANONYMUS_MDNS'' then advertise_mdns aton zeroconf routed port else None);
              host = (if debug then ''127.0.0.1'' else ''0.0.0.0'')
          in if env_flag env ''DISABLE_SSL'' then
               Some \<lparr>rp_mode = Run_Http, rp_host = host, rp_port = port, rp_debug = debug, rp_mdns = mdns, rp_files = files\<rparr>
             else
               let (ok, files') = (if cf_cert files \<noteq> None \<and> cf_key files \<noteq> None then (True, files)
                     else generate_self_signed_cert aton ip_name routed now files)
               in if ok then
                    Some \<lparr>rp_mode = Run_Https, rp_host = host, rp_port = port, rp_debug = debug, rp_mdns = mdns,
                      rp_files = files'\<rparr>
                  else None)"

text \<open>The relay never makes its own certificate: \<^verbatim>\<open>x509.IPAddress\<close> takes an address object and
  raises on the bytes it is given. Unless both files are there or \<^verbatim>\<open>DISABLE_SSL\<close> is set, the relay
  does not start.\<close>

theorem relay_needs_certificate:
  assumes "\<forall>w. ip_name w = None"
  shows "relay_main aton ip_name zeroconf env routed now files \<noteq> None \<longleftrightarrow>
    py_int (getenv env ''PORT'' ''5000'') \<noteq> None \<and>
    (env_flag env ''DISABLE_SSL'' \<or> cf_cert files \<noteq> None \<and> cf_key files \<noteq> None)"
  using assms
  by (simp add: relay_main_def generate_self_signed_cert_def Let_def bind_eq_None_conv
      split: option.split bind_split)

theorem relay_needs_certificate_witness:
  "relay_main (\<lambda>_. Some [127, 0, 0, 1]) (\<lambda>_. None :: unit option) True Map.empty None 0
     \<lparr>cf_key = None, cf_cert = None\<rparr> = None"
proof -
  have "\<not> env_flag Map.empty ''DISABLE_SSL''" by code_simp
  with relay_needs_certificate [of "\<lambda>_. None :: unit option" "\<lambda>_. Some [127, 0, 0, 1]" True Map.empty None 0
      "\<lparr>cf_key = None, cf_cert = None\<rparr>"]
  show ?thesis by simp
qed

section \<open>Calls to other nodes\<close>

definition onion_url :: "string \<Rightarrow> string \<Rightarrow> string" where
  "onion_url onion endpoint = ''http://'' @ py_lower (py_strip onion) @ endpoint"

text \<open>\<open>post\<close> gives the JSON of the answer, \<open>None\<close> when the request raises or the answer is no JSON.\<close>

definition send_onion_post :: "(string \<Rightarrow> json \<Rightarrow> json option) \<Rightarrow> string \<Rightarrow> string \<Rightarrow> json \<Rightarrow> json" where
  "send_onion_post post onion endpoint payload = (case post (onion_url onion endpoint) payload of
     Some j \<Rightarrow> j | None \<Rightarrow> JObj [(''error'', JStr ''unreachable'')])"

definition send_onion_get :: "(string \<Rightarrow> (bytes \<times> nat) option) \<Rightarrow> string \<Rightarrow> string \<Rightarrow> bytes \<times> nat" where
  "send_onion_get fetch onion endpoint = (case fetch (onion_url onion endpoint) of Some r \<Rightarrow> r | None \<Rightarrow> ([], 504))"

section \<open>The relay's FastAPI application\<close>

definition relay_docs_urls :: "settings \<Rightarrow> (string \<times> string) option" where
  "relay_docs_urls s = (if is_development s then Some (''/docs'', ''/openapi.json'') else None)"

record cors_policy =
  cp_origins :: "string list"
  cp_credentials :: bool
  cp_methods :: "string list"
  cp_headers :: "string list"

definition relay_cors :: cors_policy where
  "relay_cors = \<lparr>cp_origins = [''http://localhost:5001'', ''http://127.0.0.1:5001''], cp_credentials = False,
     cp_methods = [''GET'', ''POST'', ''DELETE''], cp_headers = [''Content-Type'']\<rparr>"

definition relay_metrics :: "string option \<Rightarrow> string \<Rightarrow> environ \<Rightarrow> unit http" where
  "relay_metrics client auth env = metrics_gate client auth (getenv env ''ANONYMUS_METRICS_TOKEN'' [])"

definition relay_metrics_middleware ::
    "string \<Rightarrow> string \<Rightarrow> real \<Rightarrow> nat option \<Rightarrow> app_metrics \<Rightarrow> nat option \<times> app_metrics" where
  "relay_metrics_middleware = metrics_middleware"

definition relay_unhandled :: "nat option \<Rightarrow> nat" where
  "relay_unhandled answer = (case answer of Some status \<Rightarrow> status | None \<Rightarrow> 500)"

text \<open>The application's own answers; \<open>None\<close> is left to the routers.\<close>

definition relay_app_route :: "settings \<Rightarrow> environ \<Rightarrow> string option \<Rightarrow> string \<Rightarrow> string \<Rightarrow> string \<Rightarrow> unit http option" where
  "relay_app_route s env client auth meth path =
     (if meth \<noteq> ''GET'' then None
      else if path = ''/healthz'' then Some (Inr ())
      else if path = ''/metrics'' then Some (relay_metrics client auth env)
      else case relay_docs_urls s of
        Some (docs, api) \<Rightarrow> if path \<in> {docs, api} then Some (Inr ()) else None
      | None \<Rightarrow> None)"

text \<open>From another machine the counters are read with the configured token only; without one in the
  environment they are not read at all.\<close>

lemma relay_metrics_guarded:
  assumes "relay_app_route s env (Some ip) auth ''GET'' ''/metrics'' = Some (Inr ())"
    and "ip \<notin> {''127.0.0.1'', ''::1'', ''localhost''}"
  shows "env ''ANONYMUS_METRICS_TOKEN'' = Some (bearer_token auth) \<and> bearer_token auth \<noteq> []"
  using assms metrics_gate_token [of "Some ip" auth "getenv env ''ANONYMUS_METRICS_TOKEN'' []"]
  by (auto simp: relay_app_route_def relay_metrics_def getenv_def split: option.splits)

end
