(* ===== verification/Node_Edges.thy ===== *)
theory Node_Edges
  imports V3_Sync V3_Compat Node_DB Node_Lifecycle Node_Panic Prekeys Double_Ratchet
begin

text \<open>
  What is around the routers and the message protocol: the loading of the post-quantum library
  (\<^verbatim>\<open>core/pq_kem.py\<close>) and the key pairs made with it (\<^verbatim>\<open>core/protocol.py\<close>,
  \<^verbatim>\<open>core/prekey_pool.py\<close>), the handshake a new contact is sent, the notification of a contact,
  the older routes of device pairing, the readiness probe and the launcher of the client
  (\<^verbatim>\<open>anonymus-launcher.py\<close>).
\<close>

section \<open>The post-quantum library\<close>

text \<open>
  \<open>lib\<close> is \<^verbatim>\<open>oqs\<close> when its import succeeds; \<open>probe\<close> is whether a first key pair can be made
  with it. \<open>pm_error\<close> is the text of what was raised.
\<close>

record pq_module =
  pm_oqs :: "kem option"
  pm_hybrid :: bool
  pm_load_error :: "string option"

definition load_pq :: "(string \<rightharpoonup> string) \<Rightarrow> (string + kem) \<Rightarrow> (kem \<Rightarrow> string option) \<Rightarrow> pq_module" where
  "load_pq env lib probe =
     (let hybrid = (env ''ANONYMUS_PQ_HYBRID'' = Some ''1'');
          disabled = (case env ''ANONYMUS_PQ_DISABLE'' of Some v \<Rightarrow> v \<noteq> [] | None \<Rightarrow> False)
      in if disabled then \<lparr>pm_oqs = None, pm_hybrid = hybrid, pm_load_error = None\<rparr>
         else case lib of
           Inl e \<Rightarrow> \<lparr>pm_oqs = None, pm_hybrid = hybrid, pm_load_error = Some e\<rparr>
         | Inr k \<Rightarrow>
             (case probe k of
                Some e \<Rightarrow> \<lparr>pm_oqs = None, pm_hybrid = hybrid, pm_load_error = Some e\<rparr>
              | None \<Rightarrow> \<lparr>pm_oqs = Some k, pm_hybrid = hybrid, pm_load_error = None\<rparr>))"

text \<open>The search path with the directories of native libraries in front: each that exists is put
  before what is there, so that the last one is first.\<close>

definition native_dirs :: "string \<Rightarrow> (string \<rightharpoonup> string) \<Rightarrow> string list" where
  "native_dirs base env =
     [base @ ''/lib'', base @ ''/bin'', base @ ''/build/bin''] @
     concat (map (\<lambda>v. case env v of
         Some d \<Rightarrow> if d \<noteq> [] then [d @ ''/bin'', d @ ''/lib''] else []
       | None \<Rightarrow> []) [''LIBOQS_DIR'', ''OQS_INSTALL_PATH''])"

definition configure_native_dll_paths ::
    "string \<Rightarrow> char \<Rightarrow> (string \<Rightarrow> bool) \<Rightarrow> (string \<rightharpoonup> string) \<Rightarrow> (string \<rightharpoonup> string)" where
  "configure_native_dll_paths base pathsep is_dir env =
     fold (\<lambda>d env. if is_dir d
        then env(''PATH'' \<mapsto> d @ pathsep # (case env ''PATH'' of Some v \<Rightarrow> v | None \<Rightarrow> []))
        else env) (native_dirs base env) env"

record pq_status =
  pq_available :: bool
  pq_algorithm :: string
  pq_hybrid_enabled :: bool
  pq_load_error :: "string option"
  pq_parameters :: "(string \<times> nat) list"

definition get_pq_status :: "pq_module \<Rightarrow> pq_status" where
  "get_pq_status m = \<lparr>pq_available = pq_is_available (pm_oqs m), pq_algorithm = ''Kyber768'',
     pq_hybrid_enabled = pm_hybrid m, pq_load_error = pm_load_error m,
     pq_parameters = [(''public_key_bytes'', 1184), (''private_key_bytes'', 2400), (''ciphertext_bytes'', 1088),
       (''shared_secret_bytes'', 32)]\<rparr>"

text \<open>A fresh private key is an argument.\<close>

definition generate_ml_kem_keypair :: "kem option \<Rightarrow> bytes \<Rightarrow> (bytes \<times> bytes) option" where
  "generate_ml_kem_keypair oqs sk = (case oqs of None \<Rightarrow> None | Some k \<Rightarrow> Some (kem_pub k sk, sk))"

definition encode_public_key :: "bytes \<Rightarrow> string" where "encode_public_key = b64_encode"
definition decode_public_key :: "string \<Rightarrow> bytes option" where "decode_public_key = b64_decode"
definition encode_ciphertext :: "bytes \<Rightarrow> string" where "encode_ciphertext = b64_encode"
definition decode_ciphertext :: "string \<Rightarrow> bytes option" where "decode_ciphertext = b64_decode"

definition generate_kem_keypair :: "kem option \<Rightarrow> bytes \<Rightarrow> (bytes \<times> bytes) option" where
  "generate_kem_keypair = generate_ml_kem_keypair"

definition kem_encapsulate :: "kem option \<Rightarrow> bytes \<Rightarrow> (bytes \<times> bytes) option" where
  "kem_encapsulate = pq_encapsulate"

definition kem_decapsulate :: "kem option \<Rightarrow> bytes \<Rightarrow> bytes \<Rightarrow> bytes option" where
  "kem_decapsulate = pq_decapsulate"

text \<open>Over the wire: the secret the sender encapsulated is the one the receiver gets, when the
  library was loaded; without it there is none at either end.\<close>

lemma kem_over_the_wire:
  assumes "\<forall>k. lib = Inr k \<longrightarrow> kem_correct k" "pm_oqs (load_pq env lib probe) = oqs"
  shows "case generate_kem_keypair oqs fresh of
      None \<Rightarrow> oqs = None
    | Some (pk, sk) \<Rightarrow> \<exists>pk' ct ss ct'. decode_public_key (encode_public_key pk) = Some pk' \<and>
        kem_encapsulate oqs pk' = Some (ct, ss) \<and>
        decode_ciphertext (encode_ciphertext ct) = Some ct' \<and> kem_decapsulate oqs ct' sk = Some ss"
proof (cases oqs)
  case None
  then show ?thesis by (simp add: generate_kem_keypair_def generate_ml_kem_keypair_def)
next
  case (Some k)
  with assms(2) have "lib = Inr k"
    by (auto simp: load_pq_def Let_def split: if_splits sum.splits option.splits)
  with assms(1) have k: "kem_correct k" by simp
  obtain ct ss where e: "kem_encap k (kem_pub k fresh) = (ct, ss)" by (cases "kem_encap k (kem_pub k fresh)")
  with k have "kem_decap k fresh ct = Some ss" by (simp add: kem_correct_def)
  with e Some show ?thesis
    by (simp add: generate_kem_keypair_def generate_ml_kem_keypair_def decode_public_key_def encode_public_key_def
        decode_ciphertext_def encode_ciphertext_def kem_encapsulate_def kem_decapsulate_def
        pq_encapsulate_def pq_decapsulate_def)
qed

text \<open>The flag for the hybrid mode is reported and decides nothing.\<close>

lemma hybrid_flag_ignored:
  "pm_oqs (load_pq (env(''ANONYMUS_PQ_HYBRID'' := v)) lib probe) = pm_oqs (load_pq env lib probe)"
  by (simp add: load_pq_def Let_def split: sum.split option.split)

section \<open>Key pairs\<close>

definition generate_key_pair :: "crypto \<Rightarrow> bytes \<Rightarrow> bytes \<times> bytes" where
  "generate_key_pair c priv = (priv, dh_public c priv)"

definition derive_shared_secret :: "crypto \<Rightarrow> bytes \<Rightarrow> bytes \<Rightarrow> bytes option" where
  "derive_shared_secret c mine theirs = dh_exchange c mine theirs"

text \<open>PEM is a parameter: \<open>pem\<close> writes a key, \<open>unpem\<close> reads one or raises.\<close>

definition export_private_key_pem :: "(bytes \<Rightarrow> bytes) \<Rightarrow> bytes \<Rightarrow> string option" where
  "export_private_key_pem pem priv = utf8_decode (pem priv)"

definition import_private_key_pem :: "(bytes \<Rightarrow> bytes option) \<Rightarrow> string \<Rightarrow> bytes option" where
  "import_private_key_pem unpem s = unpem (utf8_encode s)"

definition generate_one_x25519_keypair :: "crypto \<Rightarrow> bytes \<Rightarrow> string \<times> string" where
  "generate_one_x25519_keypair c priv = (b64_encode (dh_public c priv), b64_encode priv)"

definition try_generate_pq_keypair :: "kem option \<Rightarrow> bytes \<Rightarrow> (string \<times> string) option" where
  "try_generate_pq_keypair oqs sk =
     (if \<not> pq_is_available oqs then None
      else map_option (\<lambda>(pub, priv). (b64_encode pub, b64_encode priv)) (generate_ml_kem_keypair oqs sk))"

text \<open>What a peer derives from a published one-time key is what the owner of the pool derives from
  the private half.\<close>

lemma one_time_key_agrees:
  assumes "dh_commutes c" "dh_keys_ok c"
    and "(pub, priv) \<in> set (map (generate_one_x25519_keypair c) fresh)"
  shows "\<exists>sk pk. b64_decode priv = Some sk \<and> import_public_key pub = Inr pk \<and>
     derive_shared_secret c mine pk = derive_shared_secret c sk (dh_public c mine)"
proof -
  from assms(3) obtain sk where "pub = b64_encode (dh_public c sk)" "priv = b64_encode sk"
    by (auto simp: generate_one_x25519_keypair_def)
  with assms(1,2) show ?thesis
    by (auto simp: import_public_key_def derive_shared_secret_def dh_keys_ok_def dh_commutes_def)
qed

section \<open>Contacts\<close>

text \<open>\<open>post\<close> is the request over Tor, giving a status or raising; what it gives is only logged.\<close>

definition transmit_handshake ::
    "settings \<Rightarrow> string option \<Rightarrow> bool \<Rightarrow> string \<Rightarrow> json \<Rightarrow> (string \<times> json) option" where
  "transmit_handshake s testing pytest_loaded onion payload =
     (if is_test_env s testing pytest_loaded then None
      else Some (''http://'' @ py_lower (py_strip onion) @ ''/p2p/handshake'', payload))"

text \<open>The columns of \<^verbatim>\<open>notify_queue\<close> after the migrations, and an insertion that names some.\<close>

definition notify_columns :: "string list" where
  "notify_columns = [''token'', ''arrived_at'']"

definition insert_notify :: "string list \<Rightarrow> string \<Rightarrow> node_db \<Rightarrow> node_db option" where
  "insert_notify cols token s = (if set cols \<subseteq> set notify_columns then Some (push_notify_queue token s) else None)"

text \<open>An insertion that raises is logged; the connection is closed without a commit.\<close>

definition notify_contact :: "string \<Rightarrow> node_db \<Rightarrow> node_db" where
  "notify_contact onion s = (case get_notify_token onion s of
     None \<Rightarrow> s
   | Some token \<Rightarrow> if token = [] then s
       else (case insert_notify [''token'', ''created_at''] token s of Some s' \<Rightarrow> s' | None \<Rightarrow> s))"

lemma notify_contact_nothing: "notify_contact onion s = s"
  by (simp add: notify_contact_def insert_notify_def notify_columns_def split: option.split)

section \<open>Device pairing\<close>

definition legacy_sync_pair ::
    "crypto \<Rightarrow> bytes \<Rightarrow> bytes \<Rightarrow> bytes \<Rightarrow> bool \<Rightarrow> v3_session \<Rightarrow> auth \<Rightarrow> pairing \<Rightarrow> pair_info http \<times> pairing" where
  "legacy_sync_pair c fresh_key fresh_token fresh_salt port_free ss a s = (case compat_auth ss of
     Inl e \<Rightarrow> (Inl e, s)
   | Inr _ \<Rightarrow> sync_pair c fresh_key fresh_token fresh_salt port_free (ss_username ss) a s)"

text \<open>
  The body is the JSON object of the request; a body of another shape, or fields that do not make a
  \<^verbatim>\<open>PushSyncRequest\<close>, raise (a port written as a float, which pydantic takes when it is whole,
  is read as one that raises). The pin and the salt are not taken from it.
\<close>

definition push_request :: "json option \<Rightarrow> (string \<times> int \<times> string) option" where
  "push_request body = (case body of
     Some (JObj kvs) \<Rightarrow>
       (case (map_of kvs ''ip'', map_of kvs ''port'', map_of kvs ''k'') of
          (Some (JStr ip), Some port, Some (JStr k)) \<Rightarrow>
            (case (case port of JInt p \<Rightarrow> Some p | JBool b \<Rightarrow> Some (if b then 1 else 0) | JStr t \<Rightarrow> py_int t
                | _ \<Rightarrow> None) of
               Some p \<Rightarrow> if ip = [] \<or> k = [] \<or> p < 1 \<or> 65535 < p then None else Some (ip, p, k)
             | None \<Rightarrow> None)
        | _ \<Rightarrow> None)
   | _ \<Rightarrow> None)"

definition legacy_sync_push ::
    "crypto \<Rightarrow> bytes \<Rightarrow> bytes \<Rightarrow> (string \<Rightarrow> bool option) \<Rightarrow> (string \<Rightarrow> int \<Rightarrow> json \<Rightarrow> nat option) \<Rightarrow>
     v3_session \<Rightarrow> auth \<Rightarrow> json option \<Rightarrow> pairing \<Rightarrow> unit http" where
  "legacy_sync_push c priv iv address post ss a body s = (case compat_auth ss of
     Inl e \<Rightarrow> Inl e
   | Inr _ \<Rightarrow> (case push_request body of
       None \<Rightarrow> Inl (HTTP 500 ''Internal server error'')
     | Some (ip, port, k) \<Rightarrow> sync_push c priv iv address post (ss_username ss) a ip port k [] [] s))"

text \<open>What the broker of another node answers.\<close>

definition broker_answers ::
    "crypto \<Rightarrow> string \<Rightarrow> real \<Rightarrow> pairing \<Rightarrow> string \<Rightarrow> int \<Rightarrow> json \<Rightarrow> nat option" where
  "broker_answers c ip now peer host port payload =
     Some (fst (pairing_post c ip now ''/api/sync/pairing'' (Some payload) peer))"

lemma no_pin_refused:
  "provided_pin body = Some [] \<Longrightarrow> fst (pairing_post c ip now path body peer) \<noteq> 200"
  by (auto simp: pairing_post_def split: option.split)

lemma push_payload_pin:
  "push_payload c priv iv db k pin salt = Some payload \<Longrightarrow> json_get payload ''pin'' = Some (JStr pin)"
  by (auto simp: push_payload_def json_get_def split: sum.splits option.splits if_splits)

text \<open>The older route for pushing a database to a paired device never succeeds: it has no pin to
  send, and the broker of every node, whatever state its pairing is in, refuses a request
  without one.\<close>

theorem legacy_push_refused:
  "legacy_sync_push c priv iv address (broker_answers c ip now peer) ss a body s \<noteq> Inr ()"
proof
  assume "legacy_sync_push c priv iv address (broker_answers c ip now peer) ss a body s = Inr ()"
  then obtain host port k db payload where
    "push_payload c priv iv db k [] [] = Some payload"
    "broker_answers c ip now peer host port payload = Some 200"
    by (auto simp: legacy_sync_push_def sync_push_def split: sum.splits option.splits if_splits bool.splits)
  moreover from this(1) have "provided_pin (Some payload) = Some []"
    using push_payload_pin [of c priv iv db k "[]" "[]" payload]
    by (auto simp: push_payload_def provided_pin_def py_strip_def py_lstrip_def
        split: sum.splits option.splits if_splits)
  ultimately show False using no_pin_refused by (simp add: broker_answers_def)
qed

text \<open>The address a failure is counted under: the forwarded one when the peer is this machine.\<close>

definition client_ip_of :: "string option \<Rightarrow> string \<Rightarrow> string" where
  "client_ip_of client forwarded =
     (let peer = (case client of Some ip \<Rightarrow> ip | None \<Rightarrow> ''unknown'') in
      if peer \<in> {''127.0.0.1'', ''::1'', ''localhost''} \<and> forwarded \<noteq> []
      then py_strip (hd (py_split (CHR '','') forwarded)) else peer)"

lemma remote_not_spoofed:
  "ip \<notin> {''127.0.0.1'', ''::1'', ''localhost''} \<Longrightarrow> client_ip_of (Some ip) forwarded = ip"
  by (simp add: client_ip_of_def)

section \<open>Readiness\<close>

datatype probe_answer = Ready | Not_Ready

definition healthz :: "nat" where "healthz = 200"

definition readyz :: "bool \<Rightarrow> nat \<times> probe_answer" where
  "readyz query_works = (if query_works then (200, Ready) else (503, Not_Ready))"

section \<open>The launcher of the client\<close>

record client_launch =
  cl_tor :: bool
  cl_migrated :: bool
  cl_command :: "string list"
  cl_web_url :: string

text \<open>
  \<open>connects\<close> is whether the SOCKS port takes a connection, \<open>migrate\<close> the exit code of alembic. A
  port that is no number raises: the first before anything runs, the second after the migrations.
  Neither a missing Tor nor a failed migration stops the launch.
\<close>

definition client_main ::
    "(string \<rightharpoonup> string) \<Rightarrow> (string \<Rightarrow> int \<Rightarrow> bool) \<Rightarrow> int \<Rightarrow> string \<Rightarrow> client_launch option" where
  "client_main env connects migrate python =
     (let var = (\<lambda>k d. case env k of Some v \<Rightarrow> v | None \<Rightarrow> d) in
      case py_int (var ''TOR_SOCKS_PORT'' ''9050'') of
        None \<Rightarrow> None
      | Some tor_port \<Rightarrow>
          (case py_int (var ''PORT'' ''5001'') of
             None \<Rightarrow> None
           | Some port \<Rightarrow>
               let host = var ''HOST'' ''127.0.0.1'' in
               Some \<lparr>cl_tor = connects (var ''TOR_SOCKS_HOST'' ''127.0.0.1'') tor_port,
                 cl_migrated = (migrate = 0),
                 cl_command = [python, ''-m'', ''uvicorn'', ''transports.p2p.app_v3:app'', ''--host'', host,
                   ''--port'', int_str port, ''--log-level'', ''info''],
                 cl_web_url = ''http://'' @ host @ '':'' @ int_str port @ ''/index.html''\<rparr>))"

text \<open>The signals sent to the server when the launcher is interrupted.\<close>

datatype proc_signal = Terminate | Kill

definition client_shutdown :: "bool \<Rightarrow> proc_signal list" where
  "client_shutdown ends_in_time = (if ends_in_time then [Terminate] else [Terminate, Kill])"

lemma launch_anyway:
  "client_main env connects migrate python = Some l \<Longrightarrow>
   \<exists>l'. client_main env (\<lambda>_ _. False) 1 python = Some l' \<and> cl_command l' = cl_command l"
  by (auto simp: client_main_def Let_def split: option.splits)

end
