(* ===== verification/Connection_Pools.thy ===== *)
theory Connection_Pools
  imports Node_DB
begin

text \<open>
  The life of the connections of \<^verbatim>\<open>transports/p2p/database.py\<close>: the pools, the wrappers that give
  a connection back when they are closed, the exchange of the pool when the file changes and the
  closing of everything; and those of \<^verbatim>\<open>transports/relay/database.py\<close>. The pools that were ever made
  are a list, a reference to one is its place. A connection is a number; theory \<open>Node_DB\<close> keeps of
  it only whether it enforces foreign keys.
\<close>

section \<open>State\<close>

record conn_pool =
  cp_file :: string
  cp_queue :: "nat list"
  cp_created :: nat
  cp_active :: "nat set"

record pools =
  ps_file :: string                 \<comment> \<open>DB_FILE\<close>
  ps_made :: "conn_pool list"
  ps_current :: "nat option"        \<comment> \<open>_pool\<close>
  ps_all :: "nat list"              \<comment> \<open>_all_pools\<close>
  ps_next :: nat
  ps_open :: "nat set"
  ps_of :: "nat \<Rightarrow> string"           \<comment> \<open>the file a connection was opened on\<close>

record wrapper =
  w_conn :: nat
  w_pool :: "nat option"
  w_released :: bool

definition pools_init :: "string \<Rightarrow> pools" where
  "pools_init file = \<lparr>ps_file = file, ps_made = [], ps_current = None, ps_all = [], ps_next = 0, ps_open = {},
     ps_of = (\<lambda>_. [])\<rparr>"

section \<open>Operations\<close>

definition conn_pool_new :: "string \<Rightarrow> conn_pool" where
  "conn_pool_new file = \<lparr>cp_file = file, cp_queue = [], cp_created = 0, cp_active = {}\<rparr>"

text \<open>\<^verbatim>\<open>BoundedSQLitePool.get\<close>; \<open>None\<close> when the wait for a connection ends with \<^verbatim>\<open>queue.Empty\<close>.\<close>

definition conn_get :: "nat \<Rightarrow> pools \<Rightarrow> nat option \<times> pools" where
  "conn_get p s = (let q = ps_made s ! p in case cp_queue q of
     c # cs \<Rightarrow> (Some c, s\<lparr>ps_made := (ps_made s)[p := q\<lparr>cp_queue := cs\<rparr>]\<rparr>)
   | [] \<Rightarrow>
       if cp_created q < max_connections then
         let c = ps_next s in
         (Some c, s\<lparr>ps_made := (ps_made s)[p := q\<lparr>cp_created := cp_created q + 1, cp_active := insert c (cp_active q)\<rparr>],
            ps_next := c + 1, ps_open := insert c (ps_open s), ps_of := (ps_of s)(c := cp_file q)\<rparr>)
       else (None, s))"

definition conn_put :: "nat \<Rightarrow> nat \<Rightarrow> pools \<Rightarrow> pools" where
  "conn_put c p s = (let q = ps_made s ! p in
     if length (cp_queue q) < max_connections then
       s\<lparr>ps_made := (ps_made s)[p := q\<lparr>cp_queue := cp_queue q @ [c]\<rparr>]\<rparr>
     else
       s\<lparr>ps_made := (ps_made s)[p := q\<lparr>cp_created := cp_created q - 1, cp_active := cp_active q - {c}\<rparr>],
         ps_open := ps_open s - {c}\<rparr>)"

text \<open>A pool for the file that is configured now; the connections of the one before are closed.\<close>

definition ensure_pool :: "pools \<Rightarrow> pools" where
  "ensure_pool s =
     (if (case ps_current s of None \<Rightarrow> True | Some p \<Rightarrow> cp_file (ps_made s ! p) \<noteq> ps_file s) then
        let closed = (case ps_current s of None \<Rightarrow> {} | Some p \<Rightarrow> cp_active (ps_made s ! p));
            n = length (ps_made s)
        in s\<lparr>ps_open := ps_open s - closed, ps_made := ps_made s @ [conn_pool_new (ps_file s)],
             ps_all := ps_all s @ [n], ps_current := Some n\<rparr>
      else s)"

text \<open>\<^verbatim>\<open>get_connection\<close> reads the variable of the current pool twice: to take the connection and to
  wrap it.\<close>

definition take_conn :: "pools \<Rightarrow> nat option \<times> pools" where
  "take_conn s = (let s = ensure_pool s in conn_get (the (ps_current s)) s)"

definition wrap_conn :: "nat \<Rightarrow> pools \<Rightarrow> wrapper" where
  "wrap_conn c s = \<lparr>w_conn = c, w_pool = ps_current s, w_released = False\<rparr>"

definition get_connection :: "pools \<Rightarrow> wrapper option \<times> pools" where
  "get_connection s = (let (c, s) = take_conn s in (map_option (\<lambda>c. wrap_conn c s) c, s))"

text \<open>\<^verbatim>\<open>PooledConnection.close\<close>; without a pool the call of \<^verbatim>\<open>put\<close> raises, after the flag is set.\<close>

definition wrapper_close :: "wrapper \<Rightarrow> pools \<Rightarrow> wrapper \<times> pools" where
  "wrapper_close w s =
     (if w_released w then (w, s)
      else (w\<lparr>w_released := True\<rparr>, case w_pool w of Some p \<Rightarrow> conn_put (w_conn w) p s | None \<Rightarrow> s))"

definition close_pool :: "pools \<Rightarrow> pools" where
  "close_pool s =
     s\<lparr>ps_open := ps_open s - (\<Union>p\<in>set (ps_all s). cp_active (ps_made s ! p)),
       ps_made := map (\<lambda>(p, q). if p \<in> set (ps_all s) then q\<lparr>cp_active := {}, cp_queue := []\<rparr> else q)
         (zip [0..<length (ps_made s)] (ps_made s)),
       ps_all := [], ps_current := None\<rparr>"

text \<open>Assigning \<^verbatim>\<open>DB_FILE\<close> goes through the wrapper of the module.\<close>

definition set_db_file :: "string \<Rightarrow> pools \<Rightarrow> pools" where
  "set_db_file file s = (close_pool s)\<lparr>ps_file := file\<rparr>"

text \<open>\<^verbatim>\<open>init_db\<close>: the migrations run on a connection that is given back; \<open>migrate\<close> is their effect.\<close>

definition init_db :: "(nat \<Rightarrow> 'd \<Rightarrow> 'd) \<Rightarrow> pools \<Rightarrow> 'd \<Rightarrow> ('d \<times> pools) option" where
  "init_db migrate s d = (case get_connection s of
     (None, _) \<Rightarrow> None
   | (Some w, s) \<Rightarrow> Some (migrate (w_conn w) d, snd (wrapper_close w s)))"

section \<open>The pool of Node_DB\<close>

text \<open>One pool with its connections numbered behaves as the pool that only knows their flags.\<close>

definition flags_pool :: "(nat \<Rightarrow> bool) \<Rightarrow> conn_pool \<Rightarrow> pool" where
  "flags_pool flag q = \<lparr>idle = map flag (cp_queue q), created = cp_created q\<rparr>"

lemma conn_get_refines:
  assumes "p < length (ps_made s)" "flag (ps_next s)"
  shows "pool_get (flags_pool flag (ps_made s ! p)) =
    (case conn_get p s of (None, _) \<Rightarrow> None | (Some c, s') \<Rightarrow> Some (flag c, flags_pool flag (ps_made s' ! p)))"
  using assms by (simp add: flags_pool_def pool_get_def conn_get_def Let_def split: list.split)

lemma conn_put_refines:
  assumes "p < length (ps_made s)"
  shows "pool_put (flag c) (flags_pool flag (ps_made s ! p)) = flags_pool flag (ps_made (conn_put c p s) ! p)"
  using assms by (simp add: flags_pool_def pool_put_def conn_put_def Let_def)

section \<open>Who has a connection\<close>

text \<open>Requests get and close wrappers, in any order; a wrapper may be closed again.\<close>

record pool_system =
  sy_pools :: pools
  sy_wrappers :: "wrapper list"

datatype pool_event = Get_Connection | Close_Wrapper nat | Set_File string | Close_Pool

fun pool_step :: "pool_event \<Rightarrow> pool_system \<Rightarrow> pool_system" where
  "pool_step Get_Connection y = (case get_connection (sy_pools y) of
     (None, s) \<Rightarrow> y\<lparr>sy_pools := s\<rparr>
   | (Some w, s) \<Rightarrow> y\<lparr>sy_pools := s, sy_wrappers := sy_wrappers y @ [w]\<rparr>)"
| "pool_step (Close_Wrapper i) y =
     (if i < length (sy_wrappers y) then
        let (w, s) = wrapper_close (sy_wrappers y ! i) (sy_pools y)
        in y\<lparr>sy_pools := s, sy_wrappers := (sy_wrappers y)[i := w]\<rparr>
      else y)"
| "pool_step (Set_File file) y = y\<lparr>sy_pools := set_db_file file (sy_pools y)\<rparr>"
| "pool_step Close_Pool y = y\<lparr>sy_pools := close_pool (sy_pools y)\<rparr>"

inductive pool_reach :: "pool_system \<Rightarrow> bool" where
  start: "pool_reach \<lparr>sy_pools = pools_init file, sy_wrappers = []\<rparr>"
| step: "pool_reach y \<Longrightarrow> pool_reach (pool_step e y)"

text \<open>How often a connection is idle in a pool, and how often it is in use.\<close>

definition idle_count :: "pools \<Rightarrow> nat \<Rightarrow> nat" where
  "idle_count s c = sum_list (map (\<lambda>q. count_list (cp_queue q) c) (ps_made s))"

definition use_count :: "wrapper list \<Rightarrow> nat \<Rightarrow> nat" where
  "use_count ws c = sum_list (map (\<lambda>w. if \<not> w_released w \<and> w_conn w = c then 1 else 0) ws)"

definition counts_ok :: "pools \<Rightarrow> wrapper list \<Rightarrow> bool" where
  "counts_ok s ws \<longleftrightarrow> (\<forall>c. idle_count s c + use_count ws c \<le> 1 \<and>
     (ps_next s \<le> c \<longrightarrow> idle_count s c + use_count ws c = 0))"

definition files_ok :: "pools \<Rightarrow> wrapper list \<Rightarrow> bool" where
  "files_ok s ws \<longleftrightarrow>
     (\<forall>p<length (ps_made s). \<forall>c\<in>set (cp_queue (ps_made s ! p)).
        ps_of s c = cp_file (ps_made s ! p) \<and> (ps_current s = Some p \<longrightarrow> c \<in> ps_open s)) \<and>
     (\<forall>w\<in>set ws. \<not> w_released w \<longrightarrow> (\<exists>p<length (ps_made s). w_pool w = Some p \<and>
        ps_of s (w_conn w) = cp_file (ps_made s ! p) \<and> (ps_current s = Some p \<longrightarrow> w_conn w \<in> ps_open s)))"

definition refs_made :: "pools \<Rightarrow> bool" where
  "refs_made s \<longleftrightarrow> (\<forall>p. ps_current s = Some p \<longrightarrow> p < length (ps_made s))"

definition pools_ok :: "pools \<Rightarrow> wrapper list \<Rightarrow> bool" where
  "pools_ok s ws \<longleftrightarrow> counts_ok s ws \<and> files_ok s ws \<and> refs_made s"

lemmas pools_ok_defs = pools_ok_def counts_ok_def files_ok_def refs_made_def

lemma count_list_pos: "c \<in> set xs \<Longrightarrow> 1 \<le> count_list xs c"
  by (induction xs) auto

lemma idle_counted:
  assumes "p < length (ps_made s)" "c \<in> set (cp_queue (ps_made s ! p))"
  shows "1 \<le> idle_count s c"
proof -
  have "count_list (cp_queue (ps_made s ! p)) c \<le> idle_count s c"
    unfolding idle_count_def using assms(1) by (intro member_le_sum_list) auto
  with count_list_pos [OF assms(2)] show ?thesis by linarith
qed

lemma use_counted: "w \<in> set ws \<Longrightarrow> \<not> w_released w \<Longrightarrow> 1 \<le> use_count ws (w_conn w)"
  unfolding use_count_def by (intro member_le_sum_list) (auto simp: image_iff intro!: bexI [of _ w])

lemma idle_count_update:
  "p < length (ps_made s) \<Longrightarrow>
   idle_count (s\<lparr>ps_made := (ps_made s)[p := q]\<rparr>) c + count_list (cp_queue (ps_made s ! p)) c =
     idle_count s c + count_list (cp_queue q) c"
proof -
  assume p: "p < length (ps_made s)"
  let ?xs = "map (\<lambda>q. count_list (cp_queue q) c) (ps_made s)"
  have "?xs ! p \<le> sum_list ?xs" using p by (intro member_le_sum_list) auto
  with p show ?thesis by (simp add: idle_count_def map_update sum_list_update)
qed

lemma idle_count_frame [simp]:
  "idle_count (ps_open_update f s) c = idle_count s c" "idle_count (ps_next_update g s) c = idle_count s c"
  "idle_count (ps_of_update h s) c = idle_count s c" "idle_count (ps_file_update k s) c = idle_count s c"
  "idle_count (ps_all_update m s) c = idle_count s c" "idle_count (ps_current_update n s) c = idle_count s c"
  by (simp_all add: idle_count_def)

lemma use_count_snoc:
  "use_count (ws @ [w]) c = use_count ws c + (if \<not> w_released w \<and> w_conn w = c then 1 else 0)"
  by (simp add: use_count_def)

lemma use_count_release:
  assumes "i < length ws" "\<not> w_released (ws ! i)" "w_released w"
  shows "use_count (ws[i := w]) c + (if w_conn (ws ! i) = c then 1 else 0) = use_count ws c"
proof -
  let ?xs = "map (\<lambda>w. if \<not> w_released w \<and> w_conn w = c then 1 else 0 :: nat) ws"
  have "?xs ! i \<le> sum_list ?xs" using assms(1) by (intro elem_le_sum_list) simp
  with assms show ?thesis by (auto simp: use_count_def map_update sum_list_update)
qed

lemma counts_ok_le:
  assumes "counts_ok s ws" "\<And>c. idle_count s' c + use_count ws' c \<le> idle_count s c + use_count ws c"
    and "ps_next s' = ps_next s"
  shows "counts_ok s' ws'"
  unfolding counts_ok_def
proof (intro allI conjI impI)
  fix c
  show "idle_count s' c + use_count ws' c \<le> 1"
    using assms(1) assms(2) [of c] by (auto simp: counts_ok_def intro: order_trans)
  assume "ps_next s' \<le> c"
  then have "idle_count s c + use_count ws c = 0" using assms(1,3) unfolding counts_ok_def by metis
  with assms(2) [of c] show "idle_count s' c + use_count ws' c = 0" by linarith
qed

text \<open>Every operation keeps it.\<close>

lemma conn_get_ok:
  assumes "pools_ok s ws" "ps_current s = Some p" "conn_get p s = (Some c, s')"
  shows "pools_ok s' (ws @ [\<lparr>w_conn = c, w_pool = Some p, w_released = False\<rparr>]) \<and>
     c \<in> ps_open s' \<and> ps_of s' c = cp_file (ps_made s ! p) \<and> use_count ws c = 0"
proof -
  have p: "p < length (ps_made s)" using assms(1,2) by (simp add: pools_ok_defs)
  have counts: "idle_count s x + use_count ws x \<le> 1"
    "ps_next s \<le> x \<Longrightarrow> idle_count s x = 0 \<and> use_count ws x = 0" for x
    using assms(1) by (auto simp: pools_ok_defs)
  show ?thesis
  proof (cases "cp_queue (ps_made s ! p)")
    case (Cons d cs)
    let ?s = "s\<lparr>ps_made := (ps_made s)[p := (ps_made s ! p)\<lparr>cp_queue := cs\<rparr>]\<rparr>"
    from assms(3) Cons have c: "c = d" "s' = ?s" by (auto simp: conn_get_def Let_def)
    have i: "idle_count ?s x + (if x = c then 1 else 0) = idle_count s x" for x
      using idle_count_update [OF p, of "(ps_made s ! p)\<lparr>cp_queue := cs\<rparr>" x] Cons c(1)
      by (auto split: if_splits)
    have "counts_ok s' (ws @ [\<lparr>w_conn = c, w_pool = Some p, w_released = False\<rparr>])"
    proof (rule counts_ok_le)
      show "counts_ok s ws" using assms(1) by (simp add: pools_ok_def)
      show "idle_count s' x + use_count (ws @ [\<lparr>w_conn = c, w_pool = Some p, w_released = False\<rparr>]) x
          \<le> idle_count s x + use_count ws x" for x
        using i [of x] by (simp add: c(2) use_count_snoc split: if_splits)
    qed (simp add: c(2))
    moreover have "files_ok s' (ws @ [\<lparr>w_conn = c, w_pool = Some p, w_released = False\<rparr>])"
      using assms(1,2) p Cons c by (auto simp: pools_ok_defs nth_list_update)
    moreover have "use_count ws c = 0" using i [of c] counts(1) [of c] by simp
    ultimately show ?thesis using assms(1,2) p Cons c by (auto simp: pools_ok_defs)
  next
    case Nil
    with assms(3) have new: "c = ps_next s" "ps_next s' = Suc c" "ps_open s' = insert c (ps_open s)"
        "ps_of s' = (ps_of s)(c := cp_file (ps_made s ! p))" "ps_current s' = ps_current s"
      and "ps_made s' = (ps_made s)[p := (ps_made s ! p)\<lparr>cp_created := cp_created (ps_made s ! p) + 1,
            cp_active := insert c (cp_active (ps_made s ! p))\<rparr>]"
      by (auto simp: conn_get_def Let_def split: if_splits)
    then obtain q where made: "ps_made s' = (ps_made s)[p := q]" "cp_queue q = []"
        "cp_file q = cp_file (ps_made s ! p)" using Nil by auto
    have i: "idle_count s' x = idle_count s x" for x
      using idle_count_update [OF p, of q x] Nil made by (simp add: idle_count_def)
    have not_idle: "c \<notin> set (cp_queue (ps_made s ! r))" if "r < length (ps_made s)" for r
      using idle_counted [OF that, of c] counts(2) [of c] new(1) by auto
    have not_used: "w_conn w \<noteq> c" if "w \<in> set ws" "\<not> w_released w" for w
      using use_counted [OF that] counts(2) [of c] new(1) by auto
    have "counts_ok s' (ws @ [\<lparr>w_conn = c, w_pool = Some p, w_released = False\<rparr>])"
      unfolding counts_ok_def use_count_snoc i new(2) using counts new(1) by auto
    moreover have "files_ok s' (ws @ [\<lparr>w_conn = c, w_pool = Some p, w_released = False\<rparr>])"
      using assms(1,2) p Nil made new not_idle not_used
      unfolding pools_ok_def files_ok_def by (simp add: nth_list_update) blast
    ultimately show ?thesis
      using assms(1,2) p new made counts(2) [of c] by (auto simp: pools_ok_defs)
  qed
qed

lemma conn_put_ok:
  assumes "pools_ok s ws" "i < length ws" "\<not> w_released (ws ! i)" "w_pool (ws ! i) = Some p"
  shows "pools_ok (conn_put (w_conn (ws ! i)) p s) (ws[i := (ws ! i)\<lparr>w_released := True\<rparr>])"
proof -
  let ?w = "ws ! i" and ?ws = "ws[i := (ws ! i)\<lparr>w_released := True\<rparr>]"
  let ?c = "w_conn ?w"
  have w: "?w \<in> set ws" using assms(2) by simp
  with assms have p: "p < length (ps_made s)" and opened_on: "ps_of s ?c = cp_file (ps_made s ! p)"
    and opened: "ps_current s = Some p \<longrightarrow> ?c \<in> ps_open s"
    by (auto simp: pools_ok_defs)
  have counts: "idle_count s x + use_count ws x \<le> 1"
    "ps_next s \<le> x \<Longrightarrow> idle_count s x = 0 \<and> use_count ws x = 0" for x
    using assms(1) by (auto simp: pools_ok_defs)
  have used: "use_count ?ws x + (if ?c = x then 1 else 0) = use_count ws x" for x
    using use_count_release [OF assms(2,3), of "?w\<lparr>w_released := True\<rparr>" x] by simp
  have set_ws: "v \<in> set ws" if "v \<in> set ?ws" "\<not> w_released v" for v
    using that set_update_subset_insert [of ws i "?w\<lparr>w_released := True\<rparr>"] by auto
  show ?thesis
  proof (cases "length (cp_queue (ps_made s ! p)) < max_connections")
    case True
    let ?s = "s\<lparr>ps_made := (ps_made s)[p := (ps_made s ! p)\<lparr>cp_queue := cp_queue (ps_made s ! p) @ [?c]\<rparr>]\<rparr>"
    have s': "conn_put ?c p s = ?s" using True by (simp add: conn_put_def Let_def)
    have i: "idle_count ?s x = idle_count s x + (if ?c = x then 1 else 0)" for x
      using idle_count_update [OF p, of "(ps_made s ! p)\<lparr>cp_queue := cp_queue (ps_made s ! p) @ [?c]\<rparr>" x]
      by auto
    have "counts_ok ?s ?ws"
    proof (rule counts_ok_le)
      show "counts_ok s ws" using assms(1) by (simp add: pools_ok_def)
      show "idle_count ?s x + use_count ?ws x \<le> idle_count s x + use_count ws x" for x
        using i [of x] used [of x] by simp
    qed simp
    moreover have "files_ok ?s ?ws"
      using assms(1) p opened_on opened set_ws unfolding pools_ok_def files_ok_def by (auto simp: nth_list_update)
    ultimately show ?thesis using assms(1) by (simp add: s' pools_ok_def refs_made_def)
  next
    case False
    then have new: "ps_next (conn_put ?c p s) = ps_next s" "ps_open (conn_put ?c p s) = ps_open s - {?c}"
        "ps_of (conn_put ?c p s) = ps_of s" "ps_current (conn_put ?c p s) = ps_current s"
      and "ps_made (conn_put ?c p s) = (ps_made s)[p := (ps_made s ! p)\<lparr>
          cp_created := cp_created (ps_made s ! p) - 1, cp_active := cp_active (ps_made s ! p) - {?c}\<rparr>]"
      by (simp_all add: conn_put_def Let_def)
    then obtain q where made: "ps_made (conn_put ?c p s) = (ps_made s)[p := q]"
        "cp_queue q = cp_queue (ps_made s ! p)" "cp_file q = cp_file (ps_made s ! p)" by auto
    have i: "idle_count (conn_put ?c p s) x = idle_count s x" for x
      using idle_count_update [OF p, of q x] made by (simp add: idle_count_def)
    have c1: "use_count ws ?c = 1" "idle_count s ?c = 0"
      using use_counted [OF w assms(3)] counts(1) [of ?c] by simp_all
    have not_idle: "?c \<notin> set (cp_queue (ps_made s ! r))" if "r < length (ps_made s)" for r
      using idle_counted [OF that, of ?c] c1 by auto
    have not_used: "w_conn v \<noteq> ?c" if "v \<in> set ?ws" "\<not> w_released v" for v
      using use_counted [OF that] used [of ?c] c1 by auto
    have "counts_ok (conn_put ?c p s) ?ws"
    proof (rule counts_ok_le)
      show "counts_ok s ws" using assms(1) by (simp add: pools_ok_def)
      show "idle_count (conn_put ?c p s) x + use_count ?ws x \<le> idle_count s x + use_count ws x" for x
        using i [of x] used [of x] by simp
    qed (simp add: new)
    moreover have "files_ok (conn_put ?c p s) ?ws"
      using assms(1) p not_idle not_used set_ws
      unfolding pools_ok_def files_ok_def new made by (auto simp: nth_list_update made)
    ultimately show ?thesis using assms(1) by (simp add: pools_ok_def refs_made_def new made)
  qed
qed

lemma ensure_ok:
  assumes "pools_ok s ws"
  shows "pools_ok (ensure_pool s) ws \<and> (\<exists>p. ps_current (ensure_pool s) = Some p \<and>
     p < length (ps_made (ensure_pool s)) \<and> cp_file (ps_made (ensure_pool s) ! p) = ps_file s)"
proof (cases "case ps_current s of None \<Rightarrow> True | Some p \<Rightarrow> cp_file (ps_made s ! p) \<noteq> ps_file s")
  case True
  define closed where "closed = (case ps_current s of None \<Rightarrow> {} | Some p \<Rightarrow> cp_active (ps_made s ! p))"
  let ?n = "length (ps_made s)"
  have s': "ensure_pool s = s\<lparr>ps_open := ps_open s - closed, ps_made := ps_made s @ [conn_pool_new (ps_file s)],
      ps_all := ps_all s @ [?n], ps_current := Some ?n\<rparr>"
    using True by (simp add: ensure_pool_def closed_def Let_def)
  have "idle_count (ensure_pool s) x = idle_count s x" for x
    by (simp add: s' idle_count_def conn_pool_new_def)
  then have "counts_ok (ensure_pool s) ws"
    using assms counts_ok_le [of s ws "ensure_pool s" ws] by (simp add: pools_ok_def s')
  moreover have "files_ok (ensure_pool s) ws"
    using assms unfolding pools_ok_def files_ok_def s'
    by (auto simp: nth_append conn_pool_new_def)
  ultimately show ?thesis by (simp add: pools_ok_def refs_made_def s' conn_pool_new_def)
next
  case False
  with assms show ?thesis by (auto simp: ensure_pool_def pools_ok_def refs_made_def split: option.splits)
qed

lemma close_pool_ok:
  assumes "pools_ok s ws"
  shows "pools_ok (close_pool s) ws"
proof -
  let ?f = "\<lambda>(p, q). if p \<in> set (ps_all s) then q\<lparr>cp_active := {}, cp_queue := []\<rparr> else q"
  have made: "ps_made (close_pool s) ! p = ?f (p, ps_made s ! p)" if "p < length (ps_made s)" for p
    using that by (simp add: close_pool_def)
  have len: "length (ps_made (close_pool s)) = length (ps_made s)" by (simp add: close_pool_def)
  have "idle_count (close_pool s) c \<le> idle_count s c" for c
    unfolding idle_count_def
    by (simp add: sum_list_sum_nth len, rule sum_mono) (simp add: made)
  then have "counts_ok (close_pool s) ws"
    using assms counts_ok_le [of s ws "close_pool s" ws] by (simp add: pools_ok_def) (simp add: close_pool_def)
  moreover have "files_ok (close_pool s) ws"
    using assms unfolding pools_ok_def files_ok_def len
    by (auto simp: made close_pool_def split: if_splits)
  ultimately show ?thesis by (simp add: pools_ok_def refs_made_def close_pool_def)
qed

lemma set_db_file_ok: "pools_ok s ws \<Longrightarrow> pools_ok (set_db_file file_name s) ws"
  using close_pool_ok [of s ws]
  by (simp add: set_db_file_def pools_ok_def counts_ok_def files_ok_def refs_made_def)

lemma conn_get_none: "conn_get p s = (None, s') \<Longrightarrow> s' = s"
  by (auto simp: conn_get_def Let_def split: list.splits if_splits)

lemma conn_get_frame:
  "conn_get p s = (c, s') \<Longrightarrow> ps_file s' = ps_file s \<and> ps_current s' = ps_current s"
  by (auto simp: conn_get_def Let_def split: list.splits if_splits)

lemma get_connection_ok:
  assumes "pools_ok s ws" "get_connection s = (r, s')"
  shows "case r of
      None \<Rightarrow> pools_ok s' ws
    | Some w \<Rightarrow> pools_ok s' (ws @ [w]) \<and> w_conn w \<in> ps_open s' \<and> ps_of s' (w_conn w) = ps_file s' \<and>
        use_count ws (w_conn w) = 0"
proof -
  let ?e = "ensure_pool s"
  from ensure_ok [OF assms(1)] obtain p where e: "pools_ok ?e ws" "ps_current ?e = Some p"
      "cp_file (ps_made ?e ! p) = ps_file s" by blast
  obtain c t where g: "conn_get p ?e = (c, t)" by (cases "conn_get p ?e")
  have "ps_file ?e = ps_file s" by (simp add: ensure_pool_def Let_def)
  with conn_get_frame [OF g] e(2) have frame: "ps_file t = ps_file s" "ps_current t = Some p" by simp_all
  from assms(2) g e(2) have r: "r = map_option (\<lambda>c. wrap_conn c t) c" "s' = t"
    by (auto simp: get_connection_def take_conn_def Let_def split_beta)
  show ?thesis
  proof (cases c)
    case None
    with g conn_get_none e(1) r show ?thesis by auto
  next
    case (Some d)
    with conn_get_ok [OF e(1,2)] g e(3) r frame show ?thesis by (simp add: wrap_conn_def)
  qed
qed

lemma wrapper_close_ok:
  assumes "pools_ok s ws" "i < length ws" "wrapper_close (ws ! i) s = (w, s')"
  shows "pools_ok s' (ws[i := w])"
proof (cases "w_released (ws ! i)")
  case True
  with assms show ?thesis by (auto simp: wrapper_close_def)
next
  case False
  with assms(1,2) obtain p where p: "w_pool (ws ! i) = Some p"
    by (auto simp: pools_ok_def files_ok_def)
  with assms(3) False conn_put_ok [OF assms(1,2) False p] show ?thesis
    by (auto simp: wrapper_close_def)
qed

lemma pool_step_ok: "pools_ok (sy_pools y) (sy_wrappers y) \<Longrightarrow> pools_ok (sy_pools (pool_step e y)) (sy_wrappers (pool_step e y))"
proof (cases e)
  case Get_Connection
  assume inv: "pools_ok (sy_pools y) (sy_wrappers y)"
  obtain r s where g: "get_connection (sy_pools y) = (r, s)" by (cases "get_connection (sy_pools y)")
  with get_connection_ok [OF inv g] Get_Connection show ?thesis by (cases r) auto
next
  case (Close_Wrapper i)
  assume inv: "pools_ok (sy_pools y) (sy_wrappers y)"
  obtain w s where g: "wrapper_close (sy_wrappers y ! i) (sy_pools y) = (w, s)"
    by (cases "wrapper_close (sy_wrappers y ! i) (sy_pools y)")
  with wrapper_close_ok [OF inv _ g] inv Close_Wrapper show ?thesis by auto
qed (simp_all add: set_db_file_ok close_pool_ok)

lemma pool_reach_ok: "pool_reach y \<Longrightarrow> pools_ok (sy_pools y) (sy_wrappers y)"
proof (induction rule: pool_reach.induct)
  case (start fn)
  then show ?case by (simp add: pools_ok_defs pools_init_def idle_count_def use_count_def)
qed (rule pool_step_ok)

text \<open>C23: whatever requests do with their connections, with the file and with the pools, a connection
  that is handed out is open, is one to the file configured now, and is used by nobody else.\<close>

theorem connection_exclusive:
  assumes "pool_reach y" "get_connection (sy_pools y) = (Some w, s)"
  shows "w_conn w \<in> ps_open s \<and> ps_of s (w_conn w) = ps_file s \<and>
    (\<forall>v\<in>set (sy_wrappers y). w_released v \<or> w_conn v \<noteq> w_conn w)"
  using get_connection_ok [OF pool_reach_ok [OF assms(1)] assms(2)] use_counted [of _ "sy_wrappers y"]
  by force

theorem connection_exclusive_witness:
  "\<exists>w s. get_connection (sy_pools (pool_step Get_Connection \<lparr>sy_pools = pools_init ''a.db'', sy_wrappers = []\<rparr>)) =
     (Some w, s) \<and> w_conn w \<in> ps_open s \<and> w_conn w \<noteq> 0"
proof -
  let ?y = "pool_step Get_Connection \<lparr>sy_pools = pools_init ''a.db'', sy_wrappers = []\<rparr>"
  have r: "pool_reach ?y" by (intro pool_reach.intros)
  have y: "sy_wrappers ?y = [\<lparr>w_conn = 0, w_pool = Some 0, w_released = False\<rparr>]"
    "fst (get_connection (sy_pools ?y)) \<noteq> None"
    by (simp_all add: get_connection_def take_conn_def ensure_pool_def conn_get_def pools_init_def conn_pool_new_def
        wrap_conn_def max_connections_def)
  then obtain w s where "get_connection (sy_pools ?y) = (Some w, s)" by (metis prod.collapse option.exhaust)
  with connection_exclusive [OF r this] y(1) show ?thesis by auto
qed

text \<open>Were the file changed between the two times that \<^verbatim>\<open>get_connection\<close> reads the current pool, a
  connection to the old file would be given back to the pool of the new one.\<close>

lemma wrap_race:
  "let (c, s1) = take_conn (pools_init ''a.db'');
       (other, s2) = get_connection (set_db_file ''b.db'' s1);
       w = wrap_conn (the c) s2;
       (_, s3) = wrapper_close w s2;
       (w', s4) = get_connection s3
   in w' \<noteq> None \<and> ps_of s4 (w_conn (the w')) = ''a.db'' \<and> ps_file s4 = ''b.db'' \<and> w_conn (the w') \<notin> ps_open s4"
  by (simp add: take_conn_def get_connection_def ensure_pool_def conn_get_def pools_init_def conn_pool_new_def
      wrap_conn_def max_connections_def set_db_file_def close_pool_def wrapper_close_def conn_put_def)

section \<open>The relay's connections\<close>

text \<open>With \<^verbatim>\<open>DATABASE_URL\<close> a pool of \<^verbatim>\<open>psycopg2\<close> with at most ten connections, made at the first
  call; otherwise a connection of its own for each call. \<open>rc_out\<close> are the connections in use.\<close>

record relay_conns =
  rc_url :: "string option"
  rc_pool :: bool
  rc_out :: nat

definition relay_get_connection :: "relay_conns \<Rightarrow> bool \<times> relay_conns" where
  "relay_get_connection s = (case rc_url s of
     Some (_ # _) \<Rightarrow> if rc_out s < 10 then (True, s\<lparr>rc_pool := True, rc_out := rc_out s + 1\<rparr>)
                    else (False, s\<lparr>rc_pool := True\<rparr>)
   | _ \<Rightarrow> (True, s\<lparr>rc_out := rc_out s + 1\<rparr>))"

definition relay_release_connection :: "relay_conns \<Rightarrow> relay_conns" where
  "relay_release_connection s = s\<lparr>rc_out := rc_out s - 1\<rparr>"

definition relay_init_db :: "('d \<Rightarrow> 'd) \<Rightarrow> relay_conns \<Rightarrow> 'd \<Rightarrow> ('d \<times> relay_conns) option" where
  "relay_init_db migrate s d = (case relay_get_connection s of
     (False, _) \<Rightarrow> None | (True, s') \<Rightarrow> Some (migrate d, relay_release_connection s'))"

lemma relay_balanced:
  "relay_init_db migrate s d = Some (d', s') \<Longrightarrow> rc_out s' = rc_out s"
  by (auto simp: relay_init_db_def relay_get_connection_def relay_release_connection_def
      split: option.splits list.splits if_splits)

end
