(* ===== verification/Tor_Bundle.thy ===== *)
theory Tor_Bundle
  imports Tor_Circuits
begin

text \<open>
  How the Tor bundle comes onto the disk, the rest of \<^verbatim>\<open>transports/p2p/tor_manager.py\<close>:
  \<^verbatim>\<open>download_and_extract_tor\<close> around the checks of \<open>Tor_Circuits\<close>, the directories, the hash of a
  file and the end of the process. What the network, \<^verbatim>\<open>gpg\<close> and \<^verbatim>\<open>tarfile\<close> give are
  arguments.
\<close>

section \<open>Directories and hashes\<close>

definition setup_directories :: "string \<Rightarrow> string set \<Rightarrow> string set" where
  "setup_directories bin dirs = dirs \<union> {bin, bin @ ''/tor'', bin @ ''/tor_data'', bin @ ''/tor_service''}"

text \<open>\<^verbatim>\<open>f.read(65536)\<close> until nothing comes; the hash object sees the blocks one after the other.\<close>

definition BLOCK :: nat where "BLOCK = 65536"

function read_blocks :: "bytes \<Rightarrow> bytes list" where
  "read_blocks content = (if content = [] then [] else take BLOCK content # read_blocks (drop BLOCK content))"
  by pat_completeness auto

termination
  by (relation "measure length") (auto simp: BLOCK_def)

declare read_blocks.simps [simp del]

lemma concat_read_blocks: "concat (read_blocks content) = content"
  by (induction content rule: read_blocks.induct) (subst read_blocks.simps, simp)

definition calculate_sha256 :: "bytes \<Rightarrow> string" where
  "calculate_sha256 content = sha256_hex (concat (read_blocks content))"

lemma calculate_sha256: "calculate_sha256 content = sha256_hex content"
  by (simp add: calculate_sha256_def concat_read_blocks)

section \<open>The bundle\<close>

record tor_files =
  tf_members :: "string list"       \<comment> \<open>what was extracted below TOR_DIR\<close>
  tf_archive :: "bytes option"
  tf_signature :: bool
  tf_executable :: "string option"

text \<open>
  \<open>loaded\<close> is the archive or that its download raises, \<open>sig_loaded\<close> whether the signature could be
  loaded, \<open>members\<close> the names in an archive, \<open>None\<close> when it can not be opened, \<open>fails_at\<close> the number
  of members after which an extraction raises, \<open>walk\<close> the files below the directory.
\<close>

record tor_world =
  tw_loaded :: "bytes option"
  tw_sig_loaded :: bool
  tw_gpg_bin :: bool
  tw_gpg :: gpg_run
  tw_filename :: string
  tw_listings :: "string option list"
  tw_members :: "bytes \<Rightarrow> string list option"
  tw_fails_at :: "nat option"
  tw_resolve :: "string list \<Rightarrow> string \<Rightarrow> string"
  tw_dir :: string
  tw_walk :: "string list \<Rightarrow> (string \<times> string list) list"
  tw_exe :: string
  tw_windows :: bool

definition binary_path :: "string \<times> string \<Rightarrow> string" where
  "binary_path rf = (case rf of (folder, f) \<Rightarrow> folder @ ''/'' @ f)"

definition no_temp :: "tor_files \<Rightarrow> tor_files" where
  "no_temp s = s\<lparr>tf_archive := None, tf_signature := False\<rparr>"

definition extract_bundle :: "tor_world \<Rightarrow> bytes \<Rightarrow> tor_files \<Rightarrow> unit py \<times> tor_files" where
  "extract_bundle w archive s = (case tw_members w archive of
     None \<Rightarrow> (Inl (RuntimeError ''not a gzip file''), s)
   | Some ms \<Rightarrow>
       (case tw_fails_at w of
          Some n \<Rightarrow> if n < length ms
            then (Inl (RuntimeError ''extraction''), s\<lparr>tf_members := extract_members (tw_resolve w) (tw_dir w) (tf_members s) (take n ms)\<rparr>)
            else (Inr (), s\<lparr>tf_members := extract_members (tw_resolve w) (tw_dir w) (tf_members s) ms\<rparr>)
        | None \<Rightarrow> (Inr (), s\<lparr>tf_members := extract_members (tw_resolve w) (tw_dir w) (tf_members s) ms\<rparr>)))"

definition download_and_extract_tor :: "tor_world \<Rightarrow> tor_files \<Rightarrow> string py \<times> tor_files" where
  "download_and_extract_tor w s =
     (case find_tor_binary (tw_exe w) (tw_walk w (tf_members s)) of
        Some rf \<Rightarrow> (Inr (binary_path rf), s)
      | None \<Rightarrow>
          (case tw_loaded w of
             None \<Rightarrow> (Inl (RuntimeError ''download''), no_temp s)
           | Some archive \<Rightarrow>
               (case bundle_accepted (tw_gpg_bin w) (tw_sig_loaded w) (tw_gpg w) (tw_filename w) (tw_listings w) archive of
                  Inl e \<Rightarrow> (Inl e, no_temp s)
                | Inr _ \<Rightarrow>
                    (case extract_bundle w archive s of
                       (Inl e, s1) \<Rightarrow> (Inl e, no_temp s1)
                     | (Inr _, s1) \<Rightarrow>
                         let s2 = no_temp s1 in
                         (case find_tor_binary (tw_exe w) (tw_walk w (tf_members s2)) of
                            None \<Rightarrow> (Inl (RuntimeError ''Could not find Tor binary inside the extracted files.''), s2)
                          | Some rf \<Rightarrow> (Inr (binary_path rf),
                              if tw_windows w then s2 else s2\<lparr>tf_executable := Some (binary_path rf)\<rparr>))))))"

text \<open>Nothing is extracted from an archive that was not accepted, and no temporary file is left.\<close>

lemma rejected_not_extracted:
  assumes "download_and_extract_tor w s = (r, s')" "tf_members s' \<noteq> tf_members s"
  shows "\<exists>archive. tw_loaded w = Some archive \<and>
    bundle_accepted (tw_gpg_bin w) (tw_sig_loaded w) (tw_gpg w) (tw_filename w) (tw_listings w) archive = Inr () \<and>
    tf_archive s' = None \<and> \<not> tf_signature s'"
  using assms
  by (auto simp: download_and_extract_tor_def no_temp_def Let_def split: option.splits sum.splits prod.splits if_splits)

text \<open>A binary that is found is run without any check; so is what an extraction that failed half way
  left behind, at the next start.\<close>

lemma found_not_checked:
  assumes "find_tor_binary (tw_exe w) (tw_walk w (tf_members s)) = Some rf"
  shows "download_and_extract_tor w s = (Inr (binary_path rf), s)"
  by (simp add: download_and_extract_tor_def assms)

section \<open>The end of the process\<close>

datatype process_signal = Sig_Terminate | Sig_Kill

definition cleanup :: "bool \<Rightarrow> bool \<Rightarrow> process_signal list \<times> bool" where
  "cleanup running ends_in_time =
     (if running then (if ends_in_time then [Sig_Terminate] else [Sig_Terminate, Sig_Kill], False) else ([], False))"

text \<open>The ports of a start; the one of the application is taken as it is when it is given.\<close>

definition launch_ports :: "(int \<Rightarrow> bool) \<Rightarrow> int option \<Rightarrow> (int \<times> int \<times> int) py" where
  "launch_ports free peer_port = (case (find_free_port free 9050, find_free_port free 9051) of
     (Inr socks, Inr control) \<Rightarrow>
       (case (case peer_port of Some p \<Rightarrow> Inr p | None \<Rightarrow> find_free_port free 8080) of
          Inr p \<Rightarrow> Inr (socks, control, p) | Inl e \<Rightarrow> Inl e)
   | (Inl e, _) \<Rightarrow> Inl e
   | (_, Inl e) \<Rightarrow> Inl e)"

lemma first_free: "free p \<Longrightarrow> p < 65535 \<Longrightarrow> find_free_port free p = Inr p"
  by (simp add: find_free_port.simps)

lemma next_free: "\<not> free p \<Longrightarrow> p < 65535 \<Longrightarrow> find_free_port free p = find_free_port free (p + 1)"
  by (simp add: find_free_port.simps [of free p])

lemma free_from: "find_free_port free p = Inr q \<Longrightarrow> p \<le> q"
  by (induction free p rule: find_free_port.induct)
    (auto simp: find_free_port.simps split: if_splits)

text \<open>Both searches are made before either port is used: whenever 9050 is taken, as it is
  beside a Tor daemon of the system, Tor is configured with the same port for SOCKS and for
  control, and only then.\<close>

theorem launch_ports_collide:
  assumes "launch_ports free peer_port = Inr (socks, control, p)"
  shows "socks = control \<longleftrightarrow> \<not> free 9050"
proof -
  from assms have s: "find_free_port free 9050 = Inr socks" and c: "find_free_port free 9051 = Inr control"
    by (auto simp: launch_ports_def split: sum.splits)
  show ?thesis
  proof (cases "free 9050")
    case True
    with s have "socks = 9050" by (simp add: first_free)
    with c True free_from [OF c] show ?thesis by auto
  next
    case False
    with s c show ?thesis using next_free [of free 9050] by simp
  qed
qed

theorem launch_ports_collide_witness:
  "launch_ports (\<lambda>p. p \<noteq> 9050) (Some 5000) = Inr (9051, 9051, 5000) \<and> (9051 :: int) = 9051"
proof -
  have r: "launch_ports (\<lambda>p. p \<noteq> 9050) (Some 5000) = Inr (9051, 9051, 5000)"
    by (simp add: launch_ports_def first_free next_free)
  from launch_ports_collide [OF r] r show ?thesis by simp
qed

end
