(* ===== verification/Desktop_Example.thy ===== *)
theory Desktop_Example
  imports V3_Sync Json_Dumps Node_DB_Theorems
begin

text \<open>
  The desktop example, \<^verbatim>\<open>examples/desktop/pairing-broker.py\<close>: it shows a key in a QR code
  and stores the database a device sends for it. Requests are the bytes that arrive; the message is
  read to the length its header gives. An exception outside of the handler's \<^verbatim>\<open>try\<close> leaves
  the request without an answer.
\<close>

section \<open>State\<close>

record example_broker =
  eb_key :: bytes
  eb_db :: "bytes option"

datatype example_reply = Answered nat | Unanswered

section \<open>Starting\<close>

text \<open>
  \<open>route\<close> gives the address of the interface on the way to an address, if there is one. The node's
  \<^verbatim>\<open>get_local_ip\<close> and the example's differ in the address they ask for.
\<close>

definition local_ip :: "string \<Rightarrow> (string \<Rightarrow> string option) \<Rightarrow> string" where
  "local_ip probe route = (case route probe of Some ip \<Rightarrow> ip | None \<Rightarrow> ''127.0.0.1'')"

definition sync_get_local_ip :: "(string \<Rightarrow> string option) \<Rightarrow> string" where
  "sync_get_local_ip = local_ip ''10.254.254.254''"

definition example_local_ip :: "(string \<Rightarrow> string option) \<Rightarrow> string" where
  "example_local_ip = local_ip ''10.255.255.255''"

definition example_port :: int where "example_port = 8999"

text \<open>\<open>None\<close> is the exception of a port that can not be bound; the payload is printed before.\<close>

definition start_broker ::
    "crypto \<Rightarrow> bytes \<Rightarrow> (string \<Rightarrow> string option) \<Rightarrow> bool \<Rightarrow> bytes option \<Rightarrow> string \<times> example_broker option" where
  "start_broker c priv route port_free db =
     (json_dumps (JObj [(''ip'', JStr (example_local_ip route)), (''port'', JInt example_port),
        (''k'', JStr (b64_encode (dh_public c priv)))]),
      if port_free then Some \<lparr>eb_key = priv, eb_db = db\<rparr> else None)"

section \<open>Handling a request\<close>

text \<open>\<^verbatim>\<open>rfile.read(n)\<close>: a negative \<open>n\<close> reads to the end.\<close>

definition read_body :: "int \<Rightarrow> bytes \<Rightarrow> bytes" where
  "read_body n sent = (if n < 0 then sent else take (nat n) sent)"

text \<open>What the \<^verbatim>\<open>try\<close> block computes; \<open>None\<close> is any exception of it.\<close>

definition example_db :: "crypto \<Rightarrow> bytes \<Rightarrow> json \<Rightarrow> bytes option" where
  "example_db c priv payload =
     (case json_get payload ''client_public_key'' of
        Some (JStr pub) \<Rightarrow>
          (case import_public_key pub of
             Inl _ \<Rightarrow> None
           | Inr peer \<Rightarrow>
               (case dh_exchange c priv peer of
                  None \<Rightarrow> None
                | Some shared_key \<Rightarrow>
                    (let aes_key = hkdf c 32 zeros32 sync_info shared_key in
                     case (json_bytes (json_get payload ''iv''), json_bytes (json_get payload ''ciphertext'')) of
                       (Some iv, Some ct) \<Rightarrow> aead_open c aes_key iv ct []
                     | _ \<Rightarrow> None)))
      | _ \<Rightarrow> None)"

definition example_post ::
    "crypto \<Rightarrow> bool \<Rightarrow> string \<Rightarrow> string option \<Rightarrow> bytes \<Rightarrow> example_broker \<Rightarrow> example_reply \<times> example_broker" where
  "example_post c writable path content_length sent s =
     (if path \<noteq> ''/api/sync/pairing'' then (Answered 404, s)
      else case Option.bind content_length py_int of
        None \<Rightarrow> (Unanswered, s)
      | Some n \<Rightarrow>
          (case Option.bind (utf8_decode (read_body n sent)) json_loads of
             Some (JObj kvs) \<Rightarrow>
               (case example_db c (eb_key s) (JObj kvs) of
                  Some d \<Rightarrow> if writable then (Answered 200, s\<lparr>eb_db := Some d\<rparr>) else (Answered 400, s)
                | None \<Rightarrow> (Answered 400, s))
           | _ \<Rightarrow> (Unanswered, s)))"

section \<open>What it promises\<close>

lemma read_body_all: "read_body (int (length b)) b = b"
  by (simp add: read_body_def)

text \<open>Nothing is stored unless the answer says so.\<close>

lemma example_stores: "example_post c w path len sent s = (r, s') \<Longrightarrow> r \<noteq> Answered 200 \<Longrightarrow> s' = s"
  by (auto simp: example_post_def split: option.splits json.splits if_splits)

lemma push_payload_plain: "push_payload c priv iv db k pin salt = Some payload \<Longrightarrow> plain_json payload"
  by (auto simp: push_payload_def split: sum.splits option.splits)

lemma example_opens:
  assumes "aead_correct c" "dh_commutes c" "dh_keys_ok c"
    and "push_payload c my iv db (b64_encode (dh_public c priv)) [] [] = Some payload"
  shows "example_db c priv payload = Some db"
proof -
  have imp: "import_public_key (b64_encode (dh_public c x)) = Inr (dh_public c x)" for x
    using assms(3) by (simp add: import_public_key_def dh_keys_ok_def)
  obtain shared where sh: "dh_exchange c my (dh_public c priv) = Some shared"
    using assms(3) unfolding dh_keys_ok_def by blast
  then obtain ct where ct: "aead_seal c (hkdf c 32 zeros32 sync_info shared) iv db [] = Some ct"
    and p: "payload = JObj [(''client_public_key'', JStr (b64_encode (dh_public c my))),
      (''iv'', JStr (b64_encode iv)), (''ciphertext'', JStr (b64_encode ct)), (''pin'', JStr [])]"
    using assms(4) imp by (auto simp: push_payload_def split: option.splits)
  have "dh_exchange c priv (dh_public c my) = Some shared"
    using sh assms(2) unfolding dh_commutes_def by metis
  moreover have "aead_open c (hkdf c 32 zeros32 sync_info shared) iv ct [] = Some db"
    using assms(1) ct unfolding aead_correct_def by blast
  ultimately show ?thesis using imp by (simp add: example_db_def p json_get_def json_bytes_def)
qed

text \<open>The request a push makes of a payload: its text and the length of it.\<close>

definition posted :: "json \<Rightarrow> bytes" where
  "posted payload = utf8_encode (json_dumps payload)"

definition length_header :: "bytes \<Rightarrow> string option" where
  "length_header sent = Some (int_str (int (length sent)))"

lemma qr_plain: "plain_json (JObj [(''ip'', JStr ip), (''port'', JInt p), (''k'', JStr k)])"
  by simp

text \<open>Whoever has seen the key that the desktop example shows, and nothing else, replaces its
  database by any bytes: a push to it without a token, as the node makes it, is answered with
  success and what is stored are the bytes that were pushed, be they a database or not.\<close>

theorem example_links:
  assumes "aead_correct c" "dh_commutes c" "dh_keys_ok c"
    and "start_broker c priv route True old = (qr, Some s)"
    and "push_payload c my iv db (b64_encode (dh_public c priv)) [] [] = Some payload"
  shows "json_loads qr = Some (JObj [(''ip'', JStr (example_local_ip route)), (''port'', JInt example_port),
      (''k'', JStr (b64_encode (dh_public c priv)))]) \<and>
    example_post c True ''/api/sync/pairing'' (length_header (posted payload)) (posted payload) s =
      (Answered 200, s\<lparr>eb_db := Some db\<rparr>)"
proof -
  have s: "eb_key s = priv" using assms(4) by (auto simp: start_broker_def)
  have "json_loads (json_dumps payload) = Some payload"
    using push_payload_plain [OF assms(5)] by (rule loads_dumps)
  moreover obtain kvs where "payload = JObj kvs"
    using assms(5) by (auto simp: push_payload_def split: sum.splits option.splits)
  ultimately have "example_post c True ''/api/sync/pairing'' (length_header (posted payload)) (posted payload) s =
      (Answered 200, s\<lparr>eb_db := Some db\<rparr>)"
    using example_opens [OF assms(1-3,5)]
    by (simp add: example_post_def length_header_def py_int_nat_str read_body_all posted_def s)
  moreover have "json_loads qr = Some (JObj [(''ip'', JStr (example_local_ip route)), (''port'', JInt example_port),
      (''k'', JStr (b64_encode (dh_public c priv)))])"
    using assms(4) by (simp only: start_broker_def prod.inject) (metis loads_dumps qr_plain)
  ultimately show ?thesis by (rule conjI [rotated])
qed

lemma push_payload_exists:
  "\<exists>payload. push_payload toy_crypto my iv db (b64_encode (dh_public toy_crypto priv)) [] [] = Some payload"
proof -
  have "import_public_key (b64_encode (dh_public toy_crypto priv)) = Inr (dh_public toy_crypto priv)"
    using toy_crypto_ok(5) by (simp add: import_public_key_def dh_keys_ok_def)
  moreover obtain x where "dh_exchange toy_crypto my (dh_public toy_crypto priv) = Some x"
    using toy_crypto_ok(5) unfolding dh_keys_ok_def by blast
  moreover obtain y where "aead_seal toy_crypto (hkdf toy_crypto 32 zeros32 sync_info x) iv db [] = Some y"
    by (simp add: toy_crypto_def)
  ultimately show ?thesis by (simp add: push_payload_def)
qed

theorem example_links_witness:
  "\<exists>payload. push_payload toy_crypto [3] [4] [65] (b64_encode (dh_public toy_crypto [1])) [] [] = Some payload \<and>
     example_post toy_crypto True ''/api/sync/pairing'' (length_header (posted payload)) (posted payload)
       \<lparr>eb_key = [1], eb_db = None\<rparr> = (Answered 200, \<lparr>eb_key = [1], eb_db = Some [65]\<rparr>)"
proof -
  obtain payload where p: "push_payload toy_crypto [3] [4] [65] (b64_encode (dh_public toy_crypto [1])) [] [] =
      Some payload"
    using push_payload_exists by blast
  show ?thesis
    using example_links [OF toy_crypto_ok(2,3,5), of "[1]" "\<lambda>_. None" None
        "fst (start_broker toy_crypto [1] (\<lambda>_. None) True None)" "\<lparr>eb_key = [1], eb_db = None\<rparr>" "[3]" "[4]" "[65]"
        payload] p
    by (simp add: start_broker_def)
qed

text \<open>The node's own push does not get there: it refuses the addresses of a local network, and
  those are the ones the payload names when the host has no public address.\<close>

lemma example_push_refused:
  assumes "address (example_local_ip route) = Some True"
  shows "sync_push c my iv address post cookie a (example_local_ip route) example_port k pin salt s \<noteq> Inr ()"
  using assms by (auto simp: sync_push_def split: sum.splits option.splits)

end
