(* ===== verification/Commit_Map.thy ===== *)
theory Commit_Map
  imports Tor_Circuits
begin

text \<open>
  The two scripts that rewrite the project's history: \<^verbatim>\<open>scripts/generate-commit-map.py\<close> reads
  the log, puts every message into the conventional form and writes a file with a line for each
  commit; \<^verbatim>\<open>scripts/rewrite_git_history.py\<close> reads that file in the callback git-filter-repo
  calls for each commit. Files are texts, git's log is the text it prints.
\<close>

section \<open>Python's texts\<close>

definition py_rstrip :: "(char \<Rightarrow> bool) \<Rightarrow> string \<Rightarrow> string" where
  "py_rstrip p s = rev (dropWhile p (rev s))"

text \<open>\<^verbatim>\<open>s.split(sep, 1)\<close> where \<open>sep\<close> is in \<open>s\<close>; \<open>None\<close> where it is not.\<close>

fun split_once :: "string \<Rightarrow> string \<Rightarrow> (string \<times> string) option" where
  "split_once sep [] = None"
| "split_once sep (c # cs) =
     (if py_startswith (c # cs) sep then Some ([], drop (length sep) (c # cs))
      else map_option (apfst ((#) c)) (split_once sep cs))"

text \<open>\<^verbatim>\<open>s.split(sep)\<close> for a separator of several characters.\<close>

fun split_text :: "string \<Rightarrow> string \<Rightarrow> string list" where
  "split_text sep [] = [[]]"
| "split_text sep (c # cs) =
     (if py_startswith (c # cs) sep then [] # split_text sep (drop (length sep - 1) cs)
      else case split_text sep cs of [] \<Rightarrow> [[c]] | w # ws \<Rightarrow> (c # w) # ws)"

text \<open>Reading a text file turns every line end into one newline.\<close>

fun universal_newlines :: "string \<Rightarrow> string" where
  "universal_newlines [] = []"
| "universal_newlines (c # cs) =
     (if code c = 13 then newline # (case cs of [] \<Rightarrow> [] | d # ds \<Rightarrow>
        if code d = 10 then universal_newlines ds else universal_newlines cs)
      else c # universal_newlines cs)"

definition file_lines :: "string \<Rightarrow> string list" where
  "file_lines t = split_where (\<lambda>c. c = newline) (universal_newlines t)"

section \<open>The conventional form\<close>

definition TYPE_MAP :: "(string \<times> string) list" where
  "TYPE_MAP = [(''add'', ''feat''), (''implement'', ''feat''), (''integrate'', ''feat''), (''unify'', ''feat''),
     (''fix'', ''fix''), (''resolve'', ''fix''), (''address'', ''fix''),
     (''refactor'', ''refactor''), (''standardize'', ''refactor''), (''align'', ''refactor''),
     (''segregate'', ''refactor''), (''update'', ''docs''), (''archive'', ''docs''),
     (''style'', ''style''), (''overhaul'', ''style''), (''build'', ''build''), (''remediate'', ''build'')]"

text \<open>\<^verbatim>\<open>\w\<close>: letters, digits and the underscore, among the first 256 code points.\<close>

definition word_char :: "char \<Rightarrow> bool" where
  "word_char c = (let n = code c in (48 \<le> n \<and> n \<le> 57) \<or> (65 \<le> n \<and> n \<le> 90) \<or> n = 95 \<or> (97 \<le> n \<and> n \<le> 122) \<or>
     n \<in> {170, 178, 179, 181, 185, 186, 188, 189, 190} \<or> (192 \<le> n \<and> n \<noteq> 215 \<and> n \<noteq> 247))"

text \<open>
  \<^verbatim>\<open>^(\w+)(\([^)]+\))?: (.+)\<close> on one line: after the longest run of word characters no shorter one
  can match, and likewise inside of the parentheses.
\<close>

definition match_scope :: "string \<Rightarrow> string \<times> string" where
  "match_scope t = (case t of
     c # r \<Rightarrow>
       (let inner = takeWhile (\<lambda>d. d \<noteq> CHR '')'') r; after = dropWhile (\<lambda>d. d \<noteq> CHR '')'') r in
        if c = CHR ''('' \<and> inner \<noteq> [] \<and> after \<noteq> [] then (c # inner @ [CHR '')''], tl after) else ([], t))
   | [] \<Rightarrow> ([], t))"

definition match_title :: "string \<Rightarrow> (string \<times> string \<times> string) option" where
  "match_title t =
     (let w = takeWhile word_char t; (scope, r) = match_scope (dropWhile word_char t) in
      if w \<noteq> [] \<and> py_startswith r '': '' \<and> drop 2 r \<noteq> [] then Some (w, scope, drop 2 r) else None)"

definition lower_first :: "string \<Rightarrow> string" where
  "lower_first s = (case s of [] \<Rightarrow> [] | c # cs \<Rightarrow> py_lower_char c # cs)"

definition finish_desc :: "string \<Rightarrow> string" where
  "finish_desc desc =
     (let d = py_rstrip (\<lambda>c. c = CHR ''.'') (lower_first desc) in
      if 72 < length d then take 69 d @ ''...'' else d)"

fun join_words :: "string list \<Rightarrow> string" where
  "join_words [] = []"
| "join_words [w] = w"
| "join_words (w # v # ws) = w @ '' '' @ join_words (v # ws)"

definition transform_message :: "string \<Rightarrow> string" where
  "transform_message message =
     (if message = [] then ''chore: initial commit''
      else
        let title = py_strip (takeWhile (\<lambda>c. \<not> line_end c) message) in
        case match_title title of
          Some (w, scope, d) \<Rightarrow> py_lower w @ scope @ '': '' @ finish_desc (py_strip d)
        | None \<Rightarrow>
            (case py_words title of
               [] \<Rightarrow> ''chore: update''
             | w # ws \<Rightarrow>
                 (let first_word = py_rstrip (\<lambda>c. c = CHR '':'' \<or> c = CHR '','') (py_lower w);
                      desc = (if map_of TYPE_MAP first_word \<noteq> None then join_words ws else title);
                      desc = (if desc = [] then title else desc)
                  in (case map_of TYPE_MAP first_word of Some t \<Rightarrow> t | None \<Rightarrow> ''chore'') @ '': '' @
                     finish_desc desc)))"

section \<open>The map of the commits\<close>

definition log_end :: string where "log_end = ''---END---'' @ [newline]"

definition NUL :: char where "NUL = char_of (0::nat)"

definition log_commit :: "string \<Rightarrow> (string \<times> string) list" where
  "log_commit block =
     (if py_strip block = [] then []
      else case py_split NUL block of
        sha # message # _ \<Rightarrow> [(py_strip sha, py_strip message)]
      | _ \<Rightarrow> [])"

definition read_log :: "string \<Rightarrow> (string \<times> string) list" where
  "read_log out = concat (map log_commit (split_text log_end out))"

definition write_map :: "(string \<times> string) list \<Rightarrow> string" where
  "write_map commits =
     concat (map (\<lambda>(sha, message). sha @ ''==='' @ transform_message message @ [newline]) commits)"

definition generate_map :: "string \<Rightarrow> string" where
  "generate_map out = write_map (read_log out)"

section \<open>Rewriting\<close>

definition map_line :: "string \<Rightarrow> (bytes \<times> bytes) option" where
  "map_line l = (if split_once ''==='' l = None then None
     else map_option (map_prod utf8_encode utf8_encode) (split_once ''==='' (py_strip l)))"

text \<open>A later line for the same commit replaces an earlier one.\<close>

definition read_map :: "string \<Rightarrow> bytes \<rightharpoonup> bytes" where
  "read_map t = map_of (rev (List.map_filter map_line (file_lines t)))"

definition commit_callback :: "string \<Rightarrow> bytes \<Rightarrow> bytes \<Rightarrow> bytes" where
  "commit_callback t original_id message =
     (case read_map t original_id of
        None \<Rightarrow> message
      | Some new_msg \<Rightarrow> if new_msg = [] \<or> last new_msg \<noteq> 10 then new_msg @ [10] else new_msg)"

section \<open>A new message is one line\<close>

definition one_line :: "string \<Rightarrow> bool" where
  "one_line s = (\<forall>c\<in>set s. code c \<noteq> 10 \<and> code c \<noteq> 13)"

lemma one_line_subset: "one_line t \<Longrightarrow> set s \<subseteq> set t \<Longrightarrow> one_line s"
  by (auto simp: one_line_def)

lemma one_line_simps [simp]:
  "one_line []" "one_line (c # s) \<longleftrightarrow> code c \<noteq> 10 \<and> code c \<noteq> 13 \<and> one_line s"
  "one_line (s @ t) \<longleftrightarrow> one_line s \<and> one_line t"
  by (auto simp: one_line_def)

lemma set_tl_subset: "c \<in> set (tl s) \<Longrightarrow> c \<in> set s"
  by (cases s) simp_all

lemma one_line_take: "one_line s \<Longrightarrow> one_line (take n s)" "one_line s \<Longrightarrow> one_line (drop n s)"
  "one_line s \<Longrightarrow> one_line (takeWhile p s)" "one_line s \<Longrightarrow> one_line (dropWhile p s)"
  "one_line s \<Longrightarrow> one_line (py_strip s)" "one_line s \<Longrightarrow> one_line (py_rstrip p s)"
  "one_line s \<Longrightarrow> one_line (tl s)"
  using set_py_strip [of s] set_dropWhile_subset [of p s] set_dropWhile_subset [of p "rev s"]
  by (auto elim!: one_line_subset dest: in_set_takeD in_set_dropD set_takeWhileD set_tl_subset
      simp: py_rstrip_def)

lemma code_char_of: "n < 256 \<Longrightarrow> code (char_of n) = n"
  by (simp add: code_def)

lemma lower_break: "code (py_lower_char c) = 10 \<longleftrightarrow> code c = 10" "code (py_lower_char c) = 13 \<longleftrightarrow> code c = 13"
  by (auto simp: py_lower_char_def code_def Let_def)

lemma one_line_lower [simp]: "one_line (py_lower s) = one_line s" "one_line (lower_first s) = one_line s"
  by (auto simp: one_line_def py_lower_def lower_break) (cases s; auto simp: lower_first_def lower_break)+

lemma one_line_finish: "one_line s \<Longrightarrow> one_line (finish_desc s)"
  by (simp add: finish_desc_def Let_def one_line_take) (simp add: code_def)

lemma first_line: "one_line (takeWhile (\<lambda>c. \<not> line_end c) m)"
  by (auto simp: one_line_def line_end_def dest: set_takeWhileD)

lemma split_where_subset: "w \<in> set (split_where p s) \<Longrightarrow> set w \<subseteq> set s"
  by (induction p s arbitrary: w rule: split_where.induct) (force split: if_splits list.splits)+

lemma one_line_words: "one_line s \<Longrightarrow> w \<in> set (py_words s) \<Longrightarrow> one_line w"
  using split_where_subset [of w py_isspace s] by (auto simp: py_words_def elim!: one_line_subset)

lemma one_line_join: "\<forall>w\<in>set ws. one_line w \<Longrightarrow> one_line (join_words ws)"
  by (induction ws rule: join_words.induct) (simp_all add: code_def)

lemma one_line_scope: "one_line t \<Longrightarrow> match_scope t = (sc, r) \<Longrightarrow> one_line sc \<and> one_line r"
  by (auto simp: match_scope_def Let_def one_line_take code_def split: list.splits if_splits)

lemma type_values: "map_of TYPE_MAP k = Some t \<Longrightarrow> one_line t \<and> t \<noteq> [] \<and> \<not> py_isspace (hd t)"
  by (auto simp: TYPE_MAP_def code_def py_isspace_def split: if_splits)

lemma one_line_message: "one_line (transform_message m)"
proof -
  let ?t = "py_strip (takeWhile (\<lambda>c. \<not> line_end c) m)"
  have t: "one_line ?t" by (intro one_line_take first_line)
  have m: "match_title ?t = Some (w, sc, d) \<Longrightarrow> one_line w \<and> one_line sc \<and> one_line d" for w sc d
    using one_line_scope [of "dropWhile word_char ?t"] t
    by (auto simp: match_title_def Let_def one_line_take split: prod.splits if_splits)
  have "py_words ?t = w # ws \<Longrightarrow> one_line (join_words ws)" for w ws
    using one_line_words [OF t] by (intro one_line_join) simp
  then show ?thesis
    using t m type_values
    by (auto simp: transform_message_def Let_def one_line_finish one_line_take code_def
        split: option.splits list.splits)
qed

lemma word_char_lower: "word_char c \<Longrightarrow> \<not> py_isspace (py_lower_char c)"
  by (auto simp: word_char_def py_isspace_def py_lower_char_def code_def Let_def)

definition starts_plain :: "string \<Rightarrow> bool" where
  "starts_plain s = (s \<noteq> [] \<and> \<not> py_isspace (hd s))"

lemma starts_plain_append: "starts_plain s \<Longrightarrow> starts_plain (s @ t)"
  by (cases s) (simp_all add: starts_plain_def)

lemma message_starts: "starts_plain (transform_message m)"
proof -
  have w: "starts_plain (py_lower w)" if "match_title t = Some (w, sc, d)" for t w sc d
    using that word_char_lower set_takeWhileD [of "hd w" word_char t]
    by (cases w) (auto simp: match_title_def Let_def starts_plain_def py_lower_def split: prod.splits if_splits)
  have v: "map_of TYPE_MAP k = Some t \<Longrightarrow> starts_plain t" for k t
    using type_values [of k t] by (simp add: starts_plain_def)
  have c: "starts_plain (''chore: initial commit'')" "starts_plain (''chore: update'')" "starts_plain (''chore'')"
    by (simp_all add: starts_plain_def py_isspace_def)
  have "starts_plain ((case map_of TYPE_MAP k of Some t \<Rightarrow> t | None \<Rightarrow> ''chore'') @ r)" for k r
    by (rule starts_plain_append) (use v c(3) in \<open>simp split: option.split\<close>)
  with w c show ?thesis
    by (simp add: transform_message_def Let_def starts_plain_append split: option.split list.split)
qed

section \<open>What is written is what is read\<close>

lemma newline_code [simp]: "code newline = 10"
  by (simp add: newline_def code_def)

lemma newline_break: "one_line s \<Longrightarrow> newline \<notin> set s"
  by (auto simp: one_line_def)

lemma universal_line: "one_line s \<Longrightarrow> universal_newlines (s @ newline # r) = s @ newline # universal_newlines r"
  by (induction s) simp_all

lemma split_where_line: "newline \<notin> set s \<Longrightarrow>
    split_where (\<lambda>c. c = newline) (s @ newline # r) = s # split_where (\<lambda>c. c = newline) r"
  by (induction s) auto

lemma file_lines_written: "\<forall>l\<in>set ls. one_line l \<Longrightarrow>
    file_lines (concat (map (\<lambda>l. l @ [newline]) ls)) = ls @ [[]]"
  by (induction ls) (simp_all add: file_lines_def universal_line split_where_line newline_break)

text \<open>The names of commits: hexadecimal digits.\<close>

definition sha_text :: "string \<Rightarrow> bool" where
  "sha_text s = (s \<noteq> [] \<and> list_all (\<lambda>c. hex_val c \<noteq> None) s)"

lemma hex_codes: "hex_val c \<noteq> None \<Longrightarrow> \<not> py_isspace c \<and> c \<noteq> CHR ''='' \<and> c \<noteq> CHR ''-'' \<and> c \<noteq> NUL \<and>
    code c \<noteq> 10 \<and> code c \<noteq> 13"
  by (auto simp: hex_val_def py_isspace_def code_def NUL_def is_digit_def Let_def split: if_splits)

lemma sha_plain:
  assumes "sha_text s"
  shows "starts_plain s" "one_line s" "CHR ''='' \<notin> set s" "NUL \<notin> set s" "CHR ''-'' \<notin> set s" "py_strip s = s"
proof -
  have all: "c \<in> set s \<Longrightarrow> \<not> py_isspace c \<and> c \<noteq> CHR ''='' \<and> c \<noteq> CHR ''-'' \<and> c \<noteq> NUL \<and> code c \<noteq> 10 \<and>
      code c \<noteq> 13" for c
    by (rule hex_codes) (use assms in \<open>simp add: sha_text_def list_all_iff\<close>)
  show "CHR ''='' \<notin> set s" "NUL \<notin> set s" "CHR ''-'' \<notin> set s" using all by blast+
  show "one_line s" unfolding one_line_def using all by blast
  have "s \<noteq> []" using assms by (simp add: sha_text_def)
  then show "starts_plain s" unfolding starts_plain_def using all hd_in_set by blast
  show "py_strip s = s" by (rule py_strip_id) (use all in \<open>simp add: list_all_iff\<close>)
qed

lemma strip_plain: "starts_plain s \<Longrightarrow> py_strip s = rev (dropWhile py_isspace (rev s))"
  by (cases s) (simp_all add: starts_plain_def py_strip_def py_lstrip_def)

lemma strip_line:
  assumes "starts_plain a" "starts_plain b"
  shows "py_strip (a @ t @ b) = a @ t @ py_strip b"
proof -
  have "hd b \<in> set (rev b)" using assms(2) by (simp add: starts_plain_def)
  then have "dropWhile py_isspace (rev b @ rev (a @ t)) = dropWhile py_isspace (rev b) @ rev (a @ t)"
    using assms(2) by (intro dropWhile_append1) (auto simp: starts_plain_def)
  then show ?thesis
    using strip_plain [OF starts_plain_append [OF assms(1), of "t @ b"]] strip_plain [OF assms(2)] by simp
qed

lemma split_once_line: "CHR ''='' \<notin> set s \<Longrightarrow> split_once ''==='' (s @ ''==='' @ r) = Some (s, r)"
  by (induction s) (auto simp: py_startswith_def)

definition map_text :: "string \<times> string \<Rightarrow> string" where
  "map_text c = fst c @ ''==='' @ transform_message (snd c)"

lemma map_line_text: "sha_text (fst c) \<Longrightarrow>
    map_line (map_text c) = Some (utf8_encode (fst c), utf8_encode (py_strip (transform_message (snd c))))"
  using sha_plain [of "fst c"] strip_line [OF _ message_starts, of "fst c" "''==='' "]
  by (simp add: map_line_def map_text_def split_once_line [simplified])

lemma map_text_line: "sha_text (fst c) \<Longrightarrow> one_line (map_text c)"
  using sha_plain(2) [of "fst c"] by (simp add: map_text_def one_line_message code_def)

lemma write_map_lines: "write_map cs = concat (map (\<lambda>l. l @ [newline]) (map map_text cs))"
  by (induction cs) (auto simp: write_map_def map_text_def)

lemma map_of_rev: "distinct (map fst xs) \<Longrightarrow> map_of (rev xs) = map_of xs"
  by (simp add: map_of_inject_set rev_map [symmetric])

lemma map_lines_read: "\<forall>c\<in>set cs. sha_text (fst c) \<Longrightarrow> List.map_filter map_line (map map_text cs @ [[]]) =
    map (\<lambda>c. (utf8_encode (fst c), utf8_encode (py_strip (transform_message (snd c))))) cs"
proof (induction cs)
  case Nil
  have "map_line [] = None" by (simp add: map_line_def)
  then show ?case by (simp add: List.map_filter_simps)
next
  case (Cons c cs)
  then have "map_line (map_text c) = Some (utf8_encode (fst c), utf8_encode (py_strip (transform_message (snd c))))"
    by (intro map_line_text) simp
  moreover have "\<forall>c\<in>set cs. sha_text (fst c)" using Cons.prems by simp
  ultimately show ?case
    using Cons.IH by (simp only: list.map append_Cons List.map_filter_simps option.case)
qed

lemma read_map_written:
  assumes "distinct (map fst cs)" "\<forall>c\<in>set cs. sha_text (fst c)" "(sha, m) \<in> set cs"
  shows "read_map (write_map cs) (utf8_encode sha) = Some (utf8_encode (py_strip (transform_message m)))"
proof -
  let ?xs = "map (\<lambda>c. (utf8_encode (fst c), utf8_encode (py_strip (transform_message (snd c))))) cs"
  have k: "distinct (map (utf8_encode \<circ> fst) cs)"
    using assms(1) by (simp add: distinct_map inj_on_def utf8_inj)
  have "file_lines (write_map cs) = map map_text cs @ [[]]"
    unfolding write_map_lines by (rule file_lines_written) (use assms(2) map_text_line in auto)
  moreover have "List.map_filter map_line (map map_text cs @ [[]]) = ?xs"
    using assms(2) by (rule map_lines_read)
  moreover have d: "distinct (map fst ?xs)" using k by (simp add: o_def)
  moreover have "(utf8_encode sha, utf8_encode (py_strip (transform_message m))) \<in> set ?xs"
    using assms(3) by force
  ultimately show ?thesis by (simp add: read_map_def map_of_rev del: set_map map_map)
qed

section \<open>The log\<close>

text \<open>What \<^verbatim>\<open>git log --format=%H%x00%B%x00---END---\<close> prints: a line end after each entry.\<close>

definition git_log :: "(string \<times> string) list \<Rightarrow> string" where
  "git_log history = concat (map (\<lambda>c. fst c @ [NUL] @ snd c @ [NUL] @ log_end) history)"

definition has_text :: "string \<Rightarrow> string \<Rightarrow> bool" where
  "has_text sep s = (split_once sep s \<noteq> None)"

lemma has_text_simps [simp]:
  "\<not> has_text sep []"
  "has_text sep (c # cs) \<longleftrightarrow> py_startswith (c # cs) sep \<or> has_text sep cs"
  by (auto simp: has_text_def)

lemma starts_in_first:
  assumes "py_startswith (a @ x # b) sep" "x \<notin> set sep"
  shows "py_startswith a sep"
proof (cases "length sep \<le> length a")
  case True
  with assms(1) show ?thesis by (simp add: py_startswith_def)
next
  case False
  then have "x \<in> set (take (length sep) (a @ x # b))"
    by (cases "length sep - length a") auto
  with assms show ?thesis by (simp add: py_startswith_def)
qed

lemma has_text_between: "x \<notin> set sep \<Longrightarrow> sep \<noteq> [] \<Longrightarrow> has_text sep (a @ x # b) \<Longrightarrow> has_text sep a \<or> has_text sep b"
proof (induction a)
  case Nil
  then show ?case using starts_in_first [of "[]" x b sep] by (auto simp: py_startswith_def)
next
  case (Cons c a)
  then show ?case using starts_in_first [of "c # a" x b sep] by auto
qed

lemma has_text_chars: "has_text sep a \<Longrightarrow> set sep \<subseteq> set a"
proof (induction a)
  case (Cons c a)
  have "py_startswith (c # a) sep \<Longrightarrow> set sep \<subseteq> set (c # a)"
    unfolding py_startswith_def by (metis set_take_subset)
  with Cons show ?case by auto
qed simp

lemma split_text_block: "x \<notin> set sep \<Longrightarrow> sep \<noteq> [] \<Longrightarrow> \<not> has_text sep y \<Longrightarrow>
    split_text sep (y @ x # sep @ r) = (y @ [x]) # split_text sep r"
proof (induction y)
  case Nil
  obtain d ds where "sep = d # ds" using Nil by (cases sep) auto
  with Nil show ?case by (auto simp: py_startswith_def)
next
  case (Cons c y)
  have "\<not> py_startswith (c # y @ x # sep @ r) sep"
    using starts_in_first [of "c # y" x "sep @ r" sep] Cons.prems by auto
  with Cons show ?case by simp
qed

lemma split_NUL: "NUL \<notin> set m \<Longrightarrow> py_split NUL (m @ [NUL]) = [m, []]"
  by (induction m) auto

lemma split_first: "NUL \<notin> set s \<Longrightarrow> py_split NUL (s @ NUL # r) = s # py_split NUL r"
  by (induction s) auto

definition clean_entry :: "string \<times> string \<Rightarrow> bool" where
  "clean_entry c = (sha_text (fst c) \<and> NUL \<notin> set (snd c) \<and> \<not> has_text log_end (snd c))"

lemma log_end_codes: "NUL \<notin> set log_end" "CHR ''-'' \<in> set log_end" "log_end \<noteq> []"
  by code_simp+

lemma log_commit_entry:
  assumes "clean_entry c"
  shows "log_commit (fst c @ NUL # snd c @ [NUL]) = [(fst c, py_strip (snd c))]"
proof -
  note s = sha_plain [of "fst c"]
  have c: "sha_text (fst c)" "NUL \<notin> set (snd c)" using assms by (simp_all add: clean_entry_def)
  have "\<not> py_isspace NUL" by (simp add: NUL_def py_isspace_def)
  then have "py_strip (fst c @ NUL # snd c @ [NUL]) \<noteq> []"
    using strip_line [of "fst c" "[NUL]" "NUL # snd c"] s(1) c(1) by (simp add: starts_plain_def)
  then show ?thesis using c s(4,6) by (simp add: log_commit_def split_first split_NUL)
qed

lemma read_log_git: "\<forall>c\<in>set history. clean_entry c \<Longrightarrow>
    read_log (git_log history) = map (\<lambda>c. (fst c, py_strip (snd c))) history"
proof (induction history)
  case Nil
  then show ?case by (simp add: read_log_def git_log_def log_commit_def)
next
  case (Cons c history)
  then have c: "clean_entry c" by simp
  then have "\<not> has_text log_end (fst c)"
    using has_text_chars [of log_end "fst c"] log_end_codes(2) sha_plain(5) by (auto simp: clean_entry_def)
  then have "\<not> has_text log_end (fst c @ NUL # snd c)"
    using has_text_between [OF log_end_codes(1,3)] c by (auto simp: clean_entry_def)
  then have "split_text log_end (git_log (c # history)) =
      (fst c @ NUL # snd c @ [NUL]) # split_text log_end (git_log history)"
    using split_text_block [OF log_end_codes(1,3), of "fst c @ NUL # snd c" "git_log history"]
    by (simp add: git_log_def)
  then show ?case using Cons by (simp add: read_log_def log_commit_entry)
qed

lemma last_utf8: "s \<noteq> [] \<Longrightarrow> code (last s) \<noteq> 10 \<Longrightarrow> last (utf8_encode s) \<noteq> 10"
proof (induction s rule: rev_induct)
  case (snoc c s)
  have b: "n = 10" if "n < 256" "nat_byte n = 10" for n
    using unat_nat_byte [OF that(1)] that(2) by simp
  have "128 + code c mod 64 < 256" using mod_less_divisor [of 64 "code c"] by linarith
  then have "nat_byte (128 + code c mod 64) \<noteq> 10" using b [of "128 + code c mod 64"] by auto
  moreover have "code c < 128 \<Longrightarrow> nat_byte (code c) \<noteq> 10" using b [of "code c"] snoc.prems by auto
  ultimately show ?case using snoc.prems by (auto simp: utf8_encode_def utf8_char_def Let_def)
qed simp

lemma strip_last: "py_strip s \<noteq> [] \<Longrightarrow> \<not> py_isspace (last (py_strip s))"
  by (auto simp: py_strip_def last_rev hd_dropWhile)



end
