(* ===== verification/Self_Check.thy ===== *)
theory Self_Check
  imports Ratchet_Theorems Crypto_At_Rest Tor_Circuits
begin

text \<open>
  The project's own check of its cryptography, \<^verbatim>\<open>scripts/verify_crypto.py\<close>, on the model of the
  routines it calls. AES-GCM, HKDF and X25519 are one parameter and ChaCha20-Poly1305 another;
  what the script draws at random is an argument. A check that raises ends the run as one whose
  assertion fails does.
\<close>

section \<open>The checks\<close>

definition hexb :: "string \<Rightarrow> bytes" where
  "hexb t = (case from_hex t of Some b \<Rightarrow> b | None \<Rightarrow> [])"

definition check_hkdf :: "crypto \<Rightarrow> bool" where
  "check_hkdf c =
     (hkdf c 42 (hexb ''000102030405060708090a0b0c'') (hexb ''f0f1f2f3f4f5f6f7f8f9'')
        (hexb ''0b0b0b0b0b0b0b0b0b0b0b0b0b0b0b0b0b0b0b0b0b0b'') =
      hexb ''3cb25f25faacd57a90434f64d0362f2a2d2d0a90cf1a5a4c5db02d56ecc4c5bf34007208d5b887185865'')"

definition check_x25519 :: "crypto \<Rightarrow> bool" where
  "check_x25519 c =
     (dh_exchange c (hexb ''5dab087e624a8a4b79e17f8b83800ee66f3bb1292618b6fd1c2f8b27ff88e0eb'')
        (hexb ''8520f0098930a754748b7ddcb43ef75a0dbf3a0d26381af4eba4a98eaa9b4e6a'') =
      Some (hexb ''4a5d9d5ba4ce2de1728e3bf480350f25e07e21c947d19e3376f09b3c1e161742''))"

definition seals_and_opens :: "crypto \<Rightarrow> bytes \<Rightarrow> bytes \<Rightarrow> bytes \<Rightarrow> bytes \<Rightarrow> bool" where
  "seals_and_opens c k n pt aad =
     (case aead_seal c k n pt aad of Some ct \<Rightarrow> aead_open c k n ct aad = Some pt | None \<Rightarrow> False)"

definition check_aead :: "crypto \<Rightarrow> crypto \<Rightarrow> bytes \<Rightarrow> bytes \<Rightarrow> bool" where
  "check_aead c chacha k n =
     (let pt = utf8_encode ''AnonyMus payload''; aad = utf8_encode ''protocol=v3''
      in seals_and_opens c k n pt aad \<and> seals_and_opens chacha k n pt aad)"

definition check_db_key :: "hashes \<Rightarrow> bool \<Rightarrow> bytes \<Rightarrow> bytes \<Rightarrow> bool" where
  "check_db_key h argon2 fresh1 fresh2 =
     (let salt = utf8_encode (replicate 16 (CHR ''s''));
          (k1, s1) = derive_db_key h argon2 fresh1 ''pwd1'' (Some salt) (Some 1000);
          (k2, s2) = derive_db_key h argon2 fresh2 ''pwd1'' (Some salt) (Some 1000)
      in k1 = k2 \<and> length k1 = 32)"

definition check_badge :: "hashes \<Rightarrow> bytes \<Rightarrow> bool" where
  "check_badge h ed_priv =
     (case generate_supporter_badge_signature h ''node.onion'' (b64_encode ed_priv) of
        Inl e \<Rightarrow> False
      | Inr sig \<Rightarrow>
          (case b64_decode sig of
             None \<Rightarrow> False
           | Some s \<Rightarrow> ed25519_verify h (ed25519_public h ed_priv) s (utf8_encode ''node.onion'')))"

definition check_hybrid :: "crypto \<Rightarrow> bool" where
  "check_hybrid c =
     (let c1 = pq_combine c (replicate 32 1) (replicate 32 2); c2 = pq_combine c (replicate 32 1) (replicate 32 2)
      in c1 = c2 \<and> length c1 = 32)"

definition check_ratchet :: "crypto \<Rightarrow> bytes \<Rightarrow> bytes \<Rightarrow> bytes \<Rightarrow> bytes \<Rightarrow> bool" where
  "check_ratchet c sk alice_dh bob_dh fresh =
     (case (init_alice c alice_dh sk (dh_public c bob_dh), init_bob sk bob_dh) of
        (Inr alice_s, Inr bob_s) \<Rightarrow>
          (case dr_encrypt c alice_s of
             (Inr (mk_a, pub_a, seq_a, prev_a), _) \<Rightarrow>
               fst (dr_decrypt c fresh pub_a seq_a prev_a bob_s) = Inr mk_a
           | _ \<Rightarrow> False)
      | _ \<Rightarrow> False)"

definition check_safety_numbers :: bool where
  "check_safety_numbers =
     (let k1 = b64_encode (replicate 32 1); k2 = b64_encode (replicate 32 2);
          sn1 = compute_safety_number k1 k2; sn2 = compute_safety_number k2 k1
      in sn1 = sn2 \<and> length (py_words sn1) = 12)"

text \<open>What the script draws: two keys and nonces, the badge key, and the keys of the ratchet.\<close>

record drawn =
  dr_k :: bytes
  dr_n :: bytes
  dr_salts :: "bytes \<times> bytes"
  dr_ed :: bytes
  dr_sk :: bytes
  dr_alice :: bytes
  dr_bob :: bytes
  dr_fresh :: bytes

definition self_checks :: "crypto \<Rightarrow> crypto \<Rightarrow> hashes \<Rightarrow> bool \<Rightarrow> drawn \<Rightarrow> bool list" where
  "self_checks c chacha h argon2 d =
     [check_hkdf c, check_x25519 c, check_aead c chacha (dr_k d) (dr_n d),
      check_db_key h argon2 (fst (dr_salts d)) (snd (dr_salts d)), check_badge h (dr_ed d), check_hybrid c,
      check_ratchet c (dr_sk d) (dr_alice d) (dr_bob d) (dr_fresh d), check_safety_numbers]"

fun run_from :: "nat \<Rightarrow> bool list \<Rightarrow> nat py" where
  "run_from passed [] = Inr passed"
| "run_from passed (ok # rest) =
     (if ok then run_from (Suc passed) rest else Inl (RuntimeError ''AssertionError''))"

definition run_checks :: "crypto \<Rightarrow> crypto \<Rightarrow> hashes \<Rightarrow> bool \<Rightarrow> drawn \<Rightarrow> nat py" where
  "run_checks c chacha h argon2 d = run_from 0 (self_checks c chacha h argon2 d)"

section \<open>Each check passes\<close>

lemma run_from_all: "run_from n bs = (if list_all id bs then Inr (n + length bs) else Inl (RuntimeError ''AssertionError''))"
  by (induction bs arbitrary: n) auto

lemma badge_passes: "ed25519_correct h \<Longrightarrow> length priv = 32 \<Longrightarrow> check_badge h priv"
  by (simp add: check_badge_def generate_supporter_badge_signature_def ed25519_correct_def)

lemma hybrid_passes: "hkdf_length c \<Longrightarrow> check_hybrid c"
  by (simp add: check_hybrid_def pq_combine_def hkdf_length_def)

lemma ratchet_passes:
  assumes "hkdf_length c" "dh_commutes c" "dh_keys_ok c" "length pb = 32"
  shows "check_ratchet c sk pa pb fresh"
proof -
  obtain a where a: "init_alice c pa sk (dh_public c pb) = Inr a" using init_alice_total [OF assms(3)] by blast
  obtain b where b: "init_bob sk pb = Inr b" using init_bob_total [OF assms(4)] by blast
  have "lead c pa pb (a\<lparr>kem_ciphertext_b64 := kem_ciphertext_b64 a\<rparr>) b" by (rule init_lead [OF a b])
  then have "lead c pa pb a b" by simp
  from lead_step [OF assms(1-3) this, of fresh] show ?thesis
    by (auto simp: check_ratchet_def a b)
qed

lemma split_where_blank: "\<forall>c\<in>set s. py_isspace c \<longleftrightarrow> c = CHR '' '' \<Longrightarrow>
    split_where py_isspace s = py_split (CHR '' '') s"
  by (induction s) auto

lemma py_split_chars: "c \<in> set s \<Longrightarrow> c = sep \<or> (\<exists>w\<in>set (py_split sep s). c \<in> set w)"
  by (induction sep s rule: py_split.induct) (auto split: list.splits)

lemma safety_words: "length (py_words (compute_safety_number k1 k2)) = 12"
proof -
  let ?s = "compute_safety_number k1 k2"
  let ?ws = "py_split (CHR '' '') ?s"
  have l: "length ?ws = 12" and g: "\<forall>w\<in>set ?ws. is_group w"
    using safety_number_shape [of k1 k2] unfolding list_all_iff by blast+
  have d: "is_group w \<Longrightarrow> c \<in> set w \<Longrightarrow> \<not> py_isspace c" for w c
    by (auto simp: is_group_def is_digit_def py_isspace_def code_def Let_def)
  have "py_isspace (CHR '' '')" by (simp add: py_isspace_def)
  then have "\<forall>c\<in>set ?s. py_isspace c \<longleftrightarrow> c = CHR '' ''"
    using py_split_chars [of _ ?s "CHR '' ''"] g d by blast
  moreover have "filter (\<lambda>w. w \<noteq> []) ?ws = ?ws"
    using g by (auto simp: filter_id_conv is_group_def)
  ultimately show ?thesis by (simp add: py_words_def split_where_blank l)
qed

lemma safety_passes: check_safety_numbers
  using safety_number_shape [of "b64_encode (replicate 32 1)" "b64_encode (replicate 32 2)"] safety_words
  unfolding check_safety_numbers_def Let_def by blast

section \<open>The run\<close>

definition kdf_lengths :: "hashes \<Rightarrow> bool" where
  "kdf_lengths h \<longleftrightarrow> (\<forall>p s t m q n. length (argon2id h p s t m q n) = n) \<and>
     (\<forall>p s n. length (pbkdf2_sha256 h p s n) = 32)"

lemma db_key_passes: "kdf_lengths h \<Longrightarrow> check_db_key h argon2 f1 f2"
  by (simp add: check_db_key_def derive_db_key_def kdf_lengths_def)

definition aead_seals :: "crypto \<Rightarrow> bool" where
  "aead_seals c \<longleftrightarrow> (\<forall>k n p a. length k = 32 \<longrightarrow> length n = 12 \<longrightarrow> aead_seal c k n p a \<noteq> None)"

lemma seals_passes: "aead_correct c \<Longrightarrow> aead_seals c \<Longrightarrow> length k = 32 \<Longrightarrow> length n = 12 \<Longrightarrow> seals_and_opens c k n p a"
  by (auto simp: seals_and_opens_def aead_correct_def aead_seals_def split: option.split)

text \<open>The check of the cryptography passes: with libraries that keep their laws and the two
  published test vectors, all eight checks of the script succeed on the routines of the program,
  whatever keys it draws, with and without the package for Argon2.\<close>

theorem self_check_passes:
  assumes "check_hkdf c" "check_x25519 c" "hkdf_length c" "dh_commutes c" "dh_keys_ok c"
    and "aead_correct c" "aead_seals c" "aead_correct chacha" "aead_seals chacha"
    and "kdf_lengths h" "ed25519_correct h"
    and "length (dr_k d) = 32" "length (dr_n d) = 12" "length (dr_ed d) = 32" "length (dr_bob d) = 32"
  shows "run_checks c chacha h argon2 d = Inr 8"
  using assms
  by (simp add: run_checks_def run_from_all self_checks_def check_aead_def Let_def seals_passes db_key_passes
      badge_passes hybrid_passes ratchet_passes safety_passes)

text \<open>Libraries that keep the laws: those of the examples, with the test vectors put in.\<close>

definition vector_crypto :: crypto where
  "vector_crypto = toy_crypto\<lparr>
     hkdf := (\<lambda>n salt info ikm.
       if n = 42 \<and> salt = hexb ''000102030405060708090a0b0c'' \<and> info = hexb ''f0f1f2f3f4f5f6f7f8f9'' \<and>
         ikm = hexb ''0b0b0b0b0b0b0b0b0b0b0b0b0b0b0b0b0b0b0b0b0b0b''
       then hexb ''3cb25f25faacd57a90434f64d0362f2a2d2d0a90cf1a5a4c5db02d56ecc4c5bf34007208d5b887185865''
       else hkdf toy_crypto n salt info ikm),
     dh_exchange := (\<lambda>a p.
       if {toy_norm a, toy_norm p} = {hexb ''5dab087e624a8a4b79e17f8b83800ee66f3bb1292618b6fd1c2f8b27ff88e0eb'',
         hexb ''8520f0098930a754748b7ddcb43ef75a0dbf3a0d26381af4eba4a98eaa9b4e6a''}
       then Some (hexb ''4a5d9d5ba4ce2de1728e3bf480350f25e07e21c947d19e3376f09b3c1e161742'')
       else dh_exchange toy_crypto a p)\<rparr>"

definition toy_hashes :: hashes where
  "toy_hashes = \<lparr>argon2id = (\<lambda>p s t m q n. take n (p @ replicate n 0)),
     pbkdf2_sha256 = (\<lambda>p s n. take 32 (p @ replicate 32 0)), ed25519_verify = (\<lambda>k s m. s = k @ m),
     ed25519_sign = (\<lambda>k m. toy_norm k @ m), ed25519_public = toy_norm\<rparr>"

lemma okm_length:
  "length (hexb ''3cb25f25faacd57a90434f64d0362f2a2d2d0a90cf1a5a4c5db02d56ecc4c5bf34007208d5b887185865'') = 42"
  by code_simp

lemma vector_crypto_ok:
  "check_hkdf vector_crypto" "check_x25519 vector_crypto" "hkdf_length vector_crypto" "dh_commutes vector_crypto"
  "dh_keys_ok vector_crypto" "aead_correct vector_crypto" "aead_seals vector_crypto"
proof -
  have n: "toy_norm b = b" if "length b = 32" for b using that by (simp add: toy_norm_def)
  have l: "length (hexb ''5dab087e624a8a4b79e17f8b83800ee66f3bb1292618b6fd1c2f8b27ff88e0eb'') = 32"
    "length (hexb ''8520f0098930a754748b7ddcb43ef75a0dbf3a0d26381af4eba4a98eaa9b4e6a'') = 32"
    by code_simp+
  show "check_hkdf vector_crypto" by (simp add: check_hkdf_def vector_crypto_def del: from_hex.simps)
  show "check_x25519 vector_crypto" by (simp add: check_x25519_def vector_crypto_def n l)
  show "hkdf_length vector_crypto"
    using toy_crypto_ok(1) by (simp add: hkdf_length_def vector_crypto_def okm_length)
  have p: "dh_public vector_crypto = toy_norm" "dh_public toy_crypto = toy_norm"
    by (simp_all add: vector_crypto_def toy_crypto_def)
  show "dh_commutes vector_crypto"
    using toy_crypto_ok(3) by (simp add: dh_commutes_def p) (simp add: vector_crypto_def insert_commute)
  show "dh_keys_ok vector_crypto"
    using toy_crypto_ok(5) by (simp add: dh_keys_ok_def p) (simp add: vector_crypto_def)
  show "aead_correct vector_crypto" "aead_seals vector_crypto"
    using toy_crypto_ok(2) by (simp_all add: aead_correct_def aead_seals_def vector_crypto_def)
      (simp add: toy_crypto_def)
qed

lemma toy_hashes_ok: "kdf_lengths toy_hashes" "ed25519_correct toy_hashes"
  by (auto simp: kdf_lengths_def ed25519_correct_def toy_hashes_def min_def)

theorem self_check_passes_witness:
  "run_checks vector_crypto vector_crypto toy_hashes False
     \<lparr>dr_k = replicate 32 1, dr_n = replicate 12 2, dr_salts = ([], []), dr_ed = replicate 32 3, dr_sk = [4],
      dr_alice = [5], dr_bob = replicate 32 6, dr_fresh = [7]\<rparr> = Inr 8"
  by (rule self_check_passes)
    (simp_all add: vector_crypto_ok toy_hashes_ok)

section \<open>What the checks do not see\<close>

text \<open>The line that is printed for Argon2id does not depend on it: the fallback passes as well.\<close>

lemma kdf_check_blind: "kdf_lengths h \<Longrightarrow> check_db_key h False f1 f2 = check_db_key h True f1 f2"
  by (simp add: db_key_passes)

text \<open>The line on the integrity of the associated data is printed for a cipher that ignores it.\<close>

definition unbound :: crypto where
  "unbound = toy_crypto\<lparr>aead_seal := (\<lambda>k n p a. Some p), aead_open := (\<lambda>k n ct a. Some ct)\<rparr>"

lemma aead_check_blind: "check_aead unbound unbound k n \<and> \<not> aead_binds unbound"
proof -
  have "aead_seal unbound [] [] [] [] = Some []" "aead_open unbound [] [] [] [0] \<noteq> None"
    by (simp_all add: unbound_def)
  then have "\<not> aead_binds unbound" unfolding aead_binds_def by (metis not_Cons_self2)
  then show ?thesis by (simp add: check_aead_def seals_and_opens_def unbound_def)
qed

end
