(* ===== verification/Release_Tools.thy ===== *)
theory Release_Tools
  imports Tor_Bundle Json
begin

text \<open>
  The scripts around a release: \<^verbatim>\<open>launcher/build.py\<close> (the Windows installer),
  \<^verbatim>\<open>launcher/build_release_packages.py\<close> (the release directory) and
  \<^verbatim>\<open>scripts/verify_reproducible_build.py\<close> (the list of hashes). Files are a map from paths below
  the project's directory; what another program does to them is an argument that gives its exit
  code and the files afterwards.
\<close>

section \<open>Files\<close>

datatype entry = File bytes | Directory

type_synonym path = "string list"
type_synonym tree = "path \<Rightarrow> entry option"
type_synonym program = "string list \<Rightarrow> tree \<Rightarrow> nat \<times> tree"

definition below_path :: "path \<Rightarrow> path \<Rightarrow> bool" where
  "below_path p q = (take (length p) q = p)"

definition rmtree :: "path \<Rightarrow> tree \<Rightarrow> tree" where
  "rmtree p t = (\<lambda>q. if below_path p q then None else t q)"

definition make_dirs :: "path \<Rightarrow> tree \<Rightarrow> tree" where
  "make_dirs p t = (\<lambda>q. if below_path q p \<and> q \<noteq> [] \<and> t q = None then Some Directory else t q)"

definition copytree :: "path \<Rightarrow> path \<Rightarrow> tree \<Rightarrow> tree" where
  "copytree src dst t = (\<lambda>q. if below_path dst q \<and> t (src @ drop (length dst) q) \<noteq> None
     then t (src @ drop (length dst) q) else t q)"

text \<open>\<^verbatim>\<open>shutil.copy\<close> of a file; \<open>None\<close> is an exception: nothing there, or a directory.\<close>

definition copy_file :: "path \<Rightarrow> path \<Rightarrow> tree \<Rightarrow> tree option" where
  "copy_file src dst t = (case t src of Some (File b) \<Rightarrow> Some (t(dst \<mapsto> File b)) | _ \<Rightarrow> None)"

lemma below_refl [simp]: "below_path p p" "below_path p (p @ q)"
  by (simp_all add: below_path_def)

section \<open>The release directory\<close>

definition DIST_DIR :: path where "DIST_DIR = [''build'', ''release_dist'']"

definition clean_dist :: "tree \<Rightarrow> tree" where
  "clean_dist t = make_dirs DIST_DIR (if t DIST_DIR \<noteq> None then rmtree DIST_DIR t else t)"

text \<open>
  \<^verbatim>\<open>subprocess.run(args, shell=True)\<close> with a list: on POSIX the shell runs the first word and gets
  the others as its own parameters; on Windows they are joined to one command line.
\<close>

definition shell_words :: "bool \<Rightarrow> string list \<Rightarrow> string list" where
  "shell_words posix args = (if posix then take 1 args else args)"

definition build_web_frontend :: "bool \<Rightarrow> program \<Rightarrow> tree \<Rightarrow> unit py \<times> tree" where
  "build_web_frontend posix run t =
     (case run (shell_words posix [''npm'', ''run'', ''build'']) t of
        (rc, t') \<Rightarrow> if rc \<noteq> 0 then (Inl (RuntimeError ''SystemExit 1''), t') else (Inr (), t'))"

text \<open>The files that are copied one by one, each with whether it has to be there.\<close>

definition release_files :: "(string \<times> bool) list" where
  "release_files = [(''anonymus-launcher.py'', True), (''.env.example'', False), (''README.md'', False), (''LICENSE'', False)]"

fun copy_release_files :: "(string \<times> bool) list \<Rightarrow> tree \<Rightarrow> unit py \<times> tree" where
  "copy_release_files [] t = (Inr (), t)"
| "copy_release_files ((name, required) # rest) t =
     (if \<not> required \<and> t [name] = None then copy_release_files rest t
      else case copy_file [name] (DIST_DIR @ [name]) t of
        None \<Rightarrow> (Inl (RuntimeError ''OSError''), t)
      | Some t' \<Rightarrow> copy_release_files rest t')"

definition assemble_release_package :: "tree \<Rightarrow> unit py \<times> tree" where
  "assemble_release_package t =
     copy_release_files release_files
       (if t [''web'', ''dist''] \<noteq> None then copytree [''web'', ''dist''] (DIST_DIR @ [''web_dist'']) t else t)"

definition package_main :: "bool \<Rightarrow> program \<Rightarrow> tree \<Rightarrow> unit py \<times> tree" where
  "package_main posix run t =
     (case build_web_frontend posix run (clean_dist t) of
        (Inl e, t) \<Rightarrow> (Inl e, t)
      | (Inr _, t) \<Rightarrow> assemble_release_package t)"

section \<open>The Windows installer\<close>

text \<open>
  The installer's paths are those of \<^verbatim>\<open>launcher\<close>. \<open>run\<close> is \<^verbatim>\<open>subprocess.run(cmd, check=True)\<close>:
  an exit code other than 0 raises. \<open>iss\<close> is the text of the Inno Setup script, \<open>script\<close> the
  PowerShell commands, \<open>iscc\<close> whether the compiler is installed.
\<close>

definition run_checked :: "program \<Rightarrow> string list \<Rightarrow> tree \<Rightarrow> unit py \<times> tree" where
  "run_checked run cmd t = (case run cmd t of
     (rc, t') \<Rightarrow> ((if rc = 0 then Inr () else Inl (RuntimeError ''CalledProcessError'')), t'))"

definition hidden_imports :: "string list" where
  "hidden_imports = concat (map (\<lambda>m. [''--hidden-import'', m])
     [''flask'', ''flask_socketio'', ''flask_limiter'', ''eventlet'', ''cryptography'', ''bcrypt'', ''requests'',
      ''psycopg2'', ''python-dotenv'', ''dotenv'', ''zeroconf''])"

definition venv_pyinstaller :: path where
  "venv_pyinstaller = [''launcher'', ''venv'', ''Scripts'', ''pyinstaller.exe'']"

definition run_pyinstaller :: "program \<Rightarrow> tree \<Rightarrow> unit py \<times> tree" where
  "run_pyinstaller run t =
     (let exe = (if t venv_pyinstaller \<noteq> None then ''launcher/venv/Scripts/pyinstaller.exe'' else ''pyinstaller'')
      in run_checked run ([exe, ''--name'', ''AnonyMus'', ''--noconfirm'', ''--onedir'', ''--windowed'',
           ''--add-data'', ''app_p2p;app_p2p''] @ hidden_imports @ [''launcher.py'']) t)"

definition write_iss_script :: "string \<Rightarrow> tree \<Rightarrow> tree" where
  "write_iss_script iss t = t([''launcher'', ''setup.iss''] \<mapsto> File (utf8_encode iss))"

definition OUTPUT_DIR :: path where "OUTPUT_DIR = [''launcher'', ''output'']"

definition compile_installer :: "bool \<Rightarrow> program \<Rightarrow> tree \<Rightarrow> unit py \<times> tree" where
  "compile_installer iscc run t =
     (let t = make_dirs OUTPUT_DIR t in
      if \<not> iscc then (Inl (RuntimeError ''Inno Setup Compiler not found''), t)
      else run_checked run [''ISCC.exe'', ''launcher/setup.iss''] t)"

definition sign_executables :: "string \<Rightarrow> program \<Rightarrow> tree \<Rightarrow> unit py \<times> tree" where
  "sign_executables script run t = run_checked run [''powershell'', ''-Command'', script] t"

text \<open>The exit code of the script, and the files.\<close>

definition build_main :: "bool \<Rightarrow> string \<Rightarrow> string \<Rightarrow> program \<Rightarrow> tree \<Rightarrow> nat \<times> tree" where
  "build_main iscc iss script run t =
     (let t = (if t OUTPUT_DIR \<noteq> None then rmtree OUTPUT_DIR t else t) in
      case run_pyinstaller run t of
        (Inl _, t) \<Rightarrow> (1, t)
      | (Inr _, t) \<Rightarrow>
          (case compile_installer iscc run (write_iss_script iss t) of
             (Inl _, t) \<Rightarrow> (1, t)
           | (Inr _, t) \<Rightarrow>
               (case sign_executables script run t of
                  (Inl _, t) \<Rightarrow> (1, t)
                | (Inr _, t) \<Rightarrow> (0, t))))"

section \<open>The list of hashes\<close>

definition artifacts :: "path list" where
  "artifacts = [[''anonymus-launcher.py''], [''requirements.txt''], [''Dockerfile.relay''], [''web'', ''package.json'']]"

definition posix_path :: "path \<Rightarrow> string" where
  "posix_path p = concat (butlast (concat (map (\<lambda>c. [c, ''/'']) p)))"

text \<open>Reading in blocks of 65536 bytes; a directory in the place of the file raises.\<close>

definition compute_file_sha256 :: "entry \<Rightarrow> string py" where
  "compute_file_sha256 e = (case e of
     File b \<Rightarrow> Inr (calculate_sha256 b) | Directory \<Rightarrow> Inl (RuntimeError ''IsADirectoryError''))"

fun subjects :: "tree \<Rightarrow> path list \<Rightarrow> (string \<times> string) list py" where
  "subjects t [] = Inr []"
| "subjects t (p # ps) =
     (case t p of
        None \<Rightarrow> subjects t ps
      | Some e \<Rightarrow>
          (case compute_file_sha256 e of
             Inl err \<Rightarrow> Inl err
           | Inr h \<Rightarrow> (case subjects t ps of Inl err \<Rightarrow> Inl err | Inr ss \<Rightarrow> Inr ((posix_path p, h) # ss))))"

definition manifest :: "(string \<times> string) list \<Rightarrow> json" where
  "manifest ss = JObj [(''_type'', JStr ''https://in-toto.io/Statement/v0.1''),
     (''predicateType'', JStr ''https://slsa.dev/provenance/v0.2''),
     (''subject'', JList (map (\<lambda>(n, h). JObj [(''name'', JStr n), (''digest'', JObj [(''sha256'', JStr h)])]) ss)),
     (''builder'', JObj [(''id'', JStr ''anonymus-reproducible-builder-v1'')])]"

text \<open>\<open>dump\<close> is \<^verbatim>\<open>json.dump\<close> with an indentation.\<close>

definition verify_reproducibility :: "(json \<Rightarrow> string) \<Rightarrow> bool \<Rightarrow> tree \<Rightarrow> json py \<times> tree" where
  "verify_reproducibility dump dry_run t =
     (case subjects t artifacts of
        Inl e \<Rightarrow> (Inl e, t)
      | Inr ss \<Rightarrow> (Inr (manifest ss),
          if dry_run then t else t([''reproducible_attestation.json''] \<mapsto> File (utf8_encode (dump (manifest ss))))))"

section \<open>What the scripts leave behind\<close>

definition stays_in_web :: "program \<Rightarrow> bool" where
  "stays_in_web run \<longleftrightarrow> (\<forall>cmd t q. \<not> below_path [''web''] q \<longrightarrow> snd (run cmd t) q = t q)"

lemma below_dist: "below_path DIST_DIR q \<longleftrightarrow> (\<exists>r. q = DIST_DIR @ r)"
  unfolding below_path_def by (metis append_take_drop_id append_eq_conv_conj)

lemma clean_dist_empty: "clean_dist t (DIST_DIR @ q) = (if q = [] then Some Directory else None)
    \<or> (t DIST_DIR = None \<and> t (DIST_DIR @ q) \<noteq> None)"
  by (auto simp: clean_dist_def make_dirs_def rmtree_def below_path_def DIST_DIR_def)

lemma copy_release_files_below:
  assumes "copy_release_files fs t = (Inr (), t')" "\<forall>(n, r)\<in>set fs. n \<noteq> ''build''" "distinct (map fst fs)"
  shows "t' q = (if \<exists>n r. (n, r) \<in> set fs \<and> q = DIST_DIR @ [n] \<and> t [n] \<noteq> None then t [last q] else t q)"
  using assms
proof (induction fs arbitrary: t)
  case (Cons f fs)
  obtain n r where f: "f = (n, r)" by (cases f)
  show ?case
  proof (cases "t [n]")
    case None
    with Cons f show ?thesis
      by (cases r) (auto simp: copy_file_def)
  next
    case (Some e)
    with Cons.prems(1) f obtain b where e: "e = File b" and
      rest: "copy_release_files fs (t(DIST_DIR @ [n] \<mapsto> File b)) = (Inr (), t')"
      by (auto simp: copy_file_def split: entry.splits)
    let ?t = "t(DIST_DIR @ [n] \<mapsto> File b)"
    have same: "?t [m] = t [m]" for m by (simp add: DIST_DIR_def)
    have "t' q = (if \<exists>n r. (n, r) \<in> set fs \<and> q = DIST_DIR @ [n] \<and> ?t [n] \<noteq> None then ?t [last q] else ?t q)"
      using Cons.IH [OF rest] Cons.prems(2,3) by simp
    with Some e f Cons.prems(3) show ?thesis unfolding same by (auto simp: image_iff)
  qed
qed simp

text \<open>What a release holds, given the files \<open>w\<close> after the frontend was built.\<close>

definition release_entry :: "tree \<Rightarrow> path \<Rightarrow> entry option" where
  "release_entry w q = (case q of
     [] \<Rightarrow> Some Directory
   | n # r \<Rightarrow>
       if n = ''web_dist'' then (if w [''web'', ''dist''] \<noteq> None then w ([''web'', ''dist''] @ r) else None)
       else if r = [] \<and> n \<in> fst ` set release_files then w [n] else None)"

text \<open>A release holds the frontend as it was just built, the start script and the three texts that
  are there, and nothing of an earlier release.\<close>

theorem release_exact:
  assumes "stays_in_web run" "t DIST_DIR = None \<longrightarrow> (\<forall>q. t (DIST_DIR @ q) = None)"
    and "package_main posix run t = (Inr (), t')"
  shows "t' (DIST_DIR @ q) = release_entry (snd (run (shell_words posix [''npm'', ''run'', ''build'']) (clean_dist t))) q"
proof -
  let ?w = "snd (run (shell_words posix [''npm'', ''run'', ''build'']) (clean_dist t))"
  let ?c = "if ?w [''web'', ''dist''] \<noteq> None then copytree [''web'', ''dist''] (DIST_DIR @ [''web_dist'']) ?w else ?w"
  have "\<not> below_path [''web''] (DIST_DIR @ q)" for q by (simp add: below_path_def DIST_DIR_def)
  then have w: "?w (DIST_DIR @ q) = (if q = [] then Some Directory else None)" for q
    using assms(1,2) clean_dist_empty [of t q] unfolding stays_in_web_def by metis
  have r: "copy_release_files release_files ?c = (Inr (), t')"
    using assms(3)
    by (auto simp: package_main_def build_web_frontend_def assemble_release_package_def split: prod.splits sum.splits if_splits)
  have top: "?c [n] = ?w [n]" for n by (simp add: copytree_def below_path_def DIST_DIR_def)
  have c: "?c (DIST_DIR @ q) = (case q of [] \<Rightarrow> Some Directory
    | n # r \<Rightarrow> if n = ''web_dist'' \<and> ?w [''web'', ''dist''] \<noteq> None then ?w ([''web'', ''dist''] @ r) else None)"
    using w [of q] by (cases q) (auto simp: copytree_def below_path_def DIST_DIR_def)
  have "t' (DIST_DIR @ q) = (if \<exists>n r. (n, r) \<in> set release_files \<and> q = [n] \<and> ?c [n] \<noteq> None then ?c [last (DIST_DIR @ q)]
      else ?c (DIST_DIR @ q))"
    using copy_release_files_below [OF r, of "DIST_DIR @ q"] by (simp add: release_files_def)
  moreover have "''web_dist'' \<notin> fst ` set release_files" by (simp add: release_files_def)
  moreover have "(\<exists>r. (n, r) \<in> set release_files) \<longleftrightarrow> n \<in> fst ` set release_files" for n by force
  ultimately show ?thesis
    unfolding c top by (cases q) (auto simp: release_entry_def)
qed

text \<open>On POSIX the frontend is never built: the list with \<^verbatim>\<open>shell=True\<close> runs \<^verbatim>\<open>npm\<close> alone, and
  where that is an error, as it is for npm, the script ends before it assembles anything.\<close>

lemma posix_release_fails:
  assumes "\<forall>t. fst (run [''npm''] t) \<noteq> 0"
  shows "\<exists>e t'. package_main True run t = (Inl e, t')"
proof -
  obtain rc t' where r: "run [''npm''] (clean_dist t) = (rc, t')" by fastforce
  then have "rc \<noteq> 0" using assms by (metis fst_conv)
  with r show ?thesis by (simp add: package_main_def build_web_frontend_def shell_words_def)
qed

text \<open>The installer is never built either: PyInstaller is asked to add a directory that the
  repository does not have.\<close>

lemma installer_never_built:
  assumes "\<forall>cmd t. ''app_p2p;app_p2p'' \<in> set cmd \<and> t [''launcher'', ''app_p2p''] = None \<longrightarrow> fst (run cmd t) \<noteq> 0"
    and "t [''launcher'', ''app_p2p''] = None"
  shows "fst (build_main iscc iss script run t) = 1"
proof -
  let ?t = "if t OUTPUT_DIR \<noteq> None then rmtree OUTPUT_DIR t else t"
  have "?t [''launcher'', ''app_p2p''] = None" using assms(2) by (simp add: rmtree_def)
  then have n: "fst (run ([exe, ''--name'', ''AnonyMus'', ''--noconfirm'', ''--onedir'', ''--windowed'',
      ''--add-data'', ''app_p2p;app_p2p''] @ hidden_imports @ [''launcher.py'']) ?t) \<noteq> 0" for exe
    using assms(1) by simp
  have "\<exists>e t'. run_pyinstaller run ?t = (Inl e, t')"
    unfolding run_pyinstaller_def run_checked_def Let_def using n by (simp only: split_beta if_False) blast
  then show ?thesis unfolding build_main_def Let_def by (elim exE) simp
qed

lemma subjects_cong: "\<forall>p\<in>set ps. t p = t' p \<Longrightarrow> subjects t ps = subjects t' ps"
  by (induction ps) (auto split: option.split sum.split)

text \<open>The verification of the builds compares nothing: the result does not depend on the attestation
  that is there, nor does a file that is missing make it fail.\<close>

lemma attestation_not_compared:
  "fst (verify_reproducibility dump d (t([''reproducible_attestation.json''] := a))) = fst (verify_reproducibility dump d t)"
proof -
  have "subjects (t([''reproducible_attestation.json''] := a)) artifacts = subjects t artifacts"
    by (rule subjects_cong) (simp add: artifacts_def)
  then show ?thesis by (simp add: verify_reproducibility_def split: sum.split)
qed

lemma nothing_attested: "\<forall>p\<in>set artifacts. t p = None \<Longrightarrow> fst (verify_reproducibility dump d t) = Inr (manifest [])"
  by (simp add: verify_reproducibility_def artifacts_def)

lemma attests_content:
  assumes "subjects t ps = Inr ss" "(n, h) \<in> set ss"
  shows "\<exists>p\<in>set ps. \<exists>b. n = posix_path p \<and> t p = Some (File b) \<and> h = sha256_hex b"
  using assms
proof (induction ps arbitrary: ss)
  case (Cons p ps)
  show ?case
  proof (cases "t p")
    case None
    with Cons show ?thesis by simp
  next
    case (Some e)
    with Cons.prems(1) obtain b rest where "e = File b" "subjects t ps = Inr rest"
      "ss = (posix_path p, sha256_hex b) # rest"
      by (auto simp: compute_file_sha256_def calculate_sha256 split: sum.splits entry.splits)
    with Some Cons.IH Cons.prems(2) show ?thesis by auto
  qed
qed simp

end
