(* ===== verification/Request_Schemas.thy ===== *)
theory Request_Schemas
  imports Prekeys V3_Compat Json_Dumps
begin

text \<open>
  The bodies of requests: the pydantic models that the routers of the FastAPI node declare, as data,
  and what it means to validate a JSON body against one. A class is the list of its fields with
  types, bounds, defaults and aliases, and the validators that the class adds. How pydantic reads
  an integer, a truth value or a time from another JSON value is a parameter.
\<close>

section \<open>Types of fields\<close>

datatype fvalue =
    VNone
  | VStr string
  | VInt int
  | VBool bool
  | VTime real
  | VList "fvalue list"
  | VModel "(string \<times> fvalue) list"

text \<open>Strings and lists with bounds on their length, integers with bounds; a nested model lists its fields.\<close>

datatype field_type =
    TStr nat "nat option"
  | TInt "int option" "int option"
  | TBool
  | TTime
  | TList field_type "nat option"
  | TOptional field_type
  | TModel "(string \<times> field_type) list"

text \<open>\<^verbatim>\<open>lax\<close> conversions of the values that have not the type already.\<close>

record pydantic =
  lax_int :: "json \<Rightarrow> int option"
  lax_bool :: "json \<Rightarrow> bool option"
  lax_time :: "json \<Rightarrow> real option"

definition at_most :: "nat \<Rightarrow> nat option \<Rightarrow> bool" where
  "at_most n hi = (case hi of Some k \<Rightarrow> n \<le> k | None \<Rightarrow> True)"

definition in_range :: "int option \<Rightarrow> int option \<Rightarrow> int \<Rightarrow> bool" where
  "in_range lo hi i = ((case lo of Some l \<Rightarrow> l \<le> i | None \<Rightarrow> True) \<and> (case hi of Some h \<Rightarrow> i \<le> h | None \<Rightarrow> True))"

fun collect :: "'a option list \<Rightarrow> 'a list option" where
  "collect [] = Some []"
| "collect (None # xs) = None"
| "collect (Some x # xs) = map_option ((#) x) (collect xs)"

fun check_value :: "pydantic \<Rightarrow> field_type \<Rightarrow> json \<Rightarrow> fvalue option"
and check_members :: "pydantic \<Rightarrow> (string \<times> field_type) list \<Rightarrow> (string \<times> json) list \<Rightarrow> (string \<times> fvalue) list option" where
  "check_value py (TStr lo hi) j = (case j of
     JStr s \<Rightarrow> if lo \<le> length s \<and> at_most (length s) hi then Some (VStr s) else None | _ \<Rightarrow> None)"
| "check_value py (TInt lo hi) j = (case lax_int py j of
     Some i \<Rightarrow> if in_range lo hi i then Some (VInt i) else None | None \<Rightarrow> None)"
| "check_value py TBool j = map_option VBool (lax_bool py j)"
| "check_value py TTime j = map_option VTime (lax_time py j)"
| "check_value py (TList t hi) j = (case j of
     JList xs \<Rightarrow> if at_most (length xs) hi then map_option VList (collect (map (check_value py t) xs)) else None
   | _ \<Rightarrow> None)"
| "check_value py (TOptional t) j = (if j = JNull then Some VNone else check_value py t j)"
| "check_value py (TModel fts) j = (case j of
     JObj kvs \<Rightarrow> map_option VModel (check_members py fts kvs) | _ \<Rightarrow> None)"
| "check_members py [] kvs = Some []"
| "check_members py ((k, t) # fts) kvs = (case map_of kvs k of
     None \<Rightarrow> None
   | Some j \<Rightarrow> (case check_value py t j of
       None \<Rightarrow> None | Some v \<Rightarrow> map_option ((#) (k, v)) (check_members py fts kvs)))"

text \<open>The values of a type.\<close>

fun of_type :: "field_type \<Rightarrow> fvalue \<Rightarrow> bool"
and of_members :: "(string \<times> field_type) list \<Rightarrow> (string \<times> fvalue) list \<Rightarrow> bool" where
  "of_type (TStr lo hi) v = (case v of VStr s \<Rightarrow> lo \<le> length s \<and> at_most (length s) hi | _ \<Rightarrow> False)"
| "of_type (TInt lo hi) v = (case v of VInt i \<Rightarrow> in_range lo hi i | _ \<Rightarrow> False)"
| "of_type TBool v = (case v of VBool _ \<Rightarrow> True | _ \<Rightarrow> False)"
| "of_type TTime v = (case v of VTime _ \<Rightarrow> True | _ \<Rightarrow> False)"
| "of_type (TList t hi) v = (case v of VList vs \<Rightarrow> at_most (length vs) hi \<and> list_all (of_type t) vs | _ \<Rightarrow> False)"
| "of_type (TOptional t) v = (v = VNone \<or> of_type t v)"
| "of_type (TModel fts) v = (case v of VModel kvs \<Rightarrow> of_members fts kvs | _ \<Rightarrow> False)"
| "of_members [] kvs = (kvs = [])"
| "of_members ((k, t) # fts) kvs = (case kvs of (k', v) # rest \<Rightarrow> k' = k \<and> of_type t v \<and> of_members fts rest | [] \<Rightarrow> False)"

section \<open>Models\<close>

text \<open>A field: its name, the key it is read from (its alias if it has one), its type, its default.\<close>

record field_decl =
  fd_name :: string
  fd_key :: string
  fd_type :: field_type
  fd_default :: "fvalue option"

record model =
  md_fields :: "field_decl list"
  md_validators :: "(string \<times> (string \<Rightarrow> string option)) list"

text \<open>A validator of the class works on a string field and may raise.\<close>

definition run_validator :: "(string \<times> (string \<Rightarrow> string option)) list \<Rightarrow> string \<Rightarrow> fvalue \<Rightarrow> fvalue option" where
  "run_validator vs name v = (case (map_of vs name, v) of
     (Some f, VStr s) \<Rightarrow> map_option VStr (f s)
   | _ \<Rightarrow> Some v)"

definition check_field :: "pydantic \<Rightarrow> model \<Rightarrow> (string \<times> json) list \<Rightarrow> field_decl \<Rightarrow> (string \<times> fvalue) option" where
  "check_field py m kvs fd = (case map_of kvs (fd_key fd) of
     None \<Rightarrow> map_option (Pair (fd_name fd)) (fd_default fd)
   | Some j \<Rightarrow> (case check_value py (fd_type fd) j of
       None \<Rightarrow> None
     | Some v \<Rightarrow> map_option (Pair (fd_name fd)) (run_validator (md_validators m) (fd_name fd) v)))"

text \<open>\<open>None\<close> is the answer 422. Keys that are no field's are ignored, defaults are not validated.\<close>

definition parse_body :: "pydantic \<Rightarrow> model \<Rightarrow> json \<Rightarrow> (string \<times> fvalue) list option" where
  "parse_body py m j = (case j of
     JObj kvs \<Rightarrow> collect (map (check_field py m kvs) (md_fields m)) | _ \<Rightarrow> None)"

section \<open>The models of the routers\<close>

definition any_str :: field_type where "any_str = TStr 0 None"
definition onion_str :: field_type where "onion_str = TStr 16 (Some 128)"

definition need :: "string \<Rightarrow> field_type \<Rightarrow> field_decl" where
  "need k t = \<lparr>fd_name = k, fd_key = k, fd_type = t, fd_default = None\<rparr>"

definition default_field :: "string \<Rightarrow> field_type \<Rightarrow> fvalue \<Rightarrow> field_decl" where
  "default_field k t v = \<lparr>fd_name = k, fd_key = k, fd_type = t, fd_default = Some v\<rparr>"

definition aliased :: "string \<Rightarrow> string \<Rightarrow> field_type \<Rightarrow> field_decl" where
  "aliased k alias t = \<lparr>fd_name = k, fd_key = alias, fd_type = t, fd_default = None\<rparr>"

definition plain_model :: "field_decl list \<Rightarrow> model" where
  "plain_model fds = \<lparr>md_fields = fds, md_validators = []\<rparr>"

definition strings :: "string list \<Rightarrow> model" where
  "strings ks = plain_model (map (\<lambda>k. need k any_str) ks)"

subsection \<open>Accounts\<close>

definition safe_username :: "string \<Rightarrow> string option" where
  "safe_username v = (if re_dollar (\<lambda>w. w \<noteq> [] \<and> list_all username_char w) v then Some (py_lower v) else None)"

definition RegisterRequest_auth :: model where
  "RegisterRequest_auth = \<lparr>md_fields = [need ''username'' (TStr 3 (Some 64)), need ''password'' (TStr 8 (Some 256))],
     md_validators = [(''username'', safe_username)]\<rparr>"

definition LoginRequest :: model where
  "LoginRequest = strings [''username'', ''password'']"

subsection \<open>Routes for older interfaces\<close>

definition LegacyLoginRequest :: model where
  "LegacyLoginRequest = strings [''username'', ''password'']"

definition LegacyAddContactRequest :: model where
  "LegacyAddContactRequest = strings [''onion_address'', ''nickname'']"

definition LegacySendMessageRequest :: model where
  "LegacySendMessageRequest = plain_model [need ''recipient_onion'' any_str, aliased ''ciphertext_b64'' ''ciphertext'' any_str,
     aliased ''iv_b64'' ''iv'' any_str, aliased ''sequence_number'' ''seq'' (TInt None None)]"

definition LegacyCreateGroupRequest :: model where
  "LegacyCreateGroupRequest = plain_model [need ''name'' any_str, need ''founder_onion'' any_str,
     default_field ''is_channel'' (TInt None None) (VInt 0), default_field ''member_onions'' (TList any_str None) (VList [])]"

definition LegacySaveGroupMessageRequest :: model where
  "LegacySaveGroupMessageRequest = plain_model [need ''group_id'' any_str, need ''sender_onion'' any_str,
     need ''sender_nickname'' any_str, need ''message'' any_str, need ''timestamp'' (TInt None None)]"

definition LegacySaveSecretRequest :: model where
  "LegacySaveSecretRequest = plain_model [need ''onion_address'' any_str, need ''shared_secret'' any_str,
     need ''peer_public_key'' any_str, default_field ''dr_state'' (TOptional any_str) VNone,
     default_field ''peer_kem_public_key'' (TOptional any_str) VNone,
     default_field ''my_kem_private_key'' (TOptional any_str) VNone]"

definition LegacyAcceptContactRequest :: model where
  "LegacyAcceptContactRequest = strings [''onion_address'', ''my_public_key'', ''shared_secret'']"

definition LegacyDeleteContactRequest :: model where
  "LegacyDeleteContactRequest = strings [''onion_address'']"

definition LegacySupporterBadgeRequest :: model where
  "LegacySupporterBadgeRequest = strings [''onion_address'', ''signature'']"

definition LegacyCreateProfileRequest :: model where
  "LegacyCreateProfileRequest = plain_model [need ''display_name'' any_str,
     default_field ''hidden'' (TInt None None) (VInt 0), default_field ''passphrase'' any_str (VStr [])]"

subsection \<open>Contacts, groups, keys and messages\<close>

definition AddContactRequest :: model where
  "AddContactRequest = plain_model [need ''onion_address'' onion_str,
     default_field ''nickname'' (TOptional (TStr 0 (Some 64))) VNone]"

definition CreateGroupRequest :: model where
  "CreateGroupRequest = plain_model [need ''name'' (TStr 1 (Some 128)),
     default_field ''member_onions'' (TList any_str None) (VList []), default_field ''is_channel'' TBool (VBool False)]"

definition SendGroupMessageRequest :: model where
  "SendGroupMessageRequest = strings [''ciphertext_b64'', ''group_id'']"

definition RotateSignedPreKeyRequest :: model where
  "RotateSignedPreKeyRequest = plain_model [need ''onion_address'' onion_str, need ''signed_prekey'' any_str,
     need ''signed_prekey_sig'' any_str, need ''pq_prekey'' any_str, need ''pq_prekey_sig'' any_str]"

text \<open>\<^verbatim>\<open>SealedSenderBlock\<close>, the same in both routers.\<close>

definition sealed_type :: field_type where
  "sealed_type = TModel [(''ephemeral_pub'', any_str), (''ciphertext'', any_str), (''iv'', any_str)]"

definition SendMessageRequest :: model where
  "SendMessageRequest = plain_model [need ''recipient_onion'' onion_str, need ''ciphertext_b64'' any_str,
     need ''iv_b64'' any_str, need ''sequence_number'' (TInt (Some 0) None),
     default_field ''disappears_at'' (TOptional TTime) VNone, default_field ''sealed_sender'' (TOptional sealed_type) VNone]"

definition ResolveSenderRequest :: model where
  "ResolveSenderRequest = strings [''sender_onion'']"

subsection \<open>The node, notifications, profiles, badges, pairing\<close>

definition onion_validator :: "string \<Rightarrow> string option" where
  "onion_validator v = (let w = py_lower (py_strip v) in if ONION_RE w then Some w else None)"

definition nickname_validator :: "string \<Rightarrow> string option" where
  "nickname_validator v = (let w = py_strip v in
     if re_dollar (\<lambda>u. u \<noteq> [] \<and> list_all nickname_char u) w then Some w else None)"

definition AcceptInviteRequest :: model where
  "AcceptInviteRequest = \<lparr>md_fields = [need ''invite_onion'' onion_str, need ''nickname'' (TStr 1 (Some 50)),
       need ''my_public_key'' (TStr 1 (Some 5000))],
     md_validators = [(''invite_onion'', onion_validator), (''nickname'', nickname_validator)]\<rparr>"

definition must_be_http :: "string \<Rightarrow> string option" where
  "must_be_http v = (let w = py_strip v in
     if w \<noteq> [] \<and> \<not> (py_startswith w ''http://'' \<or> py_startswith w ''https://'') then None else Some w)"

definition RelaySettingRequest :: model where
  "RelaySettingRequest = \<lparr>md_fields = [default_field ''preferred_file_relay'' (TStr 0 (Some 512)) (VStr [])],
     md_validators = [(''preferred_file_relay'', must_be_http)]\<rparr>"

definition ResetRequest :: model where
  "ResetRequest = plain_model [need ''confirm'' (TStr 5 (Some 5))]"

definition RegisterRequest_notifications :: model where
  "RegisterRequest_notifications = plain_model [need ''onion_address'' onion_str]"

definition ClearRequest :: model where
  "ClearRequest = plain_model [need ''tokens'' (TList any_str (Some MAX_TOKENS))]"

definition CreateProfileRequest :: model where
  "CreateProfileRequest = plain_model [need ''display_name'' (TStr 1 (Some 128)),
     default_field ''hidden'' TBool (VBool False), default_field ''passphrase'' (TOptional (TStr 0 (Some 256))) VNone]"

definition UnlockProfileRequest :: model where
  "UnlockProfileRequest = plain_model [need ''passphrase'' (TStr 1 None)]"

definition SwitchProfileRequest :: model where
  "SwitchProfileRequest = plain_model [need ''profile_id'' (TStr 1 None)]"

definition SupporterBadgeRequest :: model where
  "SupporterBadgeRequest = plain_model [need ''onion_address'' onion_str, need ''signature'' (TStr 1 None)]"

definition PushSyncRequest :: model where
  "PushSyncRequest = plain_model [need ''ip'' (TStr 1 None), need ''port'' (TInt (Some 1) (Some 65535)),
     need ''k'' (TStr 1 None), default_field ''pin'' any_str (VStr []), default_field ''salt'' any_str (VStr [])]"

subsection \<open>Messages of other nodes\<close>

definition HandshakeRequest :: model where
  "HandshakeRequest = plain_model [need ''onion_address'' any_str, need ''nickname'' (TStr 0 (Some 64)),
     need ''public_key'' any_str, default_field ''preferred_file_relay'' (TOptional any_str) VNone]"

definition AcceptRequest :: model where
  "AcceptRequest = plain_model [need ''onion_address'' any_str, need ''public_key'' any_str,
     default_field ''preferred_file_relay'' (TOptional any_str) VNone]"

definition P2PMessageRequest :: model where
  "P2PMessageRequest = plain_model [default_field ''sender'' (TOptional any_str) VNone,
     default_field ''sealed_sender'' (TOptional sealed_type) VNone, need ''iv'' any_str, need ''ciphertext'' any_str,
     need ''seq'' (TInt (Some 0) None), need ''timestamp'' (TInt None None),
     default_field ''disappears_at'' (TOptional TTime) VNone, default_field ''ephemeral'' TBool (VBool False)]"

definition P2PDeleteRequest :: model where
  "P2PDeleteRequest = strings [''sender'', ''message_id'']"

definition request_models :: "model list" where
  "request_models = [RegisterRequest_auth, LoginRequest, LegacyLoginRequest, LegacyAddContactRequest,
     LegacySendMessageRequest, LegacyCreateGroupRequest, LegacySaveGroupMessageRequest, LegacySaveSecretRequest,
     LegacyAcceptContactRequest, LegacyDeleteContactRequest, LegacySupporterBadgeRequest, LegacyCreateProfileRequest,
     AddContactRequest, CreateGroupRequest, SendGroupMessageRequest, RotateSignedPreKeyRequest, SendMessageRequest,
     ResolveSenderRequest, AcceptInviteRequest, RelaySettingRequest, ResetRequest, RegisterRequest_notifications,
     ClearRequest, CreateProfileRequest, UnlockProfileRequest, SwitchProfileRequest, SupporterBadgeRequest,
     PushSyncRequest, HandshakeRequest, AcceptRequest, P2PMessageRequest, P2PDeleteRequest]"

section \<open>What is accepted has the declared types\<close>

lemma collect_all2: "collect xs = Some ys \<longleftrightarrow> list_all2 (\<lambda>x y. x = Some y) xs ys"
  by (induction xs arbitrary: ys rule: collect.induct) (auto simp: list_all2_Cons1)

lemma collect_length: "collect xs = Some ys \<Longrightarrow> length ys = length xs"
  by (simp add: collect_all2 list_all2_lengthD)

lemma check_value_typed:
  "check_value py t j = Some v \<Longrightarrow> of_type t v"
  "check_members py fts kvs = Some vs \<Longrightarrow> of_members fts vs"
proof (induction py t j and py fts kvs arbitrary: v and vs rule: check_value_check_members.induct)
  case (5 py t hi j)
  then obtain xs vs where j: "j = JList xs" "at_most (length xs) hi" "v = VList vs"
    "collect (map (check_value py t) xs) = Some vs"
    by (auto split: json.splits if_splits)
  then have "list_all2 (\<lambda>x v. check_value py t x = Some v) xs vs"
    by (simp add: collect_all2 list_all2_map1)
  then have "list_all (of_type t) vs"
    using 5(1) [OF j(1,2)] by (auto simp: list_all2_conv_all_nth list_all_length) (metis nth_mem)
  with j collect_length [OF j(4)] show ?case by simp
qed (auto split: json.splits if_splits option.splits)

definition typed :: "model \<Rightarrow> (string \<times> fvalue) list \<Rightarrow> bool" where
  "typed m vals = list_all2 (\<lambda>fd kv. fst kv = fd_name fd \<and> of_type (fd_type fd) (snd kv)) (md_fields m) vals"

text \<open>A model is sound when its defaults have the types of their fields and its validators keep them.\<close>

definition sound_model :: "model \<Rightarrow> bool" where
  "sound_model m = (\<forall>fd\<in>set (md_fields m).
     (\<forall>v. fd_default fd = Some v \<longrightarrow> of_type (fd_type fd) v) \<and>
     (\<forall>v w. of_type (fd_type fd) v \<longrightarrow> run_validator (md_validators m) (fd_name fd) v = Some w \<longrightarrow> of_type (fd_type fd) w))"

lemma parse_typed:
  assumes "sound_model m" "parse_body py m j = Some vals"
  shows "typed m vals"
proof -
  from assms(2) obtain kvs where "j = JObj kvs" and p: "list_all2 (\<lambda>x y. x = Some y) (map (check_field py m kvs) (md_fields m)) vals"
    by (auto simp: parse_body_def collect_all2 split: json.splits)
  have "fst kv = fd_name fd \<and> of_type (fd_type fd) (snd kv)"
    if "fd \<in> set (md_fields m)" "check_field py m kvs fd = Some kv" for fd kv
    using assms(1) that check_value_typed(1)
    unfolding sound_model_def by (fastforce simp: check_field_def split: option.splits)
  with p show ?thesis
    by (auto simp: typed_def list_all2_map1 elim!: list.rel_mono_strong)
qed

lemma run_validator_none [simp]: "run_validator [] k v = Some v"
  by (simp add: run_validator_def)

lemma length_py_strip: "length (py_strip s) \<le> length s"
proof -
  have "length (py_strip s) \<le> length (py_lstrip s)"
    unfolding py_strip_def by (metis length_dropWhile_le length_rev)
  also have "\<dots> \<le> length s" by (simp add: py_lstrip_def length_dropWhile_le)
  finally show ?thesis .
qed

lemma onion_length: "ONION_RE w \<Longrightarrow> 22 \<le> length w \<and> length w \<le> 63"
  by (auto simp: ONION_RE_def re_dollar_def onion_body_def Let_def min_def split: if_splits)

lemma sound_plain: "\<forall>fd\<in>set fds. \<forall>v. fd_default fd = Some v \<longrightarrow> of_type (fd_type fd) v \<Longrightarrow> sound_model (plain_model fds)"
  by (simp add: sound_model_def plain_model_def)

lemmas field_simps_model = need_def default_field_def aliased_def any_str_def onion_str_def at_most_def in_range_def

lemma sound_strings: "sound_model (strings ks)"
  unfolding strings_def by (rule sound_plain) (auto simp: need_def)

lemma sound_validated:
  "sound_model RegisterRequest_auth" "sound_model AcceptInviteRequest" "sound_model RelaySettingRequest"
proof -
  show "sound_model RegisterRequest_auth"
    by (auto simp: sound_model_def RegisterRequest_auth_def field_simps_model run_validator_def safe_username_def
        split: fvalue.splits if_splits)
  have n: "re_dollar (\<lambda>u. u \<noteq> [] \<and> list_all nickname_char u) w \<Longrightarrow> w \<noteq> []" for w
    by (auto simp: re_dollar_def)
  show "sound_model AcceptInviteRequest"
    using onion_length length_py_strip
    by (fastforce simp: sound_model_def AcceptInviteRequest_def field_simps_model run_validator_def
        onion_validator_def nickname_validator_def Let_def Suc_le_eq dest: n order.trans
        split: fvalue.splits if_splits)
  show "sound_model RelaySettingRequest"
    using length_py_strip
    by (fastforce simp: sound_model_def RelaySettingRequest_def field_simps_model run_validator_def
        must_be_http_def Let_def dest: order.trans split: fvalue.splits if_splits)
qed

lemma all_sound: "m \<in> set request_models \<Longrightarrow> sound_model m"
proof -
  note legacy = LegacyCreateGroupRequest_def LegacySaveGroupMessageRequest_def LegacySaveSecretRequest_def
    LegacyCreateProfileRequest_def LegacySendMessageRequest_def
  note v3 = AddContactRequest_def CreateGroupRequest_def RotateSignedPreKeyRequest_def SendMessageRequest_def
    ResetRequest_def RegisterRequest_notifications_def ClearRequest_def CreateProfileRequest_def
    UnlockProfileRequest_def SwitchProfileRequest_def SupporterBadgeRequest_def PushSyncRequest_def
    HandshakeRequest_def AcceptRequest_def P2PMessageRequest_def
  have p: "sound_model LegacyCreateGroupRequest" "sound_model LegacySaveGroupMessageRequest"
    "sound_model LegacySaveSecretRequest" "sound_model LegacyCreateProfileRequest" "sound_model LegacySendMessageRequest"
    unfolding legacy by (rule sound_plain, simp add: field_simps_model)+
  have q: "sound_model AddContactRequest" "sound_model CreateGroupRequest" "sound_model RotateSignedPreKeyRequest"
    "sound_model SendMessageRequest" "sound_model ResetRequest" "sound_model RegisterRequest_notifications"
    "sound_model ClearRequest" "sound_model CreateProfileRequest" "sound_model UnlockProfileRequest"
    "sound_model SwitchProfileRequest" "sound_model SupporterBadgeRequest" "sound_model PushSyncRequest"
    "sound_model HandshakeRequest" "sound_model AcceptRequest" "sound_model P2PMessageRequest"
    unfolding v3 by (rule sound_plain, simp add: field_simps_model)+
  assume "m \<in> set request_models"
  then show ?thesis
    unfolding request_models_def LoginRequest_def LegacyLoginRequest_def LegacyAddContactRequest_def
      LegacyAcceptContactRequest_def LegacyDeleteContactRequest_def LegacySupporterBadgeRequest_def
      SendGroupMessageRequest_def ResolveSenderRequest_def P2PDeleteRequest_def
    using p q sound_validated sound_strings by auto
qed


definition strict :: pydantic where
  "strict = \<lparr>lax_int = (\<lambda>j. case j of JInt i \<Rightarrow> Some i | _ \<Rightarrow> None),
     lax_bool = (\<lambda>j. case j of JBool b \<Rightarrow> Some b | _ \<Rightarrow> None), lax_time = (\<lambda>_. None)\<rparr>"


section \<open>What has the declared types is accepted\<close>

text \<open>Bodies that need no conversion: what the schema of the API documents is what is taken.\<close>

fun to_json :: "fvalue \<Rightarrow> json" where
  "to_json VNone = JNull"
| "to_json (VStr s) = JStr s"
| "to_json (VInt i) = JInt i"
| "to_json (VBool b) = JBool b"
| "to_json (VTime t) = JNull"
| "to_json (VList vs) = JList (map to_json vs)"
| "to_json (VModel kvs) = JObj (map (\<lambda>(k, v). (k, to_json v)) kvs)"

definition reads_exact :: "pydantic \<Rightarrow> bool" where
  "reads_exact py \<longleftrightarrow> (\<forall>i. lax_int py (JInt i) = Some i) \<and> (\<forall>b. lax_bool py (JBool b) = Some b)"

fun jsonable :: "field_type \<Rightarrow> bool" where
  "jsonable TTime = False"
| "jsonable (TList t _) = jsonable t"
| "jsonable (TOptional t) = jsonable t"
| "jsonable (TModel fts) = (distinct (map fst fts) \<and> (\<forall>ft\<in>set fts. jsonable (snd ft)))"
| "jsonable _ = True"

lemma collect_map_Some: "\<forall>x\<in>set xs. f x = Some (g x) \<Longrightarrow> collect (map f xs) = Some (map g xs)"
  by (induction xs) auto

lemma to_json_null: "to_json v = JNull \<Longrightarrow> v = VNone \<or> (\<exists>t. v = VTime t)"
  by (cases v) auto

lemma of_members_keys: "of_members fts vs \<Longrightarrow> map fst vs = map fst fts"
  by (induction fts arbitrary: vs) (auto split: list.splits)

lemma typed_accepted:
  assumes "reads_exact py"
  shows "of_type t v \<Longrightarrow> jsonable t \<Longrightarrow> check_value py t (to_json v) = Some v"
    and "of_members fts vs \<Longrightarrow> (\<forall>ft\<in>set fts. jsonable (snd ft)) \<Longrightarrow>
      (\<forall>k w. (k, w) \<in> set vs \<longrightarrow> map_of kvs k = Some (to_json w)) \<Longrightarrow> check_members py fts kvs = Some vs"
proof (induction t v and fts vs arbitrary: and kvs rule: of_type_of_members.induct)
  case (1 lo hi v)
  then show ?case by (auto split: fvalue.splits)
next
  case (2 lo hi v)
  then show ?case using assms by (auto simp: reads_exact_def split: fvalue.splits)
next
  case (3 v)
  then show ?case using assms by (auto simp: reads_exact_def split: fvalue.splits)
next
  case (5 t hi v)
  then obtain vs where v: "v = VList vs" "at_most (length vs) hi" "list_all (of_type t) vs"
    by (auto split: fvalue.splits)
  have "\<forall>x\<in>set vs. check_value py t (to_json x) = Some x"
    using 5(1) [OF v(1)] 5(3) v(3) by (auto simp: list_all_iff)
  then have "collect (map (check_value py t \<circ> to_json) vs) = Some vs"
    using collect_map_Some [of vs "check_value py t \<circ> to_json" id] by simp
  with v show ?case by simp
next
  case (6 t v)
  show ?case
  proof (cases "v = VNone")
    case False
    with 6 have c: "check_value py t (to_json v) = Some v" by simp
    have "to_json v \<noteq> JNull"
    proof
      assume "to_json v = JNull"
      then obtain r where "v = VTime r" using False to_json_null by blast
      then show False using 6(2,3) False by (induction t) (auto split: fvalue.splits)
    qed
    with c show ?thesis by simp
  qed simp
next
  case (7 fts v)
  then obtain vs where v: "v = VModel vs" "of_members fts vs" by (auto split: fvalue.splits)
  have d: "distinct (map fst vs)" using 7(3) of_members_keys [OF v(2)] by simp
  have "map_of (map (\<lambda>(k, w). (k, to_json w)) vs) k = Some (to_json w)" if "(k, w) \<in> set vs" for k w
    using that d by (intro map_of_is_SomeI) (force simp: o_def case_prod_beta)+
  with 7 v show ?case by auto
next
  case (9 k t fts vs)
  then show ?case by (cases vs) auto
qed auto

text \<open>A body with a value of the declared type under the key of each field is accepted as it is.\<close>

lemma typed_body_accepted:
  assumes "reads_exact py" "distinct (map fd_key fds)" "\<forall>fd\<in>set fds. jsonable (fd_type fd)"
    and "typed (plain_model fds) vals"
  shows "parse_body py (plain_model fds) (JObj (zip (map fd_key fds) (map (to_json \<circ> snd) vals))) = Some vals"
proof -
  let ?kvs = "zip (map fd_key fds) (map (to_json \<circ> snd) vals)"
  have l: "length vals = length fds" and
    t: "\<And>i. i < length fds \<Longrightarrow> fst (vals ! i) = fd_name (fds ! i) \<and> of_type (fd_type (fds ! i)) (snd (vals ! i))"
    using assms(4) by (auto simp: typed_def plain_model_def list_all2_conv_all_nth)
  have "check_field py (plain_model fds) ?kvs (fds ! i) = Some (vals ! i)" if i: "i < length fds" for i
  proof -
    have "(fd_key (fds ! i), to_json (snd (vals ! i))) \<in> set ?kvs"
      using i l by (auto simp: set_zip intro!: exI [of _ i])
    then have "map_of ?kvs (fd_key (fds ! i)) = Some (to_json (snd (vals ! i)))"
      using assms(2) l by (intro map_of_is_SomeI) (simp_all add: map_fst_zip)
    moreover have "check_value py (fd_type (fds ! i)) (to_json (snd (vals ! i))) = Some (snd (vals ! i))"
      using typed_accepted(1) [OF assms(1)] t [OF i] assms(3) nth_mem [OF i] by blast
    ultimately show ?thesis using t [OF i] by (cases "vals ! i") (simp add: check_field_def plain_model_def)
  qed
  then show ?thesis
    using l by (simp add: parse_body_def collect_all2 list_all2_conv_all_nth plain_model_def)
qed

end
