(* ===== verification/Interop.thy ===== *)
theory Interop
  imports Request_Schemas V3_Conversations Cli_Shell P2P_Messages
begin

text \<open>
  The programs against each other: the two implementations of the node as each other's peers, and
  the Python client against the routes that the FastAPI node keeps for it. What one sends is the
  JSON its own model produces; what the other takes is decided by its routes and the models of
  their bodies.
\<close>

section \<open>The routes of the FastAPI node that take a body\<close>

definition p2p_post_models :: "(string \<times> model) list" where
  "p2p_post_models = [(''/p2p/handshake'', HandshakeRequest), (''/p2p/accept'', AcceptRequest),
     (''/p2p/message'', P2PMessageRequest), (''/p2p/delete'', P2PDeleteRequest)]"

text \<open>Of the routes for older interfaces those whose body is a model.\<close>

definition compat_post_models :: "(string \<times> model) list" where
  "compat_post_models = [(''/login'', LegacyLoginRequest), (''/api/contacts/add'', LegacyAddContactRequest),
     (''/api/messages/send'', LegacySendMessageRequest), (''/api/groups/create'', LegacyCreateGroupRequest),
     (''/api/groups/save_message'', LegacySaveGroupMessageRequest), (''/api/profiles/create'', LegacyCreateProfileRequest),
     (''/api/profile/supporter_badge'', LegacySupporterBadgeRequest), (''/api/contacts/save_secret'', LegacySaveSecretRequest),
     (''/api/contacts/accept'', LegacyAcceptContactRequest), (''/api/contacts/delete'', LegacyDeleteContactRequest)]"

definition v3_model :: "string \<Rightarrow> model option" where
  "v3_model path = map_of (p2p_post_models @ compat_post_models) path"

text \<open>A path that no router has is answered with 404, a body that is no instance with 422.\<close>

definition v3_takes :: "pydantic \<Rightarrow> string \<Rightarrow> json \<Rightarrow> bool" where
  "v3_takes py path body = (case v3_model path of
     None \<Rightarrow> False | Some m \<Rightarrow> parse_body py m body \<noteq> None)"

lemma v3_model_peer:
  "v3_model ''/p2p/handshake'' = Some HandshakeRequest" "v3_model ''/p2p/accept'' = Some AcceptRequest"
  "v3_model ''/p2p/message'' = Some P2PMessageRequest" "v3_model ''/p2p/delete'' = Some P2PDeleteRequest"
  "v3_model ''/p2p/message/batch'' = None"
  by (simp_all add: v3_model_def p2p_post_models_def compat_post_models_def)

lemma v3_model_client:
  "v3_model ''/login'' = Some LegacyLoginRequest" "v3_model ''/api/contacts/add'' = Some LegacyAddContactRequest"
  "v3_model ''/api/contacts/save_secret'' = Some LegacySaveSecretRequest"
  "v3_model ''/api/contacts/accept'' = Some LegacyAcceptContactRequest"
  "v3_model ''/api/messages/send'' = Some LegacySendMessageRequest" "v3_model ''/register'' = None"
  "v3_model ''/api/v3/groups'' = None" "v3_model ''/api/v3/groups/join'' = None" "v3_model ''/api/v3/groups/messages'' = None"
  by (simp_all add: v3_model_def p2p_post_models_def compat_post_models_def)

lemma parse_missing:
  assumes "fd \<in> set (md_fields m)" "fd_default fd = None" "map_of kvs (fd_key fd) = None"
  shows "parse_body py m (JObj kvs) = None"
proof -
  have "collect xs = None" if "None \<in> set xs" for xs :: "(string \<times> fvalue) option list"
    using that by (induction xs rule: collect.induct) auto
  moreover have "check_field py m kvs fd = None" using assms(2,3) by (simp add: check_field_def)
  ultimately show ?thesis using assms(1) by (force simp: parse_body_def)
qed

lemmas parse_simps = parse_body_def check_field_def plain_model_def strings_def field_simps_model run_validator_none

section \<open>The client against the FastAPI node\<close>

text \<open>What the client's functions and the shell's commands post, whatever the answers are.\<close>

inductive client_posts :: "string \<Rightarrow> json \<Rightarrow> bool" where
  register: "Post path tok body \<in> set (fst (sdk_register page a name password)) \<Longrightarrow> client_posts path body"
| login: "Post path tok body \<in> set (fst (snd (sdk_login c page a info listed name password cl))) \<Longrightarrow> client_posts path body"
| add: "Post path tok body \<in> set (snd (sdk_add_contact c page a onion nickname cl)) \<Longrightarrow> client_posts path body"
| secret: "Post path tok body \<in> set (snd (save_shared_secret page a onion secret peer)) \<Longrightarrow> client_posts path body"
| accept: "Post path tok body \<in> set (fst (snd (sdk_accept_contact c listing page a listed onion cl))) \<Longrightarrow> client_posts path body"
| send: "Post path tok body \<in> set (fst (snd (sdk_send c rnd iv history page a onion t cl))) \<Longrightarrow> client_posts path body"
| create_group: "Post path tok body \<in> set (snd (do_creategroup a arg)) \<Longrightarrow> client_posts path body"
| join_group: "Post path tok body \<in> set (snd (do_joingroup a arg)) \<Longrightarrow> client_posts path body"
| group_send: "Post path tok body \<in> set (snd (do_groupsend a arg)) \<Longrightarrow> client_posts path body"

text \<open>The shapes of these bodies.\<close>

inductive client_body :: "string \<Rightarrow> json \<Rightarrow> bool" where
  "client_body ''/register'' (credentials name password)"
| "client_body ''/login'' (credentials name password)"
| "client_body ''/api/contacts/add'' (JObj [(''onion_address'', JStr w), (''nickname'', JStr n), (''my_public_key'', JStr k)])"
| "client_body ''/api/contacts/save_secret'' (JObj [(''onion_address'', JStr w), (''shared_secret'', JStr x), (''peer_public_key'', JStr k)])"
| "client_body ''/api/contacts/accept'' (JObj [(''onion_address'', JStr w), (''my_public_key'', JStr k), (''shared_secret'', JStr x)])"
| "client_body ''/api/messages/send'' (JObj [(''onion_address'', JStr w), (''iv'', JStr i), (''ciphertext'', JStr x), (''seq'', JInt n)])"
| "client_body ''/api/v3/groups'' body"
| "client_body ''/api/v3/groups/join'' body"
| "client_body ''/api/v3/groups/messages'' body"

lemma posted_paths: "Post path tok body \<in> set (fst (posted page a p b)) \<Longrightarrow> path = p \<and> body = b"
  by (auto simp: posted_def split: option.splits)

lemma sync_no_posts: "Post path tok body \<notin> set (fst (sync_contacts c listed cl))"
  "Post path tok body \<notin> set (fst (fetch_my_info info cl))"
  by (auto simp: sync_contacts_def fetch_my_info_def split: option.splits json.splits)

lemmas client_calls = sdk_register_def sdk_login_def sdk_add_contact_def save_shared_secret_def sdk_accept_contact_def
  sdk_send_def do_creategroup_def do_joingroup_def do_groupsend_def

lemma client_posts_body: "client_posts path body \<Longrightarrow> client_body path body"
proof (induction rule: client_posts.induct)
  case (register path tok body page a name password)
  then have "path = ''/register'' \<and> body = credentials name password"
    using posted_paths [of path tok body page a] by (simp add: sdk_register_def split_beta)
  then show ?case by (auto intro: client_body.intros)
next
  case (login path tok body c page a info listed name password cl)
  then have "Post path tok body \<in> set (fst (posted page a ''/login'' (credentials name password)))"
    using sync_no_posts by (auto simp: sdk_login_def split_beta split: if_splits)
  from posted_paths [OF this] show ?case by (auto intro: client_body.intros)
next
  case (add path tok body c page a onion nickname cl)
  then show ?case
    using posted_paths [of path tok body page a] by (auto simp: sdk_add_contact_def split_beta intro!: client_body.intros split: if_splits)
next
  case (secret path tok body page a onion secret peer)
  then show ?case
    using posted_paths [of path tok body page a] by (auto simp: save_shared_secret_def split_beta intro!: client_body.intros)
next
  case (accept path tok body c listing page a listed onion cl)
  then obtain x where "Post path tok body \<in> set (fst (posted page a ''/api/contacts/accept'' (JObj [(''onion_address'', JStr onion),
      (''my_public_key'', JStr (client_public c cl)), (''shared_secret'', JStr x)])))"
    using sync_no_posts by (auto simp: sdk_accept_contact_def split_beta Let_def split: if_splits option.splits)
  from posted_paths [OF this] show ?case by (auto intro: client_body.intros)
next
  case (send path tok body c rnd iv history page a onion t cl)
  then obtain i x n where "Post path tok body \<in> set (fst (posted page a ''/api/messages/send'' (JObj [(''onion_address'', JStr onion),
      (''iv'', JStr i), (''ciphertext'', JStr x), (''seq'', JInt n)])))"
    by (auto simp: sdk_send_def split_beta split: if_splits option.splits prod.splits)
  from posted_paths [OF this] show ?case by (auto intro: client_body.intros)
next
  case (create_group path tok body a arg)
  then show ?case by (auto simp: do_creategroup_def intro: client_body.intros split: option.splits)
next
  case (join_group path tok body a arg)
  then show ?case by (auto simp: do_joingroup_def intro: client_body.intros split: option.splits)
next
  case (group_send path tok body a arg)
  then show ?case by (auto simp: do_groupsend_def intro: client_body.intros split: option.splits)
qed

definition client_served :: "string list" where
  "client_served = [''/login'', ''/api/contacts/add'', ''/api/contacts/save_secret'', ''/api/contacts/accept'']"

text \<open>C14: the Python client cannot be used with the FastAPI node: of what its functions and the
  shell's commands post, that node takes the login and what concerns contacts, but no
  registration, no message and no group command, whatever the arguments, the state of the client
  and the answers it had.\<close>

theorem client_against_v3:
  assumes "client_posts path body"
  shows "v3_takes py path body \<longleftrightarrow> path \<in> set client_served"
  using client_posts_body [OF assms]
proof cases
  case (6 w i x n)
  have "parse_body py LegacySendMessageRequest body = None"
    unfolding 6 by (rule parse_missing [of "need ''recipient_onion'' any_str"])
      (simp_all add: LegacySendMessageRequest_def plain_model_def need_def)
  with 6 show ?thesis by (simp add: v3_takes_def v3_model_client client_served_def)
qed (simp_all add: v3_takes_def v3_model_client client_served_def credentials_def
    LegacyLoginRequest_def LegacyAddContactRequest_def LegacySaveSecretRequest_def LegacyAcceptContactRequest_def parse_simps)

theorem client_against_v3_witness:
  "\<not> v3_takes strict ''/register'' (credentials ''alice'' ''secret-word'') \<and>
   v3_takes strict ''/login'' (credentials ''alice'' ''secret-word'')"
proof -
  have "client_posts ''/register'' (credentials ''alice'' ''secret-word'')"
    by (rule client_posts.register [of _ None _ "Some []" None "''alice''" "''secret-word''"])
      (simp add: sdk_register_def posted_def)
  moreover have "client_posts ''/login'' (credentials ''alice'' ''secret-word'')"
    by (rule client_posts.login [of _ None _ toy_crypto "Some []" None None None "''alice''" "''secret-word''"])
      (simp add: sdk_login_def posted_def succeeded_def)
  ultimately show ?thesis
    using client_against_v3 [of _ _ strict] by (simp add: client_served_def)
qed

section \<open>A Flask node as the peer of a FastAPI node\<close>

text \<open>The tasks as the Flask node makes them: its own address known, texts where the browser sent texts.\<close>

fun task_typed :: "p2p_task \<Rightarrow> bool" where
  "task_typed (Handshake_Task w mine nick key relay) = ((\<exists>m. mine = JStr m) \<and> length nick \<le> 64)"
| "task_typed (Accept_Task w mine key) = (\<exists>m. mine = JStr m)"
| "task_typed (Message_Task w mine iv ct seq t expires ephemeral) =
     ((\<exists>m. mine = JStr m) \<and> (\<exists>x. iv = JStr x) \<and> (\<exists>x. ct = JStr x) \<and> 0 \<le> seq)"
| "task_typed (Batch_Task w mine evs t expires) = (\<exists>m. mine = JStr m)"
| "task_typed (Delete_Task w mine t) = (\<exists>m. mine = JStr m)"

fun taken_by_v3 :: "p2p_task \<Rightarrow> bool" where
  "taken_by_v3 (Batch_Task _ _ _ _ _) = False"
| "taken_by_v3 (Delete_Task _ _ _) = False"
| "taken_by_v3 _ = True"

lemma with_relay_cases: "with_relay b s kvs = JObj kvs \<or> (\<exists>r. with_relay b s kvs = JObj (kvs @ [(''preferred_file_relay'', JStr r)]))"
  by (auto simp: with_relay_def split: option.split list.split)

definition message_body :: "string \<Rightarrow> string \<Rightarrow> string \<Rightarrow> int \<Rightarrow> int \<Rightarrow> bool \<Rightarrow> int option \<Rightarrow> json" where
  "message_body m x y seq t ephemeral expires = with_expiry expires [(''sender'', JStr m), (''iv'', JStr x),
     (''ciphertext'', JStr y), (''seq'', JInt seq), (''timestamp'', JInt t), (''ephemeral'', JBool ephemeral)]"

text \<open>What the FastAPI node makes of such a message: the time of its expiry is no field of its model.\<close>

definition message_fields :: "string \<Rightarrow> string \<Rightarrow> string \<Rightarrow> int \<Rightarrow> int \<Rightarrow> bool \<Rightarrow> (string \<times> fvalue) list" where
  "message_fields m x y seq t ephemeral = [(''sender'', VStr m), (''sealed_sender'', VNone), (''iv'', VStr x),
     (''ciphertext'', VStr y), (''seq'', VInt seq), (''timestamp'', VInt t), (''disappears_at'', VNone),
     (''ephemeral'', VBool ephemeral)]"

lemma message_taken:
  assumes "reads_exact py" "0 \<le> seq"
  shows "parse_body py P2PMessageRequest (message_body m x y seq t ephemeral expires) =
    Some (message_fields m x y seq t ephemeral)"
proof -
  define kvs where "kvs = [(''sender'', JStr m), (''iv'', JStr x), (''ciphertext'', JStr y), (''seq'', JInt seq),
     (''timestamp'', JInt t), (''ephemeral'', JBool ephemeral)] @ (case expires of Some e \<Rightarrow> [(''expires_at'', JInt e)] | None \<Rightarrow> [])"
  have k: "map_of kvs ''sender'' = Some (JStr m)" "map_of kvs ''iv'' = Some (JStr x)" "map_of kvs ''ciphertext'' = Some (JStr y)"
    "map_of kvs ''seq'' = Some (JInt seq)" "map_of kvs ''timestamp'' = Some (JInt t)"
    "map_of kvs ''ephemeral'' = Some (JBool ephemeral)" "map_of kvs ''sealed_sender'' = None" "map_of kvs ''disappears_at'' = None"
    by (simp_all add: kvs_def split: option.split)
  have "message_body m x y seq t ephemeral expires = JObj kvs"
    by (simp add: message_body_def with_expiry_def kvs_def)
  then show ?thesis
    using assms k
    by (simp add: parse_body_def P2PMessageRequest_def plain_model_def check_field_def field_simps_model reads_exact_def
        message_fields_def)
qed



section \<open>Messages that disappear\<close>

definition text_of :: "(string \<times> fvalue) list \<Rightarrow> string \<Rightarrow> string" where
  "text_of vals k = (case map_of vals k of Some (VStr s) \<Rightarrow> s | _ \<Rightarrow> [])"

definition opt_text_of :: "(string \<times> fvalue) list \<Rightarrow> string \<Rightarrow> string option" where
  "opt_text_of vals k = (case map_of vals k of Some (VStr s) \<Rightarrow> Some s | _ \<Rightarrow> None)"

definition int_of :: "(string \<times> fvalue) list \<Rightarrow> string \<Rightarrow> int" where
  "int_of vals k = (case map_of vals k of Some (VInt i) \<Rightarrow> i | _ \<Rightarrow> 0)"

text \<open>The attributes of the parsed body, as the handler reads them.\<close>

definition payload_of :: "(string \<times> fvalue) list \<Rightarrow> p2p_payload" where
  "payload_of vals = \<lparr>pp_sender = opt_text_of vals ''sender'',
     pp_sealed = (case map_of vals ''sealed_sender'' of
        Some (VModel b) \<Rightarrow> Some (text_of b ''ephemeral_pub'', text_of b ''ciphertext'', text_of b ''iv'') | _ \<Rightarrow> None),
     pp_iv = text_of vals ''iv'', pp_ciphertext = text_of vals ''ciphertext'', pp_seq = nat (int_of vals ''seq''),
     pp_timestamp = int_of vals ''timestamp'',
     pp_disappears = (case map_of vals ''disappears_at'' of Some (VTime t) \<Rightarrow> Some t | _ \<Rightarrow> None),
     pp_ephemeral = (map_of vals ''ephemeral'' = Some (VBool True))\<rparr>"

definition v3_receive :: "pydantic \<Rightarrow> string \<Rightarrow> json \<Rightarrow> v3 \<Rightarrow> unit http \<times> v3" where
  "v3_receive py mid body s = (case parse_body py P2PMessageRequest body of
     None \<Rightarrow> (Inl (HTTP 422 ''validation''), s)
   | Some vals \<Rightarrow> p2p_message mid (payload_of vals) s)"

lemma payload_of_message:
  "0 \<le> seq \<Longrightarrow> payload_of (message_fields m x y seq t ephemeral) = \<lparr>pp_sender = Some m, pp_sealed = None, pp_iv = x,
     pp_ciphertext = y, pp_seq = nat seq, pp_timestamp = t, pp_disappears = None, pp_ephemeral = ephemeral\<rparr>"
  by (simp add: payload_of_def message_fields_def text_of_def opt_text_of_def int_of_def)

text \<open>C17: a message that is to disappear stays: what a Flask node sends with a time of expiry, a
  FastAPI node that accepts it stores without one, whatever that time is.\<close>

theorem expiry_lost:
  assumes "reads_exact py" "0 \<le> seq"
    and "task_request (Message_Task w (JStr m) (JStr x) (JStr y) seq t expires False) s = (w, path, body)"
    and "v3_receive py mid body st = (Inr (), st')"
  shows "\<exists>row. v3_messages st' = v3_messages st @ [row] \<and> vm_ciphertext row = y \<and> vm_disappears row = None"
proof -
  have "body = message_body m x y seq t False expires" using assms(3) by (auto simp: message_body_def)
  then have "p2p_message mid (payload_of (message_fields m x y seq t False)) st = (Inr (), st')"
    using assms(4) message_taken [OF assms(1,2)] by (simp add: v3_receive_def)
  then show ?thesis
    unfolding payload_of_message [OF assms(2)]
    by (auto simp: p2p_message_def insert_message_def emit_ui_def split: sum.splits option.splits if_splits)
qed

theorem expiry_lost_witness:
  "\<exists>row. v3_messages (snd (v3_receive strict ''m1''
       (message_body (demo_onion CHR ''a'') ''iv'' ''ct'' 1 5000 False (Some 6000))
       (demo_v3 (demo_onion CHR ''b'') (demo_onion CHR ''a'') ''accepted''))) = [row] \<and> vm_disappears row = None"
proof -
  let ?st = "demo_v3 (demo_onion CHR ''b'') (demo_onion CHR ''a'') ''accepted''"
  let ?body = "message_body (demo_onion CHR ''a'') ''iv'' ''ct'' 1 5000 False (Some 6000)"
  have r: "reads_exact strict" by (simp add: reads_exact_def strict_def)
  have acc: "accepts_from ?st (demo_onion CHR ''a'') 1"
    by (simp add: accepts_from_def demo_v3_def demo_contact_def demo_user_def contact_with_def last_seq_def)
  have "fst (v3_receive strict ''m1'' ?body ?st) = Inr ()"
    using message_taken [OF r, of 1 "demo_onion CHR ''a''" "''iv''" "''ct''" 5000 False "Some 6000"] acc
    by (simp add: v3_receive_def payload_of_message conjunct1 [OF p2p_message_stores [of _ "demo_onion CHR ''a''"]]
        from_millis_def demo_v3_def)
  then obtain st' where st': "v3_receive strict ''m1'' ?body ?st = (Inr (), st')"
    by (cases "v3_receive strict ''m1'' ?body ?st") simp
  from expiry_lost [OF r _ _ this, of 1 "''w''" "demo_onion CHR ''a''" "''iv''" "''ct''" 5000 "Some 6000" db_init
      "''/p2p/message''"] st'
  show ?thesis by (auto simp: message_body_def demo_v3_def)
qed

section \<open>The other direction\<close>

text \<open>The payload as the FastAPI node writes it.\<close>

definition v3_payload_kvs :: "(real \<Rightarrow> string) \<Rightarrow> p2p_payload \<Rightarrow> (string \<times> json) list" where
  "v3_payload_kvs isoformat p = [
     (''sender'', case pp_sender p of Some x \<Rightarrow> JStr x | None \<Rightarrow> JNull),
     (''sealed_sender'', case pp_sealed p of Some b \<Rightarrow> sealed_json b | None \<Rightarrow> JNull),
     (''iv'', JStr (pp_iv p)), (''ciphertext'', JStr (pp_ciphertext p)), (''seq'', JInt (int (pp_seq p))),
     (''timestamp'', JInt (pp_timestamp p)),
     (''disappears_at'', case pp_disappears p of Some t \<Rightarrow> JStr (isoformat t) | None \<Rightarrow> JNull),
     (''ephemeral'', JBool (pp_ephemeral p))]"

lemma v3_payload_absent: "map_of (v3_payload_kvs isoformat p) ''expires_at'' = None"
  "map_of (v3_payload_kvs isoformat p) ''preferred_file_relay'' = None"
  by (simp_all add: v3_payload_kvs_def)

lemma note_relay_absent: "map_of kvs ''preferred_file_relay'' = None \<Longrightarrow> note_relay kvs w s = Some s"
  by (simp add: note_relay_def opt_str_def py_startswith_def)

lemma message_accepted:
  assumes "p2p_message_route affinity fk (Some (JObj kvs)) n = (Inr (), n')" "map_of kvs ''preferred_file_relay'' = None"
  shows "\<exists>w r. find_contact w (pn_db n) = Some r \<and>
    n' = take_message affinity fk w (json_field kvs ''iv'') (json_field kvs ''ciphertext'') (int_field kvs ''seq'')
      (int_field kvs ''timestamp'') (incoming_expiry (contact_info.truncate r) (int_field kvs ''timestamp'')
        (json_field kvs ''expires_at'')) (truthy_field kvs ''ephemeral'') n"
  using assms
  by (auto simp: p2p_message_route_def validate_json_schema_def with_onion_def Let_def note_relay_absent
      split: if_splits option.splits sum.splits)

lemma push_notify_messages: "messages (push_notify_queue t s) = messages s"
  by (simp add: push_notify_queue_def)

text \<open>The Flask node as well stores such a message without an expiry, unless the contact has one.\<close>

lemma expiry_lost_back:
  assumes "\<forall>w c. find_contact w (pn_db n) = Some c \<longrightarrow> c_ttl c = None"
    and "p2p_message_route affinity fk (Some (JObj (v3_payload_kvs isoformat p))) n = (Inr (), n')"
    and "row \<in> set (messages (pn_db n'))"
  shows "row \<in> set (messages (pn_db n)) \<or> m_expires_at row = None"
proof -
  from message_accepted [OF assms(2) v3_payload_absent(2)] obtain w r iv ct seq t eph where
    r: "find_contact w (pn_db n) = Some r" and
    n': "n' = take_message affinity fk w iv ct seq t (incoming_expiry (contact_info.truncate r) t JNull) eph n"
    by (auto simp: json_field_def [of _ "''expires_at''"] v3_payload_absent)
  have "c_ttl (contact_info.truncate r) = None" using assms(1) r by (auto simp: contact_info.truncate_def)
  then have "incoming_expiry (contact_info.truncate r) t JNull = JNull" by (simp add: incoming_expiry_def)
  then show ?thesis
    using assms(1,3) r
    by (auto simp: n' take_message_def emit_event_def upd_db_def save_incoming_def save_message_def Let_def
        push_notify_messages split: if_splits option.splits list.splits)
qed

end
