(* ===== verification/Sync_Wire.thy ===== *)
theory Sync_Wire
  imports Device_Sync Json_Dumps
begin

text \<open>
  Envelopes on their way between devices: \<^verbatim>\<open>serialize_envelope\<close> and
  \<^verbatim>\<open>deserialize_envelope\<close> of \<^verbatim>\<open>core/sync.py\<close>, and what
  \<^verbatim>\<open>process_incoming_envelope\<close> does with what was read. The dataclass checks no types; an
  envelope with values of other types than its annotations is left out. A timestamp can be any
  number that JSON text spells, with Python's infinities and not-a-number.
\<close>

section \<open>Numbers as timestamps\<close>

text \<open>\<open>read_float\<close> is \<^verbatim>\<open>float\<close> on a decimal text; \<open>None\<close> is beyond the largest float, an infinity.\<close>

datatype stamp = Finite real | Infinite | Not_A_Number

definition float_stamp :: "(string \<Rightarrow> real option) \<Rightarrow> string \<Rightarrow> stamp" where
  "float_stamp read_float s =
     (if s = ''NaN'' then Not_A_Number
      else if s = ''Infinity'' \<or> s = ''-Infinity'' then Infinite
      else case read_float s of Some x \<Rightarrow> Finite x | None \<Rightarrow> Infinite)"

text \<open>\<^verbatim>\<open>abs(now - t) > 300.0\<close> is false of not-a-number.\<close>

fun too_old :: "real \<Rightarrow> stamp \<Rightarrow> bool" where
  "too_old now (Finite t) = (300 < \<bar>now - t\<bar>)"
| "too_old now Infinite = True"
| "too_old now Not_A_Number = False"

section \<open>The text of an envelope\<close>

definition envelope_json :: "json \<Rightarrow> envelope \<Rightarrow> json" where
  "envelope_json t e = JObj
     [(''device_id'', JStr (env_device_id e)), (''owner_onion'', JStr (env_owner_onion e)),
      (''payload_type'', JStr (env_payload_type e)), (''encrypted_payload_b64'', JStr (env_payload_b64 e)),
      (''nonce_b64'', JStr (env_nonce_b64 e)), (''timestamp'', t), (''sequence_id'', JInt (env_sequence_id e))]"

definition serialize_envelope :: "(real \<Rightarrow> string) \<Rightarrow> envelope \<Rightarrow> string" where
  "serialize_envelope float_repr e = json_dumps (envelope_json (JFloat (float_repr (env_timestamp e))) e)"

definition envelope_fields :: "string list" where
  "envelope_fields = [''device_id'', ''owner_onion'', ''payload_type'', ''encrypted_payload_b64'', ''nonce_b64'',
     ''timestamp'', ''sequence_id'']"

text \<open>\<^verbatim>\<open>SyncEnvelope(**data)\<close>: every field once, and no other key.\<close>

definition deserialize_envelope :: "string \<Rightarrow> (string \<times> json) list py" where
  "deserialize_envelope raw = (case json_loads raw of
     None \<Rightarrow> Inl (ValueError ''JSONDecodeError'')
   | Some (JObj kvs) \<Rightarrow>
       if set (map fst kvs) = set envelope_fields then Inr kvs else Inl (RuntimeError ''TypeError'')
   | Some _ \<Rightarrow> Inl (RuntimeError ''TypeError''))"

text \<open>The attributes, where they have the annotated types; an integer that is no larger than floats is a time as well.\<close>

definition read_envelope :: "(string \<Rightarrow> real option) \<Rightarrow> (string \<times> json) list \<Rightarrow> (envelope \<times> stamp) option" where
  "read_envelope read_float kvs =
     (case (map_of kvs ''device_id'', map_of kvs ''owner_onion'', map_of kvs ''payload_type'',
        map_of kvs ''encrypted_payload_b64'', map_of kvs ''nonce_b64'', map_of kvs ''sequence_id'') of
        (Some (JStr d), Some (JStr w), Some (JStr t), Some (JStr p), Some (JStr n), Some (JInt i)) \<Rightarrow>
          (let e = (\<lambda>x. \<lparr>env_device_id = d, env_owner_onion = w, env_payload_type = t, env_payload_b64 = p,
                 env_nonce_b64 = n, env_timestamp = x, env_sequence_id = i\<rparr>)
           in case map_of kvs ''timestamp'' of
             Some (JFloat s) \<Rightarrow>
               (case float_stamp read_float s of Finite x \<Rightarrow> Some (e x, Finite x) | st \<Rightarrow> Some (e 0, st))
           | Some (JInt k) \<Rightarrow> if \<bar>k\<bar> < 2 ^ 1023 then Some (e (of_int k), Finite (of_int k)) else None
           | _ \<Rightarrow> None)
      | _ \<Rightarrow> None)"

section \<open>Processing what was read\<close>

definition process_stamped ::
    "real \<Rightarrow> stamp \<Rightarrow> envelope \<Rightarrow> sync_manager \<Rightarrow> sync_result py \<times> sync_manager" where
  "process_stamped now st e m =
     (if \<not> is_device_authorized (env_device_id e) m
      then (Inl (ValueError (''Device '' @ env_device_id e @ '' is not authorized for sync'')), m)
      else if env_sequence_id e \<in> sm_processed m then (Inr (Duplicate (env_sequence_id e)), m)
      else if too_old now st
      then (Inl (ValueError ''Sync envelope timestamp out of acceptable bounds''), m)
      else case evict (cp_max_in_memory_messages (sm_profile m)) (sm_fifo m) (sm_processed m) of
        None \<Rightarrow> (Inl (RuntimeError ''pop from an empty deque''),
           m\<lparr>sm_fifo := [], sm_processed := sm_processed m - set (sm_fifo m)\<rparr>)
      | Some (fifo, seen) \<Rightarrow>
          (Inr (Applied (env_payload_type e) (env_sequence_id e)),
           m\<lparr>sm_fifo := fifo @ [env_sequence_id e],
             sm_processed := insert (env_sequence_id e) seen\<rparr>))"

text \<open>\<open>None\<close>: values of other types than the annotated ones.\<close>

definition receive_envelope ::
    "(string \<Rightarrow> real option) \<Rightarrow> real \<Rightarrow> string \<Rightarrow> sync_manager \<Rightarrow> (sync_result py \<times> sync_manager) option" where
  "receive_envelope read_float now raw m = (case deserialize_envelope raw of
     Inl err \<Rightarrow> Some (Inl err, m)
   | Inr kvs \<Rightarrow> map_option (\<lambda>(e, st). process_stamped now st e m) (read_envelope read_float kvs))"

text \<open>On the times that a device's own clock gives it is the operation of \<open>Device_Sync\<close>.\<close>

lemma process_finite: "process_stamped now (Finite (env_timestamp e)) e m = process_incoming_envelope now e m"
  by (simp add: process_stamped_def process_incoming_envelope_def)

lemma deserialize_json:
  assumes "plain_json t"
  shows "deserialize_envelope (json_dumps (envelope_json t e)) =
    Inr [(''device_id'', JStr (env_device_id e)), (''owner_onion'', JStr (env_owner_onion e)),
      (''payload_type'', JStr (env_payload_type e)), (''encrypted_payload_b64'', JStr (env_payload_b64 e)),
      (''nonce_b64'', JStr (env_nonce_b64 e)), (''timestamp'', t), (''sequence_id'', JInt (env_sequence_id e))]"
proof -
  have "plain_json (envelope_json t e)" using assms by (simp add: envelope_json_def)
  then show ?thesis
    by (simp only: deserialize_envelope_def loads_dumps) (simp add: envelope_json_def envelope_fields_def)
qed

lemma receive_json:
  assumes "float_text s"
  shows "receive_envelope read_float now (json_dumps (envelope_json (JFloat s) e)) m =
    Some (case float_stamp read_float s of
       Finite x \<Rightarrow> process_stamped now (Finite x) (e\<lparr>env_timestamp := x\<rparr>) m
     | st \<Rightarrow> process_stamped now st (e\<lparr>env_timestamp := 0\<rparr>) m)"
proof -
  have "plain_json (JFloat s)" using assms by simp
  from deserialize_json [OF this, of e] show ?thesis
    by (cases e) (simp add: receive_envelope_def read_envelope_def Let_def split: stamp.split)
qed

text \<open>How Python prints a float: as JSON can be read back, to the same number.\<close>

definition repr_reads :: "(real \<Rightarrow> string) \<Rightarrow> (string \<Rightarrow> real option) \<Rightarrow> real \<Rightarrow> bool" where
  "repr_reads float_repr read_float x =
     (parse_num (float_repr x) = Some (JFloat (float_repr x), []) \<and> read_float (float_repr x) = Some x)"

lemma no_word: "parse_num ''NaN'' = None" "parse_num ''Infinity'' = None" "parse_num ''-Infinity'' = None"
  by (simp_all add: parse_num_def parse_abs_def num_digits_def is_digit_def code_def)

text \<open>An envelope that a device writes as text does on the other side what the envelope itself
  would do there: reading it back changes nothing, whatever the state and the clock of the receiver.\<close>

theorem envelope_transport:
  assumes "repr_reads float_repr read_float (env_timestamp e)"
  shows "receive_envelope read_float now (serialize_envelope float_repr e) m =
    Some (process_incoming_envelope now e m)"
proof -
  let ?s = "float_repr (env_timestamp e)"
  have "?s \<noteq> ''NaN''" "?s \<noteq> ''Infinity''" "?s \<noteq> ''-Infinity''"
    using assms no_word unfolding repr_reads_def by (metis option.distinct(1))+
  then have "float_stamp read_float ?s = Finite (env_timestamp e)"
    using assms by (simp add: float_stamp_def repr_reads_def)
  moreover have "float_text ?s" using assms unfolding float_text_def repr_reads_def by blast
  ultimately show ?thesis
    by (simp add: serialize_envelope_def receive_json process_finite)
qed

theorem envelope_transport_witness:
  "receive_envelope (\<lambda>_. Some (3 / 2)) 2 (serialize_envelope (\<lambda>_. ''1.5'') (create_sync_envelope ''history_replay'' ''p'' ''n'' 7 (3 / 2)
       (sync_new ''o'' ''d'' (TIER_PROFILES L0)))) (sync_new ''o'' ''d'' (TIER_PROFILES L0)) =
   Some (process_incoming_envelope 2 (create_sync_envelope ''history_replay'' ''p'' ''n'' 7 (3 / 2)
       (sync_new ''o'' ''d'' (TIER_PROFILES L0))) (sync_new ''o'' ''d'' (TIER_PROFILES L0)))"
  by (rule envelope_transport)
    (simp add: repr_reads_def create_sync_envelope_def parse_num_def parse_abs_def num_digits_def num_frac_def num_exp_def
      is_digit_def code_def Let_def)

section \<open>An envelope without an age\<close>

lemma evict_positive: "0 < n \<Longrightarrow> evict n xs seen \<noteq> None"
  by (induction xs arbitrary: seen) auto

definition ageless :: "envelope \<Rightarrow> string" where
  "ageless e = json_dumps (envelope_json (JFloat ''NaN'') e)"

text \<open>C31: the bound on the age of an envelope can be avoided: one text, with the fields of any
  envelope and not-a-number as its time, is applied at every time by every manager that trusts
  the device it names and has not the sequence id in its window.\<close>

theorem ageless_applied:
  assumes "is_device_authorized (env_device_id e) m" "env_sequence_id e \<notin> sm_processed m"
    and "0 < cp_max_in_memory_messages (sm_profile m)"
  shows "\<exists>m'. receive_envelope read_float now (ageless e) m =
      Some (Inr (Applied (env_payload_type e) (env_sequence_id e)), m') \<and> env_sequence_id e \<in> sm_processed m'"
proof -
  obtain fifo seen where "evict (cp_max_in_memory_messages (sm_profile m)) (sm_fifo m) (sm_processed m) = Some (fifo, seen)"
    using evict_positive [OF assms(3), of "sm_fifo m" "sm_processed m"] by auto
  moreover have "float_text ''NaN''" by (simp add: float_text_def)
  ultimately show ?thesis
    using assms by (simp add: ageless_def receive_json float_stamp_def process_stamped_def is_device_authorized_def)
qed

theorem ageless_applied_witness:
  "\<exists>m'. receive_envelope (\<lambda>_. None) 99999 (ageless (create_sync_envelope ''history_replay'' ''p'' ''n'' 7 5
       (sync_new ''o'' ''d'' (TIER_PROFILES L0)))) (sync_new ''o'' ''d'' (TIER_PROFILES L0)) =
     Some (Inr (Applied ''history_replay'' 7), m') \<and> 7 \<in> sm_processed m'"
  using ageless_applied [of "create_sync_envelope ''history_replay'' ''p'' ''n'' 7 5 (sync_new ''o'' ''d'' (TIER_PROFILES L0))"
      "sync_new ''o'' ''d'' (TIER_PROFILES L0)" "\<lambda>_. None" 99999]
  by (simp add: create_sync_envelope_def sync_new_def is_device_authorized_def)

end
