(* ===== verification/Cli_Screens.thy ===== *)
theory Cli_Screens
  imports Cli_Shell V3_Compat
begin

text \<open>
  What the terminal client (\<^verbatim>\<open>cli.py\<close>) shows, and the loop of its shell: the standard
  library's \<^verbatim>\<open>cmd.Cmd\<close> reads lines and calls the commands. A printed line is its text; the
  line with the text of an exception is \<open>Error_Line\<close>. How Python prints a float or a missing
  value is an argument.
\<close>

section \<open>Lines\<close>

datatype line = Line string | Error_Line

definition pad :: "nat \<Rightarrow> string \<Rightarrow> string" where
  "pad n s = s @ replicate (n - length s) CHR '' ''"

text \<open>\<^verbatim>\<open>f"{v:<n}"\<close>; \<open>None\<close> is the TypeError of values that take no format: none, lists, objects.\<close>

definition padded :: "(string \<Rightarrow> string) \<Rightarrow> nat \<Rightarrow> json \<Rightarrow> string option" where
  "padded float_str n v = (case v of
     JStr s \<Rightarrow> Some (pad n s)
   | JInt i \<Rightarrow> Some (pad n (int_str i))
   | JBool b \<Rightarrow> Some (pad n (if b then ''1'' else ''0''))
   | JFloat s \<Rightarrow> Some (pad n (float_str s))
   | _ \<Rightarrow> None)"

section \<open>The contacts\<close>

definition bar :: string where "bar = '' | ''"

definition contact_header :: string where
  "contact_header = pad 15 ''Nickname'' @ bar @ pad 60 ''Onion Address'' @ bar @ pad 18 ''Status'' @ bar @ pad 25 ''Safety Number''"

text \<open>\<^verbatim>\<open>session_ids.get(onion, "N/A")\<close>: a list or an object is no key.\<close>

definition safety_cell :: "(string \<rightharpoonup> string) \<Rightarrow> json \<Rightarrow> string option" where
  "safety_cell ids onion = (case onion of
     JStr w \<Rightarrow> Some (case ids w of Some n \<Rightarrow> n | None \<Rightarrow> ''N/A'')
   | JList _ \<Rightarrow> None
   | JObj _ \<Rightarrow> None
   | _ \<Rightarrow> Some ''N/A'')"

definition contact_row :: "(string \<Rightarrow> string) \<Rightarrow> (string \<rightharpoonup> string) \<Rightarrow> json \<Rightarrow> string option" where
  "contact_row float_str ids c = (case c of
     JObj kvs \<Rightarrow>
       (let field = (\<lambda>k. case map_of kvs k of Some v \<Rightarrow> v | None \<Rightarrow> JNull)
        in case (safety_cell ids (field ''onion_address''), padded float_str 15 (field ''nickname''),
             padded float_str 60 (field ''onion_address''), padded float_str 18 (field ''status'')) of
          (Some safety, Some nickname, Some onion, Some status) \<Rightarrow>
            Some (nickname @ bar @ onion @ bar @ status @ bar @ take 25 safety)
        | _ \<Rightarrow> None)
   | _ \<Rightarrow> None)"

fun contact_rows :: "(string \<Rightarrow> string) \<Rightarrow> (string \<rightharpoonup> string) \<Rightarrow> json list \<Rightarrow> line list" where
  "contact_rows float_str ids [] = [Line []]"
| "contact_rows float_str ids (c # cs) = (case contact_row float_str ids c of
     Some row \<Rightarrow> Line row # contact_rows float_str ids cs
   | None \<Rightarrow> [Error_Line])"

definition do_contacts :: "(string \<Rightarrow> string) \<Rightarrow> answer option \<Rightarrow> (string \<rightharpoonup> string) \<Rightarrow> line list" where
  "do_contacts float_str a ids = (case a of
     None \<Rightarrow> [Error_Line]
   | Some r \<Rightarrow>
       if an_status r \<noteq> 200 then [Line ''Error fetching contacts.'']
       else case an_body r of
         None \<Rightarrow> [Error_Line]
       | Some v \<Rightarrow>
           if \<not> json_truthy v then [Line ''No contacts found.'']
           else Line [] # Line contact_header # Line (replicate 125 CHR ''-'') #
             (case v of JList cs \<Rightarrow> contact_rows float_str ids cs | _ \<Rightarrow> [Error_Line]))"

section \<open>The node, a message, the end\<close>

definition do_info :: "(json option \<Rightarrow> string) \<Rightarrow> crypto \<Rightarrow> client \<Rightarrow> line list" where
  "do_info py_str c cl =
     (if \<not> (case cl_onion cl of Some v \<Rightarrow> json_truthy v | None \<Rightarrow> False)
      then [Line ''Not connected to local server or not logged in.'']
      else [Line (''Local Username: '' @ py_str (cl_username cl)), Line (''My Onion Address: '' @ py_str (cl_onion cl)),
        Line (''My Public Key: '' @ take 30 (client_public c cl) @ ''...'')])"

definition prompt :: string where "prompt = ''(anonymus) ''"

text \<open>\<open>local_time\<close> is the local time of a number of seconds as text; \<open>None\<close> when it is out of range.\<close>

definition incoming_text :: "(real \<Rightarrow> string option) \<Rightarrow> string \<Rightarrow> string \<Rightarrow> int \<Rightarrow> string option" where
  "incoming_text local_time sender t timestamp =
     map_option (\<lambda>d. [newline] @ ''['' @ d @ ''] Incoming from '' @ sender @ '':'' @ [newline] @ ''  '' @ t @ [newline] @ prompt)
       (local_time (of_int timestamp / 1000))"

text \<open>
  Without the package for sockets the client has none, and taking leave of it raises. The flag is
  whether the shell ends.
\<close>

datatype socket = No_Socket | Socket bool

definition sdk_disconnect :: "socket \<Rightarrow> unit py \<times> socket" where
  "sdk_disconnect s = (case s of
     No_Socket \<Rightarrow> (Inl (RuntimeError ''AttributeError''), s) | Socket _ \<Rightarrow> (Inr (), Socket False))"

definition do_quit :: "socket \<Rightarrow> line list \<times> bool py \<times> socket" where
  "do_quit s = (case sdk_disconnect s of
     (Inl e, s') \<Rightarrow> ([Line ''Goodbye!''], Inl e, s')
   | (Inr _, s') \<Rightarrow> ([Line ''Goodbye!''], Inr True, s'))"

definition do_EOF :: "socket \<Rightarrow> line list \<times> bool py \<times> socket" where
  "do_EOF s = (case do_quit s of (ls, r) \<Rightarrow> (Line [] # ls, r))"

section \<open>The shell's loop\<close>

definition shell_commands :: "string list" where
  "shell_commands = [''info'', ''contacts'', ''connect'', ''accept'', ''send'', ''history'', ''creategroup'', ''joingroup'',
     ''groupsend'', ''grouphistory'', ''quit'', ''EOF'', ''help'']"

definition ident_char :: "char \<Rightarrow> bool" where
  "ident_char c = (let n = code c in (48 \<le> n \<and> n \<le> 57) \<or> (65 \<le> n \<and> n \<le> 90) \<or> n = 95 \<or> (97 \<le> n \<and> n \<le> 122))"

text \<open>\<^verbatim>\<open>parseline\<close> of a line that is not blank: the command, its argument and the line itself.\<close>

definition parse_line :: "string \<Rightarrow> (string \<times> string \<times> string) option" where
  "parse_line s =
     (let t = py_strip s; t = (if take 1 t = ''?'' then ''help '' @ drop 1 t else t)
      in if take 1 t = ''!'' then None
         else Some (takeWhile ident_char t, py_strip (dropWhile ident_char t), t))"

datatype call = Call string string | Unknown | Nothing

text \<open>\<^verbatim>\<open>onecmd\<close>, with the last command: a blank line is the last command again.\<close>

definition onecmd :: "string \<Rightarrow> string \<Rightarrow> call \<times> string" where
  "onecmd lastcmd l =
     (let eff = (if py_strip l = [] then lastcmd else l)
      in if py_strip eff = [] then (Nothing, lastcmd)
         else case parse_line eff of
           None \<Rightarrow> (Unknown, lastcmd)
         | Some (c, arg, t) \<Rightarrow>
             (if c \<in> set shell_commands then Call c arg else Unknown, if t = ''EOF'' then [] else t))"

text \<open>
  The commands that are called, with their arguments, for the lines that are typed; at the end of
  the input \<^verbatim>\<open>EOF\<close> is. A command that lets an exception out ends the program, which is left out.
\<close>

fun shell_calls :: "string \<Rightarrow> string list \<Rightarrow> (string \<times> string) list" where
  "shell_calls lastcmd [] = [(''EOF'', [])]"
| "shell_calls lastcmd (l # ls) = (case onecmd lastcmd l of
     (Call c arg, lastcmd') \<Rightarrow> (c, arg) # (if c = ''quit'' \<or> c = ''EOF'' then [] else shell_calls lastcmd' ls)
   | (_, lastcmd') \<Rightarrow> shell_calls lastcmd' ls)"

section \<open>A blank line is a command\<close>

lemma onecmd_again:
  assumes "onecmd lastcmd l = (Call c arg, lastcmd')" "c \<noteq> ''help''" "c \<noteq> ''EOF''" "py_strip b = []"
  shows "onecmd lastcmd' b = (Call c arg, lastcmd')"
proof -
  let ?eff = "if py_strip l = [] then lastcmd else l"
  let ?t = "py_strip ?eff"
  have ne: "?t \<noteq> []" using assms(1) by (auto simp: onecmd_def Let_def split: if_splits)
  have "take 1 ?t \<noteq> ''?''"
  proof
    assume q: "take 1 ?t = ''?''"
    have "takeWhile ident_char (''help '' @ drop 1 ?t) = ''help''" by (simp add: ident_char_def code_def)
    with assms(1,2) ne q show False by (simp add: onecmd_def Let_def parse_line_def split: if_splits)
  qed
  with assms(1) ne have p: "parse_line ?eff = Some (c, arg, ?t)" "c \<in> set shell_commands"
      "lastcmd' = (if ?t = ''EOF'' then [] else ?t)"
    by (auto simp: onecmd_def Let_def parse_line_def split: if_splits)
  have "?t \<noteq> ''EOF''"
  proof
    assume "?t = ''EOF''"
    with p(1) \<open>take 1 ?t \<noteq> ''?''\<close> have "c = takeWhile ident_char ''EOF''" by (simp add: parse_line_def Let_def)
    then show False using assms(3) by (simp add: ident_char_def code_def)
  qed
  with p have l: "lastcmd' = ?t" by simp
  have "parse_line ?t = parse_line ?eff" by (simp add: parse_line_def strip_idem)
  then show ?thesis
    using p ne \<open>?t \<noteq> ''EOF''\<close> assms(4) unfolding l onecmd_def Let_def by (simp add: strip_idem)
qed

text \<open>C18: pressing return at the prompt of the terminal client does the last command again, once for
  each blank line: after a message was sent, every blank line sends it once more. The shell keeps
  the default of \<^verbatim>\<open>cmd.Cmd\<close> for an empty line.\<close>

theorem return_repeats_command:
  assumes "onecmd lastcmd l = (Call c arg, lastcmd')" "c \<notin> {''help'', ''quit'', ''EOF''}"
    and "\<forall>b\<in>set blanks. py_strip b = []"
  shows "shell_calls lastcmd (l # blanks @ ls) = replicate (Suc (length blanks)) (c, arg) @ shell_calls lastcmd' ls"
proof -
  have "shell_calls lastcmd' (blanks @ ls) = replicate (length blanks) (c, arg) @ shell_calls lastcmd' ls"
    using assms(3)
  proof (induction blanks)
    case (Cons b bs)
    have "onecmd lastcmd' b = (Call c arg, lastcmd')"
      using onecmd_again [OF assms(1), of b] assms(2) Cons.prems by simp
    with Cons assms(2) show ?case by simp
  qed simp
  with assms(1,2) show ?thesis by simp
qed

theorem return_repeats_command_witness:
  "shell_calls [] [''send bob.onion hello'', [], ''quit''] =
   [(''send'', ''bob.onion hello''), (''send'', ''bob.onion hello''), (''quit'', [])]"
proof -
  have o: "onecmd [] ''send bob.onion hello'' = (Call ''send'' ''bob.onion hello'', ''send bob.onion hello'')"
    by (simp add: onecmd_def parse_line_def str_simps ident_char_def code_def shell_commands_def)
  have "shell_calls ''send bob.onion hello'' [''quit''] = [(''quit'', [])]"
    by (simp add: onecmd_def parse_line_def Let_def str_simps ident_char_def code_def shell_commands_def)
  with return_repeats_command [OF o, of "[[]]" "[''quit'']"] show ?thesis by simp
qed

section \<open>A contact without a name\<close>

text \<open>A contact in the answer of \<^verbatim>\<open>GET /api/contacts\<close> of the FastAPI node.\<close>

definition opt_json :: "string option \<Rightarrow> json" where
  "opt_json v = (case v of Some s \<Rightarrow> JStr s | None \<Rightarrow> JNull)"

definition legacy_contact_json :: "v3_contact \<Rightarrow> json" where
  "legacy_contact_json c = JObj
     [(''onion_address'', JStr (vc_onion c)), (''nickname'', opt_json (vc_nickname c)), (''status'', JStr (vc_status c)),
      (''verified'', JBool (vc_verified c)), (''send_receipts'', JInt (if cc_send_receipts (vc_columns c) then 1 else 0)),
      (''preferred_file_relay'', JStr (case cc_file_relay (vc_columns c) of Some r \<Rightarrow> r | None \<Rightarrow> []))]"

definition contacts_answer :: "v3_contact list \<Rightarrow> answer" where
  "contacts_answer cs = \<lparr>an_status = 200, an_body = Some (JList (map legacy_contact_json cs))\<rparr>"

text \<open>The row of a contact with a name.\<close>

definition named_row :: "(string \<rightharpoonup> string) \<Rightarrow> v3_contact \<Rightarrow> string \<Rightarrow> string" where
  "named_row ids c nickname = pad 15 nickname @ bar @ pad 60 (vc_onion c) @ bar @ pad 18 (vc_status c) @ bar @
     take 25 (case ids (vc_onion c) of Some n \<Rightarrow> n | None \<Rightarrow> ''N/A'')"

lemma contact_row_legacy: "contact_row float_str ids (legacy_contact_json c) = map_option (named_row ids c) (vc_nickname c)"
  by (simp add: contact_row_def legacy_contact_json_def opt_json_def padded_def safety_cell_def named_row_def Let_def
      split: option.split)

lemma contact_rows_legacy:
  "contact_rows float_str ids (map legacy_contact_json cs) =
     map (\<lambda>c. Line (named_row ids c (the (vc_nickname c)))) (takeWhile (\<lambda>c. vc_nickname c \<noteq> None) cs) @
     (if \<forall>c\<in>set cs. vc_nickname c \<noteq> None then [Line []] else [Error_Line])"
  by (induction cs) (auto simp: contact_row_legacy split: option.split)

text \<open>The list of contacts against the FastAPI node: a row for each contact in the order of the
  node up to the first that has no name; if there is one, neither it nor any contact after it is
  shown. The node takes contacts without a name.\<close>

lemma unnamed_contact_hides:
  assumes "legacy_get_contacts ss st = Inr cs" "cs \<noteq> []"
  shows "do_contacts float_str (Some (contacts_answer cs)) ids =
    [Line [], Line contact_header, Line (replicate 125 CHR ''-'')] @
    map (\<lambda>c. Line (named_row ids c (the (vc_nickname c)))) (takeWhile (\<lambda>c. vc_nickname c \<noteq> None) cs) @
    (if \<forall>c\<in>set cs. vc_nickname c \<noteq> None then [Line []] else [Error_Line])"
  using assms(2)
  by (cases cs) (simp_all add: do_contacts_def contacts_answer_def json_truthy_def contact_rows_legacy flip: list.map)

end
