(* ===== verification/V3_Transactions.thy ===== *)
theory V3_Transactions
  imports V3_Compat V3_Conversations
begin

text \<open>
  The endpoints of the FastAPI node that write to its tables, all of them in one relation, and what a
  refused request leaves behind. Each runs in one database session (\<^verbatim>\<open>core/db/engine.py\<close>,
  \<^verbatim>\<open>get_session\<close>), which is rolled back to its last commit when the endpoint raises.
\<close>

text \<open>What an endpoint did: whether it refused, and the tables afterwards.\<close>

definition refused :: "'a http \<Rightarrow> bool" where
  "refused r = (case r of Inl _ \<Rightarrow> True | Inr _ \<Rightarrow> False)"

lemma refused_simps [simp]: "refused (Inl e)" "\<not> refused (Inr x)"
  by (simp_all add: refused_def)

lemma refusedE: "refused r \<Longrightarrow> (\<And>e. r = Inl e \<Longrightarrow> P) \<Longrightarrow> P"
  by (cases r) simp_all

text \<open>\<open>v3_call name s no s'\<close>: a request to the endpoint of that name in \<open>s\<close>, refused or not.\<close>

inductive v3_call :: "string \<Rightarrow> v3 \<Rightarrow> bool \<Rightarrow> v3 \<Rightarrow> bool" where
  message: "p2p_message mid b s = (r, s') \<Longrightarrow> v3_call ''p2p_message'' s (refused r) s'"
| handshake: "p2p_handshake w nick k s = (r, s') \<Longrightarrow> v3_call ''p2p_handshake'' s (refused r) s'"
| accept: "p2p_accept w k s = (r, s') \<Longrightarrow> v3_call ''p2p_accept'' s (refused r) s'"
| peer_delete: "p2p_delete w mid s = (r, s') \<Longrightarrow> v3_call ''p2p_delete'' s (refused r) s'"
| send: "send_message_v3 ss mid now q s = (r, s', job) \<Longrightarrow> v3_call ''send_message'' s (refused r) s'"
| delete: "delete_message ss mid s = (r, s') \<Longrightarrow> v3_call ''delete_message'' s (refused r) s'"
| resolve: "resolve_sender ss mid w s = (r, s') \<Longrightarrow> v3_call ''resolve_sender'' s (refused r) s'"
| add: "add_contact_v3 ss w nick s = (r, s', job) \<Longrightarrow> v3_call ''add_contact'' s (refused r) s'"
| remove: "remove_contact ss i s = (r, s') \<Longrightarrow> v3_call ''remove_contact'' s (refused r) s'"
| group: "create_group_v3 ss gid g ms ch s = (r, s') \<Longrightarrow> v3_call ''create_group'' s (refused r) s'"
| group_message: "send_group_message ss mid gid ct s = (r, s') \<Longrightarrow> v3_call ''send_group_message'' s (refused r) s'"
| profile: "create_profile_v3 hashpw ss pid name hidden pass s = (r, s') \<Longrightarrow> v3_call ''create_profile'' s (refused r) s'"
| active: "active_profile ss s = (r, s') \<Longrightarrow> v3_call ''active_profile'' s (refused r) s'"
| badge: "verify_badge h key ss now w sig s = (r, s') \<Longrightarrow> v3_call ''verify_badge'' s (refused r) s'"
| notify: "register_notification ss tok w s = (r, s') \<Longrightarrow> v3_call ''register_notification'' s (refused r) s'"
| clear: "clear_notifications ss toks s = (r, s') \<Longrightarrow> v3_call ''clear_notifications'' s (refused r) s'"
| relay: "set_relay_setting ss url s = (r, s') \<Longrightarrow> v3_call ''set_relay_setting'' s (refused r) s'"
| reset: "reset_data ss word s = (r, s') \<Longrightarrow> v3_call ''reset'' s (refused r) s'"
| old_relay: "legacy_set_preferred_relay ss body s = (r, s') \<Longrightarrow> v3_call ''legacy_set_preferred_relay'' s (refused r) s'"
| old_add: "legacy_add_contact ss w nick s = (r, s') \<Longrightarrow> v3_call ''legacy_add_contact'' s (refused r) s'"
| old_receipts: "legacy_update_receipts ss body s = (r, s') \<Longrightarrow> v3_call ''legacy_update_receipts'' s (refused r) s'"
| old_secret: "legacy_save_secret ss q s = (r, s') \<Longrightarrow> v3_call ''legacy_save_secret'' s (refused r) s'"
| old_accept: "legacy_accept_contact ss w k x s = (r, s', job) \<Longrightarrow> v3_call ''legacy_accept_contact'' s (refused r) s'"
| old_delete: "legacy_delete_contact ss w s = (r, s') \<Longrightarrow> v3_call ''legacy_delete_contact'' s (refused r) s'"
| old_send: "legacy_send_message ss mid now w ct iv seq s = (r, s') \<Longrightarrow> v3_call ''legacy_send_message'' s (refused r) s'"
| old_group: "legacy_create_group ss gid g w ch ms s = (r, s') \<Longrightarrow> v3_call ''legacy_create_group'' s (refused r) s'"
| old_group_message: "legacy_save_group_message ss mid gid w m s = (r, s') \<Longrightarrow> v3_call ''legacy_save_group_message'' s (refused r) s'"
| old_profile: "legacy_create_profile hashpw ss pid name hid pass s = (r, s') \<Longrightarrow> v3_call ''legacy_create_profile'' s (refused r) s'"
| old_active: "legacy_active_profile ss s = (r, s') \<Longrightarrow> v3_call ''legacy_active_profile'' s (refused r) s'"
| old_badge: "legacy_supporter_badge h key ss now w sig s = (r, s') \<Longrightarrow> v3_call ''legacy_supporter_badge'' s (refused r) s'"

section \<open>A refused request\<close>

lemma refused_conversation:
  "p2p_message mid b s = (Inl e, s') \<Longrightarrow> s' = s" "p2p_handshake w nick k s = (Inl e, s') \<Longrightarrow> s' = s"
  "p2p_accept w k s = (Inl e, s') \<Longrightarrow> s' = s" "p2p_delete w mid s = (Inl e, s') \<Longrightarrow> s' = s"
  "send_message_v3 ss mid now q s = (Inl e, s', job) \<Longrightarrow> s' = s" "delete_message ss mid s = (Inl e, s') \<Longrightarrow> s' = s"
  "add_contact_v3 ss w nm s = (Inl e, s', job') \<Longrightarrow> s' = s" "remove_contact ss i s = (Inl e, s') \<Longrightarrow> s' = s"
  by (auto simp: p2p_message_def Let_def split: sum.splits option.splits if_splits)
    (auto simp: p2p_handshake_def p2p_accept_def p2p_delete_def send_message_v3_def delete_message_def add_contact_v3_def
      remove_contact_def Let_def split: sum.splits option.splits if_splits)

lemma refused_resolve:
  "resolve_sender ss mid w s = (Inl e, s') \<Longrightarrow> s' = s \<or> s' = drop_message mid s"
  by (auto simp: resolve_sender_def Let_def split: sum.splits option.splits if_splits)

lemma refused_social:
  "create_group_v3 ss gid g ms ch s = (Inl e, s') \<Longrightarrow> s' = s" "send_group_message ss mid gid ct s = (Inl e, s') \<Longrightarrow> s' = s"
  "create_profile_v3 hashpw ss pid name hidden pass s = (Inl e, s') \<Longrightarrow> s' = s" "active_profile ss s = (Inl e, s') \<Longrightarrow> s' = s"
  "verify_badge h key ss now w sig s = (Inl e, s') \<Longrightarrow> s' = s" "register_notification ss tok w s = (Inl e, s') \<Longrightarrow> s' = s"
  "clear_notifications ss toks s = (Inl e, s') \<Longrightarrow> s' = s" "set_relay_setting ss url s = (Inl e, s') \<Longrightarrow> s' = s"
  "reset_data ss word s = (Inl e, s') \<Longrightarrow> s' = s"
  by (auto simp: create_group_v3_def send_group_message_def create_profile_v3_def active_profile_def verify_badge_def
      register_notification_def clear_notifications_def set_relay_setting_def reset_data_def Let_def
      split: sum.splits option.splits if_splits list.splits)

lemma refused_legacy:
  "legacy_set_preferred_relay ss body s = (Inl e, s') \<Longrightarrow> s' = s" "legacy_add_contact ss w nick s = (Inl e, s') \<Longrightarrow> s' = s"
  "legacy_update_receipts ss body s = (Inl e, s') \<Longrightarrow> s' = s" "legacy_save_secret ss q s = (Inl e, s') \<Longrightarrow> s' = s"
  "legacy_accept_contact ss w k x s = (Inl e, s', job) \<Longrightarrow> s' = s" "legacy_delete_contact ss w s = (Inl e, s') \<Longrightarrow> s' = s"
  by (auto simp: legacy_set_preferred_relay_def legacy_add_contact_def legacy_update_receipts_def legacy_save_secret_def
      legacy_accept_contact_def legacy_delete_contact_def Let_def split: sum.splits option.splits if_splits list.splits json.splits)

lemma refused_legacy_rows:
  "legacy_send_message ss mid now w ct iv seq s = (Inl e, s') \<Longrightarrow> s' = s" "legacy_create_group ss gid g w ch ms s = (Inl e, s') \<Longrightarrow> s' = s"
  "legacy_save_group_message ss mid gid w m s = (Inl e, s') \<Longrightarrow> s' = s"
  "legacy_create_profile hashpw ss pid name hid pass s = (Inl e, s') \<Longrightarrow> s' = s" "legacy_active_profile ss s = (Inl e, s') \<Longrightarrow> s' = s"
  "legacy_supporter_badge h key ss now w sig s = (Inl e, s') \<Longrightarrow> s' = s"
  by (auto simp: legacy_send_message_def legacy_create_group_def legacy_save_group_message_def legacy_create_profile_def
      legacy_active_profile_def legacy_supporter_badge_def Let_def split: sum.splits option.splits if_splits list.splits)

text \<open>The rule of the transactions: a refused request leaves the tables as they are. The one exception
  is the resolution of a sealed sender, which commits before it raises.\<close>

lemma refused_changes_nothing:
  assumes "v3_call name s True s'" "name \<noteq> ''resolve_sender''"
  shows "s' = s"
  using assms
  by cases (auto elim!: refusedE dest!: refused_conversation refused_social refused_legacy refused_legacy_rows)

text \<open>
  That exception: whoever has the session names a sender who is no contact, and the answer is 403, yet
  the message is gone, sealed or not and whoever it is from.
\<close>

lemma resolve_deletes_any:
  assumes "current_user ss s = Inr u" "m \<in> set (v3_messages s)" "contact_with (u_onion u) (py_lower (py_strip w)) s = None"
  shows "resolve_sender ss (vm_id m) w s = (Inl (HTTP 403 ''Unauthorized sender identity''), drop_message (vm_id m) s)"
proof -
  obtain m' where "List.find (\<lambda>x. vm_id x = vm_id m) (v3_messages s) = Some m'"
    using assms(2) by (cases "List.find (\<lambda>x. vm_id x = vm_id m) (v3_messages s)") (auto simp: find_None_iff)
  then show ?thesis using assms(1,3) by (simp add: resolve_sender_def)
qed

section \<open>A run of requests\<close>

inductive v3_run :: "v3 \<Rightarrow> (string \<times> bool) list \<Rightarrow> v3 \<Rightarrow> bool" where
  finished: "v3_run s [] s"
| call: "v3_call name s no s1 \<Longrightarrow> v3_run s1 calls s' \<Longrightarrow> v3_run s ((name, no) # calls) s'"



end
