(* ===== verification/Http_Stack.thy ===== *)
theory Http_Stack
  imports App_V3
begin

text \<open>
  The order in which \<^verbatim>\<open>create_app\<close> of \<^verbatim>\<open>transports/p2p/app_v3.py\<close> puts its
  middleware around the routers, and which answers the headers of
  \<^verbatim>\<open>core/security_headers.py\<close> reach. The last one added is the outermost: the rate limit,
  the session, CORS, the security headers, the routers; the handler of unhandled exceptions is
  around all of them. The session's cookie and the counters change no other header and are left out.
\<close>

section \<open>Requests and answers\<close>

record http_request =
  rq_method :: string
  rq_path :: string
  rq_client :: "string option"
  rq_scheme :: string
  rq_forwarded :: string
  rq_origin :: "string option"
  rq_asks_method :: bool    \<comment> \<open>there is an \<^verbatim>\<open>Access-Control-Request-Method\<close>\<close>

record response =
  rs_status :: nat
  rs_headers :: "string \<rightharpoonup> string"

text \<open>An endpoint's answer; \<open>None\<close> is an exception that nothing in it handles.\<close>

type_synonym app = "http_request \<Rightarrow> response option"

section \<open>Origins\<close>

text \<open>\<^verbatim>\<open>^https?://(localhost|127\.0\.0\.1)(:\d+)?$\<close>, matched against the whole origin.\<close>

definition port_part :: "string \<Rightarrow> bool" where
  "port_part s = (s = [] \<or> (take 1 s = '':'' \<and> drop 1 s \<noteq> [] \<and> list_all is_digit (drop 1 s)))"

definition drop_prefix :: "string \<Rightarrow> string \<Rightarrow> string option" where
  "drop_prefix p s = (if py_startswith s p then Some (drop (length p) s) else None)"

definition local_origin :: "string \<Rightarrow> bool" where
  "local_origin w =
     list_ex (\<lambda>p. case drop_prefix p w of Some r \<Rightarrow> port_part r | None \<Rightarrow> False)
       [''http://localhost'', ''https://localhost'', ''http://127.0.0.1'', ''https://127.0.0.1'']"

section \<open>The layers\<close>

definition security_layer :: "app \<Rightarrow> app" where
  "security_layer app q = map_option
     (\<lambda>r. r\<lparr>rs_headers := security_dispatch (rq_scheme q) (rq_forwarded q) (rq_path q) (rs_headers r)\<rparr>) (app q)"

text \<open>
  CORS: a preflight is answered by the layer itself, with 200 for an origin that is allowed and 400 for
  others; \<open>preflight\<close> are its headers. Other requests with an origin get headers for it; \<^verbatim>\<open>Vary\<close> is left out.
\<close>

definition is_preflight :: "http_request \<Rightarrow> bool" where
  "is_preflight q = (rq_origin q \<noteq> None \<and> rq_method q = ''OPTIONS'' \<and> rq_asks_method q)"

definition allow_origin :: "string \<Rightarrow> (string \<rightharpoonup> string) \<Rightarrow> (string \<rightharpoonup> string)" where
  "allow_origin w h = (let h = h(''Access-Control-Allow-Credentials'' \<mapsto> ''true'')
     in if local_origin w then h(''Access-Control-Allow-Origin'' \<mapsto> w) else h)"

definition cors_layer :: "(http_request \<Rightarrow> string \<rightharpoonup> string) \<Rightarrow> app \<Rightarrow> app" where
  "cors_layer preflight app q = (case rq_origin q of
     None \<Rightarrow> app q
   | Some w \<Rightarrow>
       if is_preflight q then Some \<lparr>rs_status = (if local_origin w then 200 else 400), rs_headers = preflight q\<rparr>
       else map_option (\<lambda>r. r\<lparr>rs_headers := allow_origin w (rs_headers r)\<rparr>) (app q))"

definition json_response :: "nat \<Rightarrow> response" where
  "json_response status = \<lparr>rs_status = status, rs_headers = [''Content-Type'' \<mapsto> ''application/json'']\<rparr>"

definition rate_layer :: "real \<Rightarrow> app \<Rightarrow> http_request \<Rightarrow> request_log \<Rightarrow> response option \<times> request_log" where
  "rate_layer now app q m =
     (case rate_limit_middleware ''http'' (rq_client q) (rq_path q) now m of
        (Inl _, m') \<Rightarrow> (Some (json_response 429), m')
      | (Inr _, m') \<Rightarrow> (app q, m'))"

definition error_layer :: "response option \<Rightarrow> response" where
  "error_layer r = (case r of Some r \<Rightarrow> r | None \<Rightarrow> json_response 500)"

definition node_stack ::
    "(http_request \<Rightarrow> string \<rightharpoonup> string) \<Rightarrow> real \<Rightarrow> app \<Rightarrow> http_request \<Rightarrow> request_log \<Rightarrow> response \<times> request_log" where
  "node_stack preflight now app q m =
     (case rate_layer now (cors_layer preflight (security_layer app)) q m of (r, m') \<Rightarrow> (error_layer r, m'))"

section \<open>Which answers are protected\<close>

definition admitted :: "real \<Rightarrow> http_request \<Rightarrow> request_log \<Rightarrow> bool" where
  "admitted now q m = (fst (rate_limit_middleware ''http'' (rq_client q) (rq_path q) now m) = Inr ())"

lemma base_keys: "distinct (map fst base_headers)"
  "set (map fst base_headers) \<inter> {''Access-Control-Allow-Origin'', ''Access-Control-Allow-Credentials'', ''Content-Type'',
     ''Cache-Control''} = {}"
  by (simp_all add: base_headers_def)

lemma base_names:
  assumes "(k, v) \<in> set base_headers"
  shows "k \<notin> {''Access-Control-Allow-Origin'', ''Access-Control-Allow-Credentials'', ''Content-Type'', ''Cache-Control''}"
proof -
  have "k \<in> set (map fst base_headers)" using imageI [OF assms, of fst] by (simp only: set_map fst_conv)
  with base_keys(2) show ?thesis by blast
qed

lemma base_headers_set:
  assumes "(k, v) \<in> set base_headers"
  shows "security_dispatch scheme forwarded path h k = Some v"
proof -
  have "map_of (rev base_headers) k = Some v"
    using assms base_keys(1) by (simp add: rev_map [symmetric])
  then show ?thesis
    using base_names [OF assms] by (simp add: security_dispatch_def secured_def map_add_def)
qed

lemma allow_origin_other: "(k, v) \<in> set base_headers \<Longrightarrow> allow_origin w h k = h k"
  using base_names [of k v] by (simp add: allow_origin_def Let_def)

lemma json_response_bare: "(k, v) \<in> set base_headers \<Longrightarrow> rs_headers (json_response n) k = None"
  using base_names [of k v] by (simp add: json_response_def)

text \<open>C6: the security headers reach exactly the answers that an endpoint gave: each header of the
  list is set on these, whatever the endpoint set itself, and on none of the others, which are the
  refusal of the rate limit, a preflight and the answer to an unhandled exception.\<close>

theorem headers_reach:
  assumes "(k, v) \<in> set base_headers" "\<And>q. preflight q k = None"
  shows "rs_headers (fst (node_stack preflight now app q m)) k =
    (if admitted now q m \<and> \<not> is_preflight q \<and> app q \<noteq> None then Some v else None)"
proof -
  obtain a m' where a: "rate_limit_middleware ''http'' (rq_client q) (rq_path q) now m = (a, m')" by fastforce
  note bare = json_response_bare [OF assms(1)]
  show ?thesis
  proof (cases a)
    case (Inl e)
    with a bare show ?thesis by (simp add: node_stack_def rate_layer_def error_layer_def admitted_def)
  next
    case (Inr u)
    with a bare assms show ?thesis
      by (cases "app q"; cases "rq_origin q")
        (auto simp: node_stack_def rate_layer_def error_layer_def admitted_def cors_layer_def security_layer_def
          is_preflight_def base_headers_set allow_origin_other)
  qed
qed

definition demo_request :: http_request where
  "demo_request = \<lparr>rq_method = ''GET'', rq_path = ''/v3/auth/me'', rq_client = Some ''127.0.0.1'', rq_scheme = ''http'',
     rq_forwarded = [], rq_origin = Some ''http://localhost:5173'', rq_asks_method = False\<rparr>"

theorem headers_reach_witness:
  "rs_headers (fst (node_stack (\<lambda>_. Map.empty) 0 (\<lambda>_. Some (json_response 200)) demo_request Map.empty)) ''X-Frame-Options''
     = Some ''DENY'' \<and>
   rs_headers (fst (node_stack (\<lambda>_. Map.empty) 0 (\<lambda>_. None) demo_request Map.empty)) ''X-Frame-Options'' = None"
proof -
  have k: "(''X-Frame-Options'', ''DENY'') \<in> set base_headers" by (simp add: base_headers_def)
  have "admitted 0 demo_request Map.empty"
    by (simp add: admitted_def demo_request_def rate_limit_middleware_def admit_request_def request_stamps_def MAX_REQUESTS_def)
  moreover have "\<not> is_preflight demo_request" by (simp add: is_preflight_def demo_request_def)
  ultimately show ?thesis
    using headers_reach [OF k, of "\<lambda>_. Map.empty" 0 "\<lambda>_. Some (json_response 200)" demo_request Map.empty]
      headers_reach [OF k, of "\<lambda>_. Map.empty" 0 "\<lambda>_. None" demo_request Map.empty]
    by simp
qed

text \<open>Pages from any port of the machine are let in with the user's cookie; names that only begin so are not.\<close>

lemma local_origins:
  "local_origin ''http://localhost:5173''" "local_origin ''https://127.0.0.1''"
  "\<not> local_origin ''http://localhost.evil.example''" "\<not> local_origin ''http://127.0.0.1:''"
  by (simp_all add: local_origin_def drop_prefix_def port_part_def py_startswith_def is_digit_def code_def)

end
