(* ===== verification/Launcher_Config.thy ===== *)
theory Launcher_Config
  imports Launcher_Control Json_Dumps
begin

text \<open>
  The settings file of the desktop launcher (\<^verbatim>\<open>launcher/launcher.py\<close>) over its starts: which
  file it is, what a start reads and writes back, and what the control panel shows of the machine.
\<close>

section \<open>The file\<close>

text \<open>A file of the older name is used as long as there is none of the new name.\<close>

definition config_file :: "(string \<Rightarrow> bool) \<Rightarrow> string" where
  "config_file exists =
     (if \<not> exists ''anonymus_launcher_config.json'' \<and> exists ''diagnostics_config.json'' then ''diagnostics_config.json''
      else ''anonymus_launcher_config.json'')"

text \<open>\<open>writable\<close> is whether the file can be opened for writing; otherwise nothing happens.\<close>

definition save_settings :: "bool \<Rightarrow> launcher_settings \<Rightarrow> string option \<Rightarrow> string option" where
  "save_settings writable st file = (if writable then Some (json_dumps (JObj st)) else file)"

text \<open>A start: the settings, and the file afterwards. \<open>token\<close> is what \<^verbatim>\<open>token_urlsafe\<close> draws.\<close>

definition start_settings :: "bool \<Rightarrow> string \<Rightarrow> string option \<Rightarrow> (launcher_settings \<times> string option) option" where
  "start_settings writable token file =
     map_option (\<lambda>(st, wrote). (st, if wrote then save_settings writable st file else file))
       (load_settings (Option.bind file json_loads) token)"

definition toggle_and_save :: "bool \<Rightarrow> bool \<Rightarrow> launcher_settings \<Rightarrow> string option \<Rightarrow> launcher_settings \<times> string option" where
  "toggle_and_save writable on st file =
     (toggle_disguise on st, save_settings writable (toggle_disguise on st) file)"

section \<open>The machine\<close>

text \<open>
  What \<^verbatim>\<open>platform\<close> and \<^verbatim>\<open>os\<close> report; the memory is asked for on Windows only.
  \<open>gib\<close> prints a number of bytes in gibibytes with one decimal.
\<close>

record machine =
  mc_system :: string
  mc_release :: string
  mc_processor :: string
  mc_cores :: "nat option"
  mc_memory :: "nat option"
  mc_arch :: string

definition get_system_specs :: "(nat \<Rightarrow> string) \<Rightarrow> machine option \<Rightarrow> (string \<times> string) list" where
  "get_system_specs gib m = (case m of
     None \<Rightarrow> [(''OS'', ''Windows 10''), (''CPU'', ''x86_64''), (''RAM'', ''8 GB''), (''Arch'', ''AMD64'')]
   | Some m \<Rightarrow>
       let cpu = (if mc_processor m = [] then ''Generic Processor'' else mc_processor m);
           cores = (case mc_cores m of Some n \<Rightarrow> if n = 0 then 4 else n | None \<Rightarrow> 4);
           ram = (if mc_system m = ''Windows''
             then case mc_memory m of Some b \<Rightarrow> gib b @ '' GB'' | None \<Rightarrow> ''8 GB'' else ''8 GB'')
       in [(''OS'', mc_system m @ '' '' @ mc_release m), (''CPU'', cpu @ '' ('' @ int_str (int cores) @ '' Cores)''),
         (''RAM'', ram), (''Arch'', mc_arch m)])"

section \<open>The settings survive a restart\<close>

definition good_token :: "string \<Rightarrow> bool" where
  "good_token t = (t \<notin> set LAUNCHER_PLACEHOLDERS)"

lemma update_distinct: "distinct (map fst xs) \<Longrightarrow> distinct (map fst (AList.update k v xs))"
  by (rule distinct_update)

lemma update_plain: "\<forall>kv\<in>set xs. plain_json (snd kv) \<Longrightarrow> plain_json v \<Longrightarrow>
    \<forall>kv\<in>set (AList.update k v xs). plain_json (snd kv)"
  by (induction xs) auto

lemma fold_update_plain:
  "\<forall>kv\<in>set kvs. plain_json (snd kv) \<Longrightarrow> plain_json (JObj xs) \<Longrightarrow>
   plain_json (JObj (fold (\<lambda>(k, v). AList.update k v) kvs xs))"
proof (induction kvs arbitrary: xs)
  case (Cons kv kvs)
  then have "plain_json (JObj (AList.update (fst kv) (snd kv) xs))"
    using update_distinct [of xs "fst kv" "snd kv"] update_plain [of xs "snd kv" "fst kv"] by simp
  with Cons show ?case by (cases kv) simp
qed simp

lemma map_of_fold_update:
  "distinct (map fst kvs) \<Longrightarrow> map_of (fold (\<lambda>(k, v). AList.update k v) kvs xs) = map_of xs ++ map_of kvs"
proof (induction kvs arbitrary: xs)
  case (Cons kv kvs)
  then have "fst kv \<notin> dom (map_of kvs)" by (simp add: dom_map_of_conv_image_fst)
  with Cons show ?case
    by (cases kv) (auto simp: update_conv' fun_eq_iff map_add_def split: option.split)
qed simp

definition merged :: "json option \<Rightarrow> launcher_settings" where
  "merged saved = (case saved of Some (JObj kvs) \<Rightarrow> fold (\<lambda>(k, v). AList.update k v) kvs launcher_defaults | _ \<Rightarrow> launcher_defaults)"

lemma merged_plain:
  assumes "\<And>j. saved = Some j \<Longrightarrow> plain_json j"
  shows "plain_json (JObj (merged saved))"
proof -
  have d: "plain_json (JObj launcher_defaults)" by (simp add: launcher_defaults_def)
  show ?thesis
  proof (cases "\<exists>kvs. saved = Some (JObj kvs)")
    case True
    then obtain kvs where s: "saved = Some (JObj kvs)" by blast
    have "\<forall>kv\<in>set kvs. plain_json (snd kv)" using assms [OF s] by simp
    from fold_update_plain [OF this d] show ?thesis unfolding merged_def s by simp
  next
    case False
    then have "merged saved = launcher_defaults" by (auto simp: merged_def split: option.split json.split)
    with d show ?thesis by simp
  qed
qed

lemma merged_keys: "dom (map_of launcher_defaults) \<subseteq> dom (map_of (AList.update k v (merged saved)))"
proof -
  have "dom (map_of xs) \<subseteq> dom (map_of (fold (\<lambda>(k, v). AList.update k v) kvs xs))" for kvs :: launcher_settings and xs
  proof (induction kvs arbitrary: xs)
    case (Cons kv kvs)
    have "dom (map_of xs) \<subseteq> dom (map_of (AList.update (fst kv) (snd kv) xs))" by (auto simp: update_conv')
    with Cons [of "AList.update (fst kv) (snd kv) xs"] show ?case by (cases kv) auto
  qed simp
  then have "dom (map_of launcher_defaults) \<subseteq> dom (map_of (merged saved))"
    unfolding merged_def by (cases saved; cases "the saved") simp_all
  then show ?thesis by (auto simp: update_conv')
qed

lemma load_cases:
  assumes "load_settings saved token = Some (st, wrote)"
  shows "if wrote then st = AList.update ''flask_secret_key'' (JStr token) (merged saved)
    else st = merged saved \<and> (\<forall>t. load_settings saved t = Some (st, False))"
  using assms unfolding load_settings_def merged_def [symmetric] Let_def
  by (auto split: if_splits json.splits)

lemma load_good:
  assumes "setting ''flask_secret_key'' (merged saved) (JStr []) = JStr t" "good_token t"
  shows "load_settings saved token = Some (merged saved, False)"
  using assms unfolding load_settings_def merged_def [symmetric] Let_def
  by (auto simp: good_token_def LAUNCHER_PLACEHOLDERS_def json_truthy_def)

text \<open>The settings of the launcher survive its restarts: what a start has, a later start has as well
  and draws no new key, so that sessions stay valid; where the file can be written.\<close>

theorem settings_survive:
  assumes "start_settings True token file = Some (st, file')" "good_token token"
    and "\<And>j. Option.bind file json_loads = Some j \<Longrightarrow> plain_json j"
  shows "\<exists>st2. start_settings writable token2 file' = Some (st2, file') \<and> map_of st2 = map_of st"
proof -
  obtain wrote where l: "load_settings (Option.bind file json_loads) token = Some (st, wrote)"
    and f: "file' = (if wrote then Some (json_dumps (JObj st)) else file)"
    using assms(1) by (auto simp: start_settings_def save_settings_def)
  show ?thesis
  proof (cases wrote)
    case False
    with load_cases [OF l] f have "load_settings (Option.bind file' json_loads) token2 = Some (st, False)" by simp
    then show ?thesis by (simp add: start_settings_def)
  next
    case True
    let ?m = "merged (Option.bind file json_loads)"
    have st: "st = AList.update ''flask_secret_key'' (JStr token) ?m" using load_cases [OF l] True by simp
    have p: "plain_json (JObj ?m)" by (rule merged_plain) (rule assms(3))
    then have plain: "plain_json (JObj st)"
      using update_distinct [of ?m] update_plain [of ?m "JStr token"] by (simp add: st)
    then have "json_loads (json_dumps (JObj st)) = Some (JObj st)" by (rule loads_dumps)
    with f True have saved: "Option.bind file' json_loads = Some (JObj st)" by simp
    have "map_of (merged (Some (JObj st))) = map_of launcher_defaults ++ map_of st"
      using plain by (simp add: merged_def map_of_fold_update)
    also have "\<dots> = map_of st"
      using merged_keys [of "''flask_secret_key''" "JStr token" "Option.bind file json_loads"]
      by (fastforce simp: st map_add_def fun_eq_iff split: option.split)
    finally have same: "map_of (merged (Some (JObj st))) = map_of st" .
    then have "setting ''flask_secret_key'' (merged (Some (JObj st))) (JStr []) = JStr token"
      by (simp add: setting_def st update_conv')
    from load_good [OF this assms(2)] same saved show ?thesis by (simp add: start_settings_def)
  qed
qed

text \<open>Where it cannot, every start draws a key of its own.\<close>

lemma unwritable_new_key:
  "start_settings False t None = Some (AList.update ''flask_secret_key'' (JStr t) launcher_defaults, None)"
  by (simp add: start_settings_def load_settings_def launcher_defaults_def setting_def json_truthy_def save_settings_def)

end
