(* ===== verification/Spec2Isabelle.thy ===== *)
theory Spec2Isabelle
  imports Relay_Server Layered Session_Cache Sdk_Client Crypto_At_Rest Mls_Groups Device_Sync Node_DB_Theorems V3_Auth V3_Files Prekeys V3_Sync
    P2P_Theorems Relay_Directory V3_Conversations V3_Social V3_Compat Socket_Batcher App_V3 Startup Tor_Circuits Schema_Migrations
    Config_Reload Sdk_Requests Node_Panic Launcher_Control Node_Lifecycle Cli_Shell
    Relay_Redis Service_Edges Node_Edges Connection_Pools Tor_Bundle
    Desktop_Example Commit_Map Self_Check Release_Tools Interop
    Sync_Wire Cli_Screens V3_Transactions Alembic_Env Http_Stack Launcher_Config
begin

text \<open>
  AnonyMus is a messenger without accounts on a central server. A user runs a node; nodes exchange
  messages over Tor hidden services, or browsers exchange them through a blind relay that knows
  only queues. This library models the Python program and proves what makes it correct, and where
  it is not. Paths are relative to the repository's \<^verbatim>\<open>src\<close>.

  \<^bold>\<open>The parts and how they interact.\<close>
  A client (the browser, the terminal client, the SDK) talks to a node over HTTP and a socket. There
  are two implementations of the node, one in Flask with \<^verbatim>\<open>sqlite3\<close>
  (\<^verbatim>\<open>transports/p2p/server.py\<close> over \<^verbatim>\<open>database.py\<close>) and one in FastAPI with
  SQLAlchemy (\<^verbatim>\<open>transports/p2p/app_v3.py\<close> with its \<^verbatim>\<open>routers\<close> over
  \<^verbatim>\<open>core/db/models.py\<close>). Both send to other nodes through \<^verbatim>\<open>tor_manager.py\<close>. The
  relay (\<^verbatim>\<open>transports/relay/server.py\<close> and \<^verbatim>\<open>app_relay.py\<close>) keeps queues, a
  directory and presence. \<^verbatim>\<open>core\<close> has what they share: the message protocol, the double
  ratchet, group keys, pre-keys, encryption at rest, the settings and the schema. \<^verbatim>\<open>server.py\<close>
  and \<^verbatim>\<open>launcher/launcher.py\<close> start them and switch between the two modes.

  \<^bold>\<open>How the code is represented.\<close>
  A module's or class's state is a record, its dictionaries are maps or association lists (where
  their order shows), a table is the list of its rows. A function, method or handler is one
  definition with the source's name that takes the state and returns the result with the state
  afterwards. A raise or an early return is a value: \<open>'a py\<close>, \<open>'a http\<close> or \<open>option\<close>. The
  clock, random bytes and identifiers, and the answers of other processes are arguments. What is
  outside of \<^verbatim>\<open>src\<close> (the packages for cryptography, \<^verbatim>\<open>stem\<close>, Redis, SQL engines,
  bcrypt) is a parameter, and what the code relies on is a named predicate on it; SHA-256, base64,
  hexadecimal, UTF-8 and JSON belong to the standard library and are defined.

  \<^bold>\<open>The theories.\<close>

  \<^item> \<open>Prelude\<close>, \<open>Encodings\<close>, \<open>Sha256\<close>, \<open>Json\<close>, \<open>Json_Dumps\<close>: Python's values,
    errors, dictionaries, encodings and JSON, each with its round trip, and the shared lemmas.
  \<^item> \<open>Limiters\<close>: the locales of the two families of rate limiters, sliding windows and lockouts;
    they are interpreted on the limiters of \<open>Relay_Server\<close>, \<open>App_V3\<close>, \<open>V3_Files\<close>,
    \<open>V3_Auth\<close> and \<open>V3_Sync\<close>.
  \<^item> \<open>Protocol\<close> (\<^verbatim>\<open>core/protocol.py\<close>, \<^verbatim>\<open>queue_cryptobox.py\<close>), \<open>Double_Ratchet\<close> and
    \<open>Ratchet_Theorems\<close> (\<^verbatim>\<open>core/double_ratchet.py\<close>), \<open>Session_Cache\<close>, \<open>Layered\<close>: a
    message through all layers of encryption and back. Two sessions stay in agreement over a whole
    conversation, with and without the post-quantum step; messages may arrive in any order and the
    keys kept for late ones are bounded; a replay takes the next key and the session is lost.
  \<^item> \<open>Mls_Groups\<close> (\<^verbatim>\<open>core/mls_groups.py\<close>), \<open>Prekeys\<close> (\<^verbatim>\<open>core/prekey_pool.py\<close>,
    \<^verbatim>\<open>routers/keys.py\<close>), \<open>Crypto_At_Rest\<close> (\<^verbatim>\<open>core/crypto.py\<close>), \<open>Device_Sync\<close>
    (\<^verbatim>\<open>core/sync.py\<close>, \<^verbatim>\<open>capability_tiers.py\<close>): members agree on the epoch, a one-time key is
    handed out once, secrets read back.
  \<^item> \<open>Node_DB\<close>, \<open>Node_DB_Groups\<close>, \<open>Node_DB_Theorems\<close> (\<^verbatim>\<open>transports/p2p/database.py\<close>):
    the tables of the Flask node, the pool of connections and what concurrent requests preserve.
  \<^item> \<open>P2P_Server\<close>, \<open>P2P_Messages\<close>, \<open>P2P_Account\<close>, \<open>P2P_Theorems\<close>
    (\<^verbatim>\<open>transports/p2p/server.py\<close>): the routes of the Flask node; a message that one node sends
    is stored and read by the other.
  \<^item> \<open>V3_State\<close>, \<open>V3_Auth\<close>, \<open>V3_Messages\<close>, \<open>V3_Conversations\<close>, \<open>V3_Social\<close>,
    \<open>V3_Compat\<close>, \<open>V3_Files\<close>, \<open>V3_Sync\<close>, \<open>Onion_Keys\<close>, \<open>Node_Panic\<close>
    (\<^verbatim>\<open>transports/p2p/routers\<close>), \<open>Socket_Batcher\<close> (\<^verbatim>\<open>socket_v3.py\<close>), \<open>App_V3\<close>
    (\<^verbatim>\<open>app_v3.py\<close>'s gates, \<^verbatim>\<open>core/security_headers.py\<close>): the routes of the FastAPI node.
  \<^item> \<open>Schema_Migrations\<close> (\<^verbatim>\<open>alembic/versions\<close>, \<^verbatim>\<open>core/db/models.py\<close>): what the revisions
    make of a database, and that the tables they leave refuse the messages of the node.
  \<^item> \<open>Relay_Server\<close> (\<^verbatim>\<open>transports/relay/server.py\<close>), \<open>Relay_Redis\<close> (the same with
    \<^verbatim>\<open>REDIS_URL\<close> set), \<open>Relay_Directory\<close> (its routers and accounts): reachable states keep an
    invariant, a push needs ownership, what is stored is delivered in order. Several workers over one
    Redis send for a day what one relay in memory sends (a simulation, operation by operation); a
    binary chunk is lost there.
  \<^item> \<open>Connection_Pools\<close> (the pools of \<^verbatim>\<open>transports/p2p/database.py\<close> and
    \<^verbatim>\<open>transports/relay/database.py\<close>): a connection is handed to one user at a time; one pool refines
    the pool of \<open>Node_DB\<close>.
  \<^item> \<open>Tor_Circuits\<close>, \<open>Tor_Bundle\<close> (\<^verbatim>\<open>transports/p2p/tor_manager.py\<close>,
    \<^verbatim>\<open>core/tor_daemon.py\<close>): the search for ports ends, one client per peer, what is extracted was
    accepted.
  \<^item> \<open>Startup\<close> (\<^verbatim>\<open>server.py\<close>, \<^verbatim>\<open>core/migrations.py\<close>, \<^verbatim>\<open>transport_registry.py\<close>,
    \<^verbatim>\<open>gunicorn_check.py\<close>), \<open>Node_Lifecycle\<close> (the adapters, the lifespan), \<open>Config_Reload\<close>
    (\<^verbatim>\<open>core/config.py\<close>, \<^verbatim>\<open>core/db/engine.py\<close>), \<open>Launcher_Control\<close>
    (\<^verbatim>\<open>launcher/launcher.py\<close>), \<open>Service_Edges\<close> (\<^verbatim>\<open>core/logging.py\<close>,
    \<^verbatim>\<open>logging_v3.py\<close>, \<^verbatim>\<open>transports/relay/app_relay.py\<close> and what is around the routes of the two
    Flask servers), \<open>Node_Edges\<close> (\<^verbatim>\<open>core/pq_kem.py\<close>, \<^verbatim>\<open>anonymus-launcher.py\<close> and what
    is around the FastAPI routers): starting, stopping and switching, settings, logs, certificates.
  \<^item> \<open>Sdk_Client\<close>, \<open>Sdk_Requests\<close> (\<^verbatim>\<open>core/sdk.py\<close>), \<open>Cli_Shell\<close> (\<^verbatim>\<open>cli.py\<close>).

  \<^bold>\<open>State machines.\<close>
  The relay (\<open>relay_step\<close>), the Flask node with its requests (\<open>node_step\<close>), its tables under
  concurrent requests (\<open>db_step\<close>), the FastAPI node (\<open>v3_step\<close>), the pools of connections
  (\<open>pool_reach\<close>) and the batcher of events are step relations or runs; what is said of them holds
  in every reachable state. A handler is one step; where the code can be suspended inside of one (the
  batcher, the fetch of a pre-key, the wrapping of a connection) it is split there.

  \<^bold>\<open>Bounds and fuel.\<close>
  Loops over data are structural or have a measure: the search for a port counts to 65535, the
  redaction, the splitting of text and the reading of blocks consume their input. The JSON reader has
  as much fuel as its text has characters plus one, which every level of its descent uses one of;
  the removal of a prefix as much as the text is long. The walk over the revisions takes seven steps,
  the number of revisions, and more change nothing (\<open>upgrade_head_more\<close>). A wait that the code
  bounds has its bound (thirty looks at the file \<^verbatim>\<open>hostname\<close>, twelve hash groups, one hundred
  skipped keys of a chain). Loops that never end (sweepers, watchers, accept loops) are modelled by one
  round.

  \<^bold>\<open>Not modelled.\<close>
  Widgets and the text that programs print; threads as such (their steps are single operations, the
  orders in which they can happen are sequences of them); what \<^verbatim>\<open>alembic/env.py\<close> hands to
  alembic; the abstract class \<^verbatim>\<open>core/interfaces.py\<close>; the build and release scripts
  (\<^verbatim>\<open>launcher/build.py\<close>, \<^verbatim>\<open>build_release_packages.py\<close>) and the developers' scripts under
  \<^verbatim>\<open>scripts\<close>, which drive other tools; the desktop example; the packages in Rust, TypeScript,
  Kotlin and Swift, the web client and the infrastructure files. Code points above 255 and the rounding
  of floats are outside of the representation.
\<close>

end
